(* ===== verification/Prelude.thy ===== *)
theory Prelude
  imports Main "HOL-Library.Word" "HOL-Library.Char_ord" "HOL-Library.List_Lexorder"
    "HOL-Library.Multiset"
begin

text \<open>
  Shared vocabulary of the development: byte strings, fixed-width integers, the string
  operations of Go's package \<^verbatim>\<open>strings\<close> that the sources call, sorting of keyed
  rows, and the facts about rows in lists (the shape every database table has in the model)
  that the component theories share.

  Go's strings and byte slices are sequences of bytes; a HOL \<^typ>\<open>string\<close> is one too, so
  both are modelled by it, and \<^const>\<open>length\<close> is Go's \<^verbatim>\<open>len\<close>.
\<close>

section \<open>Types and collections\<close>

type_synonym bytes = string
type_synonym u32 = "32 word"
type_synonym u64 = "64 word"
  \<comment> \<open>instants and durations in nanoseconds; instant 0 is Go's zero \<^verbatim>\<open>time.Time\<close>\<close>
type_synonym time = int

named_theorems row_simps \<open>facts about find, filter and map over the rows of a table\<close>
named_theorems str_simps \<open>facts about the string operations\<close>

section \<open>String operations\<close>

definition hasPrefix :: "string \<Rightarrow> string \<Rightarrow> bool" where
  "hasPrefix s p = (take (length p) s = p)"

definition hasSuffix :: "string \<Rightarrow> string \<Rightarrow> bool" where
  "hasSuffix s p = (length p \<le> length s \<and> drop (length s - length p) s = p)"

fun containsStr :: "string \<Rightarrow> string \<Rightarrow> bool" where
  "containsStr [] p = (p = [])"
| "containsStr (c # s) p = (hasPrefix (c # s) p \<or> containsStr s p)"

text \<open>\<^verbatim>\<open>strings.Split(s, sep)\<close> for a separator of one byte: always at least one part.\<close>

fun splitOn :: "char \<Rightarrow> string \<Rightarrow> string list" where
  "splitOn sep [] = [[]]"
| "splitOn sep (c # s) =
     (if c = sep then [] # splitOn sep s
      else (case splitOn sep s of [] \<Rightarrow> [[c]] | p # ps \<Rightarrow> (c # p) # ps))"

text \<open>\<^verbatim>\<open>strings.Cut(s, sep)\<close> for a separator of one byte.\<close>

fun cutStr :: "char \<Rightarrow> string \<Rightarrow> (string \<times> string) option" where
  "cutStr sep [] = None"
| "cutStr sep (c # s) =
     (if c = sep then Some ([], s)
      else (case cutStr sep s of None \<Rightarrow> None | Some (a, b) \<Rightarrow> Some (c # a, b)))"

text \<open>\<^verbatim>\<open>s[1 : len(s)-1]\<close>, used by the sources only on strings of at least two bytes.\<close>

definition inner :: "string \<Rightarrow> string" where
  "inner s = butlast (tl s)"

lemma hasPrefix_append [simp, str_simps]: "hasPrefix (p @ s) p"
  by (simp add: hasPrefix_def)

lemma hasPrefixE: "hasPrefix s p \<Longrightarrow> (\<And>r. s = p @ r \<Longrightarrow> P) \<Longrightarrow> P"
  unfolding hasPrefix_def by (metis append_take_drop_id)

lemma hasPrefix_iff: "hasPrefix s p \<longleftrightarrow> (\<exists>r. s = p @ r)"
  by (auto elim: hasPrefixE)

lemma hasSuffix_append [simp, str_simps]: "hasSuffix (s @ p) p"
  by (simp add: hasSuffix_def)

lemma hasSuffixE: "hasSuffix s p \<Longrightarrow> (\<And>r. s = r @ p \<Longrightarrow> P) \<Longrightarrow> P"
  unfolding hasSuffix_def by (metis append_take_drop_id)

lemma hasSuffix_iff: "hasSuffix s p \<longleftrightarrow> (\<exists>r. s = r @ p)"
  by (auto elim: hasSuffixE)

lemma containsStr_iff: "containsStr s p \<longleftrightarrow> (\<exists>a b. s = a @ p @ b)"
proof (induction s)
  case Nil
  then show ?case by simp
next
  case (Cons c s)
  show ?case
  proof
    assume "containsStr (c # s) p"
    then consider "hasPrefix (c # s) p" | "containsStr s p" by auto
    then show "\<exists>a b. c # s = a @ p @ b"
    proof cases
      case 1
      then show ?thesis by (auto simp: hasPrefix_iff intro: exI [of _ "[]"])
    next
      case 2
      then obtain a b where "s = a @ p @ b" using Cons.IH by blast
      then have "c # s = (c # a) @ p @ b" by simp
      then show ?thesis by blast
    qed
  next
    assume "\<exists>a b. c # s = a @ p @ b"
    then obtain a b where ab: "c # s = a @ p @ b" by blast
    show "containsStr (c # s) p"
    proof (cases a)
      case Nil
      with ab have "hasPrefix (c # s) p" by (auto simp: hasPrefix_iff)
      then show ?thesis by simp
    next
      case (Cons x a')
      with ab have "s = a' @ p @ b" by simp
      then show ?thesis using Cons.IH by auto
    qed
  qed
qed

lemma splitOn_not_Nil [simp]: "splitOn sep s \<noteq> []"
  by (induction s) (auto split: list.splits)

text \<open>Joining the parts with the separator gives the string back.\<close>

fun joinWith :: "char \<Rightarrow> string list \<Rightarrow> string" where
  "joinWith sep [] = []"
| "joinWith sep [p] = p"
| "joinWith sep (p # q # ps) = p @ sep # joinWith sep (q # ps)"

lemma joinWith_Cons: "ps \<noteq> [] \<Longrightarrow> joinWith sep (p # ps) = p @ sep # joinWith sep ps"
  by (cases ps) auto

lemma joinWith_Cons_char: "joinWith sep ((c # p) # ps) = c # joinWith sep (p # ps)"
  by (cases ps) auto

lemma joinWith_splitOn [str_simps]: "joinWith sep (splitOn sep s) = s"
proof (induction s)
  case Nil
  then show ?case by simp
next
  case (Cons c s)
  then show ?case
    by (cases "splitOn sep s") (auto simp: joinWith_Cons joinWith_Cons_char)
qed

lemma splitOn_no_sep: "sep \<notin> set p \<Longrightarrow> splitOn sep p = [p]"
  by (induction p) auto

lemma splitOn_append: "sep \<notin> set p \<Longrightarrow> splitOn sep (p @ sep # s) = p # splitOn sep s"
  by (induction p) auto

lemma splitOn_joinWith [str_simps]:
  "ps \<noteq> [] \<Longrightarrow> \<forall>p \<in> set ps. sep \<notin> set p \<Longrightarrow> splitOn sep (joinWith sep ps) = ps"
proof (induction ps)
  case Nil
  then show ?case by simp
next
  case (Cons p ps)
  then show ?case
    by (cases ps) (auto simp: splitOn_no_sep splitOn_append)
qed

lemma cutStr_Some: "cutStr sep s = Some (a, b) \<Longrightarrow> s = a @ sep # b \<and> sep \<notin> set a"
  by (induction s arbitrary: a) (auto split: if_splits option.splits)

lemma cutStr_append [str_simps]: "sep \<notin> set a \<Longrightarrow> cutStr sep (a @ sep # b) = Some (a, b)"
  by (induction a) auto

lemma cutStr_None: "cutStr sep s = None \<longleftrightarrow> sep \<notin> set s"
  by (induction s) (auto split: option.splits)

lemma cutStr_Some_iff: "cutStr sep s = Some (a, b) \<longleftrightarrow> s = a @ sep # b \<and> sep \<notin> set a"
  by (auto dest: cutStr_Some simp: cutStr_append)

lemma inner_wrap [simp, str_simps]: "inner (a # s @ [b]) = s"
  by (simp add: inner_def)

lemma append_prefix_inj: "a @ s = b @ t \<Longrightarrow> length a = length b \<Longrightarrow> a = b \<and> s = t"
  by simp

section \<open>Rows of a table\<close>

text \<open>
  A table is the list of its rows. An update of the rows that satisfy a predicate is a map, a
  unique key is distinctness of the keys.
\<close>

definition updateWhere :: "('r \<Rightarrow> bool) \<Rightarrow> ('r \<Rightarrow> 'r) \<Rightarrow> 'r list \<Rightarrow> 'r list" where
  "updateWhere p f rows = map (\<lambda>r. if p r then f r else r) rows"

definition countWhere :: "('r \<Rightarrow> bool) \<Rightarrow> 'r list \<Rightarrow> nat" where
  "countWhere p rows = length (filter p rows)"

definition existsRow :: "('r \<Rightarrow> bool) \<Rightarrow> 'r list \<Rightarrow> bool" where
  "existsRow p rows = list_ex p rows"

definition uniqueOn :: "('r \<Rightarrow> 'k) \<Rightarrow> 'r list \<Rightarrow> bool" where
  "uniqueOn key rows = distinct (map key rows)"

lemma existsRow_iff [simp, row_simps]: "existsRow p rows \<longleftrightarrow> (\<exists>r \<in> set rows. p r)"
  by (simp add: existsRow_def list_ex_iff)

lemma updateWhere_Nil [simp]: "updateWhere p f [] = []"
  by (simp add: updateWhere_def)

lemma updateWhere_Cons [simp]:
  "updateWhere p f (r # rows) = (if p r then f r else r) # updateWhere p f rows"
  by (simp add: updateWhere_def)

lemma set_updateWhere [row_simps]:
  "set (updateWhere p f rows) = f ` {r \<in> set rows. p r} \<union> {r \<in> set rows. \<not> p r}"
  by (auto simp: updateWhere_def)

lemma in_updateWhereE:
  assumes "r \<in> set (updateWhere p f rows)"
  obtains (updated) r0 where "r0 \<in> set rows" "p r0" "r = f r0"
  | (kept) "r \<in> set rows" "\<not> p r"
  using assms by (auto simp: set_updateWhere)

lemma length_updateWhere [simp]: "length (updateWhere p f rows) = length rows"
  by (simp add: updateWhere_def)

lemma map_updateWhere [row_simps]:
  "(\<And>r. p r \<Longrightarrow> key (f r) = key r) \<Longrightarrow> map key (updateWhere p f rows) = map key rows"
  by (induction rows) auto

lemma uniqueOn_updateWhere [row_simps, intro]:
  "uniqueOn key rows \<Longrightarrow> (\<And>r. p r \<Longrightarrow> key (f r) = key r) \<Longrightarrow> uniqueOn key (updateWhere p f rows)"
  by (simp add: uniqueOn_def map_updateWhere)

lemma uniqueOn_append [row_simps]:
  "uniqueOn key (rows @ [r]) \<longleftrightarrow> uniqueOn key rows \<and> key r \<notin> key ` set rows"
  by (auto simp: uniqueOn_def)

lemma uniqueOn_filter [intro]: "uniqueOn key rows \<Longrightarrow> uniqueOn key (filter p rows)"
  by (simp add: uniqueOn_def distinct_map_filter)

lemma uniqueOnD:
  "uniqueOn key rows \<Longrightarrow> r \<in> set rows \<Longrightarrow> r' \<in> set rows \<Longrightarrow> key r = key r' \<Longrightarrow> r = r'"
  unfolding uniqueOn_def by (metis distinct_map inj_onD)

lemma find_SomeD: "find p rows = Some r \<Longrightarrow> r \<in> set rows \<and> p r"
  by (induction rows) (auto split: if_splits)

lemma find_NoneD: "find p rows = None \<Longrightarrow> r \<in> set rows \<Longrightarrow> \<not> p r"
  by (auto simp: find_None_iff)

lemma find_unique:
  assumes "uniqueOn key rows" and "r \<in> set rows" and "p r"
    and "\<And>r'. r' \<in> set rows \<Longrightarrow> p r' \<Longrightarrow> key r' = key r"
  shows "find p rows = Some r"
proof (cases "find p rows")
  case None
  then show ?thesis using assms(2,3) by (auto simp: find_None_iff)
next
  case (Some r')
  then have "r' \<in> set rows" "p r'" by (auto dest: find_SomeD)
  then have "r' = r" using assms(1,2,4) by (blast intro: uniqueOnD)
  with Some show ?thesis by simp
qed

lemma find_append [simp, row_simps]:
  "find p (xs @ ys) = (case find p xs of None \<Rightarrow> find p ys | Some r \<Rightarrow> Some r)"
  by (induction xs) auto

lemma find_updateWhere [row_simps]:
  assumes "\<And>r. p r \<Longrightarrow> q (f r) = q r"
  shows "find q (updateWhere p f rows) = map_option (\<lambda>r. if p r then f r else r) (find q rows)"
  using assms by (induction rows) auto

section \<open>Sorting keyed rows\<close>

text \<open>
  The sources sort rows by a byte-string key with \<^verbatim>\<open>slices.SortFunc\<close>, which need not
  be stable; wherever they do, the keys have been checked distinct or duplicates are rejected
  right after, so the result is the one of the stable sort used here.
\<close>

lemma sort_key_perm_unique:
  fixes key :: "'a \<Rightarrow> 'k :: linorder"
  assumes same: "mset xs = mset ys" and dist: "distinct (map key xs)"
  shows "sort_key key xs = sort_key key ys"
proof (rule map_inj_on)
  have set_eq: "set xs = set ys" using same by (metis set_mset_mset)
  then show "inj_on key (set (sort_key key xs) \<union> set (sort_key key ys))"
    using dist by (simp add: distinct_map)
  have "distinct (map key zs)" if "mset zs = mset xs" for zs
    using that dist by (metis mset_map distinct_count_atmost_1 set_mset_mset)
  then have "distinct (map key (sort_key key xs))" "distinct (map key (sort_key key ys))"
    using same by simp_all
  then show "map key (sort_key key xs) = map key (sort_key key ys)"
    using set_eq by (intro sorted_distinct_set_unique) auto
qed

lemma set_eq_distinct_mset: "set xs = set ys \<Longrightarrow> distinct xs \<Longrightarrow> distinct ys \<Longrightarrow> mset xs = mset ys"
  by (simp add: set_eq_iff_mset_eq_distinct)

lemma distinct_map_sort_key [simp]: "distinct (map f (sort_key g xs)) \<longleftrightarrow> distinct (map f xs)"
  by (metis mset_eq_imp_distinct_iff mset_map mset_sort)

lemma sort_key_sorted: "sorted (map f xs) \<Longrightarrow> sort_key f xs = xs"
  by (simp add: sort_key_id_if_sorted)

end
