(* ===== verification/Keys.thy ===== *)
theory Keys
  imports Prelude
begin

text \<open>
  The identifiers that cross every interface of the service and the textual encodings of
  identifiers: resource keys, operation ids, token public ids, audit labels, hexadecimal
  and unpadded URL-safe base64. The sources range over the runes of a string where they
  validate it; a rune outside ASCII fails every test, and so does each byte of its UTF-8 form,
  so the tests below are per byte.
\<close>

section \<open>Character classes\<close>

definition inRange :: "char \<Rightarrow> char \<Rightarrow> char \<Rightarrow> bool" where
  "inRange lo hi c = (lo \<le> c \<and> c \<le> hi)"

abbreviation lowerChar :: "char \<Rightarrow> bool" where "lowerChar \<equiv> inRange CHR ''a'' CHR ''z''"
abbreviation upperChar :: "char \<Rightarrow> bool" where "upperChar \<equiv> inRange CHR ''A'' CHR ''Z''"
abbreviation digitChar :: "char \<Rightarrow> bool" where "digitChar \<equiv> inRange CHR ''0'' CHR ''9''"

definition keyChar :: "char \<Rightarrow> bool" where
  "keyChar c = (lowerChar c \<or> digitChar c \<or> c = CHR ''_'' \<or> c = CHR ''-'')"

section \<open>Identifiers\<close>

definition validResourceKey :: "string \<Rightarrow> bool" where
  "validResourceKey value =
     (case value of
        [] \<Rightarrow> False
      | c # rest \<Rightarrow> length value \<le> 63 \<and> lowerChar c \<and> list_all keyChar rest)"

definition validOperationID :: "string \<Rightarrow> bool" where
  "validOperationID value =
     (8 \<le> length value \<and> length value \<le> 128 \<and>
      list_all (\<lambda>c. lowerChar c \<or> upperChar c \<or> digitChar c \<or> c = CHR ''-'' \<or> c = CHR ''_'') value)"

definition validTokenPublicID :: "string \<Rightarrow> bool" where
  "validTokenPublicID value =
     (6 \<le> length value \<and> length value \<le> 64 \<and> list_all (\<lambda>c. lowerChar c \<or> digitChar c) value)"

definition validOutboxErrorCode :: "string \<Rightarrow> bool" where
  "validOutboxErrorCode value = (value \<noteq> [] \<and> length value \<le> 64 \<and> list_all keyChar value)"

definition auditLabel :: "string \<Rightarrow> nat \<Rightarrow> bool" where
  "auditLabel value limit =
     (value \<noteq> [] \<and> length value \<le> limit \<and>
      list_all (\<lambda>c. lowerChar c \<or> c = CHR ''_'' \<or> c = CHR ''.'') value)"

lemma keyChar_not_dot: "keyChar c \<Longrightarrow> c \<noteq> CHR ''.''"
  by (auto simp: keyChar_def inRange_def)

lemma lowerChar_keyChar: "lowerChar c \<Longrightarrow> keyChar c"
  by (simp add: keyChar_def)

lemma validResourceKey_chars: "validResourceKey k \<Longrightarrow> c \<in> set k \<Longrightarrow> keyChar c"
  by (auto simp: validResourceKey_def list_all_iff lowerChar_keyChar split: list.splits)

lemma validResourceKey_no_dot: "validResourceKey k \<Longrightarrow> CHR ''.'' \<notin> set k"
  using validResourceKey_chars keyChar_not_dot by blast

lemma validResourceKey_nonempty: "validResourceKey k \<Longrightarrow> k \<noteq> []"
  by (auto simp: validResourceKey_def)

lemma validResourceKey_length: "validResourceKey k \<Longrightarrow> length k \<le> 63"
  by (auto simp: validResourceKey_def split: list.splits)

section \<open>Hexadecimal\<close>

definition hexDigit :: "nat \<Rightarrow> char" where
  "hexDigit n = (if n < 10 then char_of (48 + n) else char_of (87 + n))"

definition fromHexChar :: "char \<Rightarrow> nat option" where
  "fromHexChar c =
     (if digitChar c then Some (of_char c - 48)
      else if inRange CHR ''a'' CHR ''f'' c then Some (of_char c - 87)
      else if inRange CHR ''A'' CHR ''F'' c then Some (of_char c - 55)
      else None)"

fun encodeHex :: "bytes \<Rightarrow> string" where
  "encodeHex [] = []"
| "encodeHex (c # s) = hexDigit (of_char c div 16) # hexDigit (of_char c mod 16) # encodeHex s"

fun decodeHex :: "string \<Rightarrow> bytes option" where
  "decodeHex [] = Some []"
| "decodeHex [c] = None"
| "decodeHex (a # b # s) =
     (case (fromHexChar a, fromHexChar b) of
        (Some x, Some y) \<Rightarrow> map_option ((#) (char_of (16 * x + y))) (decodeHex s)
      | _ \<Rightarrow> None)"

lemma hex_digit_table:
  "list_all (\<lambda>n. fromHexChar (hexDigit n) = Some n \<and> \<not> upperChar (hexDigit n) \<and>
     (lowerChar (hexDigit n) \<or> digitChar (hexDigit n))) [0..<16]"
  by code_simp

lemma fromHexChar_hexDigit [simp]: "n < 16 \<Longrightarrow> fromHexChar (hexDigit n) = Some n"
  and hexDigit_lower: "n < 16 \<Longrightarrow> \<not> upperChar (hexDigit n)"
  and hexDigit_alnum: "n < 16 \<Longrightarrow> lowerChar (hexDigit n) \<or> digitChar (hexDigit n)"
  using hex_digit_table by (simp_all add: list_all_iff)

lemma decodeHex_encodeHex [simp]: "decodeHex (encodeHex b) = Some b"
proof (induction b)
  case Nil
  then show ?case by simp
next
  case (Cons c b)
  have "(of_char c :: nat) div 16 < 16"
    by (simp add: less_mult_imp_div_less)
  moreover have "16 * (of_char c div 16) + of_char c mod 16 = (of_char c :: nat)"
    by simp
  ultimately show ?case using Cons by simp
qed

lemma length_encodeHex [simp]: "length (encodeHex b) = 2 * length b"
  by (induction b) auto

lemma encodeHex_inj: "encodeHex a = encodeHex b \<Longrightarrow> a = b"
  by (metis decodeHex_encodeHex option.inject)

definition toLower :: "string \<Rightarrow> string" where
  "toLower s = map (\<lambda>c. if upperChar c then char_of (of_char c + (32::nat)) else c) s"

lemma toLower_encodeHex [simp]: "toLower (encodeHex b) = encodeHex b"
proof (induction b)
  case Nil
  then show ?case by (simp add: toLower_def)
next
  case (Cons c b)
  have "(of_char c :: nat) div 16 < 16"
    by (simp add: less_mult_imp_div_less)
  then show ?case using Cons by (simp add: toLower_def hexDigit_lower)
qed

lemma encodeHex_alnum: "c \<in> set (encodeHex b) \<Longrightarrow> lowerChar c \<or> digitChar c"
proof (induction b)
  case Nil
  then show ?case by simp
next
  case (Cons x b)
  have "(of_char x :: nat) div 16 < 16" "(of_char x :: nat) mod 16 < 16"
    by (simp_all add: less_mult_imp_div_less)
  then have "lowerChar (hexDigit (of_char x div 16)) \<or> digitChar (hexDigit (of_char x div 16))"
    "lowerChar (hexDigit (of_char x mod 16)) \<or> digitChar (hexDigit (of_char x mod 16))"
    by (simp_all add: hexDigit_alnum)
  then show ?case using Cons by auto
qed

text \<open>A token's public id is the hexadecimal form of eight random bytes.\<close>

lemma validTokenPublicID_hex: "length b = 8 \<Longrightarrow> validTokenPublicID (encodeHex b)"
  by (auto simp: validTokenPublicID_def list_all_iff dest: encodeHex_alnum)

text \<open>Identities that an audit record may name.\<close>

definition auditIdentityLength :: "string \<Rightarrow> nat option" where
  "auditIdentityLength kind =
     (if kind = ''client_certificate'' then Some 64
      else if kind = ''certificate_authority'' then Some 32
      else if kind = ''api_token'' then Some 16
      else if kind = ''identity'' then Some 64
      else if kind = ''outbox_archive'' then Some 64
      else None)"

definition validAuditResourceIdentity :: "string \<Rightarrow> string \<Rightarrow> bool" where
  "validAuditResourceIdentity kind key =
     (if kind = ''release'' then
        (case cutStr CHR ''.'' key of
           None \<Rightarrow> False
         | Some (a, b) \<Rightarrow> validResourceKey a \<and> validResourceKey b)
      else (case auditIdentityLength kind of
              Some n \<Rightarrow> decodeHex key \<noteq> None \<and> length key = n \<and> key = toLower key
            | None \<Rightarrow> validResourceKey key))"

section \<open>Unpadded URL-safe base64\<close>

definition base64Alphabet :: string where
  "base64Alphabet = ''ABCDEFGHIJKLMNOPQRSTUVWXYZabcdefghijklmnopqrstuvwxyz0123456789-_''"

definition base64Char :: "nat \<Rightarrow> char" where
  "base64Char n = base64Alphabet ! n"

fun indexOf :: "char \<Rightarrow> string \<Rightarrow> nat option" where
  "indexOf c [] = None"
| "indexOf c (x # s) = (if x = c then Some 0 else map_option Suc (indexOf c s))"

definition fromBase64Char :: "char \<Rightarrow> nat option" where
  "fromBase64Char c = indexOf c base64Alphabet"

fun encodeBase64 :: "bytes \<Rightarrow> string" where
  "encodeBase64 [] = []"
| "encodeBase64 [a] =
     (let x = of_char a in [base64Char (x div 4), base64Char (x mod 4 * 16)])"
| "encodeBase64 [a, b] =
     (let x = of_char a; y = of_char b in
      [base64Char (x div 4), base64Char (x mod 4 * 16 + y div 16), base64Char (y mod 16 * 4)])"
| "encodeBase64 (a # b # c # s) =
     (let x = of_char a; y = of_char b; z = of_char c in
      base64Char (x div 4) # base64Char (x mod 4 * 16 + y div 16) #
      base64Char (y mod 16 * 4 + z div 64) # base64Char (z mod 64) # encodeBase64 s)"

fun decodeBase64 :: "string \<Rightarrow> bytes option" where
  "decodeBase64 [] = Some []"
| "decodeBase64 [p] = None"
| "decodeBase64 [p, q] =
     (case (fromBase64Char p, fromBase64Char q) of
        (Some i, Some j) \<Rightarrow> Some [char_of (i * 4 + j div 16)]
      | _ \<Rightarrow> None)"
| "decodeBase64 [p, q, r] =
     (case (fromBase64Char p, fromBase64Char q, fromBase64Char r) of
        (Some i, Some j, Some k) \<Rightarrow>
          Some [char_of (i * 4 + j div 16), char_of (j mod 16 * 16 + k div 4)]
      | _ \<Rightarrow> None)"
| "decodeBase64 (p # q # r # t # s) =
     (case (fromBase64Char p, fromBase64Char q, fromBase64Char r, fromBase64Char t) of
        (Some i, Some j, Some k, Some l) \<Rightarrow>
          map_option (\<lambda>rest. char_of (i * 4 + j div 16) # char_of (j mod 16 * 16 + k div 4) #
                        char_of (k mod 4 * 64 + l) # rest) (decodeBase64 s)
      | _ \<Rightarrow> None)"

lemma length_base64Alphabet: "length base64Alphabet = 64"
  by (simp add: base64Alphabet_def)

lemma distinct_base64Alphabet: "distinct base64Alphabet"
  by (simp add: base64Alphabet_def)

lemma indexOf_nth: "distinct s \<Longrightarrow> n < length s \<Longrightarrow> indexOf (s ! n) s = Some n"
  by (induction s arbitrary: n) (auto simp: nth_Cons split: nat.splits)

lemma fromBase64Char_base64Char [simp]: "n < 64 \<Longrightarrow> fromBase64Char (base64Char n) = Some n"
  by (simp add: fromBase64Char_def base64Char_def indexOf_nth length_base64Alphabet
      distinct_base64Alphabet)

lemma pack_div: "b < m \<Longrightarrow> (a * m + b) div m = (a :: nat)"
  and pack_mod: "b < m \<Longrightarrow> (a * m + b) mod m = (b :: nat)"
  by simp_all

lemma base64_bounds:
  fixes x y :: nat
  shows "x < 256 \<Longrightarrow> x div 4 < 64" "y < 256 \<Longrightarrow> x mod 4 * 16 + y div 16 < 64"
    "x mod 4 * 16 < 64" "x < 256 \<Longrightarrow> y mod 16 * 4 + x div 64 < 64" "y mod 16 * 4 < 64"
proof -
  have m: "x mod 4 < 4" "y mod 16 < 16" by simp_all
  then show "x mod 4 * 16 < 64" "y mod 16 * 4 < 64" by linarith+
  show "x div 4 < 64" if "x < 256" using that by (simp add: less_mult_imp_div_less)
  show "x mod 4 * 16 + y div 16 < 64" if "y < 256"
  proof -
    have "y div 16 < 16" using that by (simp add: less_mult_imp_div_less)
    with m show ?thesis by linarith
  qed
  show "y mod 16 * 4 + x div 64 < 64" if "x < 256"
  proof -
    have "x div 64 < 4" using that by (simp add: less_mult_imp_div_less)
    with m show ?thesis by linarith
  qed
qed

lemma base64_parts:
  fixes x y z :: nat
  assumes "x < 256" "y < 256" "z < 256"
  shows "x div 4 * 4 + (x mod 4 * 16 + y div 16) div 16 = x"
    "(x mod 4 * 16 + y div 16) mod 16 * 16 + (y mod 16 * 4 + z div 64) div 4 = y"
    "(y mod 16 * 4 + z div 64) mod 4 * 64 + z mod 64 = z"
    "x div 4 * 4 + x mod 4 * 16 div 16 = x"
    "(x mod 4 * 16 + y div 16) mod 16 * 16 + y mod 16 * 4 div 4 = y"
proof -
  have "y div 16 < 16" "z div 64 < 4"
    using assms by (simp_all add: less_mult_imp_div_less)
  then show "x div 4 * 4 + (x mod 4 * 16 + y div 16) div 16 = x"
    "(x mod 4 * 16 + y div 16) mod 16 * 16 + (y mod 16 * 4 + z div 64) div 4 = y"
    "(y mod 16 * 4 + z div 64) mod 4 * 64 + z mod 64 = z"
    "x div 4 * 4 + x mod 4 * 16 div 16 = x"
    "(x mod 4 * 16 + y div 16) mod 16 * 16 + y mod 16 * 4 div 4 = y"
    by (simp_all only: pack_div pack_mod div_mult_mod_eq) simp_all
qed

lemma decodeBase64_encodeBase64 [simp]: "decodeBase64 (encodeBase64 b) = Some b"
proof (induction b rule: encodeBase64.induct)
  case (2 a)
  show ?case using base64_parts [of "of_char a" 0 0]
    by (simp add: Let_def base64_bounds)
next
  case (3 a b)
  show ?case using base64_parts [of "of_char a" "of_char b" 0]
    by (simp add: Let_def base64_bounds)
next
  case (4 a b c s)
  show ?case using 4 base64_parts [of "of_char a" "of_char b" "of_char c"]
    by (simp add: Let_def base64_bounds)
qed simp

lemma base64Char_in: "n < 64 \<Longrightarrow> base64Char n \<in> set base64Alphabet"
  by (simp add: base64Char_def length_base64Alphabet)

lemma set_encodeBase64: "c \<in> set (encodeBase64 b) \<Longrightarrow> c \<in> set base64Alphabet"
proof (induction b rule: encodeBase64.induct)
  case (4 a b c' s)
  then show ?case by (auto simp: Let_def base64Char_in base64_bounds)
qed (auto simp: Let_def base64Char_in base64_bounds)

lemma encodeBase64_empty_iff [simp]: "encodeBase64 b = [] \<longleftrightarrow> b = []"
  by (cases b rule: encodeBase64.cases) (auto simp: Let_def)

end
