(* ===== verification/Refs.thy ===== *)
theory Refs
  imports Keys
begin

text \<open>
  Vault References, the scalars of a Config that stand for a Vault value
  (\<^verbatim>\<open>internal/configdoc/resolve.go\<close>, \<^verbatim>\<open>parseReference\<close> and the
  methods of \<^verbatim>\<open>Reference\<close>; \<^verbatim>\<open>canonical.go\<close>,
  \<^verbatim>\<open>sortedReferences\<close>). The lemmas show that the grammar is exact: a scalar is
  accepted as a reference precisely when it is the printed form of one, the escaped form
  prints the same reference, and every other scalar that mentions the marker is an error.
\<close>

section \<open>Errors of the document package\<close>

datatype doc_error =
    TooLarge
  | NotFullScalar
  | InvalidReference
  | LookupRequired
  | UnsupportedFormat
  | DuplicateKey string
  | NestingTooDeep
  | UnsupportedToken
  | KeyNotString
  | NotClosed
  | UnexpectedDelimiter
  | SyntaxError
  | TrailingContent
  | MultipleDocuments
  | AliasCycle
  | InvalidMapping
  | NonScalarKey
  | EncodeError
  | LookupError
  | ResolveFailed string doc_error
  | Wrapped doc_error
  | FuelExhausted  \<comment> \<open>of the model only; no result with enough fuel has it\<close>

section \<open>References and their order\<close>

datatype reference =
  Reference (NamespaceKey: string) (ItemKey: string) (FieldKey: string)

instantiation reference :: linorder
begin

text \<open>The comparison function of \<^verbatim>\<open>sortedReferences\<close>: namespace, then item, then field.\<close>

definition less_eq_reference :: "reference \<Rightarrow> reference \<Rightarrow> bool" where
  "less_eq_reference left right =
     (if NamespaceKey left \<noteq> NamespaceKey right then NamespaceKey left \<le> NamespaceKey right
      else if ItemKey left \<noteq> ItemKey right then ItemKey left \<le> ItemKey right
      else FieldKey left \<le> FieldKey right)"

definition less_reference :: "reference \<Rightarrow> reference \<Rightarrow> bool" where
  "less_reference left right = (left \<le> right \<and> \<not> right \<le> left)"

instance
proof
  fix x y z :: reference
  show "(x < y) = (x \<le> y \<and> \<not> y \<le> x)" by (simp add: less_reference_def)
  show "x \<le> x" by (simp add: less_eq_reference_def)
  show "x \<le> y \<Longrightarrow> y \<le> z \<Longrightarrow> x \<le> z"
    by (auto simp: less_eq_reference_def split: if_splits)
  show "x \<le> y \<Longrightarrow> y \<le> x \<Longrightarrow> x = y"
    by (cases x; cases y) (auto simp: less_eq_reference_def split: if_splits)
  show "x \<le> y \<or> y \<le> x"
    by (auto simp: less_eq_reference_def)
qed

end

text \<open>
  The references found in a document are a Go map used as a set. Its keys reach
  \<^verbatim>\<open>sortedReferences\<close> in an unspecified order, here the order of the list.
\<close>

definition sortedReferences :: "reference list \<Rightarrow> reference list" where
  "sortedReferences unique = sort unique"

definition Path :: "reference \<Rightarrow> string" where
  "Path r = NamespaceKey r @ ''.'' @ ItemKey r @ ''.'' @ FieldKey r"

definition String :: "reference \<Rightarrow> string" where
  "String r = ''{vault.'' @ Path r @ ''}''"

definition validReference :: "reference \<Rightarrow> bool" where
  "validReference r =
     (validResourceKey (NamespaceKey r) \<and> validResourceKey (ItemKey r) \<and> validResourceKey (FieldKey r))"

section \<open>Parsing\<close>

text \<open>
  Go returns four values; here the error is \<^const>\<open>Inl\<close> and the others are the triple of the
  reference, the escaped flag and the matched flag, with the zero reference where none matched.
\<close>

definition zeroReference :: reference where
  "zeroReference = Reference [] [] []"

definition parseReference :: "string \<Rightarrow> doc_error + reference \<times> bool \<times> bool" where
  "parseReference value =
     (let escaped = hasPrefix value ''{{vault.'' \<and> hasSuffix value ''}}'';
          candidate = (if escaped then inner value else value)
      in
        if \<not> hasPrefix candidate ''{vault.'' then
          (if containsStr candidate ''{vault.'' then Inl NotFullScalar
           else Inr (zeroReference, False, False))
        else if \<not> hasSuffix candidate ''}'' then Inl InvalidReference
        else
          (case splitOn CHR ''.'' (inner candidate) of
             [p0, p1, p2, p3] \<Rightarrow>
               (if p0 \<noteq> ''vault'' \<or> \<not> validResourceKey p1 \<or> \<not> validResourceKey p2 \<or>
                   \<not> validResourceKey p3
                then Inl InvalidReference
                else Inr (Reference p1 p2 p3, escaped, True))
           | _ \<Rightarrow> Inl InvalidReference))"

section \<open>Facts about the printed form\<close>

lemma Path_no_braces:
  assumes "validReference r"
  shows "CHR ''{'' \<notin> set (Path r)" "CHR ''}'' \<notin> set (Path r)"
  using assms
  by (auto simp: validReference_def Path_def dest!: validResourceKey_chars
      simp: keyChar_def inRange_def)

lemma String_eq_join:
  "String r = ''{'' @ joinWith CHR ''.'' [''vault'', NamespaceKey r, ItemKey r, FieldKey r] @ ''}''"
  by (simp add: String_def Path_def)

lemma split_printed:
  "validReference r \<Longrightarrow>
   splitOn CHR ''.'' (''vault.'' @ Path r) = [''vault'', NamespaceKey r, ItemKey r, FieldKey r]"
  using splitOn_joinWith [of "[''vault'', NamespaceKey r, ItemKey r, FieldKey r]" "CHR ''.''"]
  by (auto simp: validReference_def validResourceKey_no_dot Path_def)

lemma String_prefix: "hasPrefix (String r) ''{vault.''"
  unfolding String_def by (rule hasPrefix_append)

lemma String_suffix: "hasSuffix (String r) ''}''"
  by (simp add: String_def hasSuffix_iff)

lemma trim_String: "inner (String r) = ''vault.'' @ Path r"
  using inner_wrap [of "CHR ''{''" "''vault.'' @ Path r" "CHR ''}''"] by (simp add: String_def)

lemma String_not_escaped: "\<not> hasPrefix (String r) ''{{vault.''"
  by (simp add: String_def hasPrefix_def)

lemma escaped_forms:
  "hasPrefix (''{'' @ String r @ ''}'') ''{{vault.''" "hasSuffix (''{'' @ String r @ ''}'') ''}}''"
proof -
  show "hasPrefix (''{'' @ String r @ ''}'') ''{{vault.''"
    using hasPrefix_append [of "''{{vault.''" "Path r @ ''}}''"] by (simp add: String_def)
  show "hasSuffix (''{'' @ String r @ ''}'') ''}}''"
    using hasSuffix_append [of "''{{vault.'' @ Path r" "''}}''"] by (simp add: String_def)
qed

lemma parse_candidate:
  assumes "validReference r"
  shows "(case splitOn CHR ''.'' (inner (String r)) of
             [p0, p1, p2, p3] \<Rightarrow>
               (if p0 \<noteq> ''vault'' \<or> \<not> validResourceKey p1 \<or> \<not> validResourceKey p2 \<or>
                   \<not> validResourceKey p3
                then Inl InvalidReference
                else Inr (Reference p1 p2 p3, e, True))
           | _ \<Rightarrow> Inl InvalidReference) = Inr (r, e, True)"
  unfolding trim_String split_printed [OF assms]
  using assms by (simp add: validReference_def)

lemma parse_printed: "validReference r \<Longrightarrow> parseReference (String r) = Inr (r, False, True)"
  unfolding parseReference_def Let_def
  by (simp add: String_not_escaped String_prefix String_suffix parse_candidate del: hasPrefix_append)

lemma trim_escaped: "inner (''{'' @ String r @ ''}'') = String r"
  using inner_wrap by simp

lemma parse_escaped:
  "validReference r \<Longrightarrow> parseReference (''{'' @ String r @ ''}'') = Inr (r, True, True)"
  unfolding parseReference_def Let_def
  by (simp only: escaped_forms trim_escaped String_prefix String_suffix parse_candidate simp_thms if_True if_False)

text \<open>Conversely, a match is the printed form: the parts joined again are the scalar.\<close>

lemma split_vault_shape:
  assumes "hasPrefix c ''{vault.''" and "hasSuffix c ''}''"
    and "splitOn CHR ''.'' (inner c) = [p0, p1, p2, p3]" and "p0 = ''vault''"
  shows "c = String (Reference p1 p2 p3)"
proof -
  obtain r where c: "c = ''{vault.'' @ r" using assms(1) by (rule hasPrefixE)
  obtain q where q: "c = q @ ''}''" using assms(2) by (rule hasSuffixE)
  have "r \<noteq> []"
  proof
    assume "r = []"
    with c q have "last (''{vault.'' :: string) = last (q @ ''}'')" by simp
    then show False by simp
  qed
  then obtain m where r: "r = m @ ''}''"
    using c q by (cases r rule: rev_cases) auto
  have "inner c = ''vault.'' @ m"
    using inner_wrap [of "CHR ''{''" "''vault.'' @ m" "CHR ''}''"] c r by simp
  then have "''vault.'' @ m = joinWith CHR ''.'' [p0, p1, p2, p3]"
    using assms(3) joinWith_splitOn [of "CHR ''.''" "''vault.'' @ m"] by simp
  then show ?thesis using c r assms(4) by (simp add: String_def Path_def)
qed

lemma parse_match_candidate:
  assumes "parseReference v = Inr (r, e, True)"
  obtains c where "c = (if e then inner v else v)" "c = String r" "validReference r"
    "e = (hasPrefix v ''{{vault.'' \<and> hasSuffix v ''}}'')"
proof -
  let ?e = "hasPrefix v ''{{vault.'' \<and> hasSuffix v ''}}''"
  let ?c = "if ?e then inner v else v"
  from assms obtain p0 p1 p2 p3 where
    parts: "splitOn CHR ''.'' (inner ?c) = [p0, p1, p2, p3]"
    and ok: "p0 = ''vault''" "validResourceKey p1" "validResourceKey p2" "validResourceKey p3"
    and res: "r = Reference p1 p2 p3" "e = ?e"
    and shape: "hasPrefix ?c ''{vault.''" "hasSuffix ?c ''}''"
    unfolding parseReference_def Let_def
    by (auto split: if_splits list.splits)
  have "?c = String r"
    using split_vault_shape [OF shape parts ok(1)] res(1) by simp
  moreover have "validReference r" using ok res(1) by (simp add: validReference_def)
  ultimately show ?thesis using res(2) that by simp
qed

lemma escaped_shape:
  assumes "hasPrefix v ''{{vault.''" and "hasSuffix v ''}}''"
  shows "v = ''{'' @ inner v @ ''}''"
proof -
  obtain a where a: "v = ''{{vault.'' @ a" using assms(1) by (rule hasPrefixE)
  obtain b where b: "v = b @ ''}}''" using assms(2) by (rule hasSuffixE)
  have "a \<noteq> []"
  proof
    assume "a = []"
    with a b have "last (''{{vault.'' :: string) = last (b @ ''}}'')" by simp
    then show False by simp
  qed
  then obtain m where m: "a = m @ ''}''" using a b by (cases a rule: rev_cases) auto
  then have "v = CHR ''{'' # (''{vault.'' @ m) @ [CHR ''}'']" using a by simp
  then show ?thesis by (simp only: inner_wrap) simp
qed

lemma parse_plain_iff: "parseReference v = Inr (r, False, True) \<longleftrightarrow> validReference r \<and> v = String r"
  by (auto elim!: parse_match_candidate simp: parse_printed)

lemma parse_escaped_iff:
  "parseReference v = Inr (r, True, True) \<longleftrightarrow> validReference r \<and> v = ''{'' @ String r @ ''}''"
proof
  assume p: "parseReference v = Inr (r, True, True)"
  then obtain c where c: "c = inner v" "c = String r" "validReference r"
    and e: "hasPrefix v ''{{vault.''" "hasSuffix v ''}}''"
    by (auto elim!: parse_match_candidate)
  from escaped_shape [OF e] c show "validReference r \<and> v = ''{'' @ String r @ ''}''" by simp
next
  assume "validReference r \<and> v = ''{'' @ String r @ ''}''"
  then show "parseReference v = Inr (r, True, True)" using parse_escaped by blast
qed

lemma parse_matched_escaped: "parseReference v = Inr (r, e, m) \<Longrightarrow> e \<Longrightarrow> m"
  by (auto simp: parseReference_def Let_def split: if_splits list.splits)

lemma parse_unmatched_no_marker:
  assumes "parseReference v = Inr (r, e, False)"
  shows "\<not> containsStr v ''{vault.'' \<and> \<not> e \<and> r = zeroReference"
proof -
  have ne: "\<not> (hasPrefix v ''{{vault.'' \<and> hasSuffix v ''}}'')"
  proof
    assume esc: "hasPrefix v ''{{vault.'' \<and> hasSuffix v ''}}''"
    then obtain a where "v = ''{{vault.'' @ a" by (auto elim: hasPrefixE)
    moreover have "v = ''{'' @ inner v @ ''}''" using escaped_shape esc by blast
    ultimately have "hasPrefix (inner v) ''{vault.''"
    proof -
      assume a: "v = ''{{vault.'' @ a" and t: "v = ''{'' @ inner v @ ''}''"
      from esc obtain b where "v = b @ ''}}''" by (auto elim: hasSuffixE)
      with a have "a \<noteq> []" by (auto dest: arg_cong [where f = last])
      then obtain m z where "a = m @ [z]" by (cases a rule: rev_cases) auto
      with a have "v = CHR ''{'' # (''{vault.'' @ m) @ [z]" by simp
      then have "inner v = ''{vault.'' @ m" by (simp only: inner_wrap)
      then show ?thesis by (simp only: hasPrefix_append)
    qed
    with assms esc show False
      by (auto simp: parseReference_def Let_def split: if_splits list.splits)
  qed
  with assms show ?thesis
    by (auto simp: parseReference_def Let_def split: if_splits list.splits)
qed

lemma String_inj: "validReference r \<Longrightarrow> validReference s \<Longrightarrow> String r = String s \<Longrightarrow> r = s"
  using parse_printed by (metis Inr_inject prod.inject)

section \<open>Properties\<close>

lemma prefix_contains: "hasPrefix v p \<Longrightarrow> containsStr v p"
  by (cases v; cases p) (simp_all add: hasPrefix_def)

lemma escaped_contains: "hasPrefix v ''{{vault.'' \<Longrightarrow> containsStr v ''{vault.''"
proof -
  assume "hasPrefix v ''{{vault.''"
  then obtain a where "v = ''{'' @ ''{vault.'' @ a" by (auto elim: hasPrefixE)
  then show ?thesis unfolding containsStr_iff by blast
qed

lemma parse_ordinary:
  assumes "\<not> containsStr v ''{vault.''"
  shows "parseReference v = Inr (zeroReference, False, False)"
  using assms escaped_contains [of v] prefix_contains [of v "''{vault.''"]
  by (auto simp: parseReference_def Let_def)

lemma parse_unmatched_iff:
  "parseReference v = Inr (r, e, False) \<longleftrightarrow> \<not> containsStr v ''{vault.'' \<and> \<not> e \<and> r = zeroReference"
  using parse_unmatched_no_marker parse_ordinary by auto

text \<open>An error is what is left.\<close>

lemma parse_error_iff:
  "isl (parseReference v) \<longleftrightarrow>
   containsStr v ''{vault.'' \<and> (\<forall>r. validReference r \<longrightarrow> v \<noteq> String r \<and> v \<noteq> ''{'' @ String r @ ''}'')"
proof (cases "parseReference v")
  case (Inl e)
  then show ?thesis
    using parse_ordinary [of v] parse_plain_iff [of v] parse_escaped_iff [of v] by auto
next
  case (Inr q)
  obtain r e m where q: "q = (r, e, m)" by (cases q)
  show ?thesis
  proof (cases m)
    case True
    then show ?thesis using Inr q parse_plain_iff [of v r] parse_escaped_iff [of v r] by (cases e) auto
  next
    case False
    then show ?thesis using Inr q parse_unmatched_iff [of v r e] by simp
  qed
qed

text \<open>
  C28. Reference grammar. A scalar is taken as a reference exactly when it is the printed form
  \<^verbatim>\<open>{vault.namespace.item.field}\<close> of a reference with three valid resource keys;
  it is taken as an escaped one exactly when it is that form in one more pair of braces; it passes
  as ordinary text exactly when it nowhere contains the marker \<^verbatim>\<open>{vault.\<close>; and it is an
  error exactly when it contains the marker and is neither form. So no partial or malformed
  reference slips through as text, and no text without the marker is refused.
\<close>

theorem parseReference_exact:
  "(parseReference v = Inr (r, False, True) \<longleftrightarrow> validReference r \<and> v = String r) \<and>
   (parseReference v = Inr (r, True, True) \<longleftrightarrow> validReference r \<and> v = ''{'' @ String r @ ''}'') \<and>
   (parseReference v = Inr (r, e, False) \<longleftrightarrow> \<not> containsStr v ''{vault.'' \<and> \<not> e \<and> r = zeroReference) \<and>
   (isl (parseReference v) \<longleftrightarrow>
      containsStr v ''{vault.'' \<and> (\<forall>q. validReference q \<longrightarrow> v \<noteq> String q \<and> v \<noteq> ''{'' @ String q @ ''}''))"
  by (intro conjI parse_plain_iff parse_escaped_iff parse_unmatched_iff parse_error_iff)

theorem parseReference_exact_witness:
  "parseReference ''{vault.db.main.pw}'' = Inr (Reference ''db'' ''main'' ''pw'', False, True) \<and>
   parseReference ''plain'' = Inr (zeroReference, False, False) \<and>
   \<not> containsStr ''plain'' ''{vault.''"
proof -
  have "validReference (Reference ''db'' ''main'' ''pw'') \<and>
        ''{vault.db.main.pw}'' = String (Reference ''db'' ''main'' ''pw'')"
    by code_simp
  then have "parseReference ''{vault.db.main.pw}'' = Inr (Reference ''db'' ''main'' ''pw'', False, True)"
    using parseReference_exact [of "''{vault.db.main.pw}''" "Reference ''db'' ''main'' ''pw''" False]
    by blast
  moreover have "parseReference ''plain'' = Inr (zeroReference, False, False)" by code_simp
  ultimately show ?thesis
    using parseReference_exact [of "''plain''" zeroReference False] by blast
qed

text \<open>
  Recorded references have one order. Whatever order Go's map iteration yields the found
  references in, the recorded list is the same, is sorted by namespace, item and field, and
  holds each reference once.
\<close>

theorem sortedReferences_canonical:
  assumes "distinct xs" and "distinct ys" and "set xs = set ys"
  shows "sortedReferences xs = sortedReferences ys \<and> sorted (sortedReferences xs) \<and>
         distinct (sortedReferences xs) \<and> set (sortedReferences xs) = set xs"
proof -
  have "mset xs = mset ys" using set_eq_distinct_mset [OF assms(3,1,2)] .
  then have "sort xs = sort ys" by (rule sort_key_perm_unique [where key = "\<lambda>x. x"]) (use assms in simp)
  then show ?thesis using assms(1) unfolding sortedReferences_def
    by (metis distinct_sort set_sort sorted_sort)
qed

theorem sortedReferences_canonical_witness:
  "sortedReferences [Reference ''b'' ''i'' ''f'', Reference ''a'' ''i'' ''f''] =
   sortedReferences [Reference ''a'' ''i'' ''f'', Reference ''b'' ''i'' ''f'']"
proof -
  let ?b = "Reference ''b'' ''i'' ''f''" and ?a = "Reference ''a'' ''i'' ''f''"
  have "distinct [?b, ?a]" "distinct [?a, ?b]" by simp_all
  moreover have "set [?b, ?a] = set [?a, ?b]" by (simp only: list.set insert_commute)
  ultimately show ?thesis by (rule sortedReferences_canonical [THEN conjunct1])
qed

end
