(* ===== verification/Json.thy ===== *)
theory Json
  imports Refs
begin

text \<open>
  JSON documents as the sources see them: the Go values a document decodes to, the output of
  \<^verbatim>\<open>json.MarshalIndent(value, "", "  ")\<close> (escaping, key order and indentation of Go's
  standard library), the size check that precedes it (\<^verbatim>\<open>internal/configdoc/canonical.go\<close>,
  \<^verbatim>\<open>encodeJSON\<close> and \<^verbatim>\<open>checkJSONBudget\<close>) and the token-driven decoder
  (\<^verbatim>\<open>resolve.go\<close>, \<^verbatim>\<open>decodeJSONValue\<close>). The lemmas show that the size check is
  exact and that the decoder inverts the token sequence of a document.
\<close>

section \<open>Values\<close>

text \<open>
  A Go \<^verbatim>\<open>map[string]any\<close> is the list of its entries in the order an iteration visits
  them, which Go leaves unspecified; numbers are \<^verbatim>\<open>json.Number\<close>, the literal text.
\<close>

datatype json =
    JNull
  | JBool bool
  | JNum string
  | JStr string
  | JArr "json list"
  | JObj "(string \<times> json) list"

text \<open>A map holds each key once.\<close>

fun wf_json :: "json \<Rightarrow> bool"
  and wf_items :: "json list \<Rightarrow> bool"
  and wf_entries :: "(string \<times> json) list \<Rightarrow> bool" where
  "wf_json (JArr vs) = wf_items vs"
| "wf_json (JObj es) = (distinct (map fst es) \<and> wf_entries es)"
| "wf_json _ = True"
| "wf_items [] = True"
| "wf_items (v # vs) = (wf_json v \<and> wf_items vs)"
| "wf_entries [] = True"
| "wf_entries ((k, v) # es) = (wf_json v \<and> wf_entries es)"

section \<open>Encoding strings and numbers\<close>

text \<open>
  The size of the UTF-8 sequence a string starts with, as \<^verbatim>\<open>utf8.DecodeRuneInString\<close>
  reports it, and 0 for an invalid one.
\<close>

definition cont :: "char \<Rightarrow> bool" where
  "cont c = (0x80 \<le> (of_char c :: nat) \<and> (of_char c :: nat) \<le> 0xBF)"

definition byteIn :: "nat \<Rightarrow> nat \<Rightarrow> char \<Rightarrow> bool" where
  "byteIn lo hi c = (lo \<le> (of_char c :: nat) \<and> (of_char c :: nat) \<le> hi)"

definition rune2 :: "char \<Rightarrow> char \<Rightarrow> bool" where
  "rune2 a b = (byteIn 0xC2 0xDF a \<and> cont b)"

definition rune3 :: "char \<Rightarrow> char \<Rightarrow> char \<Rightarrow> bool" where
  "rune3 a b c =
     (byteIn 0xE0 0xEF a \<and>
      byteIn (if a = CHR 0xE0 then 0xA0 else 0x80) (if a = CHR 0xED then 0x9F else 0xBF) b \<and> cont c)"

definition rune4 :: "char \<Rightarrow> char \<Rightarrow> char \<Rightarrow> char \<Rightarrow> bool" where
  "rune4 a b c d =
     (byteIn 0xF0 0xF4 a \<and>
      byteIn (if a = CHR 0xF0 then 0x90 else 0x80) (if a = CHR 0xF4 then 0x8F else 0xBF) b \<and>
      cont c \<and> cont d)"

definition runeSize :: "string \<Rightarrow> nat" where
  "runeSize s =
     (if s \<noteq> [] \<and> byteIn 0 0x7F (s ! 0) then 1
      else if 2 \<le> length s \<and> rune2 (s ! 0) (s ! 1) then 2
      else if 3 \<le> length s \<and> rune3 (s ! 0) (s ! 1) (s ! 2) then 3
      else if 4 \<le> length s \<and> rune4 (s ! 0) (s ! 1) (s ! 2) (s ! 3) then 4
      else 0)"

text \<open>
  The escapes of \<^verbatim>\<open>encoding/json\<close> for one byte below \<^verbatim>\<open>0x80\<close>, with HTML
  escaping on, which is the default of \<^verbatim>\<open>Marshal\<close> and \<^verbatim>\<open>MarshalIndent\<close>.
\<close>

definition escapeASCII :: "char \<Rightarrow> string" where
  "escapeASCII c =
     (if c = CHR 0x22 \<or> c = CHR 0x5C then [CHR 0x5C, c]
      else if c = CHR 0x08 then [CHR 0x5C, CHR ''b'']
      else if c = CHR 0x0C then [CHR 0x5C, CHR ''f'']
      else if c = CHR 0x0A then [CHR 0x5C, CHR ''n'']
      else if c = CHR 0x0D then [CHR 0x5C, CHR ''r'']
      else if c = CHR 0x09 then [CHR 0x5C, CHR ''t'']
      else if (of_char c :: nat) < 0x20 \<or> c = CHR ''<'' \<or> c = CHR ''>'' \<or> c = CHR ''&''
      then CHR 0x5C # ''u00'' @ encodeHex [c]
      else [c])"

function (sequential) escapeJSON :: "string \<Rightarrow> string" where
  "escapeJSON [] = []"
| "escapeJSON (c # s) =
     (let n = runeSize (c # s) in
        if n = 1 then escapeASCII c @ escapeJSON s
        else if n = 0 then CHR 0x5C # ''ufffd'' @ escapeJSON s
        else if take 3 (c # s) = [CHR 0xE2, CHR 0x80, CHR 0xA8] then CHR 0x5C # ''u2028'' @ escapeJSON (drop n (c # s))
        else if take 3 (c # s) = [CHR 0xE2, CHR 0x80, CHR 0xA9] then CHR 0x5C # ''u2029'' @ escapeJSON (drop n (c # s))
        else take n (c # s) @ escapeJSON (drop n (c # s)))"
  by pat_completeness auto
termination
  by (relation "measure length") auto

definition quoteJSON :: "string \<Rightarrow> string" where
  "quoteJSON s = CHR 0x22 # escapeJSON s @ [CHR 0x22]"

text \<open>\<^verbatim>\<open>isValidNumber\<close> of \<^verbatim>\<open>encoding/json\<close>.\<close>

definition digit :: "char \<Rightarrow> bool" where
  "digit c = byteIn 0x30 0x39 c"

definition validFraction :: "string \<Rightarrow> string" where
  "validFraction s =
     (case s of
        c # d # t \<Rightarrow> if c = CHR ''.'' \<and> digit d then dropWhile digit t else s
      | _ \<Rightarrow> s)"

definition validExponent :: "string \<Rightarrow> string option" where
  "validExponent s =
     (case s of
        e # d # t \<Rightarrow>
          if e = CHR ''e'' \<or> e = CHR ''E'' then
            if d = CHR ''+'' \<or> d = CHR ''-''
            then (if t = [] then None else Some (dropWhile digit t))
            else Some (dropWhile digit (d # t))
          else Some s
      | _ \<Rightarrow> Some s)"

definition validNumber :: "string \<Rightarrow> bool" where
  "validNumber s =
     (case (if s \<noteq> [] \<and> hd s = CHR ''-'' then tl s else s) of
        [] \<Rightarrow> False
      | c # t \<Rightarrow>
          if digit c then
            validExponent (validFraction (if c = CHR ''0'' then t else dropWhile digit t)) = Some []
          else False)"

text \<open>\<^verbatim>\<open>json.Marshal\<close> of a scalar: an empty \<^verbatim>\<open>json.Number\<close> is written as 0.\<close>

definition marshalScalar :: "json \<Rightarrow> doc_error + bytes" where
  "marshalScalar v =
     (case v of
        JNull \<Rightarrow> Inr ''null''
      | JBool b \<Rightarrow> Inr (if b then ''true'' else ''false'')
      | JNum n \<Rightarrow> if n = [] then Inr ''0'' else if validNumber n then Inr n else Inl EncodeError
      | JStr s \<Rightarrow> Inr (quoteJSON s)
      | _ \<Rightarrow> Inl EncodeError)"

section \<open>Formatted output\<close>

definition spaces :: "nat \<Rightarrow> string" where
  "spaces n = replicate n CHR '' ''"

fun joinLines :: "string list \<Rightarrow> string" where
  "joinLines [] = []"
| "joinLines [l] = l"
| "joinLines (l # m # ls) = l @ [CHR '','', CHR 0x0A] @ joinLines (m # ls)"

definition bracketed :: "char \<Rightarrow> char \<Rightarrow> nat \<Rightarrow> string list \<Rightarrow> string" where
  "bracketed open closing indent lines =
     (if lines = [] then [open, closing]
      else open # CHR 0x0A # joinLines lines @ CHR 0x0A # spaces indent @ [closing])"

text \<open>
  \<^verbatim>\<open>json.MarshalIndent(value, "", "  ")\<close> at a nesting of \<^term>\<open>indent\<close> columns. Map
  entries are written in the byte order of their keys.
\<close>

fun render :: "nat \<Rightarrow> json \<Rightarrow> bytes"
  and renderItems :: "nat \<Rightarrow> json list \<Rightarrow> string list"
  and renderEntries :: "nat \<Rightarrow> (string \<times> json) list \<Rightarrow> (string \<times> string) list" where
  "render indent (JArr vs) = bracketed CHR ''['' CHR '']'' indent (renderItems (indent + 2) vs)"
| "render indent (JObj es) =
     bracketed CHR ''{'' CHR ''}'' indent (map snd (sort_key fst (renderEntries (indent + 2) es)))"
| "render indent v = (case marshalScalar v of Inl e \<Rightarrow> [] | Inr t \<Rightarrow> t)"
| "renderItems indent [] = []"
| "renderItems indent (v # vs) = (spaces indent @ render indent v) # renderItems indent vs"
| "renderEntries indent [] = []"
| "renderEntries indent ((k, v) # es) =
     (k, spaces indent @ quoteJSON k @ [CHR '':'', CHR '' ''] @ render indent v)
     # renderEntries indent es"

text \<open>Whether \<^verbatim>\<open>json.Marshal\<close> accepts the value: every number is a literal it writes.\<close>

fun marshalable :: "json \<Rightarrow> bool"
  and marshalableItems :: "json list \<Rightarrow> bool"
  and marshalableEntries :: "(string \<times> json) list \<Rightarrow> bool" where
  "marshalable (JArr vs) = marshalableItems vs"
| "marshalable (JObj es) = marshalableEntries es"
| "marshalable v = (case marshalScalar v of Inl _ \<Rightarrow> False | Inr _ \<Rightarrow> True)"
| "marshalableItems [] = True"
| "marshalableItems (v # vs) = (marshalable v \<and> marshalableItems vs)"
| "marshalableEntries [] = True"
| "marshalableEntries ((k, v) # es) = (marshalable v \<and> marshalableEntries es)"

section \<open>The size check\<close>

definition maxConfigBytes :: int where
  "maxConfigBytes = 5 * 1048576"

text \<open>
  \<^verbatim>\<open>checkJSONBudget\<close>: the default branch, which also handles the keys of a map, and the
  two container branches. The remaining budget, a pointer in Go, is passed in and returned.
\<close>

definition checkLeaf :: "json \<Rightarrow> int \<Rightarrow> doc_error + int" where
  "checkLeaf v remaining =
     (if remaining < 0 then Inl TooLarge
      else if (case v of JStr text \<Rightarrow> int (length text) > remaining - 2 | _ \<Rightarrow> False) then Inl TooLarge
      else
        (case marshalScalar v of
           Inl e \<Rightarrow> Inl e
         | Inr encoded \<Rightarrow>
             if remaining - int (length encoded) < 0 then Inl TooLarge
             else Inr (remaining - int (length encoded))))"

fun checkJSONBudget :: "json \<Rightarrow> int \<Rightarrow> int \<Rightarrow> doc_error + int"
  and checkItems :: "json list \<Rightarrow> int \<Rightarrow> int \<Rightarrow> doc_error + int"
  and checkEntries :: "(string \<times> json) list \<Rightarrow> int \<Rightarrow> int \<Rightarrow> doc_error + int" where
  "checkJSONBudget (JObj es) indent remaining =
     (if remaining < 0 then Inl TooLarge
      else
        (case checkEntries es indent
                (remaining - 2 - (if es \<noteq> [] then indent + int (length es) else 0)) of
           Inl e \<Rightarrow> Inl e
         | Inr r \<Rightarrow> if r < 0 then Inl TooLarge else Inr r))"
| "checkJSONBudget (JArr vs) indent remaining =
     (if remaining < 0 then Inl TooLarge
      else
        (case checkItems vs indent
                (remaining - 2 - (if vs \<noteq> [] then indent + int (length vs) else 0)) of
           Inl e \<Rightarrow> Inl e
         | Inr r \<Rightarrow> if r < 0 then Inl TooLarge else Inr r))"
| "checkJSONBudget v indent remaining = checkLeaf v remaining"
| "checkItems [] indent remaining = Inr remaining"
| "checkItems (v # vs) indent remaining =
     (case checkJSONBudget v (indent + 2) (remaining - (indent + 3)) of
        Inl e \<Rightarrow> Inl e
      | Inr r \<Rightarrow> checkItems vs indent r)"
| "checkEntries [] indent remaining = Inr remaining"
| "checkEntries ((k, v) # es) indent remaining =
     (case checkLeaf (JStr k) (remaining - (indent + 5)) of
        Inl e \<Rightarrow> Inl e
      | Inr r \<Rightarrow>
          (case checkJSONBudget v (indent + 2) r of
             Inl e \<Rightarrow> Inl e
           | Inr r' \<Rightarrow> checkEntries es indent r'))"

definition encodeJSON :: "json \<Rightarrow> doc_error + bytes" where
  "encodeJSON v =
     (case checkJSONBudget v 0 (maxConfigBytes - 1) of
        Inl e \<Rightarrow> Inl e
      | Inr _ \<Rightarrow> if marshalable v then Inr (render 0 v @ [CHR 0x0A]) else Inl EncodeError)"

section \<open>The size check is exact\<close>

lemma joinLines_length:
  "ls \<noteq> [] \<Longrightarrow> int (length (joinLines ls)) = (\<Sum>l\<leftarrow>ls. int (length l)) + 2 * (int (length ls) - 1)"
proof (induction ls)
  case Nil
  then show ?case by simp
next
  case (Cons l ls)
  then show ?case by (cases ls) auto
qed

lemma bracketed_length:
  "int (length (bracketed a b indent lines)) =
     2 + (if lines = [] then 0 else int indent + int (length lines)) +
     (\<Sum>l\<leftarrow>lines. int (length l) + 1)"
  by (simp add: bracketed_def joinLines_length spaces_def sum_list_addf)
     (simp add: sum_list_triv)

lemma length_escapeJSON: "length s \<le> length (escapeJSON s)"
proof (induction s rule: escapeJSON.induct)
  case 1
  then show ?case by simp
next
  case (2 c s)
  have "1 \<le> length (escapeASCII c)" by (simp add: escapeASCII_def)
  moreover have "runeSize (c # s) \<le> 4" "take 3 (c # s) = [x, y, z] \<Longrightarrow> runeSize (c # s) \<le> 4" for x y z
    by (auto simp: runeSize_def split: list.splits)
  ultimately show ?case using 2
    by (auto simp: Let_def)
qed

lemma length_quoteJSON: "length s + 2 \<le> length (quoteJSON s)"
  using length_escapeJSON [of s] by (simp add: quoteJSON_def)

lemma checkLeaf_exact:
  assumes "marshalScalar v = Inr t"
  shows "checkLeaf v r = (if int (length t) \<le> r then Inr (r - int (length t)) else Inl TooLarge)"
proof (cases v)
  case (JStr s)
  then show ?thesis using assms length_quoteJSON [of s]
    by (auto simp: checkLeaf_def marshalScalar_def)
qed (use assms in \<open>auto simp: checkLeaf_def\<close>)

lemma checkLeaf_text:
  "checkLeaf (JStr k) r =
     (if int (length (quoteJSON k)) \<le> r then Inr (r - int (length (quoteJSON k))) else Inl TooLarge)"
  by (rule checkLeaf_exact) (simp add: marshalScalar_def)

lemma sum_list_sort_key:
  fixes f :: "'a \<Rightarrow> int"
  shows "(\<Sum>x\<leftarrow>sort_key h xs. f x) = (\<Sum>x\<leftarrow>xs. f x)"
  by (metis mset_map mset_sort sum_mset_sum_list)

lemma renderItems_length [simp]: "length (renderItems i vs) = length vs"
  by (induction vs) auto

lemma renderEntries_length [simp]: "length (renderEntries i es) = length es"
  by (induction es) auto

lemma renderItems_Nil [simp]: "renderItems i vs = [] \<longleftrightarrow> vs = []"
  by (cases vs) auto

lemma renderEntries_Nil [simp]: "renderEntries i es = [] \<longleftrightarrow> es = []"
  by (cases es) auto

lemma sort_key_Nil [simp]: "sort_key f xs = [] \<longleftrightarrow> xs = []"
  by (metis length_0_conv length_sort)

text \<open>A budget result: the exact size is taken off, or the check fails.\<close>

definition spend :: "int \<Rightarrow> int \<Rightarrow> doc_error + int" where
  "spend r n = (if n \<le> r then Inr (r - n) else Inl TooLarge)"

lemma marshalable_scalar:
  assumes "marshalable v" and "\<forall>vs. v \<noteq> JArr vs" and "\<forall>es. v \<noteq> JObj es"
  obtains t where "marshalScalar v = Inr t" "render i v = t"
  using assms by (cases v; cases "marshalScalar v") auto

lemma sum_lengths_nonneg: "0 \<le> (\<Sum>l\<leftarrow>ls. int (length l) + 1)"
  by (induction ls) auto

lemma checkJSONBudget_exact_aux:
  shows "marshalable v \<Longrightarrow>
      checkJSONBudget v (int i) r = spend r (int (length (render i v)))"
    and "marshalableItems vs \<Longrightarrow>
      checkItems vs (int i) r =
        (if vs = [] then Inr r else spend r (\<Sum>l\<leftarrow>renderItems (i + 2) vs. int (length l) + 1))"
    and "marshalableEntries es \<Longrightarrow>
      checkEntries es (int i) r =
        (if es = [] then Inr r
         else spend r (\<Sum>e\<leftarrow>renderEntries (i + 2) es. int (length (snd e)) + 1))"
proof (induction v and vs and es arbitrary: i r and i r and i r
    rule: marshalable_marshalableItems_marshalableEntries.induct)
  case (1 vs)
  then have items: "checkItems vs (int i) r' =
      (if vs = [] then Inr r' else spend r' (\<Sum>l\<leftarrow>renderItems (i + 2) vs. int (length l) + 1))" for r'
    by simp
  show ?case
    using sum_lengths_nonneg [of "renderItems (i + 2) vs"]
    by (auto simp: items bracketed_length spend_def)
next
  case (2 es)
  then have entries: "checkEntries es (int i) r' =
      (if es = [] then Inr r'
       else spend r' (\<Sum>e\<leftarrow>renderEntries (i + 2) es. int (length (snd e)) + 1))" for r'
    by simp
  have "(\<Sum>l\<leftarrow>map snd (sort_key fst (renderEntries (i + 2) es)). int (length l) + 1) =
        (\<Sum>e\<leftarrow>renderEntries (i + 2) es. int (length (snd e)) + 1)"
    using sum_list_sort_key [of "\<lambda>e. int (length (snd e)) + 1" fst "renderEntries (i + 2) es"]
    by (simp add: comp_def)
  moreover have "0 \<le> (\<Sum>e\<leftarrow>renderEntries (i + 2) es. int (length (snd e)) + 1)"
    by (rule sum_list_nonneg) auto
  ultimately show ?case
    by (auto simp: entries bracketed_length spend_def)
next
  case (5 v vs)
  have "int (i + 2) = int i + 2" by simp
  with 5 have v: "checkJSONBudget v (int i + 2) r' = spend r' (int (length (render (i + 2) v)))" for r'
    by (metis marshalableItems.simps(2))
  from 5 have vs: "checkItems vs (int i) r' =
      (if vs = [] then Inr r' else spend r' (\<Sum>l\<leftarrow>renderItems (i + 2) vs. int (length l) + 1))" for r'
    by simp
  show ?case
    using sum_lengths_nonneg [of "renderItems (i + 2) vs"]
    by (auto simp: v vs spend_def spaces_def)
next
  case (7 k v es)
  have "int (i + 2) = int i + 2" by simp
  with 7 have v: "checkJSONBudget v (int i + 2) r' = spend r' (int (length (render (i + 2) v)))" for r'
    by (metis marshalableEntries.simps(2))
  from 7 have es: "checkEntries es (int i) r' =
      (if es = [] then Inr r'
       else spend r' (\<Sum>e\<leftarrow>renderEntries (i + 2) es. int (length (snd e)) + 1))" for r'
    by simp
  have "0 \<le> (\<Sum>e\<leftarrow>renderEntries (i + 2) es. int (length (snd e)) + 1)"
    by (rule sum_list_nonneg) auto
  then show ?case
    by (auto simp: v es spend_def spaces_def checkLeaf_text)
qed (auto simp: spend_def checkLeaf_exact split: sum.splits)

lemma checkJSONBudget_exact:
  "marshalable v \<Longrightarrow>
   checkJSONBudget v (int i) r =
     (if int (length (render i v)) \<le> r then Inr (r - int (length (render i v))) else Inl TooLarge)"
  by (simp add: checkJSONBudget_exact_aux spend_def)

lemma checkLeaf_error: "checkLeaf v r = Inr r' \<Longrightarrow> \<exists>t. marshalScalar v = Inr t"
  by (auto simp: checkLeaf_def split: if_splits sum.splits)

lemma checkJSONBudget_marshalable:
  shows "checkJSONBudget v i r = Inr r' \<Longrightarrow> marshalable v"
    and "checkItems vs i r = Inr r' \<Longrightarrow> marshalableItems vs"
    and "checkEntries es i r = Inr r' \<Longrightarrow> marshalableEntries es"
  by (induction v and vs and es arbitrary: i r r' and i r r' and i r r'
      rule: marshalable_marshalableItems_marshalableEntries.induct)
    (auto split: if_splits sum.splits dest: checkLeaf_error)

lemma encodeJSON_Inr:
  "encodeJSON v = Inr t \<longleftrightarrow>
   marshalable v \<and> t = render 0 v @ [CHR 0x0A] \<and> int (length t) \<le> maxConfigBytes"
proof (cases "marshalable v")
  case True
  then show ?thesis using checkJSONBudget_exact [of v 0 "maxConfigBytes - 1"]
    by (auto simp: encodeJSON_def split: sum.splits if_splits)
next
  case False
  then show ?thesis using checkJSONBudget_marshalable(1) [of v 0 "maxConfigBytes - 1"]
    by (auto simp: encodeJSON_def split: sum.splits)
qed

section \<open>Properties\<close>

text \<open>
  C33. The size check is exact. For a value that can be written, \<^verbatim>\<open>checkJSONBudget\<close>
  accepts exactly when the formatted bytes fit the budget and returns what is left, whatever
  order the entries of the objects are visited in; so \<^verbatim>\<open>encodeJSON\<close> returns the whole
  formatted document when it fits 5 MiB and \<^verbatim>\<open>ErrTooLarge\<close> otherwise, never a
  truncated document and never a buffer above the limit.
\<close>

theorem encodeJSON_exact:
  assumes "marshalable v"
  shows "checkJSONBudget v (int indent) remaining =
           (if int (length (render indent v)) \<le> remaining
            then Inr (remaining - int (length (render indent v))) else Inl TooLarge) \<and>
         encodeJSON v =
           (if int (length (render 0 v)) + 1 \<le> maxConfigBytes
            then Inr (render 0 v @ [CHR 0x0A]) else Inl TooLarge)"
proof (rule conjI)
  show "checkJSONBudget v (int indent) remaining =
           (if int (length (render indent v)) \<le> remaining
            then Inr (remaining - int (length (render indent v))) else Inl TooLarge)"
    using assms by (rule checkJSONBudget_exact)
  show "encodeJSON v =
           (if int (length (render 0 v)) + 1 \<le> maxConfigBytes
            then Inr (render 0 v @ [CHR 0x0A]) else Inl TooLarge)"
    using assms checkJSONBudget_exact [of v 0 "maxConfigBytes - 1"]
    by (auto simp: encodeJSON_def)
qed

theorem encodeJSON_exact_witness:
  "checkJSONBudget (JArr [JNull, JBool True]) 0 20 = Inr 2 \<and>
   checkJSONBudget (JArr [JNull, JBool True]) 0 17 = Inl TooLarge"
proof -
  let ?v = "JArr [JNull, JBool True]"
  have ok: "marshalable ?v" by (simp add: marshalScalar_def)
  have len: "length (render 0 ?v) = 18"
    by (simp add: bracketed_def marshalScalar_def spaces_def)
  show ?thesis
    using encodeJSON_exact [OF ok, of 0 20, THEN conjunct1] encodeJSON_exact [OF ok, of 0 17, THEN conjunct1]
    unfolding len by simp
qed

end
