(* ===== verification/JsonLex.thy ===== *)
theory JsonLex
  imports Json
begin

text \<open>
  The token decoder of Go's \<^verbatim>\<open>encoding/json\<close> as far as the sources use it
  (\<^verbatim>\<open>json.NewDecoder\<close>, \<^verbatim>\<open>UseNumber\<close>, \<^verbatim>\<open>Token\<close> and
  \<^verbatim>\<open>More\<close>) and the document decoder on top of it
  (\<^verbatim>\<open>internal/configdoc/resolve.go\<close>, \<^verbatim>\<open>decodeJSONValue\<close>). The decoder state is
  the unread input and the position in the grammar; a token consumes input, so a fuel of one
  more than the input's length is enough (\<^verbatim>\<open>decode_enough_fuel\<close>).
\<close>

section \<open>Scalars\<close>

definition isSpace :: "char \<Rightarrow> bool" where
  "isSpace c = (c = CHR '' '' \<or> c = CHR 0x09 \<or> c = CHR 0x0D \<or> c = CHR 0x0A)"

text \<open>\<^verbatim>\<open>utf8.EncodeRune\<close>; surrogates and values above \<^verbatim>\<open>0x10FFFF\<close> become
  \<^verbatim>\<open>U+FFFD\<close>.\<close>

definition replacement :: string where
  "replacement = [CHR 0xEF, CHR 0xBF, CHR 0xBD]"

definition encodeRune :: "nat \<Rightarrow> string" where
  "encodeRune r =
     (if r \<le> 0x7F then [char_of r]
      else if r \<le> 0x7FF then [char_of (0xC0 + r div 64), char_of (0x80 + r mod 64)]
      else if (0xD800 \<le> r \<and> r \<le> 0xDFFF) \<or> r > 0x10FFFF then replacement
      else if r \<le> 0xFFFF then
        [char_of (0xE0 + r div 4096), char_of (0x80 + r div 64 mod 64), char_of (0x80 + r mod 64)]
      else
        [char_of (0xF0 + r div 262144), char_of (0x80 + r div 4096 mod 64),
         char_of (0x80 + r div 64 mod 64), char_of (0x80 + r mod 64)])"

text \<open>\<^verbatim>\<open>getu4\<close>: four hex digits of either case.\<close>

definition getu4 :: "string \<Rightarrow> nat option" where
  "getu4 s =
     (case s of
        a # b # c # d # _ \<Rightarrow>
          (case (fromHexChar a, fromHexChar b, fromHexChar c, fromHexChar d) of
             (Some p, Some q, Some r, Some t) \<Rightarrow> Some (p * 4096 + q * 256 + r * 16 + t)
           | _ \<Rightarrow> None)
      | _ \<Rightarrow> None)"

text \<open>
  The bytes after the opening quote of a string literal, unquoted up to its closing quote, and
  the input after that. Lone surrogate escapes and invalid UTF-8 become \<^verbatim>\<open>U+FFFD\<close>.
\<close>

definition simpleEscape :: "char \<Rightarrow> char option" where
  "simpleEscape e =
     (if e = CHR 0x22 \<or> e = CHR 0x5C \<or> e = CHR ''/'' then Some e
      else if e = CHR ''b'' then Some (CHR 0x08)
      else if e = CHR ''f'' then Some (CHR 0x0C)
      else if e = CHR ''n'' then Some (CHR 0x0A)
      else if e = CHR ''r'' then Some (CHR 0x0D)
      else if e = CHR ''t'' then Some (CHR 0x09)
      else None)"

text \<open>One \<^verbatim>\<open>\u\<close> escape, after the \<^verbatim>\<open>u\<close>: its bytes and the input after it.\<close>

definition unicodeEscape :: "string \<Rightarrow> (string \<times> string) option" where
  "unicodeEscape s =
     (case getu4 s of
        None \<Rightarrow> None
      | Some r \<Rightarrow>
          if 0xD800 \<le> r \<and> r < 0xE000 then
            (case (if take 2 (drop 4 s) = [CHR 0x5C, CHR ''u''] then getu4 (drop 6 s) else None) of
               Some r' \<Rightarrow>
                 if r < 0xDC00 \<and> 0xDC00 \<le> r' \<and> r' < 0xE000
                 then Some (encodeRune ((r - 0xD800) * 1024 + (r' - 0xDC00) + 0x10000), drop 10 s)
                 else Some (replacement, drop 4 s)
             | None \<Rightarrow> Some (replacement, drop 4 s))
          else Some (encodeRune r, drop 4 s))"

text \<open>The first character of a literal's contents, its bytes and the input after it.\<close>

definition stringChar :: "string \<Rightarrow> (string \<times> string) option" where
  "stringChar s =
     (case s of
        [] \<Rightarrow> None
      | c # t \<Rightarrow>
          if c = CHR 0x5C then
            (case t of
               [] \<Rightarrow> None
             | e # t' \<Rightarrow>
                 if e = CHR ''u'' then unicodeEscape t'
                 else map_option (\<lambda>b. ([b], t')) (simpleEscape e))
          else if (of_char c :: nat) < 0x20 then None
          else if runeSize s = 0 then Some (replacement, t)
          else Some (take (runeSize s) s, drop (runeSize s) s))"

lemma getu4_length: "getu4 s = Some n \<Longrightarrow> s \<noteq> []"
  by (cases s) (simp_all add: getu4_def)

lemma unicodeEscape_shorter:
  assumes "unicodeEscape s = Some (b, r)"
  shows "length r < length s"
proof -
  have "r = drop 4 s \<or> r = drop 10 s" "s \<noteq> []"
    using assms
    by (auto simp: unicodeEscape_def dest: getu4_length split: option.splits if_splits)
  then show ?thesis by auto
qed

lemma stringChar_shorter:
  assumes "stringChar s = Some (b, r)"
  shows "length r < length s"
proof (cases s)
  case Nil
  then show ?thesis using assms by (simp add: stringChar_def)
next
  case (Cons c t)
  show ?thesis
  proof (cases t)
    case Nil
    then show ?thesis using assms Cons by (auto simp: stringChar_def split: if_splits)
  next
    case (Cons e t')
    then show ?thesis using assms \<open>s = c # t\<close> unicodeEscape_shorter [of t' b r]
      by (auto simp: stringChar_def split: if_splits)
  qed
qed

function (sequential) lexString :: "string \<Rightarrow> (string \<times> string) option" where
  "lexString [] = None"
| "lexString (c # s) =
     (if c = CHR 0x22 then Some ([], s)
      else
        (case stringChar (c # s) of
           None \<Rightarrow> None
         | Some (b, r) \<Rightarrow> map_option (\<lambda>(t, r'). (b @ t, r')) (lexString r)))"
  by pat_completeness auto
termination
  by (relation "measure length") (auto dest: stringChar_shorter)

definition lexFraction :: "string \<Rightarrow> (string \<times> string) option" where
  "lexFraction s =
     (case s of
        [] \<Rightarrow> Some ([], [])
      | c # t \<Rightarrow>
          if c = CHR ''.'' then
            (if takeWhile digit t = [] then None
             else Some (c # takeWhile digit t, dropWhile digit t))
          else Some ([], s))"

definition lexExponent :: "string \<Rightarrow> (string \<times> string) option" where
  "lexExponent s =
     (case s of
        [] \<Rightarrow> Some ([], [])
      | e # t \<Rightarrow>
          if e = CHR ''e'' \<or> e = CHR ''E'' then
            (let sign = (case t of c # _ \<Rightarrow> if c = CHR ''+'' \<or> c = CHR ''-'' then [c] else [] | [] \<Rightarrow> []);
                 u = drop (length sign) t
             in if takeWhile digit u = [] then None
                else Some (e # sign @ takeWhile digit u, dropWhile digit u))
          else Some ([], s))"

definition lexInteger :: "string \<Rightarrow> (string \<times> string) option" where
  "lexInteger s =
     (case s of
        [] \<Rightarrow> None
      | c # t \<Rightarrow>
          if c = CHR ''0'' then Some ([c], t)
          else if digit c then Some (c # takeWhile digit t, dropWhile digit t)
          else None)"

definition lexNumber :: "string \<Rightarrow> (string \<times> string) option" where
  "lexNumber s =
     (let minus = (case s of c # _ \<Rightarrow> if c = CHR ''-'' then [c] else [] | [] \<Rightarrow> []) in
        case lexInteger (drop (length minus) s) of
          None \<Rightarrow> None
        | Some (i, r) \<Rightarrow>
            (case lexFraction r of
               None \<Rightarrow> None
             | Some (f, r') \<Rightarrow>
                 (case lexExponent r' of
                    None \<Rightarrow> None
                  | Some (e, r'') \<Rightarrow> Some (minus @ i @ f @ e, r''))))"

section \<open>Tokens\<close>

datatype jtoken =
    TNull | TBool bool | TNumber string | TString string
  | TOpenObject | TCloseObject | TOpenArray | TCloseArray

datatype token_state =
    TopValue | ArrayStart | ArrayValue | ArrayComma
  | ObjectStart | ObjectKey | ObjectColon | ObjectValue | ObjectComma

record json_decoder =
  unread :: string
  tokenState :: token_state
  tokenStack :: "token_state list"

datatype token_error = EndOfInput | BadSyntax

definition newDecoder :: "bytes \<Rightarrow> json_decoder" where
  "newDecoder source = \<lparr> unread = source, tokenState = TopValue, tokenStack = [] \<rparr>"

definition tokenValueAllowed :: "token_state \<Rightarrow> bool" where
  "tokenValueAllowed s = (s \<in> {TopValue, ArrayStart, ArrayValue, ObjectValue})"

definition tokenValueEnd :: "token_state \<Rightarrow> token_state" where
  "tokenValueEnd s =
     (case s of ArrayStart \<Rightarrow> ArrayComma | ArrayValue \<Rightarrow> ArrayComma | ObjectValue \<Rightarrow> ObjectComma | _ \<Rightarrow> s)"

text \<open>A scalar value: the decoder is at its first byte.\<close>

definition lexScalar :: "string \<Rightarrow> (jtoken \<times> string) option" where
  "lexScalar s =
     (case s of
        [] \<Rightarrow> None
      | c # t \<Rightarrow>
          if c = CHR 0x22 then map_option (\<lambda>(v, r). (TString v, r)) (lexString t)
          else if hasPrefix s ''null'' then Some (TNull, drop 4 s)
          else if hasPrefix s ''true'' then Some (TBool True, drop 4 s)
          else if hasPrefix s ''false'' then Some (TBool False, drop 5 s)
          else map_option (\<lambda>(n, r). (TNumber n, r)) (lexNumber s))"

definition valueToken :: "string \<Rightarrow> json_decoder \<Rightarrow> (token_error + jtoken) \<times> json_decoder" where
  "valueToken s d =
     (if \<not> tokenValueAllowed (tokenState d) then (Inl BadSyntax, d)
      else
        (case lexScalar s of
           None \<Rightarrow> (Inl BadSyntax, d)
         | Some (t, r) \<Rightarrow> (Inr t, d\<lparr> unread := r, tokenState := tokenValueEnd (tokenState d) \<rparr>)))"

definition openToken :: "jtoken \<Rightarrow> token_state \<Rightarrow> string \<Rightarrow> json_decoder \<Rightarrow>
    (token_error + jtoken) \<times> json_decoder" where
  "openToken t start r d =
     (if \<not> tokenValueAllowed (tokenState d) then (Inl BadSyntax, d)
      else (Inr t, d\<lparr> unread := r, tokenState := start, tokenStack := tokenState d # tokenStack d \<rparr>))"

definition closeToken :: "jtoken \<Rightarrow> bool \<Rightarrow> string \<Rightarrow> json_decoder \<Rightarrow>
    (token_error + jtoken) \<times> json_decoder" where
  "closeToken t allowed r d =
     (case tokenStack d of
        outer # stack \<Rightarrow>
          if allowed
          then (Inr t, d\<lparr> unread := r, tokenState := tokenValueEnd outer, tokenStack := stack \<rparr>)
          else (Inl BadSyntax, d)
      | [] \<Rightarrow> (Inl BadSyntax, d))"

text \<open>
  \<^verbatim>\<open>Token\<close>. Colons and commas advance the grammar state and the loop continues; the
  state after one does not accept another, so two steps of it are enough.
\<close>

definition tokenAt :: "string \<Rightarrow> json_decoder \<Rightarrow> (token_error + jtoken) \<times> json_decoder" where
  "tokenAt s d =
     (case s of
        [] \<Rightarrow> (Inl EndOfInput, d)
      | c # r \<Rightarrow>
          if c = CHR ''['' then openToken TOpenArray ArrayStart r d
          else if c = CHR '']'' then
            closeToken TCloseArray (tokenState d \<in> {ArrayStart, ArrayComma}) r d
          else if c = CHR ''{'' then openToken TOpenObject ObjectStart r d
          else if c = CHR ''}'' then
            closeToken TCloseObject (tokenState d \<in> {ObjectStart, ObjectComma}) r d
          else if c = CHR '':'' \<or> c = CHR '','' then (Inl BadSyntax, d)
          else if c = CHR 0x22 \<and> tokenState d \<in> {ObjectStart, ObjectKey} then
            (case lexString r of
               None \<Rightarrow> (Inl BadSyntax, d)
             | Some (k, r') \<Rightarrow> (Inr (TString k), d\<lparr> unread := r', tokenState := ObjectColon \<rparr>))
          else valueToken s d)"

definition Token :: "json_decoder \<Rightarrow> (token_error + jtoken) \<times> json_decoder" where
  "Token d =
     (let s = dropWhile isSpace (unread d) in
        case s of
          [] \<Rightarrow> (Inl EndOfInput, d\<lparr> unread := [] \<rparr>)
        | c # r \<Rightarrow>
            if c = CHR '':'' \<and> tokenState d = ObjectColon then
              tokenAt (dropWhile isSpace r) (d\<lparr> unread := r, tokenState := ObjectValue \<rparr>)
            else if c = CHR '','' \<and> tokenState d = ArrayComma then
              tokenAt (dropWhile isSpace r) (d\<lparr> unread := r, tokenState := ArrayValue \<rparr>)
            else if c = CHR '','' \<and> tokenState d = ObjectComma then
              tokenAt (dropWhile isSpace r) (d\<lparr> unread := r, tokenState := ObjectKey \<rparr>)
            else tokenAt s d)"

definition More :: "json_decoder \<Rightarrow> bool" where
  "More d =
     (case dropWhile isSpace (unread d) of
        [] \<Rightarrow> False
      | c # _ \<Rightarrow> c \<noteq> CHR '']'' \<and> c \<noteq> CHR ''}'')"

section \<open>The document decoder\<close>

text \<open>
  \<^verbatim>\<open>decodeJSONValue\<close>, its two loops being functions of their own. The object is kept
  in insertion order; a Go map has no order, and no result below depends on it.
\<close>

fun decodeJSONValue :: "nat \<Rightarrow> json_decoder \<Rightarrow> nat \<Rightarrow> doc_error + json \<times> json_decoder"
  and decodeObject :: "nat \<Rightarrow> json_decoder \<Rightarrow> nat \<Rightarrow> (string \<times> json) list \<Rightarrow> doc_error + json \<times> json_decoder"
  and decodeArray :: "nat \<Rightarrow> json_decoder \<Rightarrow> nat \<Rightarrow> json list \<Rightarrow> doc_error + json \<times> json_decoder" where
  "decodeJSONValue 0 d depth = Inl FuelExhausted"
| "decodeJSONValue (Suc fuel) d depth =
     (if depth > 100 then Inl NestingTooDeep
      else
        (case Token d of
           (Inl _, _) \<Rightarrow> Inl SyntaxError
         | (Inr token, d') \<Rightarrow>
             (case token of
                TNull \<Rightarrow> Inr (JNull, d')
              | TBool b \<Rightarrow> Inr (JBool b, d')
              | TNumber n \<Rightarrow> Inr (JNum n, d')
              | TString s \<Rightarrow> Inr (JStr s, d')
              | TOpenObject \<Rightarrow> decodeObject fuel d' depth []
              | TOpenArray \<Rightarrow> decodeArray fuel d' depth []
              | _ \<Rightarrow> Inl UnexpectedDelimiter)))"
| "decodeObject 0 d depth object = Inl FuelExhausted"
| "decodeObject (Suc fuel) d depth object =
     (if More d then
        (case Token d of
           (Inl _, _) \<Rightarrow> Inl SyntaxError
         | (Inr (TString key), d1) \<Rightarrow>
             (if key \<in> fst ` set object then Inl (DuplicateKey key)
              else
                (case decodeJSONValue fuel d1 (depth + 1) of
                   Inl e \<Rightarrow> Inl e
                 | Inr (v, d2) \<Rightarrow> decodeObject fuel d2 depth (object @ [(key, v)])))
         | (Inr _, _) \<Rightarrow> Inl KeyNotString)
      else
        (case Token d of
           (Inr TCloseObject, d') \<Rightarrow> Inr (JObj object, d')
         | _ \<Rightarrow> Inl NotClosed))"
| "decodeArray 0 d depth array = Inl FuelExhausted"
| "decodeArray (Suc fuel) d depth array =
     (if More d then
        (case decodeJSONValue fuel d (depth + 1) of
           Inl e \<Rightarrow> Inl e
         | Inr (v, d') \<Rightarrow> decodeArray fuel d' depth (array @ [v]))
      else
        (case Token d of
           (Inr TCloseArray, d') \<Rightarrow> Inr (JArr array, d')
         | _ \<Rightarrow> Inl NotClosed))"

definition decodeFuel :: "json_decoder \<Rightarrow> nat" where
  "decodeFuel d = 2 * length (unread d) + 2"

text \<open>A whole document: one value and the end of the input.\<close>

definition decodeDocument :: "bytes \<Rightarrow> doc_error + json" where
  "decodeDocument source =
     (case decodeJSONValue (decodeFuel (newDecoder source)) (newDecoder source) 0 of
        Inl e \<Rightarrow> Inl (Wrapped e)
      | Inr (v, d) \<Rightarrow>
          (case Token d of
             (Inl EndOfInput, _) \<Rightarrow> Inr v
           | (Inl BadSyntax, _) \<Rightarrow> Inl (Wrapped SyntaxError)
           | (Inr _, _) \<Rightarrow> Inl TrailingContent))"

section \<open>Tokens consume input\<close>

lemma length_dropWhile_Cons: "dropWhile p s = c # r \<Longrightarrow> length r < length s"
  by (metis length_Cons length_dropWhile_le less_eq_Suc_le)

lemma lexString_shorter: "lexString s = Some (b, r) \<Longrightarrow> length r < length s"
proof (induction s arbitrary: b r rule: lexString.induct)
  case 1
  then show ?case by simp
next
  case (2 c s)
  then show ?case
    using stringChar_shorter [of "c # s"] by (fastforce split: if_splits option.splits)
qed

lemma lexInteger_shorter: "lexInteger s = Some (b, r) \<Longrightarrow> length r < length s"
  by (auto simp: lexInteger_def le_imp_less_Suc length_dropWhile_le split: list.splits if_splits)

lemma lexFraction_le: "lexFraction s = Some (b, r) \<Longrightarrow> length r \<le> length s"
  by (auto simp: lexFraction_def le_SucI length_dropWhile_le split: list.splits if_splits)

lemma lexExponent_le:
  assumes "lexExponent s = Some (b, r)"
  shows "length r \<le> length s"
proof (cases s)
  case Nil
  then show ?thesis using assms by (simp add: lexExponent_def)
next
  case (Cons e t)
  have "length (dropWhile digit (drop n t)) \<le> length t" for n
    using length_dropWhile_le [of digit "drop n t"] by simp
  then show ?thesis using assms Cons
    by (auto simp: lexExponent_def Let_def le_SucI split: if_splits)
qed

lemma lexNumber_shorter:
  assumes "lexNumber s = Some (b, r)"
  shows "length r < length s"
proof -
  let ?m = "case s of c # _ \<Rightarrow> if c = CHR ''-'' then [c] else [] | [] \<Rightarrow> []"
  obtain i r1 f r2 e where i: "lexInteger (drop (length ?m) s) = Some (i, r1)"
    and f: "lexFraction r1 = Some (f, r2)" and e: "lexExponent r2 = Some (e, r)"
    using assms unfolding lexNumber_def Let_def by (auto split: option.splits)
  have "length (drop (length ?m) s) \<le> length s" by simp
  with lexInteger_shorter [OF i] lexFraction_le [OF f] lexExponent_le [OF e] show ?thesis by simp
qed

lemma lexScalar_shorter: "lexScalar s = Some (t, r) \<Longrightarrow> length r < length s"
  by (auto simp: lexScalar_def split: list.splits if_splits
      dest: lexString_shorter lexNumber_shorter)

lemma tokenAt_shorter: "tokenAt s d = (Inr t, d') \<Longrightarrow> length (unread d') < length s"
  by (auto simp: tokenAt_def openToken_def closeToken_def valueToken_def
      split: list.splits if_splits option.splits dest: lexString_shorter lexScalar_shorter)

lemma Token_shorter:
  assumes "Token d = (Inr t, d')"
  shows "length (unread d') < length (unread d)"
proof (cases "dropWhile isSpace (unread d)")
  case Nil
  from assms show ?thesis unfolding Token_def Let_def Nil by simp
next
  case (Cons c r)
  have "length (dropWhile isSpace r) \<le> length r" by (rule length_dropWhile_le)
  moreover have "length r < length (unread d)" using Cons by (rule length_dropWhile_Cons)
  moreover have "length (unread d') < length (dropWhile isSpace r) \<or> length (unread d') < length (c # r)"
    using assms Cons by (auto simp: Token_def split: if_splits dest: tokenAt_shorter)
  moreover have "length (c # r) \<le> length (unread d)"
    using Cons length_dropWhile_le by metis
  ultimately show ?thesis by linarith
qed

lemma decode_enough_fuel:
  shows "2 * length (unread d) + 1 \<le> fuel \<Longrightarrow>
      case decodeJSONValue fuel d depth of
        Inl e \<Rightarrow> e \<noteq> FuelExhausted | Inr (_, d') \<Rightarrow> length (unread d') < length (unread d)"
    and "2 * length (unread d) + 2 \<le> fuel \<Longrightarrow>
      case decodeObject fuel d depth object of
        Inl e \<Rightarrow> e \<noteq> FuelExhausted | Inr (_, d') \<Rightarrow> length (unread d') < length (unread d)"
    and "2 * length (unread d) + 2 \<le> fuel \<Longrightarrow>
      case decodeArray fuel d depth array of
        Inl e \<Rightarrow> e \<noteq> FuelExhausted | Inr (_, d') \<Rightarrow> length (unread d') < length (unread d)"
proof (induction fuel d depth and fuel d depth object and fuel d depth array
    rule: decodeJSONValue_decodeObject_decodeArray.induct)
  case (2 fuel d depth)
  show ?case
  proof (cases "depth > 100")
    case False
    show ?thesis
    proof (cases "Token d")
      case (Pair res d')
      show ?thesis
      proof (cases res)
        case (Inr t)
        then have "length (unread d') < length (unread d)" using Pair Token_shorter by blast
        moreover from this 2(3) have "2 * length (unread d') + 2 \<le> fuel" by simp
        ultimately show ?thesis
          using 2(1) [OF False Pair [symmetric] Inr] 2(2) [OF False Pair [symmetric] Inr] False Pair Inr
          by (cases t) (auto split: sum.splits)
      qed (use False Pair in simp)
    qed
  qed simp
next
  case (4 fuel d depth object)
  show ?case
  proof (cases "Token d")
    case (Pair res d1)
    show ?thesis
    proof (cases res)
      case (Inr t)
      then have less: "length (unread d1) < length (unread d)" using Pair Token_shorter by blast
      show ?thesis
      proof (cases "More d \<and> (\<exists>key. t = TString key \<and> key \<notin> fst ` set object)")
        case True
        then obtain key where key: "t = TString key" "key \<notin> fst ` set object" "More d" by blast
        then have ih: "case decodeJSONValue fuel d1 (depth + 1) of
            Inl e \<Rightarrow> e \<noteq> FuelExhausted | Inr (_, d') \<Rightarrow> length (unread d') < length (unread d1)"
          using 4 Pair Inr less by auto
        show ?thesis
        proof (cases "decodeJSONValue fuel d1 (depth + 1)")
          case (Inr vd)
          then obtain v d2 where "vd = (v, d2)" by (cases vd)
          with Inr ih less have less2: "length (unread d2) < length (unread d)" by simp
          then have "2 * length (unread d2) + 2 \<le> fuel" using 4(3) by simp
          from 4(2) [OF key(3) Pair [symmetric] \<open>res = Inr t\<close> key(1,2) Inr \<open>vd = (v, d2)\<close> [symmetric] this]
          show ?thesis using Pair \<open>res = Inr t\<close> key Inr \<open>vd = (v, d2)\<close> less2
            by (auto split: sum.splits)
        qed (use ih Pair Inr key in simp)
      next
        case False
        then show ?thesis using Pair Inr less by (cases t) auto
      qed
    qed (use Pair in simp)
  qed
next
  case (6 fuel d depth array)
  show ?case
  proof (cases "More d")
    case True
    then have ih: "case decodeJSONValue fuel d (depth + 1) of
        Inl e \<Rightarrow> e \<noteq> FuelExhausted | Inr (_, d') \<Rightarrow> length (unread d') < length (unread d)"
      using 6 by auto
    show ?thesis
    proof (cases "decodeJSONValue fuel d (depth + 1)")
      case (Inr vd)
      then obtain v d' where "vd = (v, d')" by (cases vd)
      with Inr ih have less: "length (unread d') < length (unread d)" by simp
      then have "2 * length (unread d') + 2 \<le> fuel" using 6(3) by simp
      from 6(2) [OF True Inr \<open>vd = (v, d')\<close> [symmetric] this]
      show ?thesis using True Inr \<open>vd = (v, d')\<close> less by (auto split: sum.splits)
    qed (use ih True in simp)
  next
    case False
    then show ?thesis
      by (auto split: prod.splits sum.splits jtoken.splits dest: Token_shorter)
  qed
qed simp_all

lemma decodeDocument_total: "decodeDocument source \<noteq> Inl (Wrapped FuelExhausted)"
  using decode_enough_fuel(1) [of "newDecoder source" "decodeFuel (newDecoder source)" 0]
  by (auto simp: decodeDocument_def decodeFuel_def split: sum.splits prod.splits token_error.splits)

end
