(* ===== verification/JsonRound.thy ===== *)
theory JsonRound
  imports JsonLex
begin

text \<open>
  The formatted output decodes to the document it was made from. \<^verbatim>\<open>docOk\<close> is what
  every decoded document satisfies (valid UTF-8 text, number literals, keys held once, at most
  100 levels); for such a document the formatted bytes decode to it again, with the entries of
  every object in key order, so canonical Configs are fixed points of canonicalization.
\<close>

section \<open>Valid UTF-8\<close>

function (sequential) utf8 :: "string \<Rightarrow> bool" where
  "utf8 [] = True"
| "utf8 (c # s) =
     (if runeSize (c # s) = 0 then False else utf8 (drop (runeSize (c # s)) (c # s)))"
  by pat_completeness auto
termination
  by (relation "measure length") auto

lemma runeSize_le: "runeSize s \<le> length s"
  by (auto simp: runeSize_def Suc_le_eq)

lemma lead_bytes:
  "rune2 a b \<Longrightarrow> \<not> byteIn 0 0x7F a"
  "rune3 a b c \<Longrightarrow> \<not> byteIn 0 0x7F a" "rune3 a b c \<Longrightarrow> \<not> rune2 a b'"
  "rune4 a b c d \<Longrightarrow> \<not> byteIn 0 0x7F a" "rune4 a b c d \<Longrightarrow> \<not> rune2 a b'"
  "rune4 a b c d \<Longrightarrow> \<not> rune3 a b' c'"
  by (auto simp: rune2_def rune3_def rune4_def byteIn_def)

text \<open>The size depends on the sequence alone.\<close>

lemma runeSize_cong:
  assumes "runeSize s \<noteq> 0" and "take (runeSize s) t = take (runeSize s) s"
  shows "runeSize t = runeSize s"
proof -
  have nth: "runeSize s \<le> length t \<and> (\<forall>i < runeSize s. t ! i = s ! i)"
    using assms(2) runeSize_le [of s]
    by (metis length_take min.absorb_iff2 min_def nth_take)
  consider "runeSize s = 1" "byteIn 0 0x7F (s ! 0)"
    | "runeSize s = 2" "rune2 (s ! 0) (s ! 1)"
    | "runeSize s = 3" "rune3 (s ! 0) (s ! 1) (s ! 2)"
    | "runeSize s = 4" "rune4 (s ! 0) (s ! 1) (s ! 2) (s ! 3)"
    using assms(1) by (auto simp: runeSize_def split: if_splits)
  then show ?thesis
  proof cases
    case 1
    with nth have "t \<noteq> []" "byteIn 0 0x7F (t ! 0)" by auto
    then show ?thesis using 1(1) by (simp add: runeSize_def)
  next
    case 2
    with nth have "2 \<le> length t" "rune2 (t ! 0) (t ! 1)" by auto
    then show ?thesis using 2(1) lead_bytes(1) by (auto simp: runeSize_def)
  next
    case 3
    with nth have "3 \<le> length t" "rune3 (t ! 0) (t ! 1) (t ! 2)" by auto
    then show ?thesis using 3(1) lead_bytes(2,3) by (auto simp: runeSize_def)
  next
    case 4
    with nth have "4 \<le> length t" "rune4 (t ! 0) (t ! 1) (t ! 2) (t ! 3)" by auto
    then show ?thesis using 4(1) lead_bytes(4,5,6) by (auto simp: runeSize_def)
  qed
qed

lemma runeSize_append: "runeSize s \<noteq> 0 \<Longrightarrow> runeSize (s @ t) = runeSize s"
  using runeSize_le [of s] by (intro runeSize_cong) auto

lemma runeSize_take: "runeSize s \<noteq> 0 \<Longrightarrow> runeSize (take (runeSize s) s) = runeSize s"
  by (intro runeSize_cong) auto

lemma utf8_append: "utf8 s \<Longrightarrow> utf8 t \<Longrightarrow> utf8 (s @ t)"
proof (induction s rule: utf8.induct)
  case 1
  then show ?case by simp
next
  case (2 c s)
  let ?n = "runeSize (c # s)"
  have n: "?n \<noteq> 0" using 2(2) by (auto split: if_splits)
  then have eq: "runeSize (c # s @ t) = ?n" using runeSize_append [of "c # s" t] by simp
  have "drop ?n ((c # s) @ t) = drop ?n (c # s) @ t"
    using runeSize_le [of "c # s"] by (simp only: drop_append) simp
  then show ?case using 2 n eq by simp
qed

lemma utf8_one: "runeSize s = length s \<Longrightarrow> utf8 s"
  by (cases s) auto

lemma utf8_take: "runeSize s \<noteq> 0 \<Longrightarrow> utf8 (take (runeSize s) s)"
  using runeSize_take [of s] runeSize_le [of s] by (intro utf8_one) auto

lemma utf8_replacement: "utf8 replacement"
  by code_simp

lemma utf8_ascii: "(of_char c :: nat) \<le> 0x7F \<Longrightarrow> utf8 [c]"
  by (simp add: runeSize_def byteIn_def)

lemma of_char_char_of_256 [simp]: "n < 256 \<Longrightarrow> (of_char (char_of n :: char) :: nat) = n"
  by (simp add: of_char_of)

lemma char_of_eq_iff: "n < 256 \<Longrightarrow> char_of n = c \<longleftrightarrow> n = (of_char c :: nat)"
  by (metis of_char_char_of_256 char_of_char)

lemma utf8_rune3: "rune3 a b c \<Longrightarrow> utf8 [a, b, c]"
  using lead_bytes(2,3) [of a b c] by (intro utf8_one) (auto simp: runeSize_def)

lemma utf8_rune4: "rune4 a b c d \<Longrightarrow> utf8 [a, b, c, d]"
  using lead_bytes(4,5,6) [of a b c d] by (intro utf8_one) (auto simp: runeSize_def)

lemma second_byte3:
  fixes a q :: nat
  assumes "a < 16" and "q < 64" and "a = 0 \<Longrightarrow> 0x20 \<le> q" and "a = 13 \<Longrightarrow> q < 32"
  shows "byteIn (if char_of (0xE0 + a) = CHR 0xE0 then 0xA0 else 0x80)
    (if char_of (0xE0 + a) = CHR 0xED then 0x9F else 0xBF) (char_of (0x80 + q))"
  using assms by (auto simp: byteIn_def char_of_eq_iff)

lemma second_byte4:
  fixes a q :: nat
  assumes "a < 5" and "q < 64" and "a = 0 \<Longrightarrow> 0x10 \<le> q" and "a = 4 \<Longrightarrow> q < 16"
  shows "byteIn (if char_of (0xF0 + a) = CHR 0xF0 then 0x90 else 0x80)
    (if char_of (0xF0 + a) = CHR 0xF4 then 0x8F else 0xBF) (char_of (0x80 + q))"
  using assms by (auto simp: byteIn_def char_of_eq_iff)

lemma cont_char_of: "(n :: nat) < 64 \<Longrightarrow> cont (char_of (0x80 + n))"
  by (simp add: cont_def)

lemma utf8_encodeRune: "utf8 (encodeRune r)"
proof -
  consider "r \<le> 0x7F" | "0x7F < r" "r \<le> 0x7FF"
    | "0x7FF < r" "(0xD800 \<le> r \<and> r \<le> 0xDFFF) \<or> r > 0x10FFFF"
    | "0x7FF < r" "r < 0xD800 \<or> 0xDFFF < r" "r \<le> 0xFFFF"
    | "0xFFFF < r" "r \<le> 0x10FFFF" by linarith
  then show ?thesis
  proof cases
    case 1
    then show ?thesis by (simp add: encodeRune_def runeSize_def byteIn_def)
  next
    case 2
    then have "0xC2 \<le> 0xC0 + r div 64" "0xC0 + r div 64 \<le> 0xDF" "r mod 64 < 64" by auto
    then show ?thesis using 2
      by (intro utf8_one) (simp add: encodeRune_def runeSize_def rune2_def byteIn_def cont_def)
  next
    case 3
    then show ?thesis using utf8_replacement by (auto simp: encodeRune_def)
  next
    case 4
    have b: "r div 4096 < 16" using 4 by auto
    have lo: "r div 4096 = 0 \<Longrightarrow> 0x20 \<le> r div 64 mod 64" using 4(1) by auto
    have hi: "r div 64 mod 64 < 32" if "r div 4096 = 13"
    proof -
      have "r div 64 div 64 = 13" using that by (simp add: div_mult2_eq [symmetric])
      moreover have "r div 64 < 864" using 4(2) that by linarith
      ultimately show ?thesis by (simp only: modulo_nat_def [of "r div 64"])
    qed
    let ?a = "char_of (0xE0 + r div 4096) :: char" and ?b = "char_of (0x80 + r div 64 mod 64) :: char"
    have "byteIn (if ?a = CHR 0xE0 then 0xA0 else 0x80) (if ?a = CHR 0xED then 0x9F else 0xBF) ?b"
      by (rule second_byte3) (use lo hi b in simp_all)
    then have "rune3 ?a ?b (char_of (0x80 + r mod 64))"
      using b by (simp add: rune3_def cont_char_of) (simp add: byteIn_def)
    then show ?thesis using 4 by (simp add: encodeRune_def utf8_rune3 utf8_replacement del: utf8.simps)
  next
    case 5
    have b: "r div 262144 < 5" using 5 by auto
    have lo: "r div 262144 = 0 \<Longrightarrow> 0x10 \<le> r div 4096 mod 64" using 5(1) by auto
    have hi: "r div 4096 mod 64 < 16" if "r div 262144 = 4"
    proof -
      have "r div 4096 div 64 = 4" using that by (simp add: div_mult2_eq [symmetric])
      moreover have "r div 4096 < 272" using 5(2) by linarith
      ultimately show ?thesis by (simp only: modulo_nat_def [of "r div 4096"])
    qed
    let ?a = "char_of (0xF0 + r div 262144) :: char" and ?b = "char_of (0x80 + r div 4096 mod 64) :: char"
    have "byteIn (if ?a = CHR 0xF0 then 0x90 else 0x80) (if ?a = CHR 0xF4 then 0x8F else 0xBF) ?b"
      by (rule second_byte4) (use lo hi b in simp_all)
    then have "rune4 ?a ?b (char_of (0x80 + r div 64 mod 64)) (char_of (0x80 + r mod 64))"
      using b by (simp add: rune4_def cont_char_of) (simp add: byteIn_def)
    then show ?thesis using 5 by (simp add: encodeRune_def utf8_rune4 del: utf8.simps)
  qed
qed

section \<open>Strings\<close>

text \<open>What the tokenizer delivers is valid UTF-8.\<close>

lemma unicodeEscape_utf8: "unicodeEscape s = Some (b, r) \<Longrightarrow> utf8 b"
  by (auto simp: unicodeEscape_def utf8_encodeRune utf8_replacement split: option.splits if_splits)

lemma simpleEscape_ascii: "simpleEscape e = Some c \<Longrightarrow> (of_char c :: nat) \<le> 0x7F"
  by (auto simp: simpleEscape_def split: if_splits)

lemma stringChar_utf8: "stringChar s = Some (b, r) \<Longrightarrow> utf8 b"
proof -
  assume s: "stringChar s = Some (b, r)"
  then obtain c t where ct: "s = c # t" by (cases s) (auto simp: stringChar_def)
  show ?thesis
  proof (cases "c = CHR 0x5C")
    case True
    with s ct obtain e t' where t: "t = e # t'" by (cases t) (auto simp: stringChar_def)
    show ?thesis
    proof (cases "e = CHR ''u''")
      case True
      with s ct t \<open>c = CHR 0x5C\<close> have "unicodeEscape t' = Some (b, r)" by (simp add: stringChar_def)
      then show ?thesis by (rule unicodeEscape_utf8)
    next
      case False
      with s ct t \<open>c = CHR 0x5C\<close> obtain x where "simpleEscape e = Some x" "b = [x]"
        by (auto simp: stringChar_def)
      then show ?thesis using simpleEscape_ascii utf8_ascii by blast
    qed
  next
    case False
    then show ?thesis using s ct utf8_take [of s] utf8_replacement
      by (auto simp: stringChar_def split: if_splits)
  qed
qed

lemma lexString_utf8: "lexString s = Some (b, r) \<Longrightarrow> utf8 b"
proof (induction s arbitrary: b r rule: lexString.induct)
  case 1
  then show ?case by simp
next
  case (2 c s)
  show ?case
  proof (cases "c = CHR 0x22")
    case True
    then show ?thesis using 2(2) by simp
  next
    case False
    with 2(2) obtain x y t where "stringChar (c # s) = Some (x, y)" "lexString y = Some (t, r)"
      "b = x @ t"
      by (auto split: option.splits)
    with 2(1) False show ?thesis using stringChar_utf8 utf8_append by metis
  qed
qed

text \<open>The escapes written are read back.\<close>

lemma getu4_encodeHex: "getu4 (''00'' @ encodeHex [c] @ s) = Some (of_char c)"
proof -
  have "(of_char c :: nat) div 16 < 16" "(of_char c :: nat) mod 16 < 16"
    by (simp_all add: less_mult_imp_div_less)
  moreover have "fromHexChar CHR ''0'' = Some 0" by code_simp
  ultimately show ?thesis by (simp add: getu4_def)
qed

lemma unicodeEscape_ascii:
  assumes "(of_char c :: nat) \<le> 0x7F"
  shows "unicodeEscape (''00'' @ encodeHex [c] @ t) = Some ([c], t)"
  using assms unfolding unicodeEscape_def getu4_encodeHex
  by (simp add: encodeRune_def)

lemma stringChar_escapeASCII:
  assumes "byteIn 0 0x7F c"
  shows "stringChar (escapeASCII c @ t) = Some ([c], t)" and "hd (escapeASCII c @ t) \<noteq> CHR 0x22"
proof -
  have le: "(of_char c :: nat) \<le> 0x7F" using assms by (simp add: byteIn_def)
  show "stringChar (escapeASCII c @ t) = Some ([c], t)"
  proof (cases "escapeASCII c = CHR 0x5C # ''u00'' @ encodeHex [c]")
    case True
    then show ?thesis using unicodeEscape_ascii [OF le, of t] by (simp add: stringChar_def)
  next
    case False
    show ?thesis
    proof (cases "escapeASCII c = [c]")
      case True
      then have "c \<noteq> CHR 0x5C" "\<not> (of_char c :: nat) < 0x20"
        by (auto simp: escapeASCII_def split: if_splits)
      then show ?thesis using True assms by (simp add: stringChar_def runeSize_def)
    next
      case nlit: False
      then obtain e where "escapeASCII c = [CHR 0x5C, e]" "e \<noteq> CHR ''u''" "simpleEscape e = Some c"
        using False by (auto simp: escapeASCII_def simpleEscape_def split: if_splits)
      then show ?thesis by (simp add: stringChar_def)
    qed
  qed
  show "hd (escapeASCII c @ t) \<noteq> CHR 0x22" by (auto simp: escapeASCII_def)
qed

lemma stringChar_literal:
  assumes "runeSize s \<noteq> 0" and "runeSize s \<noteq> 1"
  shows "stringChar (take (runeSize s) s @ t) = Some (take (runeSize s) s, t)"
    and "hd (take (runeSize s) s @ t) \<noteq> CHR 0x22"
proof -
  let ?n = "runeSize s"
  obtain c u where s: "s = c # u" using assms(1) by (cases s) (auto simp: runeSize_def)
  have n: "length (take ?n s) = ?n" using runeSize_le by simp
  have size: "runeSize (take ?n s @ t) = ?n"
    using runeSize_append [of "take ?n s" t] runeSize_take [of s] assms(1) by simp
  have "\<not> byteIn 0 0x7F c" using assms(2) s by (auto simp: runeSize_def)
  then have big: "c \<noteq> CHR 0x5C" "\<not> (of_char c :: nat) < 0x20" "c \<noteq> CHR 0x22"
    by (auto simp: byteIn_def)
  obtain m where m: "?n = Suc m" using assms(1) by (cases ?n) auto
  then have "take ?n s @ t = c # take m u @ t" using s by simp
  then show "stringChar (take ?n s @ t) = Some (take ?n s, t)" and "hd (take ?n s @ t) \<noteq> CHR 0x22"
    using big size n s m by (simp_all add: stringChar_def)
qed

lemma stringChar_separators:
  "stringChar (CHR 0x5C # ''u2028'' @ t) = Some ([CHR 0xE2, CHR 0x80, CHR 0xA8], t)"
  "stringChar (CHR 0x5C # ''u2029'' @ t) = Some ([CHR 0xE2, CHR 0x80, CHR 0xA9], t)"
proof -
  have "fromHexChar CHR ''2'' = Some 2" "fromHexChar CHR ''0'' = Some 0"
    "fromHexChar CHR ''8'' = Some 8" "fromHexChar CHR ''9'' = Some 9" by code_simp+
  moreover have "encodeRune 0x2028 = [CHR 0xE2, CHR 0x80, CHR 0xA8]"
    "encodeRune 0x2029 = [CHR 0xE2, CHR 0x80, CHR 0xA9]"
    by (simp_all add: encodeRune_def char_of_eq_iff)
  ultimately show
    "stringChar (CHR 0x5C # ''u2028'' @ t) = Some ([CHR 0xE2, CHR 0x80, CHR 0xA8], t)"
    "stringChar (CHR 0x5C # ''u2029'' @ t) = Some ([CHR 0xE2, CHR 0x80, CHR 0xA9], t)"
    by (simp_all add: stringChar_def unicodeEscape_def getu4_def)
qed

lemma lexString_step:
  assumes "stringChar s = Some (b, r)" and "hd s \<noteq> CHR 0x22"
  shows "lexString s = map_option (\<lambda>(t, r'). (b @ t, r')) (lexString r)"
  using assms by (cases s) (simp_all add: stringChar_def)

lemma lexString_escapeJSON:
  "utf8 s \<Longrightarrow> lexString (escapeJSON s @ CHR 0x22 # r) = Some (s, r)"
proof (induction s rule: escapeJSON.induct)
  case 1
  then show ?case by simp
next
  case (2 c s)
  let ?n = "runeSize (c # s)" and ?q = "CHR 0x22 # r"
  have n: "?n \<noteq> 0" and rest: "utf8 (drop ?n (c # s))" using 2(6) by (auto split: if_splits)
  have split: "take ?n (c # s) @ drop ?n (c # s) = c # s" by simp
  show ?case
  proof (cases "?n = 1")
    case True
    then have ascii: "byteIn 0 0x7F c" by (auto simp: runeSize_def split: if_splits)
    have esc: "escapeJSON (c # s) = escapeASCII c @ escapeJSON s" using True by simp
    have "lexString (escapeJSON s @ ?q) = Some (s, r)" using 2(1) True rest by simp
    then show ?thesis
      using lexString_step [OF stringChar_escapeASCII [OF ascii, of "escapeJSON s @ ?q"]]
      by (simp add: esc del: escapeJSON.simps)
  next
    case not1: False
    show ?thesis
    proof (cases "take 3 (c # s) \<in> {[CHR 0xE2, CHR 0x80, CHR 0xA8], [CHR 0xE2, CHR 0x80, CHR 0xA9]}")
      case False
      then have ih: "lexString (escapeJSON (drop ?n (c # s)) @ ?q) = Some (drop ?n (c # s), r)"
        using 2(5) [OF refl not1 n _ _ rest] by simp
      have esc: "escapeJSON (c # s) = take ?n (c # s) @ escapeJSON (drop ?n (c # s))"
        using False n not1 by (simp only: escapeJSON.simps Let_def) auto
      have "lexString (take ?n (c # s) @ (escapeJSON (drop ?n (c # s)) @ ?q)) = Some (c # s, r)"
        using lexString_step [OF stringChar_literal [OF n not1]] ih split by simp
      then show ?thesis using esc by simp
    next
      case True
      then have n3: "?n = 3"
        by (cases s; cases "tl s") (auto simp: runeSize_def rune2_def rune3_def byteIn_def cont_def)
      from True consider
          (a) "take 3 (c # s) = [CHR 0xE2, CHR 0x80, CHR 0xA8]"
        | (b) "take 3 (c # s) = [CHR 0xE2, CHR 0x80, CHR 0xA9]" by blast
      then show ?thesis
      proof cases
        case a
        have ih: "lexString (escapeJSON (drop ?n (c # s)) @ ?q) = Some (drop ?n (c # s), r)"
          using 2(3) [OF refl not1 n a rest] .
        have esc: "escapeJSON (c # s) = CHR 0x5C # ''u2028'' @ escapeJSON (drop ?n (c # s))"
          using a n not1 by (simp only: escapeJSON.simps Let_def) simp
        have "[CHR 0xE2, CHR 0x80, CHR 0xA8] @ drop ?n (c # s) = c # s"
          using append_take_drop_id [of 3 "c # s"] unfolding n3 a .
        then show ?thesis
          using lexString_step [OF stringChar_separators(1)] ih esc by simp
      next
        case b
        then have na: "take 3 (c # s) \<noteq> [CHR 0xE2, CHR 0x80, CHR 0xA8]" by simp
        have ih: "lexString (escapeJSON (drop ?n (c # s)) @ ?q) = Some (drop ?n (c # s), r)"
          using 2(4) [OF refl not1 n na b rest] .
        have esc: "escapeJSON (c # s) = CHR 0x5C # ''u2029'' @ escapeJSON (drop ?n (c # s))"
          using b n not1 by (simp only: escapeJSON.simps Let_def) simp
        have "[CHR 0xE2, CHR 0x80, CHR 0xA9] @ drop ?n (c # s) = c # s"
          using append_take_drop_id [of 3 "c # s"] unfolding n3 b .
        then show ?thesis
          using lexString_step [OF stringChar_separators(2)] ih esc by simp
      qed
    qed
  qed
qed

section \<open>Numbers\<close>

text \<open>The literals of the JSON grammar.\<close>

definition integerText :: "string \<Rightarrow> bool" where
  "integerText i = (i = ''0'' \<or> (i \<noteq> [] \<and> list_all digit i \<and> hd i \<noteq> CHR ''0''))"

definition fractionText :: "string \<Rightarrow> bool" where
  "fractionText f = (f = [] \<or> (hd f = CHR ''.'' \<and> tl f \<noteq> [] \<and> list_all digit (tl f)))"

definition exponentText :: "string \<Rightarrow> bool" where
  "exponentText e =
     (e = [] \<or> (\<exists>c sign ds. e = c # sign @ ds \<and> (c = CHR ''e'' \<or> c = CHR ''E'') \<and>
                  (sign = [] \<or> sign = ''+'' \<or> sign = ''-'') \<and> ds \<noteq> [] \<and> list_all digit ds))"

definition numberText :: "string \<Rightarrow> bool" where
  "numberText n =
     (\<exists>minus i f e. n = minus @ i @ f @ e \<and> (minus = [] \<or> minus = ''-'') \<and>
        integerText i \<and> fractionText f \<and> exponentText e)"

text \<open>What may follow a number without extending it.\<close>

definition stops :: "string \<Rightarrow> bool" where
  "stops r = (case r of [] \<Rightarrow> True | c # _ \<Rightarrow> \<not> digit c \<and> c \<noteq> CHR ''.'' \<and> c \<noteq> CHR ''e'' \<and> c \<noteq> CHR ''E'')"

lemma digit_facts:
  "digit CHR ''0''" "\<not> digit CHR ''.''" "\<not> digit CHR ''e''" "\<not> digit CHR ''E''" "\<not> digit CHR ''+''"
  "\<not> digit CHR ''-''"
  by (simp_all add: digit_def byteIn_def)

lemma span_digits:
  assumes "list_all digit ds" and "r = [] \<or> \<not> digit (hd r)"
  shows "takeWhile digit (ds @ r) = ds" "dropWhile digit (ds @ r) = r"
  using assms by (induction ds) (auto simp: neq_Nil_conv takeWhile_eq_Nil_iff split: list.splits, (cases r; auto)+)

lemma lexInteger_text:
  "integerText i \<Longrightarrow> r = [] \<or> \<not> digit (hd r) \<Longrightarrow> lexInteger (i @ r) = Some (i, r)"
  using span_digits [of "tl i" r]
  by (cases i) (auto simp: integerText_def lexInteger_def)

lemma lexInteger_sound: "lexInteger s = Some (i, r) \<Longrightarrow> s = i @ r \<and> integerText i"
  by (auto simp: lexInteger_def integerText_def list_all_iff dest: set_takeWhileD
      split: list.splits if_splits)

lemma lexFraction_text:
  assumes "fractionText f" and "r = [] \<or> (\<not> digit (hd r) \<and> hd r \<noteq> CHR ''.'')"
  shows "lexFraction (f @ r) = Some (f, r)"
proof (cases f)
  case Nil
  then show ?thesis using assms by (cases r) (auto simp: lexFraction_def)
next
  case (Cons c ds)
  then have ds: "c = CHR ''.''" "ds \<noteq> []" "list_all digit ds"
    using assms(1) by (auto simp: fractionText_def)
  have "r = [] \<or> \<not> digit (hd r)" using assms(2) by blast
  with span_digits [OF ds(3)] have "takeWhile digit (ds @ r) = ds" "dropWhile digit (ds @ r) = r"
    by blast+
  then show ?thesis using Cons ds by (simp add: lexFraction_def)
qed

lemma lexFraction_sound: "lexFraction s = Some (f, r) \<Longrightarrow> s = f @ r \<and> fractionText f"
  by (auto simp: lexFraction_def fractionText_def list_all_iff dest: set_takeWhileD
      split: list.splits if_splits)

lemma lexExponent_text:
  assumes "exponentText e" and "stops r"
  shows "lexExponent (e @ r) = Some (e, r)"
proof (cases e)
  case Nil
  then show ?thesis using assms by (cases r) (auto simp: lexExponent_def stops_def)
next
  case (Cons c u)
  with assms(1) obtain sign ds where u: "u = sign @ ds" "c = CHR ''e'' \<or> c = CHR ''E''"
    "sign = [] \<or> sign = ''+'' \<or> sign = ''-''" "ds \<noteq> []" "list_all digit ds"
    by (auto simp: exponentText_def)
  have r: "r = [] \<or> \<not> digit (hd r)" using assms(2) by (cases r) (auto simp: stops_def)
  obtain d ds' where d: "ds = d # ds'" "digit d" using u(4,5) by (cases ds) auto
  then have "d \<noteq> CHR ''+''" "d \<noteq> CHR ''-''" using digit_facts by auto
  then have "(case u @ r of x # _ \<Rightarrow> if x = CHR ''+'' \<or> x = CHR ''-'' then [x] else [] | [] \<Rightarrow> []) = sign"
    using u(1,3) d(1) by auto
  then show ?thesis using span_digits [OF u(5) r] u Cons by (auto simp: lexExponent_def Let_def)
qed

lemma lexExponent_sound: "lexExponent s = Some (e, r) \<Longrightarrow> s = e @ r \<and> exponentText e"
proof -
  assume e: "lexExponent s = Some (e, r)"
  show ?thesis
  proof (cases s)
    case Nil
    then show ?thesis using e by (simp add: lexExponent_def exponentText_def)
  next
    case (Cons c t)
    obtain sign where sg: "(case t of x # _ \<Rightarrow> if x = CHR ''+'' \<or> x = CHR ''-'' then [x] else [] | [] \<Rightarrow> []) = sign"
      by blast
    then have sign: "sign = [] \<or> sign = ''+'' \<or> sign = ''-''" by (auto split: list.splits if_splits)
    from sg obtain u where u: "t = sign @ u" by (auto split: list.splits if_splits)
    show ?thesis
    proof (cases "c = CHR ''e'' \<or> c = CHR ''E''")
      case True
      have lex: "lexExponent s = (if takeWhile digit u = [] then None
          else Some (c # sign @ takeWhile digit u, dropWhile digit u))"
        using True unfolding lexExponent_def Let_def Cons list.case sg by (simp add: u)
      with e have ds: "takeWhile digit u \<noteq> []" "e = c # sign @ takeWhile digit u" "r = dropWhile digit u"
        by (simp_all split: if_splits)
      have "list_all digit (takeWhile digit u)" by (auto simp: list_all_iff dest: set_takeWhileD)
      then have "exponentText e" using ds sign True unfolding exponentText_def by blast
      moreover have "s = e @ r" using Cons ds u by simp
      ultimately show ?thesis by blast
    next
      case False
      then show ?thesis using e Cons by (auto simp: lexExponent_def exponentText_def)
    qed
  qed
qed

lemma number_tails:
  assumes "fractionText f" and "exponentText e" and "stops r"
  shows "f @ e @ r = [] \<or> \<not> digit (hd (f @ e @ r))"
    and "e @ r = [] \<or> (\<not> digit (hd (e @ r)) \<and> hd (e @ r) \<noteq> CHR ''.'')"
proof -
  show e: "e @ r = [] \<or> (\<not> digit (hd (e @ r)) \<and> hd (e @ r) \<noteq> CHR ''.'')"
    using assms(2,3) digit_facts by (cases e; cases r) (auto simp: exponentText_def stops_def)
  then show "f @ e @ r = [] \<or> \<not> digit (hd (f @ e @ r))"
    using assms(1) digit_facts by (cases f) (auto simp: fractionText_def)
qed

lemma integerText_head: "integerText i \<Longrightarrow> \<exists>c t. i = c # t \<and> digit c"
  using digit_facts by (cases i) (auto simp: integerText_def)

lemma lexNumber_text: "numberText n \<Longrightarrow> stops r \<Longrightarrow> lexNumber (n @ r) = Some (n, r)"
proof -
  assume n: "numberText n" and r: "stops r"
  then obtain minus i f e where t: "n = minus @ i @ f @ e" "minus = [] \<or> minus = ''-''"
    "integerText i" "fractionText f" "exponentText e"
    unfolding numberText_def by blast
  obtain c u where i: "i = c # u" "digit c" using integerText_head [OF t(3)] by blast
  then have "c \<noteq> CHR ''-''" using digit_facts by auto
  then have minus: "(case n @ r of x # _ \<Rightarrow> if x = CHR ''-'' then [x] else [] | [] \<Rightarrow> []) = minus"
    using t(1,2) i by auto
  have "lexInteger (i @ f @ e @ r) = Some (i, f @ e @ r)"
    "lexFraction (f @ e @ r) = Some (f, e @ r)" "lexExponent (e @ r) = Some (e, r)"
    using t r number_tails [OF t(4,5) r] by (simp_all add: lexInteger_text lexFraction_text lexExponent_text)
  then show ?thesis unfolding lexNumber_def minus Let_def using t(1) by simp
qed

lemma lexNumber_sound: "lexNumber s = Some (n, r) \<Longrightarrow> s = n @ r \<and> numberText n"
proof -
  assume n: "lexNumber s = Some (n, r)"
  obtain minus where m: "(case s of c # _ \<Rightarrow> if c = CHR ''-'' then [c] else [] | [] \<Rightarrow> []) = minus"
    by blast
  then have minus: "minus = [] \<or> minus = ''-''" by (auto split: list.splits if_splits)
  from m obtain u where u: "s = minus @ u" by (auto split: list.splits if_splits)
  obtain i r1 f r2 e where i: "lexInteger u = Some (i, r1)"
    and f: "lexFraction r1 = Some (f, r2)" and e: "lexExponent r2 = Some (e, r)"
    and res: "n = minus @ i @ f @ e"
    using n unfolding lexNumber_def Let_def m by (auto simp: u split: option.splits)
  have "s = n @ r"
    using lexInteger_sound [OF i] lexFraction_sound [OF f] lexExponent_sound [OF e] res u by simp
  moreover have "numberText n"
    using lexInteger_sound [OF i] lexFraction_sound [OF f] lexExponent_sound [OF e] res minus
    unfolding numberText_def by blast
  ultimately show ?thesis by blast
qed

lemma validFraction_text:
  assumes "fractionText f" and "e = [] \<or> (\<not> digit (hd e) \<and> hd e \<noteq> CHR ''.'')"
  shows "validFraction (f @ e) = e"
proof (cases f)
  case Nil
  then show ?thesis using assms(2) by (auto simp: validFraction_def split: list.splits)
next
  case (Cons c ds)
  then obtain d ds' where ds: "c = CHR ''.''" "ds = d # ds'" "digit d" "list_all digit ds'"
    using assms(1) by (cases ds) (auto simp: fractionText_def)
  have "dropWhile digit (ds' @ e) = e" using assms(2) by (intro span_digits(2) [OF ds(4)]) blast
  then show ?thesis using Cons ds by (simp add: validFraction_def)
qed

lemma validExponent_text:
  assumes "exponentText e"
  shows "validExponent e = Some []"
proof (cases e)
  case Nil
  then show ?thesis by (simp add: validExponent_def)
next
  case (Cons c u)
  with assms obtain sign ds where u: "u = sign @ ds" "c = CHR ''e'' \<or> c = CHR ''E''"
    "sign = [] \<or> sign = ''+'' \<or> sign = ''-''" "ds \<noteq> []" "list_all digit ds"
    by (auto simp: exponentText_def)
  obtain d ds' where d: "ds = d # ds'" "digit d" using u(4,5) by (cases ds) auto
  then have "d \<noteq> CHR ''+''" "d \<noteq> CHR ''-''" using digit_facts by auto
  moreover have "dropWhile digit ds = []" using span_digits(2) [OF u(5), of "[]"] by simp
  ultimately show ?thesis using Cons u d by (auto simp: validExponent_def)
qed

lemma numberText_valid: "numberText n \<Longrightarrow> n \<noteq> [] \<and> validNumber n"
proof -
  assume "numberText n"
  then obtain minus i f e where t: "n = minus @ i @ f @ e" "minus = [] \<or> minus = ''-''"
    "integerText i" "fractionText f" "exponentText e"
    unfolding numberText_def by blast
  obtain c u where i: "i = c # u" "digit c" using integerText_head [OF t(3)] by blast
  then have c: "c \<noteq> CHR ''-''" using digit_facts by auto
  have strip: "(if n \<noteq> [] \<and> hd n = CHR ''-'' then tl n else n) = c # u @ f @ e"
    using t(1,2) i c by auto
  have "stops []" by (simp add: stops_def)
  note tails = number_tails [OF t(4,5) this, simplified]
  have "(if c = CHR ''0'' then u @ f @ e else dropWhile digit (u @ f @ e)) = f @ e"
  proof (cases "c = CHR ''0''")
    case True
    then have "u = []" using t(3) i by (auto simp: integerText_def)
    then show ?thesis using True by simp
  next
    case False
    then have "list_all digit u" using t(3) i by (auto simp: integerText_def)
    from span_digits(2) [OF this] tails(1) False show ?thesis by auto
  qed
  moreover have "validExponent (validFraction (f @ e)) = Some []"
    using validFraction_text [OF t(4)] tails(2) validExponent_text [OF t(5)] by auto
  ultimately have "validNumber n" unfolding validNumber_def strip using i(2) by simp
  then show ?thesis using t(1) i(1) by simp
qed

section \<open>Documents\<close>

text \<open>What decoding guarantees of a value at a nesting depth.\<close>

fun docOk :: "nat \<Rightarrow> json \<Rightarrow> bool"
  and itemsOk :: "nat \<Rightarrow> json list \<Rightarrow> bool"
  and entriesOk :: "nat \<Rightarrow> (string \<times> json) list \<Rightarrow> bool" where
  "docOk d JNull = (d \<le> 100)"
| "docOk d (JBool b) = (d \<le> 100)"
| "docOk d (JNum n) = (d \<le> 100 \<and> numberText n)"
| "docOk d (JStr s) = (d \<le> 100 \<and> utf8 s)"
| "docOk d (JArr vs) = (d \<le> 100 \<and> itemsOk (d + 1) vs)"
| "docOk d (JObj es) = (d \<le> 100 \<and> distinct (map fst es) \<and> entriesOk (d + 1) es)"
| "itemsOk d [] = True"
| "itemsOk d (v # vs) = (docOk d v \<and> itemsOk d vs)"
| "entriesOk d [] = True"
| "entriesOk d ((k, v) # es) = (utf8 k \<and> docOk d v \<and> entriesOk d es)"

lemma itemsOk_iff: "itemsOk d vs \<longleftrightarrow> (\<forall>v \<in> set vs. docOk d v)"
  by (induction vs) auto

lemma entriesOk_iff: "entriesOk d es \<longleftrightarrow> (\<forall>(k, v) \<in> set es. utf8 k \<and> docOk d v)"
  by (induction es) auto

lemma docOk_marshalable:
  shows "docOk d v \<Longrightarrow> marshalable v"
    and "itemsOk d vs \<Longrightarrow> marshalableItems vs"
    and "entriesOk d es \<Longrightarrow> marshalableEntries es"
  by (induction d v and d vs and d es rule: docOk_itemsOk_entriesOk.induct)
    (auto simp: marshalScalar_def numberText_valid)

lemma docOk_wf:
  shows "docOk d v \<Longrightarrow> wf_json v"
    and "itemsOk d vs \<Longrightarrow> wf_items vs"
    and "entriesOk d es \<Longrightarrow> wf_entries es"
  by (induction d v and d vs and d es rule: docOk_itemsOk_entriesOk.induct) auto

definition tokenOk :: "jtoken \<Rightarrow> bool" where
  "tokenOk t = (case t of TNumber n \<Rightarrow> numberText n | TString s \<Rightarrow> utf8 s | _ \<Rightarrow> True)"

lemma lexScalar_ok: "lexScalar s = Some (t, r) \<Longrightarrow> tokenOk t"
  by (auto simp: lexScalar_def tokenOk_def split: list.splits if_splits
      dest: lexString_utf8 lexNumber_sound)

lemma tokenAt_ok: "tokenAt s d = (Inr t, d') \<Longrightarrow> tokenOk t"
  by (auto simp: tokenAt_def openToken_def closeToken_def valueToken_def
      split: list.splits if_splits option.splits dest: lexString_utf8 lexScalar_ok)
    (auto simp: tokenOk_def dest: lexString_utf8)

lemma Token_ok: "Token d = (Inr t, d') \<Longrightarrow> tokenOk t"
  by (auto simp: Token_def Let_def split: list.splits if_splits dest: tokenAt_ok)

lemma decode_docOk:
  shows "decodeJSONValue fuel d depth = Inr (v, d') \<Longrightarrow> docOk depth v"
    and "decodeObject fuel d depth object = Inr (v, d') \<Longrightarrow> depth \<le> 100 \<Longrightarrow>
      distinct (map fst object) \<Longrightarrow> entriesOk (depth + 1) object \<Longrightarrow> docOk depth v"
    and "decodeArray fuel d depth array = Inr (v, d') \<Longrightarrow> depth \<le> 100 \<Longrightarrow>
      itemsOk (depth + 1) array \<Longrightarrow> docOk depth v"
proof (induction fuel d depth and fuel d depth object and fuel d depth array
    arbitrary: v d' and v d' and v d'
    rule: decodeJSONValue_decodeObject_decodeArray.induct)
  case (2 fuel d depth)
  then obtain t d1 where t: "\<not> depth > 100" "Token d = (Inr t, d1)"
    by (auto split: if_splits prod.splits sum.splits)
  note ih = 2(1,2) [OF t(1) t(2) [symmetric] refl]
  have "tokenOk t" using t(2) by (rule Token_ok)
  then show ?case using ih 2(3) t by (cases t) (auto simp: tokenOk_def)
next
  case (4 fuel d depth object)
  show ?case
  proof (cases "More d")
    case True
    with 4(3) obtain key d1 where k: "Token d = (Inr (TString key), d1)" "key \<notin> fst ` set object"
      by (auto split: prod.splits sum.splits jtoken.splits if_splits)
    with 4(3) True obtain w d2 where w: "decodeJSONValue fuel d1 (depth + 1) = Inr (w, d2)"
      and rest: "decodeObject fuel d2 depth (object @ [(key, w)]) = Inr (v, d')"
      by (auto split: sum.splits)
    have "utf8 key" using Token_ok [OF k(1)] by (simp add: tokenOk_def)
    moreover have "docOk (depth + 1) w" using 4(1) [OF True k(1) [symmetric] refl refl k(2) w] .
    ultimately show ?thesis
      using 4(2) [OF True k(1) [symmetric] refl refl k(2) w refl rest] 4(4-6) k(2)
      by (auto simp: entriesOk_iff)
  next
    case False
    with 4(3) have "v = JObj object"
      by (auto split: prod.splits sum.splits jtoken.splits)
    then show ?thesis using 4(4-6) by simp
  qed
next
  case (6 fuel d depth array)
  show ?case
  proof (cases "More d")
    case True
    with 6(3) obtain w d2 where w: "decodeJSONValue fuel d (depth + 1) = Inr (w, d2)"
      and rest: "decodeArray fuel d2 depth (array @ [w]) = Inr (v, d')"
      by (auto split: sum.splits)
    have "docOk (depth + 1) w" using 6(1) [OF True w] .
    then show ?thesis using 6(2) [OF True w refl rest] 6(4,5) by (auto simp: itemsOk_iff)
  next
    case False
    with 6(3) have "v = JArr array"
      by (auto split: prod.splits sum.splits jtoken.splits)
    then show ?thesis using 6(4,5) by simp
  qed
qed simp_all

lemma decodeDocument_docOk: "decodeDocument s = Inr v \<Longrightarrow> docOk 0 v"
  by (auto simp: decodeDocument_def split: sum.splits prod.splits token_error.splits
      dest: decode_docOk(1))

section \<open>The formatted text of a document in key order\<close>

text \<open>Objects listed in key order, at every level.\<close>

fun canonJ :: "json \<Rightarrow> json"
  and canonItems :: "json list \<Rightarrow> json list"
  and canonEntries :: "(string \<times> json) list \<Rightarrow> (string \<times> json) list" where
  "canonJ (JArr vs) = JArr (canonItems vs)"
| "canonJ (JObj es) = JObj (sort_key fst (canonEntries es))"
| "canonJ v = v"
| "canonItems [] = []"
| "canonItems (v # vs) = canonJ v # canonItems vs"
| "canonEntries [] = []"
| "canonEntries ((k, v) # es) = (k, canonJ v) # canonEntries es"

fun inOrder :: "json \<Rightarrow> bool"
  and itemsInOrder :: "json list \<Rightarrow> bool"
  and entriesInOrder :: "(string \<times> json) list \<Rightarrow> bool" where
  "inOrder (JArr vs) = itemsInOrder vs"
| "inOrder (JObj es) = (sorted (map fst es) \<and> entriesInOrder es)"
| "inOrder v = True"
| "itemsInOrder [] = True"
| "itemsInOrder (v # vs) = (inOrder v \<and> itemsInOrder vs)"
| "entriesInOrder [] = True"
| "entriesInOrder ((k, v) # es) = (inOrder v \<and> entriesInOrder es)"

lemma canonItems_map: "canonItems vs = map canonJ vs"
  by (induction vs) auto

lemma canonEntries_map: "canonEntries es = map (\<lambda>(k, v). (k, canonJ v)) es"
  by (induction es) auto

lemma itemsInOrder_iff: "itemsInOrder vs \<longleftrightarrow> (\<forall>v \<in> set vs. inOrder v)"
  by (induction vs) auto

lemma entriesInOrder_iff: "entriesInOrder es \<longleftrightarrow> (\<forall>(k, v) \<in> set es. inOrder v)"
  by (induction es) auto

lemma map_fst_canonEntries [simp]: "map fst (canonEntries es) = map fst es"
  by (induction es rule: canonJ_canonItems_canonEntries.induct(3)) auto

lemma inOrder_canonJ:
  shows "inOrder (canonJ v)"
    and "itemsInOrder (canonItems vs)"
    and "entriesInOrder (canonEntries es)"
  by (induction v and vs and es rule: canonJ_canonItems_canonEntries.induct)
    (auto simp: entriesInOrder_iff)

lemma docOk_canonJ:
  shows "docOk d v \<Longrightarrow> docOk d (canonJ v)"
    and "itemsOk d vs \<Longrightarrow> itemsOk d (canonItems vs)"
    and "entriesOk d es \<Longrightarrow> entriesOk d (canonEntries es)"
proof (induction d v and d vs and d es rule: docOk_itemsOk_entriesOk.induct)
  case (6 d es)
  then have "distinct (map fst (canonEntries es))" by simp
  then show ?case using 6 by (auto simp: entriesOk_iff)
qed simp_all

lemma canonJ_inOrder:
  shows "inOrder v \<Longrightarrow> canonJ v = v"
    and "itemsInOrder vs \<Longrightarrow> canonItems vs = vs"
    and "entriesInOrder es \<Longrightarrow> canonEntries es = es"
  by (induction v and vs and es rule: inOrder_itemsInOrder_entriesInOrder.induct)
    (simp_all add: sort_key_sorted)

lemma canonJ_idem: "canonJ (canonJ v) = canonJ v"
  by (rule canonJ_inOrder(1) [OF inOrder_canonJ(1)])

text \<open>The text of the items and entries after the opening bracket, line by line.\<close>

fun itemsText :: "string \<Rightarrow> nat \<Rightarrow> json list \<Rightarrow> string" where
  "itemsText sep i [] = []"
| "itemsText sep i (v # vs) =
     sep @ spaces i @ render i v @ itemsText [CHR '','', CHR 0x0A] i vs"

fun entriesText :: "string \<Rightarrow> nat \<Rightarrow> (string \<times> json) list \<Rightarrow> string" where
  "entriesText sep i [] = []"
| "entriesText sep i ((k, v) # es) =
     sep @ spaces i @ quoteJSON k @ [CHR '':'', CHR '' ''] @ render i v
     @ entriesText [CHR '','', CHR 0x0A] i es"

lemma joinLines_Cons:
  "joinLines (l # ls) = l @ concat (map (\<lambda>m. [CHR '','', CHR 0x0A] @ m) ls)"
  by (induction ls arbitrary: l) auto

lemma itemsText_lines:
  "concat (map (\<lambda>m. [CHR '','', CHR 0x0A] @ m) (renderItems i vs)) =
   itemsText [CHR '','', CHR 0x0A] i vs"
  by (induction vs) auto

lemma entriesText_lines:
  "concat (map (\<lambda>m. [CHR '','', CHR 0x0A] @ m) (map snd (renderEntries i es))) =
   entriesText [CHR '','', CHR 0x0A] i es"
  by (induction es) auto

lemma render_array:
  "render i (JArr vs) =
     (if vs = [] then ''[]''
      else CHR ''['' # itemsText [CHR 0x0A] (i + 2) vs @ CHR 0x0A # spaces i @ '']'')"
  by (cases vs) (simp_all add: bracketed_def joinLines_Cons itemsText_lines [simplified])

lemma map_fst_renderEntries [simp]: "map fst (renderEntries i es) = map fst es"
  by (induction es) auto

lemma render_object:
  "sorted (map fst es) \<Longrightarrow>
   render i (JObj es) =
     (if es = [] then ''{}''
      else CHR ''{'' # entriesText [CHR 0x0A] (i + 2) es @ CHR 0x0A # spaces i @ ''}'')"
proof (cases es)
  case Nil
  then show ?thesis by (simp add: bracketed_def)
next
  case (Cons e es')
  assume s: "sorted (map fst es)"
  then have id: "sort_key fst (renderEntries (i + 2) es) = renderEntries (i + 2) es"
    by (intro sort_key_sorted) simp
  show ?thesis unfolding render.simps id
    by (cases e) (simp add: Cons bracketed_def joinLines_Cons entriesText_lines [simplified])
qed

lemma renderEntries_map:
  "renderEntries i es =
     map (\<lambda>(k, v). (k, spaces i @ quoteJSON k @ [CHR '':'', CHR '' ''] @ render i v)) es"
  by (induction es) auto

lemma insort_key_map_keyed:
  "(\<And>x. key (g x) = key' x) \<Longrightarrow> insort_key key (g x) (map g xs) = map g (insort_key key' x xs)"
  by (induction xs) auto

lemma sort_key_map_keyed:
  "(\<And>x. key (g x) = key' x) \<Longrightarrow> sort_key key (map g xs) = map g (sort_key key' xs)"
  by (induction xs) (auto simp: insort_key_map_keyed)

lemma render_canonJ:
  shows "render i (canonJ v) = render i v"
    and "renderItems i (canonItems vs) = renderItems i vs"
    and "renderEntries i (canonEntries es) = renderEntries i es"
proof (induction v and vs and es arbitrary: i and i and i rule: canonJ_canonItems_canonEntries.induct)
  case (2 es)
  have "sort_key fst (renderEntries (i + 2) (sort_key fst (canonEntries es))) =
        sort_key fst (sort_key fst (renderEntries (i + 2) (canonEntries es)))"
    unfolding renderEntries_map by (subst (2) sort_key_map_keyed [where key' = fst]) auto
  also have "\<dots> = sort_key fst (renderEntries (i + 2) es)"
    using 2 by (simp add: sort_key_sorted)
  finally show ?case by simp
qed simp_all

section \<open>Reading the formatted text\<close>

text \<open>The next token starts at a given text, in a given grammar state.\<close>

definition reads :: "json_decoder \<Rightarrow> string \<Rightarrow> token_state \<Rightarrow> bool" where
  "reads d s st = (\<exists>u. Token d = tokenAt s (d\<lparr> unread := u, tokenState := st \<rparr>))"

definition valueStart :: "char \<Rightarrow> bool" where
  "valueStart c = (\<not> isSpace c \<and> c \<notin> {CHR '':'', CHR '','', CHR '']'', CHR ''}''})"

lemma digit_valueStart: "digit c \<Longrightarrow> valueStart c"
  by (auto simp: digit_def byteIn_def valueStart_def isSpace_def)

lemma numberText_head:
  assumes "numberText n"
  shows "\<exists>c t. n = c # t \<and> (c = CHR ''-'' \<or> digit c)"
proof -
  obtain minus i f e where n: "n = minus @ i @ f @ e" "minus = [] \<or> minus = ''-''" "integerText i"
    using assms unfolding numberText_def by blast
  obtain c t where "i = c # t" "digit c" using integerText_head [OF n(3)] by blast
  then show ?thesis using n(1,2) by auto
qed

lemma render_head: "docOk d v \<Longrightarrow> \<exists>c t. render i v = c # t \<and> valueStart c"
proof (cases v)
  case (JNum n)
  assume "docOk d v"
  then have n: "numberText n" using JNum by simp
  obtain c t where c: "n = c # t" "c = CHR ''-'' \<or> digit c" using numberText_head [OF n] by blast
  have "render i v = n" using numberText_valid [OF n] JNum by (simp add: marshalScalar_def)
  moreover have "valueStart c" using c(2) digit_valueStart by (auto simp: valueStart_def isSpace_def)
  ultimately show ?thesis using c(1) by blast
qed (auto simp: marshalScalar_def quoteJSON_def bracketed_def valueStart_def isSpace_def)

lemma isSpace_spaces: "\<forall>c \<in> set (spaces n). isSpace c"
  by (simp add: spaces_def isSpace_def)

lemma dropWhile_spaces: "\<forall>c \<in> set ws. isSpace c \<Longrightarrow> \<not> isSpace c \<Longrightarrow> dropWhile isSpace (ws @ c # r) = c # r"
  by (induction ws) auto

lemma Token_plain:
  assumes "unread d = ws @ c # r" and "\<forall>x \<in> set ws. isSpace x" and "\<not> isSpace c" "c \<notin> {CHR '':'', CHR '',''}"
  shows "Token d = tokenAt (c # r) d" and "More d \<longleftrightarrow> c \<notin> {CHR '']'', CHR ''}''}"
  using dropWhile_spaces [OF assms(2,3), of r] assms(1,4) by (auto simp: Token_def More_def)

lemma Token_separator:
  assumes "unread d = sep # ws @ c # r" and "\<forall>x \<in> set ws. isSpace x" and "valueStart c"
    and "(sep, tokenState d, st) \<in>
      {(CHR '':'', ObjectColon, ObjectValue), (CHR '','', ArrayComma, ArrayValue), (CHR '','', ObjectComma, ObjectKey)}"
  shows "reads d (c # r) st" and "sep = CHR '','' \<Longrightarrow> More d"
proof -
  have drop: "dropWhile isSpace (ws @ c # r) = c # r"
    using assms(2,3) by (intro dropWhile_spaces) (auto simp: valueStart_def)
  have "\<not> isSpace sep" using assms(4) by (auto simp: isSpace_def)
  then show "reads d (c # r) st" "sep = CHR '','' \<Longrightarrow> More d"
    using assms(1,4) drop by (auto simp: Token_def More_def reads_def)
qed

lemma reads_plain:
  assumes "unread d = ws @ c # r" and "\<forall>x \<in> set ws. isSpace x" and "valueStart c"
  shows "reads d (c # r) (tokenState d)" and "More d"
proof -
  have c: "\<not> isSpace c" "c \<notin> {CHR '':'', CHR '',''}" "c \<notin> {CHR '']'', CHR ''}''}"
    using assms(3) by (auto simp: valueStart_def)
  show "reads d (c # r) (tokenState d)" unfolding reads_def
    by (rule exI [of _ "unread d"]) (simp add: Token_plain(1) [OF assms(1,2) c(1,2)])
  show "More d" using Token_plain(2) [OF assms(1,2) c(1,2)] c(3) by blast
qed

lemma tokenAt_string:
  "utf8 s \<Longrightarrow> tokenValueAllowed (tokenState d) \<Longrightarrow> tokenState d \<noteq> ObjectStart \<Longrightarrow>
   tokenAt (quoteJSON s @ r) d =
     (Inr (TString s), d\<lparr> unread := r, tokenState := tokenValueEnd (tokenState d) \<rparr>)"
  using lexString_escapeJSON [of s r]
  by (auto simp: quoteJSON_def tokenAt_def valueToken_def lexScalar_def tokenValueAllowed_def)

lemma tokenAt_key:
  "utf8 s \<Longrightarrow> tokenState d \<in> {ObjectStart, ObjectKey} \<Longrightarrow>
   tokenAt (quoteJSON s @ r) d = (Inr (TString s), d\<lparr> unread := r, tokenState := ObjectColon \<rparr>)"
  using lexString_escapeJSON [of s r] by (simp add: quoteJSON_def tokenAt_def)

lemma tokenAt_number:
  assumes "numberText n" and "stops r" and "tokenValueAllowed (tokenState d)"
  shows "tokenAt (n @ r) d =
     (Inr (TNumber n), d\<lparr> unread := r, tokenState := tokenValueEnd (tokenState d) \<rparr>)"
proof -
  obtain c t where n: "n = c # t" "c = CHR ''-'' \<or> digit c" using numberText_head [OF assms(1)] by blast
  then have "c \<notin> set '':,[]{}ntf''" "c \<noteq> CHR 0x22" by (auto simp: digit_def byteIn_def)
  then show ?thesis using lexNumber_text [OF assms(1,2)] assms(3) n(1)
    by (auto simp: tokenAt_def valueToken_def lexScalar_def hasPrefix_def)
qed

lemma tokenAt_word:
  assumes "tokenValueAllowed (tokenState d)"
  shows "tokenAt (''null'' @ r) d = (Inr TNull, d\<lparr> unread := r, tokenState := tokenValueEnd (tokenState d) \<rparr>)"
    and "tokenAt (''true'' @ r) d = (Inr (TBool True), d\<lparr> unread := r, tokenState := tokenValueEnd (tokenState d) \<rparr>)"
    and "tokenAt (''false'' @ r) d = (Inr (TBool False), d\<lparr> unread := r, tokenState := tokenValueEnd (tokenState d) \<rparr>)"
  using assms by (simp_all add: tokenAt_def valueToken_def lexScalar_def hasPrefix_def)

lemma tokenValueAllowed_cases:
  "tokenValueAllowed st \<Longrightarrow> st \<noteq> ObjectStart \<and> st \<noteq> ObjectKey"
  by (auto simp: tokenValueAllowed_def)

lemma decode_scalar:
  assumes "docOk depth v" and "\<forall>vs. v \<noteq> JArr vs" and "\<forall>es. v \<noteq> JObj es"
    and "reads d (render i v @ r) st" and "tokenValueAllowed st" and "stops r"
  shows "decodeJSONValue (Suc fuel) d depth = Inr (v, d\<lparr> unread := r, tokenState := tokenValueEnd st \<rparr>)"
proof -
  obtain u where tok: "Token d = tokenAt (render i v @ r) (d\<lparr> unread := u, tokenState := st \<rparr>)"
    using assms(4) unfolding reads_def by blast
  show ?thesis
  proof (cases v)
    case JNull
    then show ?thesis using assms tok by (simp add: marshalScalar_def tokenAt_word [simplified])
  next
    case (JBool b)
    then show ?thesis using assms tok by (cases b) (simp_all add: marshalScalar_def tokenAt_word [simplified])
  next
    case (JNum n)
    then have n: "numberText n" "n \<noteq> [] \<and> validNumber n" using assms(1) numberText_valid by auto
    then have "Token d = (Inr (TNumber n), d\<lparr> unread := r, tokenState := tokenValueEnd st \<rparr>)"
      using tok JNum assms(5,6) by (simp add: marshalScalar_def tokenAt_number)
    then show ?thesis using assms(1) JNum by simp
  next
    case (JStr s)
    then have "Token d = (Inr (TString s), d\<lparr> unread := r, tokenState := tokenValueEnd st \<rparr>)"
      using tok assms(1,5,6) tokenValueAllowed_cases [OF assms(5)]
      by (simp add: marshalScalar_def tokenAt_string)
    then show ?thesis using assms(1) JStr by simp
  qed (use assms(2,3) in auto)
qed

lemma decode_scalar_fuel:
  assumes "docOk depth v" and "\<forall>vs. v \<noteq> JArr vs" and "\<forall>es. v \<noteq> JObj es"
    and "reads d (render i v @ r) st" and "tokenValueAllowed st" and "stops r"
    and "2 * length (unread d) + 1 \<le> fuel"
  shows "decodeJSONValue fuel d depth = Inr (v, d\<lparr> unread := r, tokenState := tokenValueEnd st \<rparr>)"
proof -
  obtain f where "fuel = Suc f" using assms(7) by (cases fuel) auto
  then show ?thesis using decode_scalar [OF assms(1-6), of f] by blast
qed

lemma stops_separator: "stops (CHR '','' # r)"
  by (simp add: stops_def digit_def byteIn_def)

lemma stops_space: "isSpace c \<Longrightarrow> stops (c # r)"
  unfolding isSpace_def by (elim disjE) (simp_all add: stops_def digit_def byteIn_def)

lemma stops_bracket: "stops (CHR '']'' # r)" "stops (CHR ''}'' # r)"
  by (simp_all add: stops_def digit_def byteIn_def)

lemma stops_closing:
  assumes "\<forall>c \<in> set ws. isSpace c"
  shows "stops (ws @ CHR '']'' # r)" and "stops (ws @ CHR ''}'' # r)"
  using assms by (cases ws; simp add: stops_space stops_bracket)+

lemma stops_items:
  "\<forall>c \<in> set ws. isSpace c \<Longrightarrow> stops (itemsText [CHR '','', CHR 0x0A] i vs @ ws @ CHR '']'' # r)"
  using stops_closing by (cases vs) (auto simp: stops_separator)

lemma stops_entries:
  "\<forall>c \<in> set ws. isSpace c \<Longrightarrow> stops (entriesText [CHR '','', CHR 0x0A] i es @ ws @ CHR ''}'' # r)"
  using stops_closing by (cases es) (auto simp: stops_separator)

text \<open>The closing bracket.\<close>

lemma Token_close:
  assumes "unread d = ws @ c # r" and "\<forall>x \<in> set ws. isSpace x" and "tokenStack d = outer # stack"
    and "(c, t, tokenState d) \<in>
      {(CHR '']'', TCloseArray, ArrayStart), (CHR '']'', TCloseArray, ArrayComma),
       (CHR ''}'', TCloseObject, ObjectStart), (CHR ''}'', TCloseObject, ObjectComma)}"
  shows "Token d = (Inr t, d\<lparr> unread := r, tokenState := tokenValueEnd outer, tokenStack := stack \<rparr>)"
    and "\<not> More d"
proof -
  have c: "\<not> isSpace c" "c \<notin> {CHR '':'', CHR '',''}" "c \<in> {CHR '']'', CHR ''}''}"
    using assms(4) by (auto simp: isSpace_def)
  show "\<not> More d" using Token_plain(2) [OF assms(1,2) c(1,2)] c(3) by blast
  show "Token d = (Inr t, d\<lparr> unread := r, tokenState := tokenValueEnd outer, tokenStack := stack \<rparr>)"
  proof -
    have "tokenAt (c # r) d = closeToken t True r d"
      using assms(4) unfolding insert_iff empty_iff prod.inject
      by (elim disjE conjE; simp add: tokenAt_def)
    then show ?thesis unfolding Token_plain(1) [OF assms(1,2) c(1,2)]
      by (simp add: closeToken_def assms(3))
  qed
qed

text \<open>The text before an item or an entry: after the bracket, or after the previous one.\<close>

definition before :: "token_state \<Rightarrow> token_state \<Rightarrow> token_state \<Rightarrow> string \<Rightarrow> json_decoder \<Rightarrow> token_state \<Rightarrow> bool" where
  "before start comma pending sep d st =
     ((sep = [CHR 0x0A] \<and> tokenState d = start \<and> st = start) \<or>
      (sep = [CHR '','', CHR 0x0A] \<and> tokenState d = comma \<and> st = pending))"

lemma before_reads:
  assumes "before start comma pending sep d st" and "unread d = sep @ spaces i @ c # r"
    and "valueStart c" and "(comma, pending) \<in> {(ArrayComma, ArrayValue), (ObjectComma, ObjectKey)}"
  shows "reads d (c # r) st" and "More d"
proof -
  have ws: "\<forall>x \<in> set (CHR 0x0A # spaces i). isSpace x" using isSpace_spaces by (auto simp: isSpace_def)
  from assms(1) consider
      (a) "sep = [CHR 0x0A]" "tokenState d = start" "st = start"
    | (b) "sep = [CHR '','', CHR 0x0A]" "tokenState d = comma" "st = pending"
    unfolding before_def by blast
  then have "reads d (c # r) st \<and> More d"
  proof cases
    case a
    then show ?thesis using reads_plain [of d "CHR 0x0A # spaces i", OF _ ws assms(3)] assms(2) by simp
  next
    case b
    then show ?thesis
      using Token_separator [of d "CHR '',''" "CHR 0x0A # spaces i", OF _ ws assms(3), of r st] assms(2,4)
      by auto
  qed
  then show "reads d (c # r) st" "More d" by blast+
qed

lemma decode_render:
  shows "docOk depth v \<Longrightarrow> inOrder v \<Longrightarrow> reads d (render i v @ r) st \<Longrightarrow> tokenValueAllowed st \<Longrightarrow>
      stops r \<Longrightarrow> 2 * length (unread d) + 1 \<le> fuel \<Longrightarrow>
      decodeJSONValue fuel d depth = Inr (v, d\<lparr> unread := r, tokenState := tokenValueEnd st \<rparr>)"
    and "itemsOk (Suc depth) vs \<Longrightarrow> itemsInOrder vs \<Longrightarrow>
      vs \<noteq> [] \<Longrightarrow> before ArrayStart ArrayComma ArrayValue sep d st \<Longrightarrow>
      unread d = itemsText sep i vs @ ws @ CHR '']'' # r \<Longrightarrow> \<forall>c \<in> set ws. isSpace c \<Longrightarrow>
      tokenStack d = outer # stack \<Longrightarrow> 2 * length (unread d) + 2 \<le> fuel \<Longrightarrow>
      decodeArray fuel d depth acc =
        Inr (JArr (acc @ vs), d\<lparr> unread := r, tokenState := tokenValueEnd outer, tokenStack := stack \<rparr>)"
    and "entriesOk (Suc depth) es \<Longrightarrow> entriesInOrder es \<Longrightarrow> distinct (map fst acc' @ map fst es) \<Longrightarrow>
      es \<noteq> [] \<Longrightarrow> before ObjectStart ObjectComma ObjectKey sep d st \<Longrightarrow>
      unread d = entriesText sep i es @ ws @ CHR ''}'' # r \<Longrightarrow> \<forall>c \<in> set ws. isSpace c \<Longrightarrow>
      tokenStack d = outer # stack \<Longrightarrow> 2 * length (unread d) + 2 \<le> fuel \<Longrightarrow>
      decodeObject fuel d depth acc' =
        Inr (JObj (acc' @ es), d\<lparr> unread := r, tokenState := tokenValueEnd outer, tokenStack := stack \<rparr>)"
proof (induction v and vs and es
    arbitrary: depth d i r st fuel and depth d st i r fuel sep ws acc outer stack
      and depth d st i r fuel sep ws acc' outer stack
    rule: inOrder_itemsInOrder_entriesInOrder.induct)
  case (1 vs)
  then obtain f where f: "fuel = Suc f" by (cases fuel) auto
  obtain u where tok: "Token d = tokenAt (render i (JArr vs) @ r) (d\<lparr> unread := u, tokenState := st \<rparr>)"
    using 1(4) unfolding reads_def by blast
  let ?rest = "tl (render i (JArr vs)) @ r"
  let ?d = "d\<lparr> unread := ?rest, tokenState := ArrayStart, tokenStack := st # tokenStack d \<rparr>"
  have open_: "Token d = (Inr TOpenArray, ?d)"
    unfolding tok using 1(5) by (simp add: render_array tokenAt_def openToken_def del: render.simps)
  have len: "2 * length (unread ?d) + 2 \<le> f" using Token_shorter [OF open_] 1(7) f by simp
  show ?case
  proof (cases "vs = []")
    case True
    then obtain g where g: "f = Suc g" using len by (cases f) auto
    have "Token ?d = (Inr TCloseArray, ?d\<lparr> unread := r, tokenState := tokenValueEnd st, tokenStack := tokenStack d \<rparr>)"
      "\<not> More ?d"
      using Token_close [of ?d "[]" "CHR '']''" r st "tokenStack d" TCloseArray] True
      by (simp_all add: render_array del: render.simps)
    then show ?thesis using 1(2) True f g open_ by simp
  next
    case False
    have "decodeArray f ?d depth [] = Inr (JArr ([] @ vs),
        ?d\<lparr> unread := r, tokenState := tokenValueEnd st, tokenStack := tokenStack d \<rparr>)"
    proof (rule 1(1) [where ws = "CHR 0x0A # spaces i" and i = "i + 2" and sep = "[CHR 0x0A]"])
      show "unread ?d = itemsText [CHR 0x0A] (i + 2) vs @ (CHR 0x0A # spaces i) @ CHR '']'' # r"
        using False by (simp add: render_array del: render.simps)
      show "\<forall>c \<in> set (CHR 0x0A # spaces i). isSpace c"
        using isSpace_spaces by (auto simp: isSpace_def)
    qed (use 1(2,3) False len in \<open>simp_all add: before_def\<close>)
    then show ?thesis using 1(2) f open_ by simp
  qed
next
  case (2 es)
  then obtain f where f: "fuel = Suc f" by (cases fuel) auto
  have ord: "sorted (map fst es)" using 2(3) by simp
  obtain u where tok: "Token d = tokenAt (render i (JObj es) @ r) (d\<lparr> unread := u, tokenState := st \<rparr>)"
    using 2(4) unfolding reads_def by blast
  let ?rest = "tl (render i (JObj es)) @ r"
  let ?d = "d\<lparr> unread := ?rest, tokenState := ObjectStart, tokenStack := st # tokenStack d \<rparr>"
  have open_: "Token d = (Inr TOpenObject, ?d)"
    unfolding tok using 2(5) by (simp add: render_object [OF ord] tokenAt_def openToken_def del: render.simps)
  have len: "2 * length (unread ?d) + 2 \<le> f" using Token_shorter [OF open_] 2(7) f by simp
  show ?case
  proof (cases "es = []")
    case True
    then obtain g where g: "f = Suc g" using len by (cases f) auto
    have "Token ?d = (Inr TCloseObject, ?d\<lparr> unread := r, tokenState := tokenValueEnd st, tokenStack := tokenStack d \<rparr>)"
      "\<not> More ?d"
      using Token_close [of ?d "[]" "CHR ''}''" r st "tokenStack d" TCloseObject] True
      by (simp_all add: bracketed_def)
    then show ?thesis using 2(2) True f g open_ by simp
  next
    case False
    have "decodeObject f ?d depth [] = Inr (JObj ([] @ es),
        ?d\<lparr> unread := r, tokenState := tokenValueEnd st, tokenStack := tokenStack d \<rparr>)"
    proof (rule 2(1) [where ws = "CHR 0x0A # spaces i" and i = "i + 2" and sep = "[CHR 0x0A]"])
      show "unread ?d = entriesText [CHR 0x0A] (i + 2) es @ (CHR 0x0A # spaces i) @ CHR ''}'' # r"
        using False by (simp add: render_object [OF ord] del: render.simps)
      show "\<forall>c \<in> set (CHR 0x0A # spaces i). isSpace c"
        using isSpace_spaces by (auto simp: isSpace_def)
    qed (use 2(2,3) False len in \<open>simp_all add: before_def\<close>)
    then show ?thesis using 2(2) f open_ by simp
  qed
next
  case (5 v vs)
  then obtain f where f: "fuel = Suc f" by (cases fuel) auto
  let ?tail = "itemsText [CHR '','', CHR 0x0A] i vs @ ws @ CHR '']'' # r"
  have v: "docOk (Suc depth) v" "itemsOk (Suc depth) vs" "inOrder v" "itemsInOrder vs"
    using 5(3,4) by simp_all
  have un: "unread d = sep @ spaces i @ render i v @ ?tail" using 5(7) by simp
  obtain c t where c: "render i v = c # t" "valueStart c" using render_head [OF v(1)] by blast
  have rd: "reads d (render i v @ ?tail) st" "More d"
    using before_reads [OF 5(6), of i c "t @ ?tail"] un c by simp_all
  have st: "tokenValueAllowed st" "tokenValueEnd st = ArrayComma" "0 < length sep"
    using 5(6) by (auto simp: before_def tokenValueAllowed_def tokenValueEnd_def)
  let ?d = "d\<lparr> unread := ?tail, tokenState := ArrayComma \<rparr>"
  have val: "decodeJSONValue f d (Suc depth) = Inr (v, ?d)"
    using 5(1) [OF v(1,3) rd(1) st(1) stops_items [OF 5(8)]] 5(10) f st(2) by simp
  have len: "2 * length (unread ?d) + 2 \<le> f" using un st(3) 5(10) f c(1) by simp
  show ?case
  proof (cases "vs = []")
    case True
    then obtain g where g: "f = Suc g" using len by (cases f) auto
    have "Token ?d = (Inr TCloseArray, ?d\<lparr> unread := r, tokenState := tokenValueEnd outer, tokenStack := stack \<rparr>)"
      "\<not> More ?d"
      using Token_close [of ?d ws "CHR '']''" r outer stack TCloseArray] True 5(8,9) by simp_all
    then show ?thesis using True f g val rd(2) by simp
  next
    case False
    have "decodeArray f ?d depth (acc @ [v]) = Inr (JArr ((acc @ [v]) @ vs),
        ?d\<lparr> unread := r, tokenState := tokenValueEnd outer, tokenStack := stack \<rparr>)"
      by (rule 5(2) [OF v(2,4) False _ _ 5(8) _ len]) (simp_all add: before_def 5(9))
    then show ?thesis using f val rd(2) by simp
  qed
next
  case (7 k v es)
  then obtain f where f: "fuel = Suc f" by (cases fuel) auto
  let ?tail = "entriesText [CHR '','', CHR 0x0A] i es @ ws @ CHR ''}'' # r"
  have v: "utf8 k" "docOk (Suc depth) v" "entriesOk (Suc depth) es" "inOrder v" "entriesInOrder es"
    using 7(3,4) by simp_all
  let ?rest = "[CHR '':'', CHR '' ''] @ render i v @ ?tail"
  have un: "unread d = sep @ spaces i @ quoteJSON k @ ?rest" using 7(8) by simp
  obtain q where q: "quoteJSON k = CHR 0x22 # q" by (simp add: quoteJSON_def)
  have "valueStart CHR 0x22" by (simp add: valueStart_def isSpace_def)
  then have "reads d (quoteJSON k @ ?rest) st" and more: "More d"
    using before_reads [OF 7(7), of i "CHR 0x22" "q @ ?rest"] un q by simp_all
  moreover have st: "st \<in> {ObjectStart, ObjectKey}" "0 < length sep" using 7(7) by (auto simp: before_def)
  ultimately have key: "Token d = (Inr (TString k), d\<lparr> unread := ?rest, tokenState := ObjectColon \<rparr>)"
    unfolding reads_def using tokenAt_key [OF v(1)] by fastforce
  let ?d1 = "d\<lparr> unread := ?rest, tokenState := ObjectColon \<rparr>"
  let ?d = "d\<lparr> unread := ?tail, tokenState := ObjectComma \<rparr>"
  obtain c t where c: "render i v = c # t" "valueStart c" using render_head [OF v(2)] by blast
  have rd: "reads ?d1 (render i v @ ?tail) ObjectValue"
    using Token_separator(1) [of ?d1 "CHR '':''" "[CHR '' '']" c "t @ ?tail" ObjectValue] c
    by (simp add: isSpace_def)
  have len1: "2 * length (unread ?d1) + 1 \<le> f" using Token_shorter [OF key] 7(11) f by simp
  have val: "decodeJSONValue f ?d1 (Suc depth) = Inr (v, ?d)"
    using 7(1) [OF v(2,4) rd _ stops_entries [OF 7(9)] len1]
    by (simp add: tokenValueAllowed_def tokenValueEnd_def)
  have len: "2 * length (unread ?d) + 2 \<le> f" using len1 c by simp
  have fresh: "k \<notin> fst ` set acc'" using 7(5) by auto
  show ?case
  proof (cases "es = []")
    case True
    then obtain g where g: "f = Suc g" using len by (cases f) auto
    have "Token ?d = (Inr TCloseObject, ?d\<lparr> unread := r, tokenState := tokenValueEnd outer, tokenStack := stack \<rparr>)"
      "\<not> More ?d"
      using Token_close [of ?d ws "CHR ''}''" r outer stack TCloseObject] True 7(9,10) by simp_all
    then show ?thesis using True f g val more key fresh by simp
  next
    case False
    have "decodeObject f ?d depth (acc' @ [(k, v)]) = Inr (JObj ((acc' @ [(k, v)]) @ es),
        ?d\<lparr> unread := r, tokenState := tokenValueEnd outer, tokenStack := stack \<rparr>)"
      by (rule 7(2) [OF v(3,5) _ False _ _ 7(9) _ len]) (use 7(5) in \<open>simp_all add: before_def 7(10)\<close>)
    then show ?thesis using f val more key fresh by simp
  qed
next
  case "3_1"
  show ?case by (rule decode_scalar_fuel [OF "3_1"(1) _ _ "3_1"(3-6)]) simp_all
next
  case "3_2"
  show ?case by (rule decode_scalar_fuel [OF "3_2"(1) _ _ "3_2"(3-6)]) simp_all
next
  case "3_3"
  show ?case by (rule decode_scalar_fuel [OF "3_3"(1) _ _ "3_3"(3-6)]) simp_all
next
  case "3_4"
  show ?case by (rule decode_scalar_fuel [OF "3_4"(1) _ _ "3_4"(3-6)]) simp_all
qed simp_all

text \<open>
  A document's formatted bytes, with or without the final newline, decode to the document in
  key order.
\<close>

lemma decodeDocument_render:
  assumes "docOk 0 v"
  shows "decodeDocument (render 0 v @ [CHR 0x0A]) = Inr (canonJ v)"
proof -
  let ?s = "render 0 (canonJ v) @ [CHR 0x0A]" and ?d = "newDecoder (render 0 v @ [CHR 0x0A])"
  have s: "render 0 v @ [CHR 0x0A] = ?s" by (simp add: render_canonJ)
  have ok: "docOk 0 (canonJ v)" using assms by (simp add: docOk_canonJ)
  obtain c t where c: "render 0 (canonJ v) = c # t" "valueStart c" using render_head [OF ok] by blast
  have un: "unread ?d = [] @ c # t @ [CHR 0x0A]" unfolding s newDecoder_def using c by simp
  have "reads ?d (c # t @ [CHR 0x0A]) (tokenState ?d)"
    by (rule reads_plain [OF un _ c(2)]) simp
  then have rd: "reads ?d ?s TopValue" using c by (simp add: newDecoder_def)
  have "stops [CHR 0x0A]" by (simp add: stops_def digit_def byteIn_def)
  then have "decodeJSONValue (decodeFuel ?d) ?d 0 =
      Inr (canonJ v, ?d\<lparr> unread := [CHR 0x0A], tokenState := tokenValueEnd TopValue \<rparr>)"
    by (intro decode_render(1) [OF ok inOrder_canonJ(1) rd]) (simp_all add: tokenValueAllowed_def decodeFuel_def)
  then show ?thesis
    by (simp add: decodeDocument_def Token_def isSpace_def)
qed

end
