(* ===== verification/ConfigDoc.thy ===== *)
theory ConfigDoc
  imports JsonRound
begin

text \<open>
  Config documents in JSON (\<^verbatim>\<open>internal/configdoc/canonical.go\<close>,
  \<^verbatim>\<open>resolve.go\<close>, \<^verbatim>\<open>merge.go\<close>): finding the references of a document, its
  canonical form, the resolution of its references within a shared budget, and the merge of
  two documents. The lemmas give each traversal its meaning as a function of the document:
  which scalars it reads, what it replaces, when it fails.
\<close>

section \<open>Canonical form\<close>

record Document =
  Content :: bytes
  References :: "reference list"

text \<open>Adding a key to the Go map that serves as the set of references.\<close>

definition recordReference :: "reference \<Rightarrow> reference list \<Rightarrow> reference list" where
  "recordReference r references = (if r \<in> set references then references else references @ [r])"

definition findInText :: "string \<Rightarrow> reference list \<Rightarrow> doc_error + reference list" where
  "findInText text references =
     (case parseReference text of
        Inl e \<Rightarrow> Inl e
      | Inr (r, escaped, matched) \<Rightarrow>
          Inr (if matched \<and> \<not> escaped then recordReference r references else references))"

fun findJSONReferences :: "json \<Rightarrow> reference list \<Rightarrow> doc_error + reference list"
  and findItems :: "json list \<Rightarrow> reference list \<Rightarrow> doc_error + reference list"
  and findEntries :: "(string \<times> json) list \<Rightarrow> reference list \<Rightarrow> doc_error + reference list" where
  "findJSONReferences (JObj es) references = findEntries es references"
| "findJSONReferences (JArr vs) references = findItems vs references"
| "findJSONReferences (JStr s) references = findInText s references"
| "findJSONReferences _ references = Inr references"
| "findItems [] references = Inr references"
| "findItems (v # vs) references =
     (case findJSONReferences v references of Inl e \<Rightarrow> Inl e | Inr rs \<Rightarrow> findItems vs rs)"
| "findEntries [] references = Inr references"
| "findEntries ((k, v) # es) references =
     (case findJSONReferences v references of Inl e \<Rightarrow> Inl e | Inr rs \<Rightarrow> findEntries es rs)"

definition canonicalizeJSON :: "bytes \<Rightarrow> doc_error + Document" where
  "canonicalizeJSON source =
     (case decodeDocument source of
        Inl e \<Rightarrow> Inl e
      | Inr v \<Rightarrow>
          (case findJSONReferences v [] of
             Inl e \<Rightarrow> Inl e
           | Inr references \<Rightarrow>
               (case encodeJSON v of
                  Inl e \<Rightarrow> Inl (Wrapped e)
                | Inr content \<Rightarrow>
                    Inr \<lparr> Content = content, References = sortedReferences references \<rparr>)))"

section \<open>Resolution\<close>

type_synonym lookup = "reference \<Rightarrow> doc_error + string"

text \<open>The lookup that \<^verbatim>\<open>Resolve\<close> wraps: all values together stay within the budget.\<close>

definition boundedLookup :: "lookup \<Rightarrow> reference \<Rightarrow> int \<Rightarrow> doc_error + string \<times> int" where
  "boundedLookup lookup r remaining =
     (case lookup r of
        Inl e \<Rightarrow> Inl e
      | Inr value \<Rightarrow>
          if int (length value) > remaining then Inl TooLarge
          else Inr (value, remaining - int (length value)))"

text \<open>The scalar case, shared by the JSON and the YAML traversal.\<close>

definition resolveText :: "lookup \<Rightarrow> string \<Rightarrow> int \<Rightarrow> doc_error + string \<times> int" where
  "resolveText lookup text remaining =
     (case parseReference text of
        Inl e \<Rightarrow> Inl e
      | Inr (r, escaped, matched) \<Rightarrow>
          if escaped then Inr (String r, remaining)
          else if \<not> matched then Inr (text, remaining)
          else
            (case boundedLookup lookup r remaining of
               Inl e \<Rightarrow> Inl (ResolveFailed (Path r) e)
             | Inr (value, rest) \<Rightarrow> Inr (value, rest)))"

fun resolveJSONValue :: "lookup \<Rightarrow> json \<Rightarrow> int \<Rightarrow> doc_error + json \<times> int"
  and resolveItems :: "lookup \<Rightarrow> json list \<Rightarrow> int \<Rightarrow> doc_error + json list \<times> int"
  and resolveEntries :: "lookup \<Rightarrow> (string \<times> json) list \<Rightarrow> int \<Rightarrow> doc_error + (string \<times> json) list \<times> int" where
  "resolveJSONValue lookup (JObj es) remaining =
     (case resolveEntries lookup es remaining of Inl e \<Rightarrow> Inl e | Inr (es', r) \<Rightarrow> Inr (JObj es', r))"
| "resolveJSONValue lookup (JArr vs) remaining =
     (case resolveItems lookup vs remaining of Inl e \<Rightarrow> Inl e | Inr (vs', r) \<Rightarrow> Inr (JArr vs', r))"
| "resolveJSONValue lookup (JStr s) remaining =
     (case resolveText lookup s remaining of Inl e \<Rightarrow> Inl e | Inr (s', r) \<Rightarrow> Inr (JStr s', r))"
| "resolveJSONValue lookup v remaining = Inr (v, remaining)"
| "resolveItems lookup [] remaining = Inr ([], remaining)"
| "resolveItems lookup (v # vs) remaining =
     (case resolveJSONValue lookup v remaining of
        Inl e \<Rightarrow> Inl e
      | Inr (v', r) \<Rightarrow>
          (case resolveItems lookup vs r of Inl e \<Rightarrow> Inl e | Inr (vs', r') \<Rightarrow> Inr (v' # vs', r')))"
| "resolveEntries lookup [] remaining = Inr ([], remaining)"
| "resolveEntries lookup ((k, v) # es) remaining =
     (case resolveJSONValue lookup v remaining of
        Inl e \<Rightarrow> Inl e
      | Inr (v', r) \<Rightarrow>
          (case resolveEntries lookup es r of Inl e \<Rightarrow> Inl e | Inr (es', r') \<Rightarrow> Inr ((k, v') # es', r')))"

definition resolveJSON :: "lookup \<Rightarrow> bytes \<Rightarrow> int \<Rightarrow> doc_error + bytes" where
  "resolveJSON lookup canonical remaining =
     (case decodeDocument canonical of
        Inl e \<Rightarrow> Inl e
      | Inr v \<Rightarrow>
          (case resolveJSONValue lookup v remaining of
             Inl e \<Rightarrow> Inl e
           | Inr (resolved, _) \<Rightarrow>
               (case encodeJSON resolved of Inl e \<Rightarrow> Inl (Wrapped e) | Inr output \<Rightarrow> Inr output)))"

section \<open>Merge\<close>

fun setKey :: "string \<Rightarrow> json \<Rightarrow> (string \<times> json) list \<Rightarrow> (string \<times> json) list" where
  "setKey k v [] = [(k, v)]"
| "setKey k v ((k', v') # es) = (if k' = k then (k, v) # es else (k', v') # setKey k v es)"

fun mergeJSONValue :: "json \<Rightarrow> json \<Rightarrow> json"
  and mergeEntries :: "(string \<times> json) list \<Rightarrow> (string \<times> json) list \<Rightarrow> (string \<times> json) list" where
  "mergeJSONValue (JObj source) target =
     (case target of JObj entries \<Rightarrow> JObj (mergeEntries source entries) | _ \<Rightarrow> JObj source)"
| "mergeJSONValue source target = source"
| "mergeEntries [] target = target"
| "mergeEntries ((k, v) # source) target =
     mergeEntries source
       (case map_of target k of
          Some v' \<Rightarrow> setKey k (mergeJSONValue v v') target
        | None \<Rightarrow> setKey k v target)"

section \<open>What the traversals read\<close>

text \<open>The string scalars of a document; object keys are not among them.\<close>

fun scalars :: "json \<Rightarrow> string list"
  and itemScalars :: "json list \<Rightarrow> string list"
  and entryScalars :: "(string \<times> json) list \<Rightarrow> string list" where
  "scalars (JObj es) = entryScalars es"
| "scalars (JArr vs) = itemScalars vs"
| "scalars (JStr s) = [s]"
| "scalars _ = []"
| "itemScalars [] = []"
| "itemScalars (v # vs) = scalars v @ itemScalars vs"
| "entryScalars [] = []"
| "entryScalars ((k, v) # es) = scalars v @ entryScalars es"

definition parses :: "string \<Rightarrow> bool" where
  "parses s = (case parseReference s of Inl _ \<Rightarrow> False | Inr _ \<Rightarrow> True)"

definition referenceOf :: "string \<Rightarrow> reference option" where
  "referenceOf s =
     (case parseReference s of
        Inr (r, escaped, matched) \<Rightarrow> if matched \<and> \<not> escaped then Some r else None
      | Inl _ \<Rightarrow> None)"

text \<open>The references among some scalars.\<close>

definition referencesIn :: "string list \<Rightarrow> reference set" where
  "referencesIn ss = {r. \<exists>s \<in> set ss. referenceOf s = Some r}"

lemma referencesIn_simps [simp]:
  "referencesIn [] = {}"
  "referencesIn (s # ss) = (case referenceOf s of Some r \<Rightarrow> {r} | None \<Rightarrow> {}) \<union> referencesIn ss"
  "referencesIn (ss @ ts) = referencesIn ss \<union> referencesIn ts"
  by (auto simp: referencesIn_def split: option.splits)

lemma findInText_iff:
  "findInText s rs = Inr rs' \<longleftrightarrow>
   parses s \<and> rs' = (case referenceOf s of Some r \<Rightarrow> recordReference r rs | None \<Rightarrow> rs)"
  by (auto simp: findInText_def parses_def referenceOf_def split: sum.splits prod.splits if_splits)

lemma recordReference_set [simp]: "set (recordReference r rs) = insert r (set rs)"
  by (auto simp: recordReference_def)

lemma recordReference_distinct [simp]: "distinct rs \<Longrightarrow> distinct (recordReference r rs)"
  by (auto simp: recordReference_def)

text \<open>The effect of a traversal that succeeds.\<close>

definition finds :: "string list \<Rightarrow> reference list \<Rightarrow> reference list \<Rightarrow> bool" where
  "finds ss rs rs' =
     (list_all parses ss \<and> set rs' = set rs \<union> referencesIn ss \<and> (distinct rs \<longrightarrow> distinct rs'))"

lemma finds_trans: "finds ss rs rs1 \<Longrightarrow> finds ts rs1 rs2 \<Longrightarrow> finds (ss @ ts) rs rs2"
  by (auto simp: finds_def)

lemma findJSONReferences_Inr:
  shows "findJSONReferences v rs = Inr rs' \<Longrightarrow> finds (scalars v) rs rs'"
    and "findItems vs rs = Inr rs' \<Longrightarrow> finds (itemScalars vs) rs rs'"
    and "findEntries es rs = Inr rs' \<Longrightarrow> finds (entryScalars es) rs rs'"
proof (induction v and vs and es arbitrary: rs rs' and rs rs' and rs rs'
    rule: scalars_itemScalars_entryScalars.induct)
  case (3 s)
  then show ?case by (auto simp: findInText_iff finds_def split: option.splits)
next
  case (6 v vs)
  then obtain rs1 where "findJSONReferences v rs = Inr rs1" "findItems vs rs1 = Inr rs'"
    by (auto split: sum.splits)
  then show ?case using 6(1,2) finds_trans by simp blast
next
  case (8 k v es)
  then obtain rs1 where "findJSONReferences v rs = Inr rs1" "findEntries es rs1 = Inr rs'"
    by (auto split: sum.splits)
  then show ?case using 8(1,2) finds_trans by simp blast
qed (auto simp: finds_def)

lemma findJSONReferences_total:
  shows "list_all parses (scalars v) \<Longrightarrow> \<exists>rs'. findJSONReferences v rs = Inr rs'"
    and "list_all parses (itemScalars vs) \<Longrightarrow> \<exists>rs'. findItems vs rs = Inr rs'"
    and "list_all parses (entryScalars es) \<Longrightarrow> \<exists>rs'. findEntries es rs = Inr rs'"
proof (induction v and vs and es arbitrary: rs and rs and rs
    rule: scalars_itemScalars_entryScalars.induct)
  case (6 v vs)
  then obtain rs1 where "findJSONReferences v rs = Inr rs1" by fastforce
  moreover from 6 obtain rs2 where "findItems vs rs1 = Inr rs2" by fastforce
  ultimately show ?case by simp
next
  case (8 k v es)
  then obtain rs1 where "findJSONReferences v rs = Inr rs1" by fastforce
  moreover from 8 obtain rs2 where "findEntries es rs1 = Inr rs2" by fastforce
  ultimately show ?case by simp
qed (auto simp: findInText_iff)

lemma itemScalars_concat: "itemScalars vs = concat (map scalars vs)"
  by (induction vs) auto

lemma entryScalars_concat: "entryScalars es = concat (map (\<lambda>(k, v). scalars v) es)"
  by (induction es) auto

lemma mset_concat_map: "mset (concat (map f xs)) = sum_mset (image_mset (\<lambda>x. mset (f x)) (mset xs))"
  by (induction xs) auto

lemma mset_scalars_canonJ:
  shows "mset (scalars (canonJ v)) = mset (scalars v)"
    and "mset (itemScalars (canonItems vs)) = mset (itemScalars vs)"
    and "mset (entryScalars (canonEntries es)) = mset (entryScalars es)"
proof (induction v and vs and es rule: scalars_itemScalars_entryScalars.induct)
  case (1 es)
  have "mset (entryScalars (sort_key fst xs)) = mset (entryScalars xs)" for xs :: "(string \<times> json) list"
    by (simp only: entryScalars_concat mset_concat_map mset_sort)
  then show ?case using 1 by simp
qed simp_all

lemma scalars_canonJ:
  "set (scalars (canonJ v)) = set (scalars v)" "referencesIn (scalars (canonJ v)) = referencesIn (scalars v)"
  using mset_scalars_canonJ(1) [of v] by (metis set_mset_mset, metis referencesIn_def set_mset_mset)

section \<open>What the traversals produce\<close>

text \<open>
  A scalar's replacement, the number of bytes it draws from the budget, and whether its lookup
  succeeds.
\<close>

definition substText :: "lookup \<Rightarrow> string \<Rightarrow> string" where
  "substText lookup s =
     (case parseReference s of
        Inr (r, escaped, matched) \<Rightarrow>
          if escaped then String r
          else if matched then (case lookup r of Inr value \<Rightarrow> value | Inl _ \<Rightarrow> s)
          else s
      | Inl _ \<Rightarrow> s)"

definition drawn :: "lookup \<Rightarrow> string \<Rightarrow> int" where
  "drawn lookup s =
     (case referenceOf s of
        Some r \<Rightarrow> (case lookup r of Inr value \<Rightarrow> int (length value) | Inl _ \<Rightarrow> 0)
      | None \<Rightarrow> 0)"

definition found :: "lookup \<Rightarrow> reference \<Rightarrow> bool" where
  "found lookup r = (case lookup r of Inr _ \<Rightarrow> True | Inl _ \<Rightarrow> False)"

definition resolvable :: "lookup \<Rightarrow> string list \<Rightarrow> bool" where
  "resolvable lookup ss = (list_all parses ss \<and> (\<forall>r \<in> referencesIn ss. found lookup r))"

lemma resolvable_simps [simp]:
  "resolvable lookup []"
  "resolvable lookup (ss @ ts) \<longleftrightarrow> resolvable lookup ss \<and> resolvable lookup ts"
  by (auto simp: resolvable_def)

fun substJSON :: "lookup \<Rightarrow> json \<Rightarrow> json"
  and substItems :: "lookup \<Rightarrow> json list \<Rightarrow> json list"
  and substEntries :: "lookup \<Rightarrow> (string \<times> json) list \<Rightarrow> (string \<times> json) list" where
  "substJSON lookup (JObj es) = JObj (substEntries lookup es)"
| "substJSON lookup (JArr vs) = JArr (substItems lookup vs)"
| "substJSON lookup (JStr s) = JStr (substText lookup s)"
| "substJSON lookup v = v"
| "substItems lookup [] = []"
| "substItems lookup (v # vs) = substJSON lookup v # substItems lookup vs"
| "substEntries lookup [] = []"
| "substEntries lookup ((k, v) # es) = (k, substJSON lookup v) # substEntries lookup es"

definition totalDrawn :: "lookup \<Rightarrow> string list \<Rightarrow> int" where
  "totalDrawn lookup ss = (\<Sum>s\<leftarrow>ss. drawn lookup s)"

lemma totalDrawn_simps [simp]:
  "totalDrawn lookup [] = 0"
  "totalDrawn lookup (s # ss) = drawn lookup s + totalDrawn lookup ss"
  "totalDrawn lookup (ss @ ts) = totalDrawn lookup ss + totalDrawn lookup ts"
  by (simp_all add: totalDrawn_def)

lemma drawn_nonneg [simp]: "0 \<le> drawn lookup s"
  by (auto simp: drawn_def split: option.splits sum.splits)

lemma totalDrawn_nonneg [simp]: "0 \<le> totalDrawn lookup ss"
  by (induction ss) auto

text \<open>Whether a traversal succeeds, and with which budget left.\<close>

definition resolves :: "lookup \<Rightarrow> string list \<Rightarrow> int \<Rightarrow> int \<Rightarrow> bool" where
  "resolves lookup ss remaining rest =
     (resolvable lookup ss \<and> totalDrawn lookup ss \<le> remaining \<and> rest = remaining - totalDrawn lookup ss)"

lemma resolves_append:
  "resolves lookup (ss @ ts) r r' \<longleftrightarrow> (\<exists>r1. resolves lookup ss r r1 \<and> resolves lookup ts r1 r')"
  by (auto simp: resolves_def intro: order_trans [OF totalDrawn_nonneg])
    (use totalDrawn_nonneg [of lookup ts] in linarith)

lemma resolveText_iff:
  assumes "0 \<le> r"
  shows "resolveText lookup s r = Inr (s', r') \<longleftrightarrow> resolves lookup [s] r r' \<and> s' = substText lookup s"
proof (cases "parseReference s")
  case (Inl e)
  then show ?thesis by (simp add: resolveText_def resolves_def resolvable_def parses_def)
next
  case (Inr p)
  obtain q escaped matched where p: "p = (q, escaped, matched)" by (cases p)
  show ?thesis
  proof (cases "matched \<and> \<not> escaped")
    case True
    then show ?thesis using assms Inr p
      by (cases "lookup q")
        (auto simp: resolveText_def resolves_def resolvable_def parses_def referenceOf_def drawn_def
          substText_def boundedLookup_def found_def)
  next
    case False
    then show ?thesis using assms Inr p
      by (auto simp: resolveText_def resolves_def resolvable_def parses_def referenceOf_def drawn_def
          substText_def)
  qed
qed

lemma resolves_rest: "resolves lookup ss r r' \<Longrightarrow> 0 \<le> r'"
  by (simp add: resolves_def)

lemma resolveJSONValue_iff:
  shows "0 \<le> r \<Longrightarrow> resolveJSONValue lookup v r = Inr (v', r') \<longleftrightarrow>
      resolves lookup (scalars v) r r' \<and> v' = substJSON lookup v"
    and "0 \<le> r \<Longrightarrow> resolveItems lookup vs r = Inr (vs', r') \<longleftrightarrow>
      resolves lookup (itemScalars vs) r r' \<and> vs' = substItems lookup vs"
    and "0 \<le> r \<Longrightarrow> resolveEntries lookup es r = Inr (es', r') \<longleftrightarrow>
      resolves lookup (entryScalars es) r r' \<and> es' = substEntries lookup es"
proof (induction v and vs and es arbitrary: r v' r' and r vs' r' and r es' r'
    rule: scalars_itemScalars_entryScalars.induct)
  case (1 es)
  show ?case
  proof (cases "resolveEntries lookup es r")
    case (Inl e)
    then show ?thesis using 1(1) [OF 1(2), of "substEntries lookup es" r'] by simp
  next
    case (Inr p)
    then show ?thesis using 1(1) [OF 1(2), of "fst p" "snd p"] 1(1) [OF 1(2), of "substEntries lookup es" r']
      by (cases p) auto
  qed
next
  case (2 vs)
  show ?case
  proof (cases "resolveItems lookup vs r")
    case (Inl e)
    then show ?thesis using 2(1) [OF 2(2), of "substItems lookup vs" r'] by simp
  next
    case (Inr p)
    then show ?thesis using 2(1) [OF 2(2), of "fst p" "snd p"] 2(1) [OF 2(2), of "substItems lookup vs" r']
      by (cases p) auto
  qed
next
  case (3 s)
  show ?case
  proof (cases "resolveText lookup s r")
    case (Inl e)
    then show ?thesis using resolveText_iff [OF 3, of lookup s "substText lookup s" r'] by simp
  next
    case (Inr p)
    then show ?thesis using resolveText_iff [OF 3, of lookup s "fst p" "snd p"]
        resolveText_iff [OF 3, of lookup s "substText lookup s" r']
      by (cases p) auto
  qed
next
  case (6 v vs)
  show ?case
  proof
    assume "resolveItems lookup (v # vs) r = Inr (vs', r')"
    then obtain v1 r1 vs1 where step: "resolveJSONValue lookup v r = Inr (v1, r1)"
      "resolveItems lookup vs r1 = Inr (vs1, r')" "vs' = v1 # vs1"
      by (auto split: sum.splits)
    then have "resolves lookup (scalars v) r r1" "v1 = substJSON lookup v" using 6 by blast+
    moreover have "resolves lookup (itemScalars vs) r1 r'" "vs1 = substItems lookup vs"
      using 6(2) step(2) calculation(1) resolves_rest by blast+
    ultimately show "resolves lookup (itemScalars (v # vs)) r r' \<and> vs' = substItems lookup (v # vs)"
      using step(3) by (auto simp: resolves_append)
  next
    assume a: "resolves lookup (itemScalars (v # vs)) r r' \<and> vs' = substItems lookup (v # vs)"
    then obtain r1 where r1: "resolves lookup (scalars v) r r1" "resolves lookup (itemScalars vs) r1 r'"
      by (auto simp: resolves_append)
    then have "resolveJSONValue lookup v r = Inr (substJSON lookup v, r1)"
      "resolveItems lookup vs r1 = Inr (substItems lookup vs, r')"
      using 6 resolves_rest by blast+
    then show "resolveItems lookup (v # vs) r = Inr (vs', r')" using a by simp
  qed
next
  case (8 k v es)
  show ?case
  proof
    assume "resolveEntries lookup ((k, v) # es) r = Inr (es', r')"
    then obtain v1 r1 es1 where step: "resolveJSONValue lookup v r = Inr (v1, r1)"
      "resolveEntries lookup es r1 = Inr (es1, r')" "es' = (k, v1) # es1"
      by (auto split: sum.splits)
    then have "resolves lookup (scalars v) r r1" "v1 = substJSON lookup v" using 8 by blast+
    moreover have "resolves lookup (entryScalars es) r1 r'" "es1 = substEntries lookup es"
      using 8(2) step(2) calculation(1) resolves_rest by blast+
    ultimately show "resolves lookup (entryScalars ((k, v) # es)) r r' \<and> es' = substEntries lookup ((k, v) # es)"
      using step(3) by (auto simp: resolves_append)
  next
    assume a: "resolves lookup (entryScalars ((k, v) # es)) r r' \<and> es' = substEntries lookup ((k, v) # es)"
    then obtain r1 where r1: "resolves lookup (scalars v) r r1" "resolves lookup (entryScalars es) r1 r'"
      by (auto simp: resolves_append)
    then have "resolveJSONValue lookup v r = Inr (substJSON lookup v, r1)"
      "resolveEntries lookup es r1 = Inr (substEntries lookup es, r')"
      using 8 resolves_rest by blast+
    then show "resolveEntries lookup ((k, v) # es) r = Inr (es', r')" using a by simp
  qed
qed (auto simp: resolves_def)

section \<open>Canonical documents\<close>

lemma canonicalizeJSON_Inr:
  "canonicalizeJSON source = Inr doc \<longleftrightarrow>
   (\<exists>v references. decodeDocument source = Inr v \<and> findJSONReferences v [] = Inr references \<and>
      Content doc = render 0 v @ [CHR 0x0A] \<and> int (length (Content doc)) \<le> maxConfigBytes \<and>
      doc = \<lparr> Content = Content doc, References = sortedReferences references \<rparr>)"
proof
  assume "canonicalizeJSON source = Inr doc"
  then show "\<exists>v references. decodeDocument source = Inr v \<and> findJSONReferences v [] = Inr references \<and>
      Content doc = render 0 v @ [CHR 0x0A] \<and> int (length (Content doc)) \<le> maxConfigBytes \<and>
      doc = \<lparr> Content = Content doc, References = sortedReferences references \<rparr>"
    by (fastforce simp: canonicalizeJSON_def encodeJSON_Inr split: sum.splits)
next
  assume "\<exists>v references. decodeDocument source = Inr v \<and> findJSONReferences v [] = Inr references \<and>
      Content doc = render 0 v @ [CHR 0x0A] \<and> int (length (Content doc)) \<le> maxConfigBytes \<and>
      doc = \<lparr> Content = Content doc, References = sortedReferences references \<rparr>"
  then obtain v references where v: "decodeDocument source = Inr v"
      "findJSONReferences v [] = Inr references" "Content doc = render 0 v @ [CHR 0x0A]"
      "int (length (Content doc)) \<le> maxConfigBytes"
      "doc = \<lparr> Content = Content doc, References = sortedReferences references \<rparr>" by blast
  have "marshalable v" using v(1) decodeDocument_docOk docOk_marshalable(1) by blast
  then have "encodeJSON v = Inr (Content doc)" using v by (simp add: encodeJSON_Inr)
  then show "canonicalizeJSON source = Inr doc" using v(1,2,5) by (simp add: canonicalizeJSON_def)
qed

lemma canonical_decode:
  assumes "canonicalizeJSON source = Inr doc" and "decodeDocument source = Inr v"
  shows "decodeDocument (Content doc) = Inr (canonJ v)"
  using assms decodeDocument_docOk [OF assms(2)] decodeDocument_render
  by (auto simp: canonicalizeJSON_Inr)

text \<open>The recorded references are those of the document's scalars.\<close>

lemma canonical_references:
  assumes "canonicalizeJSON source = Inr doc" and "decodeDocument source = Inr v"
  shows "set (References doc) = referencesIn (scalars v)" and "list_all parses (scalars v)"
proof -
  obtain rs where rs: "findJSONReferences v [] = Inr rs"
    and doc: "doc = \<lparr> Content = Content doc, References = sortedReferences rs \<rparr>"
    using assms by (auto simp: canonicalizeJSON_Inr)
  have "References doc = sortedReferences rs" by (subst doc) simp
  then show "set (References doc) = referencesIn (scalars v)" "list_all parses (scalars v)"
    using findJSONReferences_Inr(1) [OF rs] by (simp_all add: finds_def sortedReferences_def)
qed

lemma canonicalizeJSON_idem:
  assumes "canonicalizeJSON source = Inr doc"
  shows "canonicalizeJSON (Content doc) = Inr doc"
proof -
  obtain v rs where v: "decodeDocument source = Inr v" "findJSONReferences v [] = Inr rs"
      "Content doc = render 0 v @ [CHR 0x0A]" "int (length (Content doc)) \<le> maxConfigBytes"
      "doc = \<lparr> Content = Content doc, References = sortedReferences rs \<rparr>"
    using assms by (auto simp: canonicalizeJSON_Inr)
  have dec: "decodeDocument (Content doc) = Inr (canonJ v)" using canonical_decode [OF assms v(1)] .
  have found: "finds (scalars v) [] rs" using findJSONReferences_Inr(1) v(2) by blast
  then have "list_all parses (scalars (canonJ v))"
    by (simp add: finds_def list_all_iff scalars_canonJ)
  then obtain rs' where rs': "findJSONReferences (canonJ v) [] = Inr rs'"
    using findJSONReferences_total(1) by blast
  have found': "finds (scalars (canonJ v)) [] rs'" using findJSONReferences_Inr(1) rs' by blast
  have "set rs' = set rs" "distinct rs'" "distinct rs"
    using found found' by (simp_all add: finds_def scalars_canonJ)
  then have "sortedReferences rs' = sortedReferences rs"
    unfolding sortedReferences_def by (intro sorted_distinct_set_unique) auto
  then show ?thesis unfolding canonicalizeJSON_Inr
    using dec rs' v(3-5) by (intro exI [of _ "canonJ v"] exI [of _ rs']) (simp add: render_canonJ)
qed

section \<open>Resolved documents\<close>

lemma substText_length: "drawn lookup s \<le> int (length (substText lookup s))"
  by (auto simp: drawn_def substText_def referenceOf_def split: sum.splits option.splits prod.splits if_splits)

lemma resolveJSON_iff:
  assumes "decodeDocument canonical = Inr v" and "0 \<le> budget"
  shows "resolveJSON lookup canonical budget = Inr output \<longleftrightarrow>
      resolvable lookup (scalars v) \<and> totalDrawn lookup (scalars v) \<le> budget \<and>
      encodeJSON (substJSON lookup v) = Inr output"
proof -
  note iff = resolveJSONValue_iff(1) [OF assms(2), of lookup v]
  show ?thesis
  proof (cases "resolveJSONValue lookup v budget")
    case (Inl e)
    then show ?thesis using assms(1) iff [of "substJSON lookup v" "budget - totalDrawn lookup (scalars v)"]
      by (auto simp: resolveJSON_def resolves_def)
  next
    case (Inr p)
    obtain v' r' where p: "p = (v', r')" by (cases p)
    then show ?thesis using assms(1) iff [of v' r'] Inr
      by (auto simp: resolveJSON_def resolves_def split: sum.splits)
  qed
qed

lemma length_joinLines_ge: "(\<Sum>l\<leftarrow>ls. int (length l)) \<le> int (length (joinLines ls))"
proof (cases "ls = []")
  case False
  then have "1 \<le> int (length ls)" by (cases ls) auto
  then show ?thesis using joinLines_length [OF False] by simp
qed simp

lemma bracketed_ge: "(\<Sum>l\<leftarrow>ls. int (length l)) \<le> int (length (bracketed a b i ls))"
  using length_joinLines_ge [of ls] by (auto simp: bracketed_def)

text \<open>The formatted document holds every text it shows, so it is at least as long.\<close>

lemma render_ge_scalars:
  shows "(\<Sum>s\<leftarrow>scalars v. int (length s)) \<le> int (length (render i v))"
    and "(\<Sum>s\<leftarrow>itemScalars vs. int (length s)) \<le> (\<Sum>l\<leftarrow>renderItems i vs. int (length l))"
    and "(\<Sum>s\<leftarrow>entryScalars es. int (length s)) \<le> (\<Sum>e\<leftarrow>renderEntries i es. int (length (snd e)))"
proof (induction v and vs and es arbitrary: i and i and i rule: scalars_itemScalars_entryScalars.induct)
  case (1 es)
  have "(\<Sum>e\<leftarrow>renderEntries (i + 2) es. int (length (snd e))) =
        (\<Sum>l\<leftarrow>map snd (sort_key fst (renderEntries (i + 2) es)). int (length l))"
    using sum_list_sort_key [of "\<lambda>e. int (length (snd e))" fst "renderEntries (i + 2) es"]
    by (simp add: comp_def)
  also have "\<dots> \<le> int (length (render i (JObj es)))" unfolding render.simps by (rule bracketed_ge)
  finally show ?case using 1 [of "i + 2"] by simp
next
  case (2 vs)
  have "(\<Sum>l\<leftarrow>renderItems (i + 2) vs. int (length l)) \<le> int (length (render i (JArr vs)))"
    unfolding render.simps by (rule bracketed_ge)
  then show ?case using 2 [of "i + 2"] by simp
next
  case (3 s)
  then show ?case using length_quoteJSON [of s] by (simp add: marshalScalar_def)
next
  case (6 v vs)
  from 6(1) [of i] 6(2) [of i] show ?case by simp
next
  case (8 k v es)
  from 8(1) [of i] 8(2) [of i] show ?case by simp
qed (simp_all add: marshalScalar_def)

lemma scalars_substJSON:
  shows "scalars (substJSON lookup v) = map (substText lookup) (scalars v)"
    and "itemScalars (substItems lookup vs) = map (substText lookup) (itemScalars vs)"
    and "entryScalars (substEntries lookup es) = map (substText lookup) (entryScalars es)"
  by (induction v and vs and es rule: scalars_itemScalars_entryScalars.induct) auto

lemma totalDrawn_le_output:
  "totalDrawn lookup (scalars v) \<le> int (length (render i (substJSON lookup v)))"
proof -
  have "totalDrawn lookup ss \<le> (\<Sum>s\<leftarrow>map (substText lookup) ss. int (length s))" for ss
    by (induction ss) (auto intro: add_mono substText_length)
  then show ?thesis using render_ge_scalars(1) [of "substJSON lookup v" i]
    by (fastforce simp: scalars_substJSON intro: order_trans)
qed

lemma marshalable_substJSON:
  shows "marshalable v \<Longrightarrow> marshalable (substJSON lookup v)"
    and "marshalableItems vs \<Longrightarrow> marshalableItems (substItems lookup vs)"
    and "marshalableEntries es \<Longrightarrow> marshalableEntries (substEntries lookup es)"
  by (induction v and vs and es rule: scalars_itemScalars_entryScalars.induct)
    (auto simp: marshalScalar_def)

text \<open>
  A canonical document resolves exactly when every recorded reference is found and the output
  fits the limit; the output is the document with its references replaced.
\<close>

lemma resolve_canonical:
  assumes "canonicalizeJSON source = Inr doc" and "decodeDocument (Content doc) = Inr v"
  shows "resolveJSON lookup (Content doc) maxConfigBytes = Inr output \<longleftrightarrow>
      (\<forall>r \<in> set (References doc). found lookup r) \<and>
      output = render 0 (substJSON lookup v) @ [CHR 0x0A] \<and> int (length output) \<le> maxConfigBytes"
proof -
  have again: "canonicalizeJSON (Content doc) = Inr doc" using canonicalizeJSON_idem [OF assms(1)] .
  have "resolvable lookup (scalars v) \<longleftrightarrow> (\<forall>r \<in> set (References doc). found lookup r)"
    using canonical_references [OF again assms(2)] by (simp add: resolvable_def)
  moreover have "marshalable (substJSON lookup v)"
    using decodeDocument_docOk [OF assms(2)] docOk_marshalable(1) marshalable_substJSON(1) by blast
  moreover have "(0 :: int) \<le> maxConfigBytes" by (simp add: maxConfigBytes_def)
  ultimately show ?thesis
    using resolveJSON_iff [OF assms(2)] totalDrawn_le_output [of lookup v 0]
    by (auto simp: encodeJSON_Inr)
qed

section \<open>Merged documents\<close>

lemma map_of_setKey: "map_of (setKey k v es) = (map_of es)(k \<mapsto> v)"
  by (induction es) auto

lemma keys_setKey: "fst ` set (setKey k v es) = insert k (fst ` set es)"
  by (induction k v es rule: setKey.induct) (simp_all add: insert_commute)

lemma distinct_setKey: "distinct (map fst es) \<Longrightarrow> distinct (map fst (setKey k v es))"
proof (induction es)
  case (Cons e es)
  then show ?case using keys_setKey [of k v es] by (cases e) auto
qed simp

lemma entriesOk_setKey:
  "entriesOk d es \<Longrightarrow> utf8 k \<Longrightarrow> docOk d v \<Longrightarrow> entriesOk d (setKey k v es)"
  by (induction es) auto

lemma entriesOk_lookup: "entriesOk d es \<Longrightarrow> map_of es k = Some v \<Longrightarrow> docOk d v"
  by (auto simp: entriesOk_iff dest: map_of_SomeD)

text \<open>A merged object has the keys of both; a key of both has the merge of the two values.\<close>

lemma map_of_mergeEntries:
  "distinct (map fst source) \<Longrightarrow>
   map_of (mergeEntries source target) k =
     (case map_of source k of
        None \<Rightarrow> map_of target k
      | Some v \<Rightarrow> Some (case map_of target k of Some v' \<Rightarrow> mergeJSONValue v v' | None \<Rightarrow> v))"
proof (induction source arbitrary: target)
  case Nil
  then show ?case by simp
next
  case (Cons e source)
  obtain k' v where e: "e = (k', v)" by (cases e)
  have fresh: "k' \<notin> fst ` set source" and dist: "distinct (map fst source)" using Cons(2) e by auto
  then have none: "map_of source k' = None" by (simp add: map_of_eq_None_iff)
  show ?case using Cons(1) [OF dist] none
    by (cases "k = k'") (auto simp: e map_of_setKey split: option.splits)
qed

lemma docOk_merge:
  shows "docOk d s \<Longrightarrow> docOk d t \<Longrightarrow> docOk d (mergeJSONValue s t)"
    and "entriesOk d es \<Longrightarrow> entriesOk d ts \<Longrightarrow> distinct (map fst ts) \<Longrightarrow>
      entriesOk d (mergeEntries es ts) \<and> distinct (map fst (mergeEntries es ts))"
proof (induction s t and es ts arbitrary: d and d rule: mergeJSONValue_mergeEntries.induct)
  case (1 source target)
  then show ?case by (cases target) auto
next
  case (4 k v source target)
  let ?v = "case map_of target k of Some v' \<Rightarrow> mergeJSONValue v v' | None \<Rightarrow> v"
  have v: "docOk d ?v"
    using 4(1) 4(3,4) entriesOk_lookup by (fastforce split: option.splits)
  have step: "mergeEntries ((k, v) # source) target = mergeEntries source (setKey k ?v target)"
    by (simp split: option.splits)
  have pass: "(case map_of target k of Some v' \<Rightarrow> setKey k (mergeJSONValue v v') target
        | None \<Rightarrow> setKey k v target) = setKey k ?v target"
    by (simp split: option.splits)
  have "entriesOk d (setKey k ?v target)" "distinct (map fst (setKey k ?v target))"
    using 4(3,4,5) v by (auto intro: entriesOk_setKey distinct_setKey)
  then show ?case using 4(2) [of d] 4(3) unfolding step pass by simp
qed simp_all

lemma canonical_value:
  assumes "canonicalizeJSON source = Inr doc" and "decodeDocument source = Inr v"
  shows "docOk 0 (canonJ v)" and "decodeDocument (Content doc) = Inr (canonJ v)"
  using decodeDocument_docOk [OF assms(2)] canonical_decode [OF assms] by (simp_all add: docOk_canonJ)

end
