(* ===== verification/YamlDoc.thy ===== *)
theory YamlDoc
  imports ConfigDoc
begin

text \<open>
  Config documents in YAML and the entry points for both formats
  (\<^verbatim>\<open>internal/configdoc\<close>: \<^verbatim>\<open>canonical.go\<close>, \<^verbatim>\<open>resolve.go\<close>,
  \<^verbatim>\<open>merge.go\<close>). The YAML library parses to a graph of nodes that share and may
  refer back to each other through aliases: here the nodes are the elements of a list and a
  pointer is an index into it; a pointer outside the list stands for a nil pointer. The two
  traversals mark nodes as they go; a fuel of one more than the number of nodes is enough,
  because every nested call has marked one more node.

  The library's parser and emitter are arguments of the definitions (record
  \<^verbatim>\<open>yaml_codec\<close>).
\<close>

section \<open>Nodes\<close>

datatype ynode_kind = DocumentNode | SequenceNode | MappingNode | ScalarNode | AliasNode

record ynode =
  Kind :: ynode_kind
  Tag :: string
  Value :: string
  Line :: nat
  NodeContent :: "nat list"
  Alias :: nat

type_synonym yheap = "ynode list"

text \<open>
  \<^verbatim>\<open>parse\<close> is the first \<^verbatim>\<open>Decode\<close> (the nodes, the document node and what the
  second \<^verbatim>\<open>Decode\<close> reports), \<^verbatim>\<open>emit\<close> what \<^verbatim>\<open>Encode\<close> and
  \<^verbatim>\<open>Close\<close> write in all and the error they return.
\<close>

datatype ytrailer = AtEOF | AnotherDocument | TrailerError

record yaml_codec =
  parse :: "bytes \<Rightarrow> (yheap \<times> nat \<times> ytrailer) option"
  emit :: "yheap \<Rightarrow> nat \<Rightarrow> bytes \<times> bool"

datatype yamlVisitState = yamlVisiting | yamlVisited

type_synonym visits = "nat \<Rightarrow> yamlVisitState option"

section \<open>Validation\<close>

function (sequential) validateYAMLNode :: "nat \<Rightarrow> yheap \<Rightarrow> nat \<Rightarrow> reference list \<Rightarrow> visits \<Rightarrow>
    doc_error + reference list \<times> visits"
  and validateContent :: "nat \<Rightarrow> yheap \<Rightarrow> nat list \<Rightarrow> reference list \<Rightarrow> visits \<Rightarrow>
    doc_error + reference list \<times> visits"
  and validateMapping :: "nat \<Rightarrow> yheap \<Rightarrow> nat list \<Rightarrow> string list \<Rightarrow> reference list \<Rightarrow> visits \<Rightarrow>
    doc_error + reference list \<times> visits" where
  "validateYAMLNode 0 heap p references visits = Inl FuelExhausted"
| "validateYAMLNode (Suc fuel) heap p references visits =
     (if length heap \<le> p then Inr (references, visits)
      else
        (case visits p of
           Some yamlVisiting \<Rightarrow> Inl AliasCycle
         | Some yamlVisited \<Rightarrow> Inr (references, visits)
         | None \<Rightarrow>
             (let node = heap ! p;
                  result =
                    (case Kind node of
                       DocumentNode \<Rightarrow> validateContent fuel heap (NodeContent node) references (visits(p \<mapsto> yamlVisiting))
                     | SequenceNode \<Rightarrow> validateContent fuel heap (NodeContent node) references (visits(p \<mapsto> yamlVisiting))
                     | MappingNode \<Rightarrow>
                         (if length (NodeContent node) mod 2 \<noteq> 0 then Inl InvalidMapping
                          else validateMapping fuel heap (NodeContent node) [] references (visits(p \<mapsto> yamlVisiting)))
                     | ScalarNode \<Rightarrow>
                         (if Tag node \<noteq> ''!!str'' then Inr (references, visits(p \<mapsto> yamlVisiting))
                          else
                            (case findInText (Value node) references of
                               Inl e \<Rightarrow> Inl (Wrapped e)
                             | Inr references' \<Rightarrow> Inr (references', visits(p \<mapsto> yamlVisiting))))
                     | AliasNode \<Rightarrow> validateYAMLNode fuel heap (Alias node) references (visits(p \<mapsto> yamlVisiting)))
              in
                (case result of
                   Inl e \<Rightarrow> Inl e
                 | Inr (references', visits') \<Rightarrow> Inr (references', visits'(p \<mapsto> yamlVisited))))))"
| "validateContent fuel heap [] references visits = Inr (references, visits)"
| "validateContent fuel heap (c # cs) references visits =
     (case validateYAMLNode fuel heap c references visits of
        Inl e \<Rightarrow> Inl e
      | Inr (references', visits') \<Rightarrow> validateContent fuel heap cs references' visits')"
| "validateMapping fuel heap (k # v # cs) keys references visits =
     (if k < length heap \<and> Kind (heap ! k) \<noteq> ScalarNode then Inl NonScalarKey
      else if Value (heap ! k) \<in> set keys then Inl (DuplicateKey (Value (heap ! k)))
      else
        (case validateYAMLNode fuel heap v references visits of
           Inl e \<Rightarrow> Inl e
         | Inr (references', visits') \<Rightarrow>
             validateMapping fuel heap cs (Value (heap ! k) # keys) references' visits'))"
| "validateMapping fuel heap [] keys references visits = Inr (references, visits)"
| "validateMapping fuel heap [k] keys references visits = Inr (references, visits)"
  by pat_completeness auto
termination
  by (relation "measures
      [\<lambda>x. case x of Inl (f, _) \<Rightarrow> f | Inr (Inl (f, _)) \<Rightarrow> f | Inr (Inr (f, _)) \<Rightarrow> f,
       \<lambda>x. case x of Inl _ \<Rightarrow> 0 | Inr (Inl (_, _, cs, _)) \<Rightarrow> Suc (length cs)
         | Inr (Inr (_, _, cs, _)) \<Rightarrow> Suc (length cs)]") auto

definition parseYAML :: "yaml_codec \<Rightarrow> bytes \<Rightarrow> doc_error + yheap \<times> nat \<times> reference list" where
  "parseYAML codec source =
     (case parse codec source of
        None \<Rightarrow> Inl (Wrapped SyntaxError)
      | Some (heap, root, trailer) \<Rightarrow>
          (case trailer of
             AnotherDocument \<Rightarrow> Inl MultipleDocuments
           | TrailerError \<Rightarrow> Inl (Wrapped SyntaxError)
           | AtEOF \<Rightarrow>
               (case validateYAMLNode (Suc (length heap)) heap root [] (\<lambda>_. None) of
                  Inl e \<Rightarrow> Inl e
                | Inr (references, _) \<Rightarrow> Inr (heap, root, references))))"

text \<open>The bounded buffer refuses the write that would exceed the limit.\<close>

definition encodeYAML :: "yaml_codec \<Rightarrow> yheap \<Rightarrow> nat \<Rightarrow> doc_error + bytes" where
  "encodeYAML codec heap root =
     (case emit codec heap root of
        (written, failed) \<Rightarrow>
          if int (length written) > maxConfigBytes then Inl TooLarge
          else if failed then Inl EncodeError
          else Inr written)"

definition canonicalizeYAML :: "yaml_codec \<Rightarrow> bytes \<Rightarrow> doc_error + Document" where
  "canonicalizeYAML codec source =
     (case parseYAML codec source of
        Inl e \<Rightarrow> Inl e
      | Inr (heap, root, references) \<Rightarrow>
          (case encodeYAML codec heap root of
             Inl e \<Rightarrow> Inl (Wrapped e)
           | Inr output \<Rightarrow>
               (case parseYAML codec output of
                  Inl e \<Rightarrow> Inl (Wrapped e)
                | Inr _ \<Rightarrow>
                    Inr \<lparr> Content = output, References = sortedReferences references \<rparr>)))"

section \<open>Resolution\<close>

definition resolveScalar :: "lookup \<Rightarrow> ynode \<Rightarrow> int \<Rightarrow> doc_error + ynode \<times> int" where
  "resolveScalar lookup node remaining =
     (if Tag node \<noteq> ''!!str'' then Inr (node, remaining)
      else
        (case resolveText lookup (Value node) remaining of
           Inl e \<Rightarrow> Inl e
         | Inr (text, rest) \<Rightarrow> Inr (node\<lparr> Value := text \<rparr>, rest)))"

type_synonym ystate = "yheap \<times> int \<times> visits"

function (sequential) resolveYAMLNode :: "nat \<Rightarrow> lookup \<Rightarrow> nat \<Rightarrow> ystate \<Rightarrow> doc_error + ystate"
  and resolveContent :: "nat \<Rightarrow> lookup \<Rightarrow> nat list \<Rightarrow> ystate \<Rightarrow> doc_error + ystate"
  and resolveMapping :: "nat \<Rightarrow> lookup \<Rightarrow> nat list \<Rightarrow> string list \<Rightarrow> ystate \<Rightarrow> doc_error + ystate" where
  "resolveYAMLNode 0 lookup p s = Inl FuelExhausted"
| "resolveYAMLNode (Suc fuel) lookup p (heap, remaining, visits) =
     (if length heap \<le> p then Inr (heap, remaining, visits)
      else
        (case visits p of
           Some yamlVisiting \<Rightarrow> Inl AliasCycle
         | Some yamlVisited \<Rightarrow> Inr (heap, remaining, visits)
         | None \<Rightarrow>
             (let node = heap ! p;
                  s = (heap, remaining, visits(p \<mapsto> yamlVisiting));
                  result =
                    (case Kind node of
                       DocumentNode \<Rightarrow> resolveContent fuel lookup (NodeContent node) s
                     | SequenceNode \<Rightarrow> resolveContent fuel lookup (NodeContent node) s
                     | MappingNode \<Rightarrow>
                         (if length (NodeContent node) mod 2 \<noteq> 0 then Inl InvalidMapping
                          else resolveMapping fuel lookup (NodeContent node) [] s)
                     | ScalarNode \<Rightarrow>
                         (case resolveScalar lookup node remaining of
                            Inl e \<Rightarrow> Inl e
                          | Inr (node', rest) \<Rightarrow> Inr (heap[p := node'], rest, visits(p \<mapsto> yamlVisiting)))
                     | AliasNode \<Rightarrow> resolveYAMLNode fuel lookup (Alias node) s)
              in
                (case result of
                   Inl e \<Rightarrow> Inl e
                 | Inr (heap', rest, visits') \<Rightarrow> Inr (heap', rest, visits'(p \<mapsto> yamlVisited))))))"
| "resolveContent fuel lookup [] s = Inr s"
| "resolveContent fuel lookup (c # cs) s =
     (case resolveYAMLNode fuel lookup c s of
        Inl e \<Rightarrow> Inl e
      | Inr s' \<Rightarrow> resolveContent fuel lookup cs s')"
| "resolveMapping fuel lookup (k # v # cs) keys s =
     (let heap = fst s in
        if k < length heap \<and> Kind (heap ! k) \<noteq> ScalarNode then Inl NonScalarKey
        else if Value (heap ! k) \<in> set keys then Inl (DuplicateKey (Value (heap ! k)))
        else
          (case resolveYAMLNode fuel lookup v s of
             Inl e \<Rightarrow> Inl e
           | Inr s' \<Rightarrow> resolveMapping fuel lookup cs (Value (heap ! k) # keys) s'))"
| "resolveMapping fuel lookup [] keys s = Inr s"
| "resolveMapping fuel lookup [k] keys s = Inr s"
  by pat_completeness auto
termination
  by (relation "measures
      [\<lambda>x. case x of Inl (f, _) \<Rightarrow> f | Inr (Inl (f, _)) \<Rightarrow> f | Inr (Inr (f, _)) \<Rightarrow> f,
       \<lambda>x. case x of Inl _ \<Rightarrow> 0 | Inr (Inl (_, _, cs, _)) \<Rightarrow> Suc (length cs)
         | Inr (Inr (_, _, cs, _)) \<Rightarrow> Suc (length cs)]") auto

definition resolveYAML :: "yaml_codec \<Rightarrow> lookup \<Rightarrow> bytes \<Rightarrow> int \<Rightarrow> doc_error + bytes" where
  "resolveYAML codec lookup canonical remaining =
     (case parse codec canonical of
        None \<Rightarrow> Inl (Wrapped SyntaxError)
      | Some (heap, root, trailer) \<Rightarrow>
          (case trailer of
             AnotherDocument \<Rightarrow> Inl MultipleDocuments
           | TrailerError \<Rightarrow> Inl (Wrapped SyntaxError)
           | AtEOF \<Rightarrow>
               (case resolveYAMLNode (Suc (length heap)) lookup root (heap, remaining, \<lambda>_. None) of
                  Inl e \<Rightarrow> Inl e
                | Inr (heap', _, _) \<Rightarrow>
                    (case encodeYAML codec heap' root of
                       Inl e \<Rightarrow> Inl (Wrapped e)
                     | Inr output \<Rightarrow> Inr output))))"

section \<open>Merge\<close>

text \<open>
  The nodes of both documents are in one list; \<^verbatim>\<open>targetIndexes\<close> maps the keys of the
  target mapping to positions in its content.
\<close>

definition keyPositions :: "yheap \<Rightarrow> nat list \<Rightarrow> (string \<times> nat) list" where
  "keyPositions heap content =
     rev (map (\<lambda>i. (Value (heap ! (content ! (2 * i))), 2 * i)) [0..<(length content + 1) div 2])"

function (sequential) mergeYAMLNode :: "nat \<Rightarrow> yheap \<Rightarrow> nat \<Rightarrow> nat \<Rightarrow> (yheap \<times> nat) option"
  and mergePairs :: "nat \<Rightarrow> yheap \<Rightarrow> nat list \<Rightarrow> nat \<Rightarrow> (string \<times> nat) list \<Rightarrow> yheap option" where
  "mergeYAMLNode 0 heap source target = None"
| "mergeYAMLNode (Suc fuel) heap source target =
     (if Kind (heap ! source) \<noteq> MappingNode \<or> Kind (heap ! target) \<noteq> MappingNode
      then Some (heap, source)
      else
        map_option (\<lambda>heap'. (heap', target))
          (mergePairs fuel heap (NodeContent (heap ! source)) target
             (keyPositions heap (NodeContent (heap ! target)))))"
| "mergePairs fuel heap (k # v # cs) target positions =
     (case map_of positions (Value (heap ! k)) of
        Some i \<Rightarrow>
          (case mergeYAMLNode fuel heap v (NodeContent (heap ! target) ! (i + 1)) of
             None \<Rightarrow> None
           | Some (heap', merged) \<Rightarrow>
               mergePairs fuel
                 (heap'[target := (heap' ! target)
                    \<lparr> NodeContent := (NodeContent (heap' ! target))[i + 1 := merged] \<rparr>])
                 cs target positions)
      | None \<Rightarrow>
          mergePairs fuel
            (heap[target := (heap ! target)\<lparr> NodeContent := NodeContent (heap ! target) @ [k, v] \<rparr>])
            cs target
            ((Value (heap ! k), length (NodeContent (heap ! target))) # positions))"
| "mergePairs fuel heap [] target positions = Some heap"
| "mergePairs fuel heap [k] target positions = Some heap"
  by pat_completeness auto
termination
  by (relation "measures
      [\<lambda>x. case x of Inl (f, _) \<Rightarrow> f | Inr (f, _) \<Rightarrow> f,
       \<lambda>x. case x of Inl _ \<Rightarrow> 0 | Inr (_, _, cs, _) \<Rightarrow> Suc (length cs)]") auto

text \<open>The second document's nodes after the first one's.\<close>

definition shiftNode :: "nat \<Rightarrow> ynode \<Rightarrow> ynode" where
  "shiftNode n node = node\<lparr> NodeContent := map ((+) n) (NodeContent node), Alias := Alias node + n \<rparr>"

definition mergeDocuments :: "yheap \<Rightarrow> nat \<Rightarrow> yheap \<Rightarrow> nat \<Rightarrow> doc_error + yheap \<times> nat" where
  "mergeDocuments sourceHeap sourceRoot targetHeap targetRoot =
     (let n = length sourceHeap;
          heap = sourceHeap @ map (shiftNode n) targetHeap;
          root = targetRoot + n
      in
        (case mergeYAMLNode (Suc (length heap)) heap
                (hd (NodeContent (heap ! sourceRoot))) (hd (NodeContent (heap ! root))) of
           None \<Rightarrow> Inl FuelExhausted
         | Some (heap', merged) \<Rightarrow>
             Inr (heap'[root := (heap' ! root)
               \<lparr> NodeContent := (NodeContent (heap' ! root))[0 := merged] \<rparr>], root)))"

section \<open>Both formats\<close>

definition YAML :: string where "YAML = ''yaml''"
definition JSON :: string where "JSON = ''json''"

definition Canonicalize :: "yaml_codec \<Rightarrow> string \<Rightarrow> bytes \<Rightarrow> doc_error + Document" where
  "Canonicalize codec format source =
     (if int (length source) > maxConfigBytes then Inl TooLarge
      else if format = YAML then canonicalizeYAML codec source
      else if format = JSON then canonicalizeJSON source
      else Inl UnsupportedFormat)"

definition Resolve :: "yaml_codec \<Rightarrow> string \<Rightarrow> bytes \<Rightarrow> lookup option \<Rightarrow> doc_error + bytes" where
  "Resolve codec format canonical lookup =
     (if int (length canonical) > maxConfigBytes then Inl TooLarge
      else
        (case lookup of
           None \<Rightarrow> Inl LookupRequired
         | Some l \<Rightarrow>
             if format = YAML then resolveYAML codec l canonical maxConfigBytes
             else if format = JSON then resolveJSON l canonical maxConfigBytes
             else Inl UnsupportedFormat))"

text \<open>\<^verbatim>\<open>decodeCanonicalJSON\<close> reads one value and does not look behind it.\<close>

definition decodeCanonicalJSON :: "bytes \<Rightarrow> doc_error + json" where
  "decodeCanonicalJSON content =
     (case decodeJSONValue (decodeFuel (newDecoder content)) (newDecoder content) 0 of
        Inl e \<Rightarrow> Inl (Wrapped e)
      | Inr (v, _) \<Rightarrow> Inr v)"

definition Merge :: "yaml_codec \<Rightarrow> string \<Rightarrow> bytes \<Rightarrow> bytes \<Rightarrow> doc_error + Document" where
  "Merge codec format source target =
     (case Canonicalize codec format source of
        Inl e \<Rightarrow> Inl (Wrapped e)
      | Inr s \<Rightarrow>
          (case Canonicalize codec format target of
             Inl e \<Rightarrow> Inl (Wrapped e)
           | Inr t \<Rightarrow>
               if format = JSON then
                 (case (decodeCanonicalJSON (Content s), decodeCanonicalJSON (Content t)) of
                    (Inr source', Inr target') \<Rightarrow>
                      (case encodeJSON (mergeJSONValue source' target') of
                         Inl e \<Rightarrow> Inl (Wrapped e)
                       | Inr content \<Rightarrow> Canonicalize codec JSON content)
                  | (Inl e, _) \<Rightarrow> Inl e
                  | (_, Inl e) \<Rightarrow> Inl e)
               else if format = YAML then
                 (case (parseYAML codec (Content s), parseYAML codec (Content t)) of
                    (Inr (sh, sr, _), Inr (th, tr, _)) \<Rightarrow>
                      (case mergeDocuments sh sr th tr of
                         Inl e \<Rightarrow> Inl e
                       | Inr (heap, root) \<Rightarrow>
                           (case encodeYAML codec heap root of
                              Inl e \<Rightarrow> Inl (Wrapped e)
                            | Inr output \<Rightarrow> Canonicalize codec YAML output))
                  | (Inl e, _) \<Rightarrow> Inl e
                  | (_, Inl e) \<Rightarrow> Inl e)
               else Inl UnsupportedFormat))"

section \<open>The traversals of the node graph end\<close>

definition unmarked :: "yheap \<Rightarrow> visits \<Rightarrow> nat" where
  "unmarked heap visits = card {i. i < length heap \<and> visits i = None}"

text \<open>Marks that are set stay as they are.\<close>

definition keeps :: "visits \<Rightarrow> visits \<Rightarrow> bool" where
  "keeps visits visits' = (\<forall>i. visits i \<noteq> None \<longrightarrow> visits' i = visits i)"

lemma keeps_refl: "keeps v v"
  by (simp add: keeps_def)

lemma keeps_trans: "keeps u v \<Longrightarrow> keeps v w \<Longrightarrow> keeps u w"
  unfolding keeps_def by metis

lemma keeps_leave: "v p = None \<Longrightarrow> keeps (v(p \<mapsto> s)) w \<Longrightarrow> keeps v (w(p \<mapsto> t))"
  unfolding keeps_def by (metis fun_upd_apply)

lemma unmarked_keeps:
  assumes "length h' = length h" and "keeps v w"
  shows "unmarked h' w \<le> unmarked h v"
proof -
  have "{i. i < length h \<and> w i = None} \<subseteq> {i. i < length h \<and> v i = None}"
  proof
    fix i assume "i \<in> {i. i < length h \<and> w i = None}"
    then have "i < length h" "w i = None" by auto
    moreover from assms(2) have "v i \<noteq> None \<longrightarrow> w i = v i" unfolding keeps_def by blast
    ultimately show "i \<in> {i. i < length h \<and> v i = None}" by auto
  qed
  then show ?thesis using assms(1) by (simp add: unmarked_def card_mono)
qed

lemma unmarked_enter:
  assumes "p < length h" and "v p = None"
  shows "unmarked h (v(p \<mapsto> s)) < unmarked h v"
proof -
  have "{i. i < length h \<and> (v(p \<mapsto> s)) i = None} \<subset> {i. i < length h \<and> v i = None}"
    using assms by auto
  then show ?thesis unfolding unmarked_def by (intro psubset_card_mono) auto
qed

lemma unmarked_le: "unmarked h v \<le> length h"
proof -
  have "{i. i < length h \<and> v i = None} \<subseteq> {..<length h}" by auto
  then have "card {i. i < length h \<and> v i = None} \<le> card {..<length h}" by (rule card_mono [rotated]) simp
  then show ?thesis by (simp add: unmarked_def)
qed

definition validated :: "visits \<Rightarrow> doc_error + reference list \<times> visits \<Rightarrow> bool" where
  "validated v result =
     (case result of Inl e \<Rightarrow> e \<noteq> FuelExhausted | Inr (_, v') \<Rightarrow> keeps v v')"

lemma validated_step:
  assumes "validated v result" and "unmarked heap v < fuel"
    and "\<And>rs' v'. result = Inr (rs', v') \<Longrightarrow> unmarked heap v' < fuel \<Longrightarrow> validated v' (follow rs' v')"
  shows "validated v (case result of Inl e \<Rightarrow> Inl e | Inr (rs', v') \<Rightarrow> follow rs' v')"
proof (cases result)
  case (Inl e)
  then show ?thesis using assms(1) by (simp add: validated_def)
next
  case (Inr q)
  obtain rs' v' where q: "q = (rs', v')" by (cases q)
  then have k: "keeps v v'" using assms(1) Inr by (simp add: validated_def)
  then have "unmarked heap v' < fuel" using unmarked_keeps [OF refl k, of heap] assms(2) by simp
  then have "validated v' (follow rs' v')" using assms(3) Inr q by blast
  then show ?thesis using k Inr q keeps_trans
    by (auto simp: validated_def split: sum.splits) 
qed

lemma validate_enough_fuel:
  shows "unmarked heap v < fuel \<Longrightarrow> validated v (validateYAMLNode fuel heap p rs v)"
    and "unmarked heap v < fuel \<Longrightarrow> validated v (validateContent fuel heap cs rs v)"
    and "unmarked heap v < fuel \<Longrightarrow> validated v (validateMapping fuel heap cs keys rs v)"
proof (induction fuel heap p rs v and fuel heap cs rs v and fuel heap cs keys rs v
    rule: validateYAMLNode_validateContent_validateMapping.induct)
  case (2 fuel heap p rs v)
  let ?v = "v(p \<mapsto> yamlVisiting)"
  show ?case
  proof (cases "length heap \<le> p \<or> v p \<noteq> None")
    case True
    then show ?thesis
      by (auto simp: validated_def keeps_refl split: option.splits yamlVisitState.splits)
  next
    case False
    then have p: "\<not> length heap \<le> p" "v p = None" by auto
    then have un: "unmarked heap ?v < fuel" using unmarked_enter [of p heap v yamlVisiting] 2(5) by simp
    then have ih: "Kind (heap ! p) \<in> {DocumentNode, SequenceNode} \<Longrightarrow>
        validated ?v (validateContent fuel heap (NodeContent (heap ! p)) rs ?v)"
      "Kind (heap ! p) = MappingNode \<Longrightarrow> length (NodeContent (heap ! p)) mod 2 = 0 \<Longrightarrow>
        validated ?v (validateMapping fuel heap (NodeContent (heap ! p)) [] rs ?v)"
      "Kind (heap ! p) = AliasNode \<Longrightarrow> validated ?v (validateYAMLNode fuel heap (Alias (heap ! p)) rs ?v)"
      using 2(1-4) p un by (auto simp: fun_upd_def)
    have leave: "validated ?v result \<Longrightarrow>
      validated v (case result of Inl e \<Rightarrow> Inl e
         | Inr (references', visits') \<Rightarrow> Inr (references', visits'(p \<mapsto> yamlVisited)))" for result
      using keeps_leave [of v p yamlVisiting _ yamlVisited] p(2)
      by (auto simp: validated_def split: sum.splits)
    show ?thesis using p ih keeps_refl
      by (cases "Kind (heap ! p)")
        (simp_all add: Let_def leave validated_def [of ?v "Inr _"] validated_def [of _ "Inl _"] split: sum.splits)
  qed
next
  case (4 fuel heap c cs rs v)
  show ?case unfolding validateContent.simps
    by (rule validated_step [OF 4(1) [OF 4(3)] 4(3)]) (use 4(2) in auto)
next
  case (5 fuel heap k x cs keys rs v)
  show ?case
  proof (cases "(k < length heap \<and> Kind (heap ! k) \<noteq> ScalarNode) \<or> Value (heap ! k) \<in> set keys")
    case True
    then show ?thesis by (auto simp: validated_def)
  next
    case False
    have "validated v (case validateYAMLNode fuel heap x rs v of Inl e \<Rightarrow> Inl e
        | Inr (rs', v') \<Rightarrow> validateMapping fuel heap cs (Value (heap ! k) # keys) rs' v')"
      by (rule validated_step [of _ _ heap fuel]) (use 5 False in auto)
    then show ?thesis using False by auto
  qed
qed (simp_all add: validated_def keeps_refl)

lemma parseReference_not_fuel: "parseReference s \<noteq> Inl FuelExhausted"
  by (auto simp: parseReference_def Let_def split: list.splits)

lemma resolveText_not_fuel: "resolveText lookup s r \<noteq> Inl FuelExhausted"
  using parseReference_not_fuel [of s]
  by (auto simp: resolveText_def split: sum.splits prod.splits)

text \<open>What resolution makes of a node it reaches.\<close>

definition resolvedNode :: "lookup \<Rightarrow> ynode \<Rightarrow> ynode" where
  "resolvedNode lookup node =
     (if Kind node = ScalarNode \<and> Tag node = ''!!str''
      then node\<lparr> Value := substText lookup (Value node) \<rparr> else node)"

text \<open>
  The effect of a traversal on the nodes: marked ones stay, and those it marks have been
  resolved, each once and from its own original text.
\<close>

definition advanced :: "lookup \<Rightarrow> yheap \<Rightarrow> visits \<Rightarrow> yheap \<Rightarrow> visits \<Rightarrow> bool" where
  "advanced lookup h v h' v' =
     (length h' = length h \<and> keeps v v' \<and>
      (\<forall>i < length h.
         (v i \<noteq> None \<longrightarrow> h' ! i = h ! i) \<and>
         (v i = None \<longrightarrow> (v' i = None \<and> h' ! i = h ! i) \<or>
                        (v' i = Some yamlVisited \<and> h' ! i = resolvedNode lookup (h ! i)))))"

lemma advanced_refl: "advanced lookup h v h v"
  by (simp add: advanced_def keeps_refl)

lemma advanced_trans:
  assumes "advanced lookup h v h1 v1" and "advanced lookup h1 v1 h2 v2"
  shows "advanced lookup h v h2 v2"
  unfolding advanced_def
proof (intro conjI allI impI)
  show "length h2 = length h" "keeps v v2"
    using assms by (auto simp: advanced_def intro: keeps_trans)
  fix i assume i: "i < length h"
  then have i1: "i < length h1" using assms(1) by (simp add: advanced_def)
  have k1: "v i \<noteq> None \<longrightarrow> v1 i = v i" and k2: "v1 i \<noteq> None \<longrightarrow> v2 i = v1 i"
    using assms unfolding advanced_def keeps_def by blast+
  note s1 = assms(1) [unfolded advanced_def, THEN conjunct2, THEN conjunct2, rule_format, OF i]
  note s2 = assms(2) [unfolded advanced_def, THEN conjunct2, THEN conjunct2, rule_format, OF i1]
  show "v i \<noteq> None \<Longrightarrow> h2 ! i = h ! i" using s1 s2 k1 by metis
  show "v i = None \<Longrightarrow> (v2 i = None \<and> h2 ! i = h ! i) \<or>
      (v2 i = Some yamlVisited \<and> h2 ! i = resolvedNode lookup (h ! i))"
    using s1 s2 k2 by (metis option.distinct(1))
qed

lemma advanced_leave:
  assumes "advanced lookup h (v(p \<mapsto> yamlVisiting)) h' v'" and "v p = None"
    and "p < length h" and "Kind (h ! p) \<noteq> ScalarNode"
  shows "advanced lookup h v h' (v'(p \<mapsto> yamlVisited))"
proof -
  have "h' ! p = h ! p" using assms by (simp add: advanced_def)
  moreover have "resolvedNode lookup (h ! p) = h ! p" using assms(4) by (simp add: resolvedNode_def)
  moreover have "keeps v (v'(p \<mapsto> yamlVisited))"
    using assms(1,2) by (auto simp: advanced_def intro: keeps_leave)
  ultimately show ?thesis using assms(1,2) unfolding advanced_def by simp
qed

lemma advanced_scalar:
  assumes "v p = None" and "p < length h" and "Kind (h ! p) = ScalarNode"
    and "resolveScalar lookup (h ! p) r = Inr (node, r')" and "0 \<le> r"
  shows "advanced lookup h v (h[p := node]) (v(p \<mapsto> yamlVisited)) \<and> 0 \<le> r'"
proof -
  have "node = resolvedNode lookup (h ! p) \<and> 0 \<le> r'"
    using assms(3-5) resolveText_iff [OF assms(5)] resolves_rest
    by (fastforce simp: resolveScalar_def resolvedNode_def split: if_splits sum.splits)
  then show ?thesis using assms(1,2) by (auto simp: advanced_def keeps_def nth_list_update)
qed

definition resolvedOk :: "lookup \<Rightarrow> ystate \<Rightarrow> doc_error + ystate \<Rightarrow> bool" where
  "resolvedOk lookup s result =
     (case s of (h, r, v) \<Rightarrow>
       (case result of
          Inl e \<Rightarrow> e \<noteq> FuelExhausted
        | Inr (h', r', v') \<Rightarrow> advanced lookup h v h' v' \<and> 0 \<le> r'))"

lemma resolvedOk_step:
  assumes "resolvedOk lookup s (Inr s1)" and "0 \<le> fst (snd s)"
    and "unmarked (fst s) (snd (snd s)) < fuel"
    and "0 \<le> fst (snd s1) \<Longrightarrow> unmarked (fst s1) (snd (snd s1)) < fuel \<Longrightarrow> resolvedOk lookup s1 result"
  shows "resolvedOk lookup s result"
proof -
  obtain h r v h1 r1 v1 where s: "s = (h, r, v)" "s1 = (h1, r1, v1)" by (metis prod_cases3)
  then have a: "advanced lookup h v h1 v1" "0 \<le> r1" using assms(1) by (simp_all add: resolvedOk_def)
  then have "length h1 = length h" "keeps v v1" by (simp_all add: advanced_def)
  then have "unmarked h1 v1 < fuel" using unmarked_keeps [of h1 h v v1] assms(3) s by simp
  then have "resolvedOk lookup s1 result" using assms(4) a s by simp
  then show ?thesis using a s advanced_trans
    by (fastforce simp: resolvedOk_def split: sum.splits)
qed

lemma resolveYAMLNode_ok:
  shows "unmarked (fst s) (snd (snd s)) < fuel \<Longrightarrow> 0 \<le> fst (snd s) \<Longrightarrow>
      resolvedOk lookup s (resolveYAMLNode fuel lookup p s)"
    and "unmarked (fst s) (snd (snd s)) < fuel \<Longrightarrow> 0 \<le> fst (snd s) \<Longrightarrow>
      resolvedOk lookup s (resolveContent fuel lookup cs s)"
    and "unmarked (fst s) (snd (snd s)) < fuel \<Longrightarrow> 0 \<le> fst (snd s) \<Longrightarrow>
      resolvedOk lookup s (resolveMapping fuel lookup cs keys s)"
proof (induction fuel lookup p s and fuel lookup cs s and fuel lookup cs keys s
    rule: resolveYAMLNode_resolveContent_resolveMapping.induct)
  case (2 fuel lookup p h r v)
  let ?v = "v(p \<mapsto> yamlVisiting)"
  show ?case
  proof (cases "length h \<le> p \<or> v p \<noteq> None")
    case True
    then show ?thesis using 2(6)
      by (auto simp: resolvedOk_def advanced_refl split: option.splits yamlVisitState.splits)
  next
    case False
    then have p: "\<not> length h \<le> p" "p < length h" "v p = None" by auto
    then have un: "unmarked h ?v < fuel" using unmarked_enter [of p h v yamlVisiting] 2(5) by simp
    have r: "0 \<le> r" using 2(6) by simp
    have ih: "Kind (h ! p) \<in> {DocumentNode, SequenceNode} \<Longrightarrow>
        resolvedOk lookup (h, r, ?v) (resolveContent fuel lookup (NodeContent (h ! p)) (h, r, ?v))"
      "Kind (h ! p) = MappingNode \<Longrightarrow> length (NodeContent (h ! p)) mod 2 = 0 \<Longrightarrow>
        resolvedOk lookup (h, r, ?v) (resolveMapping fuel lookup (NodeContent (h ! p)) [] (h, r, ?v))"
      "Kind (h ! p) = AliasNode \<Longrightarrow>
        resolvedOk lookup (h, r, ?v) (resolveYAMLNode fuel lookup (Alias (h ! p)) (h, r, ?v))"
      using 2(1-4) p un r by (auto simp: fun_upd_def)
    have leave: "Kind (h ! p) \<noteq> ScalarNode \<Longrightarrow> resolvedOk lookup (h, r, ?v) result \<Longrightarrow>
      resolvedOk lookup (h, r, v) (case result of Inl e \<Rightarrow> Inl e
         | Inr (h', r', v') \<Rightarrow> Inr (h', r', v'(p \<mapsto> yamlVisited)))" for result
      using advanced_leave [of lookup h v p] p(2,3)
      by (auto simp: resolvedOk_def split: sum.splits)
    show ?thesis
    proof (cases "Kind (h ! p) = ScalarNode")
      case True
      show ?thesis
      proof (cases "resolveScalar lookup (h ! p) r")
        case (Inl e)
        then have "e \<noteq> FuelExhausted" using resolveText_not_fuel
          by (auto simp: resolveScalar_def split: if_splits sum.splits)
        then show ?thesis using Inl True p by (simp add: Let_def resolvedOk_def)
      next
        case (Inr q)
        obtain node r' where "q = (node, r')" by (cases q)
        then show ?thesis using True p r Inr advanced_scalar [of v p h lookup r node r']
          by (simp add: Let_def resolvedOk_def)
      qed
    next
      case False
      then show ?thesis using p ih
        by (cases "Kind (h ! p)")
          (simp_all add: Let_def leave [OF False] resolvedOk_def [of _ _ "Inl _"])
    qed
  qed
next
  case (4 fuel lookup c cs s)
  show ?case
  proof (cases "resolveYAMLNode fuel lookup c s")
    case (Inl e)
    then show ?thesis using 4 by (simp add: resolvedOk_def)
  next
    case (Inr s1)
    then show ?thesis using resolvedOk_step [of lookup s s1 fuel] 4 by simp
  qed
next
  case (5 fuel lookup k x cs keys s)
  show ?case
  proof (cases "(k < length (fst s) \<and> Kind (fst s ! k) \<noteq> ScalarNode) \<or> Value (fst s ! k) \<in> set keys")
    case True
    then show ?thesis by (cases s) (auto simp: resolvedOk_def Let_def)
  next
    case False
    show ?thesis
    proof (cases "resolveYAMLNode fuel lookup x s")
      case (Inl e)
      then show ?thesis using 5 False by (auto simp: resolvedOk_def Let_def)
    next
      case (Inr s1)
      then show ?thesis using resolvedOk_step [of lookup s s1 fuel] 5 False by (auto simp: Let_def)
    qed
  qed
qed (auto simp: resolvedOk_def advanced_refl)

section \<open>What a traversal reaches\<close>

text \<open>
  The nodes a node leads to: the items of a document or a sequence, the values of a mapping but not
  its keys, what an alias stands for.
\<close>

fun valuesOfPairs :: "nat list \<Rightarrow> nat list" where
  "valuesOfPairs (k # v # cs) = v # valuesOfPairs cs"
| "valuesOfPairs cs = []"

definition valueNodes :: "ynode \<Rightarrow> nat list" where
  "valueNodes node =
     (case Kind node of
        DocumentNode \<Rightarrow> NodeContent node | SequenceNode \<Rightarrow> NodeContent node
      | MappingNode \<Rightarrow> valuesOfPairs (NodeContent node) | ScalarNode \<Rightarrow> [] | AliasNode \<Rightarrow> [Alias node])"

inductive linked :: "nat list list \<Rightarrow> nat \<Rightarrow> nat \<Rightarrow> bool" for links p where
  here: "p < length links \<Longrightarrow> linked links p p"
| there: "linked links p i \<Longrightarrow> j \<in> set (links ! i) \<Longrightarrow> j < length links \<Longrightarrow> linked links p j"

definition reaches :: "yheap \<Rightarrow> nat \<Rightarrow> nat \<Rightarrow> bool" where
  "reaches heap = linked (map valueNodes heap)"

lemma linked_first:
  assumes "linked links q i" and "q \<in> set (links ! p)" and "p < length links"
  shows "linked links p i"
  using assms(1)
proof (induction rule: linked.induct)
  case here
  show ?case by (rule linked.there [OF linked.here [OF assms(3)] assms(2) here])
next
  case (there i j)
  show ?case by (rule linked.there [OF there(4,2,3)])
qed

text \<open>After a traversal of some nodes these are visited, and with each visited node what it leads to.\<close>

definition covers :: "nat set \<Rightarrow> ystate \<Rightarrow> doc_error + ystate \<Rightarrow> bool" where
  "covers P s result =
     (case result of
        Inl _ \<Rightarrow> True
      | Inr (h', r', v') \<Rightarrow>
          (case s of (h, r, v) \<Rightarrow>
             map valueNodes h' = map valueNodes h \<and> keeps v v' \<and>
             (\<forall>p \<in> P. p < length h \<longrightarrow> v' p = Some yamlVisited) \<and>
             (\<forall>i < length h. v i = None \<longrightarrow> v' i \<noteq> None \<longrightarrow>
                v' i = Some yamlVisited \<and>
                (\<forall>j \<in> set (valueNodes (h ! i)). j < length h \<longrightarrow> v' j = Some yamlVisited) \<and>
                (\<exists>p \<in> P. reaches h p i))))"

lemma covers_refl: "(\<And>p. p \<in> P \<Longrightarrow> p < length h \<Longrightarrow> v p = Some yamlVisited) \<Longrightarrow> covers P (h, r, v) (Inr (h, r, v))"
  by (simp add: covers_def keeps_refl)

lemma covers_trans:
  assumes "covers P s (Inr s1)" and "covers Q s1 result"
  shows "covers (P \<union> Q) s result"
proof (cases result)
  case (Inr s2)
  obtain h r v h1 r1 v1 h2 r2 v2 where s: "s = (h, r, v)" "s1 = (h1, r1, v1)" "s2 = (h2, r2, v2)"
    by (metis prod_cases3)
  have 1: "map valueNodes h1 = map valueNodes h" "keeps v v1" "\<forall>p \<in> P. p < length h \<longrightarrow> v1 p = Some yamlVisited"
    "\<forall>i < length h. v i = None \<longrightarrow> v1 i \<noteq> None \<longrightarrow> v1 i = Some yamlVisited \<and>
       (\<forall>j \<in> set (valueNodes (h ! i)). j < length h \<longrightarrow> v1 j = Some yamlVisited) \<and> (\<exists>p \<in> P. reaches h p i)"
    using assms(1) s by (simp_all add: covers_def)
  have 2: "map valueNodes h2 = map valueNodes h1" "keeps v1 v2" "\<forall>p \<in> Q. p < length h1 \<longrightarrow> v2 p = Some yamlVisited"
    "\<forall>i < length h1. v1 i = None \<longrightarrow> v2 i \<noteq> None \<longrightarrow> v2 i = Some yamlVisited \<and>
       (\<forall>j \<in> set (valueNodes (h1 ! i)). j < length h1 \<longrightarrow> v2 j = Some yamlVisited) \<and> (\<exists>p \<in> Q. reaches h1 p i)"
    using assms(2) s Inr by (simp_all add: covers_def)
  have len: "length h1 = length h" and nodes: "i < length h \<Longrightarrow> valueNodes (h1 ! i) = valueNodes (h ! i)" for i
    using 1(1) by (metis length_map, metis length_map nth_map)
  have reaches: "reaches h1 = reaches h" by (simp add: reaches_def 1(1))
  have stay: "v1 i = Some yamlVisited \<Longrightarrow> v2 i = Some yamlVisited" for i using 2(2) by (simp add: keeps_def)
  have "v2 i = Some yamlVisited \<and> (\<forall>j \<in> set (valueNodes (h ! i)). j < length h \<longrightarrow> v2 j = Some yamlVisited) \<and>
      (\<exists>p \<in> P \<union> Q. reaches h p i)" if i: "i < length h" "v i = None" "v2 i \<noteq> None" for i
  proof (cases "v1 i = None")
    case True
    then show ?thesis using 2(4) i len nodes [OF i(1)] reaches by fastforce
  next
    case False
    then show ?thesis using 1(4) i stay by fastforce
  qed
  then have "\<forall>i < length h. v i = None \<longrightarrow> v2 i \<noteq> None \<longrightarrow> v2 i = Some yamlVisited \<and>
      (\<forall>j \<in> set (valueNodes (h ! i)). j < length h \<longrightarrow> v2 j = Some yamlVisited) \<and> (\<exists>p \<in> P \<union> Q. reaches h p i)"
    by blast
  moreover have "\<forall>p \<in> P \<union> Q. p < length h \<longrightarrow> v2 p = Some yamlVisited" using 1(3) 2(3) len stay by auto
  moreover have "map valueNodes h2 = map valueNodes h" using 1(1) 2(1) by simp
  ultimately show ?thesis
    unfolding covers_def Inr s prod.case sum.case using keeps_trans [OF 1(2) 2(2)] by blast
qed (simp add: covers_def)

lemma covers_leave:
  assumes "covers (set (valueNodes (h ! p))) (h, r, v(p \<mapsto> yamlVisiting)) (Inr (h', r', v'))"
    and "v p = None" and "p < length h"
  shows "covers {p} (h, r, v) (Inr (h', r', v'(p \<mapsto> yamlVisited)))"
proof -
  have 1: "map valueNodes h' = map valueNodes h" "keeps (v(p \<mapsto> yamlVisiting)) v'"
    "\<forall>j \<in> set (valueNodes (h ! p)). j < length h \<longrightarrow> v' j = Some yamlVisited"
    "\<forall>i < length h. (v(p \<mapsto> yamlVisiting)) i = None \<longrightarrow> v' i \<noteq> None \<longrightarrow> v' i = Some yamlVisited \<and>
       (\<forall>j \<in> set (valueNodes (h ! i)). j < length h \<longrightarrow> v' j = Some yamlVisited) \<and>
       (\<exists>q \<in> set (valueNodes (h ! p)). reaches h q i)"
    using assms(1) by (simp_all add: covers_def)
  have p: "reaches h p p" using assms(3) by (simp add: reaches_def linked.here)
  have step: "q \<in> set (valueNodes (h ! p)) \<Longrightarrow> reaches h q i \<Longrightarrow> reaches h p i" for q i
    using linked_first [of "map valueNodes h" q i p] assms(3) by (simp add: reaches_def)
  have "(v'(p \<mapsto> yamlVisited)) i = Some yamlVisited \<and>
      (\<forall>j \<in> set (valueNodes (h ! i)). j < length h \<longrightarrow> (v'(p \<mapsto> yamlVisited)) j = Some yamlVisited) \<and> reaches h p i"
    if "i < length h" "v i = None" "(v'(p \<mapsto> yamlVisited)) i \<noteq> None" for i
    using 1(3,4) that p step by (cases "i = p") fastforce+
  then show ?thesis using 1(1,2) keeps_leave [OF assms(2) 1(2)] by (simp add: covers_def)
qed

lemma resolveYAMLNode_covers:
  shows "covers {p} s (resolveYAMLNode fuel lookup p s)"
    and "covers (set cs) s (resolveContent fuel lookup cs s)"
    and "covers (set (valuesOfPairs cs)) s (resolveMapping fuel lookup cs keys s)"
proof (induction fuel lookup p s and fuel lookup cs s and fuel lookup cs keys s
    rule: resolveYAMLNode_resolveContent_resolveMapping.induct)
  case (2 fuel lookup p h r v)
  let ?v = "v(p \<mapsto> yamlVisiting)"
  show ?case
  proof (cases "length h \<le> p \<or> v p \<noteq> None")
    case True
    then show ?thesis
      by (auto simp: covers_def keeps_refl split: option.splits yamlVisitState.splits)
  next
    case False
    then have p: "\<not> length h \<le> p" "p < length h" "v p = None" by auto
    have ih: "Kind (h ! p) \<in> {DocumentNode, SequenceNode} \<Longrightarrow>
        covers (set (valueNodes (h ! p))) (h, r, ?v) (resolveContent fuel lookup (NodeContent (h ! p)) (h, r, ?v))"
      "Kind (h ! p) = MappingNode \<Longrightarrow> length (NodeContent (h ! p)) mod 2 = 0 \<Longrightarrow>
        covers (set (valueNodes (h ! p))) (h, r, ?v) (resolveMapping fuel lookup (NodeContent (h ! p)) [] (h, r, ?v))"
      "Kind (h ! p) = AliasNode \<Longrightarrow>
        covers (set (valueNodes (h ! p))) (h, r, ?v) (resolveYAMLNode fuel lookup (Alias (h ! p)) (h, r, ?v))"
      using 2(1-4) p by (auto simp: fun_upd_def valueNodes_def)
    have scalar: "covers (set (valueNodes (h ! p))) (h, r, ?v) (Inr (h[p := node'], rest, ?v))"
      if "Kind (h ! p) = ScalarNode" "resolveScalar lookup (h ! p) r = Inr (node', rest)" for node' rest
    proof -
      have "valueNodes node' = valueNodes (h ! p)"
        using that by (auto simp: resolveScalar_def valueNodes_def split: if_splits sum.splits)
      then have "map valueNodes (h[p := node']) = map valueNodes h"
        using p(2) by (simp add: map_update) (metis list_update_id map_update)
      then show ?thesis using that(1) by (simp add: covers_def keeps_refl valueNodes_def)
    qed
    have leave: "covers (set (valueNodes (h ! p))) (h, r, ?v) result \<Longrightarrow>
      covers {p} (h, r, v) (case result of Inl e \<Rightarrow> Inl e
         | Inr (h', r', v') \<Rightarrow> Inr (h', r', v'(p \<mapsto> yamlVisited)))" for result
      using covers_leave [of h p r v] p(2,3) by (auto simp: covers_def [of _ _ "Inl _"] split: sum.splits prod.splits)
    show ?thesis
      using p ih scalar leave
      by (cases "Kind (h ! p)")
        (auto simp: Let_def covers_def [of _ _ "Inl _"] split: sum.splits prod.splits)
  qed
next
  case (4 fuel lookup c cs s)
  then show ?case
    using covers_trans [of "{c}" s _ "set cs"] by (auto simp: covers_def [of _ _ "Inl _"] split: sum.splits)
next
  case (5 fuel lookup k x cs keys s)
  then show ?case
    using covers_trans [of "{x}" s _ "set (valuesOfPairs cs)"]
    by (auto simp: Let_def covers_def [of _ _ "Inl _"] split: sum.splits)
qed (auto simp: covers_def keeps_refl)

text \<open>A traversal from the root visits what the root reaches.\<close>

lemma visited_reaches:
  assumes "resolveYAMLNode fuel lookup root (h, r, \<lambda>_. None) = Inr (h', r', v')" and "i < length h"
  shows "v' i = (if reaches h root i then Some yamlVisited else None)"
proof -
  have "covers {root} (h, r, \<lambda>_. None) (Inr (h', r', v'))"
    using resolveYAMLNode_covers(1) [of root "(h, r, \<lambda>_. None)" fuel lookup] unfolding assms(1) .
  then have c: "(\<forall>p \<in> {root}. p < length h \<longrightarrow> v' p = Some yamlVisited)"
    "(\<forall>i < length h. None = None \<longrightarrow> v' i \<noteq> None \<longrightarrow> v' i = Some yamlVisited \<and>
       (\<forall>j \<in> set (valueNodes (h ! i)). j < length h \<longrightarrow> v' j = Some yamlVisited) \<and> (\<exists>p \<in> {root}. reaches h p i))"
    unfolding covers_def prod.case sum.case by blast+
  have 1: "root < length h \<Longrightarrow> v' root = Some yamlVisited"
    "\<forall>i < length h. v' i \<noteq> None \<longrightarrow> v' i = Some yamlVisited \<and>
       (\<forall>j \<in> set (valueNodes (h ! i)). j < length h \<longrightarrow> v' j = Some yamlVisited) \<and> reaches h root i"
    using c by blast+
  have there: "linked (map valueNodes h) root i \<Longrightarrow> i < length h \<and> v' i = Some yamlVisited" for i
  proof (induction rule: linked.induct)
    case here
    then show ?case using 1(1) by simp
  next
    case (there i j)
    then show ?case using 1(2) by auto
  qed
  show ?thesis
  proof (cases "reaches h root i")
    case True
    then show ?thesis using there by (simp add: reaches_def)
  next
    case False
    then have "v' i = None" using 1(2) assms(2) by blast
    then show ?thesis using False by simp
  qed
qed

section \<open>A sample document\<close>

text \<open>A concrete Config on which the properties below are exercised.\<close>

definition sampleValue :: json where
  "sampleValue = JObj [(''pw'', JStr ''{vault.db.main.pw}'')]"

definition sampleReference :: reference where
  "sampleReference = Reference ''db'' ''main'' ''pw''"

definition sampleSource :: bytes where
  "sampleSource = render 0 sampleValue @ [CHR 0x0A]"

definition sampleDocument :: Document where
  "sampleDocument = \<lparr> Content = sampleSource, References = [sampleReference] \<rparr>"

lemma utf8_plain: "list_all (byteIn 0 0x7F) s \<Longrightarrow> utf8 s"
  by (induction s) (auto simp: runeSize_def)

lemma sample_ok: "docOk 0 sampleValue"
proof -
  have "utf8 ''pw''" "utf8 ''{vault.db.main.pw}''" by (rule utf8_plain, simp add: byteIn_def)+
  then show ?thesis by (simp add: sampleValue_def)
qed

lemma sample_canonJ: "canonJ sampleValue = sampleValue"
  by (simp add: sampleValue_def)

lemma sample_decode: "decodeDocument sampleSource = Inr sampleValue"
  using decodeDocument_render [OF sample_ok] by (simp add: sampleSource_def sample_canonJ)

lemma sample_parse: "parseReference ''{vault.db.main.pw}'' = Inr (sampleReference, False, True)"
proof -
  have "validReference sampleReference \<and> ''{vault.db.main.pw}'' = String sampleReference" by code_simp
  then show ?thesis using parse_printed by metis
qed

lemma sample_length: "length sampleSource = 33"
proof -
  have "escapeJSON ''pw'' = ''pw''" "escapeJSON ''{vault.db.main.pw}'' = ''{vault.db.main.pw}''"
    by (simp_all add: runeSize_def byteIn_def escapeASCII_def)
  then show ?thesis
    by (simp add: sampleSource_def sampleValue_def bracketed_def marshalScalar_def quoteJSON_def spaces_def
        del: escapeJSON.simps)
qed

lemma sample_canonical: "canonicalizeJSON sampleSource = Inr sampleDocument"
  unfolding canonicalizeJSON_Inr
proof (intro exI conjI)
  show "decodeDocument sampleSource = Inr sampleValue" by (rule sample_decode)
  show "findJSONReferences sampleValue [] = Inr [sampleReference]"
    by (simp add: sampleValue_def findInText_def sample_parse recordReference_def)
qed (simp_all add: sampleDocument_def sampleSource_def [symmetric] sample_length maxConfigBytes_def sortedReferences_def)

lemma sample_Canonicalize: "Canonicalize codec JSON sampleSource = Inr sampleDocument"
  using sample_canonical sample_length by (simp add: Canonicalize_def maxConfigBytes_def YAML_def JSON_def)

text \<open>A YAML library that accepts nothing; the JSON path does not call it.\<close>

definition noYaml :: yaml_codec where
  "noYaml = \<lparr> parse = \<lambda>_. None, emit = \<lambda>_ _. ([], False) \<rparr>"

lemma Canonicalize_JSON:
  "Canonicalize codec JSON source = Inr doc \<longleftrightarrow>
   int (length source) \<le> maxConfigBytes \<and> canonicalizeJSON source = Inr doc"
  by (auto simp: Canonicalize_def YAML_def JSON_def)

lemma decodeCanonicalJSON_document: "decodeDocument content = Inr v \<Longrightarrow> decodeCanonicalJSON content = Inr v"
  by (auto simp: decodeDocument_def decodeCanonicalJSON_def
      split: sum.splits prod.splits token_error.splits)

section \<open>Properties\<close>

text \<open>
  C29. Canonical JSON Configs are fixed points. Whatever JSON source is accepted, canonicalizing
  its canonical content again succeeds with the same content and the same references: a stored
  Config revision compares equal to its own re-submission, whatever order the keys, the
  whitespace or the escapes of the submission were in.
\<close>

theorem Canonicalize_fixed_point:
  assumes "Canonicalize codec JSON source = Inr doc"
  shows "Canonicalize codec JSON (Content doc) = Inr doc"
  using assms canonicalizeJSON_idem canonicalizeJSON_Inr unfolding Canonicalize_JSON by blast

theorem Canonicalize_fixed_point_witness:
  "Canonicalize noYaml JSON (Content sampleDocument) = Inr sampleDocument"
  by (rule Canonicalize_fixed_point [OF sample_Canonicalize])

text \<open>
  C30. Resolution of a stored JSON Config. For a canonical document, resolution succeeds exactly
  when the lookup finds every reference that was recorded with the document and the output fits
  5 MiB; the output is then the document with each reference scalar replaced by its value and
  each escaped scalar by the reference it shows, and no value is read as a reference again.
\<close>

theorem Resolve_exact:
  assumes "Canonicalize codec JSON source = Inr doc" and "decodeDocument (Content doc) = Inr v"
  shows "Resolve codec JSON (Content doc) (Some lookup) = Inr output \<longleftrightarrow>
    (\<forall>r \<in> set (References doc). found lookup r) \<and>
    output = render 0 (substJSON lookup v) @ [CHR 0x0A] \<and> int (length output) \<le> maxConfigBytes"
proof -
  have doc: "canonicalizeJSON source = Inr doc" using assms(1) by (simp add: Canonicalize_JSON)
  then have "int (length (Content doc)) \<le> maxConfigBytes" by (auto simp: canonicalizeJSON_Inr)
  then show ?thesis using resolve_canonical [OF doc assms(2), of lookup "output"]
    by (simp add: Resolve_def YAML_def JSON_def)
qed

theorem Resolve_exact_witness:
  "Resolve noYaml JSON (Content sampleDocument) (Some (\<lambda>r. Inr ''s3''))
     = Inr (render 0 (JObj [(''pw'', JStr ''s3'')]) @ [CHR 0x0A])"
proof -
  let ?out = "render 0 (JObj [(''pw'', JStr ''s3'')]) @ [CHR 0x0A]"
  have dec: "decodeDocument (Content sampleDocument) = Inr sampleValue"
    using sample_decode by (simp add: sampleDocument_def)
  have sub: "substJSON (\<lambda>r. Inr ''s3'') sampleValue = JObj [(''pw'', JStr ''s3'')]"
    by (simp add: sampleValue_def substText_def sample_parse)
  have esc: "escapeJSON ''pw'' = ''pw''" "escapeJSON ''s3'' = ''s3''"
    by (simp_all add: runeSize_def byteIn_def escapeASCII_def)
  have "length ?out = 17"
    by (simp add: bracketed_def marshalScalar_def quoteJSON_def spaces_def esc del: escapeJSON.simps)
  then have "int (length ?out) \<le> maxConfigBytes" by (simp add: maxConfigBytes_def)
  moreover have "\<forall>r \<in> set (References sampleDocument). found (\<lambda>r. Inr ''s3'') r" by (simp add: found_def)
  ultimately show ?thesis
    using Resolve_exact [OF sample_Canonicalize dec, of noYaml "\<lambda>r. Inr ''s3''" ?out] sub by simp
qed

text \<open>
  What a merge is: two objects are merged key by key, the keys that one side has are kept with
  their value, and wherever the two sides are not both objects the source's value stands.
\<close>

inductive overlays :: "json \<Rightarrow> json \<Rightarrow> json \<Rightarrow> bool" where
  stands: "(\<And>es ts. s = JObj es \<Longrightarrow> t \<noteq> JObj ts) \<Longrightarrow> overlays s t s"
| keywise: "distinct (map fst ms) \<Longrightarrow>
    (\<And>k. map_of es k = None \<Longrightarrow> map_of ms k = map_of ts k) \<Longrightarrow>
    (\<And>k v. map_of es k = Some v \<Longrightarrow> map_of ts k = None \<Longrightarrow> map_of ms k = Some v) \<Longrightarrow>
    (\<And>k v w. map_of es k = Some v \<Longrightarrow> map_of ts k = Some w \<Longrightarrow> \<exists>m. map_of ms k = Some m \<and> overlays v w m) \<Longrightarrow>
    overlays (JObj es) (JObj ts) (JObj ms)"

lemma map_of_canonical:
  "distinct (map fst es) \<Longrightarrow> map_of (sort_key fst (canonEntries es)) k = map_option canonJ (map_of es k)"
proof -
  assume "distinct (map fst es)"
  then have "map_of (sort_key fst (canonEntries es)) = map_of (canonEntries es)"
    by (intro map_of_inject_set [THEN iffD2]) simp_all
  moreover have "map_of (canonEntries es) k = map_option canonJ (map_of es k)"
    unfolding canonEntries_map by (induction es) auto
  ultimately show ?thesis by simp
qed

lemma inOrder_lookup: "entriesInOrder es \<Longrightarrow> map_of es k = Some v \<Longrightarrow> inOrder v"
  by (auto simp: entriesInOrder_iff dest: map_of_SomeD)

lemma size_member: "map_of es k = Some v \<Longrightarrow> size v < size (JObj es)"
  by (induction es) (auto split: if_splits)

lemma overlays_merge:
  "docOk d s \<Longrightarrow> docOk d t \<Longrightarrow> inOrder s \<Longrightarrow> inOrder t \<Longrightarrow> overlays s t (canonJ (mergeJSONValue s t))"
proof (induction s arbitrary: d t rule: measure_induct_rule [where f = size])
  case (less s)
  show ?case
  proof (cases "\<exists>es ts. s = JObj es \<and> t = JObj ts")
    case False
    then have "mergeJSONValue s t = s" by (cases s; cases t) simp_all
    then have "canonJ (mergeJSONValue s t) = s" using canonJ_inOrder(1) less.prems(3) by simp
    moreover have "overlays s t s" using False by (intro overlays.stands) blast
    ultimately show ?thesis by simp
  next
    case True
    then obtain es ts where o: "s = JObj es" "t = JObj ts" by blast
    let ?ms = "mergeEntries es ts"
    have e: "distinct (map fst es)" "distinct (map fst ts)" "entriesOk (d + 1) es" "entriesOk (d + 1) ts"
      "entriesInOrder es" "entriesInOrder ts"
      using less.prems o by simp_all
    have dist: "distinct (map fst ?ms)" using docOk_merge(2) [OF e(3,4,2)] by simp
    note lookup = map_of_canonical [OF dist] map_of_mergeEntries [OF e(1), of ts]
    have same: "map_of xs k = Some v \<Longrightarrow> entriesInOrder xs \<Longrightarrow> canonJ v = v" for xs k v
      using inOrder_lookup canonJ_inOrder(1) by blast
    have "overlays (JObj es) (JObj ts) (JObj (sort_key fst (canonEntries ?ms)))"
    proof (rule overlays.keywise)
      show "distinct (map fst (sort_key fst (canonEntries ?ms)))" using dist by simp
      show "map_of (sort_key fst (canonEntries ?ms)) k = map_of ts k" if "map_of es k = None" for k
        using that lookup(1) [of k] lookup(2) [of k] same [OF _ e(6), of k] by (cases "map_of ts k") simp_all
      show "map_of (sort_key fst (canonEntries ?ms)) k = Some v"
        if "map_of es k = Some v" "map_of ts k = None" for k v
        using that lookup(1) [of k] lookup(2) [of k] same [OF that(1) e(5)] by simp
      show "\<exists>m. map_of (sort_key fst (canonEntries ?ms)) k = Some m \<and> overlays v w m"
        if k: "map_of es k = Some v" "map_of ts k = Some w" for k v w
      proof -
        have "size v < size (JObj es)" using k(1) by (rule size_member)
        then have "size v < size s" using o(1) by simp
        moreover have "docOk (d + 1) v" "docOk (d + 1) w" using entriesOk_lookup k e(3,4) by blast+
        moreover have "inOrder v" "inOrder w" using inOrder_lookup k e(5,6) by blast+
        ultimately have "overlays v w (canonJ (mergeJSONValue v w))" using less.IH by blast
        then show ?thesis using lookup(1) [of k] lookup(2) [of k] k by simp
      qed
    qed
    then show ?thesis by (simp add: o)
  qed
qed

lemma Merge_decodes:
  assumes "Merge codec JSON source target = Inr doc"
    and "decodeDocument source = Inr s" and "decodeDocument target = Inr t"
  shows "decodeDocument (Content doc) = Inr (canonJ (mergeJSONValue (canonJ s) (canonJ t)))"
    and "docOk 0 (canonJ s)" and "docOk 0 (canonJ t)"
proof -
  have ne: "JSON \<noteq> YAML" by (simp add: JSON_def YAML_def)
  obtain ds dt where ds: "Canonicalize codec JSON source = Inr ds"
    and dt: "Canonicalize codec JSON target = Inr dt"
    using assms(1) by (auto simp: Merge_def split: sum.splits)
  have cs: "canonicalizeJSON source = Inr ds" and ct: "canonicalizeJSON target = Inr dt"
    using ds dt by (simp_all add: Canonicalize_JSON)
  note vs = canonical_value [OF cs assms(2)] and vt = canonical_value [OF ct assms(3)]
  show "docOk 0 (canonJ s)" "docOk 0 (canonJ t)" using vs(1) vt(1) .
  have "decodeCanonicalJSON (Content ds) = Inr (canonJ s)" "decodeCanonicalJSON (Content dt) = Inr (canonJ t)"
    using vs(2) vt(2) decodeCanonicalJSON_document by blast+
  then obtain content where enc: "encodeJSON (mergeJSONValue (canonJ s) (canonJ t)) = Inr content"
    and res: "Canonicalize codec JSON content = Inr doc"
    using assms(1) ds dt ne by (auto simp: Merge_def split: sum.splits)
  have ok: "docOk 0 (mergeJSONValue (canonJ s) (canonJ t))" using vs(1) vt(1) by (rule docOk_merge(1))
  have "decodeDocument content = Inr (canonJ (mergeJSONValue (canonJ s) (canonJ t)))"
    using decodeDocument_render [OF ok] enc by (simp add: encodeJSON_Inr)
  moreover from this have "decodeDocument (Content doc) = Inr (canonJ (canonJ (mergeJSONValue (canonJ s) (canonJ t))))"
    using res canonical_value(2) by (auto simp: Canonicalize_JSON)
  ultimately show "decodeDocument (Content doc) = Inr (canonJ (mergeJSONValue (canonJ s) (canonJ t)))"
    by (simp add: canonJ_idem)
qed

lemma Merge_overlays:
  assumes "Merge codec JSON source target = Inr doc"
    and "decodeDocument source = Inr s" and "decodeDocument target = Inr t"
  shows "\<exists>m. decodeDocument (Content doc) = Inr m \<and> inOrder m \<and> overlays (canonJ s) (canonJ t) m"
  using Merge_decodes [OF assms] overlays_merge [of 0 "canonJ s" "canonJ t"] inOrder_canonJ(1) by blast

text \<open>
  C32. Merging JSON Configs. The merged document decodes to a value with its keys in order that is
  the overlay of the source on the target: two objects are merged key by key, a key that only one
  side has keeps that side's value, and wherever the two sides are not both objects the value is
  the source's.
\<close>

theorem Merge_merges:
  assumes "Merge codec JSON source target = Inr doc"
    and "decodeDocument source = Inr s" and "decodeDocument target = Inr t"
  shows "\<exists>m. decodeDocument (Content doc) = Inr m \<and> inOrder m \<and> overlays (canonJ s) (canonJ t) m"
  using Merge_overlays [OF assms] .

text \<open>A key of both sides, a key of the source and a key of the target.\<close>

definition mergeSource :: json where
  "mergeSource = JObj [(''a'', JStr ''new''), (''b'', JObj [(''x'', JNull)])]"

definition mergeTarget :: json where
  "mergeTarget = JObj [(''a'', JStr ''old''), (''b'', JObj [(''y'', JNull)]), (''c'', JNull)]"

definition mergeResult :: json where
  "mergeResult = JObj [(''a'', JStr ''new''), (''b'', JObj [(''x'', JNull), (''y'', JNull)]), (''c'', JNull)]"

definition jsonText_of :: "json \<Rightarrow> bytes" where
  "jsonText_of v = render 0 v @ [CHR 0x0A]"

lemma merge_run:
  "(case Merge noYaml JSON (jsonText_of mergeSource) (jsonText_of mergeTarget) of
      Inl _ \<Rightarrow> False | Inr doc \<Rightarrow> decodeDocument (Content doc) = Inr mergeResult)"
  by code_simp

lemma merge_texts:
  "decodeDocument (jsonText_of mergeSource) = Inr mergeSource"
  "decodeDocument (jsonText_of mergeTarget) = Inr mergeTarget"
  "canonJ mergeSource = mergeSource" "canonJ mergeTarget = mergeTarget"
  by code_simp+

theorem Merge_merges_witness: "overlays mergeSource mergeTarget mergeResult"
proof -
  obtain doc where "Merge noYaml JSON (jsonText_of mergeSource) (jsonText_of mergeTarget) = Inr doc"
    and "decodeDocument (Content doc) = Inr mergeResult"
    using merge_run by (auto split: sum.splits)
  then show ?thesis using Merge_merges [OF _ merge_texts(1,2)] merge_texts(3,4) by force
qed

text \<open>
  C31. Resolution of a YAML Config ends and replaces each scalar once. With a fuel of one more
  than the number of nodes the traversal never runs out. When it succeeds, every node that the root
  reaches (through documents, sequences, the values of mappings and aliases) holds the resolution
  of its own original text, however many aliases lead to it, so that a resolved value is never
  resolved again; every other node, keys of mappings among them, is as it was.
\<close>

theorem resolveYAMLNode_once:
  assumes "0 \<le> remaining"
  shows "(case resolveYAMLNode (Suc (length heap)) lookup root (heap, remaining, \<lambda>_. None) of
       Inl e \<Rightarrow> e \<noteq> FuelExhausted
     | Inr (heap', rest, visits') \<Rightarrow>
         length heap' = length heap \<and> 0 \<le> rest \<and>
         (\<forall>i < length heap.
            visits' i = (if reaches heap root i then Some yamlVisited else None) \<and>
            heap' ! i = (if reaches heap root i then resolvedNode lookup (heap ! i) else heap ! i)))"
proof -
  have "unmarked heap (\<lambda>_. None) < Suc (length heap)" using unmarked_le [of heap] by (simp add: less_Suc_eq_le)
  then have ok: "resolvedOk lookup (heap, remaining, \<lambda>_. None)
      (resolveYAMLNode (Suc (length heap)) lookup root (heap, remaining, \<lambda>_. None))"
    by (intro resolveYAMLNode_ok(1)) (use assms in simp_all)
  show ?thesis
  proof (cases "resolveYAMLNode (Suc (length heap)) lookup root (heap, remaining, \<lambda>_. None)")
    case (Inl e)
    then show ?thesis using ok by (simp add: resolvedOk_def)
  next
    case (Inr s)
    obtain heap' rest visits' where s: "s = (heap', rest, visits')" by (metis prod_cases3)
    note visited = visited_reaches [OF Inr [unfolded s]]
    have a: "advanced lookup heap (\<lambda>_. None) heap' visits'" "0 \<le> rest"
      using ok Inr s by (simp_all add: resolvedOk_def)
    have "heap' ! i = (if reaches heap root i then resolvedNode lookup (heap ! i) else heap ! i)"
      if "i < length heap" for i
      using a(1) visited [OF that] that by (auto simp: advanced_def)
    then show ?thesis using Inr s a visited by (simp add: advanced_def)
  qed
qed

text \<open>The sample's YAML form: a sequence that holds a reference and an alias of it.\<close>

definition sampleHeap :: yheap where
  "sampleHeap =
     [\<lparr> Kind = SequenceNode, Tag = ''!!seq'', Value = [], Line = 1, NodeContent = [1, 2], Alias = 9 \<rparr>,
      \<lparr> Kind = ScalarNode, Tag = ''!!str'', Value = ''{vault.db.main.pw}'', Line = 2, NodeContent = [], Alias = 9 \<rparr>,
      \<lparr> Kind = AliasNode, Tag = [], Value = ''a'', Line = 3, NodeContent = [], Alias = 1 \<rparr>]"

lemma sample_reaches: "reaches sampleHeap 0 1"
  unfolding reaches_def
  by (rule linked.there [OF linked.here]) (simp_all add: sampleHeap_def valueNodes_def)

theorem resolveYAMLNode_once_witness:
  "\<exists>heap' rest visits'.
     resolveYAMLNode (Suc (length sampleHeap)) (\<lambda>r. Inr ''s3'') 0 (sampleHeap, 10, \<lambda>_. None)
       = Inr (heap', rest, visits') \<and> Value (heap' ! 1) = ''s3''"
proof -
  let ?l = "\<lambda>r. Inr ''s3'' :: doc_error + string"
  have text_: "resolveText ?l ''{vault.db.main.pw}'' 10 = Inr (''s3'', 8)"
    by (simp add: resolveText_def sample_parse boundedLookup_def)
  then obtain heap' rest visits' where run:
      "resolveYAMLNode (Suc (length sampleHeap)) ?l 0 (sampleHeap, 10, \<lambda>_. None) = Inr (heap', rest, visits')"
    by (simp add: sampleHeap_def Let_def resolveScalar_def numeral_3_eq_3)
  moreover have "1 < length sampleHeap" by (simp add: sampleHeap_def)
  ultimately have "heap' ! 1 = resolvedNode ?l (sampleHeap ! 1)"
    using resolveYAMLNode_once [where remaining = 10 and heap = sampleHeap and lookup = ?l and root = 0] sample_reaches
    by simp
  then have "Value (heap' ! 1) = ''s3''"
    by (simp add: sampleHeap_def resolvedNode_def substText_def sample_parse)
  with run show ?thesis by blast
qed

end
