(* ===== verification/VaultCrypto.thy ===== *)
theory VaultCrypto
  imports Keys
begin

text \<open>
  Envelope encryption of Vault snapshots and secrets
  (\<^verbatim>\<open>internal/vaultcrypto/crypto.go\<close>). A random data key encrypts the payload, the
  master key encrypts the data key, and both are bound to the record by additional
  authenticated data. AES-256-GCM is an argument of the definitions (record
  \<^verbatim>\<open>aead\<close>); what the code relies on is \<^verbatim>\<open>exactAEAD\<close>: for a key, a nonce and
  additional data, opening gives a plaintext exactly for the ciphertext that sealing makes of it,
  which is 16 bytes longer.
  The random source is an argument too: draw number, size, and the bytes unless it fails.
\<close>

section \<open>Parameters\<close>

record aead =
  seal :: "bytes \<Rightarrow> bytes \<Rightarrow> bytes \<Rightarrow> bytes \<Rightarrow> bytes"  \<comment> \<open>key, nonce, plaintext, additional data\<close>
  unseal :: "bytes \<Rightarrow> bytes \<Rightarrow> bytes \<Rightarrow> bytes \<Rightarrow> bytes option"  \<comment> \<open>key, nonce, ciphertext, additional data\<close>

type_synonym random = "nat \<Rightarrow> nat \<Rightarrow> bytes option"

definition nonceSize :: nat where "nonceSize = 12"
definition dekSize :: nat where "dekSize = 32"

definition exactAEAD :: "aead \<Rightarrow> bool" where
  "exactAEAD A =
     (\<forall>key nonce plaintext ciphertext aad.
        length key = dekSize \<and> length nonce = nonceSize \<longrightarrow>
        (unseal A key nonce ciphertext aad = Some plaintext \<longleftrightarrow> ciphertext = seal A key nonce plaintext aad) \<and>
        length (seal A key nonce plaintext aad) = length plaintext + 16)"

definition sizedRandom :: "random \<Rightarrow> bool" where
  "sizedRandom R = (\<forall>i n b. R i n = Some b \<longrightarrow> length b = n)"

section \<open>Types\<close>

datatype crypto_error = ErrIntegrity | ErrInvalidIdentity | RandomFailed | InvalidMasterKey

definition AlgorithmAES256GCM :: string where "AlgorithmAES256GCM = ''AES-256-GCM''"
definition LocalKeyVersion :: string where "LocalKeyVersion = ''local-v1''"

record SnapshotIdentity =
  ItemID :: string
  Revision :: u64

record EncryptedSnapshot =
  Algorithm :: string
  KeyVersion :: string
  Nonce :: bytes
  Ciphertext :: bytes
  EncryptedDEK :: bytes

record EncryptedSentinel =
  SentinelAlgorithm :: string
  SentinelKeyVersion :: string
  SentinelNonce :: bytes
  SentinelCiphertext :: bytes

text \<open>A provider is its master key.\<close>

record LocalKeyProvider =
  master :: bytes

definition NewLocalKeyProvider :: "bytes \<Rightarrow> crypto_error + LocalKeyProvider" where
  "NewLocalKeyProvider masterKey =
     (if length masterKey \<noteq> dekSize then Inl InvalidMasterKey else Inr \<lparr> master = masterKey \<rparr>)"

section \<open>Additional authenticated data\<close>

text \<open>\<^verbatim>\<open>binary.BigEndian\<close> in a number of bytes; higher bits are dropped.\<close>

fun bigEndian :: "nat \<Rightarrow> nat \<Rightarrow> bytes" where
  "bigEndian 0 n = []"
| "bigEndian (Suc k) n = bigEndian k (n div 256) @ [char_of (n mod 256)]"

definition writeString :: "string \<Rightarrow> bytes" where
  "writeString value = bigEndian 4 (length value) @ value"

definition writeUint64 :: "u64 \<Rightarrow> bytes" where
  "writeUint64 value = bigEndian 8 (unat value)"

definition snapshotAAD :: "SnapshotIdentity \<Rightarrow> string \<Rightarrow> string \<Rightarrow> bytes" where
  "snapshotAAD identity algorithm keyVersion =
     ''configra:vault-snapshot:v1'' @ [CHR 0x00] @ writeString (ItemID identity) @
     writeUint64 (Revision identity) @ writeString algorithm @ writeString keyVersion"

definition secretAAD :: "string \<Rightarrow> string \<Rightarrow> string \<Rightarrow> bytes" where
  "secretAAD identity algorithm keyVersion =
     ''configra:encrypted-secret:v1'' @ [CHR 0x00] @ writeString identity @
     writeString algorithm @ writeString keyVersion"

definition sentinelAAD :: bytes where
  "sentinelAAD = ''configra:crypto-sentinel:v1''"

definition wrappedSuffix :: bytes where
  "wrappedSuffix = [CHR 0x00] @ ''wrapped-dek''"

definition validateIdentity :: "SnapshotIdentity \<Rightarrow> bool" where
  "validateIdentity identity = (ItemID identity \<noteq> [] \<and> Revision identity \<noteq> 0)"

definition validSecretIdentity :: "string \<Rightarrow> bool" where
  "validSecretIdentity identity = (identity \<noteq> [] \<and> length identity \<le> 255)"

section \<open>Encryption and decryption\<close>

definition wrapDEK :: "aead \<Rightarrow> random \<Rightarrow> nat \<Rightarrow> LocalKeyProvider \<Rightarrow> bytes \<Rightarrow> bytes \<Rightarrow> crypto_error + bytes" where
  "wrapDEK A R i provider dek aad =
     (case R i nonceSize of
        None \<Rightarrow> Inl RandomFailed
      | Some nonce \<Rightarrow> Inr (nonce @ seal A (master provider) nonce dek (aad @ wrappedSuffix)))"

definition encrypt :: "aead \<Rightarrow> random \<Rightarrow> nat \<Rightarrow> LocalKeyProvider \<Rightarrow> bytes \<Rightarrow> bytes \<Rightarrow>
    crypto_error + EncryptedSnapshot" where
  "encrypt A R i provider plaintext aad =
     (case R i dekSize of
        None \<Rightarrow> Inl RandomFailed
      | Some dek \<Rightarrow>
          (case R (i + 1) nonceSize of
             None \<Rightarrow> Inl RandomFailed
           | Some nonce \<Rightarrow>
               (case wrapDEK A R (i + 2) provider dek aad of
                  Inl e \<Rightarrow> Inl e
                | Inr encryptedDEK \<Rightarrow>
                    Inr \<lparr> Algorithm = AlgorithmAES256GCM, KeyVersion = LocalKeyVersion, Nonce = nonce,
                          Ciphertext = seal A dek nonce plaintext aad, EncryptedDEK = encryptedDEK \<rparr>)))"

definition EncryptSnapshot :: "aead \<Rightarrow> random \<Rightarrow> nat \<Rightarrow> LocalKeyProvider \<Rightarrow> SnapshotIdentity \<Rightarrow> bytes \<Rightarrow>
    crypto_error + EncryptedSnapshot" where
  "EncryptSnapshot A R i provider identity plaintext =
     (if \<not> validateIdentity identity then Inl ErrInvalidIdentity
      else encrypt A R i provider plaintext (snapshotAAD identity AlgorithmAES256GCM LocalKeyVersion))"

definition EncryptSecret :: "aead \<Rightarrow> random \<Rightarrow> nat \<Rightarrow> LocalKeyProvider \<Rightarrow> string \<Rightarrow> bytes \<Rightarrow>
    crypto_error + EncryptedSnapshot" where
  "EncryptSecret A R i provider identity plaintext =
     (if \<not> validSecretIdentity identity then Inl ErrInvalidIdentity
      else encrypt A R i provider plaintext (secretAAD identity AlgorithmAES256GCM LocalKeyVersion))"

definition unwrapDEK :: "aead \<Rightarrow> LocalKeyProvider \<Rightarrow> EncryptedSnapshot \<Rightarrow> bytes \<Rightarrow> crypto_error + bytes" where
  "unwrapDEK A provider encrypted aad =
     (if Algorithm encrypted \<noteq> AlgorithmAES256GCM \<or> KeyVersion encrypted \<noteq> LocalKeyVersion \<or>
         length (EncryptedDEK encrypted) \<le> nonceSize
      then Inl ErrIntegrity
      else
        (case unseal A (master provider) (take nonceSize (EncryptedDEK encrypted))
                (drop nonceSize (EncryptedDEK encrypted)) (aad @ wrappedSuffix) of
           None \<Rightarrow> Inl ErrIntegrity
         | Some dek \<Rightarrow> if length dek \<noteq> dekSize then Inl ErrIntegrity else Inr dek))"

definition decryptPayload :: "aead \<Rightarrow> EncryptedSnapshot \<Rightarrow> bytes \<Rightarrow> bytes \<Rightarrow> crypto_error + bytes" where
  "decryptPayload A encrypted aad dek =
     (if length dek \<notin> {16, 24, 32} \<or> length (Nonce encrypted) \<noteq> nonceSize then Inl ErrIntegrity
      else
        (case unseal A dek (Nonce encrypted) (Ciphertext encrypted) aad of
           None \<Rightarrow> Inl ErrIntegrity
         | Some plaintext \<Rightarrow> Inr plaintext))"

definition decrypt :: "aead \<Rightarrow> LocalKeyProvider \<Rightarrow> EncryptedSnapshot \<Rightarrow> bytes \<Rightarrow> crypto_error + bytes" where
  "decrypt A provider encrypted aad =
     (case unwrapDEK A provider encrypted aad of
        Inl e \<Rightarrow> Inl e
      | Inr dek \<Rightarrow> decryptPayload A encrypted aad dek)"

definition DecryptSnapshot :: "aead \<Rightarrow> LocalKeyProvider \<Rightarrow> SnapshotIdentity \<Rightarrow> EncryptedSnapshot \<Rightarrow>
    crypto_error + bytes" where
  "DecryptSnapshot A provider identity encrypted =
     (if \<not> validateIdentity identity then Inl ErrIntegrity
      else decrypt A provider encrypted
             (snapshotAAD identity (Algorithm encrypted) (KeyVersion encrypted)))"

definition DecryptSecret :: "aead \<Rightarrow> LocalKeyProvider \<Rightarrow> string \<Rightarrow> EncryptedSnapshot \<Rightarrow>
    crypto_error + bytes" where
  "DecryptSecret A provider identity encrypted =
     (if \<not> validSecretIdentity identity then Inl ErrIntegrity
      else decrypt A provider encrypted
             (secretAAD identity (Algorithm encrypted) (KeyVersion encrypted)))"

section \<open>Rewrapping and the sentinel\<close>

definition rewrap :: "aead \<Rightarrow> random \<Rightarrow> nat \<Rightarrow> LocalKeyProvider \<Rightarrow> EncryptedSnapshot \<Rightarrow> bytes \<Rightarrow>
    LocalKeyProvider option \<Rightarrow> crypto_error + bytes" where
  "rewrap A R i provider encrypted aad next_provider =
     (case next_provider of
        None \<Rightarrow> Inl ErrIntegrity
      | Some nxt \<Rightarrow>
          (case unwrapDEK A provider encrypted aad of
             Inl e \<Rightarrow> Inl e
           | Inr dek \<Rightarrow>
               (case decryptPayload A encrypted aad dek of
                  Inl e \<Rightarrow> Inl e
                | Inr _ \<Rightarrow> wrapDEK A R i nxt dek aad)))"

definition RewrapSnapshot :: "aead \<Rightarrow> random \<Rightarrow> nat \<Rightarrow> LocalKeyProvider \<Rightarrow> SnapshotIdentity \<Rightarrow>
    EncryptedSnapshot \<Rightarrow> LocalKeyProvider option \<Rightarrow> crypto_error + bytes" where
  "RewrapSnapshot A R i provider identity encrypted next_provider =
     (if \<not> validateIdentity identity then Inl ErrIntegrity
      else rewrap A R i provider encrypted
             (snapshotAAD identity (Algorithm encrypted) (KeyVersion encrypted)) next_provider)"

definition RewrapSecret :: "aead \<Rightarrow> random \<Rightarrow> nat \<Rightarrow> LocalKeyProvider \<Rightarrow> string \<Rightarrow>
    EncryptedSnapshot \<Rightarrow> LocalKeyProvider option \<Rightarrow> crypto_error + bytes" where
  "RewrapSecret A R i provider identity encrypted next_provider =
     (if \<not> validSecretIdentity identity then Inl ErrIntegrity
      else rewrap A R i provider encrypted
             (secretAAD identity (Algorithm encrypted) (KeyVersion encrypted)) next_provider)"

definition sentinelPlaintext :: bytes where
  "sentinelPlaintext = ''configra-crypto-sentinel-v1''"

definition CreateSentinel :: "aead \<Rightarrow> random \<Rightarrow> nat \<Rightarrow> LocalKeyProvider \<Rightarrow> crypto_error + EncryptedSentinel" where
  "CreateSentinel A R i provider =
     (case R i nonceSize of
        None \<Rightarrow> Inl RandomFailed
      | Some nonce \<Rightarrow>
          Inr \<lparr> SentinelAlgorithm = AlgorithmAES256GCM, SentinelKeyVersion = LocalKeyVersion,
                SentinelNonce = nonce,
                SentinelCiphertext = seal A (master provider) nonce sentinelPlaintext sentinelAAD \<rparr>)"

definition VerifySentinel :: "aead \<Rightarrow> LocalKeyProvider \<Rightarrow> EncryptedSentinel \<Rightarrow> bool" where
  "VerifySentinel A provider sentinel =
     (if SentinelAlgorithm sentinel \<noteq> AlgorithmAES256GCM \<or>
         SentinelKeyVersion sentinel \<noteq> LocalKeyVersion \<or> length (SentinelNonce sentinel) \<noteq> nonceSize
      then False
      else
        (case unseal A (master provider) (SentinelNonce sentinel) (SentinelCiphertext sentinel) sentinelAAD of
           None \<Rightarrow> False
         | Some plaintext \<Rightarrow> plaintext = sentinelPlaintext))"

section \<open>The additional data identifies the record\<close>

lemma length_bigEndian [simp]: "length (bigEndian k n) = k"
  by (induction k arbitrary: n) auto

lemma bigEndian_inj: "bigEndian k m = bigEndian k n \<Longrightarrow> m mod 256 ^ k = n mod 256 ^ k"
proof (induction k arbitrary: m n)
  case 0
  then show ?case by simp
next
  case (Suc k)
  have "bigEndian k (m div 256) = bigEndian k (n div 256)" using Suc(2) by simp
  then have "(m div 256) mod 256 ^ k = (n div 256) mod 256 ^ k" by (rule Suc(1))
  moreover have "m mod 256 = n mod 256"
  proof -
    have "char_of (m mod 256) = (char_of (n mod 256) :: char)" using Suc(2) by simp
    then have "of_char (char_of (m mod 256) :: char) = (of_char (char_of (n mod 256) :: char) :: nat)"
      by simp
    then show ?thesis by (simp add: of_char_of)
  qed
  moreover have "x mod (256 * 256 ^ k) = 256 * (x div 256 mod 256 ^ k) + x mod 256" for x :: nat
    by (rule mod_mult2_eq)
  ultimately show ?case by simp
qed

text \<open>A length-prefixed string is self-delimiting.\<close>

definition short :: "string \<Rightarrow> bool" where
  "short s = (length s < 2 ^ 32)"

lemma writeString_append:
  assumes eq: "writeString a @ s = writeString b @ t" and "short a" and "short b"
  shows "a = b" and "s = t"
proof -
  have "bigEndian 4 (length a) @ (a @ s) = bigEndian 4 (length b) @ (b @ t)"
    using eq unfolding writeString_def append_assoc .
  moreover have "length (bigEndian 4 (length a)) = length (bigEndian 4 (length b))"
    unfolding length_bigEndian by (rule refl)
  ultimately have "bigEndian 4 (length a) = bigEndian 4 (length b) \<and> a @ s = b @ t"
    by (rule append_prefix_inj)
  then have "bigEndian 4 (length a) = bigEndian 4 (length b)" and rest: "a @ s = b @ t" by blast+
  then have "length a mod 256 ^ 4 = length b mod 256 ^ 4" by (intro bigEndian_inj)
  then have "length a = length b" using assms(2,3) by (simp add: short_def)
  then show "a = b" "s = t" using rest by simp_all
qed

lemma unat_bound: "unat (a :: u64) < 256 ^ 8"
  using unsigned_less [of a, where 'a = nat] by simp

lemma writeUint64_append:
  assumes eq: "writeUint64 a @ s = writeUint64 b @ t"
  shows "a = b" and "s = t"
proof -
  have "length (writeUint64 a) = length (writeUint64 b)" unfolding writeUint64_def length_bigEndian by (rule refl)
  with eq have "writeUint64 a = writeUint64 b \<and> s = t" by (rule append_prefix_inj)
  then have "writeUint64 a = writeUint64 b" and rest: "s = t" by blast+
  then have "unat a mod 256 ^ 8 = unat b mod 256 ^ 8" unfolding writeUint64_def by (intro bigEndian_inj)
  then have "unat a = unat b" using unat_bound [of a] unat_bound [of b] by (simp only: mod_less)
  then show "a = b" by (simp only: word_unat_eq_iff)
  show "s = t" by (rule rest)
qed

lemma snapshotAAD_append:
  assumes eq: "snapshotAAD x a k @ s = snapshotAAD y b l @ t"
    and short: "short (ItemID x)" "short (ItemID y)" "short a" "short b" "short k" "short l"
  shows "x = y \<and> a = b \<and> k = l \<and> s = t"
proof -
  have e: "writeString (ItemID x) @ (writeUint64 (Revision x) @ writeString a @ writeString k @ s) =
        writeString (ItemID y) @ (writeUint64 (Revision y) @ writeString b @ writeString l @ t)"
    using eq unfolding snapshotAAD_def append_assoc same_append_eq .
  note e1 = writeString_append [OF e short(1,2)]
  note e2 = writeUint64_append [OF e1(2)]
  note e3 = writeString_append [OF e2(2) short(3,4)]
  note e4 = writeString_append [OF e3(2) short(5,6)]
  from e1(1) e2(1) have "x = y" by simp
  with e3(1) e4 show ?thesis by blast
qed

lemma secretAAD_append:
  assumes eq: "secretAAD x a k @ s = secretAAD y b l @ t"
    and short: "short x" "short y" "short a" "short b" "short k" "short l"
  shows "x = y \<and> a = b \<and> k = l \<and> s = t"
proof -
  have e: "writeString x @ (writeString a @ writeString k @ s) =
        writeString y @ (writeString b @ writeString l @ t)"
    using eq unfolding secretAAD_def append_assoc same_append_eq .
  note e1 = writeString_append [OF e short(1,2)]
  note e2 = writeString_append [OF e1(2) short(3,4)]
  note e3 = writeString_append [OF e2(2) short(5,6)]
  from e1(1) e2(1) e3 show ?thesis by blast
qed

text \<open>The uses of a key: what is sealed, and for which record.\<close>

datatype aad_use =
    SnapshotPayload SnapshotIdentity string string
  | SnapshotKey SnapshotIdentity string string
  | SecretPayload string string string
  | SecretKey string string string
  | Sentinel

fun aadOf :: "aad_use \<Rightarrow> bytes" where
  "aadOf (SnapshotPayload i a k) = snapshotAAD i a k"
| "aadOf (SnapshotKey i a k) = snapshotAAD i a k @ wrappedSuffix"
| "aadOf (SecretPayload i a k) = secretAAD i a k"
| "aadOf (SecretKey i a k) = secretAAD i a k @ wrappedSuffix"
| "aadOf Sentinel = sentinelAAD"

fun shortUse :: "aad_use \<Rightarrow> bool" where
  "shortUse (SnapshotPayload i a k) = (short (ItemID i) \<and> short a \<and> short k)"
| "shortUse (SnapshotKey i a k) = (short (ItemID i) \<and> short a \<and> short k)"
| "shortUse (SecretPayload i a k) = (short i \<and> short a \<and> short k)"
| "shortUse (SecretKey i a k) = (short i \<and> short a \<and> short k)"
| "shortUse Sentinel = True"


lemma aad_domain:
  "(snapshotAAD i a k @ s) ! 9 = CHR ''v''" "(secretAAD j b l @ s) ! 9 = CHR ''e''" "sentinelAAD ! 9 = CHR ''c''"
  by (simp_all add: snapshotAAD_def secretAAD_def sentinelAAD_def)

lemma aad_lengths: "wrappedSuffix \<noteq> []"
  by (simp add: wrappedSuffix_def)

lemma snapshot_uses:
  assumes "snapshotAAD x a k @ s = snapshotAAD y b l @ t"
    and "shortUse (SnapshotPayload x a k)" and "shortUse (SnapshotPayload y b l)"
  shows "SnapshotPayload x a k = SnapshotPayload y b l \<and> s = t"
  using snapshotAAD_append [OF assms(1)] assms(2,3) by simp

lemma secret_uses:
  assumes "secretAAD x a k @ s = secretAAD y b l @ t"
    and "shortUse (SecretPayload x a k)" and "shortUse (SecretPayload y b l)"
  shows "SecretPayload x a k = SecretPayload y b l \<and> s = t"
  using secretAAD_append [OF assms(1)] assms(2,3) by simp

text \<open>The tenth byte tells the kinds of record apart.\<close>

fun letterOf :: "aad_use \<Rightarrow> char" where
  "letterOf (SnapshotPayload i a k) = CHR ''v''"
| "letterOf (SnapshotKey i a k) = CHR ''v''"
| "letterOf (SecretPayload i a k) = CHR ''e''"
| "letterOf (SecretKey i a k) = CHR ''e''"
| "letterOf Sentinel = CHR ''c''"

lemma aadOf_letter: "aadOf u ! 9 = letterOf u"
proof -
  have "snapshotAAD i a k ! 9 = CHR ''v''" "secretAAD j b l ! 9 = CHR ''e''" for i a k j b l
    using aad_domain(1) [of i a k "[]"] aad_domain(2) [of j b l "[]"] by simp_all
  then show ?thesis by (cases u) (simp_all add: aad_domain)
qed

lemma snapshot_plain:
  assumes "snapshotAAD x a k = snapshotAAD y b l"
    and "shortUse (SnapshotPayload x a k)" and "shortUse (SnapshotPayload y b l)"
  shows "x = y \<and> a = b \<and> k = l"
  using snapshot_uses [of x a k "[]" y b l "[]"] assms by simp

lemma snapshot_suffix:
  assumes "snapshotAAD x a k = snapshotAAD y b l @ wrappedSuffix"
    and "shortUse (SnapshotPayload x a k)" and "shortUse (SnapshotPayload y b l)"
  shows False
  using snapshot_uses [of x a k "[]" y b l wrappedSuffix] assms aad_lengths by simp

lemma secret_plain:
  assumes "secretAAD x a k = secretAAD y b l"
    and "shortUse (SecretPayload x a k)" and "shortUse (SecretPayload y b l)"
  shows "x = y \<and> a = b \<and> k = l"
  using secret_uses [of x a k "[]" y b l "[]"] assms by simp

lemma secret_suffix:
  assumes "secretAAD x a k = secretAAD y b l @ wrappedSuffix"
    and "shortUse (SecretPayload x a k)" and "shortUse (SecretPayload y b l)"
  shows False
  using secret_uses [of x a k "[]" y b l wrappedSuffix] assms aad_lengths by simp

lemma aadOf_inj:
  assumes eq: "aadOf u = aadOf w" and short: "shortUse u" "shortUse w"
  shows "u = w"
proof -
  have letter: "letterOf u = letterOf w" using eq aadOf_letter by metis
  show ?thesis
    using letter eq short
    by (cases u; cases w)
      (auto dest: snapshot_plain snapshot_suffix snapshot_suffix [OF sym]
        secret_plain secret_suffix secret_suffix [OF sym])
qed

section \<open>Decryption inverts encryption\<close>

lemma exactAEAD_unseal:
  "exactAEAD A \<Longrightarrow> length key = dekSize \<Longrightarrow> length nonce = nonceSize \<Longrightarrow>
   unseal A key nonce (seal A key nonce plaintext aad) aad = Some plaintext"
  by (simp add: exactAEAD_def)

lemma sizedRandom_length: "sizedRandom R \<Longrightarrow> R i n = Some b \<Longrightarrow> length b = n"
  by (simp add: sizedRandom_def)

lemma wrap_unwrap:
  assumes A: "exactAEAD A" and R: "sizedRandom R" and key: "length (master p) = dekSize"
    and dek: "length dek = dekSize" and wrap: "wrapDEK A R i p dek aad = Inr w"
    and e: "Algorithm e = AlgorithmAES256GCM" "KeyVersion e = LocalKeyVersion" "EncryptedDEK e = w"
  shows "unwrapDEK A p e aad = Inr dek"
proof -
  obtain nonce where n: "R i nonceSize = Some nonce"
      "w = nonce @ seal A (master p) nonce dek (aad @ wrappedSuffix)"
    using wrap by (auto simp: wrapDEK_def split: option.splits)
  have len: "length nonce = nonceSize" using sizedRandom_length [OF R n(1)] .
  then have "nonceSize < length w" using A key n(2) by (simp add: exactAEAD_def)
  moreover have "take nonceSize w = nonce" "drop nonceSize w = seal A (master p) nonce dek (aad @ wrappedSuffix)"
    using n(2) len by simp_all
  ultimately show ?thesis using e dek exactAEAD_unseal [OF A key len] by (simp add: unwrapDEK_def)
qed

lemma decryptPayload_seal:
  assumes "exactAEAD A" and "length dek = dekSize" and "length (Nonce e) = nonceSize"
    and "Ciphertext e = seal A dek (Nonce e) plaintext aad"
  shows "decryptPayload A e aad dek = Inr plaintext"
  using assms exactAEAD_unseal [OF assms(1,2,3)] by (simp add: decryptPayload_def dekSize_def)

lemma encrypt_decrypt:
  assumes A: "exactAEAD A" and R: "sizedRandom R" and key: "length (master p) = dekSize"
    and enc: "encrypt A R i p plaintext aad = Inr e"
  shows "decrypt A p e aad = Inr plaintext" and "Algorithm e = AlgorithmAES256GCM"
    and "KeyVersion e = LocalKeyVersion"
proof -
  obtain dek nonce w where s: "R i dekSize = Some dek" "R (i + 1) nonceSize = Some nonce"
      "wrapDEK A R (i + 2) p dek aad = Inr w"
      "e = \<lparr> Algorithm = AlgorithmAES256GCM, KeyVersion = LocalKeyVersion, Nonce = nonce,
             Ciphertext = seal A dek nonce plaintext aad, EncryptedDEK = w \<rparr>"
    using enc by (auto simp: encrypt_def split: option.splits sum.splits)
  have len: "length dek = dekSize" "length nonce = nonceSize" using sizedRandom_length [OF R] s(1,2) by auto
  have "unwrapDEK A p e aad = Inr dek"
    by (rule wrap_unwrap [OF A R key len(1) s(3)]) (simp_all add: s(4))
  moreover have "decryptPayload A e aad dek = Inr plaintext"
    by (rule decryptPayload_seal [OF A len(1)]) (simp_all add: s(4) len(2))
  ultimately show "decrypt A p e aad = Inr plaintext" by (simp add: decrypt_def)
  show "Algorithm e = AlgorithmAES256GCM" "KeyVersion e = LocalKeyVersion" by (simp_all add: s(4))
qed

text \<open>A rewrapped record decrypts under the next key to what it held under the previous one.\<close>

lemma rewrap_decrypt:
  assumes A: "exactAEAD A" and R: "sizedRandom R" and key: "length (master n) = dekSize"
    and re: "rewrap A R i p e aad (Some n) = Inr w"
  shows "decrypt A n (e\<lparr> EncryptedDEK := w \<rparr>) aad = decrypt A p e aad"
    and "\<exists>plaintext. decrypt A p e aad = Inr plaintext"
proof -
  obtain dek plaintext where s: "unwrapDEK A p e aad = Inr dek"
      "decryptPayload A e aad dek = Inr plaintext" "wrapDEK A R i n dek aad = Inr w"
    using re by (auto simp: rewrap_def split: sum.splits)
  from s(1) have meta: "Algorithm e = AlgorithmAES256GCM" "KeyVersion e = LocalKeyVersion" "length dek = dekSize"
    by (auto simp: unwrapDEK_def split: if_splits option.splits)
  have "unwrapDEK A n (e\<lparr> EncryptedDEK := w \<rparr>) aad = Inr dek"
    by (rule wrap_unwrap [OF A R key meta(3) s(3)]) (simp_all add: meta)
  moreover have "decryptPayload A (e\<lparr> EncryptedDEK := w \<rparr>) aad dek = decryptPayload A e aad dek"
    by (simp add: decryptPayload_def)
  ultimately show "decrypt A n (e\<lparr> EncryptedDEK := w \<rparr>) aad = decrypt A p e aad"
    "\<exists>plaintext. decrypt A p e aad = Inr plaintext"
    using s by (simp_all add: decrypt_def)
qed

text \<open>Only the ciphertext sealed for this very record and plaintext is accepted.\<close>

lemma decrypt_sealed:
  assumes A: "exactAEAD A" and dec: "decrypt A p e aad = Inr plaintext" and key: "length (master p) = dekSize"
  shows "\<exists>dek. length dek = dekSize \<and> Ciphertext e = seal A dek (Nonce e) plaintext aad \<and>
    drop nonceSize (EncryptedDEK e) =
      seal A (master p) (take nonceSize (EncryptedDEK e)) dek (aad @ wrappedSuffix)"
proof -
  obtain dek where s: "unwrapDEK A p e aad = Inr dek" "decryptPayload A e aad dek = Inr plaintext"
    using dec by (auto simp: decrypt_def split: sum.splits)
  from s(1) have d: "length dek = dekSize" "nonceSize < length (EncryptedDEK e)"
    "unseal A (master p) (take nonceSize (EncryptedDEK e)) (drop nonceSize (EncryptedDEK e)) (aad @ wrappedSuffix) = Some dek"
    by (auto simp: unwrapDEK_def split: if_splits option.splits)
  have "length (take nonceSize (EncryptedDEK e)) = nonceSize" using d(2) by simp
  then have "drop nonceSize (EncryptedDEK e) =
      seal A (master p) (take nonceSize (EncryptedDEK e)) dek (aad @ wrappedSuffix)"
    using A key d(3) by (simp add: exactAEAD_def)
  moreover from s(2) have "unseal A dek (Nonce e) (Ciphertext e) aad = Some plaintext"
      "length (Nonce e) = nonceSize"
    by (auto simp: decryptPayload_def split: if_splits option.splits)
  then have "Ciphertext e = seal A dek (Nonce e) plaintext aad" using A d(1) by (simp add: exactAEAD_def)
  ultimately show ?thesis using d(1) by blast
qed

section \<open>A concrete cipher\<close>

text \<open>A cipher that satisfies the hypotheses, on which the properties are exercised.\<close>

definition plainAEAD :: aead where
  "plainAEAD =
     \<lparr> seal = \<lambda>key nonce plaintext aad. plaintext @ replicate 16 (CHR 0x00),
       unseal = \<lambda>key nonce ciphertext aad.
         (if 16 \<le> length ciphertext \<and> drop (length ciphertext - 16) ciphertext = replicate 16 (CHR 0x00)
          then Some (take (length ciphertext - 16) ciphertext) else None) \<rparr>"

definition zeroRandom :: random where
  "zeroRandom i n = Some (replicate n (CHR 0x00))"

definition zeroProvider :: LocalKeyProvider where
  "zeroProvider = \<lparr> master = replicate 32 (CHR 0x00) \<rparr>"

lemma plainAEAD_exact: "exactAEAD plainAEAD"
proof -
  have "unseal plainAEAD key nonce ciphertext aad = Some plaintext \<longleftrightarrow>
      ciphertext = seal plainAEAD key nonce plaintext aad" for key nonce ciphertext aad plaintext
  proof
    assume u: "unseal plainAEAD key nonce ciphertext aad = Some plaintext"
    then have "drop (length ciphertext - 16) ciphertext = replicate 16 (CHR 0x00)"
      "take (length ciphertext - 16) ciphertext = plaintext"
      by (simp_all add: plainAEAD_def split: if_splits)
    then show "ciphertext = seal plainAEAD key nonce plaintext aad"
      using append_take_drop_id [of "length ciphertext - 16" ciphertext] by (simp add: plainAEAD_def)
  next
    assume "ciphertext = seal plainAEAD key nonce plaintext aad"
    then show "unseal plainAEAD key nonce ciphertext aad = Some plaintext" by (simp add: plainAEAD_def)
  qed
  then show ?thesis by (simp add: exactAEAD_def) (simp add: plainAEAD_def)
qed

lemma zeroRandom_sized: "sizedRandom zeroRandom"
  by (simp add: sizedRandom_def zeroRandom_def)

lemma zeroProvider_key: "length (master zeroProvider) = dekSize"
  by (simp add: zeroProvider_def dekSize_def)

section \<open>Properties\<close>

text \<open>
  C35. Snapshots survive encryption and key rotation. What \<^verbatim>\<open>EncryptSnapshot\<close> returns
  decrypts, for the same item and revision, to the plaintext; rewrapping it for another master key
  succeeds only for a record that decrypts, changes only the encrypted data key, and the result
  decrypts under the new key to the same plaintext.
\<close>

theorem snapshot_encryption_roundtrip:
  assumes "exactAEAD A" and "sizedRandom R"
    and "NewLocalKeyProvider previousKey = Inr p" and "NewLocalKeyProvider nextKey = Inr n"
    and "EncryptSnapshot A R i p identity plaintext = Inr e"
    and "RewrapSnapshot A R j p identity e (Some n) = Inr w"
  shows "DecryptSnapshot A p identity e = Inr plaintext \<and>
         DecryptSnapshot A n identity (e\<lparr> EncryptedDEK := w \<rparr>) = Inr plaintext"
proof -
  have keys: "length (master p) = dekSize" "length (master n) = dekSize"
    using assms(3,4) by (auto simp: NewLocalKeyProvider_def split: if_splits)
  have id: "validateIdentity identity" using assms(5) by (simp add: EncryptSnapshot_def split: if_splits)
  let ?aad = "snapshotAAD identity AlgorithmAES256GCM LocalKeyVersion"
  have enc: "encrypt A R i p plaintext ?aad = Inr e" using assms(5) id by (simp add: EncryptSnapshot_def)
  note e = encrypt_decrypt [OF assms(1,2) keys(1) enc]
  have re: "rewrap A R j p e ?aad (Some n) = Inr w" using assms(6) id e by (simp add: RewrapSnapshot_def)
  show ?thesis using e id rewrap_decrypt(1) [OF assms(1,2) keys(2) re] by (simp add: DecryptSnapshot_def)
qed

theorem snapshot_encryption_roundtrip_witness:
  "\<exists>e w. EncryptSnapshot plainAEAD zeroRandom 0 zeroProvider \<lparr> ItemID = ''item'', Revision = 1 \<rparr> ''hidden'' = Inr e \<and>
     DecryptSnapshot plainAEAD zeroProvider \<lparr> ItemID = ''item'', Revision = 1 \<rparr> (e\<lparr> EncryptedDEK := w \<rparr>) = Inr ''hidden''"
proof -
  let ?id = "\<lparr> ItemID = ''item'', Revision = 1 \<rparr>"
  have p: "NewLocalKeyProvider (replicate 32 (CHR 0x00)) = Inr zeroProvider"
    by (simp add: NewLocalKeyProvider_def zeroProvider_def dekSize_def)
  have id: "validateIdentity ?id" by (simp add: validateIdentity_def)
  obtain e where e: "EncryptSnapshot plainAEAD zeroRandom 0 zeroProvider ?id ''hidden'' = Inr e"
    using id by (simp add: EncryptSnapshot_def encrypt_def wrapDEK_def zeroRandom_def)
  then have enc: "encrypt plainAEAD zeroRandom 0 zeroProvider ''hidden''
      (snapshotAAD ?id AlgorithmAES256GCM LocalKeyVersion) = Inr e"
    using id by (simp add: EncryptSnapshot_def)
  note d = encrypt_decrypt [OF plainAEAD_exact zeroRandom_sized zeroProvider_key enc]
  obtain dek where "unwrapDEK plainAEAD zeroProvider e (snapshotAAD ?id AlgorithmAES256GCM LocalKeyVersion) = Inr dek"
    "decryptPayload plainAEAD e (snapshotAAD ?id AlgorithmAES256GCM LocalKeyVersion) dek = Inr ''hidden''"
    using d(1) by (auto simp: decrypt_def split: sum.splits)
  then obtain w where w: "RewrapSnapshot plainAEAD zeroRandom 3 zeroProvider ?id e (Some zeroProvider) = Inr w"
    using id d(2,3) by (simp add: RewrapSnapshot_def rewrap_def wrapDEK_def zeroRandom_def)
  show ?thesis
    using e snapshot_encryption_roundtrip [OF plainAEAD_exact zeroRandom_sized p p e w] by blast
qed

text \<open>
  C36. A ciphertext belongs to one record. The additional data of two uses of a key (the payload or
  the wrapped key of a snapshot of an item at a revision, of a named secret, or the sentinel) are
  equal only when the uses are the same one, so the bytes of one record are never the authenticated
  bytes of another; and a snapshot that decrypts was sealed, payload and data key, for exactly the
  item and revision it is read as.
\<close>

theorem ciphertext_bound_to_record:
  assumes "exactAEAD A" and "NewLocalKeyProvider key = Inr p"
    and "DecryptSnapshot A p identity e = Inr plaintext"
  shows "(\<forall>u w. shortUse u \<and> shortUse w \<and> aadOf u = aadOf w \<longrightarrow> u = w) \<and>
         (\<exists>dek. length dek = dekSize \<and>
            Ciphertext e = seal A dek (Nonce e) plaintext
              (aadOf (SnapshotPayload identity AlgorithmAES256GCM LocalKeyVersion)) \<and>
            drop nonceSize (EncryptedDEK e) = seal A key (take nonceSize (EncryptedDEK e)) dek
              (aadOf (SnapshotKey identity AlgorithmAES256GCM LocalKeyVersion)))"
proof (rule conjI)
  show "\<forall>u w. shortUse u \<and> shortUse w \<and> aadOf u = aadOf w \<longrightarrow> u = w" using aadOf_inj by blast
  have key: "length (master p) = dekSize" "master p = key"
    using assms(2) by (auto simp: NewLocalKeyProvider_def split: if_splits)
  have dec: "decrypt A p e (snapshotAAD identity (Algorithm e) (KeyVersion e)) = Inr plaintext"
    using assms(3) by (simp add: DecryptSnapshot_def split: if_splits)
  then have "Algorithm e = AlgorithmAES256GCM" "KeyVersion e = LocalKeyVersion"
    by (auto simp: decrypt_def unwrapDEK_def split: if_splits)
  then show "\<exists>dek. length dek = dekSize \<and>
            Ciphertext e = seal A dek (Nonce e) plaintext
              (aadOf (SnapshotPayload identity AlgorithmAES256GCM LocalKeyVersion)) \<and>
            drop nonceSize (EncryptedDEK e) = seal A key (take nonceSize (EncryptedDEK e)) dek
              (aadOf (SnapshotKey identity AlgorithmAES256GCM LocalKeyVersion))"
    using decrypt_sealed [OF assms(1) dec key(1)] key(2) by simp
qed

theorem ciphertext_bound_to_record_witness:
  "\<exists>e dek. DecryptSnapshot plainAEAD zeroProvider \<lparr> ItemID = ''item'', Revision = 1 \<rparr> e = Inr ''hidden'' \<and>
     Ciphertext e = seal plainAEAD dek (Nonce e) ''hidden''
       (aadOf (SnapshotPayload \<lparr> ItemID = ''item'', Revision = 1 \<rparr> AlgorithmAES256GCM LocalKeyVersion))"
proof -
  let ?id = "\<lparr> ItemID = ''item'', Revision = 1 \<rparr>"
  have p: "NewLocalKeyProvider (replicate 32 (CHR 0x00)) = Inr zeroProvider"
    by (simp add: NewLocalKeyProvider_def zeroProvider_def dekSize_def)
  have id: "validateIdentity ?id" by (simp add: validateIdentity_def)
  obtain e where enc: "encrypt plainAEAD zeroRandom 0 zeroProvider ''hidden''
      (snapshotAAD ?id AlgorithmAES256GCM LocalKeyVersion) = Inr e"
    by (simp add: encrypt_def wrapDEK_def zeroRandom_def)
  have "DecryptSnapshot plainAEAD zeroProvider ?id e = Inr ''hidden''"
    using encrypt_decrypt [OF plainAEAD_exact zeroRandom_sized zeroProvider_key enc] id
    by (simp add: DecryptSnapshot_def)
  then show ?thesis using ciphertext_bound_to_record [OF plainAEAD_exact p] by blast
qed

end
