(* ===== verification/Decimal.thy ===== *)
theory Decimal
  imports Keys
begin

text \<open>
  Unsigned decimal numbers as \<^verbatim>\<open>strconv.FormatUint(n, 10)\<close> writes and
  \<^verbatim>\<open>strconv.ParseUint(s, 10, 64)\<close> reads them: one or more digits, leading zeros
  allowed, values above \<^verbatim>\<open>2^64-1\<close> rejected.
\<close>

fun digitsOf :: "nat \<Rightarrow> string" where
  "digitsOf n = (if n < 10 then [char_of (48 + n)] else digitsOf (n div 10) @ [char_of (48 + n mod 10)])"

declare digitsOf.simps [simp del]

fun valueOf :: "nat \<Rightarrow> string \<Rightarrow> nat option" where
  "valueOf acc [] = Some acc"
| "valueOf acc (c # s) = (if digitChar c then valueOf (10 * acc + (of_char c - 48)) s else None)"

definition FormatUint :: "u64 \<Rightarrow> string" where
  "FormatUint n = digitsOf (unat n)"

definition ParseUint :: "string \<Rightarrow> u64 option" where
  "ParseUint s =
     (if s = [] then None
      else (case valueOf 0 s of
              None \<Rightarrow> None
            | Some n \<Rightarrow> if n < 2 ^ 64 then Some (of_nat n) else None))"

lemma digit_table:
  "list_all (\<lambda>n. digitChar (char_of (48 + n)) \<and> (of_char (char_of (48 + n) :: char) :: nat) = 48 + n) [0..<10]"
  by code_simp

lemma digit_char: "n < 10 \<Longrightarrow> digitChar (char_of (48 + n)) \<and> (of_char (char_of (48 + n) :: char) :: nat) = 48 + n"
  using digit_table by (simp add: list_all_iff)

lemma valueOf_append: "valueOf a (s @ t) = (case valueOf a s of None \<Rightarrow> None | Some b \<Rightarrow> valueOf b t)"
  by (induction s arbitrary: a) auto

lemma valueOf_digitsOf: "valueOf 0 (digitsOf n) = Some n"
proof (induction n rule: digitsOf.induct)
  case (1 n)
  show ?case
  proof (cases "n < 10")
    case True
    then show ?thesis using digit_char [of n] by (simp add: digitsOf.simps [of n])
  next
    case False
    have "n mod 10 < 10" by simp
    then show ?thesis using 1 False digit_char [of "n mod 10"]
      by (simp add: digitsOf.simps [of n] valueOf_append)
  qed
qed

lemma digitsOf_digits: "c \<in> set (digitsOf n) \<Longrightarrow> digitChar c"
proof (induction n rule: digitsOf.induct)
  case (1 n)
  have "n mod 10 < 10" by simp
  then show ?case using 1 digit_char [of n] digit_char [of "n mod 10"]
    by (cases "n < 10") (auto simp: digitsOf.simps [of n])
qed

lemma digitsOf_nonempty [simp]: "digitsOf n \<noteq> []"
  by (simp add: digitsOf.simps)

lemma ParseUint_FormatUint [simp]: "ParseUint (FormatUint n) = Some n"
proof -
  have "unat n < 2 ^ 64" using unsigned_less [of n, where 'a = nat] by simp
  then show ?thesis by (simp add: ParseUint_def FormatUint_def valueOf_digitsOf)
qed

lemma FormatUint_digits: "c \<in> set (FormatUint n) \<Longrightarrow> digitChar c"
  by (simp add: FormatUint_def digitsOf_digits)

lemma FormatUint_no_colon: "CHR '':'' \<notin> set (FormatUint n)"
  using FormatUint_digits [of "CHR '':''" n] by (auto simp: inRange_def)

lemma FormatUint_inj: "FormatUint m = FormatUint n \<longleftrightarrow> m = n"
  by (metis ParseUint_FormatUint option.inject)

end
