(* ===== verification/HumanAuth.thy ===== *)
theory HumanAuth
  imports Decimal Json
begin

text \<open>
  Human sign-in: the mapping of an OIDC claim to a role
  (\<^verbatim>\<open>internal/humanauth/roles.go\<close>), the generations that invalidate browser sessions
  (\<^verbatim>\<open>session_policy.go\<close>), and the principal a request carries
  (\<^verbatim>\<open>principal.go\<close>). A raw claim is the JSON value it holds.
\<close>

section \<open>Roles\<close>

datatype Role = RoleViewer | RoleAdmin

datatype role_error = ErrInvalidRoleMapping | ErrRoleDenied

record RoleMapper =
  claim :: string
  viewers :: "string set"
  admins :: "string set"

fun addViewers :: "RoleMapper \<Rightarrow> string list \<Rightarrow> role_error + RoleMapper" where
  "addViewers mapper [] = Inr mapper"
| "addViewers mapper (v # vs) =
     (if v = [] then Inl ErrInvalidRoleMapping
      else addViewers (mapper\<lparr> viewers := insert v (viewers mapper) \<rparr>) vs)"

fun addAdmins :: "RoleMapper \<Rightarrow> string list \<Rightarrow> role_error + RoleMapper" where
  "addAdmins mapper [] = Inr mapper"
| "addAdmins mapper (v # vs) =
     (if v = [] then Inl ErrInvalidRoleMapping
      else if v \<in> viewers mapper then Inl ErrInvalidRoleMapping
      else addAdmins (mapper\<lparr> admins := insert v (admins mapper) \<rparr>) vs)"

definition NewRoleMapper :: "string \<Rightarrow> string list \<Rightarrow> string list \<Rightarrow> role_error + RoleMapper" where
  "NewRoleMapper c viewerValues adminValues =
     (if c = [] \<or> viewerValues = [] \<or> adminValues = [] then Inl ErrInvalidRoleMapping
      else
        (case addViewers \<lparr> claim = c, viewers = {}, admins = {} \<rparr> viewerValues of
           Inl e \<Rightarrow> Inl e
         | Inr mapper \<Rightarrow> addAdmins mapper adminValues))"

text \<open>\<^verbatim>\<open>json.Unmarshal\<close> into a string and into a slice of strings; null leaves the zero value.\<close>

definition unmarshalString :: "json \<Rightarrow> string option" where
  "unmarshalString v = (case v of JStr s \<Rightarrow> Some s | JNull \<Rightarrow> Some [] | _ \<Rightarrow> None)"

fun unmarshalItems :: "json list \<Rightarrow> string list option" where
  "unmarshalItems [] = Some []"
| "unmarshalItems (v # vs) =
     (case (unmarshalString v, unmarshalItems vs) of
        (Some s, Some ss) \<Rightarrow> Some (s # ss)
      | _ \<Rightarrow> None)"

definition unmarshalStrings :: "json \<Rightarrow> string list option" where
  "unmarshalStrings v = (case v of JArr vs \<Rightarrow> unmarshalItems vs | JNull \<Rightarrow> Some [] | _ \<Rightarrow> None)"

text \<open>The two loops of \<^verbatim>\<open>match\<close>: the first returns on an empty or an admin value.\<close>

fun matchAdmin :: "RoleMapper \<Rightarrow> string list \<Rightarrow> (role_error + Role) option" where
  "matchAdmin mapper [] = None"
| "matchAdmin mapper (v # vs) =
     (if v = [] then Some (Inl ErrRoleDenied)
      else if v \<in> admins mapper then Some (Inr RoleAdmin)
      else matchAdmin mapper vs)"

definition matchRole :: "RoleMapper \<Rightarrow> string list \<Rightarrow> role_error + Role" where
  "matchRole mapper values =
     (case matchAdmin mapper values of
        Some result \<Rightarrow> result
      | None \<Rightarrow> if list_ex (\<lambda>v. v \<in> viewers mapper) values then Inr RoleViewer else Inl ErrRoleDenied)"

definition mapRole :: "RoleMapper \<Rightarrow> (string \<rightharpoonup> json) \<Rightarrow> role_error + Role" where
  "mapRole mapper claims =
     (case claims (claim mapper) of
        None \<Rightarrow> Inl ErrRoleDenied
      | Some raw \<Rightarrow>
          (case unmarshalString raw of
             Some single \<Rightarrow> matchRole mapper [single]
           | None \<Rightarrow>
               (case unmarshalStrings raw of
                  None \<Rightarrow> Inl ErrRoleDenied
                | Some multiple \<Rightarrow>
                    if multiple = [] then Inl ErrRoleDenied else matchRole mapper multiple)))"

section \<open>Session generations\<close>

record SessionPolicy =
  SubjectGeneration :: u64
  SessionGeneration :: u64
  Blocked :: bool
  RevokedAt :: time

definition stamp :: "SessionPolicy \<Rightarrow> string" where
  "stamp policy = FormatUint (SubjectGeneration policy) @ '':'' @ FormatUint (SessionGeneration policy)"

definition accepts :: "SessionPolicy \<Rightarrow> string \<Rightarrow> bool" where
  "accepts policy s =
     (if Blocked policy then False
      else if s = [] then SubjectGeneration policy = 0 \<and> SessionGeneration policy = 0
      else
        (case cutStr CHR '':'' s of
           None \<Rightarrow> False
         | Some (left, right) \<Rightarrow>
             (case ParseUint left of
                None \<Rightarrow> False
              | Some first \<Rightarrow>
                  (case ParseUint right of
                     None \<Rightarrow> False
                   | Some second \<Rightarrow>
                       first = SubjectGeneration policy \<and> second = SessionGeneration policy))))"

section \<open>Principals\<close>

record Principal =
  Issuer :: string
  Subject :: string
  Email :: string
  PrincipalRole :: "Role option"  \<comment> \<open>None for a role string that is neither of the two\<close>
  MFAVerified :: bool

definition ActorID :: "Principal \<Rightarrow> string" where
  "ActorID p =
     (if Issuer p = [] then Subject p else Issuer p @ ''|'' @ Subject p)"

definition PrincipalFromContext :: "Principal option \<Rightarrow> Principal option" where
  "PrincipalFromContext ctx =
     (case ctx of
        None \<Rightarrow> None
      | Some p \<Rightarrow>
          if Subject p = [] \<or> length (ActorID p) > 255 \<or> PrincipalRole p = None
          then None else Some p)"

section \<open>What a mapper accepts\<close>

lemma addViewers_eq:
  "addViewers m vs =
     (if [] \<in> set vs then Inl ErrInvalidRoleMapping
      else Inr (m\<lparr> viewers := viewers m \<union> set vs \<rparr>))"
  by (induction vs arbitrary: m) auto

lemma addAdmins_eq:
  "addAdmins m vs =
     (if [] \<in> set vs \<or> set vs \<inter> viewers m \<noteq> {} then Inl ErrInvalidRoleMapping
      else Inr (m\<lparr> admins := admins m \<union> set vs \<rparr>))"
  by (induction vs arbitrary: m) auto

lemma NewRoleMapper_Inr:
  "NewRoleMapper c vs as = Inr m \<longleftrightarrow>
   c \<noteq> [] \<and> vs \<noteq> [] \<and> as \<noteq> [] \<and> [] \<notin> set vs \<and> [] \<notin> set as \<and> set as \<inter> set vs = {} \<and>
   m = \<lparr> claim = c, viewers = set vs, admins = set as \<rparr>"
  by (auto simp: NewRoleMapper_def addViewers_eq addAdmins_eq)

text \<open>The values of a claim, if it has any.\<close>

definition claimValues :: "json \<Rightarrow> string list option" where
  "claimValues raw =
     (case raw of JStr s \<Rightarrow> Some [s] | JArr vs \<Rightarrow> (case unmarshalItems vs of Some [] \<Rightarrow> None | r \<Rightarrow> r) | _ \<Rightarrow> None)"

lemma mapRole_values:
  "mapRole mapper claims =
     (case Option.bind (claims (claim mapper)) claimValues of
        None \<Rightarrow> Inl ErrRoleDenied
      | Some values \<Rightarrow> matchRole mapper values)"
  by (auto simp: mapRole_def claimValues_def unmarshalString_def unmarshalStrings_def matchRole_def
      split: option.splits json.splits list.splits)

lemma matchAdmin_iff:
  "matchAdmin m vs = Some (Inr RoleAdmin) \<longleftrightarrow> (\<exists>a v b. vs = a @ v # b \<and> v \<in> admins m \<and> v \<noteq> [] \<and> [] \<notin> set a)"
proof (induction vs)
  case Nil
  then show ?case by simp
next
  case (Cons w vs)
  show ?case
  proof
    assume "matchAdmin m (w # vs) = Some (Inr RoleAdmin)"
    then consider "w \<noteq> []" "w \<in> admins m" | "w \<noteq> []" "matchAdmin m vs = Some (Inr RoleAdmin)"
      by (auto split: if_splits)
    then show "\<exists>a v b. w # vs = a @ v # b \<and> v \<in> admins m \<and> v \<noteq> [] \<and> [] \<notin> set a"
    proof cases
      case 1
      then show ?thesis by (intro exI [of _ "[]"] exI [of _ w] exI [of _ vs]) simp
    next
      case 2
      then obtain a v b where "vs = a @ v # b" "v \<in> admins m" "v \<noteq> []" "[] \<notin> set a" using Cons by blast
      then show ?thesis using 2(1) by (intro exI [of _ "w # a"] exI [of _ v] exI [of _ b]) simp
    qed
  next
    assume "\<exists>a v b. w # vs = a @ v # b \<and> v \<in> admins m \<and> v \<noteq> [] \<and> [] \<notin> set a"
    then obtain a v b where s: "w # vs = a @ v # b" "v \<in> admins m" "v \<noteq> []" "[] \<notin> set a" by blast
    show "matchAdmin m (w # vs) = Some (Inr RoleAdmin)"
    proof (cases a)
      case Nil
      then show ?thesis using s by simp
    next
      case (Cons x a')
      then have "matchAdmin m vs = Some (Inr RoleAdmin)" using s Cons.IH by auto
      moreover have "w \<noteq> []" using s Cons by auto
      ultimately show ?thesis by simp
    qed
  qed
qed

lemma matchAdmin_result: "matchAdmin m vs = Some r \<Longrightarrow> r = Inr RoleAdmin \<or> r = Inl ErrRoleDenied"
  by (induction vs) (auto split: if_splits)

lemma matchAdmin_None: "matchAdmin m vs = None \<longleftrightarrow> [] \<notin> set vs \<and> set vs \<inter> admins m = {}"
  by (induction vs) auto

section \<open>Properties\<close>

text \<open>
  C37. Roles fail closed. A mapper that \<^verbatim>\<open>NewRoleMapper\<close> accepts has disjoint, non-empty
  admin and viewer values; a claim yields the admin role exactly when it holds an admin value with
  no empty value before it, the viewer role exactly when it holds a viewer value, no admin value
  and no empty value, and anything else (a missing claim, null, a number, an empty list, a list
  with a non-string) is denied.
\<close>

theorem mapRole_exact:
  assumes "NewRoleMapper c viewerValues adminValues = Inr mapper"
  shows "set viewerValues \<inter> set adminValues = {} \<and>
    (mapRole mapper claims = Inr RoleAdmin \<longleftrightarrow>
       (\<exists>raw a v b. claims c = Some raw \<and> claimValues raw = Some (a @ v # b) \<and>
          v \<in> set adminValues \<and> [] \<notin> set a)) \<and>
    (mapRole mapper claims = Inr RoleViewer \<longleftrightarrow>
       (\<exists>raw values. claims c = Some raw \<and> claimValues raw = Some values \<and> [] \<notin> set values \<and>
          set values \<inter> set adminValues = {} \<and> set values \<inter> set viewerValues \<noteq> {}))"
proof -
  have m: "claim mapper = c" "viewers mapper = set viewerValues" "admins mapper = set adminValues"
    "[] \<notin> set adminValues" "set viewerValues \<inter> set adminValues = {}"
    using assms by (auto simp: NewRoleMapper_Inr)
  have admin: "matchRole mapper vs = Inr RoleAdmin \<longleftrightarrow> (\<exists>a v b. vs = a @ v # b \<and> v \<in> set adminValues \<and> [] \<notin> set a)" for vs
  proof -
    have "matchRole mapper vs = Inr RoleAdmin \<longleftrightarrow> matchAdmin mapper vs = Some (Inr RoleAdmin)"
      by (simp add: matchRole_def split: option.splits)
    then show ?thesis unfolding matchAdmin_iff m(3) using m(4) by blast
  qed
  have viewer: "matchRole mapper vs = Inr RoleViewer \<longleftrightarrow>
      [] \<notin> set vs \<and> set vs \<inter> set adminValues = {} \<and> set vs \<inter> set viewerValues \<noteq> {}" for vs
  proof -
    have "matchRole mapper vs = Inr RoleViewer \<longleftrightarrow>
        matchAdmin mapper vs = None \<and> list_ex (\<lambda>v. v \<in> viewers mapper) vs"
      using matchAdmin_result [of mapper vs] by (auto simp: matchRole_def split: option.splits)
    then show ?thesis unfolding matchAdmin_None m(2,3) list_ex_iff by blast
  qed
  show ?thesis
  proof (cases "Option.bind (claims c) claimValues")
    case None
    then have "\<And>raw. claims c = Some raw \<Longrightarrow> claimValues raw = None" by simp
    moreover have "mapRole mapper claims = Inl ErrRoleDenied" using None m(1) by (simp add: mapRole_values)
    ultimately show ?thesis using m(5) by auto
  next
    case (Some vals)
    then obtain raw where raw: "claims c = Some raw" "claimValues raw = Some vals"
      by (cases "claims c") auto
    have "mapRole mapper claims = matchRole mapper vals" using Some m(1) by (simp add: mapRole_values)
    then show ?thesis using m(5) raw by (auto simp: admin viewer)
  qed
qed

theorem mapRole_exact_witness:
  "mapRole \<lparr> claim = ''groups'', viewers = {''read''}, admins = {''ops''} \<rparr>
     [''groups'' \<mapsto> JArr [JStr ''read'', JStr ''ops'']] = Inr RoleAdmin"
proof -
  have "NewRoleMapper ''groups'' [''read''] [''ops''] =
      Inr \<lparr> claim = ''groups'', viewers = {''read''}, admins = {''ops''} \<rparr>"
    by (simp add: NewRoleMapper_Inr)
  note exact = mapRole_exact [OF this, of "[''groups'' \<mapsto> JArr [JStr ''read'', JStr ''ops'']]"]
  have "claimValues (JArr [JStr ''read'', JStr ''ops'']) = Some ([''read''] @ ''ops'' # [])"
    by (simp add: claimValues_def unmarshalString_def)
  moreover have "[''groups'' \<mapsto> JArr [JStr ''read'', JStr ''ops'']] ''groups'' = Some (JArr [JStr ''read'', JStr ''ops''])"
    by simp
  moreover have "''ops'' \<in> set [''ops'']" "[] \<notin> set [''read'']" by simp_all
  ultimately show ?thesis using exact by blast
qed

text \<open>
  A policy accepts the stamp of another policy exactly when it is not
  blocked and neither generation has moved since; so an invalidation of the subject or of the
  session rejects every cookie stamped before it, also after a block is removed, and an unstamped
  cookie is accepted only while nothing was ever invalidated.
\<close>

lemma session_stamp_exact:
  "(accepts policy (stamp earlier) \<longleftrightarrow>
      \<not> Blocked policy \<and> SubjectGeneration earlier = SubjectGeneration policy \<and>
      SessionGeneration earlier = SessionGeneration policy) \<and>
   (accepts policy [] \<longleftrightarrow>
      \<not> Blocked policy \<and> SubjectGeneration policy = 0 \<and> SessionGeneration policy = 0)"
proof -
  have "cutStr CHR '':'' (stamp earlier) =
      Some (FormatUint (SubjectGeneration earlier), FormatUint (SessionGeneration earlier))"
    using cutStr_append [OF FormatUint_no_colon] by (simp add: stamp_def)
  moreover have "stamp earlier \<noteq> []" by (simp add: stamp_def)
  ultimately show ?thesis by (auto simp: accepts_def)
qed

end
