(* ===== verification/Store.thy ===== *)
theory Store
  imports Json Decimal VaultCrypto
begin

text \<open>
  The database of \<^verbatim>\<open>internal/storage/mysqlstore\<close>: its tables
  (\<^verbatim>\<open>schema.go\<close>, \<^verbatim>\<open>schema_operations.go\<close>) as lists of rows, and
  transactions as functions that thread the working copy of the tables, the durable ones and a
  count of the database calls. A call fails when the \<^verbatim>\<open>fault\<close> of its number says so,
  or when a key it inserts exists; a failed commit may nevertheless have taken effect
  (\<^verbatim>\<open>landed\<close>). Rows are locked by the statements' \<^verbatim>\<open>FOR UPDATE\<close>, so a
  transaction is one step here.
\<close>

section \<open>Errors\<close>

datatype err =
    ErrConflict
  | ErrNotFound
  | ErrValidation
  | ErrOperationReuse
  | ErrUnauthorized
  | ErrForbidden
  | ErrUnresolved
  | ErrVaultIntegrity
  | ErrCryptoIntegrity
  | ErrNotModified
  | ErrDatabase
  | ErrInternal
  | ConfigMutationError (issueField: string) (issueReason: string)
  | TokenMutationError (issueField: string) (issueReason: string) (issueLimit: int)
  | Audited err

text \<open>\<^verbatim>\<open>Unwrap\<close> of the mutation errors, and \<^verbatim>\<open>errors.Is\<close> through it.\<close>

definition configIssueCause :: "string \<Rightarrow> err" where
  "configIssueCause reason =
     (if reason \<in> {''clone_target_exists'', ''target_config_exists'', ''target_revision_changed''}
      then ErrConflict else ErrValidation)"

fun isErr :: "err \<Rightarrow> err \<Rightarrow> bool" where
  "isErr target (Audited e) = (target = Audited e \<or> isErr target e)"
| "isErr target (ConfigMutationError f r) =
     (target = ConfigMutationError f r \<or> target = configIssueCause r)"
| "isErr target (TokenMutationError f r l) =
     (target = TokenMutationError f r l \<or> target = ErrValidation)"
| "isErr target e = (target = e)"

text \<open>\<^verbatim>\<open>withCommittedAudit\<close> and \<^verbatim>\<open>AuditWasCommitted\<close>.\<close>

definition withCommittedAudit :: "err option \<Rightarrow> err option" where
  "withCommittedAudit e = map_option Audited e"

fun AuditWasCommitted :: "err \<Rightarrow> bool" where
  "AuditWasCommitted (Audited e) = True"
| "AuditWasCommitted _ = False"

section \<open>Rows\<close>

datatype actor = Actor (actorType: string) (actorID: string)

datatype Outcome = OutcomePending | OutcomeSuccess | OutcomeNoChange | OutcomeConflict | OutcomeValidationFailed

record environment_row =
  env_id :: bytes
  env_key :: string
  env_name :: string
  env_archived :: "time option"

record config_row =
  cfg_id :: bytes
  cfg_key :: string
  cfg_name :: string
  cfg_archived :: "time option"

record config_state_row =
  st_config :: bytes
  st_env :: bytes
  st_revision :: u64

record config_revision_row =
  cr_config :: bytes
  cr_env :: bytes
  cr_revision :: u64
  cr_format :: string
  cr_content :: bytes
  cr_sha256 :: bytes
  cr_operation :: string
  cr_actor :: actor
  cr_source_config :: "bytes option"
  cr_source_env :: "bytes option"
  cr_source_revision :: "u64 option"

record config_ref_row =
  rf_config :: bytes
  rf_env :: bytes
  rf_revision :: u64
  rf_reference :: reference

record vault_item_row =
  vi_id :: bytes
  vi_namespace :: string
  vi_key :: string
  vi_name :: string
  vi_revision :: u64
  vi_archived :: "time option"

record vault_revision_row =
  vr_item :: bytes
  vr_revision :: u64
  vr_name :: string
  vr_structure :: bytes
  vr_snapshot :: EncryptedSnapshot
  vr_operation :: string
  vr_actor :: actor
  vr_restored :: "u64 option"

record vault_revision_field_row =
  vf_item :: bytes
  vf_revision :: u64
  vf_field :: bytes
  vf_key :: string
  vf_name :: string
  vf_type :: string
  vf_archived :: bool

record vault_field_row =
  vw_item :: bytes
  vw_id :: bytes
  vw_key :: string
  vw_name :: string
  vw_type :: string
  vw_archived :: "time option"

record vault_variant_row =
  vn_item :: bytes
  vn_revision :: u64
  vn_variant :: bytes
  vn_ordinal :: nat

record vault_binding_row =
  vb_item :: bytes
  vb_revision :: u64
  vb_variant :: bytes
  vb_env :: bytes

record api_token_row =
  tk_id :: bytes
  tk_public_id :: string
  tk_name :: string
  tk_prefix :: string
  tk_digest :: bytes
  tk_without_mtls :: bool
  tk_expires :: "time option"
  tk_revoked :: "time option"
  tk_kind :: string
  tk_configs :: "string list option"
  tk_namespaces :: "string list option"
  tk_fingerprint :: "bytes option"
  tk_parent :: "string option"

record token_environment_row =
  te_token :: bytes
  te_env :: bytes

record certificate_row =
  ct_id :: bytes
  ct_fingerprint :: bytes
  ct_name :: string
  ct_der :: bytes
  ct_subject :: string
  ct_serial :: string
  ct_not_before :: time
  ct_not_after :: time
  ct_revoked :: "time option"
  ct_authority :: "bytes option"

record authority_row =
  ca_id :: bytes
  ca_name :: string
  ca_der :: bytes
  ca_secret :: EncryptedSnapshot
  ca_not_before :: time
  ca_not_after :: time
  ca_revoked :: "time option"
  ca_created :: time

record release_set_row =
  rs_env :: bytes
  rs_config :: bytes
  rs_key :: string
  rs_manifest :: json
  rs_digest :: bytes

record release_state_row =
  rt_env :: bytes
  rt_config :: bytes
  rt_active :: "string option"
  rt_generation :: u64

record session_policy_row =
  sp_identity :: bytes
  sp_issuer :: string
  sp_kind :: string
  sp_target :: string
  sp_generation :: u64
  sp_blocked :: bool
  sp_revoked :: time

record session_row =
  ms_token :: string
  ms_data :: bytes
  ms_expiry :: time

record operation_row =
  op_id :: string
  op_digest :: bytes
  op_actor :: actor
  op_outcome :: Outcome
  op_response :: "json option"
  op_revision :: "u64 option"

text \<open>
  The object an event's payload column holds; the two last members are those of a rejected
  request (\<^verbatim>\<open>audit_rejection.go\<close>), which is not an operation.
\<close>

record event_payload =
  ev_time :: time
  ev_source_ip :: string
  ev_field_key :: string
  ev_operation_id :: string
  ev_actor :: actor
  ev_action :: string
  ev_outcome :: Outcome
  ev_environment :: string
  ev_namespace :: string
  ev_resource_type :: string
  ev_resource_key :: string
  ev_revision :: u64
  ev_request_id :: "string option"
  ev_error_code :: "string option"

datatype outbox_kind = OutboxAudit | OutboxNotification

datatype outbox_status = Pending | Processing | Completed | Dead

record outbox_row =
  ob_id :: bytes
  ob_kind :: outbox_kind
  ob_type :: string
  ob_operation :: "string option"
  ob_payload :: event_payload
  ob_status :: outbox_status
  ob_attempts :: u32
  ob_next :: time
  ob_claimed :: "time option"
  ob_completed :: "time option"
  ob_error :: "string option"
  ob_created :: time

record destination_row =
  ds_id :: bytes
  ds_key :: string
  ds_name :: string
  ds_provider :: string
  ds_safe_host :: string
  ds_suffix :: string
  ds_secret :: EncryptedSnapshot
  ds_enabled :: bool
  ds_archived :: "time option"

record subscription_row =
  sb_destination :: bytes
  sb_event :: string

datatype target_status = TargetPending | TargetSucceeded | TargetDead

record target_row =
  tg_event :: bytes
  tg_destination :: bytes
  tg_status :: target_status
  tg_attempts :: u32
  tg_next :: time
  tg_error :: "string option"

record delivery_row =
  dl_id :: bytes
  dl_event :: bytes
  dl_destination :: bytes
  dl_attempt :: u32
  dl_status :: string
  dl_http :: "int option"
  dl_latency :: u32
  dl_error :: "string option"

record db =
  environments :: "environment_row list"
  configs :: "config_row list"
  config_states :: "config_state_row list"
  config_revisions :: "config_revision_row list"
  config_refs :: "config_ref_row list"
  vault_items :: "vault_item_row list"
  vault_revisions :: "vault_revision_row list"
  vault_fields :: "vault_revision_field_row list"
  vault_bindings :: "vault_binding_row list"
  api_tokens :: "api_token_row list"
  token_environments :: "token_environment_row list"
  certificates :: "certificate_row list"
  authorities :: "authority_row list"
  operations :: "operation_row list"
  outbox :: "outbox_row list"
  destinations :: "destination_row list"
  subscriptions :: "subscription_row list"
  targets :: "target_row list"
  deliveries :: "delivery_row list"
  vault_item_fields :: "vault_field_row list"
  vault_variants :: "vault_variant_row list"
  release_sets :: "release_set_row list"
  release_states :: "release_state_row list"
  crypto_sentinel :: "EncryptedSentinel option"
  session_policies :: "session_policy_row list"
  management_sessions :: "session_row list"
  schema_version :: u64

end
