(* ===== verification/Tx.thy ===== *)
theory Tx
  imports Store
begin

text \<open>
  Transactions over the tables: the calls a Go function makes on its \<^verbatim>\<open>sql.Tx\<close>, in
  order, with early return on error. \<^verbatim>\<open>defer transaction.Rollback()\<close> discards the
  working copy; only \<^verbatim>\<open>Commit\<close> makes it durable. The lemmas are the elimination rules
  by which the components take a run apart, and the frame conditions (which calls leave the
  durable tables, or all tables but the journal of operations and events, as they are).
\<close>

section \<open>The environment of an operation\<close>

text \<open>
  The clock of the process and of the database (read once per operation here), which database
  calls fail, which failed commits nevertheless took effect, the random source (by call number)
  and the digest function.
\<close>

record env =
  now :: time
  db_now :: time
  fault :: "nat \<Rightarrow> bool"
  landed :: "nat \<Rightarrow> bool"
  rand :: random
  sha256 :: "bytes \<Rightarrow> bytes"
  sourceIP :: string

record txs =
  work :: db
  durable :: db
  tick :: nat

type_synonym 'a tx = "env \<Rightarrow> txs \<Rightarrow> (err + 'a) \<times> txs"

section \<open>Calls\<close>

definition tx_return :: "'a \<Rightarrow> 'a tx" where
  "tx_return x env s = (Inr x, s)"

definition tx_fail :: "err \<Rightarrow> 'a tx" where
  "tx_fail e env s = (Inl e, s)"

definition tx_bind :: "'a tx \<Rightarrow> ('a \<Rightarrow> 'b tx) \<Rightarrow> 'b tx" where
  "tx_bind m f env s =
     (case m env s of
        (Inl e, s') \<Rightarrow> (Inl e, s')
      | (Inr a, s') \<Rightarrow> f a env s')"

text \<open>Early return on the errors a caller handles itself.\<close>

definition tx_handle :: "(err \<Rightarrow> bool) \<Rightarrow> 'a tx \<Rightarrow> (err \<Rightarrow> 'b tx) \<Rightarrow> ('a \<Rightarrow> 'b tx) \<Rightarrow> 'b tx" where
  "tx_handle p m h f env s =
     (case m env s of
        (Inl e, s') \<Rightarrow> if p e then h e env s' else (Inl e, s')
      | (Inr a, s') \<Rightarrow> f a env s')"

definition tx_lift :: "err + 'a \<Rightarrow> 'a tx" where
  "tx_lift x env s = (x, s)"

text \<open>A loop over a slice.\<close>

fun tx_each :: "('a \<Rightarrow> unit tx) \<Rightarrow> 'a list \<Rightarrow> unit tx" where
  "tx_each f [] = tx_return ()"
| "tx_each f (x # xs) = tx_bind (f x) (\<lambda>_. tx_each f xs)"

fun tx_collect :: "('a \<Rightarrow> 'b list tx) \<Rightarrow> 'a list \<Rightarrow> 'b list tx" where
  "tx_collect f [] = tx_return []"
| "tx_collect f (x # xs) = tx_bind (f x) (\<lambda>ys. tx_bind (tx_collect f xs) (\<lambda>zs. tx_return (ys @ zs)))"

definition tx_env :: "(env \<Rightarrow> 'a) \<Rightarrow> 'a tx" where
  "tx_env f env s = (Inr (f env), s)"

text \<open>A read of the working tables.\<close>

definition tx_query :: "(db \<Rightarrow> 'a) \<Rightarrow> 'a tx" where
  "tx_query f env s =
     (if fault env (tick s) then (Inl ErrDatabase, s\<lparr> tick := tick s + 1 \<rparr>)
      else (Inr (f (work s)), s\<lparr> tick := tick s + 1 \<rparr>))"

text \<open>A statement that changes them; \<^const>\<open>None\<close> is a violated constraint.\<close>

definition tx_exec :: "(db \<Rightarrow> db option) \<Rightarrow> unit tx" where
  "tx_exec f env s =
     (if fault env (tick s) then (Inl ErrDatabase, s\<lparr> tick := tick s + 1 \<rparr>)
      else
        (case f (work s) of
           None \<Rightarrow> (Inl ErrDatabase, s\<lparr> tick := tick s + 1 \<rparr>)
         | Some d \<Rightarrow> (Inr (), s\<lparr> work := d, tick := tick s + 1 \<rparr>)))"

text \<open>A statement together with the number of rows it affected.\<close>

definition tx_execCount :: "(db \<Rightarrow> db \<times> nat) \<Rightarrow> nat tx" where
  "tx_execCount f env s =
     (if fault env (tick s) then (Inl ErrDatabase, s\<lparr> tick := tick s + 1 \<rparr>)
      else (Inr (snd (f (work s))), s\<lparr> work := fst (f (work s)), tick := tick s + 1 \<rparr>))"

definition tx_random :: "nat \<Rightarrow> bytes tx" where
  "tx_random n env s =
     (case rand env (tick s) n of
        None \<Rightarrow> (Inl ErrInternal, s\<lparr> tick := tick s + 1 \<rparr>)
      | Some b \<Rightarrow> (Inr b, s\<lparr> tick := tick s + 1 \<rparr>))"

definition tx_commit :: "unit tx" where
  "tx_commit env s =
     (if fault env (tick s)
      then (Inl ErrDatabase, s\<lparr> durable := if landed env (tick s) then work s else durable s, tick := tick s + 1 \<rparr>)
      else (Inr (), s\<lparr> durable := work s, tick := tick s + 1 \<rparr>))"

text \<open>\<^verbatim>\<open>BeginTx\<close>, the calls, and the deferred rollback.\<close>

definition run_tx :: "'a tx \<Rightarrow> env \<Rightarrow> db \<Rightarrow> (err + 'a) \<times> db" where
  "run_tx m env d =
     (if fault env 0 then (Inl ErrDatabase, d)
      else (case m env \<lparr> work = d, durable = d, tick = 1 \<rparr> of (r, s) \<Rightarrow> (r, durable s)))"

section \<open>Elimination rules\<close>

lemma tx_return_iff [simp]: "tx_return x env s = (r, s') \<longleftrightarrow> r = Inr x \<and> s' = s"
  by (auto simp: tx_return_def)

lemma tx_fail_iff [simp]: "tx_fail e env s = (r, s') \<longleftrightarrow> r = Inl e \<and> s' = s"
  by (auto simp: tx_fail_def)

lemma tx_env_iff [simp]: "tx_env f env s = (r, s') \<longleftrightarrow> r = Inr (f env) \<and> s' = s"
  by (auto simp: tx_env_def)

lemma tx_lift_iff [simp]: "tx_lift x env s = (r, s') \<longleftrightarrow> r = x \<and> s' = s"
  by (auto simp: tx_lift_def)

lemma tx_bind_Inr:
  "tx_bind m f env s = (Inr b, s') \<longleftrightarrow> (\<exists>a s1. m env s = (Inr a, s1) \<and> f a env s1 = (Inr b, s'))"
  by (auto simp: tx_bind_def split: prod.splits sum.splits)

lemma tx_bindE:
  assumes "tx_bind m f env s = (r, s')"
  obtains (failed) e where "m env s = (Inl e, s')" "r = Inl e"
  | (continued) a s1 where "m env s = (Inr a, s1)" "f a env s1 = (r, s')"
  using assms by (auto simp: tx_bind_def split: prod.splits sum.splits)

lemma tx_query_Inr:
  "tx_query f env s = (Inr a, s') \<longleftrightarrow>
   \<not> fault env (tick s) \<and> a = f (work s) \<and> s' = s\<lparr> tick := tick s + 1 \<rparr>"
  by (auto simp: tx_query_def)

lemma tx_exec_Inr:
  "tx_exec f env s = (Inr u, s') \<longleftrightarrow>
   \<not> fault env (tick s) \<and> (\<exists>d. f (work s) = Some d \<and> s' = s\<lparr> work := d, tick := tick s + 1 \<rparr>)"
  by (auto simp: tx_exec_def split: option.splits)

lemma tx_execCount_Inr:
  "tx_execCount f env s = (Inr n, s') \<longleftrightarrow>
   \<not> fault env (tick s) \<and> n = snd (f (work s)) \<and> s' = s\<lparr> work := fst (f (work s)), tick := tick s + 1 \<rparr>"
  by (auto simp: tx_execCount_def)

lemma tx_random_Inr:
  "tx_random n env s = (Inr b, s') \<longleftrightarrow> rand env (tick s) n = Some b \<and> s' = s\<lparr> tick := tick s + 1 \<rparr>"
  by (auto simp: tx_random_def split: option.splits)

lemma tx_commit_Inr:
  "tx_commit env s = (Inr u, s') \<longleftrightarrow>
   \<not> fault env (tick s) \<and> s' = s\<lparr> durable := work s, tick := tick s + 1 \<rparr>"
  by (auto simp: tx_commit_def)

lemmas tx_Inr = tx_bind_Inr tx_query_Inr tx_exec_Inr tx_execCount_Inr tx_random_Inr tx_commit_Inr

lemma tx_handle_Inr:
  "tx_handle p m h f env s = (r, s') \<longleftrightarrow>
   (\<exists>a s1. m env s = (Inr a, s1) \<and> f a env s1 = (r, s')) \<or>
   (\<exists>e s1. m env s = (Inl e, s1) \<and> p e \<and> h e env s1 = (r, s')) \<or>
   (\<exists>e. m env s = (Inl e, s') \<and> \<not> p e \<and> r = Inl e)"
  by (auto simp: tx_handle_def split: prod.splits sum.splits if_splits)

lemma run_tx_iff:
  "run_tx m env d = (r, d') \<longleftrightarrow>
   (fault env 0 \<and> r = Inl ErrDatabase \<and> d' = d) \<or>
   (\<not> fault env 0 \<and> (\<exists>s. m env \<lparr> work = d, durable = d, tick = 1 \<rparr> = (r, s) \<and> d' = durable s))"
  by (auto simp: run_tx_def split: prod.splits)

section \<open>Frames\<close>

text \<open>Calls that make nothing durable.\<close>

definition quiet :: "'a tx \<Rightarrow> bool" where
  "quiet m = (\<forall>env s r s'. m env s = (r, s') \<longrightarrow> durable s' = durable s)"

text \<open>
  Calls under which a property of the working tables survives, and of the durable ones when the
  working ones have it too.
\<close>

definition preserves :: "(db \<Rightarrow> bool) \<Rightarrow> 'a tx \<Rightarrow> bool" where
  "preserves P m = (\<forall>env s r s'. m env s = (r, s') \<longrightarrow> P (work s) \<longrightarrow>
     P (work s') \<and> (P (durable s) \<longrightarrow> P (durable s')))"

text \<open>
  Calls whose outcome, when it is not a database failure, does not depend on which calls fail;
  and those that leave the durable tables as they were or as the run in which nothing fails
  leaves them, and alone when they report an error though no call failed.
\<close>

definition nofault :: "env \<Rightarrow> env" where
  "nofault env = env\<lparr> fault := \<lambda>_. False \<rparr>"

definition steady :: "'a tx \<Rightarrow> bool" where
  "steady m = (\<forall>env s r s'. m env s = (r, s') \<longrightarrow> r \<noteq> Inl ErrDatabase \<longrightarrow> m (nofault env) s = (r, s'))"

definition atomic :: "'a tx \<Rightarrow> bool" where
  "atomic m = (\<forall>env s r s'. m env s = (r, s') \<longrightarrow>
     (durable s' = durable s \<or> durable s' = durable (snd (m (nofault env) s))) \<and>
     (isl r \<longrightarrow> (\<forall>n. \<not> fault env n) \<longrightarrow> durable s' = durable s))"

named_theorems quiet_intros \<open>calls that leave the durable tables alone\<close>
named_theorems preserves_intros \<open>calls that preserve a property of the tables\<close>
named_theorems steady_intros \<open>calls whose outcome does not depend on failures\<close>
named_theorems atomic_intros \<open>calls that take effect as a whole or not at all\<close>

lemma nofault_simps [simp]:
  "now (nofault env) = now env" "db_now (nofault env) = db_now env" "rand (nofault env) = rand env"
  "sha256 (nofault env) = sha256 env" "sourceIP (nofault env) = sourceIP env" "\<not> fault (nofault env) n"
  by (simp_all add: nofault_def)

subsection \<open>Quiet calls\<close>

lemma quietD: "quiet m \<Longrightarrow> m env s = (r, s') \<Longrightarrow> durable s' = durable s"
  by (auto simp: quiet_def)

lemma quiet_return [quiet_intros]: "quiet (tx_return x)"
  by (simp add: quiet_def)

lemma quiet_lift [quiet_intros]: "quiet (tx_lift x)"
  by (simp add: quiet_def)

lemma quiet_fail [quiet_intros]: "quiet (tx_fail e)"
  by (simp add: quiet_def)

lemma quiet_env [quiet_intros]: "quiet (tx_env f)"
  by (simp add: quiet_def)

lemma quiet_query [quiet_intros]: "quiet (tx_query f)"
  by (auto simp: quiet_def tx_query_def split: if_splits)

lemma quiet_exec [quiet_intros]: "quiet (tx_exec f)"
  by (auto simp: quiet_def tx_exec_def split: if_splits option.splits)

lemma quiet_execCount [quiet_intros]: "quiet (tx_execCount f)"
  by (auto simp: quiet_def tx_execCount_def split: if_splits)

lemma quiet_random [quiet_intros]: "quiet (tx_random n)"
  by (auto simp: quiet_def tx_random_def split: option.splits)

lemma quiet_bind [quiet_intros]: "quiet m \<Longrightarrow> (\<And>a. quiet (f a)) \<Longrightarrow> quiet (tx_bind m f)"
  unfolding quiet_def by (metis tx_bindE)

lemma quiet_handle [quiet_intros]:
  "quiet m \<Longrightarrow> (\<And>e. quiet (h e)) \<Longrightarrow> (\<And>a. quiet (f a)) \<Longrightarrow> quiet (tx_handle p m h f)"
  unfolding quiet_def tx_handle_Inr by metis

lemma quiet_each [quiet_intros]: "(\<And>x. quiet (f x)) \<Longrightarrow> quiet (tx_each f xs)"
  by (induction xs) (auto intro!: quiet_intros)

lemma quiet_collect [quiet_intros]: "(\<And>x. quiet (f x)) \<Longrightarrow> quiet (tx_collect f xs)"
  by (induction xs) (auto intro!: quiet_intros)

subsection \<open>Preserved properties\<close>

lemma preservesD: "preserves P m \<Longrightarrow> m env s = (r, s') \<Longrightarrow> P (work s) \<Longrightarrow> P (work s')"
  by (auto simp: preserves_def)

lemma preserves_durable:
  "preserves P m \<Longrightarrow> m env s = (r, s') \<Longrightarrow> P (work s) \<Longrightarrow> P (durable s) \<Longrightarrow> P (durable s')"
  by (auto simp: preserves_def)

lemma preserves_return [preserves_intros]: "preserves P (tx_return x)"
  by (simp add: preserves_def)

lemma preserves_lift [preserves_intros]: "preserves P (tx_lift x)"
  by (simp add: preserves_def)

lemma preserves_fail [preserves_intros]: "preserves P (tx_fail e)"
  by (simp add: preserves_def)

lemma preserves_env [preserves_intros]: "preserves P (tx_env f)"
  by (simp add: preserves_def)

lemma preserves_query [preserves_intros]: "preserves P (tx_query f)"
  by (auto simp: preserves_def tx_query_def split: if_splits)

lemma preserves_random [preserves_intros]: "preserves P (tx_random n)"
  by (auto simp: preserves_def tx_random_def split: option.splits)

lemma preserves_commit [preserves_intros]: "preserves P tx_commit"
  by (auto simp: preserves_def tx_commit_def split: if_splits)

lemma preserves_exec [preserves_intros]:
  "(\<And>d d'. P d \<Longrightarrow> f d = Some d' \<Longrightarrow> P d') \<Longrightarrow> preserves P (tx_exec f)"
  by (auto simp: preserves_def tx_exec_def split: if_splits option.splits)

lemma preserves_execCount [preserves_intros]:
  "(\<And>d. P d \<Longrightarrow> P (fst (f d))) \<Longrightarrow> preserves P (tx_execCount f)"
  by (auto simp: preserves_def tx_execCount_def split: if_splits)

lemma preserves_bind [preserves_intros]:
  assumes "preserves P m" and "\<And>a. preserves P (f a)"
  shows "preserves P (tx_bind m f)"
  unfolding preserves_def
proof (intro allI impI)
  fix env s r s'
  assume run: "tx_bind m f env s = (r, s')" and P: "P (work s)"
  from run show "P (work s') \<and> (P (durable s) \<longrightarrow> P (durable s'))"
  proof (cases rule: tx_bindE)
    case failed
    then show ?thesis using assms(1) P by (auto dest: preservesD preserves_durable)
  next
    case (continued a s1)
    have "P (work s1)" "P (durable s) \<longrightarrow> P (durable s1)"
      using assms(1) continued(1) P by (auto dest: preservesD preserves_durable)
    then show ?thesis
      using preservesD [OF assms(2) continued(2)] preserves_durable [OF assms(2) continued(2)] by blast
  qed
qed

lemma preserves_handle [preserves_intros]:
  assumes "preserves P m" and "\<And>e. preserves P (h e)" and "\<And>a. preserves P (f a)"
  shows "preserves P (tx_handle p m h f)"
  unfolding preserves_def
proof (intro allI impI)
  fix env s r s'
  assume run: "tx_handle p m h f env s = (r, s')" and P: "P (work s)"
  obtain q s1 where q: "m env s = (q, s1)" by fastforce
  have s1: "P (work s1)" "P (durable s) \<longrightarrow> P (durable s1)"
    using assms(1) q P by (auto dest: preservesD preserves_durable)
  show "P (work s') \<and> (P (durable s) \<longrightarrow> P (durable s'))"
  proof (cases q)
    case (Inl e)
    then show ?thesis
      using run q s1 preservesD [OF assms(2), of e env s1 r s']
        preserves_durable [OF assms(2), of e env s1 r s']
      by (auto simp: tx_handle_def split: if_splits)
  next
    case (Inr a)
    then show ?thesis
      using run q s1 preservesD [OF assms(3), of a env s1 r s']
        preserves_durable [OF assms(3), of a env s1 r s']
      by (auto simp: tx_handle_def)
  qed
qed

lemma preserves_each [preserves_intros]: "(\<And>x. preserves P (f x)) \<Longrightarrow> preserves P (tx_each f xs)"
  by (induction xs) (auto intro!: preserves_return preserves_bind)

lemma preserves_collect [preserves_intros]: "(\<And>x. preserves P (f x)) \<Longrightarrow> preserves P (tx_collect f xs)"
  by (induction xs) (auto intro!: preserves_return preserves_bind)

lemma run_tx_preserves:
  assumes "preserves P m" and "run_tx m env d = (r, d')" and "P d"
  shows "P d'"
  using assms preserves_durable [OF assms(1)] by (fastforce simp: run_tx_iff)

lemma preserves_conj:
  "preserves P m \<Longrightarrow> preserves Q m \<Longrightarrow> preserves (\<lambda>d. P d \<and> Q d) m"
  unfolding preserves_def by blast

subsection \<open>Steady calls\<close>

lemma steady_return [steady_intros]: "steady (tx_return x)"
  by (simp add: steady_def)

lemma steady_lift [steady_intros]: "steady (tx_lift x)"
  by (simp add: steady_def)

lemma steady_fail [steady_intros]: "steady (tx_fail e)"
  by (simp add: steady_def)

lemma steady_env [steady_intros]: "(\<And>env. f (nofault env) = f env) \<Longrightarrow> steady (tx_env f)"
  by (simp add: steady_def)

lemma steady_query [steady_intros]: "steady (tx_query f)"
  by (auto simp: steady_def tx_query_def split: if_splits)

lemma steady_exec [steady_intros]: "steady (tx_exec f)"
  by (auto simp: steady_def tx_exec_def split: if_splits option.splits)

lemma steady_execCount [steady_intros]: "steady (tx_execCount f)"
  by (auto simp: steady_def tx_execCount_def split: if_splits)

lemma steady_commit [steady_intros]: "steady tx_commit"
  by (auto simp: steady_def tx_commit_def split: if_splits)

lemma steady_random [steady_intros]: "steady (tx_random n)"
  by (auto simp: steady_def tx_random_def split: option.splits)

lemma steady_bind [steady_intros]:
  assumes "steady m" and "\<And>a. steady (f a)"
  shows "steady (tx_bind m f)"
  using assms unfolding steady_def tx_bind_def
  by (fastforce split: prod.splits sum.splits)

lemma steady_handle [steady_intros]:
  assumes "steady m" and "\<And>e. steady (h e)" and "\<And>a. steady (f a)" and "\<not> p ErrDatabase"
  shows "steady (tx_handle p m h f)"
  unfolding steady_def
proof (intro allI impI)
  fix env s r s'
  assume run: "tx_handle p m h f env s = (r, s')" and r: "r \<noteq> Inl ErrDatabase"
  obtain q s1 where q: "m env s = (q, s1)" by fastforce
  have "q \<noteq> Inl ErrDatabase" using run r q assms(4) by (auto simp: tx_handle_def)
  then have "m (nofault env) s = (q, s1)" using assms(1) q by (auto simp: steady_def)
  then show "tx_handle p m h f (nofault env) s = (r, s')"
    using run r q assms(2,3) by (auto simp: tx_handle_def steady_def split: sum.splits if_splits)
qed

lemma steady_each [steady_intros]: "(\<And>x. steady (f x)) \<Longrightarrow> steady (tx_each f xs)"
  by (induction xs) (auto intro!: steady_return steady_bind)

lemma steady_collect [steady_intros]: "(\<And>x. steady (f x)) \<Longrightarrow> steady (tx_collect f xs)"
  by (induction xs) (auto intro!: steady_return steady_bind)

subsection \<open>Atomic calls\<close>

lemma atomicD:
  "atomic m \<Longrightarrow> m env s = (r, s') \<Longrightarrow> durable s' = durable s \<or> durable s' = durable (snd (m (nofault env) s))"
  by (auto simp: atomic_def)

lemma atomic_error:
  "atomic m \<Longrightarrow> m env s = (Inl e, s') \<Longrightarrow> \<forall>n. \<not> fault env n \<Longrightarrow> durable s' = durable s"
  by (fastforce simp: atomic_def)

lemma quiet_atomic: "quiet m \<Longrightarrow> atomic m"
  by (auto simp: quiet_def atomic_def)

lemma atomic_return [atomic_intros]: "atomic (tx_return x)"
  by (rule quiet_atomic [OF quiet_return])

lemma atomic_lift [atomic_intros]: "atomic (tx_lift x)"
  by (rule quiet_atomic [OF quiet_lift])

lemma atomic_fail [atomic_intros]: "atomic (tx_fail e)"
  by (rule quiet_atomic [OF quiet_fail])

lemma atomic_commit [atomic_intros]: "atomic (tx_bind tx_commit (\<lambda>_. tx_return x))"
  by (auto simp: atomic_def tx_bind_def tx_commit_def tx_return_def split: prod.splits sum.splits if_splits)

lemma atomic_bind [atomic_intros]:
  assumes "quiet m" and "steady m" and "\<And>a. atomic (f a)"
  shows "atomic (tx_bind m f)"
  unfolding atomic_def
proof (intro allI impI)
  fix env s r s'
  assume run: "tx_bind m f env s = (r, s')"
  then show "(durable s' = durable s \<or> durable s' = durable (snd (tx_bind m f (nofault env) s))) \<and>
      (isl r \<longrightarrow> (\<forall>n. \<not> fault env n) \<longrightarrow> durable s' = durable s)"
  proof (cases rule: tx_bindE)
    case failed
    then show ?thesis using assms(1) by (auto dest: quietD)
  next
    case (continued a s1)
    have d1: "durable s1 = durable s" using assms(1) continued(1) by (rule quietD)
    have "m (nofault env) s = (Inr a, s1)" using assms(2) continued(1) by (auto simp: steady_def)
    then have "tx_bind m f (nofault env) s = f a (nofault env) s1" by (simp add: tx_bind_def)
    then show ?thesis
      using atomicD [OF assms(3) continued(2)] atomic_error [OF assms(3), of a env s1 _ s'] continued(2) d1
      by (cases r) auto
  qed
qed

lemma atomic_handle [atomic_intros]:
  assumes "quiet m" and "steady m" and "\<And>e. atomic (h e)" and "\<And>a. atomic (f a)" and "\<not> p ErrDatabase"
  shows "atomic (tx_handle p m h f)"
  unfolding atomic_def
proof (intro allI impI)
  fix env s r s'
  assume run: "tx_handle p m h f env s = (r, s')"
  obtain q s1 where q: "m env s = (q, s1)" by fastforce
  have d1: "durable s1 = durable s" using assms(1) q by (rule quietD)
  have "durable s' = durable s \<or> durable s' = durable (snd (tx_handle p m h f (nofault env) s))"
  proof (cases "q = Inl ErrDatabase")
    case True
    then show ?thesis using run q d1 assms(5) by (simp add: tx_handle_def)
  next
    case False
    then have "m (nofault env) s = (q, s1)" using assms(2) q by (auto simp: steady_def)
    then show ?thesis
      using run q d1 atomicD [OF assms(3), of _ env s1 r s'] atomicD [OF assms(4), of _ env s1 r s']
      by (auto simp: tx_handle_def split: sum.splits if_splits)
  qed
  moreover have "isl r \<longrightarrow> (\<forall>n. \<not> fault env n) \<longrightarrow> durable s' = durable s"
    using run q d1 atomic_error [OF assms(3), of _ env s1 _ s'] atomic_error [OF assms(4), of _ env s1 _ s']
    by (cases r) (auto simp: tx_handle_def split: sum.splits if_splits)
  ultimately show "(durable s' = durable s \<or> durable s' = durable (snd (tx_handle p m h f (nofault env) s))) \<and>
      (isl r \<longrightarrow> (\<forall>n. \<not> fault env n) \<longrightarrow> durable s' = durable s)" by blast
qed

text \<open>
  All or nothing: a run is the one in which nothing fails, or it reports a database failure and
  leaves the tables alone or with the whole effect of that run (the commit took effect and its
  acknowledgement was lost).
\<close>

lemma run_tx_atomic:
  assumes "atomic m" and "steady m"
  shows "run_tx m env d = run_tx m (nofault env) d \<or>
    fst (run_tx m env d) = Inl ErrDatabase \<and>
    (snd (run_tx m env d) = d \<or> snd (run_tx m env d) = snd (run_tx m (nofault env) d))"
proof (cases "fault env 0")
  case True
  then show ?thesis by (simp add: run_tx_def)
next
  case False
  obtain r s where run: "m env \<lparr> work = d, durable = d, tick = 1 \<rparr> = (r, s)" by fastforce
  have "r \<noteq> Inl ErrDatabase \<Longrightarrow> m (nofault env) \<lparr> work = d, durable = d, tick = 1 \<rparr> = (r, s)"
    using assms(2) run by (auto simp: steady_def)
  moreover have "durable s = d \<or> durable s = durable (snd (m (nofault env) \<lparr> work = d, durable = d, tick = 1 \<rparr>))"
    using atomicD [OF assms(1) run] by simp
  ultimately show ?thesis using run False by (auto simp: run_tx_def split: prod.splits)
qed

lemma run_tx_error:
  assumes "atomic m" and "\<forall>n. \<not> fault env n" and "run_tx m env d = (Inl e, d')"
  shows "d' = d"
  using atomic_error [OF assms(1) _ assms(2), of "\<lparr> work = d, durable = d, tick = 1 \<rparr>" e] assms(2,3)
  by (auto simp: run_tx_iff)

text \<open>The two together, as the contract of a mutation that calls the database.\<close>

definition allOrNothing :: "(env \<Rightarrow> db \<Rightarrow> (err + 'a) \<times> db) \<Rightarrow> bool" where
  "allOrNothing f =
     (\<forall>env d. (f env d = f (nofault env) d \<or>
        fst (f env d) = Inl ErrDatabase \<and> (snd (f env d) = d \<or> snd (f env d) = snd (f (nofault env) d))) \<and>
      (\<forall>e. fst (f (nofault env) d) = Inl e \<longrightarrow> snd (f (nofault env) d) = d))"

lemma allOrNothing_run:
  assumes "atomic m" and "steady m"
  shows "allOrNothing (run_tx m)"
  unfolding allOrNothing_def
  using run_tx_atomic [OF assms] run_tx_error [OF assms(1), of "nofault _"]
  by (metis nofault_simps(6) prod.collapse)

lemma allOrNothing_env:
  assumes "\<And>env. atomic (m env)" and "\<And>env. steady (m env)" and "\<And>env. m (nofault env) = m env"
  shows "allOrNothing (\<lambda>env. run_tx (m env) env)"
  using allOrNothing_run [OF assms(1,2)] assms(3) unfolding allOrNothing_def by simp

lemma allOrNothing_guard:
  assumes "allOrNothing f"
  shows "allOrNothing (\<lambda>env d. if b then (Inl e, d) else f env d)"
  using assms by (simp add: allOrNothing_def)

text \<open>An invariant that successful runs keep is kept by every run.\<close>

lemma allOrNothing_invariant:
  assumes "allOrNothing f" and "\<And>env a d'. f env d = (Inr a, d') \<Longrightarrow> P d'" and "P d"
  shows "P (snd (f env d))"
proof -
  have "P (snd (f (nofault env) d))"
  proof (cases "fst (f (nofault env) d)")
    case (Inl e)
    then show ?thesis using assms(1,3) by (simp add: allOrNothing_def)
  next
    case (Inr a)
    then show ?thesis using assms(2) by (metis prod.collapse)
  qed
  then show ?thesis using assms(1,3) unfolding allOrNothing_def by metis
qed

subsection \<open>Case distinctions\<close>

lemma quiet_if [quiet_intros]: "(b \<Longrightarrow> quiet m) \<Longrightarrow> (\<not> b \<Longrightarrow> quiet n) \<Longrightarrow> quiet (if b then m else n)"
  by simp

lemma quiet_option [quiet_intros]:
  "quiet m \<Longrightarrow> (\<And>a. quiet (f a)) \<Longrightarrow> quiet (case x of None \<Rightarrow> m | Some a \<Rightarrow> f a)"
  by (cases x) auto

lemma quiet_sum [quiet_intros]:
  "(\<And>a. quiet (f a)) \<Longrightarrow> (\<And>b. quiet (g b)) \<Longrightarrow> quiet (case x of Inl a \<Rightarrow> f a | Inr b \<Rightarrow> g b)"
  by (cases x) auto

lemma quiet_prod [quiet_intros]: "(\<And>a b. quiet (f a b)) \<Longrightarrow> quiet (case x of (a, b) \<Rightarrow> f a b)"
  by (cases x) auto

lemma preserves_if [preserves_intros]:
  "(b \<Longrightarrow> preserves P m) \<Longrightarrow> (\<not> b \<Longrightarrow> preserves P n) \<Longrightarrow> preserves P (if b then m else n)"
  by simp

lemma preserves_option [preserves_intros]:
  "preserves P m \<Longrightarrow> (\<And>a. preserves P (f a)) \<Longrightarrow> preserves P (case x of None \<Rightarrow> m | Some a \<Rightarrow> f a)"
  by (cases x) auto

lemma preserves_sum [preserves_intros]:
  "(\<And>a. preserves P (f a)) \<Longrightarrow> (\<And>b. preserves P (g b)) \<Longrightarrow> preserves P (case x of Inl a \<Rightarrow> f a | Inr b \<Rightarrow> g b)"
  by (cases x) auto

lemma preserves_prod [preserves_intros]:
  "(\<And>a b. preserves P (f a b)) \<Longrightarrow> preserves P (case x of (a, b) \<Rightarrow> f a b)"
  by (cases x) auto

lemma steady_if [steady_intros]: "(b \<Longrightarrow> steady m) \<Longrightarrow> (\<not> b \<Longrightarrow> steady n) \<Longrightarrow> steady (if b then m else n)"
  by simp

lemma steady_option [steady_intros]:
  "steady m \<Longrightarrow> (\<And>a. steady (f a)) \<Longrightarrow> steady (case x of None \<Rightarrow> m | Some a \<Rightarrow> f a)"
  by (cases x) auto

lemma steady_sum [steady_intros]:
  "(\<And>a. steady (f a)) \<Longrightarrow> (\<And>b. steady (g b)) \<Longrightarrow> steady (case x of Inl a \<Rightarrow> f a | Inr b \<Rightarrow> g b)"
  by (cases x) auto

lemma steady_prod [steady_intros]: "(\<And>a b. steady (f a b)) \<Longrightarrow> steady (case x of (a, b) \<Rightarrow> f a b)"
  by (cases x) auto

lemma atomic_if [atomic_intros]: "(b \<Longrightarrow> atomic m) \<Longrightarrow> (\<not> b \<Longrightarrow> atomic n) \<Longrightarrow> atomic (if b then m else n)"
  by simp

lemma atomic_option [atomic_intros]:
  "atomic m \<Longrightarrow> (\<And>a. atomic (f a)) \<Longrightarrow> atomic (case x of None \<Rightarrow> m | Some a \<Rightarrow> f a)"
  by (cases x) auto

lemma atomic_sum [atomic_intros]:
  "(\<And>a. atomic (f a)) \<Longrightarrow> (\<And>b. atomic (g b)) \<Longrightarrow> atomic (case x of Inl a \<Rightarrow> f a | Inr b \<Rightarrow> g b)"
  by (cases x) auto

lemma atomic_prod [atomic_intros]: "(\<And>a b. atomic (f a b)) \<Longrightarrow> atomic (case x of (a, b) \<Rightarrow> f a b)"
  by (cases x) auto

subsection \<open>The journal\<close>

text \<open>Everything but the journal: the operations, their events and the events' targets.\<close>

definition data :: "db \<Rightarrow> db" where
  "data d = d\<lparr> operations := [], outbox := [], targets := [] \<rparr>"

lemma data_tables:
  assumes "data d' = data d"
  shows "environments d' = environments d" "configs d' = configs d"
    "config_states d' = config_states d" "config_revisions d' = config_revisions d"
    "config_refs d' = config_refs d" "vault_items d' = vault_items d"
    "vault_revisions d' = vault_revisions d" "vault_fields d' = vault_fields d"
    "vault_bindings d' = vault_bindings d" "api_tokens d' = api_tokens d"
    "token_environments d' = token_environments d" "certificates d' = certificates d"
    "authorities d' = authorities d" "destinations d' = destinations d"
    "subscriptions d' = subscriptions d" "deliveries d' = deliveries d"
    "vault_item_fields d' = vault_item_fields d" "vault_variants d' = vault_variants d"
    "release_sets d' = release_sets d" "release_states d' = release_states d"
    "crypto_sentinel d' = crypto_sentinel d" "session_policies d' = session_policies d"
    "management_sessions d' = management_sessions d" "schema_version d' = schema_version d"
  using assms unfolding data_def by (cases d; cases d'; simp)+

section \<open>Samples\<close>

text \<open>An empty database and an environment in which nothing fails.\<close>

definition emptyDb :: db where
  "emptyDb =
     \<lparr> environments = [], configs = [], config_states = [], config_revisions = [], config_refs = [],
       vault_items = [], vault_revisions = [], vault_fields = [], vault_bindings = [],
       api_tokens = [], token_environments = [], certificates = [], authorities = [],
       operations = [], outbox = [], destinations = [], subscriptions = [], targets = [],
       deliveries = [], vault_item_fields = [], vault_variants = [], release_sets = [], release_states = [],
       crypto_sentinel = None, session_policies = [], management_sessions = [], schema_version = 4 \<rparr>"

definition sampleEnv :: env where
  "sampleEnv =
     \<lparr> now = 1000, db_now = 1000, fault = \<lambda>_. False, landed = \<lambda>_. False,
       rand = \<lambda>t n. Some (take n (replicate t CHR ''a'' @ replicate n CHR ''b'')), sha256 = \<lambda>b. take 8 b, sourceIP = [] \<rparr>"

text \<open>The same tables with one environment.\<close>

definition sampleDb :: db where
  "sampleDb = emptyDb\<lparr> environments :=
     [\<lparr> env_id = ''env-prod'', env_key = ''prod'', env_name = ''Production'', env_archived = None \<rparr>] \<rparr>"

end
