(* ===== verification/Operations.thy ===== *)
theory Operations
  imports Tx JsonRound Keys
begin

text \<open>
  The journal every mutation writes (\<^verbatim>\<open>config_mutation.go\<close>): an operation row
  reserved by its caller's identifier, which makes retries replay the stored response, and the
  audit and notification events of the outbox, in the transaction that changes the tables.
\<close>

section \<open>JSON values the store keeps\<close>

text \<open>The compact form \<^verbatim>\<open>json.Marshal\<close> writes, for the request digests.\<close>

fun compactJSON :: "json \<Rightarrow> bytes"
  and compactItems :: "json list \<Rightarrow> bytes list"
  and compactEntries :: "(string \<times> json) list \<Rightarrow> bytes list" where
  "compactJSON JNull = ''null''"
| "compactJSON (JBool b) = (if b then ''true'' else ''false'')"
| "compactJSON (JNum n) = n"
| "compactJSON (JStr s) = quoteJSON s"
| "compactJSON (JArr vs) = ''['' @ joinWith CHR '','' (compactItems vs) @ '']''"
| "compactJSON (JObj es) = ''{'' @ joinWith CHR '','' (compactEntries es) @ ''}''"
| "compactItems [] = []"
| "compactItems (v # vs) = compactJSON v # compactItems vs"
| "compactEntries [] = []"
| "compactEntries ((k, v) # es) = (quoteJSON k @ '':'' @ compactJSON v) # compactEntries es"

text \<open>What a string is after it has been written as JSON and read back.\<close>

definition jsonText :: "string \<Rightarrow> string" where
  "jsonText s = (case lexString (escapeJSON s @ [CHR 0x22]) of None \<Rightarrow> [] | Some (t, r) \<Rightarrow> t)"

lemma jsonText_utf8 [simp]: "utf8 s \<Longrightarrow> jsonText s = s"
  by (simp add: jsonText_def lexString_escapeJSON)

text \<open>A member of a stored object, decoded into a Go field: absent or null leaves it zero.\<close>

definition member :: "string \<Rightarrow> json \<Rightarrow> json" where
  "member k v = (case v of JObj es \<Rightarrow> (case map_of es k of None \<Rightarrow> JNull | Some x \<Rightarrow> x) | _ \<Rightarrow> JNull)"

definition isObject :: "json \<Rightarrow> bool" where
  "isObject v = (case v of JObj _ \<Rightarrow> True | JNull \<Rightarrow> True | _ \<Rightarrow> False)"

definition asString :: "json \<Rightarrow> string option" where
  "asString v = (case v of JStr s \<Rightarrow> Some s | JNull \<Rightarrow> Some [] | _ \<Rightarrow> None)"

definition asBool :: "json \<Rightarrow> bool option" where
  "asBool v = (case v of JBool b \<Rightarrow> Some b | JNull \<Rightarrow> Some False | _ \<Rightarrow> None)"

definition asUint64 :: "json \<Rightarrow> u64 option" where
  "asUint64 v = (case v of JNum n \<Rightarrow> ParseUint n | JNull \<Rightarrow> Some 0 | _ \<Rightarrow> None)"

fun asStringItems :: "json list \<Rightarrow> string list option" where
  "asStringItems [] = Some []"
| "asStringItems (v # vs) =
     (case asString v of
        None \<Rightarrow> None
      | Some s \<Rightarrow> map_option (\<lambda>ss. s # ss) (asStringItems vs))"

text \<open>A slice, which is nil when the member is absent or null.\<close>

definition asStrings :: "json \<Rightarrow> string list option option" where
  "asStrings v =
     (case v of
        JArr vs \<Rightarrow> map_option Some (asStringItems vs)
      | JNull \<Rightarrow> Some None
      | _ \<Rightarrow> None)"

definition jsonStrings :: "string list \<Rightarrow> json" where
  "jsonStrings ss = JArr (map (\<lambda>s. JStr (jsonText s)) ss)"

lemma asStrings_jsonStrings [simp]:
  assumes "list_all utf8 ss"
  shows "asStrings (jsonStrings ss) = Some (Some ss)"
proof -
  have "asStringItems (map (\<lambda>s. JStr (jsonText s)) ss) = Some ss"
    using assms by (induction ss) (auto simp: asString_def)
  then show ?thesis by (simp add: asStrings_def jsonStrings_def)
qed

text \<open>\<^verbatim>\<open>omitempty\<close>.\<close>

definition omitEmpty :: "bool \<Rightarrow> string \<Rightarrow> json \<Rightarrow> (string \<times> json) list" where
  "omitEmpty zero k v = (if zero then [] else [(k, v)])"

fun outcomeText :: "Outcome \<Rightarrow> string" where
  "outcomeText OutcomePending = ''pending''"
| "outcomeText OutcomeSuccess = ''success''"
| "outcomeText OutcomeNoChange = ''no_change''"
| "outcomeText OutcomeConflict = ''conflict''"
| "outcomeText OutcomeValidationFailed = ''validation_failed''"

definition outcomeOf :: "json \<Rightarrow> Outcome option" where
  "outcomeOf v =
     (case asString v of
        None \<Rightarrow> None
      | Some t \<Rightarrow> find (\<lambda>o'. outcomeText o' = t)
          [OutcomePending, OutcomeSuccess, OutcomeNoChange, OutcomeConflict, OutcomeValidationFailed])"

lemma outcomeOf_text [simp]: "outcomeOf (JStr (outcomeText out)) = Some out"
  by (cases out) (simp_all add: outcomeOf_def asString_def)

lemma ParseUint_jsonNumber [simp]: "asUint64 (JNum (FormatUint n)) = Some n"
  by (simp add: asUint64_def ParseUint_FormatUint)

lemma asString_JStr [simp]: "asString (JStr s) = Some s"
  and asString_JNull [simp]: "asString JNull = Some []"
  and asBool_JBool [simp]: "asBool (JBool b) = Some b"
  and asBool_JNull [simp]: "asBool JNull = Some False"
  and asUint64_JNull [simp]: "asUint64 JNull = Some 0"
  and asStrings_JNull [simp]: "asStrings JNull = Some None"
  by (simp_all add: asString_def asBool_def asUint64_def asStrings_def)

section \<open>Beginning an operation\<close>

record mutationEvent =
  me_field :: string
  me_type :: string
  me_action :: string
  me_environment :: string
  me_namespace :: string
  me_resource_type :: string
  me_resource_key :: string

datatype operationReplay = OperationReplay (replayOutcome: Outcome) (replayResponse: json)

definition opRow :: "string \<Rightarrow> db \<Rightarrow> operation_row option" where
  "opRow oid d = find (\<lambda>op. op_id op = oid) (operations d)"

text \<open>\<^verbatim>\<open>INSERT ... ON DUPLICATE KEY UPDATE operation_id = operation_id\<close>.\<close>

definition reserveOperation :: "string \<Rightarrow> bytes \<Rightarrow> actor \<Rightarrow> db \<Rightarrow> db \<times> nat" where
  "reserveOperation oid dg act d =
     (if opRow oid d \<noteq> None then (d, 0)
      else
        (d\<lparr> operations := operations d @
              [\<lparr> op_id = oid, op_digest = dg, op_actor = act, op_outcome = OutcomePending,
                 op_response = None, op_revision = None \<rparr>] \<rparr>, 1))"

text \<open>\<^const>\<open>None\<close> is the first attempt, \<^const>\<open>Some\<close> the stored outcome of a finished one.\<close>

definition beginOperation ::
  "string \<Rightarrow> bytes \<Rightarrow> actor \<Rightarrow> bytes list \<Rightarrow> operationReplay option tx" where
  "beginOperation oid dg act compatible =
     tx_bind (tx_execCount (reserveOperation oid dg act)) (\<lambda>rows.
       if rows = 1 then tx_return None
       else
         tx_bind (tx_query (opRow oid)) (\<lambda>row.
           case row of
             None \<Rightarrow> tx_fail ErrDatabase
           | Some op \<Rightarrow>
               if op_digest op \<noteq> dg \<and> op_digest op \<notin> set compatible then tx_fail ErrOperationReuse
               else if op_outcome op = OutcomePending then tx_fail ErrInternal
               else
                 (case op_response op of
                    None \<Rightarrow> tx_fail ErrInternal
                  | Some response \<Rightarrow> tx_return (Some (OperationReplay (op_outcome op) response)))))"

definition outcomeError :: "Outcome \<Rightarrow> err option" where
  "outcomeError out =
     (case out of
        OutcomeConflict \<Rightarrow> withCommittedAudit (Some ErrConflict)
      | OutcomeValidationFailed \<Rightarrow> withCommittedAudit (Some ErrValidation)
      | _ \<Rightarrow> None)"

section \<open>Finishing it\<close>

definition randomID :: "bytes tx" where
  "randomID = tx_random 16"

definition finishRow :: "string \<Rightarrow> Outcome \<Rightarrow> json \<Rightarrow> u64 option \<Rightarrow> db \<Rightarrow> db" where
  "finishRow oid out response revision d =
     d\<lparr> operations := updateWhere (\<lambda>op. op_id op = oid \<and> op_outcome op = OutcomePending)
          (\<lambda>op. op\<lparr> op_outcome := out, op_response := Some response, op_revision := revision \<rparr>)
          (operations d) \<rparr>"

text \<open>A rejected request's keys are kept only when they are well formed.\<close>

definition keepKey :: "string \<Rightarrow> string" where
  "keepKey k = (if validResourceKey k then k else [])"

definition sanitizePayload :: "event_payload \<Rightarrow> event_payload" where
  "sanitizePayload p =
     (let namespace = keepKey (ev_namespace p);
          identity = (if validAuditResourceIdentity (ev_resource_type p) (ev_resource_key p)
                      then ev_resource_key p else [])
      in p\<lparr> ev_field_key := keepKey (ev_field_key p), ev_environment := keepKey (ev_environment p),
            ev_namespace := namespace,
            ev_resource_key :=
              (if ev_resource_type p = ''vault_item'' \<and> namespace = [] then [] else identity) \<rparr>)"

definition mutationPayload ::
  "env \<Rightarrow> string \<Rightarrow> actor \<Rightarrow> Outcome \<Rightarrow> u64 \<Rightarrow> mutationEvent \<Rightarrow> event_payload" where
  "mutationPayload env oid act out revision e =
     (let p = \<lparr> ev_time = now env, ev_source_ip = sourceIP env, ev_field_key = me_field e,
                ev_operation_id = oid, ev_actor = act, ev_action = me_action e, ev_outcome = out,
                ev_environment = me_environment e, ev_namespace = me_namespace e,
                ev_resource_type = me_resource_type e, ev_resource_key = me_resource_key e,
                ev_revision = (if out = OutcomeSuccess then revision else 0),
                ev_request_id = None, ev_error_code = None \<rparr>
      in if out = OutcomeValidationFailed then sanitizePayload p else p)"

text \<open>\<^verbatim>\<open>json.Marshal\<close> of the payload into its column.\<close>

definition marshalPayload :: "event_payload \<Rightarrow> event_payload" where
  "marshalPayload p =
     p\<lparr> ev_source_ip := jsonText (ev_source_ip p), ev_field_key := jsonText (ev_field_key p),
        ev_operation_id := jsonText (ev_operation_id p),
        ev_actor := Actor (jsonText (actorType (ev_actor p))) (jsonText (actorID (ev_actor p))),
        ev_action := jsonText (ev_action p), ev_environment := jsonText (ev_environment p),
        ev_namespace := jsonText (ev_namespace p), ev_resource_type := jsonText (ev_resource_type p),
        ev_resource_key := jsonText (ev_resource_key p) \<rparr>"

definition insertEvent ::
  "bytes \<Rightarrow> outbox_kind \<Rightarrow> string \<Rightarrow> string option \<Rightarrow> event_payload \<Rightarrow> time \<Rightarrow> db \<Rightarrow> db option" where
  "insertEvent i kind eventType oid payload at d =
     (if existsRow (\<lambda>r. ob_id r = i) (outbox d) then None
      else
        Some (d\<lparr> outbox := outbox d @
          [\<lparr> ob_id = i, ob_kind = kind, ob_type = eventType, ob_operation = oid,
             ob_payload = payload, ob_status = Pending, ob_attempts = 0, ob_next = at,
             ob_claimed = None, ob_completed = None, ob_error = None, ob_created = at \<rparr>] \<rparr>))"

definition insertOutbox :: "outbox_kind \<Rightarrow> string \<Rightarrow> string option \<Rightarrow> event_payload \<Rightarrow> bytes tx" where
  "insertOutbox kind eventType oid payload =
     tx_bind randomID (\<lambda>i.
     tx_bind (tx_env db_now) (\<lambda>at.
     tx_bind (tx_exec (insertEvent i kind eventType oid payload at)) (\<lambda>_.
     tx_return i)))"

text \<open>The destinations an event goes to are fixed when it is written.\<close>

definition subscribed :: "string \<Rightarrow> db \<Rightarrow> bytes list" where
  "subscribed eventType d =
     concat (map (\<lambda>ds. if ds_enabled ds \<and> ds_archived ds = None
                       then map (\<lambda>_. ds_id ds)
                              (filter (\<lambda>sb. sb_destination sb = ds_id ds \<and> sb_event sb = eventType)
                                 (subscriptions d))
                       else []) (destinations d))"

definition snapshotTargets :: "bytes \<Rightarrow> string \<Rightarrow> time \<Rightarrow> db \<Rightarrow> db option" where
  "snapshotTargets i eventType at d =
     (let ids = subscribed eventType d in
      if \<not> distinct ids \<or> existsRow (\<lambda>t. tg_event t = i \<and> tg_destination t \<in> set ids) (targets d)
      then None
      else
        Some (d\<lparr> targets := targets d @
          map (\<lambda>ds. \<lparr> tg_event = i, tg_destination = ds, tg_status = TargetPending,
                      tg_attempts = 0, tg_next = at, tg_error = None \<rparr>) ids \<rparr>))"

definition notifyTargets :: "string \<Rightarrow> string \<Rightarrow> event_payload \<Rightarrow> unit tx" where
  "notifyTargets oid eventType payload =
     tx_bind (insertOutbox OutboxNotification eventType (Some oid) payload) (\<lambda>i.
     tx_bind (tx_env db_now) (\<lambda>at.
     tx_exec (snapshotTargets i eventType at)))"

definition finishOperation ::
  "string \<Rightarrow> actor \<Rightarrow> Outcome \<Rightarrow> u64 \<Rightarrow> json \<Rightarrow> mutationEvent \<Rightarrow> bool \<Rightarrow> unit tx" where
  "finishOperation oid act out revision response e notify =
     tx_bind (tx_exec (\<lambda>d. Some (finishRow oid out response
                (if out = OutcomeSuccess \<and> revision > 0 then Some revision else None) d))) (\<lambda>_.
     tx_bind (tx_env (\<lambda>env. marshalPayload (mutationPayload env oid act out revision e))) (\<lambda>payload.
     tx_bind (insertOutbox OutboxAudit (me_type e) (Some oid) payload) (\<lambda>_.
     if notify then notifyTargets oid (me_type e) payload else tx_return ())))"

text \<open>What most mutations end with.\<close>

definition commitWith :: "'res \<Rightarrow> err option \<Rightarrow> ('res \<times> err option) tx" where
  "commitWith res e = tx_bind tx_commit (\<lambda>_. tx_return (res, e))"

section \<open>Frames of the journal's calls\<close>

lemma data_reserveOperation [simp]: "data (fst (reserveOperation oid dg act d)) = data d"
  by (simp add: reserveOperation_def data_def)

lemma data_finishRow [simp]: "data (finishRow oid out response revision d) = data d"
  by (simp add: finishRow_def data_def)

lemma insertEvent_frame:
  assumes "insertEvent i kind t oid p at d = Some d'"
  shows "data d' = data d \<and> operations d' = operations d"
  using assms by (auto simp: insertEvent_def data_def split: if_splits)

lemma snapshotTargets_frame:
  assumes "snapshotTargets i t at d = Some d'"
  shows "data d' = data d \<and> operations d' = operations d \<and> outbox d' = outbox d"
  using assms by (auto simp: snapshotTargets_def data_def Let_def split: if_splits)

text \<open>A property of the other tables survives the journal's calls.\<close>

definition onData :: "(db \<Rightarrow> bool) \<Rightarrow> bool" where
  "onData P = (\<forall>d d'. data d' = data d \<longrightarrow> P d' = P d)"

lemma onDataD: "onData P \<Longrightarrow> data d' = data d \<Longrightarrow> P d' = P d"
  unfolding onData_def by blast

lemma quiet_begin [quiet_intros]: "quiet (beginOperation oid dg act c)"
  unfolding beginOperation_def by (intro quiet_intros)

lemma steady_begin [steady_intros]: "steady (beginOperation oid dg act c)"
  unfolding beginOperation_def by (intro steady_intros)

lemma quiet_insertOutbox [quiet_intros]: "quiet (insertOutbox k t oid p)"
  unfolding insertOutbox_def randomID_def by (intro quiet_intros)

lemma steady_insertOutbox [steady_intros]: "steady (insertOutbox k t oid p)"
  unfolding insertOutbox_def randomID_def by (intro steady_intros) simp

lemma quiet_finish [quiet_intros]: "quiet (finishOperation oid act out rv resp e n)"
  unfolding finishOperation_def notifyTargets_def by (intro quiet_intros)

lemma steady_finish [steady_intros]: "steady (finishOperation oid act out rv resp e n)"
  unfolding finishOperation_def notifyTargets_def
  by (intro steady_intros) (simp_all add: mutationPayload_def)

lemma atomic_commitWith [atomic_intros]: "atomic (commitWith res e)"
  unfolding commitWith_def by (rule atomic_commit)

lemma steady_commitWith [steady_intros]: "steady (commitWith res e)"
  unfolding commitWith_def by (intro steady_intros)

lemma preserves_commitWith [preserves_intros]: "preserves P (commitWith res e)"
  unfolding commitWith_def by (intro preserves_intros)

lemma preserves_begin [preserves_intros]:
  assumes "onData P"
  shows "preserves P (beginOperation oid dg act c)"
  unfolding beginOperation_def
  by (intro preserves_intros) (use assms in \<open>auto dest: onDataD [OF _ data_reserveOperation]\<close>)

lemma preserves_insertOutbox [preserves_intros]:
  assumes "onData P"
  shows "preserves P (insertOutbox k t oid p)"
  unfolding insertOutbox_def randomID_def
  by (intro preserves_intros) (use assms in \<open>auto dest: onDataD insertEvent_frame\<close>)

lemma preserves_finish [preserves_intros]:
  assumes "onData P"
  shows "preserves P (finishOperation oid act out rv resp e n)"
  unfolding finishOperation_def notifyTargets_def
  by (intro preserves_intros preserves_insertOutbox assms)
    (use assms onDataD [OF assms data_finishRow] in \<open>auto dest: onDataD snapshotTargets_frame\<close>)

section \<open>The operation rows\<close>

lemma opRow_reserve:
  "opRow oid d = None \<Longrightarrow>
   opRow oid (fst (reserveOperation oid dg act d)) =
     Some \<lparr> op_id = oid, op_digest = dg, op_actor = act, op_outcome = OutcomePending,
            op_response = None, op_revision = None \<rparr>"
  by (simp add: reserveOperation_def opRow_def)

lemma beginOperation_None:
  assumes "beginOperation oid dg act c env s = (Inr None, s')"
  shows "opRow oid (work s) = None \<and> work s' = fst (reserveOperation oid dg act (work s)) \<and>
         durable s' = durable s"
  using assms
  by (auto simp: beginOperation_def tx_Inr reserveOperation_def split: if_splits option.splits)

lemma beginOperation_Some:
  assumes "beginOperation oid dg act c env s = (Inr (Some rp), s')"
  shows "\<exists>row. opRow oid (work s) = Some row \<and> (op_digest row = dg \<or> op_digest row \<in> set c) \<and>
           op_outcome row \<noteq> OutcomePending \<and> op_response row = Some (replayResponse rp) \<and>
           replayOutcome rp = op_outcome row \<and> work s' = work s \<and> durable s' = durable s"
  using assms
  by (auto simp: beginOperation_def tx_Inr reserveOperation_def split: if_splits option.splits)

lemma beginOperation_replay:
  assumes "opRow oid (work s) = Some row" and "op_digest row = dg" and "op_outcome row \<noteq> OutcomePending"
    and "op_response row = Some v" and "\<forall>n. \<not> fault env n"
  shows "\<exists>s'. beginOperation oid dg act c env s = (Inr (Some (OperationReplay (op_outcome row) v)), s') \<and>
           work s' = work s \<and> durable s' = durable s"
  using assms
  by (simp add: beginOperation_def tx_bind_def tx_execCount_def tx_query_def reserveOperation_def
      tx_return_def)

lemma beginOperation_reuse:
  assumes "opRow oid (work s) = Some row" and "op_digest row \<noteq> dg" and "op_digest row \<notin> set c"
  shows "\<exists>s' e. beginOperation oid dg act c env s = (Inl e, s') \<and> durable s' = durable s \<and>
           (e = ErrOperationReuse \<or> e = ErrDatabase) \<and> (e = ErrDatabase \<longrightarrow> \<not> (\<forall>n. \<not> fault env n))"
  using assms
  by (auto simp: beginOperation_def tx_bind_def tx_execCount_def tx_query_def reserveOperation_def
      tx_fail_def)

text \<open>
  A body \<^emph>\<open>finishes\<close> an operation it found pending when everything it reports to its caller
  is stored in a form that decodes to it.
\<close>

definition stored :: "string \<Rightarrow> bytes \<Rightarrow> (operationReplay \<Rightarrow> err + 'out) \<Rightarrow> 'out \<Rightarrow> db \<Rightarrow> bool" where
  "stored oid dg dec out d =
     (\<exists>row v. opRow oid d = Some row \<and> op_digest row = dg \<and> op_outcome row \<noteq> OutcomePending \<and>
        op_response row = Some v \<and> dec (OperationReplay (op_outcome row) v) = Inr out)"

definition pending :: "string \<Rightarrow> bytes \<Rightarrow> db \<Rightarrow> bool" where
  "pending oid dg d =
     (\<exists>row. opRow oid d = Some row \<and> op_digest row = dg \<and> op_outcome row = OutcomePending)"

definition finishes ::
  "(db \<Rightarrow> bool) \<Rightarrow> string \<Rightarrow> bytes \<Rightarrow> (operationReplay \<Rightarrow> err + 'out) \<Rightarrow> 'out tx \<Rightarrow> bool" where
  "finishes good oid dg dec m =
     (\<forall>env s out s'. m env s = (Inr out, s') \<longrightarrow> good (work s) \<longrightarrow> pending oid dg (work s) \<longrightarrow>
        stored oid dg dec out (durable s'))"

named_theorems finishes_intros \<open>bodies that store what they report\<close>

lemma finishesD:
  "finishes good oid dg dec m \<Longrightarrow> m env s = (Inr out, s') \<Longrightarrow> good (work s) \<Longrightarrow> pending oid dg (work s) \<Longrightarrow>
   stored oid dg dec out (durable s')"
  by (auto simp: finishes_def)

lemma finishes_fail [finishes_intros]: "finishes good oid dg dec (tx_fail e)"
  by (simp add: finishes_def)

text \<open>A query yields what a state with the invariant holds.\<close>

lemma finishes_query [finishes_intros]:
  "(\<And>d. good d \<Longrightarrow> finishes good oid dg dec (g (f d))) \<Longrightarrow> finishes good oid dg dec (tx_bind (tx_query f) g)"
  unfolding finishes_def tx_bind_Inr tx_query_Inr by fastforce

lemma finishes_bind [finishes_intros]:
  "preserves (pending oid dg) m \<Longrightarrow> preserves good m \<Longrightarrow> (\<And>a. finishes good oid dg dec (f a)) \<Longrightarrow>
   finishes good oid dg dec (tx_bind m f)"
  unfolding finishes_def tx_bind_Inr by (blast dest: preservesD)

lemma finishes_handle [finishes_intros]:
  "preserves (pending oid dg) m \<Longrightarrow> preserves good m \<Longrightarrow> (\<And>e. finishes good oid dg dec (h e)) \<Longrightarrow>
   (\<And>a. finishes good oid dg dec (f a)) \<Longrightarrow> finishes good oid dg dec (tx_handle p m h f)"
  unfolding finishes_def tx_handle_Inr by (blast dest: preservesD)

lemma finishes_if [finishes_intros]:
  "(b \<Longrightarrow> finishes good oid dg dec m) \<Longrightarrow> (\<not> b \<Longrightarrow> finishes good oid dg dec n) \<Longrightarrow>
   finishes good oid dg dec (if b then m else n)"
  by simp

lemma finishes_option [finishes_intros]:
  "(x = None \<Longrightarrow> finishes good oid dg dec m) \<Longrightarrow> (\<And>a. x = Some a \<Longrightarrow> finishes good oid dg dec (f a)) \<Longrightarrow>
   finishes good oid dg dec (case x of None \<Rightarrow> m | Some a \<Rightarrow> f a)"
  by (cases x) auto

lemma finishes_prod [finishes_intros]:
  "(\<And>a b. finishes good oid dg dec (f a b)) \<Longrightarrow> finishes good oid dg dec (case x of (a, b) \<Rightarrow> f a b)"
  by (cases x) auto

lemma pending_operations: "operations d' = operations d \<Longrightarrow> pending oid dg d' = pending oid dg d"
  by (simp add: pending_def opRow_def)

lemma find_finishRow:
  assumes "find (\<lambda>op. op_id op = oid) ops = Some row" and "op_outcome row = OutcomePending"
  shows "find (\<lambda>op. op_id op = oid)
     (updateWhere (\<lambda>op. op_id op = oid \<and> op_outcome op = OutcomePending)
       (\<lambda>op. op\<lparr> op_outcome := out, op_response := Some resp, op_revision := rv \<rparr>) ops) =
     Some (row\<lparr> op_outcome := out, op_response := Some resp, op_revision := rv \<rparr>)"
  using assms find_SomeD [OF assms(1)] by (simp add: find_updateWhere)

lemma opRow_finishRow:
  assumes "opRow oid d = Some row" and "op_outcome row = OutcomePending"
  shows "opRow oid (finishRow oid out resp rv d) =
     Some (row\<lparr> op_outcome := out, op_response := Some resp, op_revision := rv \<rparr>)"
  using find_finishRow assms by (simp add: opRow_def finishRow_def)

lemma finishOperation_operations:
  assumes "finishOperation oid act out rv resp e n env s = (Inr u, s')"
  shows "operations (work s') = operations (finishRow oid out resp
           (if out = OutcomeSuccess \<and> rv > 0 then Some rv else None) (work s))"
  using assms
  by (auto simp: finishOperation_def notifyTargets_def insertOutbox_def randomID_def tx_Inr
      dest!: insertEvent_frame snapshotTargets_frame split: if_splits)

lemma finishes_commit [finishes_intros]:
  assumes "out \<noteq> OutcomePending" and "dec (OperationReplay out resp) = Inr (res, er)"
  shows "finishes good oid dg dec
           (tx_bind (finishOperation oid act out rv resp e n) (\<lambda>_. commitWith res er))"
  unfolding finishes_def
proof (intro allI impI)
  fix env s q s'
  assume run: "tx_bind (finishOperation oid act out rv resp e n) (\<lambda>_. commitWith res er) env s = (Inr q, s')"
    and p: "pending oid dg (work s)"
  obtain u s1 where 1: "finishOperation oid act out rv resp e n env s = (Inr u, s1)"
    and 2: "commitWith res er env s1 = (Inr q, s')" using run by (auto simp: tx_bind_Inr)
  have d: "durable s' = work s1" and q: "q = (res, er)"
    using 2 by (auto simp: commitWith_def tx_Inr)
  obtain row where row: "opRow oid (work s) = Some row" "op_digest row = dg" "op_outcome row = OutcomePending"
    using p by (auto simp: pending_def)
  have "opRow oid (work s1) = Some (row\<lparr> op_outcome := out, op_response := Some resp,
      op_revision := if out = OutcomeSuccess \<and> rv > 0 then Some rv else None \<rparr>)"
    using opRow_finishRow [OF row(1,3)] finishOperation_operations [OF 1] by (simp add: opRow_def)
  then show "stored oid dg dec q (durable s')" using assms row(2) d q by (simp add: stored_def)
qed

lemma finishOperation_data:
  assumes "finishOperation oid act out rv resp e n env s = (r, s')"
  shows "data (work s') = data (work s) \<and> durable s' = durable s"
proof -
  have "preserves (\<lambda>d. data d = data (work s)) (finishOperation oid act out rv resp e n)"
    by (rule preserves_finish) (simp add: onData_def)
  from preservesD [OF this, of env s r s'] show ?thesis using assms quietD [OF quiet_finish assms] by simp
qed

lemma commitWith_Inr:
  "commitWith res e env s = (Inr q, s') \<Longrightarrow> q = (res, e) \<and> durable s' = work s"
  by (auto simp: commitWith_def tx_Inr)

lemma finishCommit_effect:
  assumes "tx_bind (finishOperation oid act out rv resp e n) (\<lambda>_. commitWith res er) env s = (Inr q, s')"
  shows "q = (res, er) \<and> data (durable s') = data (work s)"
proof -
  obtain u s1 where "finishOperation oid act out rv resp e n env s = (Inr u, s1)"
    and "commitWith res er env s1 = (Inr q, s')" using assms by (auto simp: tx_bind_Inr)
  then show ?thesis using finishOperation_data commitWith_Inr by metis
qed

lemma beginOperation_data:
  assumes "beginOperation oid dg act c env s = (r, s')"
  shows "data (work s') = data (work s) \<and> durable s' = durable s"
proof -
  have "preserves (\<lambda>d. data d = data (work s)) (beginOperation oid dg act c)"
    by (rule preserves_begin) (simp add: onData_def)
  from preservesD [OF this, of env s r s'] show ?thesis using assms quietD [OF quiet_begin assms] by simp
qed

text \<open>Calls that leave the operation rows alone keep an operation pending.\<close>

lemma pending_exec:
  assumes "\<And>d d'. f d = Some d' \<Longrightarrow> operations d' = operations d"
  shows "preserves (pending oid dg) (tx_exec f)"
proof (rule preserves_exec)
  fix d d'
  assume "pending oid dg d" and "f d = Some d'"
  then show "pending oid dg d'" using pending_operations [of d' d] assms by blast
qed

lemma pending_execCount:
  assumes "\<And>d. operations (fst (f d)) = operations d"
  shows "preserves (pending oid dg) (tx_execCount f)"
  by (rule preserves_execCount) (use pending_operations assms in blast)

lemmas calls_frame = preserves_bind preserves_query preserves_env preserves_random preserves_return
  preserves_if preserves_option preserves_prod preserves_each preserves_collect preserves_handle
  preserves_fail

section \<open>The mutation contract\<close>

text \<open>
  What a caller that retries with the same identifier relies on: \<^verbatim>\<open>records\<close> (what an
  attempt reports is stored), \<^verbatim>\<open>replays\<close> (a stored outcome is returned again, and changes
  nothing) and \<^verbatim>\<open>reuse\<close> (the identifier with another request is refused). A request is
  admitted when the checks that precede the journal let it through.
\<close>

locale mutation =
  fixes mutate :: "'req \<Rightarrow> env \<Rightarrow> db \<Rightarrow> (err + 'out) \<times> db"
    and opID :: "'req \<Rightarrow> string"
    and digestOf :: "env \<Rightarrow> 'req \<Rightarrow> bytes"
    and replay :: "operationReplay \<Rightarrow> err + 'out"
    and admits :: "'req \<Rightarrow> env \<Rightarrow> db \<Rightarrow> bool"
    and textual :: "'req \<Rightarrow> db \<Rightarrow> bool"
  assumes records: "mutate req env d = (Inr out, d') \<Longrightarrow> opRow (opID req) d = None \<Longrightarrow> textual req d \<Longrightarrow>
      stored (opID req) (digestOf env req) replay out d'"
    and replays: "opRow (opID req) d = Some row \<Longrightarrow> op_digest row = digestOf env req \<Longrightarrow>
      op_outcome row \<noteq> OutcomePending \<Longrightarrow> op_response row = Some v \<Longrightarrow> admits req env d \<Longrightarrow>
      \<forall>n. \<not> fault env n \<Longrightarrow> mutate req env d = (replay (OperationReplay (op_outcome row) v), d)"
    and reuse: "opRow (opID req) d = Some row \<Longrightarrow> op_digest row \<noteq> digestOf env req \<Longrightarrow> admits req env d \<Longrightarrow>
      \<forall>n. \<not> fault env n \<Longrightarrow> mutate req env d = (Inl ErrOperationReuse, d)"
begin

text \<open>The retry may come after any other changes that keep the operation's row.\<close>

lemma retry:
  assumes "mutate req env d = (Inr out, d')" and "opRow (opID req) d = None" and "textual req d"
    and "opRow (opID req) d'' = opRow (opID req) d'"
    and "digestOf env' req = digestOf env req" and "admits req env' d''" and "\<forall>n. \<not> fault env' n"
  shows "mutate req env' d'' = (Inr out, d'')"
proof -
  obtain row v where "opRow (opID req) d' = Some row" "op_digest row = digestOf env req"
    "op_outcome row \<noteq> OutcomePending" "op_response row = Some v"
    "replay (OperationReplay (op_outcome row) v) = Inr out"
    using records [OF assms(1-3)] by (auto simp: stored_def)
  then show ?thesis using replays [of req d'' row env' v] assms(4-7) by simp
qed

lemma other_request:
  assumes "mutate req env d = (Inr out, d')" and "opRow (opID req) d = None" and "textual req d"
    and "opID req' = opID req" and "digestOf env' req' \<noteq> digestOf env req"
    and "admits req' env' d'" and "\<forall>n. \<not> fault env' n"
  shows "mutate req' env' d' = (Inl ErrOperationReuse, d')"
proof -
  obtain row where "opRow (opID req) d' = Some row" "op_digest row = digestOf env req"
    using records [OF assms(1-3)] by (auto simp: stored_def)
  then show ?thesis using reuse [of req' d' row env'] assms(4-7) by simp
qed

end

text \<open>The shape most mutations have after their checks.\<close>

definition journaled ::
  "string \<Rightarrow> bytes \<Rightarrow> actor \<Rightarrow> bytes list \<Rightarrow> (operationReplay \<Rightarrow> err + 'out) \<Rightarrow> 'out tx \<Rightarrow> 'out tx" where
  "journaled oid dg act c dec body =
     tx_bind (beginOperation oid dg act c) (\<lambda>replay.
       case replay of Some rp \<Rightarrow> tx_lift (dec rp) | None \<Rightarrow> body)"

lemma journaled_records_at:
  assumes "journaled oid dg act c dec body env s = (Inr out, s')" and "opRow oid (work s) = None"
    and "finishes good oid dg dec body" and "onData good" and "good (work s)"
  shows "stored oid dg dec out (durable s')"
proof -
  from assms(1) obtain r s1 where b: "beginOperation oid dg act c env s = (Inr r, s1)"
    and rest: "(case r of Some rp \<Rightarrow> tx_lift (dec rp) | None \<Rightarrow> body) env s1 = (Inr out, s')"
    by (auto simp: journaled_def tx_bind_Inr)
  show ?thesis
  proof (cases r)
    case None
    have "pending oid dg (work s1)"
      using beginOperation_None [OF b [unfolded None]] opRow_reserve [OF assms(2), of dg act]
      by (simp add: pending_def)
    moreover have "good (work s1)"
      using preservesD [OF preserves_begin [OF assms(4)] b] assms(5) by simp
    ultimately show ?thesis using finishesD [OF assms(3)] rest None by simp
  next
    case (Some rp)
    then show ?thesis using beginOperation_Some [of oid dg act c env _ rp s1] b assms(2) by fastforce
  qed
qed

text \<open>A first attempt runs its body on tables that differ in the journal only.\<close>

lemma journaled_first_at:
  assumes "journaled oid dg act c dec body env s = (Inr out, s')" and "opRow oid (work s) = None"
  obtains s1 where "data (work s1) = data (work s)" "durable s1 = durable s" "body env s1 = (Inr out, s')"
proof -
  from assms(1) obtain r s1 where b: "beginOperation oid dg act c env s = (Inr r, s1)"
    and rest: "(case r of Some rp \<Rightarrow> tx_lift (dec rp) | None \<Rightarrow> body) env s1 = (Inr out, s')"
    by (auto simp: journaled_def tx_bind_Inr)
  have "r = None" using beginOperation_Some [of oid dg act c env _ _ s1] b assms(2) by (cases r) fastforce+
  then show ?thesis using that [of s1] rest beginOperation_data [OF b] by simp
qed

text \<open>An operation that is known changes nothing.\<close>

lemma journaled_seen_at:
  assumes "journaled oid dg act c dec body env s = (out, s')" and "opRow oid (work s) \<noteq> None"
  shows "durable s' = durable s"
  using assms(1) unfolding journaled_def
proof (cases rule: tx_bindE)
  case (failed e)
  then show ?thesis using beginOperation_data by blast
next
  case (continued rp s1)
  then have "rp \<noteq> None" using beginOperation_None [of oid dg act c env s s1] assms(2) by auto
  then show ?thesis using continued beginOperation_data [OF continued(1)] by auto
qed

lemma journaled_replays_at:
  assumes "opRow oid (work s) = Some row" and "op_digest row = dg" and "op_outcome row \<noteq> OutcomePending"
    and "op_response row = Some v" and "\<forall>n. \<not> fault env n"
  shows "\<exists>s'. journaled oid dg act c dec body env s = (dec (OperationReplay (op_outcome row) v), s') \<and>
           durable s' = durable s"
  using beginOperation_replay [of oid s row dg v env act c] assms
  by (auto simp: journaled_def tx_bind_def tx_lift_def)

lemma journaled_reuse_at:
  assumes "opRow oid (work s) = Some row" and "op_digest row \<noteq> dg" and "op_digest row \<notin> set c"
    and "\<forall>n. \<not> fault env n"
  shows "\<exists>s'. journaled oid dg act c dec body env s = (Inl ErrOperationReuse, s') \<and> durable s' = durable s"
  using beginOperation_reuse [of oid s row dg c act env] assms
  by (auto simp: journaled_def tx_bind_def)

lemma journaled_records:
  assumes "run_tx (journaled oid dg act c dec body) env d = (Inr out, d')" and "opRow oid d = None"
    and "finishes good oid dg dec body" and "onData good" and "good d"
  shows "stored oid dg dec out d'"
  using assms(1) journaled_records_at [OF _ _ assms(3,4)] assms(2,5)
  by (fastforce simp: run_tx_iff)

lemma journaled_first:
  assumes "run_tx (journaled oid dg act c dec body) env d = (Inr out, d')" and "opRow oid d = None"
  obtains s s' where "data (work s) = data d" "durable s = d" "body env s = (Inr out, s')" "d' = durable s'"
proof -
  obtain s' where run: "journaled oid dg act c dec body env \<lparr> work = d, durable = d, tick = 1 \<rparr> = (Inr out, s')"
    and d': "d' = durable s'" using assms(1) by (auto simp: run_tx_iff)
  from run show ?thesis by (rule journaled_first_at) (use assms(2) d' that in auto)
qed

lemma journaled_replays:
  assumes "opRow oid d = Some row" and "op_digest row = dg" and "op_outcome row \<noteq> OutcomePending"
    and "op_response row = Some v" and "\<forall>n. \<not> fault env n"
  shows "run_tx (journaled oid dg act c dec body) env d = (dec (OperationReplay (op_outcome row) v), d)"
  using journaled_replays_at [of oid "\<lparr> work = d, durable = d, tick = 1 \<rparr>" row dg v env act c dec body] assms
  by (auto simp: run_tx_def)

lemma journaled_reuse:
  assumes "opRow oid d = Some row" and "op_digest row \<noteq> dg" and "op_digest row \<notin> set c" and "\<forall>n. \<not> fault env n"
  shows "run_tx (journaled oid dg act c dec body) env d = (Inl ErrOperationReuse, d)"
  using journaled_reuse_at [of oid "\<lparr> work = d, durable = d, tick = 1 \<rparr>" row dg c env act dec body] assms
  by (auto simp: run_tx_def)

lemma atomic_journaled [atomic_intros]:
  "atomic body \<Longrightarrow> atomic (journaled oid dg act c dec body)"
  unfolding journaled_def by (intro atomic_intros quiet_intros steady_intros)

lemma steady_journaled [steady_intros]:
  "steady body \<Longrightarrow> steady (journaled oid dg act c dec body)"
  unfolding journaled_def by (intro steady_intros)

lemma preserves_journaled [preserves_intros]:
  "onData P \<Longrightarrow> preserves P body \<Longrightarrow> preserves P (journaled oid dg act c dec body)"
  unfolding journaled_def by (intro preserves_intros)

end
