(* ===== verification/Environments.thy ===== *)
theory Environments
  imports Operations
begin

text \<open>
  Environments and the lifecycle of Configs (\<^verbatim>\<open>environment_mutation.go\<close>,
  \<^verbatim>\<open>config_lifecycle.go\<close>): create, rename, archive and unarchive. The operations are
  instances of the mutation contract.
\<close>

section \<open>Requests and results\<close>

record EnvironmentChange =
  ec_operation :: string
  ec_actor :: actor
  ec_action :: string
  ec_key :: string
  ec_name :: string

record EnvironmentChangeResult =
  er_outcome :: Outcome
  er_key :: string
  er_name :: string
  er_archived :: bool

definition validActor :: "actor \<Rightarrow> bool" where
  "validActor act =
     ((actorType act = ''user'' \<or> actorType act = ''system'') \<and> actorID act \<noteq> [] \<and> length (actorID act) \<le> 255)"

definition actorJSON :: "actor \<Rightarrow> json" where
  "actorJSON act = JObj [(''type'', JStr (actorType act)), (''id'', JStr (actorID act))]"

definition environmentChangeJSON :: "EnvironmentChange \<Rightarrow> json" where
  "environmentChangeJSON r =
     JObj [(''OperationID'', JStr (ec_operation r)), (''Actor'', actorJSON (ec_actor r)),
           (''Action'', JStr (ec_action r)), (''Key'', JStr (ec_key r)), (''DisplayName'', JStr (ec_name r))]"

definition environmentChangeDigest :: "env \<Rightarrow> EnvironmentChange \<Rightarrow> bytes" where
  "environmentChangeDigest env r = sha256 env (compactJSON (environmentChangeJSON r))"

definition environmentResultJSON :: "EnvironmentChangeResult \<Rightarrow> json" where
  "environmentResultJSON r =
     JObj [(''outcome'', JStr (outcomeText (er_outcome r))), (''key'', JStr (jsonText (er_key r))),
           (''display_name'', JStr (jsonText (er_name r))), (''archived'', JBool (er_archived r))]"

definition environmentResultOf :: "json \<Rightarrow> EnvironmentChangeResult option" where
  "environmentResultOf v =
     (case (isObject v, outcomeOf (member ''outcome'' v), asString (member ''key'' v),
            asString (member ''display_name'' v), asBool (member ''archived'' v)) of
        (True, Some out, Some k, Some n, Some a) \<Rightarrow>
          Some \<lparr> er_outcome = out, er_key = k, er_name = n, er_archived = a \<rparr>
      | _ \<Rightarrow> None)"

definition replayEnvironment ::
  "operationReplay \<Rightarrow> err + EnvironmentChangeResult \<times> err option" where
  "replayEnvironment rp =
     (case environmentResultOf (replayResponse rp) of
        None \<Rightarrow> Inl ErrInternal
      | Some previous \<Rightarrow>
          if er_outcome previous \<noteq> replayOutcome rp then Inl ErrInternal
          else Inr (previous, outcomeError (er_outcome previous)))"

definition validateEnvironmentChange :: "EnvironmentChange \<Rightarrow> bool" where
  "validateEnvironmentChange r =
     (validResourceKey (ec_key r) \<and>
      (if ec_action r = ''create'' \<or> ec_action r = ''rename''
       then ec_name r \<noteq> [] \<and> length (ec_name r) \<le> 255
       else ec_action r = ''archive'' \<or> ec_action r = ''unarchive''))"

section \<open>Statements\<close>

definition findEnvironment :: "string \<Rightarrow> db \<Rightarrow> environment_row option" where
  "findEnvironment k d = find (\<lambda>e. env_key e = k) (environments d)"

definition insertEnvironment :: "bytes \<Rightarrow> string \<Rightarrow> string \<Rightarrow> db \<Rightarrow> db option" where
  "insertEnvironment i k n d =
     (if existsRow (\<lambda>e. env_id e = i \<or> env_key e = k) (environments d) then None
      else Some (d\<lparr> environments := environments d @
             [\<lparr> env_id = i, env_key = k, env_name = n, env_archived = None \<rparr>] \<rparr>))"

definition updateEnvironment :: "bytes \<Rightarrow> (environment_row \<Rightarrow> environment_row) \<Rightarrow> db \<Rightarrow> db option" where
  "updateEnvironment i f d =
     Some (d\<lparr> environments := updateWhere (\<lambda>e. env_id e = i) f (environments d) \<rparr>)"

section \<open>The change\<close>

definition finishEnvironmentOperation ::
  "EnvironmentChange \<Rightarrow> EnvironmentChangeResult \<Rightarrow> string \<Rightarrow> bool \<Rightarrow> unit tx" where
  "finishEnvironmentOperation r res eventType notify =
     finishOperation (ec_operation r) (ec_actor r) (er_outcome res) 0 (environmentResultJSON res)
       \<lparr> me_field = [], me_type = eventType, me_action = ''environment.'' @ ec_action r,
         me_environment = ec_key r, me_namespace = [], me_resource_type = ''environment'',
         me_resource_key = ec_key r \<rparr> notify"

definition finishEnvironmentFailure ::
  "EnvironmentChange \<Rightarrow> Outcome \<Rightarrow> string \<Rightarrow> (EnvironmentChangeResult \<times> err option) tx" where
  "finishEnvironmentFailure r out eventType =
     (let res = \<lparr> er_outcome = out, er_key = ec_key r, er_name = [], er_archived = False \<rparr> in
      tx_bind (finishEnvironmentOperation r res eventType False) (\<lambda>_.
        commitWith res (if out = OutcomeConflict then withCommittedAudit (Some ErrConflict)
                        else withCommittedAudit (Some ErrValidation))))"

definition finishEnvironmentChange ::
  "EnvironmentChange \<Rightarrow> EnvironmentChangeResult \<Rightarrow> (EnvironmentChangeResult \<times> err option) tx" where
  "finishEnvironmentChange r res =
     tx_bind (finishEnvironmentOperation r res (''environment.'' @ ec_action r)
                (er_outcome res = OutcomeSuccess)) (\<lambda>_.
       commitWith res None)"

definition environmentResult :: "Outcome \<Rightarrow> string \<Rightarrow> string \<Rightarrow> bool \<Rightarrow> EnvironmentChangeResult" where
  "environmentResult out k n a = \<lparr> er_outcome = out, er_key = k, er_name = n, er_archived = a \<rparr>"

definition createEnvironment ::
  "EnvironmentChange \<Rightarrow> environment_row option \<Rightarrow> (EnvironmentChangeResult \<times> err option) tx" where
  "createEnvironment r found =
     (if found \<noteq> None then finishEnvironmentFailure r OutcomeConflict ''environment.conflict''
      else
        tx_bind randomID (\<lambda>i.
        tx_bind (tx_exec (insertEnvironment i (ec_key r) (ec_name r))) (\<lambda>_.
        finishEnvironmentChange r (environmentResult OutcomeSuccess (ec_key r) (ec_name r) False))))"

definition renameEnvironment ::
  "EnvironmentChange \<Rightarrow> environment_row option \<Rightarrow> (EnvironmentChangeResult \<times> err option) tx" where
  "renameEnvironment r found =
     (case found of
        None \<Rightarrow> finishEnvironmentFailure r OutcomeValidationFailed ''environment.not_active''
      | Some e \<Rightarrow>
          if env_archived e \<noteq> None
          then finishEnvironmentFailure r OutcomeValidationFailed ''environment.not_active''
          else if env_name e = ec_name r then
            finishEnvironmentChange r (environmentResult OutcomeNoChange (ec_key r) (env_name e) False)
          else
            tx_bind (tx_exec (updateEnvironment (env_id e) (\<lambda>e. e\<lparr> env_name := ec_name r \<rparr>))) (\<lambda>_.
            finishEnvironmentChange r (environmentResult OutcomeSuccess (ec_key r) (ec_name r) False)))"

definition archiveEnvironment ::
  "EnvironmentChange \<Rightarrow> environment_row option \<Rightarrow> (EnvironmentChangeResult \<times> err option) tx" where
  "archiveEnvironment r found =
     (case found of
        None \<Rightarrow> finishEnvironmentFailure r OutcomeValidationFailed ''environment.not_found''
      | Some e \<Rightarrow>
          if env_archived e \<noteq> None then
            finishEnvironmentChange r (environmentResult OutcomeNoChange (ec_key r) (env_name e) True)
          else
            tx_bind (tx_env db_now) (\<lambda>at.
            tx_bind (tx_exec (updateEnvironment (env_id e) (\<lambda>e. e\<lparr> env_archived := Some at \<rparr>))) (\<lambda>_.
            finishEnvironmentChange r (environmentResult OutcomeSuccess (ec_key r) (env_name e) True))))"

definition unarchiveEnvironment ::
  "EnvironmentChange \<Rightarrow> environment_row option \<Rightarrow> (EnvironmentChangeResult \<times> err option) tx" where
  "unarchiveEnvironment r found =
     (case found of
        None \<Rightarrow> finishEnvironmentFailure r OutcomeValidationFailed ''environment.not_found''
      | Some e \<Rightarrow>
          if env_archived e = None then
            finishEnvironmentChange r (environmentResult OutcomeNoChange (ec_key r) (env_name e) False)
          else
            tx_bind (tx_exec (updateEnvironment (env_id e) (\<lambda>e. e\<lparr> env_archived := None \<rparr>))) (\<lambda>_.
            finishEnvironmentChange r (environmentResult OutcomeSuccess (ec_key r) (env_name e) False)))"

definition environmentBody :: "EnvironmentChange \<Rightarrow> (EnvironmentChangeResult \<times> err option) tx" where
  "environmentBody r =
     (if \<not> validateEnvironmentChange r
      then finishEnvironmentFailure r OutcomeValidationFailed ''environment.validation_failed''
      else
        tx_bind (tx_query (findEnvironment (ec_key r))) (\<lambda>found.
          if ec_action r = ''create'' then createEnvironment r found
          else if ec_action r = ''rename'' then renameEnvironment r found
          else if ec_action r = ''archive'' then archiveEnvironment r found
          else unarchiveEnvironment r found))"

definition ApplyEnvironmentChange ::
  "EnvironmentChange \<Rightarrow> env \<Rightarrow> db \<Rightarrow> (err + EnvironmentChangeResult \<times> err option) \<times> db" where
  "ApplyEnvironmentChange r env d =
     (if \<not> validOperationID (ec_operation r) \<or> \<not> validActor (ec_actor r) then (Inl ErrValidation, d)
      else
        run_tx (journaled (ec_operation r) (environmentChangeDigest env r) (ec_actor r) []
          replayEnvironment (environmentBody r)) env d)"

section \<open>The contract\<close>

definition utf8Names :: "db \<Rightarrow> bool" where
  "utf8Names d = list_all (\<lambda>e. utf8 (env_name e)) (environments d)"

definition utf8Change :: "EnvironmentChange \<Rightarrow> bool" where
  "utf8Change r = (utf8 (ec_key r) \<and> utf8 (ec_name r))"

lemma replayEnvironment_result:
  "utf8 (er_key res) \<Longrightarrow> utf8 (er_name res) \<Longrightarrow>
   replayEnvironment (OperationReplay (er_outcome res) (environmentResultJSON res)) =
     Inr (res, outcomeError (er_outcome res))"
  by (simp add: replayEnvironment_def environmentResultOf_def environmentResultJSON_def member_def
      isObject_def)

lemma operations_insertEnvironment:
  "insertEnvironment i k n d = Some d' \<Longrightarrow> operations d' = operations d"
  by (auto simp: insertEnvironment_def split: if_splits)

lemma operations_updateEnvironment:
  "updateEnvironment i f d = Some d' \<Longrightarrow> operations d' = operations d"
  by (auto simp: updateEnvironment_def)

lemma utf8Names_insert:
  "insertEnvironment i k n d = Some d' \<Longrightarrow> utf8 n \<Longrightarrow> utf8Names d \<Longrightarrow> utf8Names d'"
  by (auto simp: insertEnvironment_def utf8Names_def split: if_splits)

lemma utf8Names_update:
  "updateEnvironment i f d = Some d' \<Longrightarrow> (\<And>e. utf8 (env_name e) \<Longrightarrow> utf8 (env_name (f e))) \<Longrightarrow>
   utf8Names d \<Longrightarrow> utf8Names d'"
  by (auto simp: updateEnvironment_def utf8Names_def list_all_iff set_updateWhere)

lemma utf8Names_find: "utf8Names d \<Longrightarrow> findEnvironment k d = Some e \<Longrightarrow> utf8 (env_name e)"
  by (auto simp: utf8Names_def findEnvironment_def list_all_iff dest: find_SomeD)

lemma onData_utf8Names: "onData utf8Names"
  unfolding onData_def utf8Names_def by (metis data_tables(1))

lemma finishes_environmentChange [finishes_intros]:
  "er_outcome res \<noteq> OutcomePending \<Longrightarrow> outcomeError (er_outcome res) = None \<Longrightarrow>
   utf8 (er_key res) \<Longrightarrow> utf8 (er_name res) \<Longrightarrow>
   finishes good (ec_operation r) dg replayEnvironment (finishEnvironmentChange r res)"
  unfolding finishEnvironmentChange_def finishEnvironmentOperation_def
  by (rule finishes_commit) (simp_all add: replayEnvironment_result)

lemma finishes_environmentFailure [finishes_intros]:
  "out = OutcomeConflict \<or> out = OutcomeValidationFailed \<Longrightarrow> utf8Change r \<Longrightarrow>
   finishes good (ec_operation r) dg replayEnvironment (finishEnvironmentFailure r out eventType)"
  unfolding finishEnvironmentFailure_def finishEnvironmentOperation_def Let_def
  by (rule finishes_commit)
    (use replayEnvironment_result [of "\<lparr> er_outcome = out, er_key = ec_key r, er_name = [], er_archived = False \<rparr>"]
      in \<open>auto simp: utf8Change_def outcomeError_def\<close>)

lemmas environment_bodies = environmentBody_def createEnvironment_def renameEnvironment_def
  archiveEnvironment_def unarchiveEnvironment_def environmentResult_def randomID_def

lemma finishes_environmentBody:
  assumes "utf8Change r"
  shows "finishes utf8Names (ec_operation r) dg replayEnvironment (environmentBody r)"
  unfolding environment_bodies using assms
  by (intro finishes_intros calls_frame)
    (auto simp: utf8Change_def outcomeError_def pending_def opRow_def
      intro!: preserves_exec
      dest: operations_insertEnvironment operations_updateEnvironment utf8Names_insert
        utf8Names_update utf8Names_find)

lemma atomic_environmentFinish [atomic_intros]:
  "atomic (finishEnvironmentChange r res)" "atomic (finishEnvironmentFailure r out t)"
  unfolding finishEnvironmentChange_def finishEnvironmentFailure_def finishEnvironmentOperation_def Let_def
  by (intro atomic_intros quiet_intros steady_intros)+

lemma atomic_environmentBody [atomic_intros]: "atomic (environmentBody r)"
  unfolding environment_bodies by (intro atomic_intros quiet_intros steady_intros) simp_all

lemma steady_environmentFinish [steady_intros]:
  "steady (finishEnvironmentChange r res)" "steady (finishEnvironmentFailure r out t)"
  unfolding finishEnvironmentChange_def finishEnvironmentFailure_def finishEnvironmentOperation_def Let_def
  by (intro steady_intros)+

lemma steady_environmentBody [steady_intros]: "steady (environmentBody r)"
  unfolding environment_bodies by (intro steady_intros) simp_all

lemma environmentChangeDigest_nofault [simp]:
  "environmentChangeDigest (nofault env) r = environmentChangeDigest env r"
  by (simp add: environmentChangeDigest_def)

lemma ApplyEnvironmentChange_atomic: "allOrNothing (ApplyEnvironmentChange r)"
  unfolding ApplyEnvironmentChange_def
  by (intro allOrNothing_guard allOrNothing_env atomic_journaled steady_journaled
      atomic_environmentBody steady_environmentBody) simp

definition environmentAdmits :: "EnvironmentChange \<Rightarrow> env \<Rightarrow> db \<Rightarrow> bool" where
  "environmentAdmits r env d = (validOperationID (ec_operation r) \<and> validActor (ec_actor r))"

definition environmentTextual :: "EnvironmentChange \<Rightarrow> db \<Rightarrow> bool" where
  "environmentTextual r d = (utf8Change r \<and> utf8Names d)"

interpretation environment_mutation: mutation ApplyEnvironmentChange ec_operation
  environmentChangeDigest replayEnvironment environmentAdmits environmentTextual
proof
  fix r env d out d'
  assume "ApplyEnvironmentChange r env d = (Inr out, d')" and "opRow (ec_operation r) d = None"
    and t: "environmentTextual r d"
  then show "stored (ec_operation r) (environmentChangeDigest env r) replayEnvironment out d'"
    using journaled_records [OF _ _ finishes_environmentBody onData_utf8Names, of r] t
    by (auto simp: ApplyEnvironmentChange_def environmentTextual_def split: if_splits)
qed (auto simp: ApplyEnvironmentChange_def environmentAdmits_def journaled_replays
    intro: journaled_reuse)

section \<open>The abstract registry\<close>

text \<open>
  What callers see of the environments: a display name and whether it is archived, by key.
\<close>

type_synonym registry = "string \<rightharpoonup> string \<times> bool"

definition environmentRegistry :: "db \<Rightarrow> registry" where
  "environmentRegistry d = (\<lambda>k. map_option (\<lambda>e. (env_name e, env_archived e \<noteq> None)) (findEnvironment k d))"

fun changeRegistry :: "string \<Rightarrow> string \<Rightarrow> string \<Rightarrow> registry \<Rightarrow> Outcome \<times> registry" where
  "changeRegistry action k n m =
     (if action = ''create'' then
        (case m k of None \<Rightarrow> (OutcomeSuccess, m(k \<mapsto> (n, False))) | Some _ \<Rightarrow> (OutcomeConflict, m))
      else if action = ''rename'' then
        (case m k of
           Some (n', False) \<Rightarrow>
             if n' = n then (OutcomeNoChange, m) else (OutcomeSuccess, m(k \<mapsto> (n, False)))
         | _ \<Rightarrow> (OutcomeValidationFailed, m))
      else
        (case m k of
           None \<Rightarrow> (OutcomeValidationFailed, m)
         | Some (n', a) \<Rightarrow>
             if a = (action = ''archive'') then (OutcomeNoChange, m)
             else (OutcomeSuccess, m(k \<mapsto> (n', \<not> a)))))"

definition specEnvironment :: "EnvironmentChange \<Rightarrow> registry \<Rightarrow> Outcome \<times> registry" where
  "specEnvironment r m =
     (if validateEnvironmentChange r then changeRegistry (ec_action r) (ec_key r) (ec_name r) m
      else (OutcomeValidationFailed, m))"

definition environmentKeys :: "db \<Rightarrow> bool" where
  "environmentKeys d = (uniqueOn env_id (environments d) \<and> uniqueOn env_key (environments d))"

lemma registry_data: "data d' = data d \<Longrightarrow> environmentRegistry d' = environmentRegistry d"
  by (simp add: environmentRegistry_def findEnvironment_def data_tables [of d' d])

lemma find_updated_id:
  assumes "uniqueOn env_id rows" and "uniqueOn env_key rows" and "e \<in> set rows"
    and "\<And>x. env_id (f x) = env_id x" and "\<And>x. env_key (f x) = env_key x"
  shows "find (\<lambda>x. env_key x = k) (updateWhere (\<lambda>x. env_id x = env_id e) f rows) =
         (if k = env_key e then Some (f e) else find (\<lambda>x. env_key x = k) rows)"
proof -
  have upd: "find (\<lambda>x. env_key x = k) (updateWhere (\<lambda>x. env_id x = env_id e) f rows) =
      map_option (\<lambda>x. if env_id x = env_id e then f x else x) (find (\<lambda>x. env_key x = k) rows)"
    by (rule find_updateWhere) (simp add: assms(5))
  show ?thesis
  proof (cases "k = env_key e")
    case True
    have "find (\<lambda>x. env_key x = k) rows = Some e"
      by (rule find_unique [OF assms(2,3)]) (use True in auto)
    then show ?thesis using upd True by simp
  next
    case False
    have "env_id x \<noteq> env_id e" if "find (\<lambda>x. env_key x = k) rows = Some x" for x
      using find_SomeD [OF that] False uniqueOnD [OF assms(1), of x e] assms(3) by auto
    then show ?thesis using upd False by (cases "find (\<lambda>x. env_key x = k) rows") auto
  qed
qed

lemma registry_update:
  assumes "updateEnvironment (env_id e) f d = Some d'" and "environmentKeys d"
    and "findEnvironment k d = Some e" and "\<And>x. env_id (f x) = env_id x" and "\<And>x. env_key (f x) = env_key x"
  shows "environmentRegistry d' = (environmentRegistry d)(k \<mapsto> (env_name (f e), env_archived (f e) \<noteq> None))"
proof
  fix j
  have e: "e \<in> set (environments d)" "env_key e = k"
    using assms(3) by (auto simp: findEnvironment_def dest: find_SomeD)
  show "environmentRegistry d' j = ((environmentRegistry d)(k \<mapsto> (env_name (f e), env_archived (f e) \<noteq> None))) j"
    using assms(1,2) find_updated_id [of "environments d" e f j] e assms(4,5)
    by (auto simp: environmentRegistry_def findEnvironment_def updateEnvironment_def environmentKeys_def)
qed

lemma registry_insert:
  assumes "insertEnvironment i k n d = Some d'"
  shows "environmentRegistry d' = (environmentRegistry d)(k \<mapsto> (n, False))"
proof -
  have "find (\<lambda>e. env_key e = k) (environments d) = None"
    using assms by (auto simp: insertEnvironment_def find_None_iff split: if_splits)
  then show ?thesis
    using assms
    by (auto simp: insertEnvironment_def environmentRegistry_def findEnvironment_def fun_eq_iff
        split: if_splits option.splits)
qed

lemma finishChange_effect:
  assumes "finishEnvironmentChange r res env s = (Inr q, s')"
  shows "q = (res, None) \<and> environmentRegistry (durable s') = environmentRegistry (work s)"
  using finishCommit_effect [OF assms [unfolded finishEnvironmentChange_def finishEnvironmentOperation_def]]
    registry_data [of "durable s'" "work s"] by simp

lemma finishFailure_effect:
  assumes "finishEnvironmentFailure r out t env s = (Inr q, s')"
  shows "er_outcome (fst q) = out \<and>
    snd q = withCommittedAudit (Some (if out = OutcomeConflict then ErrConflict else ErrValidation)) \<and>
    environmentRegistry (durable s') = environmentRegistry (work s)"
  using finishCommit_effect [OF assms [unfolded finishEnvironmentFailure_def
        finishEnvironmentOperation_def Let_def]]
    registry_data [of "durable s'" "work s"] by simp

lemma environmentBody_refines:
  assumes "environmentBody r env s = (Inr q, s')" and "environmentKeys (work s)"
  shows "specEnvironment r (environmentRegistry (work s)) =
           (er_outcome (fst q), environmentRegistry (durable s')) \<and>
         snd q = outcomeError (er_outcome (fst q))"
  using assms
  by (auto simp: environment_bodies specEnvironment_def environmentRegistry_def validateEnvironmentChange_def
      tx_Inr outcomeError_def withCommittedAudit_def
      dest!: finishChange_effect finishFailure_effect registry_insert
        registry_update [where e = "_ :: environment_row"]
      split: if_splits option.splits)

section \<open>Properties\<close>

lemma environmentKeys_onData: "onData environmentKeys"
  unfolding onData_def environmentKeys_def by (metis data_tables(1))

lemma environmentKeys_insert:
  "insertEnvironment i k n d = Some d' \<Longrightarrow> environmentKeys d \<Longrightarrow> environmentKeys d'"
  by (auto simp: insertEnvironment_def environmentKeys_def uniqueOn_append split: if_splits)

lemma environmentKeys_update:
  "updateEnvironment i f d = Some d' \<Longrightarrow> (\<And>e. env_id (f e) = env_id e) \<Longrightarrow> (\<And>e. env_key (f e) = env_key e) \<Longrightarrow>
   environmentKeys d \<Longrightarrow> environmentKeys d'"
  by (auto simp: updateEnvironment_def environmentKeys_def intro!: uniqueOn_updateWhere [of env_id] uniqueOn_updateWhere [of env_key])

lemma preserves_environmentFinish [preserves_intros]:
  "onData P \<Longrightarrow> preserves P (finishEnvironmentChange r res)"
  "onData P \<Longrightarrow> preserves P (finishEnvironmentFailure r out t)"
  unfolding finishEnvironmentChange_def finishEnvironmentFailure_def finishEnvironmentOperation_def Let_def
  by (intro preserves_intros; assumption)+

lemma preserves_environmentKeys: "preserves environmentKeys (environmentBody r)"
  unfolding environment_bodies
  by (intro preserves_intros environmentKeys_onData)
    (auto elim!: environmentKeys_insert environmentKeys_update)

text \<open>
  C5. Environment changes refine the registry. A change that commits (also one that is rejected
  as a conflict or as invalid and leaves an audit record) has the outcome, and the effect on the
  name and archived state of every key, that the abstract registry gives it; its error is the
  outcome's, and identifiers and keys stay unique.
\<close>

theorem environment_change_refines:
  assumes "ApplyEnvironmentChange r env d = (Inr (res, e), d')"
    and "opRow (ec_operation r) d = None" and "environmentKeys d"
  shows "specEnvironment r (environmentRegistry d) = (er_outcome res, environmentRegistry d') \<and>
         e = outcomeError (er_outcome res) \<and> environmentKeys d'"
proof -
  let ?m = "journaled (ec_operation r) (environmentChangeDigest env r) (ec_actor r) [] replayEnvironment
              (environmentBody r)"
  have run: "run_tx ?m env d = (Inr (res, e), d')"
    using assms(1) by (auto simp: ApplyEnvironmentChange_def split: if_splits)
  have "preserves environmentKeys ?m"
    by (intro preserves_intros environmentKeys_onData preserves_environmentKeys)
  then have "environmentKeys d'" using run assms(3) by (rule run_tx_preserves)
  moreover obtain s s' where s: "data (work s) = data d"
    "environmentBody r env s = (Inr (res, e), s')" "d' = durable s'"
    using run assms(2) by (rule journaled_first)
  moreover have "environmentKeys (work s)"
    using onDataD [OF environmentKeys_onData s(1)] assms(3) by simp
  ultimately show ?thesis using environmentBody_refines [OF s(2)] registry_data [OF s(1)] by simp
qed

definition sampleChange :: EnvironmentChange where
  "sampleChange = \<lparr> ec_operation = ''op-create-1'', ec_actor = Actor ''user'' ''u1'',
     ec_action = ''create'', ec_key = ''prod'', ec_name = ''Production'' \<rparr>"

definition sampleCreated :: db where
  "sampleCreated = snd (ApplyEnvironmentChange sampleChange sampleEnv emptyDb)"

lemma sampleCreated:
  "ApplyEnvironmentChange sampleChange sampleEnv emptyDb =
     (Inr (\<lparr> er_outcome = OutcomeSuccess, er_key = ''prod'', er_name = ''Production'', er_archived = False \<rparr>,
           None), sampleCreated)"
  unfolding sampleCreated_def by code_simp

lemma sample_first: "opRow (ec_operation sampleChange) emptyDb = None"
  by code_simp

lemma sample_keys: "environmentKeys emptyDb"
  by code_simp

theorem environment_change_refines_witness:
  "specEnvironment sampleChange (environmentRegistry emptyDb) =
     (OutcomeSuccess, environmentRegistry sampleCreated) \<and> environmentKeys sampleCreated"
  using environment_change_refines [OF sampleCreated sample_first sample_keys] by simp

end
