(* ===== verification/TokenScope.thy ===== *)
theory TokenScope
  imports Operations
begin

text \<open>
  API tokens as the readers and the scoped writers see them (\<^verbatim>\<open>machine.Token\<close>,
  \<^verbatim>\<open>mysqlstore/scoped.go\<close>): scopes, and the check every write by a token makes inside
  its transaction.
\<close>

record Token =
  tok_public :: string
  tok_parent :: string
  tok_digest :: bytes
  tok_granted :: bool
  tok_without_mtls :: bool
  tok_expires :: time
  tok_revoked :: bool
  tok_kind :: string
  tok_configs :: "string list option"
  tok_namespaces :: "string list option"
  tok_fingerprint :: bytes

definition TokenReadOnly :: string where "TokenReadOnly = ''read-only''"
definition TokenWriteScoped :: string where "TokenWriteScoped = ''write-scoped''"

definition zeroToken :: Token where
  "zeroToken =
     \<lparr> tok_public = [], tok_parent = [], tok_digest = [], tok_granted = False,
       tok_without_mtls = False, tok_expires = 0, tok_revoked = False, tok_kind = [],
       tok_configs = None, tok_namespaces = None, tok_fingerprint = [] \<rparr>"

text \<open>A nil scope permits everything, an empty one nothing.\<close>

definition AllowsConfig :: "Token \<Rightarrow> string \<Rightarrow> bool" where
  "AllowsConfig t k = (case tok_configs t of None \<Rightarrow> True | Some ks \<Rightarrow> k \<in> set ks)"

definition AllowsNamespace :: "Token \<Rightarrow> string \<Rightarrow> bool" where
  "AllowsNamespace t k = (case tok_namespaces t of None \<Rightarrow> True | Some ks \<Rightarrow> k \<in> set ks)"

definition validateScopeKeys :: "string list \<Rightarrow> bool" where
  "validateScopeKeys keys = (length keys \<le> 256 \<and> list_all validResourceKey keys \<and> distinct keys)"

text \<open>\<^const>\<open>None\<close> is an error.\<close>

definition decodeTokenScope :: "string list option \<Rightarrow> string list option option" where
  "decodeTokenScope column =
     (case column of
        None \<Rightarrow> Some None
      | Some keys \<Rightarrow> if validateScopeKeys keys then Some (Some keys) else None)"

definition findToken :: "string \<Rightarrow> db \<Rightarrow> api_token_row option" where
  "findToken publicID d = find (\<lambda>t. tk_public_id t = publicID) (api_tokens d)"

text \<open>A grant of the environment with this key; \<^verbatim>\<open>active\<close> leaves archived ones out.\<close>

definition environmentGranted :: "bool \<Rightarrow> bytes \<Rightarrow> string \<Rightarrow> db \<Rightarrow> bool" where
  "environmentGranted active tokenID k d =
     existsRow (\<lambda>g. te_token g = tokenID \<and>
       existsRow (\<lambda>e. env_id e = te_env g \<and> env_key e = k \<and> (active \<longrightarrow> env_archived e = None))
         (environments d)) (token_environments d)"

definition authorizeScopedWrite :: "actor \<Rightarrow> string \<Rightarrow> string \<Rightarrow> string \<Rightarrow> Token tx" where
  "authorizeScopedWrite act environment config namespace =
     (if actorType act \<noteq> ''token'' then tx_return zeroToken
      else
        tx_bind (tx_query (\<lambda>d. map_option (\<lambda>t. (t, environmentGranted True (tk_id t) environment d))
                    (findToken (actorID act) d))) (\<lambda>found.
        tx_bind (tx_env now) (\<lambda>at.
          case found of
            None \<Rightarrow> tx_fail ErrUnauthorized
          | Some (row, granted) \<Rightarrow>
              if tk_kind row \<noteq> TokenWriteScoped then tx_fail ErrForbidden
              else
                (case tk_expires row of
                   None \<Rightarrow> tx_fail ErrUnauthorized
                 | Some expires \<Rightarrow>
                     if tk_revoked row \<noteq> None \<or> \<not> at < expires then tx_fail ErrUnauthorized
                     else
                       (case (decodeTokenScope (tk_configs row), decodeTokenScope (tk_namespaces row)) of
                          (Some cs, Some ns) \<Rightarrow>
                            let token = zeroToken\<lparr> tok_public := tk_public_id row, tok_kind := tk_kind row,
                                  tok_expires := expires, tok_granted := granted,
                                  tok_configs := cs, tok_namespaces := ns \<rparr>
                            in
                              if \<not> granted \<or> (config \<noteq> [] \<and> \<not> AllowsConfig token config) \<or>
                                 (namespace \<noteq> [] \<and> \<not> AllowsNamespace token namespace)
                              then tx_fail ErrForbidden
                              else tx_return token
                        | _ \<Rightarrow> tx_fail ErrInternal)))))"

text \<open>What a token that passes the check is: of the actor, live, granted and in scope.\<close>

definition authorized :: "env \<Rightarrow> actor \<Rightarrow> string \<Rightarrow> string \<Rightarrow> string \<Rightarrow> db \<Rightarrow> Token \<Rightarrow> bool" where
  "authorized env act environment config namespace d token =
     (actorType act = ''token'' \<longrightarrow>
       (\<exists>row expires. findToken (actorID act) d = Some row \<and> tk_kind row = TokenWriteScoped \<and>
          tk_revoked row = None \<and> tk_expires row = Some expires \<and> now env < expires \<and>
          environmentGranted True (tk_id row) environment d \<and>
          tok_public token = actorID act \<and> tok_expires token = expires \<and>
          tok_configs token = tk_configs row \<and> tok_namespaces token = tk_namespaces row \<and>
          (config = [] \<or> AllowsConfig token config) \<and> (namespace = [] \<or> AllowsNamespace token namespace)))"

lemma decodeTokenScope_Some: "decodeTokenScope c = Some x \<Longrightarrow> x = c"
  by (auto simp: decodeTokenScope_def split: option.splits if_splits)

lemma authorizeScopedWrite_Inr:
  assumes "authorizeScopedWrite act e c n env s = (Inr token, s')"
  shows "authorized env act e c n (work s) token \<and> work s' = work s \<and> durable s' = durable s"
  using assms
  by (auto simp: authorizeScopedWrite_def authorized_def tx_Inr Let_def findToken_def
      split: if_splits option.splits dest: decodeTokenScope_Some dest!: find_SomeD)

lemma quiet_authorize [quiet_intros]: "quiet (authorizeScopedWrite act e c n)"
  unfolding authorizeScopedWrite_def Let_def by (intro quiet_intros)

lemma steady_authorize [steady_intros]: "steady (authorizeScopedWrite act e c n)"
  unfolding authorizeScopedWrite_def Let_def by (intro steady_intros) simp

lemma preserves_authorize [preserves_intros]: "preserves P (authorizeScopedWrite act e c n)"
  unfolding authorizeScopedWrite_def Let_def by (intro preserves_intros)

lemma authorize_other: "actorType act \<noteq> ''token'' \<Longrightarrow> authorizeScopedWrite act e c n = tx_return zeroToken"
  by (simp add: authorizeScopedWrite_def)

text \<open>With no failure the check is a function of the tables and the clock.\<close>

definition authorizesWrite :: "env \<Rightarrow> actor \<Rightarrow> string \<Rightarrow> string \<Rightarrow> string \<Rightarrow> db \<Rightarrow> err + Token" where
  "authorizesWrite env act e c n d =
     fst (authorizeScopedWrite act e c n (nofault env) \<lparr> work = d, durable = d, tick = 0 \<rparr>)"

lemma authorizeScopedWrite_quietly:
  assumes "\<forall>n. \<not> fault env n"
  shows "\<exists>s'. authorizeScopedWrite act e c n env s = (authorizesWrite env act e c n (work s), s') \<and>
           work s' = work s \<and> durable s' = durable s"
  using assms
  by (auto simp: authorizesWrite_def authorizeScopedWrite_def tx_bind_def tx_query_def tx_env_def
      tx_fail_def tx_return_def Let_def split: option.splits)

end
