(* ===== verification/Configs.thy ===== *)
theory Configs
  imports Environments TokenScope YamlDoc
begin

text \<open>
  Configs (\<^verbatim>\<open>config_mutation.go\<close>, \<^verbatim>\<open>config_failure.go\<close>,
  \<^verbatim>\<open>config_validation.go\<close>): the commit of a document as the next revision of a Config in
  an environment, guarded by the revision the caller expects, and the check of a document
  without committing it.
\<close>

section \<open>Requests and results\<close>

record ConfigCommit =
  cc_operation :: string
  cc_actor :: actor
  cc_environment :: string
  cc_config :: string
  cc_name :: string
  cc_expected :: u64
  cc_format :: string
  cc_content :: bytes

record ConfigWarning =
  cw_code :: string
  cw_namespace :: string
  cw_item :: string
  cw_field :: string

record ConfigCommitResult =
  cm_outcome :: Outcome
  cm_revision :: u64
  cm_warnings :: "ConfigWarning list"
  cm_failure :: "(string \<times> string) option"

record configCommitMeta =
  mt_action :: string
  mt_success :: string
  mt_source_config :: bytes
  mt_source_env :: bytes
  mt_source_revision :: u64
  mt_digest :: "bytes option"
  mt_legacy :: "bytes option"
  mt_create_only :: bool

definition configEvent :: "configCommitMeta \<Rightarrow> string \<Rightarrow> string" where
  "configEvent meta suffix = ''config.'' @ mt_action meta @ ''.'' @ suffix"

section \<open>Their JSON forms\<close>

text \<open>\<^verbatim>\<open>encoding/json\<close> writes byte slices in padded standard base64, nil as null.\<close>

definition standardBase64 :: "bytes \<Rightarrow> string" where
  "standardBase64 b =
     (let s = map (\<lambda>c. if c = CHR ''-'' then CHR ''+'' else if c = CHR ''_'' then CHR ''/'' else c)
                (encodeBase64 b)
      in s @ replicate ((4 - length s mod 4) mod 4) CHR ''='')"

definition bytesJSON :: "bytes \<Rightarrow> json" where
  "bytesJSON b = (if b = [] then JNull else JStr (standardBase64 b))"

definition configCommitJSON :: "ConfigCommit \<Rightarrow> json" where
  "configCommitJSON r =
     JObj [(''OperationID'', JStr (cc_operation r)), (''Actor'', actorJSON (cc_actor r)),
           (''EnvironmentKey'', JStr (cc_environment r)), (''ConfigKey'', JStr (cc_config r)),
           (''ConfigName'', JStr (cc_name r)), (''ExpectedRevision'', JNum (FormatUint (cc_expected r))),
           (''Format'', JStr (cc_format r)), (''Content'', bytesJSON (cc_content r))]"

definition configCommitDigest :: "env \<Rightarrow> ConfigCommit \<Rightarrow> configCommitMeta \<Rightarrow> bytes" where
  "configCommitDigest env r meta =
     sha256 env (compactJSON (JObj
       [(''Request'', configCommitJSON r), (''Action'', JStr (mt_action meta)),
        (''SourceConfigID'', bytesJSON (mt_source_config meta)),
        (''SourceEnvironmentID'', bytesJSON (mt_source_env meta)),
        (''SourceRevision'', JNum (FormatUint (mt_source_revision meta))),
        (''CreateOnly'', JBool (mt_create_only meta))]))"

definition warningJSON :: "ConfigWarning \<Rightarrow> json" where
  "warningJSON w =
     JObj [(''code'', JStr (jsonText (cw_code w))), (''namespace_key'', JStr (jsonText (cw_namespace w))),
           (''item_key'', JStr (jsonText (cw_item w))), (''field_key'', JStr (jsonText (cw_field w)))]"

definition configResultJSON :: "ConfigCommitResult \<Rightarrow> json" where
  "configResultJSON r =
     JObj ([(''outcome'', JStr (outcomeText (cm_outcome r)))] @
           omitEmpty (cm_revision r = 0) ''revision'' (JNum (FormatUint (cm_revision r))) @
           omitEmpty (cm_warnings r = []) ''warnings'' (JArr (map warningJSON (cm_warnings r))) @
           (case cm_failure r of
              None \<Rightarrow> []
            | Some (f, why) \<Rightarrow> [(''failure'', JObj [(''field'', JStr f), (''reason'', JStr why)])]))"

definition warningOf :: "json \<Rightarrow> ConfigWarning option" where
  "warningOf v =
     (case (isObject v, asString (member ''code'' v), asString (member ''namespace_key'' v),
            asString (member ''item_key'' v), asString (member ''field_key'' v)) of
        (True, Some c, Some n, Some i, Some f) \<Rightarrow>
          Some \<lparr> cw_code = c, cw_namespace = n, cw_item = i, cw_field = f \<rparr>
      | _ \<Rightarrow> None)"

fun warningItems :: "json list \<Rightarrow> ConfigWarning list option" where
  "warningItems [] = Some []"
| "warningItems (v # vs) =
     (case warningOf v of None \<Rightarrow> None | Some w \<Rightarrow> map_option (\<lambda>ws. w # ws) (warningItems vs))"

definition warningsOf :: "json \<Rightarrow> ConfigWarning list option" where
  "warningsOf v = (case v of JArr vs \<Rightarrow> warningItems vs | JNull \<Rightarrow> Some [] | _ \<Rightarrow> None)"

definition failureOf :: "json \<Rightarrow> (string \<times> string) option option" where
  "failureOf v =
     (case v of
        JNull \<Rightarrow> Some None
      | JObj _ \<Rightarrow>
          (case (asString (member ''field'' v), asString (member ''reason'' v)) of
             (Some f, Some why) \<Rightarrow> Some (Some (f, why))
           | _ \<Rightarrow> None)
      | _ \<Rightarrow> None)"

definition configResultOf :: "json \<Rightarrow> ConfigCommitResult option" where
  "configResultOf v =
     (case (isObject v, outcomeOf (member ''outcome'' v), asUint64 (member ''revision'' v),
            warningsOf (member ''warnings'' v), failureOf (member ''failure'' v)) of
        (True, Some out, Some n, Some ws, Some f) \<Rightarrow>
          Some \<lparr> cm_outcome = out, cm_revision = n, cm_warnings = ws, cm_failure = f \<rparr>
      | _ \<Rightarrow> None)"

definition replayConfigResult :: "operationReplay \<Rightarrow> err + ConfigCommitResult \<times> err option" where
  "replayConfigResult rp =
     (case configResultOf (replayResponse rp) of
        None \<Rightarrow> Inl ErrInternal
      | Some previous \<Rightarrow>
          if cm_outcome previous \<noteq> replayOutcome rp then Inl ErrInternal
          else
            (case cm_failure previous of
               Some (f, why) \<Rightarrow> Inr (previous, withCommittedAudit (Some (ConfigMutationError f why)))
             | None \<Rightarrow> Inr (previous, outcomeError (cm_outcome previous))))"

section \<open>Checks before the transaction\<close>

definition validateConfigCommit :: "ConfigCommit \<Rightarrow> (string \<times> string) option" where
  "validateConfigCommit r =
     (if \<not> validResourceKey (cc_environment r) then Some (''target_environment'', ''target_environment_invalid'')
      else if \<not> validResourceKey (cc_config r) then Some (''target_config'', ''target_config_invalid'')
      else if cc_name r = [] \<or> length (cc_name r) > 255 then Some (''name'', ''config_name_invalid'')
      else None)"

definition validScopedActor :: "actor \<Rightarrow> bool" where
  "validScopedActor act =
     (validActor act \<or> (actorType act = ''token'' \<and> validTokenPublicID (actorID act)))"

definition configDocument :: "yaml_codec \<Rightarrow> ConfigCommit \<Rightarrow> (string \<times> string) + Document" where
  "configDocument codec r =
     (case validateConfigCommit r of
        Some issue \<Rightarrow> Inl issue
      | None \<Rightarrow>
          (case Canonicalize codec (cc_format r) (cc_content r) of
             Inl _ \<Rightarrow> Inl (''content'', ''config_document_invalid'')
           | Inr doc \<Rightarrow> Inr doc))"

definition documentReferences :: "(string \<times> string) + Document \<Rightarrow> reference list" where
  "documentReferences document = (case document of Inl _ \<Rightarrow> [] | Inr doc \<Rightarrow> References doc)"

section \<open>Statements\<close>

definition activeEnvironment :: "string \<Rightarrow> db \<Rightarrow> bytes option" where
  "activeEnvironment k d =
     map_option env_id (find (\<lambda>e. env_key e = k \<and> env_archived e = None) (environments d))"

definition findConfig :: "string \<Rightarrow> db \<Rightarrow> (bytes \<times> bool) option" where
  "findConfig k d =
     map_option (\<lambda>c. (cfg_id c, cfg_archived c \<noteq> None)) (find (\<lambda>c. cfg_key c = k) (configs d))"

definition insertConfig :: "bytes \<Rightarrow> string \<Rightarrow> string \<Rightarrow> db \<Rightarrow> db option" where
  "insertConfig i k n d =
     (if existsRow (\<lambda>c. cfg_id c = i \<or> cfg_key c = k) (configs d) then None
      else Some (d\<lparr> configs := configs d @
             [\<lparr> cfg_id = i, cfg_key = k, cfg_name = n, cfg_archived = None \<rparr>] \<rparr>))"

definition currentRevision :: "bytes \<Rightarrow> bytes \<Rightarrow> db \<Rightarrow> u64 option" where
  "currentRevision c e d =
     map_option st_revision (find (\<lambda>s. st_config s = c \<and> st_env s = e) (config_states d))"

definition findRevision :: "bytes \<Rightarrow> bytes \<Rightarrow> u64 \<Rightarrow> db \<Rightarrow> config_revision_row option" where
  "findRevision c e n d =
     find (\<lambda>r. cr_config r = c \<and> cr_env r = e \<and> cr_revision r = n) (config_revisions d)"

text \<open>The table's checks: a positive revision, a known format and at most 5 MiB of content.\<close>

definition insertRevision :: "config_revision_row \<Rightarrow> db \<Rightarrow> db option" where
  "insertRevision r d =
     (if findRevision (cr_config r) (cr_env r) (cr_revision r) d \<noteq> None \<or> cr_revision r = 0 \<or>
         cr_format r \<notin> {YAML, JSON} \<or> int (length (cr_content r)) > maxConfigBytes
      then None
      else Some (d\<lparr> config_revisions := config_revisions d @ [r] \<rparr>))"

definition insertReference :: "config_ref_row \<Rightarrow> db \<Rightarrow> db option" where
  "insertReference r d =
     (if r \<in> set (config_refs d) then None else Some (d\<lparr> config_refs := config_refs d @ [r] \<rparr>))"

definition advanceState :: "bytes \<Rightarrow> bytes \<Rightarrow> u64 \<Rightarrow> db \<Rightarrow> db option" where
  "advanceState c e n d =
     (if n = 0 then None
      else if currentRevision c e d = None then
        Some (d\<lparr> config_states := config_states d @ [\<lparr> st_config = c, st_env = e, st_revision = n \<rparr>] \<rparr>)
      else
        Some (d\<lparr> config_states := updateWhere (\<lambda>s. st_config s = c \<and> st_env s = e)
                   (\<lambda>s. s\<lparr> st_revision := n \<rparr>) (config_states d) \<rparr>))"

definition lockCurrentConfig :: "bytes \<Rightarrow> bytes \<Rightarrow> (u64 \<times> bytes \<times> string) tx" where
  "lockCurrentConfig c e =
     tx_bind (tx_query (currentRevision c e)) (\<lambda>current.
       case current of
         None \<Rightarrow> tx_return (0, [], [])
       | Some n \<Rightarrow>
           tx_bind (tx_query (findRevision c e n)) (\<lambda>row.
             case row of
               None \<Rightarrow> tx_fail ErrInternal
             | Some r \<Rightarrow> tx_return (n, cr_content r, cr_format r)))"

section \<open>Warnings about references\<close>

definition warning :: "string \<Rightarrow> reference \<Rightarrow> ConfigWarning" where
  "warning code ref =
     (case ref of Reference n i f \<Rightarrow> \<lparr> cw_code = code, cw_namespace = n, cw_item = i, cw_field = f \<rparr>)"

definition activeItem :: "string \<Rightarrow> string \<Rightarrow> db \<Rightarrow> (bytes \<times> u64) option" where
  "activeItem n i d =
     map_option (\<lambda>v. (vi_id v, vi_revision v))
       (find (\<lambda>v. vi_namespace v = n \<and> vi_key v = i \<and> vi_archived v = None) (vault_items d))"

definition hasField :: "bytes \<Rightarrow> u64 \<Rightarrow> string \<Rightarrow> db \<Rightarrow> bool" where
  "hasField i n f d =
     existsRow (\<lambda>v. vf_item v = i \<and> vf_revision v = n \<and> vf_key v = f \<and> \<not> vf_archived v) (vault_fields d)"

definition hasBinding :: "bytes \<Rightarrow> u64 \<Rightarrow> bytes \<Rightarrow> db \<Rightarrow> bool" where
  "hasBinding i n e d =
     existsRow (\<lambda>b. vb_item b = i \<and> vb_revision b = n \<and> vb_env b = e) (vault_bindings d)"

definition referenceWarning :: "bytes \<Rightarrow> reference \<Rightarrow> ConfigWarning list tx" where
  "referenceWarning e ref =
     (case ref of Reference n i f \<Rightarrow>
        tx_bind (tx_query (activeItem n i)) (\<lambda>item.
          case item of
            None \<Rightarrow> tx_return [warning ''missing_vault_item'' ref]
          | Some (itemID, revision) \<Rightarrow>
              tx_bind (tx_query (hasField itemID revision f)) (\<lambda>fieldExists.
                if \<not> fieldExists then tx_return [warning ''missing_vault_field'' ref]
                else
                  tx_bind (tx_query (hasBinding itemID revision e)) (\<lambda>variantExists.
                    if \<not> variantExists then tx_return [warning ''missing_vault_environment_variant'' ref]
                    else tx_return []))))"

definition configWarnings :: "bytes \<Rightarrow> reference list \<Rightarrow> ConfigWarning list tx" where
  "configWarnings e refs = tx_collect (referenceWarning e) refs"

section \<open>The commit\<close>

definition finishConfigOperation ::
  "ConfigCommit \<Rightarrow> configCommitMeta \<Rightarrow> ConfigCommitResult \<Rightarrow> string \<Rightarrow> bool \<Rightarrow> unit tx" where
  "finishConfigOperation r meta res eventType notify =
     finishOperation (cc_operation r) (cc_actor r) (cm_outcome res) (cm_revision res) (configResultJSON res)
       \<lparr> me_field = [], me_type = eventType, me_action = ''config.'' @ mt_action meta,
         me_environment = cc_environment r, me_namespace = [], me_resource_type = ''config'',
         me_resource_key = cc_config r \<rparr> notify"

definition finishConfigFailure ::
  "ConfigCommit \<Rightarrow> configCommitMeta \<Rightarrow> Outcome \<Rightarrow> string \<Rightarrow> string \<times> string \<Rightarrow>
   (ConfigCommitResult \<times> err option) tx" where
  "finishConfigFailure r meta out eventType issue =
     (let res = \<lparr> cm_outcome = out, cm_revision = 0, cm_warnings = [], cm_failure = Some issue \<rparr> in
      tx_bind (finishConfigOperation r meta res eventType False) (\<lambda>_.
        commitWith res (withCommittedAudit (Some (ConfigMutationError (fst issue) (snd issue))))))"

definition nullableBytes :: "bytes \<Rightarrow> bytes option" where
  "nullableBytes b = (if b = [] then None else Some b)"

definition nullableRevision :: "u64 \<Rightarrow> u64 option" where
  "nullableRevision n = (if n = 0 then None else Some n)"

definition storeRevision ::
  "ConfigCommit \<Rightarrow> configCommitMeta \<Rightarrow> Document \<Rightarrow> bytes \<Rightarrow> bytes \<Rightarrow> u64 \<Rightarrow> unit tx" where
  "storeRevision r meta doc c e n =
     tx_bind (tx_env (\<lambda>env. sha256 env (Content doc))) (\<lambda>contentDigest.
     tx_bind (tx_exec (insertRevision
        \<lparr> cr_config = c, cr_env = e, cr_revision = n, cr_format = cc_format r, cr_content = Content doc,
          cr_sha256 = contentDigest, cr_operation = cc_operation r, cr_actor = cc_actor r,
          cr_source_config = nullableBytes (mt_source_config meta),
          cr_source_env = nullableBytes (mt_source_env meta),
          cr_source_revision = nullableRevision (mt_source_revision meta) \<rparr>)) (\<lambda>_.
     tx_bind (tx_each (\<lambda>ref. tx_exec (insertReference
        \<lparr> rf_config = c, rf_env = e, rf_revision = n, rf_reference = ref \<rparr>)) (References doc)) (\<lambda>_.
     tx_exec (advanceState c e n))))"

text \<open>Nothing to do, or the next revision.\<close>

definition commitNext ::
  "ConfigCommit \<Rightarrow> configCommitMeta \<Rightarrow> Document \<Rightarrow> bytes \<Rightarrow> bytes \<Rightarrow> u64 \<Rightarrow> bytes \<Rightarrow> string \<Rightarrow>
   ConfigWarning list \<Rightarrow> (ConfigCommitResult \<times> err option) tx" where
  "commitNext r meta doc c e current content format warnings =
     (if current > 0 \<and> format = cc_format r \<and> content = Content doc then
        (let res = \<lparr> cm_outcome = OutcomeNoChange, cm_revision = current, cm_warnings = warnings,
                     cm_failure = None \<rparr> in
         tx_bind (finishConfigOperation r meta res (configEvent meta ''no_change'') False) (\<lambda>_.
           commitWith res None))
      else
        (let n = current + 1;
             res = \<lparr> cm_outcome = OutcomeSuccess, cm_revision = n, cm_warnings = warnings,
                     cm_failure = None \<rparr>;
             eventType =
               (if mt_success meta \<noteq> [] then mt_success meta
                else if current = 0 then ''config.created'' else ''config.updated'')
         in
         tx_bind (storeRevision r meta doc c e n) (\<lambda>_.
         tx_bind (finishConfigOperation r meta res eventType True) (\<lambda>_.
           commitWith res None))))"

text \<open>From the lock of the current revision on.\<close>

definition commitCurrent ::
  "ConfigCommit \<Rightarrow> configCommitMeta \<Rightarrow> Document \<Rightarrow> bytes \<Rightarrow> bytes \<Rightarrow> (ConfigCommitResult \<times> err option) tx" where
  "commitCurrent r meta doc c e =
     tx_bind (lockCurrentConfig c e) (\<lambda>(current, content, format).
       if cc_expected r \<noteq> current then
         finishConfigFailure r meta OutcomeConflict (configEvent meta ''conflict'')
           (''expected_target_revision'',
            if cc_expected r = 0 then ''target_config_exists'' else ''target_revision_changed'')
       else
         tx_bind (configWarnings e (References doc))
           (commitNext r meta doc c e current content format))"

text \<open>The Config that was found, or the one the first commit creates.\<close>

definition commitFound ::
  "ConfigCommit \<Rightarrow> configCommitMeta \<Rightarrow> Document \<Rightarrow> bytes \<Rightarrow> (bytes \<times> bool) option \<Rightarrow>
   (ConfigCommitResult \<times> err option) tx" where
  "commitFound r meta doc e existing =
     (if existing \<noteq> None \<and> mt_create_only meta then
        finishConfigFailure r meta OutcomeConflict (configEvent meta ''conflict'')
          (''target_config'', ''clone_target_exists'')
      else
        (case existing of
           Some (c, archived) \<Rightarrow>
             if archived then
               finishConfigFailure r meta OutcomeValidationFailed
                 (configEvent meta ''validation_failed'') (''target_config'', ''config_archived'')
             else commitCurrent r meta doc c e
         | None \<Rightarrow>
             if cc_expected r \<noteq> 0 then
               finishConfigFailure r meta OutcomeConflict (configEvent meta ''conflict'')
                 (''expected_target_revision'', ''target_revision_changed'')
             else
               tx_bind randomID (\<lambda>c.
               tx_bind (tx_exec (insertConfig c (cc_config r) (cc_name r))) (\<lambda>_.
               commitCurrent r meta doc c e))))"

definition commitBody ::
  "ConfigCommit \<Rightarrow> configCommitMeta \<Rightarrow> (string \<times> string) + Document \<Rightarrow>
   (ConfigCommitResult \<times> err option) tx" where
  "commitBody r meta document =
     (case document of
        Inl issue \<Rightarrow>
          finishConfigFailure r meta OutcomeValidationFailed (configEvent meta ''validation_failed'') issue
      | Inr doc \<Rightarrow>
          tx_bind (tx_query (activeEnvironment (cc_environment r))) (\<lambda>environment.
            case environment of
              None \<Rightarrow> finishConfigFailure r meta OutcomeValidationFailed (configEvent meta ''validation_failed'')
                       (''target_environment'', ''target_environment_unavailable'')
            | Some e \<Rightarrow>
                tx_bind (tx_query (findConfig (cc_config r))) (commitFound r meta doc e)))"

definition requestDigest :: "env \<Rightarrow> ConfigCommit \<Rightarrow> configCommitMeta \<Rightarrow> bytes" where
  "requestDigest env r meta =
     (case mt_digest meta of Some dg \<Rightarrow> dg | None \<Rightarrow> configCommitDigest env r meta)"

definition commitConfig ::
  "yaml_codec \<Rightarrow> ConfigCommit \<Rightarrow> configCommitMeta \<Rightarrow> env \<Rightarrow> db \<Rightarrow>
   (err + ConfigCommitResult \<times> err option) \<times> db" where
  "commitConfig codec r meta env d =
     (if \<not> validOperationID (cc_operation r) \<or> \<not> validScopedActor (cc_actor r) then (Inl ErrValidation, d)
      else
        (let digest = requestDigest env r meta;
             document = configDocument codec r;
             references = documentReferences document
         in
           run_tx
             (tx_bind (authorizeScopedWrite (cc_actor r) (cc_environment r) (cc_config r) []) (\<lambda>token.
                if actorType (cc_actor r) = ''token'' \<and>
                   (mt_action meta \<noteq> ''commit'' \<or>
                    list_ex (\<lambda>ref. \<not> AllowsNamespace token (NamespaceKey ref)) references)
                then tx_fail ErrForbidden
                else
                  journaled (cc_operation r) digest (cc_actor r)
                    (case mt_legacy meta of None \<Rightarrow> [] | Some legacy \<Rightarrow> [legacy])
                    replayConfigResult (commitBody r meta document))) env d))"

definition commitMeta :: configCommitMeta where
  "commitMeta =
     \<lparr> mt_action = ''commit'', mt_success = [], mt_source_config = [], mt_source_env = [],
       mt_source_revision = 0, mt_digest = None, mt_legacy = None, mt_create_only = False \<rparr>"

definition CommitConfig ::
  "yaml_codec \<Rightarrow> ConfigCommit \<Rightarrow> env \<Rightarrow> db \<Rightarrow> (err + ConfigCommitResult \<times> err option) \<times> db" where
  "CommitConfig codec r = commitConfig codec r commitMeta"

section \<open>Checking a document\<close>

record ConfigValidationResult =
  cv_format :: string
  cv_content :: bytes
  cv_warnings :: "ConfigWarning list"

definition ValidateConfig ::
  "yaml_codec \<Rightarrow> string \<Rightarrow> string \<Rightarrow> bytes \<Rightarrow> env \<Rightarrow> db \<Rightarrow> (err + ConfigValidationResult) \<times> db" where
  "ValidateConfig codec environment format content env d =
     (if \<not> validResourceKey environment
      then (Inl (ConfigMutationError ''target_environment'' ''target_environment_invalid''), d)
      else
        (case Canonicalize codec format content of
           Inl _ \<Rightarrow> (Inl (ConfigMutationError ''content'' ''config_document_invalid''), d)
         | Inr doc \<Rightarrow>
             run_tx
               (tx_bind (tx_query (activeEnvironment environment)) (\<lambda>found.
                  case found of
                    None \<Rightarrow> tx_fail (ConfigMutationError ''target_environment'' ''target_environment_unavailable'')
                  | Some e \<Rightarrow>
                      tx_bind (configWarnings e (References doc)) (\<lambda>warnings.
                        tx_return \<lparr> cv_format = format, cv_content = Content doc, cv_warnings = warnings \<rparr>)))
               env d))"

end
