(* ===== verification/ConfigLaws.thy ===== *)
theory ConfigLaws
  imports Configs
begin

text \<open>
  What the commit of a Config guarantees: the contract of mutations, all-or-nothing effect,
  compare-and-set on the expected revision, and a history without gaps that is only appended to.
\<close>

section \<open>References of a canonical document\<close>

lemma findInText_valid:
  "findInText s rs = Inr rs' \<Longrightarrow> list_all validReference rs \<Longrightarrow> distinct rs \<Longrightarrow>
   list_all validReference rs' \<and> distinct rs'"
  using parse_plain_iff
  by (auto simp: findInText_def recordReference_def list_all_iff split: sum.splits if_splits prod.splits)

lemma findJSONReferences_valid:
  "findJSONReferences v rs = Inr rs' \<Longrightarrow> list_all validReference rs \<and> distinct rs \<Longrightarrow>
   list_all validReference rs' \<and> distinct rs'"
  "findItems vs rs = Inr rs' \<Longrightarrow> list_all validReference rs \<and> distinct rs \<Longrightarrow>
   list_all validReference rs' \<and> distinct rs'"
  "findEntries es rs = Inr rs' \<Longrightarrow> list_all validReference rs \<and> distinct rs \<Longrightarrow>
   list_all validReference rs' \<and> distinct rs'"
proof (induction v rs and vs rs and es rs arbitrary: rs' and rs' and rs'
    rule: findJSONReferences_findItems_findEntries.induct)
qed (auto dest: findInText_valid split: sum.splits)

lemma validateYAMLNode_valid:
  "validateYAMLNode fuel h p rs vis = Inr (rs', vis') \<Longrightarrow> list_all validReference rs \<and> distinct rs \<Longrightarrow>
   list_all validReference rs' \<and> distinct rs'"
  "validateContent fuel h cs rs vis = Inr (rs', vis') \<Longrightarrow> list_all validReference rs \<and> distinct rs \<Longrightarrow>
   list_all validReference rs' \<and> distinct rs'"
  "validateMapping fuel h cs keys rs vis = Inr (rs', vis') \<Longrightarrow> list_all validReference rs \<and> distinct rs \<Longrightarrow>
   list_all validReference rs' \<and> distinct rs'"
proof (induction fuel h p rs vis and fuel h cs rs vis and fuel h cs keys rs vis
    arbitrary: rs' vis' and rs' vis' and rs' vis'
    rule: validateYAMLNode_validateContent_validateMapping.induct)
  case (2 fuel heap p references visits)
  then show ?case
    by (auto simp: Let_def fun_upd_def dest: findInText_valid
        split: if_splits option.splits yamlVisitState.splits ynode_kind.splits sum.splits)
qed (auto split: if_splits sum.splits)

lemma sortedReferences_set [simp]: "set (sortedReferences rs) = set rs"
  by (simp add: sortedReferences_def)

lemma Canonicalize_references:
  assumes "Canonicalize codec format source = Inr doc"
  shows "list_all validReference (References doc) \<and> distinct (References doc)"
  using assms
  by (auto simp: Canonicalize_def canonicalizeYAML_def canonicalizeJSON_def parseYAML_def
      sortedReferences_def list_all_iff simp del: validateYAMLNode.simps
      split: if_splits sum.splits option.splits prod.splits ytrailer.splits
      dest!: findJSONReferences_valid(1) validateYAMLNode_valid(1))

lemma keyChar_ascii: "keyChar c \<or> lowerChar c \<Longrightarrow> byteIn 0 0x7F c"
  by (auto simp: keyChar_def inRange_def byteIn_def less_eq_char_def)

lemma utf8_key: "validResourceKey k \<Longrightarrow> utf8 k"
  by (rule utf8_plain)
    (auto simp: validResourceKey_def list_all_iff keyChar_ascii split: list.splits)

section \<open>The stored result\<close>

definition utf8Warning :: "ConfigWarning \<Rightarrow> bool" where
  "utf8Warning w = (utf8 (cw_code w) \<and> utf8 (cw_namespace w) \<and> utf8 (cw_item w) \<and> utf8 (cw_field w))"

lemma warningOf_warningJSON: "utf8Warning w \<Longrightarrow> warningOf (warningJSON w) = Some w"
  by (simp add: warningOf_def warningJSON_def isObject_def member_def utf8Warning_def)

lemma warningItems_map: "list_all utf8Warning ws \<Longrightarrow> warningItems (map warningJSON ws) = Some ws"
  by (induction ws) (auto simp: warningOf_warningJSON)

lemma configResultOf_JSON:
  assumes "list_all utf8Warning (cm_warnings res)"
  shows "configResultOf (configResultJSON res) = Some res"
  using assms
  by (cases "cm_failure res")
    (auto simp: configResultOf_def configResultJSON_def isObject_def member_def omitEmpty_def
      warningsOf_def failureOf_def warningItems_map split: if_splits prod.splits)

lemma replayConfigResult_stored:
  assumes "list_all utf8Warning (cm_warnings res)"
  shows "replayConfigResult (OperationReplay (cm_outcome res) (configResultJSON res)) =
     Inr (res, (case cm_failure res of
                  Some (f, why) \<Rightarrow> withCommittedAudit (Some (ConfigMutationError f why))
                | None \<Rightarrow> outcomeError (cm_outcome res)))"
  using configResultOf_JSON [OF assms]
  by (auto simp: replayConfigResult_def split: option.splits)

text \<open>Warnings are about the document's references.\<close>

lemma utf8_warning:
  "code \<in> {''missing_vault_item'', ''missing_vault_field'', ''missing_vault_environment_variant''} \<Longrightarrow>
   validReference ref \<Longrightarrow> utf8Warning (warning code ref)"
  using utf8_plain [of "''missing_vault_item''"] utf8_plain [of "''missing_vault_field''"]
    utf8_plain [of "''missing_vault_environment_variant''"]
  by (cases ref) (auto simp: warning_def utf8Warning_def validReference_def utf8_key byteIn_def)

lemma referenceWarning_Inr:
  assumes "referenceWarning e ref env s = (Inr ws, s')" and "validReference ref"
  shows "list_all utf8Warning ws"
  using assms
  by (auto simp: referenceWarning_def tx_Inr utf8_warning split: reference.splits option.splits if_splits)

lemma configWarnings_Inr:
  "configWarnings e refs env s = (Inr ws, s') \<Longrightarrow> list_all validReference refs \<Longrightarrow> list_all utf8Warning ws"
  unfolding configWarnings_def
  by (induction refs arbitrary: s ws) (auto simp: tx_bind_Inr dest: referenceWarning_Inr)

lemma quiet_warnings [quiet_intros]: "quiet (configWarnings e refs)"
  unfolding configWarnings_def referenceWarning_def
  by (intro quiet_intros) (auto split: reference.splits intro!: quiet_intros)

lemma steady_warnings [steady_intros]: "steady (configWarnings e refs)"
  unfolding configWarnings_def referenceWarning_def
  by (intro steady_intros) (auto split: reference.splits intro!: steady_intros)

lemma preserves_warnings [preserves_intros]: "preserves P (configWarnings e refs)"
  unfolding configWarnings_def referenceWarning_def
  by (intro preserves_intros) (auto split: reference.splits intro!: preserves_intros)

section \<open>All or nothing\<close>

lemma atomic_configFailure [atomic_intros]: "atomic (finishConfigFailure r meta out t i)"
  unfolding finishConfigFailure_def finishConfigOperation_def Let_def
  by (intro atomic_intros quiet_intros steady_intros)

lemma steady_configFailure [steady_intros]: "steady (finishConfigFailure r meta out t i)"
  unfolding finishConfigFailure_def finishConfigOperation_def Let_def by (intro steady_intros)

lemma quiet_lock [quiet_intros]: "quiet (lockCurrentConfig c e)"
  unfolding lockCurrentConfig_def by (intro quiet_intros)

lemma steady_lock [steady_intros]: "steady (lockCurrentConfig c e)"
  unfolding lockCurrentConfig_def by (intro steady_intros)

lemma preserves_lock [preserves_intros]: "preserves P (lockCurrentConfig c e)"
  unfolding lockCurrentConfig_def by (intro preserves_intros)

lemma quiet_storeRevision [quiet_intros]: "quiet (storeRevision r meta doc c e n)"
  unfolding storeRevision_def by (intro quiet_intros)

lemma steady_storeRevision [steady_intros]: "steady (storeRevision r meta doc c e n)"
  unfolding storeRevision_def by (intro steady_intros) simp

lemma quiet_finishConfig [quiet_intros]: "quiet (finishConfigOperation r meta res t n)"
  unfolding finishConfigOperation_def by (rule quiet_finish)

lemma steady_finishConfig [steady_intros]: "steady (finishConfigOperation r meta res t n)"
  unfolding finishConfigOperation_def by (rule steady_finish)

lemma atomic_commitCurrent [atomic_intros]: "atomic (commitCurrent r meta doc c e)"
  unfolding commitCurrent_def commitNext_def Let_def by (intro atomic_intros quiet_intros steady_intros)

lemma steady_commitCurrent [steady_intros]: "steady (commitCurrent r meta doc c e)"
  unfolding commitCurrent_def commitNext_def Let_def by (intro steady_intros)

lemma atomic_commitBody [atomic_intros]: "atomic (commitBody r meta document)"
  unfolding commitBody_def commitFound_def randomID_def by (intro atomic_intros quiet_intros steady_intros)

lemma steady_commitBody [steady_intros]: "steady (commitBody r meta document)"
  unfolding commitBody_def commitFound_def randomID_def by (intro steady_intros)

lemma requestDigest_nofault [simp]: "requestDigest (nofault env) r meta = requestDigest env r meta"
  by (simp add: requestDigest_def configCommitDigest_def split: option.splits)

lemma commitConfig_atomic: "allOrNothing (commitConfig codec r meta)"
  unfolding commitConfig_def Let_def
  by (intro allOrNothing_guard allOrNothing_env atomic_intros steady_intros quiet_intros)
    (simp_all only: requestDigest_nofault)

section \<open>The contract of mutations\<close>

text \<open>A run that returns a value of a call is followed by what its values allow.\<close>

lemma finishes_value:
  assumes "preserves (pending oid dg) m" and "preserves good m"
    and "\<And>env s a s'. m env s = (Inr a, s') \<Longrightarrow> ok a" and "\<And>a. ok a \<Longrightarrow> finishes good oid dg dec (f a)"
  shows "finishes good oid dg dec (tx_bind m f)"
  using assms unfolding finishes_def tx_bind_Inr by (blast dest: preservesD)

lemma finishes_configFailure [finishes_intros]:
  "out = OutcomeConflict \<or> out = OutcomeValidationFailed \<Longrightarrow>
   finishes good (cc_operation r) dg replayConfigResult (finishConfigFailure r meta out t i)"
  unfolding finishConfigFailure_def finishConfigOperation_def Let_def
  using replayConfigResult_stored [of "\<lparr> cm_outcome = out, cm_revision = 0, cm_warnings = [], cm_failure = Some i \<rparr>"]
  by (intro finishes_commit) (auto split: prod.splits)

lemma finishes_configSuccess:
  assumes "list_all utf8Warning (cm_warnings res)" and "cm_failure res = None"
    and "cm_outcome res = OutcomeSuccess \<or> cm_outcome res = OutcomeNoChange"
  shows "finishes good (cc_operation r) dg replayConfigResult
           (tx_bind (finishConfigOperation r meta res t n) (\<lambda>_. commitWith res None))"
  unfolding finishConfigOperation_def
  using replayConfigResult_stored [OF assms(1)] assms(2,3)
  by (intro finishes_commit) (auto simp: outcomeError_def)

lemma operations_configCalls:
  "insertConfig i k n d = Some d' \<Longrightarrow> operations d' = operations d"
  "insertRevision row d = Some d' \<Longrightarrow> operations d' = operations d"
  "insertReference ref d = Some d' \<Longrightarrow> operations d' = operations d"
  "advanceState c e m d = Some d' \<Longrightarrow> operations d' = operations d"
  by (auto simp: insertConfig_def insertRevision_def insertReference_def advanceState_def split: if_splits)

lemma pending_storeRevision: "preserves (pending oid dg) (storeRevision r meta doc c e n)"
  unfolding storeRevision_def
  by (intro preserves_bind preserves_env preserves_each pending_exec) (auto dest: operations_configCalls)

lemma finishes_commitNext:
  assumes "list_all utf8Warning ws"
  shows "finishes (\<lambda>_. True) (cc_operation r) dg replayConfigResult
           (commitNext r meta doc c e current content format ws)"
  unfolding commitNext_def Let_def
  by (intro finishes_if finishes_configSuccess finishes_bind [OF pending_storeRevision])
    (use assms in \<open>auto simp: preserves_def\<close>)

lemma finishes_commitCurrent:
  assumes "list_all validReference (References doc)"
  shows "finishes (\<lambda>_. True) (cc_operation r) dg replayConfigResult (commitCurrent r meta doc c e)"
proof -
  have "finishes (\<lambda>_. True) (cc_operation r) dg replayConfigResult
      (tx_bind (configWarnings e (References doc)) (commitNext r meta doc c e current content format))"
    for current content format
    by (rule finishes_value [OF preserves_warnings preserves_warnings, where ok = "list_all utf8Warning"])
      (use assms in \<open>auto dest: configWarnings_Inr intro: finishes_commitNext\<close>)
  then show ?thesis unfolding commitCurrent_def
    by (intro finishes_bind [OF preserves_lock preserves_lock] finishes_prod finishes_if
        finishes_configFailure) simp_all
qed

lemma finishes_commitBody:
  assumes "\<And>doc. document = Inr doc \<Longrightarrow> list_all validReference (References doc)"
  shows "finishes (\<lambda>_. True) (cc_operation r) dg replayConfigResult (commitBody r meta document)"
proof (cases document)
  case (Inl issue)
  then show ?thesis by (auto simp: commitBody_def intro: finishes_configFailure)
next
  case (Inr doc)
  then show ?thesis unfolding commitBody_def commitFound_def randomID_def
    using assms [OF Inr]
    by (auto intro!: finishes_query finishes_option finishes_if finishes_configFailure finishes_prod
        finishes_commitCurrent finishes_bind preserves_random preserves_exec
        simp: pending_def opRow_def dest: operations_configCalls)
qed

lemma configDocument_references:
  "configDocument codec r = Inr doc \<Longrightarrow> list_all validReference (References doc)"
  using Canonicalize_references
  by (auto simp: configDocument_def split: option.splits sum.splits)

lemma commitMeta_simps [simp]: "mt_action commitMeta = ''commit''" "mt_legacy commitMeta = None"
  by (simp_all add: commitMeta_def)

text \<open>A commit gets to the journal when its actor may write the Config with those references.\<close>

definition configAdmits :: "yaml_codec \<times> ConfigCommit \<Rightarrow> env \<Rightarrow> db \<Rightarrow> bool" where
  "configAdmits req env d =
     (case req of (codec, r) \<Rightarrow>
        validOperationID (cc_operation r) \<and> validScopedActor (cc_actor r) \<and>
        (case authorizesWrite env (cc_actor r) (cc_environment r) (cc_config r) [] d of
           Inl _ \<Rightarrow> False
         | Inr token \<Rightarrow>
             actorType (cc_actor r) = ''token'' \<longrightarrow>
             list_all (\<lambda>ref. AllowsNamespace token (NamespaceKey ref))
               (documentReferences (configDocument codec r))))"

lemma commitConfig_cases:
  assumes "commitConfig codec r meta env d = (Inr out, d')"
  obtains token s s' where "authorized env (cc_actor r) (cc_environment r) (cc_config r) [] d token"
    "actorType (cc_actor r) = ''token'' \<Longrightarrow> mt_action meta = ''commit'' \<and>
       list_all (\<lambda>ref. AllowsNamespace token (NamespaceKey ref)) (documentReferences (configDocument codec r))"
    "work s = d" "durable s = d" "d' = durable s'"
    "journaled (cc_operation r) (requestDigest env r meta) (cc_actor r)
       (case mt_legacy meta of None \<Rightarrow> [] | Some legacy \<Rightarrow> [legacy])
       replayConfigResult (commitBody r meta (configDocument codec r)) env s = (Inr out, s')"
proof -
  let ?s0 = "\<lparr> work = d, durable = d, tick = 1 \<rparr>"
  obtain token s1 s' where a: "authorizeScopedWrite (cc_actor r) (cc_environment r) (cc_config r) [] env ?s0 = (Inr token, s1)"
    and rest: "(if actorType (cc_actor r) = ''token'' \<and>
        (mt_action meta \<noteq> ''commit'' \<or>
         list_ex (\<lambda>ref. \<not> AllowsNamespace token (NamespaceKey ref)) (documentReferences (configDocument codec r)))
      then tx_fail ErrForbidden
      else journaled (cc_operation r) (requestDigest env r meta) (cc_actor r)
        (case mt_legacy meta of None \<Rightarrow> [] | Some legacy \<Rightarrow> [legacy])
        replayConfigResult (commitBody r meta (configDocument codec r))) env s1 = (Inr out, s')"
    and d': "d' = durable s'"
    using assms
    by (auto simp: commitConfig_def run_tx_iff Let_def tx_bind_Inr split: if_splits)
  have "work s1 = d" "durable s1 = d" "authorized env (cc_actor r) (cc_environment r) (cc_config r) [] d token"
    using authorizeScopedWrite_Inr [OF a] by simp_all
  then show ?thesis using that [of token s1 s'] rest d'
    by (auto simp: list_ex_iff list_all_iff split: if_splits)
qed

lemma commitConfig_admitted:
  assumes "configAdmits (codec, r) env d" and "\<forall>n. \<not> fault env n"
  obtains s where "work s = d" "durable s = d"
    "CommitConfig codec r env d =
       (case journaled (cc_operation r) (requestDigest env r commitMeta) (cc_actor r) [] replayConfigResult
               (commitBody r commitMeta (configDocument codec r)) env s of (x, s') \<Rightarrow> (x, durable s'))"
proof -
  let ?s0 = "\<lparr> work = d, durable = d, tick = 1 \<rparr>"
  obtain token where t: "authorizesWrite env (cc_actor r) (cc_environment r) (cc_config r) [] d = Inr token"
    and ok: "actorType (cc_actor r) = ''token'' \<Longrightarrow>
      list_all (\<lambda>ref. AllowsNamespace token (NamespaceKey ref)) (documentReferences (configDocument codec r))"
    and v: "validOperationID (cc_operation r)" "validScopedActor (cc_actor r)"
    using assms(1) by (auto simp: configAdmits_def split: sum.splits)
  obtain s1 where a: "authorizeScopedWrite (cc_actor r) (cc_environment r) (cc_config r) [] env ?s0 = (Inr token, s1)"
    and s1: "work s1 = d" "durable s1 = d"
    using authorizeScopedWrite_quietly [OF assms(2), of "cc_actor r" "cc_environment r" "cc_config r" "[]" ?s0] t
    by auto
  let ?j = "journaled (cc_operation r) (requestDigest env r commitMeta) (cc_actor r) [] replayConfigResult
    (commitBody r commitMeta (configDocument codec r))"
  have n: "actorType (cc_actor r) = ''token'' \<Longrightarrow>
      \<not> list_ex (\<lambda>ref. \<not> AllowsNamespace token (NamespaceKey ref)) (documentReferences (configDocument codec r))"
    using ok by (auto simp: list_ex_iff list_all_iff)
  have "CommitConfig codec r env d = (case ?j env s1 of (x, s') \<Rightarrow> (x, durable s'))"
    using a v assms(2) n
    by (cases "actorType (cc_actor r) = ''token''")
      (simp_all add: CommitConfig_def commitConfig_def run_tx_def tx_bind_def Let_def)
  then show ?thesis by (rule that [OF s1])
qed

interpretation config_mutation: mutation "\<lambda>(codec, r). CommitConfig codec r" "\<lambda>(codec, r). cc_operation r"
  "\<lambda>env (codec, r). requestDigest env r commitMeta" replayConfigResult configAdmits "\<lambda>_ _. True"
proof
  fix req env d out d'
  assume run: "(case req of (codec, r) \<Rightarrow> CommitConfig codec r) env d = (Inr out, d')"
    and new: "opRow (case req of (codec, r) \<Rightarrow> cc_operation r) d = None"
  obtain codec r where req: "req = (codec, r)" by fastforce
  from run req have "commitConfig codec r commitMeta env d = (Inr out, d')" by (simp add: CommitConfig_def)
  then show "stored (case req of (codec, r) \<Rightarrow> cc_operation r)
      (case req of (codec, r) \<Rightarrow> requestDigest env r commitMeta) replayConfigResult out d'"
  proof (rule commitConfig_cases)
    fix s s'
    assume s: "work s = d" "d' = durable s'"
      "journaled (cc_operation r) (requestDigest env r commitMeta) (cc_actor r)
         (case mt_legacy commitMeta of None \<Rightarrow> [] | Some legacy \<Rightarrow> [legacy])
         replayConfigResult (commitBody r commitMeta (configDocument codec r)) env s = (Inr out, s')"
    show ?thesis
      using journaled_records_at [OF s(3) _ finishes_commitBody [OF configDocument_references]] new s(1,2) req
      by (simp add: onData_def)
  qed
next
  fix req d row env v
  assume h: "opRow (case req of (codec, r) \<Rightarrow> cc_operation r) d = Some row"
    "op_digest row = (case req of (codec, r) \<Rightarrow> requestDigest env r commitMeta)"
    "op_outcome row \<noteq> OutcomePending" "op_response row = Some v" "configAdmits req env d" "\<forall>n. \<not> fault env n"
  obtain codec r where req: "req = (codec, r)" by fastforce
  obtain s where s: "work s = d" "durable s = d"
    "CommitConfig codec r env d =
       (case journaled (cc_operation r) (requestDigest env r commitMeta) (cc_actor r) [] replayConfigResult
               (commitBody r commitMeta (configDocument codec r)) env s of (x, s') \<Rightarrow> (x, durable s'))"
    using commitConfig_admitted h(5,6) req by blast
  show "(case req of (codec, r) \<Rightarrow> CommitConfig codec r) env d =
      (replayConfigResult (OperationReplay (op_outcome row) v), d)"
    using journaled_replays_at [of "cc_operation r" s row "requestDigest env r commitMeta" v env "cc_actor r"
        "[]" replayConfigResult "commitBody r commitMeta (configDocument codec r)"] h s req by auto
next
  fix req d row env
  assume h: "opRow (case req of (codec, r) \<Rightarrow> cc_operation r) d = Some row"
    "op_digest row \<noteq> (case req of (codec, r) \<Rightarrow> requestDigest env r commitMeta)"
    "configAdmits req env d" "\<forall>n. \<not> fault env n"
  obtain codec r where req: "req = (codec, r)" by fastforce
  obtain s where s: "work s = d" "durable s = d"
    "CommitConfig codec r env d =
       (case journaled (cc_operation r) (requestDigest env r commitMeta) (cc_actor r) [] replayConfigResult
               (commitBody r commitMeta (configDocument codec r)) env s of (x, s') \<Rightarrow> (x, durable s'))"
    using commitConfig_admitted h(3,4) req by blast
  show "(case req of (codec, r) \<Rightarrow> CommitConfig codec r) env d = (Inl ErrOperationReuse, d)"
    using journaled_reuse_at [of "cc_operation r" s row "requestDigest env r commitMeta" "[]" env "cc_actor r"
        replayConfigResult "commitBody r commitMeta (configDocument codec r)"] h s req by auto
qed

end
