(* ===== verification/ConfigHistory.thy ===== *)
theory ConfigHistory
  imports ConfigLaws
begin

text \<open>
  The history of a Config in an environment: its revisions are numbered from 1 without gaps up
  to the current one, a commit appends the next one when the caller expected the current one,
  and no revision is ever changed.
\<close>

section \<open>The history\<close>

definition current :: "bytes \<Rightarrow> bytes \<Rightarrow> db \<Rightarrow> u64" where
  "current c e d = (case currentRevision c e d of None \<Rightarrow> 0 | Some n \<Rightarrow> n)"

definition revisionNumbers :: "bytes \<Rightarrow> bytes \<Rightarrow> db \<Rightarrow> u64 set" where
  "revisionNumbers c e d = cr_revision ` {r \<in> set (config_revisions d). cr_config r = c \<and> cr_env r = e}"

definition statesOk :: "db \<Rightarrow> bool" where
  "statesOk d =
     (uniqueOn (\<lambda>s. (st_config s, st_env s)) (config_states d) \<and>
      list_all (\<lambda>s. st_revision s \<noteq> 0 \<and> st_config s \<in> cfg_id ` set (configs d)) (config_states d))"

definition historyOk :: "db \<Rightarrow> bool" where
  "historyOk d =
     (statesOk d \<and> uniqueOn (\<lambda>r. (cr_config r, cr_env r, cr_revision r)) (config_revisions d) \<and>
      (\<forall>c e. revisionNumbers c e d = {n. 0 < n \<and> n \<le> current c e d}))"

lemma onData_historyOk: "onData historyOk"
  unfolding onData_def
proof (intro allI impI)
  fix d d' :: db
  assume "data d' = data d"
  note eqs = data_tables(2-4) [OF this]
  show "historyOk d' = historyOk d"
    by (simp add: historyOk_def statesOk_def revisionNumbers_def current_def currentRevision_def eqs)
qed

section \<open>One step\<close>

lemma current_advance:
  assumes "advanceState c e n d = Some d'"
  shows "current c' e' d' = (if c' = c \<and> e' = e then n else current c' e' d)"
proof (cases "currentRevision c e d")
  case None
  then show ?thesis using assms
    by (auto simp: advanceState_def current_def currentRevision_def split: if_splits option.splits)
next
  case (Some m)
  have "find (\<lambda>s. st_config s = c' \<and> st_env s = e')
      (updateWhere (\<lambda>s. st_config s = c \<and> st_env s = e) (\<lambda>s. s\<lparr> st_revision := n \<rparr>) (config_states d)) =
    map_option (\<lambda>s. if st_config s = c \<and> st_env s = e then s\<lparr> st_revision := n \<rparr> else s)
      (find (\<lambda>s. st_config s = c' \<and> st_env s = e') (config_states d))"
    by (rule find_updateWhere) simp
  then show ?thesis using assms Some
    by (auto simp: advanceState_def current_def currentRevision_def
        split: if_splits option.splits dest: find_SomeD)
qed

lemma advanceState_frame:
  "advanceState c e n d = Some d' \<Longrightarrow> \<exists>states. d' = d\<lparr> config_states := states \<rparr> \<and> n \<noteq> 0"
  by (auto simp: advanceState_def split: if_splits)

lemma statesOk_advance:
  assumes "advanceState c e n d = Some d'" and "statesOk d" and "c \<in> cfg_id ` set (configs d)"
  shows "statesOk d'"
proof (cases "currentRevision c e d")
  case None
  then show ?thesis using assms
    by (force simp: advanceState_def statesOk_def currentRevision_def uniqueOn_append find_None_iff
        split: if_splits)
next
  case (Some m)
  then have "d' = d\<lparr> config_states := updateWhere (\<lambda>s. st_config s = c \<and> st_env s = e)
      (\<lambda>s. s\<lparr> st_revision := n \<rparr>) (config_states d) \<rparr>" "n \<noteq> 0"
    using assms(1) by (auto simp: advanceState_def split: if_splits)
  then show ?thesis using assms(2)
    by (auto simp: statesOk_def list_all_iff set_updateWhere
        intro!: uniqueOn_updateWhere [where key = "\<lambda>s. (st_config s, st_env s)"])
qed

lemma next_revision:
  fixes m :: u64
  assumes "m + 1 \<noteq> 0"
  shows "{n. 0 < n \<and> n \<le> m + 1} = insert (m + 1) {n. 0 < n \<and> n \<le> m}"
proof -
  have "unat (m + 1) = Suc (unat m)" using unatSuc [of m] assms by (simp add: add.commute)
  then have "n \<le> m + 1 \<longleftrightarrow> n \<le> m \<or> n = m + 1" for n
    by (auto simp: word_le_nat_alt word_unat_eq_iff le_Suc_eq)
  then show ?thesis using assms by (auto simp: word_neq_0_conv)
qed

lemma history_step:
  assumes "historyOk d" and "c \<in> cfg_id ` set (configs d)"
    and "cr_config row = c" "cr_env row = e" "cr_revision row = current c e d + 1"
    and ins: "insertRevision row d = Some d1"
    and adv: "advanceState c e (current c e d + 1) (d1\<lparr> config_refs := refs \<rparr>) = Some d2"
  shows "historyOk d2 \<and> current c e d2 = current c e d + 1"
proof -
  let ?n = "current c e d + 1"
  have d1: "d1 = d\<lparr> config_revisions := config_revisions d @ [row] \<rparr>" and n: "?n \<noteq> 0"
    using ins assms(5) by (auto simp: insertRevision_def split: if_splits)
  obtain states where d2: "d2 = d1\<lparr> config_refs := refs, config_states := states \<rparr>"
    using advanceState_frame [OF adv] by auto
  have cur0: "current c' e' (d1\<lparr> config_refs := refs \<rparr>) = current c' e' d" for c' e'
    by (simp add: current_def currentRevision_def d1)
  have cur: "current c' e' d2 = (if c' = c \<and> e' = e then ?n else current c' e' d)" for c' e'
    using current_advance [OF adv] cur0 by simp
  have states: "statesOk d2"
    using statesOk_advance [OF adv] assms(1,2) by (auto simp: historyOk_def statesOk_def d1)
  have revs: "revisionNumbers c' e' d2 =
      (if c' = c \<and> e' = e then insert ?n (revisionNumbers c e d) else revisionNumbers c' e' d)" for c' e'
    using assms(3-5) by (auto simp: revisionNumbers_def d2 d1 intro: rev_image_eqI [of row])
  have uniq: "uniqueOn (\<lambda>r. (cr_config r, cr_env r, cr_revision r)) (config_revisions d2)"
    using assms(1) ins
    by (auto simp: d2 d1 historyOk_def uniqueOn_append insertRevision_def findRevision_def find_None_iff
        split: if_splits)
  have "revisionNumbers c' e' d2 = {n. 0 < n \<and> n \<le> current c' e' d2}" for c' e'
    using assms(1) next_revision [OF n] by (auto simp: revs cur historyOk_def)
  then show ?thesis using states uniq cur by (simp add: historyOk_def)
qed

section \<open>The effect of a commit\<close>

lemma each_reference:
  "tx_each (\<lambda>ref. tx_exec (insertReference (f ref))) refs env s = (Inr u, s') \<Longrightarrow>
   work s' = (work s)\<lparr> config_refs := config_refs (work s) @ map f refs \<rparr> \<and> durable s' = durable s"
proof (induction refs arbitrary: s)
  case Nil
  then show ?case by simp
next
  case (Cons ref refs)
  then obtain s1 where "tx_exec (insertReference (f ref)) env s = (Inr (), s1)"
    and rest: "tx_each (\<lambda>ref. tx_exec (insertReference (f ref))) refs env s1 = (Inr u, s')"
    by (auto simp: tx_bind_Inr)
  then have "work s1 = (work s)\<lparr> config_refs := config_refs (work s) @ [f ref] \<rparr>" "durable s1 = durable s"
    by (auto simp: tx_Inr insertReference_def split: if_splits)
  then show ?case using Cons.IH [OF rest] by simp
qed

definition revisionOf :: "ConfigCommit \<Rightarrow> Document \<Rightarrow> bytes \<Rightarrow> bytes \<Rightarrow> u64 \<Rightarrow> config_revision_row \<Rightarrow> bool" where
  "revisionOf r doc c e n row =
     (cr_config row = c \<and> cr_env row = e \<and> cr_revision row = n \<and> cr_format row = cc_format r \<and>
      cr_content row = Content doc \<and> cr_operation row = cc_operation r \<and> cr_actor row = cc_actor r)"

lemma storeRevision_effect:
  assumes "storeRevision r meta doc c e n env s = (Inr u, s')"
  obtains row d1 refs where "revisionOf r doc c e n row" "cr_sha256 row = sha256 env (Content doc)"
    "insertRevision row (work s) = Some d1" "map rf_reference refs = References doc"
    "advanceState c e n (d1\<lparr> config_refs := config_refs d1 @ refs \<rparr>) = Some (work s')"
    "durable s' = durable s"
proof -
  let ?refs = "map (\<lambda>ref. \<lparr> rf_config = c, rf_env = e, rf_revision = n, rf_reference = ref \<rparr>) (References doc)"
  let ?row = "\<lparr> cr_config = c, cr_env = e, cr_revision = n, cr_format = cc_format r, cr_content = Content doc,
    cr_sha256 = sha256 env (Content doc), cr_operation = cc_operation r, cr_actor = cc_actor r,
    cr_source_config = nullableBytes (mt_source_config meta),
    cr_source_env = nullableBytes (mt_source_env meta),
    cr_source_revision = nullableRevision (mt_source_revision meta) \<rparr>"
  from assms obtain s1 s2 where 1: "tx_exec (insertRevision ?row) env s = (Inr (), s1)"
    and 2: "tx_each (\<lambda>ref. tx_exec (insertReference
          \<lparr> rf_config = c, rf_env = e, rf_revision = n, rf_reference = ref \<rparr>)) (References doc) env s1 = (Inr (), s2)"
    and 3: "tx_exec (advanceState c e n) env s2 = (Inr u, s')"
    by (auto simp: storeRevision_def tx_bind_Inr)
  obtain d1 where d1: "insertRevision ?row (work s) = Some d1" "work s1 = d1" "durable s1 = durable s"
    using 1 by (auto simp: tx_exec_Inr)
  have s2: "work s2 = d1\<lparr> config_refs := config_refs d1 @ ?refs \<rparr>" "durable s2 = durable s"
    using each_reference [OF 2] d1(2,3) by simp_all
  have "advanceState c e n (work s2) = Some (work s')" "durable s' = durable s"
    using 3 s2(2) by (auto simp: tx_exec_Inr)
  then show ?thesis
    using that [of ?row d1 ?refs] d1(1) s2(1) by (simp add: revisionOf_def comp_def)
qed

lemma finishConfig_effect:
  assumes "tx_bind (finishConfigOperation r meta res t n) (\<lambda>_. commitWith res er) env s = (Inr q, s')"
  shows "q = (res, er) \<and> data (durable s') = data (work s)"
  using finishCommit_effect [OF assms [unfolded finishConfigOperation_def]] .

lemma finishConfigFailure_effect:
  assumes "finishConfigFailure r meta out t i env s = (Inr q, s')"
  shows "cm_outcome (fst q) = out \<and> data (durable s') = data (work s)"
  using finishConfig_effect [OF assms [unfolded finishConfigFailure_def Let_def]] by auto

lemma lockCurrentConfig_effect:
  assumes "lockCurrentConfig c e env s = (Inr (n, content, format), s')"
  shows "n = current c e (work s) \<and> work s' = work s \<and> durable s' = durable s \<and>
         (n > 0 \<longrightarrow> (\<exists>row. findRevision c e n (work s) = Some row \<and> cr_content row = content \<and>
            cr_format row = format))"
  using assms by (auto simp: lockCurrentConfig_def tx_Inr current_def split: option.splits)

lemma configWarnings_frame:
  assumes "configWarnings e refs env s = (Inr ws, s')"
  shows "work s' = work s \<and> durable s' = durable s"
  using preservesD [OF preserves_warnings [of "\<lambda>d. d = work s"] assms] quietD [OF quiet_warnings assms] by simp

text \<open>
  The step of a commit on the tables a reader of Configs looks at: a Config and an environment,
  the next revision row, its references, and every other Config's current revision as before.
\<close>

definition appended :: "ConfigCommit \<Rightarrow> Document \<Rightarrow> bytes \<Rightarrow> bytes \<Rightarrow> db \<Rightarrow> db \<Rightarrow> bool" where
  "appended r doc c e d d' =
     (\<exists>row refs. revisionOf r doc c e (cc_expected r + 1) row \<and>
        config_revisions d' = config_revisions d @ [row] \<and>
        map rf_reference refs = References doc \<and> config_refs d' = config_refs d @ refs \<and>
        (\<forall>c' e'. current c' e' d' = (if c' = c \<and> e' = e then cc_expected r + 1 else current c' e' d)) \<and>
        data (d'\<lparr> configs := [], config_states := [], config_revisions := [], config_refs := [] \<rparr>) =
        data (d\<lparr> configs := [], config_states := [], config_revisions := [], config_refs := [] \<rparr>))"

definition outcomeStep ::
  "ConfigCommit \<Rightarrow> Document \<Rightarrow> bytes \<Rightarrow> bytes \<Rightarrow> ConfigCommitResult \<Rightarrow> db \<Rightarrow> db \<Rightarrow> bool" where
  "outcomeStep r doc c e res d d' =
     (case cm_outcome res of
        OutcomeSuccess \<Rightarrow>
          current c e d = cc_expected r \<and> cm_revision res = cc_expected r + 1 \<and>
          appended r doc c e d d' \<and> configs d' = configs d
      | OutcomeNoChange \<Rightarrow>
          current c e d = cc_expected r \<and> cm_revision res = cc_expected r \<and> data d' = data d \<and>
          (\<exists>row. findRevision c e (cc_expected r) d = Some row \<and> cr_content row = Content doc \<and>
             cr_format row = cc_format r)
      | OutcomeConflict \<Rightarrow> current c e d \<noteq> cc_expected r \<and> data d' = data d
      | _ \<Rightarrow> False)"

lemma data_cong:
  assumes "data d' = data d"
  shows "data (d'\<lparr> configs := a, config_states := b, config_revisions := f, config_refs := g \<rparr>) =
    data (d\<lparr> configs := a, config_states := b, config_revisions := f, config_refs := g \<rparr>)"
  using assms by (cases d; cases d') (simp add: data_def)

lemma current_data: "data d' = data d \<Longrightarrow> current c e d' = current c e d"
  by (simp add: current_def currentRevision_def data_tables(3) [of d' d])

lemma commitNext_effect:
  assumes "commitNext r meta doc c e (cc_expected r) content format ws env s = (Inr (res, er), s')"
    and "historyOk (work s)" and "c \<in> cfg_id ` set (configs (work s))" and "current c e (work s) = cc_expected r"
    and "cc_expected r > 0 \<longrightarrow> (\<exists>row. findRevision c e (cc_expected r) (work s) = Some row \<and>
           cr_content row = content \<and> cr_format row = format)"
  shows "outcomeStep r doc c e res (work s) (durable s') \<and> historyOk (durable s')"
proof (cases "cc_expected r > 0 \<and> format = cc_format r \<and> content = Content doc")
  case True
  then have "res = \<lparr> cm_outcome = OutcomeNoChange, cm_revision = cc_expected r, cm_warnings = ws,
      cm_failure = None \<rparr> \<and> data (durable s') = data (work s)"
    using assms(1) by (auto simp: commitNext_def Let_def dest: finishConfig_effect)
  then show ?thesis
    using True assms(2,4,5) onDataD [OF onData_historyOk, of "durable s'" "work s"] by (auto simp: outcomeStep_def)
next
  case False
  let ?n = "cc_expected r + 1"
  let ?res = "\<lparr> cm_outcome = OutcomeSuccess, cm_revision = ?n, cm_warnings = ws, cm_failure = None \<rparr>"
  obtain u s1 t where st: "storeRevision r meta doc c e ?n env s = (Inr u, s1)"
    and fin: "tx_bind (finishConfigOperation r meta ?res t True) (\<lambda>_. commitWith ?res None) env s1 =
        (Inr (res, er), s')"
    using assms(1) False unfolding commitNext_def Let_def if_not_P [OF False] tx_bind_Inr by blast
  have fd: "res = ?res" "data (durable s') = data (work s1)" using finishConfig_effect [OF fin] by auto
  from st obtain row d1 refs where row: "revisionOf r doc c e ?n row" "insertRevision row (work s) = Some d1"
      "map rf_reference refs = References doc"
      "advanceState c e ?n (d1\<lparr> config_refs := config_refs d1 @ refs \<rparr>) = Some (work s1)"
    by (rule storeRevision_effect)
  have h: "historyOk (work s1)"
    using history_step [OF assms(2,3), of row e d1 "config_refs d1 @ refs" "work s1"] row assms(4)
    by (auto simp: revisionOf_def)
  have d1: "d1 = (work s)\<lparr> config_revisions := config_revisions (work s) @ [row] \<rparr>"
    using row(2) by (auto simp: insertRevision_def split: if_splits)
  obtain states where w1: "work s1 = d1\<lparr> config_refs := config_refs d1 @ refs, config_states := states \<rparr>"
    using advanceState_frame [OF row(4)] by auto
  have cur: "current c' e' (durable s') = (if c' = c \<and> e' = e then ?n else current c' e' (work s))" for c' e'
    using current_advance [OF row(4)] current_data [OF fd(2)] d1
    by (simp add: current_def [of _ _ "d1\<lparr> config_refs := _ \<rparr>"] currentRevision_def current_def)
  have tables: "config_revisions (durable s') = config_revisions (work s) @ [row]"
    "config_refs (durable s') = config_refs (work s) @ refs" "configs (durable s') = configs (work s)"
    using data_tables [OF fd(2)] w1 d1 by simp_all
  have "data ((durable s')\<lparr> configs := [], config_states := [], config_revisions := [], config_refs := [] \<rparr>) =
      data ((work s)\<lparr> configs := [], config_states := [], config_revisions := [], config_refs := [] \<rparr>)"
    using data_cong [OF fd(2)] w1 d1 by simp
  then have "appended r doc c e (work s) (durable s')"
    unfolding appended_def using row(1,3) tables cur by blast
  then show ?thesis
    using fd(1) assms(4) tables(3) h onDataD [OF onData_historyOk fd(2)] by (simp add: outcomeStep_def)
qed

lemma commitCurrent_effect:
  assumes "commitCurrent r meta doc c e env s = (Inr (res, er), s')"
    and "historyOk (work s)" and "c \<in> cfg_id ` set (configs (work s))"
  shows "outcomeStep r doc c e res (work s) (durable s') \<and> historyOk (durable s')"
proof -
  from assms(1) obtain n content format s1
    where lock: "lockCurrentConfig c e env s = (Inr (n, content, format), s1)"
    and rest: "(if cc_expected r \<noteq> n then
         finishConfigFailure r meta OutcomeConflict (configEvent meta ''conflict'')
           (''expected_target_revision'',
            if cc_expected r = 0 then ''target_config_exists'' else ''target_revision_changed'')
       else tx_bind (configWarnings e (References doc)) (commitNext r meta doc c e n content format))
       env s1 = (Inr (res, er), s')"
    by (auto simp: commitCurrent_def tx_bind_Inr)
  note l = lockCurrentConfig_effect [OF lock]
  show ?thesis
  proof (cases "cc_expected r = n")
    case True
    with rest obtain ws s2 where "configWarnings e (References doc) env s1 = (Inr ws, s2)"
      and n: "commitNext r meta doc c e (cc_expected r) content format ws env s2 = (Inr (res, er), s')"
      by (auto simp: tx_bind_Inr)
    then have "work s2 = work s" using configWarnings_frame l by metis
    then show ?thesis using commitNext_effect [OF n] assms(2,3) l True by auto
  next
    case False
    then have "cm_outcome res = OutcomeConflict" "data (durable s') = data (work s)"
      using rest l finishConfigFailure_effect by fastforce+
    then show ?thesis
      using False l assms(2) onDataD [OF onData_historyOk, of "durable s'" "work s"]
      by (simp add: outcomeStep_def)
  qed
qed

lemma findConfig_id: "findConfig k d = Some (c, a) \<Longrightarrow> c \<in> cfg_id ` set (configs d)"
  by (auto simp: findConfig_def dest: find_SomeD)

lemma insertConfig_effect:
  assumes "insertConfig c k n d = Some d'" and "historyOk d"
  shows "historyOk d' \<and> c \<in> cfg_id ` set (configs d') \<and> current c e d' = 0 \<and> findConfig k d' = Some (c, False) \<and>
    (\<forall>c' e'. current c' e' d' = current c' e' d) \<and>
    d' = d\<lparr> configs := configs d' \<rparr> \<and> findConfig k d = None"
proof -
  have d': "d' = d\<lparr> configs := configs d @ [\<lparr> cfg_id = c, cfg_key = k, cfg_name = n, cfg_archived = None \<rparr>] \<rparr>"
    and fresh: "c \<notin> cfg_id ` set (configs d)" and none: "find (\<lambda>x. cfg_key x = k) (configs d) = None"
    using assms(1) by (auto simp: insertConfig_def find_None_iff split: if_splits)
  have "find (\<lambda>s. st_config s = c \<and> st_env s = e) (config_states d) = None"
    using assms(2) fresh by (auto simp: historyOk_def statesOk_def list_all_iff find_None_iff)
  moreover have "historyOk d'" using assms(2)
    by (auto simp: historyOk_def statesOk_def list_all_iff revisionNumbers_def current_def
        currentRevision_def d')
  ultimately show ?thesis using none
    by (simp add: d' current_def currentRevision_def findConfig_def)
qed

text \<open>What every answer of a commit says about the tables before and after it.\<close>

definition commitStep ::
  "yaml_codec \<Rightarrow> ConfigCommit \<Rightarrow> ConfigCommitResult \<Rightarrow> db \<Rightarrow> db \<Rightarrow> bool" where
  "commitStep codec r res d d' =
     (data d' = data d \<and> cm_outcome res = OutcomeValidationFailed \<or>
      data d' = data d \<and> cm_outcome res = OutcomeConflict \<and> findConfig (cc_config r) d = None \<and>
        cc_expected r \<noteq> 0 \<or>
      (\<exists>doc c e. configDocument codec r = Inr doc \<and> activeEnvironment (cc_environment r) d = Some e \<and>
         findConfig (cc_config r) d = Some (c, False) \<and> outcomeStep r doc c e res d d') \<or>
      (\<exists>doc c e. configDocument codec r = Inr doc \<and> activeEnvironment (cc_environment r) d = Some e \<and>
         findConfig (cc_config r) d = None \<and> cc_expected r = 0 \<and> cm_outcome res = OutcomeSuccess \<and>
         cm_revision res = 1 \<and> appended r doc c e d d' \<and>
         findConfig (cc_config r) d' = Some (c, False)))"

lemma outcomeStep_data:
  assumes "data d1 = data d"
  shows "outcomeStep r doc c e res d1 d' = outcomeStep r doc c e res d d'"
  using data_cong [OF assms] data_tables [OF assms] current_data [OF assms] assms
  by (simp add: outcomeStep_def appended_def findRevision_def cong: Outcome.case_cong)

lemma commitStep_data:
  assumes "data d1 = data d"
  shows "commitStep codec r res d1 d' = commitStep codec r res d d'"
proof -
  have "appended r doc c e d1 d' = appended r doc c e d d'" for doc c e
    using data_cong [OF assms] data_tables [OF assms] current_data [OF assms]
    by (simp add: appended_def)
  then show ?thesis
    using data_tables [OF assms] assms outcomeStep_data [OF assms]
    by (simp add: commitStep_def findConfig_def activeEnvironment_def)
qed

lemma failed_step:
  assumes "finishConfigFailure r meta out t i env s = (Inr (res, er), s')" and "historyOk (work s)"
    and "out = OutcomeValidationFailed \<or>
      out = OutcomeConflict \<and> findConfig (cc_config r) (work s) = None \<and> cc_expected r \<noteq> 0"
  shows "commitStep codec r res (work s) (durable s') \<and> historyOk (durable s')"
  using finishConfigFailure_effect [OF assms(1)] assms(2,3)
    onDataD [OF onData_historyOk, of "durable s'" "work s"] by (auto simp: commitStep_def)

lemma current_configs [simp]: "current c e (d\<lparr> configs := rows \<rparr>) = current c e d"
  by (simp add: current_def currentRevision_def)

lemma first_step:
  assumes "outcomeStep r doc c e res d1 d'" and "insertConfig c (cc_config r) (cc_name r) d = Some d1"
    and "historyOk d" and "cc_expected r = 0"
  shows "cm_outcome res = OutcomeSuccess \<and> cm_revision res = 1 \<and> appended r doc c e d d' \<and>
    findConfig (cc_config r) d' = Some (c, False) \<and> findConfig (cc_config r) d = None"
proof -
  note i = insertConfig_effect [OF assms(2,3), of e]
  have "findRevision c e 0 d1 = None"
    using i by (auto simp: findRevision_def historyOk_def revisionNumbers_def find_None_iff image_iff
        set_eq_iff) (metis word_neq_0_conv)
  then have out: "cm_outcome res = OutcomeSuccess" "cm_revision res = 1" "appended r doc c e d1 d'"
      "configs d' = configs d1"
    using assms(1,4) i by (auto simp: outcomeStep_def split: Outcome.splits)
  obtain rows where "d1 = d\<lparr> configs := rows \<rparr>" using i by metis
  then have "appended r doc c e d d'"
    using out(3) by (simp add: appended_def cong: if_cong)
  then show ?thesis using out i by (simp add: findConfig_def)
qed

lemma commitFound_effect:
  assumes "commitFound r meta doc e (findConfig (cc_config r) (work s)) env s = (Inr (res, er), s')"
    and "historyOk (work s)" and "\<not> mt_create_only meta" and "configDocument codec r = Inr doc"
    and "activeEnvironment (cc_environment r) (work s) = Some e"
  shows "commitStep codec r res (work s) (durable s') \<and> historyOk (durable s')"
proof (cases "findConfig (cc_config r) (work s)")
  case (Some found)
  obtain c a where found: "found = (c, a)" by fastforce
  show ?thesis
  proof (cases a)
    case True
    then show ?thesis using assms(1-3) Some found failed_step by (auto simp: commitFound_def)
  next
    case False
    then have "commitCurrent r meta doc c e env s = (Inr (res, er), s')"
      using assms(1,3) Some found by (simp add: commitFound_def)
    then show ?thesis
      using commitCurrent_effect assms(2,4,5) findConfig_id Some found False
      by (fastforce simp: commitStep_def)
  qed
next
  case None
  show ?thesis
  proof (cases "cc_expected r = 0")
    case False
    then show ?thesis using assms(1,2) None failed_step by (auto simp: commitFound_def)
  next
    case True
    with assms(1) None obtain c d1 s1 where "s1 = s\<lparr> work := d1, tick := Suc (Suc (tick s)) \<rparr>"
      and "insertConfig c (cc_config r) (cc_name r) (work s) = Some d1"
      and cc: "commitCurrent r meta doc c e env s1 = (Inr (res, er), s')"
      by (auto simp: commitFound_def randomID_def tx_Inr)
    then have ins: "insertConfig c (cc_config r) (cc_name r) (work s) = Some (work s1)" by simp
    note i = insertConfig_effect [OF ins assms(2), of e]
    have step: "outcomeStep r doc c e res (work s1) (durable s')" "historyOk (durable s')"
      using commitCurrent_effect [OF cc] i by auto
    then show ?thesis using first_step [OF step(1) ins assms(2) True] True assms(4,5) None
      by (auto simp: commitStep_def)
  qed
qed

lemma commitBody_effect:
  assumes "commitBody r meta (configDocument codec r) env s = (Inr (res, er), s')"
    and "historyOk (work s)" and "\<not> mt_create_only meta"
  shows "commitStep codec r res (work s) (durable s') \<and> historyOk (durable s')"
proof (cases "configDocument codec r")
  case (Inl issue)
  then show ?thesis using assms failed_step by (auto simp: commitBody_def)
next
  case (Inr doc)
  show ?thesis
  proof (cases "activeEnvironment (cc_environment r) (work s)")
    case None
    then have "finishConfigFailure r meta OutcomeValidationFailed (configEvent meta ''validation_failed'')
        (''target_environment'', ''target_environment_unavailable'') env (s\<lparr> tick := tick s + 1 \<rparr>) =
        (Inr (res, er), s')"
      using assms(1) Inr by (auto simp: commitBody_def tx_bind_Inr tx_query_Inr)
    from failed_step [OF this] assms(2) show ?thesis by simp
  next
    case (Some e)
    then obtain s1 where "s1 = s\<lparr> tick := Suc (Suc (tick s)) \<rparr>"
      "commitFound r meta doc e (findConfig (cc_config r) (work s1)) env s1 = (Inr (res, er), s')"
      using assms(1) Inr by (auto simp: commitBody_def tx_bind_Inr tx_query_Inr)
    then show ?thesis using commitFound_effect [of r meta doc e s1] assms(2,3) Inr Some by simp
  qed
qed

section \<open>Properties\<close>

lemma commitConfig_step:
  assumes "commitConfig codec r meta env d = (Inr (res, e), d')" and "opRow (cc_operation r) d = None"
    and "historyOk d" and "\<not> mt_create_only meta"
  shows "commitStep codec r res d d' \<and> historyOk d'"
  using assms(1)
proof (rule commitConfig_cases)
  fix s s'
  assume s: "work s = d" "d' = durable s'"
    "journaled (cc_operation r) (requestDigest env r meta) (cc_actor r)
       (case mt_legacy meta of None \<Rightarrow> [] | Some legacy \<Rightarrow> [legacy])
       replayConfigResult (commitBody r meta (configDocument codec r)) env s = (Inr (res, e), s')"
  obtain s1 where s1: "data (work s1) = data (work s)"
    "commitBody r meta (configDocument codec r) env s1 = (Inr (res, e), s')"
    using s(3) by (rule journaled_first_at) (use assms(2) s(1) in auto)
  have "historyOk (work s1)" using onDataD [OF onData_historyOk s1(1)] assms(3) s(1) by simp
  then have "commitStep codec r res (work s1) (durable s') \<and> historyOk (durable s')"
    using commitBody_effect [OF s1(2)] assms(4) by simp
  then show ?thesis using commitStep_data [OF s1(1)] s(1,2) by simp
qed

text \<open>
  C2. A commit that reports an answer does what the answer says: a conflict or a rejection
  changes nothing but the journal, no-change means the current revision already holds the
  canonical document, and success means the expected revision was the current one, the next
  revision row holds the canonical document with its references, and no other Config moved.
  Histories stay numbered from 1 without gaps.
\<close>

theorem config_commit_exact:
  assumes "CommitConfig codec r env d = (Inr (res, e), d')" and "opRow (cc_operation r) d = None"
    and "historyOk d"
  shows "commitStep codec r res d d' \<and> historyOk d'"
  using commitConfig_step [OF assms(1) [unfolded CommitConfig_def] assms(2,3)] by (simp add: commitMeta_def)

lemma appended_moves:
  assumes "appended r doc c e d d'"
  shows "current c e d' = cc_expected r + 1 \<and> environments d' = environments d"
proof -
  have "data (d'\<lparr> configs := [], config_states := [], config_revisions := [], config_refs := [] \<rparr>) =
      data (d\<lparr> configs := [], config_states := [], config_revisions := [], config_refs := [] \<rparr>)"
    using assms by (auto simp: appended_def)
  from data_tables(1) [OF this] show ?thesis using assms by (auto simp: appended_def)
qed

lemma success_moves:
  assumes "commitStep codec r res d d'" and "cm_outcome res = OutcomeSuccess"
  obtains c e where "findConfig (cc_config r) d' = Some (c, False)"
    "activeEnvironment (cc_environment r) d' = Some e" "current c e d' = cc_expected r + 1"
proof -
  from assms obtain doc c e where "appended r doc c e d d'" "findConfig (cc_config r) d' = Some (c, False)"
    "activeEnvironment (cc_environment r) d = Some e"
    by (auto simp: commitStep_def outcomeStep_def findConfig_def)
  then show ?thesis using that [of c e] appended_moves by (simp add: activeEnvironment_def)
qed

lemma stale_commit:
  assumes "commitStep codec r res d d'" and "findConfig (cc_config r) d = Some (c, False)"
    and "activeEnvironment (cc_environment r) d = Some e" and "current c e d \<noteq> cc_expected r"
  shows "data d' = data d \<and> cm_outcome res \<in> {OutcomeConflict, OutcomeValidationFailed}"
  using assms by (cases "cm_outcome res") (auto simp: commitStep_def outcomeStep_def)

text \<open>
  C1. No update is lost. Of two commits that expect the same revision of a Config in an
  environment, once the first has succeeded the second changes nothing but the journal.
\<close>

theorem no_lost_update:
  assumes "CommitConfig codec r env d = (Inr (res, e), d1)" and "opRow (cc_operation r) d = None"
    and "historyOk d" and "cm_outcome res = OutcomeSuccess"
    and "CommitConfig codec' r' env' d1 = (Inr (res', e'), d2)" and "opRow (cc_operation r') d1 = None"
    and "cc_config r' = cc_config r" and "cc_environment r' = cc_environment r"
    and "cc_expected r' = cc_expected r"
  shows "data d2 = data d1 \<and> cm_outcome res' \<in> {OutcomeConflict, OutcomeValidationFailed}"
proof -
  note one = commitConfig_step [OF assms(1) [unfolded CommitConfig_def] assms(2,3)]
  note two = commitConfig_step [OF assms(5) [unfolded CommitConfig_def] assms(6)]
  have step: "commitStep codec r res d d1" "commitStep codec' r' res' d1 d2"
    using one two by (simp_all add: commitMeta_def)
  obtain c e where "findConfig (cc_config r) d1 = Some (c, False)"
    "activeEnvironment (cc_environment r) d1 = Some e" "current c e d1 = cc_expected r + 1"
    using success_moves [OF step(1) assms(4)] by metis
  then show ?thesis using stale_commit [OF step(2)] assms(7-9) by auto
qed

text \<open>Whatever fails, a commit leaves the revisions there are as they are.\<close>

lemma commitConfig_seen:
  assumes "commitConfig codec r meta env d = (Inr out, d')" and "opRow (cc_operation r) d \<noteq> None"
  shows "d' = d"
  using assms(1)
proof (rule commitConfig_cases)
  fix s s'
  assume s: "work s = d" "durable s = d" "d' = durable s'"
    "journaled (cc_operation r) (requestDigest env r meta) (cc_actor r)
       (case mt_legacy meta of None \<Rightarrow> [] | Some legacy \<Rightarrow> [legacy])
       replayConfigResult (commitBody r meta (configDocument codec r)) env s = (Inr out, s')"
  then show "d' = d" using journaled_seen_at [OF s(4)] assms(2) by simp
qed

definition extends :: "db \<Rightarrow> db \<Rightarrow> bool" where
  "extends d d' = (historyOk d' \<and> (\<exists>rows. config_revisions d' = config_revisions d @ rows \<and> length rows \<le> 1))"

lemma commitStep_extends: "commitStep codec r res d d' \<Longrightarrow> historyOk d' \<Longrightarrow> extends d d'"
  using data_tables(4) [of d' d]
  by (cases "cm_outcome res") (auto simp: extends_def commitStep_def outcomeStep_def appended_def)

text \<open>
  C3. The history of every Config is append-only: a commit, whatever it answers and whichever
  database calls fail, adds at most one revision to the ones there are and leaves those, and the
  numbering, as they were.
\<close>

theorem config_history_append_only:
  assumes "historyOk d"
  shows "extends d (snd (CommitConfig codec r env d))"
proof (rule allOrNothing_invariant)
  show "allOrNothing (CommitConfig codec r)" unfolding CommitConfig_def by (rule commitConfig_atomic)
  show start: "extends d d" using assms by (simp add: extends_def)
  fix env out d'
  assume "CommitConfig codec r env d = (Inr out, d')"
  then have run: "commitConfig codec r commitMeta env d = (Inr (fst out, snd out), d')"
    by (simp add: CommitConfig_def)
  show "extends d d'"
  proof (cases "opRow (cc_operation r) d = None")
    case True
    from commitConfig_step [OF run True assms] show ?thesis
      by (auto simp: commitMeta_def intro: commitStep_extends)
  next
    case False
    with run start show ?thesis using commitConfig_seen by metis
  qed
qed

text \<open>
  C4. A retried commit is answered from the journal. When an attempt reported an outcome, the
  same request under the same identifier, sent again after any changes that keep the operation's
  row, gets the same answer and changes nothing, as long as its actor may still write.
\<close>

theorem config_retry:
  assumes "CommitConfig codec r env d = (Inr out, d')" and "opRow (cc_operation r) d = None"
    and "opRow (cc_operation r) d'' = opRow (cc_operation r) d'" and "sha256 env' = sha256 env"
    and "configAdmits (codec, r) env' d''" and "\<forall>n. \<not> fault env' n"
  shows "CommitConfig codec r env' d'' = (Inr out, d'')"
  using config_mutation.retry [of "(codec, r)" env d out d' d'' env'] assms
  by (simp add: requestDigest_def commitMeta_def configCommitDigest_def)

section \<open>Samples\<close>

definition sampleCommit :: ConfigCommit where
  "sampleCommit = \<lparr> cc_operation = ''op-commit-1'', cc_actor = Actor ''user'' ''u1'', cc_environment = ''prod'',
     cc_config = ''app'', cc_name = ''App'', cc_expected = 0, cc_format = JSON, cc_content = ''{}'' \<rparr>"

definition sampleStale :: ConfigCommit where
  "sampleStale = sampleCommit\<lparr> cc_operation := ''op-commit-2'', cc_content := ''[]'' \<rparr>"

definition sampleCodec :: yaml_codec where
  "sampleCodec = \<lparr> parse = \<lambda>_. None, emit = \<lambda>_ _. ([], False) \<rparr>"

text \<open>Another process, which draws other identifiers.\<close>

definition sampleEnv2 :: env where
  "sampleEnv2 = sampleEnv\<lparr> rand := \<lambda>t n. Some (take n (replicate t CHR ''c'' @ replicate n CHR ''d'')) \<rparr>"

definition sampleCommitted :: db where
  "sampleCommitted =
    emptyDb\<lparr> environments := [\<lparr> env_id = ''env-prod'', env_key = ''prod'', env_name = ''Production'',
         env_archived = None \<rparr>], configs := [\<lparr> cfg_id = ''aaaabbbbbbbbbbbb'', cfg_key = ''app'',
         cfg_name = ''App'', cfg_archived = None \<rparr>], config_states := [\<lparr> st_config =
         ''aaaabbbbbbbbbbbb'', st_env = ''env-prod'', st_revision = 1 \<rparr>], config_revisions := [\<lparr>
         cr_config = ''aaaabbbbbbbbbbbb'', cr_env = ''env-prod'', cr_revision = 1, cr_format =
         ''json'', cr_content = ''{}'' @ [CHR 0x0A], cr_sha256 = ''{}'' @ [CHR 0x0A], cr_operation =
         ''op-commit-1'', cr_actor = Actor ''user'' ''u1'', cr_source_config = None, cr_source_env =
         None, cr_source_revision = None \<rparr>], operations := [\<lparr> op_id = ''op-commit-1'', op_digest =
         [CHR ''{'', CHR 0x22, CHR ''R'', CHR ''e'', CHR ''q'', CHR ''u'', CHR ''e'', CHR ''s''],
         op_actor = Actor ''user'' ''u1'', op_outcome = OutcomeSuccess, op_response = Some (JObj
         [(''outcome'', JStr ''success''), (''revision'', JNum ''1'')]), op_revision = Some 1 \<rparr>],
         outbox := [\<lparr> ob_id = ''aaaaaaaaaabbbbbb'', ob_kind = OutboxAudit, ob_type =
         ''config.created'', ob_operation = Some ''op-commit-1'', ob_payload = \<lparr> ev_time = 1000,
         ev_source_ip = [], ev_field_key = [], ev_operation_id = ''op-commit-1'', ev_actor = Actor
         ''user'' ''u1'', ev_action = ''config.commit'', ev_outcome = OutcomeSuccess, ev_environment
         = ''prod'', ev_namespace = [], ev_resource_type = ''config'', ev_resource_key = ''app'',
         ev_revision = 1, ev_request_id = None, ev_error_code = None \<rparr>, ob_status = Pending,
         ob_attempts = 0, ob_next = 1000, ob_claimed = None, ob_completed = None, ob_error = None,
         ob_created = 1000 \<rparr>, \<lparr> ob_id = ''aaaaaaaaaaaabbbb'', ob_kind = OutboxNotification, ob_type
         = ''config.created'', ob_operation = Some ''op-commit-1'', ob_payload = \<lparr> ev_time = 1000,
         ev_source_ip = [], ev_field_key = [], ev_operation_id = ''op-commit-1'', ev_actor = Actor
         ''user'' ''u1'', ev_action = ''config.commit'', ev_outcome = OutcomeSuccess, ev_environment
         = ''prod'', ev_namespace = [], ev_resource_type = ''config'', ev_resource_key = ''app'',
         ev_revision = 1, ev_request_id = None, ev_error_code = None \<rparr>, ob_status = Pending,
         ob_attempts = 0, ob_next = 1000, ob_claimed = None, ob_completed = None, ob_error = None,
         ob_created = 1000 \<rparr>] \<rparr>"

definition sampleResult :: ConfigCommitResult where
  "sampleResult = \<lparr> cm_outcome = OutcomeSuccess, cm_revision = 1, cm_warnings = [], cm_failure = None \<rparr>"

definition sampleConflict :: "ConfigCommitResult \<times> err option" where
  "sampleConflict =
     (\<lparr> cm_outcome = OutcomeConflict, cm_revision = 0, cm_warnings = [],
        cm_failure = Some (''expected_target_revision'', ''target_config_exists'') \<rparr>,
      Some (Audited (ConfigMutationError ''expected_target_revision'' ''target_config_exists'')))"

definition sampleSecond :: db where
  "sampleSecond = snd (CommitConfig sampleCodec sampleStale sampleEnv2 sampleCommitted)"

lemma sampleCommitted:
  "CommitConfig sampleCodec sampleCommit sampleEnv sampleDb = (Inr (sampleResult, None), sampleCommitted)"
  by code_simp

lemma sampleSecond:
  "CommitConfig sampleCodec sampleStale sampleEnv2 sampleCommitted =
     (Inr (fst sampleConflict, snd sampleConflict), sampleSecond)"
proof -
  have "fst (CommitConfig sampleCodec sampleStale sampleEnv2 sampleCommitted) = Inr sampleConflict"
    by code_simp
  then show ?thesis by (simp add: sampleSecond_def prod_eq_iff)
qed

lemma sample_fresh: "opRow (cc_operation sampleCommit) sampleDb = None"
  "opRow (cc_operation sampleStale) sampleCommitted = None"
  by code_simp+

lemma sample_history: "historyOk sampleDb"
proof -
  have "config_states sampleDb = []" "config_revisions sampleDb = []" by code_simp+
  then show ?thesis
    by (auto simp: historyOk_def statesOk_def revisionNumbers_def current_def currentRevision_def uniqueOn_def)
qed

lemma sample_request: "cc_config sampleStale = cc_config sampleCommit"
  "cc_environment sampleStale = cc_environment sampleCommit" "cc_expected sampleStale = cc_expected sampleCommit"
  by (simp_all add: sampleStale_def)

theorem config_commit_exact_witness:
  "commitStep sampleCodec sampleCommit sampleResult sampleDb sampleCommitted \<and> historyOk sampleCommitted"
  using config_commit_exact [OF sampleCommitted sample_fresh(1) sample_history] .

theorem no_lost_update_witness:
  "data sampleSecond = data sampleCommitted \<and>
   cm_outcome (fst sampleConflict) \<in> {OutcomeConflict, OutcomeValidationFailed}"
proof -
  have "cm_outcome sampleResult = OutcomeSuccess" by (simp add: sampleResult_def)
  from no_lost_update [OF sampleCommitted sample_fresh(1) sample_history this sampleSecond sample_fresh(2)
      sample_request] show ?thesis .
qed

theorem config_history_append_only_witness:
  "extends sampleDb (snd (CommitConfig sampleCodec sampleCommit sampleEnv sampleDb))"
  using config_history_append_only [OF sample_history] .

theorem config_retry_witness:
  "CommitConfig sampleCodec sampleCommit sampleEnv2 sampleCommitted = (Inr (sampleResult, None), sampleCommitted)"
proof -
  have "configAdmits (sampleCodec, sampleCommit) sampleEnv2 sampleCommitted" by code_simp
  moreover have "sha256 sampleEnv2 = sha256 sampleEnv" "\<forall>n. \<not> fault sampleEnv2 n"
    by (simp_all add: sampleEnv2_def sampleEnv_def)
  ultimately show ?thesis using config_retry [OF sampleCommitted sample_fresh(1)] by simp
qed

end
