(* ===== verification/ConfigLifecycle.thy ===== *)
theory ConfigLifecycle
  imports ConfigHistory
begin

text \<open>
  Archiving and unarchiving Configs (\<^verbatim>\<open>config_lifecycle.go\<close>). The operation is an
  instance of the mutation contract; it changes nothing but the mark on the Config, so that
  unarchiving takes an archive back.
\<close>

record ConfigLifecycleChange =
  cl_operation :: string
  cl_actor :: actor
  cl_action :: string
  cl_key :: string

record ConfigLifecycleResult =
  lr_outcome :: Outcome
  lr_key :: string
  lr_archived :: bool

definition ConfigArchive :: string where "ConfigArchive = ''archive''"
definition ConfigUnarchive :: string where "ConfigUnarchive = ''unarchive''"

definition configLifecycleDigest :: "env \<Rightarrow> ConfigLifecycleChange \<Rightarrow> bytes" where
  "configLifecycleDigest env r =
     sha256 env (compactJSON (JObj
       [(''OperationID'', JStr (cl_operation r)), (''Actor'', actorJSON (cl_actor r)),
        (''Action'', JStr (cl_action r)), (''Key'', JStr (cl_key r))]))"

definition lifecycleResultJSON :: "ConfigLifecycleResult \<Rightarrow> json" where
  "lifecycleResultJSON r =
     JObj [(''outcome'', JStr (outcomeText (lr_outcome r))), (''key'', JStr (jsonText (lr_key r))),
           (''archived'', JBool (lr_archived r))]"

definition lifecycleResultOf :: "json \<Rightarrow> ConfigLifecycleResult option" where
  "lifecycleResultOf v =
     (case (isObject v, outcomeOf (member ''outcome'' v), asString (member ''key'' v),
            asBool (member ''archived'' v)) of
        (True, Some out, Some k, Some a) \<Rightarrow> Some \<lparr> lr_outcome = out, lr_key = k, lr_archived = a \<rparr>
      | _ \<Rightarrow> None)"

definition replayLifecycle :: "operationReplay \<Rightarrow> err + ConfigLifecycleResult \<times> err option" where
  "replayLifecycle rp =
     (case lifecycleResultOf (replayResponse rp) of
        None \<Rightarrow> Inl ErrInternal
      | Some previous \<Rightarrow>
          if lr_outcome previous \<noteq> replayOutcome rp then Inl ErrInternal
          else Inr (previous, outcomeError (lr_outcome previous)))"

section \<open>The change\<close>

definition configRow :: "string \<Rightarrow> db \<Rightarrow> config_row option" where
  "configRow k d = find (\<lambda>c. cfg_key c = k) (configs d)"

definition markConfig :: "bytes \<Rightarrow> time option \<Rightarrow> db \<Rightarrow> db" where
  "markConfig i at d =
     d\<lparr> configs := updateWhere (\<lambda>c. cfg_id c = i) (\<lambda>c. c\<lparr> cfg_archived := at \<rparr>) (configs d) \<rparr>"

definition lifecycleEvent :: "ConfigLifecycleChange \<Rightarrow> string \<Rightarrow> mutationEvent" where
  "lifecycleEvent r eventType =
     \<lparr> me_field = [], me_type = eventType, me_action = ''config.'' @ cl_action r, me_environment = [],
       me_namespace = [], me_resource_type = ''config'', me_resource_key = cl_key r \<rparr>"

definition finishConfigLifecycleFailure ::
  "ConfigLifecycleChange \<Rightarrow> string \<Rightarrow> (ConfigLifecycleResult \<times> err option) tx" where
  "finishConfigLifecycleFailure r eventType =
     (let res = \<lparr> lr_outcome = OutcomeValidationFailed, lr_key = cl_key r, lr_archived = False \<rparr> in
      tx_bind (finishOperation (cl_operation r) (cl_actor r) (lr_outcome res) 0 (lifecycleResultJSON res)
                 (lifecycleEvent r eventType) False) (\<lambda>_.
        commitWith res (withCommittedAudit (Some ErrValidation))))"

definition finishConfigLifecycleOperation ::
  "ConfigLifecycleChange \<Rightarrow> ConfigLifecycleResult \<Rightarrow> bool \<Rightarrow> unit tx" where
  "finishConfigLifecycleOperation r res notify =
     finishOperation (cl_operation r) (cl_actor r) (lr_outcome res) 0 (lifecycleResultJSON res)
       (lifecycleEvent r
          (if cl_action r = ConfigUnarchive then ''config.unarchived'' else ''config.archived'')) notify"

definition finishLifecycle :: "ConfigLifecycleChange \<Rightarrow> Outcome \<Rightarrow> (ConfigLifecycleResult \<times> err option) tx" where
  "finishLifecycle r out =
     (let res = \<lparr> lr_outcome = out, lr_key = cl_key r, lr_archived = (cl_action r = ConfigArchive) \<rparr> in
      tx_bind (finishConfigLifecycleOperation r res (out = OutcomeSuccess)) (\<lambda>_. commitWith res None))"

definition lifecycleBody :: "ConfigLifecycleChange \<Rightarrow> (ConfigLifecycleResult \<times> err option) tx" where
  "lifecycleBody r =
     (if \<not> validResourceKey (cl_key r) \<or> (cl_action r \<noteq> ConfigArchive \<and> cl_action r \<noteq> ConfigUnarchive)
      then finishConfigLifecycleFailure r ''config.validation_failed''
      else
        tx_bind (tx_query (configRow (cl_key r))) (\<lambda>row.
          case row of
            None \<Rightarrow> finishConfigLifecycleFailure r ''config.not_found''
          | Some c \<Rightarrow>
              if cl_action r = ConfigArchive then
                (if cfg_archived c = None then
                   tx_bind (tx_env db_now) (\<lambda>at.
                   tx_bind (tx_exec (\<lambda>d. Some (markConfig (cfg_id c) (Some at) d))) (\<lambda>_.
                   finishLifecycle r OutcomeSuccess))
                 else finishLifecycle r OutcomeNoChange)
              else if cfg_archived c \<noteq> None then
                tx_bind (tx_exec (\<lambda>d. Some (markConfig (cfg_id c) None d))) (\<lambda>_.
                finishLifecycle r OutcomeSuccess)
              else finishLifecycle r OutcomeNoChange))"

definition ApplyConfigLifecycleChange ::
  "ConfigLifecycleChange \<Rightarrow> env \<Rightarrow> db \<Rightarrow> (err + ConfigLifecycleResult \<times> err option) \<times> db" where
  "ApplyConfigLifecycleChange r env d =
     (if \<not> validOperationID (cl_operation r) \<or> \<not> validActor (cl_actor r) then (Inl ErrValidation, d)
      else
        run_tx (journaled (cl_operation r) (configLifecycleDigest env r) (cl_actor r) []
          replayLifecycle (lifecycleBody r)) env d)"

section \<open>The contract\<close>

lemma replayLifecycle_result:
  "utf8 (lr_key res) \<Longrightarrow>
   replayLifecycle (OperationReplay (lr_outcome res) (lifecycleResultJSON res)) =
     Inr (res, outcomeError (lr_outcome res))"
  by (simp add: replayLifecycle_def lifecycleResultOf_def lifecycleResultJSON_def member_def isObject_def)

lemma operations_mark [simp]: "operations (markConfig i at d) = operations d"
  by (simp add: markConfig_def)

lemma finishes_lifecycle [finishes_intros]:
  "utf8 (cl_key r) \<Longrightarrow> out = OutcomeSuccess \<or> out = OutcomeNoChange \<Longrightarrow>
   finishes good (cl_operation r) dg replayLifecycle (finishLifecycle r out)"
  unfolding finishLifecycle_def finishConfigLifecycleOperation_def Let_def
  by (rule finishes_commit)
    (use replayLifecycle_result [of "\<lparr> lr_outcome = out, lr_key = cl_key r, lr_archived = (cl_action r = ConfigArchive) \<rparr>"]
      in \<open>auto simp: outcomeError_def\<close>)

lemma finishes_lifecycleFailure [finishes_intros]:
  "utf8 (cl_key r) \<Longrightarrow> finishes good (cl_operation r) dg replayLifecycle (finishConfigLifecycleFailure r t)"
  unfolding finishConfigLifecycleFailure_def Let_def
  by (rule finishes_commit)
    (use replayLifecycle_result [of "\<lparr> lr_outcome = OutcomeValidationFailed, lr_key = cl_key r, lr_archived = False \<rparr>"]
      in \<open>auto simp: outcomeError_def\<close>)

lemmas lifecycle_bodies = lifecycleBody_def finishLifecycle_def finishConfigLifecycleOperation_def
  finishConfigLifecycleFailure_def Let_def

lemma finishes_lifecycleBody:
  assumes "utf8 (cl_key r)"
  shows "finishes (\<lambda>_. True) (cl_operation r) dg replayLifecycle (lifecycleBody r)"
  unfolding lifecycleBody_def
  by (intro finishes_intros calls_frame) (use assms in \<open>auto simp: pending_def opRow_def intro!: preserves_exec\<close>)

lemma atomic_lifecycleBody: "atomic (lifecycleBody r)"
  unfolding lifecycle_bodies by (intro atomic_intros quiet_intros steady_intros) simp_all

lemma steady_lifecycleBody: "steady (lifecycleBody r)"
  unfolding lifecycle_bodies by (intro steady_intros) simp_all

lemma ApplyConfigLifecycleChange_atomic: "allOrNothing (ApplyConfigLifecycleChange r)"
  unfolding ApplyConfigLifecycleChange_def
  by (intro allOrNothing_guard allOrNothing_env atomic_journaled steady_journaled
      atomic_lifecycleBody steady_lifecycleBody) (simp add: configLifecycleDigest_def)

definition lifecycleAdmits :: "ConfigLifecycleChange \<Rightarrow> env \<Rightarrow> db \<Rightarrow> bool" where
  "lifecycleAdmits r env d = (validOperationID (cl_operation r) \<and> validActor (cl_actor r))"

interpretation lifecycle_mutation: mutation ApplyConfigLifecycleChange cl_operation
  configLifecycleDigest replayLifecycle lifecycleAdmits "\<lambda>r _. utf8 (cl_key r)"
proof
  fix r env d out d'
  assume "ApplyConfigLifecycleChange r env d = (Inr out, d')" and "opRow (cl_operation r) d = None"
    and t: "utf8 (cl_key r)"
  then show "stored (cl_operation r) (configLifecycleDigest env r) replayLifecycle out d'"
    using journaled_records [OF _ _ finishes_lifecycleBody [OF t], of "configLifecycleDigest env r"]
    by (auto simp: ApplyConfigLifecycleChange_def onData_def split: if_splits)
qed (auto simp: ApplyConfigLifecycleChange_def lifecycleAdmits_def journaled_replays
    intro: journaled_reuse)

section \<open>The effect\<close>

text \<open>What an answer says: the outcome follows from the mark the Config had, which is all that moved.\<close>

definition lifecycleStep :: "ConfigLifecycleChange \<Rightarrow> ConfigLifecycleResult \<Rightarrow> db \<Rightarrow> db \<Rightarrow> bool" where
  "lifecycleStep r res d d' =
     (if \<not> validResourceKey (cl_key r) \<or> cl_action r \<notin> {ConfigArchive, ConfigUnarchive}
      then lr_outcome res = OutcomeValidationFailed \<and> data d' = data d
      else
        (case configRow (cl_key r) d of
           None \<Rightarrow> lr_outcome res = OutcomeValidationFailed \<and> data d' = data d
         | Some c \<Rightarrow>
             lr_key res = cl_key r \<and> lr_archived res = (cl_action r = ConfigArchive) \<and>
             (if (cfg_archived c \<noteq> None) = (cl_action r = ConfigArchive)
              then lr_outcome res = OutcomeNoChange \<and> data d' = data d
              else lr_outcome res = OutcomeSuccess \<and>
                (\<exists>at. (at \<noteq> None) = (cl_action r = ConfigArchive) \<and>
                   data d' = data (markConfig (cfg_id c) at d)))))"

lemma lifecycleStep_data:
  assumes "data e = data d"
  shows "lifecycleStep r res e d' = lifecycleStep r res d d'"
proof -
  have row: "configRow (cl_key r) e = configRow (cl_key r) d"
    by (simp add: configRow_def data_tables(2) [OF assms])
  have mark: "data (markConfig i at e) = data (markConfig i at d)" for i at
  proof -
    have "data (markConfig i at x) = (data x)\<lparr> configs := updateWhere (\<lambda>c. cfg_id c = i)
        (\<lambda>c. c\<lparr> cfg_archived := at \<rparr>) (configs (data x)) \<rparr>" for x
      by (simp add: markConfig_def data_def)
    then show ?thesis using assms by simp
  qed
  show ?thesis by (simp only: lifecycleStep_def row mark assms)
qed

lemma finishLifecycle_effect:
  assumes "finishLifecycle r out env s = (Inr q, s')"
  shows "q = (\<lparr> lr_outcome = out, lr_key = cl_key r, lr_archived = (cl_action r = ConfigArchive) \<rparr>, None) \<and>
    data (durable s') = data (work s)"
  using finishCommit_effect [OF assms [unfolded finishLifecycle_def finishConfigLifecycleOperation_def Let_def]]
  by simp

lemma finishLifecycleFailure_effect:
  assumes "finishConfigLifecycleFailure r t env s = (Inr q, s')"
  shows "q = (\<lparr> lr_outcome = OutcomeValidationFailed, lr_key = cl_key r, lr_archived = False \<rparr>,
       outcomeError OutcomeValidationFailed) \<and> data (durable s') = data (work s)"
  using finishCommit_effect [OF assms [unfolded finishConfigLifecycleFailure_def Let_def]]
  by (simp add: outcomeError_def)

lemma lifecycleBody_effect:
  assumes "lifecycleBody r env s = (Inr (res, e), s')"
  shows "lifecycleStep r res (work s) (durable s') \<and> e = outcomeError (lr_outcome res)"
  using assms
  by (auto simp: lifecycleBody_def lifecycleStep_def tx_Inr outcomeError_def ConfigArchive_def ConfigUnarchive_def
      dest!: finishLifecycle_effect finishLifecycleFailure_effect split: if_splits option.splits)

section \<open>Properties\<close>

lemma lifecycle_step:
  assumes "ApplyConfigLifecycleChange r env d = (Inr (res, e), d')" and "opRow (cl_operation r) d = None"
  shows "lifecycleStep r res d d' \<and> e = outcomeError (lr_outcome res)"
proof -
  have run: "run_tx (journaled (cl_operation r) (configLifecycleDigest env r) (cl_actor r) []
      replayLifecycle (lifecycleBody r)) env d = (Inr (res, e), d')"
    using assms(1) by (auto simp: ApplyConfigLifecycleChange_def split: if_splits)
  obtain s s' where s: "data (work s) = data d" "lifecycleBody r env s = (Inr (res, e), s')" "d' = durable s'"
    using run assms(2) by (rule journaled_first)
  then show ?thesis using lifecycleBody_effect [OF s(2)] lifecycleStep_data [OF s(1)] by simp
qed

lemma step_success:
  assumes "lifecycleStep r res d d'" and "lr_outcome res = OutcomeSuccess"
  obtains c at where "configRow (cl_key r) d = Some c" "(at \<noteq> None) = (cl_action r = ConfigArchive)"
    "(cfg_archived c \<noteq> None) \<noteq> (cl_action r = ConfigArchive)"
    "data d' = data (markConfig (cfg_id c) at d)"
  using assms by (fastforce simp: lifecycleStep_def split: if_splits option.splits)

lemma configs_mark: "data d' = data (markConfig i at d) \<Longrightarrow>
    configs d' = updateWhere (\<lambda>c. cfg_id c = i) (\<lambda>c. c\<lparr> cfg_archived := at \<rparr>) (configs d)"
  using data_tables(2) [of d' "markConfig i at d"] by (simp add: markConfig_def)

lemma configRow_mark:
  assumes "uniqueOn cfg_id (configs d)" and "configRow k d = Some c" and "data d' = data (markConfig (cfg_id c) at d)"
  shows "configRow k d' = Some (c\<lparr> cfg_archived := at \<rparr>)"
  using assms(2) configs_mark [OF assms(3)] find_updateWhere [where f = "\<lambda>c :: config_row. c\<lparr> cfg_archived := at \<rparr>" and q = "\<lambda>c. cfg_key c = k"]
  by (simp add: configRow_def)

lemma mark_back:
  assumes "uniqueOn cfg_id rows" and "c \<in> set rows"
  shows "updateWhere (\<lambda>x. cfg_id x = cfg_id c) (\<lambda>x. x\<lparr> cfg_archived := cfg_archived c \<rparr>)
           (updateWhere (\<lambda>x. cfg_id x = cfg_id c) (\<lambda>x. x\<lparr> cfg_archived := at \<rparr>) rows) = rows"
proof -
  have same: "x = c" if "x \<in> set rows" "cfg_id x = cfg_id c" for x
    using uniqueOnD [OF assms(1) that(1) assms(2)] that(2) by simp
  have "c\<lparr> cfg_archived := cfg_archived c \<rparr> = c" by simp
  then show ?thesis
    unfolding updateWhere_def map_map by (intro map_idI) (auto dest: same)
qed

text \<open>
  C15. An archive can be taken back. When an active Config is archived and later, before anything
  but the journal changed, unarchived, the tables are what they were: the Config's revisions, its
  current revision in every environment and all other Configs are untouched.
\<close>

theorem unarchive_takes_back:
  assumes "ApplyConfigLifecycleChange r env d = (Inr (res, e), d1)" and "opRow (cl_operation r) d = None"
    and "cl_action r = ConfigArchive" and "lr_outcome res = OutcomeSuccess" and "data d1' = data d1"
    and "ApplyConfigLifecycleChange r' env' d1' = (Inr (res', e'), d2)" and "opRow (cl_operation r') d1' = None"
    and "cl_action r' = ConfigUnarchive" and "cl_key r' = cl_key r" and "uniqueOn cfg_id (configs d)"
  shows "lr_outcome res' = OutcomeSuccess \<and> data d2 = data d"
proof -
  have step: "lifecycleStep r res d d1" using lifecycle_step [OF assms(1,2)] ..
  obtain c at where c: "configRow (cl_key r) d = Some c" "at \<noteq> None" "cfg_archived c = None"
    "data d1 = data (markConfig (cfg_id c) at d)"
    using step_success [OF step assms(4)] assms(3) by metis
  have valid: "validResourceKey (cl_key r)"
    using step assms(4) by (auto simp: lifecycleStep_def split: if_splits)
  have d1': "data d1' = data (markConfig (cfg_id c) at d)" using c(4) assms(5) by simp
  have row: "configRow (cl_key r') d1' = Some (c\<lparr> cfg_archived := at \<rparr>)"
    using configRow_mark [OF assms(10) c(1) d1'] assms(9) by simp
  have two: "lifecycleStep r' res' d1' d2" using lifecycle_step [OF assms(6,7)] ..
  have out: "lr_outcome res' = OutcomeSuccess" and d2: "data d2 = data (markConfig (cfg_id c) None d1')"
    using two row valid c(2) assms(8,9)
    by (auto simp: lifecycleStep_def ConfigArchive_def ConfigUnarchive_def split: if_splits)
  have member: "c \<in> set (configs d)" using c(1) by (auto simp: configRow_def dest: find_SomeD)
  have "data (markConfig (cfg_id c) None d1') = (data d1')\<lparr> configs := updateWhere (\<lambda>x. cfg_id x = cfg_id c)
      (\<lambda>x. x\<lparr> cfg_archived := None \<rparr>) (configs d1') \<rparr>" by (simp add: markConfig_def data_def)
  also have "\<dots> = data d"
    unfolding d1' configs_mark [OF d1']
    using mark_back [OF assms(10) member, of at] c(3) by (simp add: markConfig_def data_def)
  finally show ?thesis using out d2 by simp
qed

definition sampleArchive :: ConfigLifecycleChange where
  "sampleArchive = \<lparr> cl_operation = ''op-archive-1'', cl_actor = Actor ''user'' ''u1'',
     cl_action = ''archive'', cl_key = ''app'' \<rparr>"

definition sampleUnarchive :: ConfigLifecycleChange where
  "sampleUnarchive = \<lparr> cl_operation = ''op-archive-2'', cl_actor = Actor ''user'' ''u1'',
     cl_action = ''unarchive'', cl_key = ''app'' \<rparr>"

definition sampleConfigs :: db where
  "sampleConfigs = emptyDb\<lparr> configs :=
     [\<lparr> cfg_id = ''cfg-app'', cfg_key = ''app'', cfg_name = ''App'', cfg_archived = None \<rparr>] \<rparr>"

definition sampleArchived :: db where
  "sampleArchived =
     emptyDb\<lparr> configs := [\<lparr> cfg_id = ''cfg-app'', cfg_key = ''app'', cfg_name = ''App'', cfg_archived = Some
         1000 \<rparr>], operations := [\<lparr> op_id = ''op-archive-1'', op_digest = [CHR ''{'', CHR 0x22, CHR
         ''O'', CHR ''p'', CHR ''e'', CHR ''r'', CHR ''a'', CHR ''t''], op_actor = Actor ''user''
         ''u1'', op_outcome = OutcomeSuccess, op_response = Some (JObj [(''outcome'', JStr
         ''success''), (''key'', JStr ''app''), (''archived'', JBool True)]), op_revision = None \<rparr>],
         outbox := [\<lparr> ob_id = ''aaaaabbbbbbbbbbb'', ob_kind = OutboxAudit, ob_type =
         ''config.archived'', ob_operation = Some ''op-archive-1'', ob_payload = \<lparr> ev_time = 1000,
         ev_source_ip = [], ev_field_key = [], ev_operation_id = ''op-archive-1'', ev_actor = Actor
         ''user'' ''u1'', ev_action = ''config.archive'', ev_outcome = OutcomeSuccess,
         ev_environment = [], ev_namespace = [], ev_resource_type = ''config'', ev_resource_key =
         ''app'', ev_revision = 0, ev_request_id = None, ev_error_code = None \<rparr>, ob_status =
         Pending, ob_attempts = 0, ob_next = 1000, ob_claimed = None, ob_completed = None, ob_error
         = None, ob_created = 1000 \<rparr>, \<lparr> ob_id = ''aaaaaaabbbbbbbbb'', ob_kind = OutboxNotification,
         ob_type = ''config.archived'', ob_operation = Some ''op-archive-1'', ob_payload = \<lparr> ev_time
         = 1000, ev_source_ip = [], ev_field_key = [], ev_operation_id = ''op-archive-1'', ev_actor
         = Actor ''user'' ''u1'', ev_action = ''config.archive'', ev_outcome = OutcomeSuccess,
         ev_environment = [], ev_namespace = [], ev_resource_type = ''config'', ev_resource_key =
         ''app'', ev_revision = 0, ev_request_id = None, ev_error_code = None \<rparr>, ob_status =
         Pending, ob_attempts = 0, ob_next = 1000, ob_claimed = None, ob_completed = None, ob_error
         = None, ob_created = 1000 \<rparr>] \<rparr>"

definition sampleRestored :: db where
  "sampleRestored = snd (ApplyConfigLifecycleChange sampleUnarchive sampleEnv2 sampleArchived)"

lemma sampleArchived:
  "ApplyConfigLifecycleChange sampleArchive sampleEnv sampleConfigs =
     (Inr (\<lparr> lr_outcome = OutcomeSuccess, lr_key = ''app'', lr_archived = True \<rparr>, None), sampleArchived)"
  by code_simp

lemma sampleRestored:
  "ApplyConfigLifecycleChange sampleUnarchive sampleEnv2 sampleArchived =
     (Inr (\<lparr> lr_outcome = OutcomeSuccess, lr_key = ''app'', lr_archived = False \<rparr>, None), sampleRestored)"
proof -
  have "fst (ApplyConfigLifecycleChange sampleUnarchive sampleEnv2 sampleArchived) =
      Inr (\<lparr> lr_outcome = OutcomeSuccess, lr_key = ''app'', lr_archived = False \<rparr>, None)" by code_simp
  then show ?thesis by (simp add: sampleRestored_def prod_eq_iff)
qed

theorem unarchive_takes_back_witness: "data sampleRestored = data sampleConfigs"
proof -
  have fresh: "opRow (cl_operation sampleArchive) sampleConfigs = None"
    "opRow (cl_operation sampleUnarchive) sampleArchived = None" by code_simp+
  have "uniqueOn cfg_id (configs sampleConfigs)" by code_simp
  then show ?thesis
    using unarchive_takes_back [OF sampleArchived fresh(1) _ _ refl sampleRestored fresh(2)]
    by (simp add: sampleArchive_def sampleUnarchive_def ConfigArchive_def ConfigUnarchive_def)
qed

end
