(* ===== verification/Outbox.thy ===== *)
theory Outbox
  imports Operations "HOL-Library.Product_Lexorder"
begin

text \<open>
  The outbox as its worker uses it (\<^verbatim>\<open>outbox.go\<close>, \<^verbatim>\<open>audit_recovery.go\<close>):
  events are claimed for a limited time, then completed, retried later or given up. The rows
  form a state machine; every store operation moves them along its steps only.
\<close>

section \<open>Single statements\<close>

text \<open>A statement outside a transaction, as database call number \<^verbatim>\<open>k\<close> of its operation.\<close>

definition auto_exec :: "nat \<Rightarrow> (db \<Rightarrow> db \<times> nat) \<Rightarrow> env \<Rightarrow> db \<Rightarrow> (err + nat) \<times> db" where
  "auto_exec k f env d =
     (if fault env k then (Inl ErrDatabase, if landed env k then fst (f d) else d)
      else (Inr (snd (f d)), fst (f d)))"

definition auto_query :: "nat \<Rightarrow> (db \<Rightarrow> 'a) \<Rightarrow> env \<Rightarrow> db \<Rightarrow> err + 'a" where
  "auto_query k f env d = (if fault env k then Inl ErrDatabase else Inr (f d))"

definition updateEvents :: "(outbox_row \<Rightarrow> bool) \<Rightarrow> (outbox_row \<Rightarrow> outbox_row) \<Rightarrow> db \<Rightarrow> db \<times> nat" where
  "updateEvents p f d = (d\<lparr> outbox := updateWhere p f (outbox d) \<rparr>, countWhere p (outbox d))"

section \<open>Claiming\<close>

record OutboxEvent =
  oe_id :: bytes
  oe_kind :: outbox_kind
  oe_type :: string
  oe_operation :: string
  oe_payload :: event_payload
  oe_attempts :: u32

definition outboxEvent :: "outbox_row \<Rightarrow> OutboxEvent" where
  "outboxEvent r =
     \<lparr> oe_id = ob_id r, oe_kind = ob_kind r, oe_type = ob_type r,
       oe_operation = (case ob_operation r of None \<Rightarrow> [] | Some oid \<Rightarrow> oid),
       oe_payload = ob_payload r, oe_attempts = ob_attempts r \<rparr>"

definition claimable :: "outbox_kind \<Rightarrow> time \<Rightarrow> time \<Rightarrow> outbox_row \<Rightarrow> bool" where
  "claimable kind at cutoff r =
     (ob_kind r = kind \<and>
      ((ob_status r = Pending \<and> ob_next r \<le> at) \<or>
       (ob_status r = Processing \<and> (case ob_claimed r of None \<Rightarrow> False | Some t \<Rightarrow> t \<le> cutoff))))"

text \<open>\<^verbatim>\<open>SKIP LOCKED\<close> leaves out the rows that another transaction holds.\<close>

definition claimRows ::
  "(bytes \<Rightarrow> bool) \<Rightarrow> outbox_kind \<Rightarrow> time \<Rightarrow> time \<Rightarrow> nat \<Rightarrow> db \<Rightarrow> outbox_row list" where
  "claimRows held kind at cutoff limit d =
     take limit (sort_key (\<lambda>r. (ob_created r, ob_id r))
       (filter (\<lambda>r. claimable kind at cutoff r \<and> \<not> held (ob_id r)) (outbox d)))"

text \<open>\<^verbatim>\<open>attempts\<close> is unsigned: the increment of the largest value is out of range.\<close>

definition claimEvent :: "time \<Rightarrow> bytes \<Rightarrow> db \<Rightarrow> db option" where
  "claimEvent at i d =
     (if existsRow (\<lambda>r. ob_id r = i \<and> ob_attempts r = - 1) (outbox d) then None
      else
        Some (d\<lparr> outbox := updateWhere (\<lambda>r. ob_id r = i)
          (\<lambda>r. r\<lparr> ob_status := Processing, ob_attempts := ob_attempts r + 1, ob_claimed := Some at \<rparr>)
          (outbox d) \<rparr>))"

definition claimedEvent :: "outbox_row \<Rightarrow> OutboxEvent" where
  "claimedEvent r = outboxEvent (r\<lparr> ob_attempts := ob_attempts r + 1 \<rparr>)"

definition claimTransaction :: "(bytes \<Rightarrow> bool) \<Rightarrow> outbox_kind \<Rightarrow> int \<Rightarrow> time \<Rightarrow> OutboxEvent list tx" where
  "claimTransaction held kind limit claimTimeout =
     tx_bind (tx_env (\<lambda>env. (db_now env, now env - claimTimeout))) (\<lambda>(at, cutoff).
     tx_bind (tx_query (claimRows held kind at cutoff (nat limit))) (\<lambda>rows.
       if list_ex (\<lambda>r. length (ob_id r) \<noteq> 16) rows then tx_fail ErrInternal
       else
         tx_bind (tx_each (\<lambda>r. tx_exec (claimEvent at (ob_id r))) rows) (\<lambda>_.
         tx_bind tx_commit (\<lambda>_.
         tx_return (map claimedEvent rows)))))"

definition ClaimOutbox ::
  "(bytes \<Rightarrow> bool) \<Rightarrow> outbox_kind \<Rightarrow> int \<Rightarrow> time \<Rightarrow> env \<Rightarrow> db \<Rightarrow> (err + OutboxEvent list) \<times> db" where
  "ClaimOutbox held kind limit claimTimeout env d =
     (if limit < 1 \<or> limit > 1000 \<or> claimTimeout \<le> 0 then (Inl ErrInternal, d)
      else run_tx (claimTransaction held kind limit claimTimeout) env d)"

section \<open>Completing and retrying\<close>

definition claimedRow :: "bytes \<Rightarrow> outbox_row \<Rightarrow> bool" where
  "claimedRow i r = (ob_id r = i \<and> ob_status r = Processing)"

definition changedOne :: "(err + nat) \<times> db \<Rightarrow> (err + unit) \<times> db" where
  "changedOne x =
     (case x of
        (Inl e, d) \<Rightarrow> (Inl e, d)
      | (Inr n, d) \<Rightarrow> (if n \<noteq> 1 then Inl ErrInternal else Inr (), d))"

definition CompleteOutbox :: "bytes \<Rightarrow> env \<Rightarrow> db \<Rightarrow> (err + unit) \<times> db" where
  "CompleteOutbox i env d =
     changedOne (auto_exec 0 (updateEvents (claimedRow i)
       (\<lambda>r. r\<lparr> ob_status := Completed, ob_completed := Some (db_now env), ob_claimed := None,
               ob_error := None \<rparr>)) env d)"

definition RetryOutbox :: "bytes \<Rightarrow> time \<Rightarrow> string \<Rightarrow> bool \<Rightarrow> env \<Rightarrow> db \<Rightarrow> (err + unit) \<times> db" where
  "RetryOutbox i next' errorCode dead env d =
     (if \<not> validOutboxErrorCode errorCode \<or> (\<not> dead \<and> next' = 0) then (Inl ErrInternal, d)
      else
        changedOne (auto_exec 0 (updateEvents (claimedRow i)
          (\<lambda>r. r\<lparr> ob_status := (if dead then Dead else Pending),
                  ob_next := (if dead then now env else next'),
                  ob_claimed := None, ob_error := Some errorCode \<rparr>)) env d))"

section \<open>Recovering rejected audit events\<close>

record AuditRecoveryPage =
  pg_after :: bytes
  pg_done :: bool
  pg_requeued :: int

definition rejectedAudit :: "outbox_row \<Rightarrow> bool" where
  "rejectedAudit r =
     (ob_kind r = OutboxAudit \<and> ob_status r = Dead \<and> ob_error r = Some ''invalid_audit_payload'')"

definition rejectedPage :: "bytes \<Rightarrow> nat \<Rightarrow> db \<Rightarrow> OutboxEvent list" where
  "rejectedPage after limit d =
     map outboxEvent (take limit (sort_key ob_id
       (filter (\<lambda>r. rejectedAudit r \<and> after < ob_id r) (outbox d))))"

definition requeueEvent :: "bytes \<Rightarrow> time \<Rightarrow> db \<Rightarrow> db \<times> nat" where
  "requeueEvent i at =
     updateEvents (\<lambda>r. ob_id r = i \<and> rejectedAudit r)
       (\<lambda>r. r\<lparr> ob_status := Pending, ob_next := at, ob_claimed := None, ob_completed := None,
               ob_error := None \<rparr>)"

text \<open>The loop stops at the first failure, with the cursor where it got to.\<close>

fun requeueEvents ::
  "(OutboxEvent \<Rightarrow> bool) \<Rightarrow> nat \<Rightarrow> OutboxEvent list \<Rightarrow> AuditRecoveryPage \<Rightarrow> env \<Rightarrow> db \<Rightarrow>
   (AuditRecoveryPage \<times> err option) \<times> db" where
  "requeueEvents valid k [] page env d = ((page, None), d)"
| "requeueEvents valid k (e # es) page env d =
     (if valid e then
        (case auto_exec k (requeueEvent (oe_id e) (db_now env)) env d of
           (Inl er, d') \<Rightarrow> ((page, Some er), d')
         | (Inr changed, d') \<Rightarrow>
             requeueEvents valid (k + 1) es
               (page\<lparr> pg_requeued := pg_requeued page + int changed, pg_after := oe_id e \<rparr>) env d')
      else requeueEvents valid k es (page\<lparr> pg_after := oe_id e \<rparr>) env d)"

definition RequeueAuditFailures ::
  "(OutboxEvent \<Rightarrow> bool) \<Rightarrow> bytes \<Rightarrow> int \<Rightarrow> env \<Rightarrow> db \<Rightarrow> (AuditRecoveryPage \<times> err option) \<times> db" where
  "RequeueAuditFailures valid after limit env d =
     (let page = \<lparr> pg_after = after, pg_done = False, pg_requeued = 0 \<rparr> in
      if limit < 1 \<or> limit > 500 then ((page, Some ErrInternal), d)
      else
        (case auto_query 0 (rejectedPage after (nat limit)) env d of
           Inl e \<Rightarrow> ((page, Some e), d)
         | Inr events \<Rightarrow>
             if list_ex (\<lambda>e. length (oe_id e) \<noteq> 16) events then ((page, Some ErrInternal), d)
             else
               (case requeueEvents valid 1 events page env d of
                  ((page', Some er), d') \<Rightarrow> ((page', Some er), d')
                | ((page', None), d') \<Rightarrow>
                    ((page'\<lparr> pg_done := length events < nat limit \<rparr>, None), d'))))"

end
