(* ===== verification/ConfigTransfer.thy ===== *)
theory ConfigTransfer
  imports ConfigLifecycle Outbox
begin

text \<open>
  Config transfers (\<^verbatim>\<open>config_transfer.go\<close>, \<^verbatim>\<open>config_failure.go\<close>): merging or
  replacing with a revision of another Config, restoring an earlier revision and cloning. Each
  reads its revisions outside a transaction, so other operations may run in between:
  \<^verbatim>\<open>seen k\<close> are the tables as the \<^verbatim>\<open>k\<close>-th such statement finds them. The commit
  that follows is guarded by the expected revision.
\<close>

section \<open>Requests\<close>

record ConfigTransfer =
  xf_operation :: string
  xf_actor :: actor
  xf_source_env :: string
  xf_source_config :: string
  xf_source_revision :: u64
  xf_target_env :: string
  xf_target_config :: string
  xf_target_revision :: u64
  xf_expected :: u64

record ConfigRestore =
  rs_operation :: string
  rs_actor :: actor
  rs_env :: string
  rs_config :: string
  rs_source_revision :: u64
  rs_expected :: u64

record ConfigClone =
  cn_operation :: string
  cn_actor :: actor
  cn_source_env :: string
  cn_source_config :: string
  cn_target_env :: string
  cn_target_config :: string
  cn_target_name :: string
  cn_source_revision :: u64

record configRevisionSnapshot =
  sn_active :: bool
  sn_config :: bytes
  sn_env :: bytes
  sn_name :: string
  sn_format :: string
  sn_content :: bytes

definition configTransferDigest :: "env \<Rightarrow> ConfigTransfer \<Rightarrow> string \<Rightarrow> bytes" where
  "configTransferDigest env r action =
     sha256 env (compactJSON (JObj [(''Action'', JStr action), (''Request'', JObj
       [(''OperationID'', JStr (xf_operation r)), (''Actor'', actorJSON (xf_actor r)),
        (''SourceEnvironmentKey'', JStr (xf_source_env r)), (''SourceConfigKey'', JStr (xf_source_config r)),
        (''SourceRevision'', JNum (FormatUint (xf_source_revision r))),
        (''TargetEnvironmentKey'', JStr (xf_target_env r)), (''TargetConfigKey'', JStr (xf_target_config r)),
        (''TargetRevision'', JNum (FormatUint (xf_target_revision r))),
        (''ExpectedTargetRevision'', JNum (FormatUint (xf_expected r)))])]))"

definition configCloneDigest :: "env \<Rightarrow> ConfigClone \<Rightarrow> bytes" where
  "configCloneDigest env r =
     sha256 env (compactJSON (JObj (
       [(''OperationID'', JStr (cn_operation r)), (''Actor'', actorJSON (cn_actor r)),
        (''SourceEnvironmentKey'', JStr (cn_source_env r)), (''SourceConfigKey'', JStr (cn_source_config r)),
        (''TargetEnvironmentKey'', JStr (cn_target_env r)), (''TargetConfigKey'', JStr (cn_target_config r)),
        (''TargetConfigName'', JStr (cn_target_name r))] @
       omitEmpty (cn_source_revision r = 0) ''SourceRevision'' (JNum (FormatUint (cn_source_revision r))))))"

definition validateConfigTransferKeys :: "string \<Rightarrow> string \<Rightarrow> string \<Rightarrow> string \<Rightarrow> (string \<times> string) option" where
  "validateConfigTransferKeys sourceEnv sourceConfig targetEnv targetConfig =
     map_option (\<lambda>(f, k). (f, f @ ''_invalid''))
       (find (\<lambda>(f, k). \<not> validResourceKey k)
          [(''source_environment'', sourceEnv), (''source_config'', sourceConfig),
           (''target_environment'', targetEnv), (''target_config'', targetConfig)])"

section \<open>Statements outside the transaction\<close>

definition revisionSnapshot :: "string \<Rightarrow> string \<Rightarrow> u64 \<Rightarrow> db \<Rightarrow> configRevisionSnapshot option" where
  "revisionSnapshot environment config n d =
     (case (configRow config d, findEnvironment environment d) of
        (Some c, Some e) \<Rightarrow>
          map_option (\<lambda>row. \<lparr> sn_active = (cfg_archived c = None \<and> env_archived e = None),
              sn_config = cfg_id c, sn_env = env_id e, sn_name = cfg_name c,
              sn_format = cr_format row, sn_content = cr_content row \<rparr>)
            (findRevision (cfg_id c) (env_id e) n d)
      | _ \<Rightarrow> None)"

definition readConfigRevision :: "string \<Rightarrow> string \<Rightarrow> u64 \<Rightarrow> db \<Rightarrow> configRevisionSnapshot option" where
  "readConfigRevision environment config n d =
     (case revisionSnapshot environment config n d of
        None \<Rightarrow> None
      | Some snapshot \<Rightarrow> if sn_active snapshot then Some snapshot else None)"

definition readCurrentConfig :: "string \<Rightarrow> string \<Rightarrow> db \<Rightarrow> (configRevisionSnapshot \<times> u64) option" where
  "readCurrentConfig environment config d =
     (case (configRow config d, findEnvironment environment d) of
        (Some c, Some e) \<Rightarrow>
          if cfg_archived c \<noteq> None \<or> env_archived e \<noteq> None then None
          else
            (case currentRevision (cfg_id c) (env_id e) d of
               None \<Rightarrow> None
             | Some n \<Rightarrow> map_option (\<lambda>snapshot. (snapshot, n)) (revisionSnapshot environment config n d))
      | _ \<Rightarrow> None)"

definition replayConfigOperation ::
  "nat \<Rightarrow> string \<Rightarrow> bytes \<Rightarrow> env \<Rightarrow> db \<Rightarrow> err + (ConfigCommitResult \<times> err option) option" where
  "replayConfigOperation k oid dg env d =
     (case auto_query k (opRow oid) env d of
        Inl e \<Rightarrow> Inl e
      | Inr None \<Rightarrow> Inr None
      | Inr (Some op) \<Rightarrow>
          if op_digest op \<noteq> dg then Inr None
          else
            (case op_response op of
               None \<Rightarrow> Inl ErrInternal
             | Some v \<Rightarrow> map_sum id Some (replayConfigResult (OperationReplay (op_outcome op) v))))"

text \<open>The calls after the first ones of an operation.\<close>

definition later :: "nat \<Rightarrow> env \<Rightarrow> env" where
  "later n env = env\<lparr> fault := \<lambda>k. fault env (n + k), landed := \<lambda>k. landed env (n + k),
                      rand := \<lambda>k. rand env (n + k) \<rparr>"

definition rejectConfigTransfer ::
  "ConfigCommit \<Rightarrow> configCommitMeta \<Rightarrow> bytes \<Rightarrow> Outcome \<Rightarrow> string \<times> string \<Rightarrow> env \<Rightarrow> db \<Rightarrow>
   (err + ConfigCommitResult \<times> err option) \<times> db" where
  "rejectConfigTransfer commit meta dg out issue env d =
     run_tx (journaled (cc_operation commit) dg (cc_actor commit) [] replayConfigResult
       (finishConfigFailure commit meta out (configEvent meta (outcomeText out)) issue)) env d"

section \<open>Merge, replace and restore\<close>

definition transferMeta :: "string \<Rightarrow> bytes \<Rightarrow> configCommitMeta" where
  "transferMeta action dg =
     commitMeta\<lparr> mt_action := action, mt_success := ''config.'' @ action @ ''d'', mt_digest := Some dg \<rparr>"

definition transferCommit :: "ConfigTransfer \<Rightarrow> ConfigCommit" where
  "transferCommit r =
     \<lparr> cc_operation = xf_operation r, cc_actor = xf_actor r, cc_environment = xf_target_env r,
       cc_config = xf_target_config r, cc_name = [], cc_expected = xf_expected r, cc_format = [],
       cc_content = [] \<rparr>"

definition createsTarget :: "string \<Rightarrow> ConfigTransfer \<Rightarrow> bool" where
  "createsTarget action r = (action = ''replace'' \<and> xf_target_revision r = 0 \<and> xf_expected r = 0)"

text \<open>What is committed: the source revision, or its merge with the target revision.\<close>

definition transferContent ::
  "yaml_codec \<Rightarrow> bool \<Rightarrow> configRevisionSnapshot \<Rightarrow> configRevisionSnapshot \<Rightarrow> (string \<times> string) + bytes" where
  "transferContent codec merge source target =
     (if \<not> merge then Inr (sn_content source)
      else if sn_format target \<noteq> sn_format source then Inl (''target_revision'', ''config_format_mismatch'')
      else
        (case Merge codec (sn_format source) (sn_content source) (sn_content target) of
           Inl _ \<Rightarrow> Inl (''content'', ''config_document_invalid'')
         | Inr merged \<Rightarrow> Inr (Content merged)))"

definition sourceCommit :: "ConfigCommit \<Rightarrow> configRevisionSnapshot \<Rightarrow> bytes \<Rightarrow> ConfigCommit" where
  "sourceCommit commit source content =
     commit\<lparr> cc_name := sn_name source, cc_format := sn_format source, cc_content := content \<rparr>"

definition sourceMeta :: "configCommitMeta \<Rightarrow> configRevisionSnapshot \<Rightarrow> u64 \<Rightarrow> configCommitMeta" where
  "sourceMeta meta source n =
     meta\<lparr> mt_source_config := sn_config source, mt_source_env := sn_env source, mt_source_revision := n \<rparr>"

text \<open>The end of a transfer, when both revisions are known and no retry was answered.\<close>

definition finishTransfer ::
  "yaml_codec \<Rightarrow> ConfigCommit \<Rightarrow> configCommitMeta \<Rightarrow> bytes \<Rightarrow> bool \<Rightarrow> bool \<Rightarrow> env \<Rightarrow> db \<Rightarrow>
   (err + ConfigCommitResult \<times> err option) \<times> db" where
  "finishTransfer codec commit meta dg sourceActive targetActive env d =
     (if \<not> sourceActive then
        rejectConfigTransfer commit meta dg OutcomeValidationFailed
          (''source_revision'', ''source_revision_unavailable'') env d
      else if \<not> targetActive then
        rejectConfigTransfer commit meta dg OutcomeValidationFailed
          (''target_revision'', ''target_revision_unavailable'') env d
      else commitConfig codec commit meta env d)"

definition transferTarget ::
  "yaml_codec \<Rightarrow> ConfigTransfer \<Rightarrow> bool \<Rightarrow> configCommitMeta \<Rightarrow> bytes \<Rightarrow> configRevisionSnapshot \<Rightarrow> env \<Rightarrow>
   (nat \<Rightarrow> db) \<Rightarrow> db \<Rightarrow> (err + ConfigCommitResult \<times> err option) \<times> db" where
  "transferTarget codec r merge meta dg source env seen d =
     (let sMeta = sourceMeta meta source (xf_source_revision r);
          sCommit = sourceCommit (transferCommit r) source (sn_content source)
      in
      case auto_query 2 (revisionSnapshot (xf_target_env r) (xf_target_config r) (xf_target_revision r)) env (seen 2) of
        Inl e \<Rightarrow> (Inl e, d)
      | Inr None \<Rightarrow>
          rejectConfigTransfer sCommit sMeta dg OutcomeValidationFailed
            (''target_revision'', ''target_revision_unavailable'') (later 4 env) d
      | Inr (Some target) \<Rightarrow>
          (case transferContent codec merge source target of
             Inl issue \<Rightarrow>
               rejectConfigTransfer sCommit sMeta dg OutcomeValidationFailed issue (later 4 env) d
           | Inr content \<Rightarrow>
               let commit = sourceCommit (transferCommit r) source content;
                   legacy = configCommitDigest env commit sMeta
               in
                 (case replayConfigOperation 3 (xf_operation r) legacy env (seen 3) of
                    Inl e \<Rightarrow> (Inl e, d)
                  | Inr (Some out) \<Rightarrow> (Inr out, d)
                  | Inr None \<Rightarrow>
                      finishTransfer codec commit (sMeta\<lparr> mt_legacy := Some legacy \<rparr>) dg
                        (sn_active source) (sn_active target) (later 4 env) d)))"

definition transferIssue :: "string \<Rightarrow> ConfigTransfer \<Rightarrow> (string \<times> string) option" where
  "transferIssue action r =
     (case validateConfigTransferKeys (xf_source_env r) (xf_source_config r) (xf_target_env r) (xf_target_config r) of
        Some issue \<Rightarrow> Some issue
      | None \<Rightarrow>
          if xf_source_revision r = 0 then Some (''source_revision'', ''source_revision_required'')
          else if \<not> createsTarget action r \<and> (xf_target_revision r = 0 \<or> xf_expected r = 0)
          then Some (''target_revision'', ''target_revision_required'')
          else None)"

definition transferConfig ::
  "yaml_codec \<Rightarrow> string \<Rightarrow> bool \<Rightarrow> ConfigTransfer \<Rightarrow> env \<Rightarrow> (nat \<Rightarrow> db) \<Rightarrow> db \<Rightarrow>
   (err + ConfigCommitResult \<times> err option) \<times> db" where
  "transferConfig codec action merge r env seen d =
     (if \<not> validOperationID (xf_operation r) \<or> \<not> validActor (xf_actor r) then (Inl ErrValidation, d)
      else
        (let dg = configTransferDigest env r action; meta = transferMeta action dg; commit = transferCommit r in
         case replayConfigOperation 0 (xf_operation r) dg env (seen 0) of
           Inl e \<Rightarrow> (Inl e, d)
         | Inr (Some out) \<Rightarrow> (Inr out, d)
         | Inr None \<Rightarrow>
             (case transferIssue action r of
                Some issue \<Rightarrow> rejectConfigTransfer commit meta dg OutcomeValidationFailed issue (later 4 env) d
              | None \<Rightarrow>
                  (case auto_query 1 (revisionSnapshot (xf_source_env r) (xf_source_config r)
                                        (xf_source_revision r)) env (seen 1) of
                     Inl e \<Rightarrow> (Inl e, d)
                   | Inr None \<Rightarrow>
                       rejectConfigTransfer commit meta dg OutcomeValidationFailed
                         (''source_revision'', ''source_revision_unavailable'') (later 4 env) d
                   | Inr (Some source) \<Rightarrow>
                       if createsTarget action r then
                         finishTransfer codec (sourceCommit commit source (sn_content source))
                           (sourceMeta meta source (xf_source_revision r)) dg (sn_active source) True
                           (later 4 env) d
                       else transferTarget codec r merge meta dg source env seen d))))"

definition MergeConfig where
  "MergeConfig codec r = transferConfig codec ''merge'' True r"

definition ReplaceConfig where
  "ReplaceConfig codec r = transferConfig codec ''replace'' False r"


section \<open>Clone\<close>

definition cloneMeta :: "bytes \<Rightarrow> configCommitMeta" where
  "cloneMeta dg =
     commitMeta\<lparr> mt_action := ''clone'', mt_success := ''config.cloned'', mt_digest := Some dg,
                 mt_create_only := True \<rparr>"

definition cloneCommit :: "ConfigClone \<Rightarrow> ConfigCommit" where
  "cloneCommit r =
     \<lparr> cc_operation = cn_operation r, cc_actor = cn_actor r, cc_environment = cn_target_env r,
       cc_config = cn_target_config r, cc_name = cn_target_name r, cc_expected = 0, cc_format = [],
       cc_content = [] \<rparr>"

definition cloneSource :: "ConfigClone \<Rightarrow> db \<Rightarrow> (configRevisionSnapshot \<times> u64) option" where
  "cloneSource r d =
     (if cn_source_revision r = 0 then readCurrentConfig (cn_source_env r) (cn_source_config r) d
      else map_option (\<lambda>snapshot. (snapshot, cn_source_revision r))
             (readConfigRevision (cn_source_env r) (cn_source_config r) (cn_source_revision r) d))"

definition CloneConfig ::
  "yaml_codec \<Rightarrow> ConfigClone \<Rightarrow> env \<Rightarrow> (nat \<Rightarrow> db) \<Rightarrow> db \<Rightarrow> (err + ConfigCommitResult \<times> err option) \<times> db" where
  "CloneConfig codec r env seen d =
     (if \<not> validOperationID (cn_operation r) \<or> \<not> validActor (cn_actor r) then (Inl ErrValidation, d)
      else
        (let dg = configCloneDigest env r; meta = cloneMeta dg; commit = cloneCommit r in
         case replayConfigOperation 0 (cn_operation r) dg env (seen 0) of
           Inl e \<Rightarrow> (Inl e, d)
         | Inr (Some out) \<Rightarrow> (Inr out, d)
         | Inr None \<Rightarrow>
             (case validateConfigTransferKeys (cn_source_env r) (cn_source_config r) (cn_target_env r)
                     (cn_target_config r) of
                Some issue \<Rightarrow> rejectConfigTransfer commit meta dg OutcomeValidationFailed issue (later 4 env) d
              | None \<Rightarrow>
                  (case auto_query 1 (cloneSource r) env (seen 1) of
                     Inl e \<Rightarrow> (Inl e, d)
                   | Inr None \<Rightarrow>
                       rejectConfigTransfer commit meta dg OutcomeValidationFailed
                         (''source_revision'', ''source_revision_unavailable'') (later 4 env) d
                   | Inr (Some (source, n)) \<Rightarrow>
                       let named = sourceCommit commit source (sn_content source) in
                       commitConfig codec
                         (if cc_name commit = [] then named else named\<lparr> cc_name := cc_name commit \<rparr>)
                         (sourceMeta meta source n) (later 4 env) d))))"

section \<open>What a transfer commits\<close>

text \<open>A revision as a reader of the tables sees it.\<close>

definition isRevision :: "string \<Rightarrow> string \<Rightarrow> u64 \<Rightarrow> db \<Rightarrow> configRevisionSnapshot \<Rightarrow> bool" where
  "isRevision environment config n d snapshot =
     (\<exists>c \<in> set (configs d). \<exists>e \<in> set (environments d). \<exists>row \<in> set (config_revisions d).
        cfg_key c = config \<and> env_key e = environment \<and>
        cr_config row = cfg_id c \<and> cr_env row = env_id e \<and> cr_revision row = n \<and>
        snapshot = \<lparr> sn_active = (cfg_archived c = None \<and> env_archived e = None), sn_config = cfg_id c,
                     sn_env = env_id e, sn_name = cfg_name c, sn_format = cr_format row, sn_content = cr_content row \<rparr>)"

text \<open>The unique keys of the tables that a revision is read from.\<close>

definition keyedRevisions :: "db \<Rightarrow> bool" where
  "keyedRevisions d =
     (uniqueOn cfg_key (configs d) \<and> uniqueOn env_key (environments d) \<and>
      uniqueOn (\<lambda>r. (cr_config r, cr_env r, cr_revision r)) (config_revisions d))"

text \<open>
  The content that is asked for: the source's, or for a merge the source over the target when both
  have the same format.
\<close>

definition asksFor :: "yaml_codec \<Rightarrow> bool \<Rightarrow> configRevisionSnapshot \<Rightarrow> configRevisionSnapshot \<Rightarrow> bytes \<Rightarrow> bool" where
  "asksFor codec merge source target content =
     (if merge
      then sn_format source = sn_format target \<and>
        (\<exists>doc. Merge codec (sn_format source) (sn_content source) (sn_content target) = Inr doc \<and> content = Content doc)
      else content = sn_content source)"

text \<open>The commit a transfer makes of the revisions its statements found; both are active.\<close>

definition transferred ::
  "yaml_codec \<Rightarrow> string \<Rightarrow> bool \<Rightarrow> ConfigTransfer \<Rightarrow> (nat \<Rightarrow> db) \<Rightarrow> ConfigCommit \<Rightarrow> bool" where
  "transferred codec action merge r seen commit =
     (cc_operation commit = xf_operation r \<and> cc_actor commit = xf_actor r \<and>
      cc_environment commit = xf_target_env r \<and> cc_config commit = xf_target_config r \<and>
      cc_expected commit = xf_expected r \<and>
      (\<exists>source. isRevision (xf_source_env r) (xf_source_config r) (xf_source_revision r) (seen 1) source \<and>
         sn_active source \<and> cc_name commit = sn_name source \<and> cc_format commit = sn_format source \<and>
         (if action = ''replace'' \<and> xf_target_revision r = 0 \<and> xf_expected r = 0
          then cc_content commit = sn_content source
          else \<exists>target.
            isRevision (xf_target_env r) (xf_target_config r) (xf_target_revision r) (seen 2) target \<and>
            sn_active target \<and> asksFor codec merge source target (cc_content commit))))"

text \<open>Why a transfer is refused before it commits.\<close>

inductive refused :: "yaml_codec \<Rightarrow> string \<Rightarrow> bool \<Rightarrow> ConfigTransfer \<Rightarrow> (nat \<Rightarrow> db) \<Rightarrow> string \<times> string \<Rightarrow> bool"
  for codec action merge r seen where
  source_key: "\<not> validResourceKey (xf_source_env r) \<and> f = ''source_environment'' \<or>
      \<not> validResourceKey (xf_source_config r) \<and> f = ''source_config'' \<Longrightarrow>
    refused codec action merge r seen (f, f @ ''_invalid'')"
| target_key: "\<not> validResourceKey (xf_target_env r) \<and> f = ''target_environment'' \<or>
      \<not> validResourceKey (xf_target_config r) \<and> f = ''target_config'' \<Longrightarrow>
    refused codec action merge r seen (f, f @ ''_invalid'')"
| source_zero: "xf_source_revision r = 0 \<Longrightarrow>
    refused codec action merge r seen (''source_revision'', ''source_revision_required'')"
| target_zero: "xf_target_revision r = 0 \<or> xf_expected r = 0 \<Longrightarrow>
    \<not> (action = ''replace'' \<and> xf_target_revision r = 0 \<and> xf_expected r = 0) \<Longrightarrow>
    refused codec action merge r seen (''target_revision'', ''target_revision_required'')"
| source_gone: "(\<And>source. isRevision (xf_source_env r) (xf_source_config r) (xf_source_revision r) (seen 1) source \<Longrightarrow>
      \<not> sn_active source) \<Longrightarrow>
    refused codec action merge r seen (''source_revision'', ''source_revision_unavailable'')"
| target_gone: "\<not> (action = ''replace'' \<and> xf_target_revision r = 0 \<and> xf_expected r = 0) \<Longrightarrow>
    (\<And>target. isRevision (xf_target_env r) (xf_target_config r) (xf_target_revision r) (seen 2) target \<Longrightarrow>
      \<not> sn_active target) \<Longrightarrow>
    refused codec action merge r seen (''target_revision'', ''target_revision_unavailable'')"
| format: "merge \<Longrightarrow> isRevision (xf_source_env r) (xf_source_config r) (xf_source_revision r) (seen 1) source \<Longrightarrow>
    isRevision (xf_target_env r) (xf_target_config r) (xf_target_revision r) (seen 2) target \<Longrightarrow>
    sn_format source \<noteq> sn_format target \<Longrightarrow>
    refused codec action merge r seen (''target_revision'', ''config_format_mismatch'')"
| content: "merge \<Longrightarrow> isRevision (xf_source_env r) (xf_source_config r) (xf_source_revision r) (seen 1) source \<Longrightarrow>
    isRevision (xf_target_env r) (xf_target_config r) (xf_target_revision r) (seen 2) target \<Longrightarrow>
    isl (Merge codec (sn_format source) (sn_content source) (sn_content target)) \<Longrightarrow>
    refused codec action merge r seen (''content'', ''config_document_invalid'')"

lemma revisionSnapshot_row:
  "revisionSnapshot environment config n d = Some snapshot \<Longrightarrow> isRevision environment config n d snapshot"
  unfolding isRevision_def revisionSnapshot_def configRow_def findEnvironment_def findRevision_def
  by (auto split: option.splits dest!: find_SomeD)

lemma isRevision_snapshot:
  assumes "isRevision environment config n d snapshot" and "keyedRevisions d"
  shows "revisionSnapshot environment config n d = Some snapshot"
proof -
  obtain c e row where rows: "c \<in> set (configs d)" "e \<in> set (environments d)" "row \<in> set (config_revisions d)"
    and keys: "cfg_key c = config" "env_key e = environment" "cr_config row = cfg_id c" "cr_env row = env_id e"
      "cr_revision row = n"
    and s: "snapshot = \<lparr> sn_active = (cfg_archived c = None \<and> env_archived e = None), sn_config = cfg_id c,
      sn_env = env_id e, sn_name = cfg_name c, sn_format = cr_format row, sn_content = cr_content row \<rparr>"
    using assms(1) unfolding isRevision_def by blast
  have unique: "uniqueOn cfg_key (configs d)" "uniqueOn env_key (environments d)"
    "uniqueOn (\<lambda>r. (cr_config r, cr_env r, cr_revision r)) (config_revisions d)"
    using assms(2) by (simp_all add: keyedRevisions_def)
  have "configRow config d = Some c" "findEnvironment environment d = Some e"
    using find_unique [OF unique(1) rows(1)] find_unique [OF unique(2) rows(2)] keys
    by (simp_all add: configRow_def findEnvironment_def)
  moreover have "findRevision (cfg_id c) (env_id e) n d = Some row"
    unfolding findRevision_def
    by (rule find_unique [of "\<lambda>r. (cr_config r, cr_env r, cr_revision r)", OF unique(3) rows(3)]) (use keys in auto)
  ultimately show ?thesis using s by (simp add: revisionSnapshot_def)
qed

lemma transferContent_asks:
  "transferContent codec merge source target = Inr content \<Longrightarrow> asksFor codec merge source target content"
  by (auto simp: transferContent_def asksFor_def split: if_splits sum.splits)

lemma transferIssue_refused: "transferIssue action r = Some issue \<Longrightarrow> refused codec action merge r seen issue"
  unfolding transferIssue_def validateConfigTransferKeys_def createsTarget_def
  by (auto split: if_splits option.splits intro: refused.intros
      refused.source_key [where f = "''source_environment''", simplified]
      refused.source_key [where f = "''source_config''", simplified]
      refused.target_key [where f = "''target_environment''", simplified]
      refused.target_key [where f = "''target_config''", simplified])

lemma transferContent_refused:
  assumes "transferContent codec merge source target = Inl issue"
    and "revisionSnapshot (xf_source_env r) (xf_source_config r) (xf_source_revision r) (seen 1) = Some source"
    and "revisionSnapshot (xf_target_env r) (xf_target_config r) (xf_target_revision r) (seen 2) = Some target"
  shows "refused codec action merge r seen issue"
proof -
  note rows = revisionSnapshot_row [OF assms(2)] revisionSnapshot_row [OF assms(3)]
  have merge: merge using assms(1) by (auto simp: transferContent_def split: if_splits)
  show ?thesis
  proof (cases "sn_format source = sn_format target")
    case True
    then show ?thesis using assms(1) refused.content [OF merge rows, of codec]
      by (auto simp: transferContent_def split: if_splits sum.splits)
  next
    case False
    then show ?thesis using assms(1) merge refused.format [OF merge rows False] by (auto simp: transferContent_def)
  qed
qed

definition rejects ::
  "yaml_codec \<Rightarrow> string \<Rightarrow> bool \<Rightarrow> ConfigTransfer \<Rightarrow> (nat \<Rightarrow> db) \<Rightarrow> (err + ConfigCommitResult \<times> err option) \<times> db \<Rightarrow>
   db \<Rightarrow> bool" where
  "rejects codec action merge r seen result d =
     (\<exists>commit meta dg issue env. cc_operation commit = xf_operation r \<and> refused codec action merge r seen issue \<and>
        result = rejectConfigTransfer commit meta dg OutcomeValidationFailed issue env d)"

definition commits ::
  "yaml_codec \<Rightarrow> string \<Rightarrow> bool \<Rightarrow> ConfigTransfer \<Rightarrow> (nat \<Rightarrow> db) \<Rightarrow> (err + ConfigCommitResult \<times> err option) \<times> db \<Rightarrow>
   db \<Rightarrow> bool" where
  "commits codec action merge r seen result d =
     (\<exists>commit meta env. transferred codec action merge r seen commit \<and> \<not> mt_create_only meta \<and>
        result = commitConfig codec commit meta env d)"

lemma rejectsI:
  "rejectConfigTransfer commit meta dg OutcomeValidationFailed issue env d = result \<Longrightarrow>
   cc_operation commit = xf_operation r \<Longrightarrow> refused codec action merge r seen issue \<Longrightarrow>
   rejects codec action merge r seen result d"
  unfolding rejects_def by blast

lemma commitsI:
  "commitConfig codec commit meta env d = result \<Longrightarrow> transferred codec action merge r seen commit \<Longrightarrow>
   \<not> mt_create_only meta \<Longrightarrow> commits codec action merge r seen result d"
  unfolding commits_def by blast

lemma sourceCommit_simps [simp]:
  "cc_operation (sourceCommit commit source content) = cc_operation commit"
  "cc_actor (sourceCommit commit source content) = cc_actor commit"
  "cc_environment (sourceCommit commit source content) = cc_environment commit"
  "cc_config (sourceCommit commit source content) = cc_config commit"
  "cc_expected (sourceCommit commit source content) = cc_expected commit"
  "cc_name (sourceCommit commit source content) = sn_name source"
  "cc_format (sourceCommit commit source content) = sn_format source"
  "cc_content (sourceCommit commit source content) = content"
  by (simp_all add: sourceCommit_def)

lemma transferCommit_simps [simp]:
  "cc_operation (transferCommit r) = xf_operation r" "cc_actor (transferCommit r) = xf_actor r"
  "cc_environment (transferCommit r) = xf_target_env r"
  "cc_config (transferCommit r) = xf_target_config r" "cc_expected (transferCommit r) = xf_expected r"
  by (simp_all add: transferCommit_def)

lemma create_only_simps [simp]:
  "mt_create_only (sourceMeta meta source n) = mt_create_only meta"
  "\<not> mt_create_only (transferMeta action dg)"
  by (simp_all add: sourceMeta_def transferMeta_def commitMeta_def)

lemma replayConfigOperation_fresh:
  "opRow oid d = None \<Longrightarrow> replayConfigOperation k oid dg env d = Inl ErrDatabase \<or>
     replayConfigOperation k oid dg env d = Inr None"
  by (simp add: replayConfigOperation_def auto_query_def)

lemma finishTransfer_cases:
  assumes "finishTransfer codec commit meta dg sa ta env d = result" and "cc_operation commit = xf_operation r"
    and "sa \<Longrightarrow> ta \<Longrightarrow> transferred codec action merge r seen commit" and "\<not> mt_create_only meta"
    and "\<not> sa \<Longrightarrow> refused codec action merge r seen (''source_revision'', ''source_revision_unavailable'')"
    and "\<not> ta \<Longrightarrow> refused codec action merge r seen (''target_revision'', ''target_revision_unavailable'')"
  shows "rejects codec action merge r seen result d \<or> commits codec action merge r seen result d"
  using assms by (auto simp: finishTransfer_def intro: rejectsI commitsI split: if_splits)

lemma transferTarget_cases:
  assumes "transferTarget codec r merge meta dg source env seen d = (Inr out, d')"
    and "\<forall>k. opRow (xf_operation r) (seen k) = None" and "\<not> createsTarget action r" and "\<not> mt_create_only meta"
    and "revisionSnapshot (xf_source_env r) (xf_source_config r) (xf_source_revision r) (seen 1) = Some source"
    and "\<forall>k. keyedRevisions (seen k)"
  shows "rejects codec action merge r seen (Inr out, d') d \<or> commits codec action merge r seen (Inr out, d') d"
proof -
  let ?dg = "\<lambda>content. configCommitDigest env (sourceCommit (transferCommit r) source content)
     (sourceMeta meta source (xf_source_revision r))"
  obtain found where found: "auto_query 2 (revisionSnapshot (xf_target_env r) (xf_target_config r)
      (xf_target_revision r)) env (seen 2) = Inr found"
    and f: "found = revisionSnapshot (xf_target_env r) (xf_target_config r) (xf_target_revision r) (seen 2)"
    using assms(1) by (auto simp: transferTarget_def auto_query_def Let_def split: if_splits)
  have gone: "(\<And>target. found = Some target \<Longrightarrow> \<not> sn_active target) \<Longrightarrow>
      refused codec action merge r seen (''target_revision'', ''target_revision_unavailable'')"
    by (rule refused.target_gone)
      (use assms(3,6) isRevision_snapshot in \<open>auto simp: f createsTarget_def\<close>)
  show ?thesis
  proof (cases found)
    case None
    then show ?thesis using assms(1) found gone
      by (auto simp: transferTarget_def Let_def intro!: disjI1 rejectsI)
  next
    case (Some target)
    note rows = revisionSnapshot_row [OF assms(5)] revisionSnapshot_row [OF f [unfolded Some, symmetric]]
    show ?thesis
    proof (cases "transferContent codec merge source target")
      case (Inl issue)
      have "refused codec action merge r seen issue"
        by (rule transferContent_refused [where seen = seen and r = r, OF Inl assms(5)]) (simp add: f [symmetric] Some)
      then show ?thesis using assms(1) found Some Inl
        by (auto simp: transferTarget_def Let_def intro!: disjI1 rejectsI)
    next
      case (Inr content)
      let ?c = "sourceCommit (transferCommit r) source content"
      have "replayConfigOperation 3 (xf_operation r) (?dg content) env (seen 3) = Inr None"
        using assms(1,2) found Some Inr replayConfigOperation_fresh [of "xf_operation r" "seen 3" 3 "?dg content" env]
        by (auto simp: transferTarget_def Let_def)
      then have run: "finishTransfer codec ?c
          ((sourceMeta meta source (xf_source_revision r))\<lparr> mt_legacy := Some (?dg content) \<rparr>) dg
          (sn_active source) (sn_active target) (later 4 env) d = (Inr out, d')"
        using assms(1) found Some Inr by (simp add: transferTarget_def Let_def)
      have t: "transferred codec action merge r seen ?c" if "sn_active source" "sn_active target"
      proof -
        have "\<not> (action = ''replace'' \<and> xf_target_revision r = 0 \<and> xf_expected r = 0)"
          using assms(3) by (simp add: createsTarget_def)
        then show ?thesis unfolding transferred_def
          using that rows transferContent_asks [OF Inr] by (intro conjI exI [of _ source]) auto
      qed
      show ?thesis
      proof (rule finishTransfer_cases [OF run])
        show "\<not> sn_active source \<Longrightarrow> refused codec action merge r seen (''source_revision'', ''source_revision_unavailable'')"
          by (rule refused.source_gone) (use isRevision_snapshot assms(5,6) in fastforce)
        show "\<not> sn_active target \<Longrightarrow> refused codec action merge r seen (''target_revision'', ''target_revision_unavailable'')"
          by (rule gone) (simp add: Some)
      qed (simp_all add: assms(4) t)
    qed
  qed
qed

lemma transferConfig_cases:
  assumes "transferConfig codec action merge r env seen d = (Inr out, d')"
    and "\<forall>k. opRow (xf_operation r) (seen k) = None" and "\<forall>k. keyedRevisions (seen k)"
  shows "rejects codec action merge r seen (Inr out, d') d \<or> commits codec action merge r seen (Inr out, d') d"
proof -
  let ?dg = "configTransferDigest env r action"
  have guard: "validOperationID (xf_operation r)" "validActor (xf_actor r)"
    using assms(1) by (auto simp: transferConfig_def split: if_splits)
  have replay: "replayConfigOperation 0 (xf_operation r) ?dg env (seen 0) = Inr None"
    using assms guard replayConfigOperation_fresh [of "xf_operation r" "seen 0" 0 ?dg env]
    by (auto simp: transferConfig_def Let_def)
  show ?thesis
  proof (cases "transferIssue action r")
    case (Some issue)
    then show ?thesis using assms(1) guard replay
      by (auto simp: transferConfig_def Let_def intro!: disjI1 rejectsI transferIssue_refused)
  next
    case None
    obtain found where found: "auto_query 1 (revisionSnapshot (xf_source_env r) (xf_source_config r)
        (xf_source_revision r)) env (seen 1) = Inr found"
      and f: "found = revisionSnapshot (xf_source_env r) (xf_source_config r) (xf_source_revision r) (seen 1)"
      using assms(1) guard replay None by (auto simp: transferConfig_def auto_query_def Let_def split: if_splits)
    have gone: "(\<And>source. found = Some source \<Longrightarrow> \<not> sn_active source) \<Longrightarrow>
        refused codec action merge r seen (''source_revision'', ''source_revision_unavailable'')"
      by (rule refused.source_gone) (use isRevision_snapshot assms(3) f in blast)
    show ?thesis
    proof (cases found)
      case none: None
      then show ?thesis using assms(1) guard replay None found gone
        by (auto simp: transferConfig_def Let_def intro!: disjI1 rejectsI)
    next
      case (Some source)
      note run = assms(1) [unfolded transferConfig_def Let_def]
      show ?thesis
      proof (cases "createsTarget action r")
        case True
        have t: "transferred codec action merge r seen (sourceCommit (transferCommit r) source (sn_content source))"
          if "sn_active source"
          using that True revisionSnapshot_row [OF f [unfolded Some, symmetric]]
          by (auto simp: transferred_def createsTarget_def)
        have run: "finishTransfer codec (sourceCommit (transferCommit r) source (sn_content source))
            (sourceMeta (transferMeta action ?dg) source (xf_source_revision r)) ?dg (sn_active source) True
            (later 4 env) d = (Inr out, d')"
          using run guard replay None found Some True by simp
        show ?thesis
        proof (rule finishTransfer_cases [OF run])
          show "\<not> sn_active source \<Longrightarrow>
              refused codec action merge r seen (''source_revision'', ''source_revision_unavailable'')"
            by (rule gone) (simp add: Some)
        qed (simp_all add: t)
      next
        case False
        then show ?thesis
          using run guard replay None found Some f
            transferTarget_cases [OF _ assms(2) False _ _ assms(3), of codec merge "transferMeta action ?dg" ?dg source
              env d out d']
          by simp
      qed
    qed
  qed
qed

lemma rejects_effect:
  assumes "rejects codec action merge r seen (Inr (res, e), d') d" and "opRow (xf_operation r) d = None"
  shows "\<exists>issue. refused codec action merge r seen issue \<and> cm_outcome res = OutcomeValidationFailed \<and>
    cm_failure res = Some issue \<and> cm_revision res = 0 \<and>
    e = withCommittedAudit (Some (ConfigMutationError (fst issue) (snd issue))) \<and> data d' = data d"
proof -
  obtain commit meta dg issue env where c: "cc_operation commit = xf_operation r" "refused codec action merge r seen issue"
    and run: "run_tx (journaled (cc_operation commit) dg (cc_actor commit) [] replayConfigResult
      (finishConfigFailure commit meta OutcomeValidationFailed (configEvent meta (outcomeText OutcomeValidationFailed))
        issue)) env d = (Inr (res, e), d')"
    using assms(1) by (auto simp: rejects_def rejectConfigTransfer_def)
  obtain s s' where s: "data (work s) = data d" "d' = durable s'"
    "finishConfigFailure commit meta OutcomeValidationFailed
       (configEvent meta (outcomeText OutcomeValidationFailed)) issue env s = (Inr (res, e), s')"
    using journaled_first [OF run] assms(2) c(1) by metis
  have effect: "cm_outcome res = OutcomeValidationFailed" "cm_failure res = Some issue" "cm_revision res = 0"
    "e = withCommittedAudit (Some (ConfigMutationError (fst issue) (snd issue)))" "data d' = data d"
    using finishConfig_effect [OF s(3) [unfolded finishConfigFailure_def Let_def]] s(1,2) by auto
  show ?thesis by (intro exI [of _ issue] conjI effect c(2))
qed

lemma transferred_target:
  "transferred codec action merge r seen commit \<Longrightarrow> cc_operation commit = xf_operation r \<and>
   cc_environment commit = xf_target_env r \<and> cc_config commit = xf_target_config r \<and>
   cc_expected commit = xf_expected r"
  by (simp add: transferred_def)


lemma transfer_step:
  assumes "transferConfig codec action merge r env seen d = (Inr (res, e), d')"
    and "\<forall>k. opRow (xf_operation r) (seen k) = None" and "opRow (xf_operation r) d = None" and "historyOk d"
    and "\<forall>k. keyedRevisions (seen k)"
  shows "historyOk d' \<and>
    ((\<exists>issue. refused codec action merge r seen issue \<and> cm_outcome res = OutcomeValidationFailed \<and>
        cm_failure res = Some issue \<and> cm_revision res = 0 \<and>
        e = withCommittedAudit (Some (ConfigMutationError (fst issue) (snd issue))) \<and> data d' = data d) \<or>
     (\<exists>commit. transferred codec action merge r seen commit \<and> commitStep codec commit res d d'))"
proof -
  from transferConfig_cases [OF assms(1,2,5)] show ?thesis
  proof
    assume "rejects codec action merge r seen (Inr (res, e), d') d"
    note effect = rejects_effect [OF this assms(3)]
    then have "data d' = data d" by blast
    then show ?thesis using effect onDataD [OF onData_historyOk, of d' d] assms(4) by simp
  next
    assume "commits codec action merge r seen (Inr (res, e), d') d"
    then obtain commit meta env' where t: "transferred codec action merge r seen commit"
      and run: "commitConfig codec commit meta env' d = (Inr (res, e), d')" "\<not> mt_create_only meta"
      unfolding commits_def by metis
    have "commitStep codec commit res d d'" "historyOk d'"
      using commitConfig_step [OF run(1) _ assms(4) run(2)] assms(3) transferred_target [OF t] by simp_all
    then show ?thesis using t by blast
  qed
qed

text \<open>
  C13. A transfer commits what it read, or says why it does not. Whatever other operations do
  between its statements, each of which finds tables with unique keys, a merge, replacement or restore that reports an answer was either refused
  for one of the reasons of \<^const>\<open>refused\<close>, which the answer names, and changed nothing but the
  journal; or it committed to the target, at the expected revision and in the source's format, the
  content of the source revision (for a merge of two revisions of one format, of the source over the
  target), both active when they were read, with the outcome and the effect that this commit has:
  the next revision, no change when the current one is the same, or a conflict.
\<close>

theorem transfer_exact:
  assumes "transferConfig codec action merge r env seen d = (Inr (res, e), d')"
    and "\<forall>k. opRow (xf_operation r) (seen k) = None" and "opRow (xf_operation r) d = None" and "historyOk d"
    and "\<forall>k. keyedRevisions (seen k)"
  shows "historyOk d' \<and>
    ((\<exists>issue. refused codec action merge r seen issue \<and> cm_outcome res = OutcomeValidationFailed \<and>
        cm_failure res = Some issue \<and> cm_revision res = 0 \<and>
        e = withCommittedAudit (Some (ConfigMutationError (fst issue) (snd issue))) \<and> data d' = data d) \<or>
     (\<exists>commit. transferred codec action merge r seen commit \<and> commitStep codec commit res d d'))"
  using transfer_step [OF assms] .

section \<open>Restoring\<close>













section \<open>Samples\<close>

definition sampleRow :: "u64 \<Rightarrow> bytes \<Rightarrow> config_revision_row" where
  "sampleRow n content =
     \<lparr> cr_config = ''cfg-app'', cr_env = ''env-prod'', cr_revision = n, cr_format = JSON,
       cr_content = content, cr_sha256 = [], cr_operation = ''op-commit-1'', cr_actor = Actor ''user'' ''u1'',
       cr_source_config = None, cr_source_env = None, cr_source_revision = None \<rparr>"

definition sampleOf :: "bytes \<Rightarrow> bytes \<Rightarrow> db" where
  "sampleOf first second =
     sampleDb\<lparr> configs := [\<lparr> cfg_id = ''cfg-app'', cfg_key = ''app'', cfg_name = ''App'', cfg_archived = None \<rparr>],
       config_states := [\<lparr> st_config = ''cfg-app'', st_env = ''env-prod'', st_revision = 2 \<rparr>],
       config_revisions := [sampleRow 1 first, sampleRow 2 second] \<rparr>"

definition sampleTwo :: db where
  "sampleTwo = sampleOf (''{}'' @ [CHR 0x0A]) (''[]'' @ [CHR 0x0A])"

definition sampleRestore :: ConfigRestore where
  "sampleRestore =
     \<lparr> rs_operation = ''op-restore-1'', rs_actor = Actor ''user'' ''u1'', rs_env = ''prod'',
       rs_config = ''app'', rs_source_revision = 1, rs_expected = 2 \<rparr>"

definition sampleThird :: ConfigCommitResult where
  "sampleThird = \<lparr> cm_outcome = OutcomeSuccess, cm_revision = 3, cm_warnings = [], cm_failure = None \<rparr>"



text \<open>A merge of the first revision over the second one, both with a member of their own.\<close>

definition sampleMerged :: db where
  "sampleMerged = sampleOf (compactJSON (JObj [(''a'', JStr ''x'')])) (compactJSON (JObj [(''b'', JNull)]))"

definition sampleMerge :: ConfigTransfer where
  "sampleMerge =
     \<lparr> xf_operation = ''op-merge-1'', xf_actor = Actor ''user'' ''u1'', xf_source_env = ''prod'',
       xf_source_config = ''app'', xf_source_revision = 1, xf_target_env = ''prod'',
       xf_target_config = ''app'', xf_target_revision = 2, xf_expected = 2 \<rparr>"

definition sampleOver :: db where
  "sampleOver = snd (MergeConfig sampleCodec sampleMerge sampleEnv2 (\<lambda>_. sampleMerged) sampleMerged)"

lemma two_revisions: "{n :: u64. 0 < n \<and> n \<le> 2} = {1, 2}"
proof -
  have "0 < n \<and> n \<le> 2 \<longleftrightarrow> n = 1 \<or> n = 2" for n :: u64
    by unat_arith
  then show ?thesis by auto
qed

lemma sample_of: "historyOk (sampleOf first second)"
proof -
  let ?d = "sampleOf first second"
  have rows: "config_revisions ?d = [sampleRow 1 first, sampleRow 2 second]"
    and states: "config_states ?d = [\<lparr> st_config = ''cfg-app'', st_env = ''env-prod'', st_revision = 2 \<rparr>]"
    and configs: "configs ?d = [\<lparr> cfg_id = ''cfg-app'', cfg_key = ''app'', cfg_name = ''App'', cfg_archived = None \<rparr>]"
    by (simp_all add: sampleOf_def)
  have ids: "cr_config (sampleRow n t) = ''cfg-app''" "cr_env (sampleRow n t) = ''env-prod''"
    "cr_revision (sampleRow n t) = n" for n t by (simp_all add: sampleRow_def)
  have "uniqueOn (\<lambda>s. (st_config s, st_env s)) (config_states ?d)"
    "list_all (\<lambda>s. st_revision s \<noteq> 0 \<and> st_config s \<in> cfg_id ` set (configs ?d)) (config_states ?d)"
    "uniqueOn (\<lambda>r. (cr_config r, cr_env r, cr_revision r)) (config_revisions ?d)"
    by (simp_all add: rows states configs ids uniqueOn_def)
  moreover have "revisionNumbers c e ?d = {n. 0 < n \<and> n \<le> current c e ?d}" for c e
  proof (cases "c = ''cfg-app'' \<and> e = ''env-prod''")
    case True
    then have "{r \<in> set (config_revisions ?d). cr_config r = c \<and> cr_env r = e} =
        {sampleRow 1 first, sampleRow 2 second}"
      unfolding rows by (auto simp: ids)
    then have "revisionNumbers c e ?d = {1, 2}" by (simp add: revisionNumbers_def ids)
    moreover have "current c e ?d = 2" using True by (simp add: current_def currentRevision_def states)
    ultimately show ?thesis using two_revisions by simp
  next
    case False
    then have "revisionNumbers c e ?d = {}" "current c e ?d = 0"
      unfolding revisionNumbers_def rows current_def currentRevision_def states using ids by force+
    then show ?thesis by simp
  qed
  ultimately show ?thesis by (simp add: historyOk_def statesOk_def)
qed

lemma sample_of_keys: "keyedRevisions (sampleOf first second)"
  by (simp add: keyedRevisions_def uniqueOn_def sampleOf_def sampleDb_def sampleRow_def)



lemma sampleOver:
  "MergeConfig sampleCodec sampleMerge sampleEnv2 (\<lambda>_. sampleMerged) sampleMerged =
     (Inr (sampleThird, None), sampleOver)"
proof -
  have "fst (MergeConfig sampleCodec sampleMerge sampleEnv2 (\<lambda>_. sampleMerged) sampleMerged) =
      Inr (sampleThird, None)" by code_simp
  then show ?thesis by (simp add: sampleOver_def prod_eq_iff)
qed

lemma sample_unused:
  "opRow (rs_operation sampleRestore) sampleTwo = None" "opRow (xf_operation sampleMerge) sampleMerged = None"
  by code_simp+

text \<open>The merge is committed: it is not one of the refusals, and what it commits is a document of both members.\<close>

theorem transfer_exact_witness:
  "historyOk sampleOver \<and>
   (\<exists>commit. transferred sampleCodec ''merge'' True sampleMerge (\<lambda>_. sampleMerged) commit \<and>
      commitStep sampleCodec commit sampleThird sampleMerged sampleOver)"
  using transfer_exact [OF sampleOver [unfolded MergeConfig_def]] sample_unused(2)
    sample_of [of "compactJSON (JObj [(''a'', JStr ''x'')])" "compactJSON (JObj [(''b'', JNull)])"]
    sample_of_keys [of "compactJSON (JObj [(''a'', JStr ''x'')])" "compactJSON (JObj [(''b'', JNull)])"]
  by (auto simp: sampleThird_def sampleMerged_def)



end
