(* ===== verification/OutboxSteps.thy ===== *)
theory OutboxSteps
  imports Outbox "HOL-Library.Sublist"
begin

text \<open>
  The state machine of the outbox rows and its invariant; every operation of
  \<^verbatim>\<open>outbox.go\<close> and \<^verbatim>\<open>audit_recovery.go\<close> moves the rows along its steps, whatever
  fails, and an event that is due can be claimed.
\<close>

section \<open>The steps of a row\<close>

inductive outbox_step :: "outbox_row \<Rightarrow> outbox_row \<Rightarrow> bool" where
  claim: "ob_status r = Pending \<or> ob_status r = Processing \<Longrightarrow> ob_attempts r \<noteq> - 1 \<Longrightarrow>
    outbox_step r (r\<lparr> ob_status := Processing, ob_attempts := ob_attempts r + 1, ob_claimed := Some at \<rparr>)"
| complete: "ob_status r = Processing \<Longrightarrow>
    outbox_step r (r\<lparr> ob_status := Completed, ob_completed := Some at, ob_claimed := None, ob_error := None \<rparr>)"
| retry: "ob_status r = Processing \<Longrightarrow> validOutboxErrorCode code \<Longrightarrow>
    outbox_step r (r\<lparr> ob_status := Pending, ob_next := at, ob_claimed := None, ob_error := Some code \<rparr>)"
| give_up: "ob_status r = Processing \<Longrightarrow> validOutboxErrorCode code \<Longrightarrow>
    outbox_step r (r\<lparr> ob_status := Dead, ob_next := at, ob_claimed := None, ob_error := Some code \<rparr>)"
| requeue: "rejectedAudit r \<Longrightarrow>
    outbox_step r (r\<lparr> ob_status := Pending, ob_next := at, ob_claimed := None, ob_completed := None,
      ob_error := None \<rparr>)"

inductive_cases outbox_stepE: "outbox_step r r'"

lemmas outbox_steps = outbox_step.intros [unfolded rejectedAudit_def]

definition rowOk :: "outbox_row \<Rightarrow> bool" where
  "rowOk r =
     ((ob_status r = Processing \<longleftrightarrow> ob_claimed r \<noteq> None) \<and>
      (ob_status r = Completed \<longleftrightarrow> ob_completed r \<noteq> None) \<and>
      (ob_attempts r = 0 \<longrightarrow> ob_status r = Pending) \<and>
      (ob_status r = Dead \<longrightarrow> ob_error r \<noteq> None) \<and>
      (\<forall>code. ob_error r = Some code \<longrightarrow> validOutboxErrorCode code))"

lemma step_rowOk: "outbox_step r r' \<Longrightarrow> rowOk r \<Longrightarrow> rowOk r'"
  by (elim outbox_stepE) (auto simp: rowOk_def rejectedAudit_def eq_neg_iff_add_eq_0)

lemma step_identity:
  "outbox_step r r' \<Longrightarrow>
   ob_id r' = ob_id r \<and> ob_kind r' = ob_kind r \<and> ob_type r' = ob_type r \<and>
   ob_operation r' = ob_operation r \<and> ob_payload r' = ob_payload r \<and> ob_created r' = ob_created r"
  by (elim outbox_stepE) auto

lemma step_completed: "outbox_step r r' \<Longrightarrow> ob_status r \<noteq> Completed"
  by (elim outbox_stepE) (auto simp: rejectedAudit_def)

lemma steps_rowOk: "outbox_step\<^sup>*\<^sup>* r r' \<Longrightarrow> rowOk r \<Longrightarrow> rowOk r'"
  by (induction rule: rtranclp_induct) (auto intro: step_rowOk)

lemma steps_identity:
  "outbox_step\<^sup>*\<^sup>* r r' \<Longrightarrow>
   ob_id r' = ob_id r \<and> ob_kind r' = ob_kind r \<and> ob_type r' = ob_type r \<and>
   ob_operation r' = ob_operation r \<and> ob_payload r' = ob_payload r \<and> ob_created r' = ob_created r"
  by (induction rule: rtranclp_induct) (auto dest: step_identity)

lemma steps_completed: "outbox_step\<^sup>*\<^sup>* r r' \<Longrightarrow> ob_status r = Completed \<Longrightarrow> r' = r"
  by (induction rule: rtranclp_induct) (auto dest: step_completed)

section \<open>Tables of rows\<close>

definition outboxOk :: "db \<Rightarrow> bool" where
  "outboxOk d = (uniqueOn ob_id (outbox d) \<and> list_all rowOk (outbox d))"

text \<open>Every row moved along the steps, and nothing but the rows changed.\<close>

definition moved :: "db \<Rightarrow> db \<Rightarrow> bool" where
  "moved d d' =
     (list_all2 (outbox_step\<^sup>*\<^sup>*) (outbox d) (outbox d') \<and> d' = d\<lparr> outbox := outbox d' \<rparr>)"

lemma moved_refl [simp]: "moved d d"
  by (simp add: moved_def list_all2_refl)

lemma moved_trans [trans]:
  assumes "moved d d1" and "moved d1 d2"
  shows "moved d d2"
proof -
  have "list_all2 (outbox_step\<^sup>*\<^sup>*) (outbox d) (outbox d2)"
    using list_all2_trans [of "outbox_step\<^sup>*\<^sup>*" "outbox_step\<^sup>*\<^sup>*" "outbox_step\<^sup>*\<^sup>*"
        "outbox d" "outbox d1" "outbox d2"] assms by (auto simp: moved_def)
  moreover have "d2 = d\<lparr> outbox := outbox d2 \<rparr>"
    using assms by (auto simp: moved_def) (metis db.surjective db.update_convs(15) db.ext_inject)
  ultimately show ?thesis by (simp add: moved_def)
qed

lemma moved_updateWhere:
  assumes "\<And>r. r \<in> set (outbox d) \<Longrightarrow> p r \<Longrightarrow> outbox_step r (f r)"
  shows "moved d (d\<lparr> outbox := updateWhere p f (outbox d) \<rparr>)"
proof -
  have "list_all2 (outbox_step\<^sup>*\<^sup>*) rows (updateWhere p f rows)"
    if "\<And>r. r \<in> set rows \<Longrightarrow> p r \<Longrightarrow> outbox_step r (f r)" for rows
    using that by (induction rows) auto
  then show ?thesis using assms by (simp add: moved_def)
qed

lemma list_all2_ids:
  "list_all2 (outbox_step\<^sup>*\<^sup>*) rows rows' \<Longrightarrow> map ob_id rows' = map ob_id rows"
  by (induction rule: list_all2_induct) (auto dest: steps_identity)

lemma list_all2_rowOk:
  "list_all2 (outbox_step\<^sup>*\<^sup>*) rows rows' \<Longrightarrow> list_all rowOk rows \<Longrightarrow> list_all rowOk rows'"
  by (induction rule: list_all2_induct) (auto intro: steps_rowOk)

lemma moved_outboxOk: "moved d d' \<Longrightarrow> outboxOk d \<Longrightarrow> outboxOk d'"
  unfolding moved_def outboxOk_def uniqueOn_def
  using list_all2_ids [of "outbox d" "outbox d'"] list_all2_rowOk [of "outbox d" "outbox d'"] by simp

lemma moved_auto:
  assumes "\<And>r. r \<in> set (outbox d) \<Longrightarrow> p r \<Longrightarrow> outbox_step r (f r)"
  shows "moved d (snd (auto_exec k (updateEvents p f) env d))"
  using moved_updateWhere [of d p f] assms by (auto simp: auto_exec_def updateEvents_def)

lemma snd_changedOne [simp]: "snd (changedOne x) = snd x"
  by (auto simp: changedOne_def split: prod.splits sum.splits)

section \<open>What the operations do to the rows\<close>

lemma CompleteOutbox_moved: "moved d (snd (CompleteOutbox i env d))"
  unfolding CompleteOutbox_def snd_changedOne
  by (rule moved_auto) (simp add: claimedRow_def outbox_steps)

lemma RetryOutbox_moved: "moved d (snd (RetryOutbox i at code dead env d))"
proof (cases "\<not> validOutboxErrorCode code \<or> (\<not> dead \<and> at = 0)")
  case True
  then show ?thesis by (auto simp: RetryOutbox_def)
next
  case False
  then show ?thesis unfolding RetryOutbox_def if_not_P [OF False] snd_changedOne
    by (intro moved_auto) (auto simp: claimedRow_def outbox_steps)
qed

lemma requeueEvent_moved: "moved d (snd (auto_exec k (requeueEvent i at) env d))"
  unfolding requeueEvent_def by (rule moved_auto) (auto intro: outbox_step.requeue)

lemma requeueEvents_moved: "moved d (snd (requeueEvents valid k es page env d))"
proof (induction valid k es page env d rule: requeueEvents.induct)
  case (2 valid k e es page env d)
  then show ?case
    using requeueEvent_moved [of d k "oe_id e" "db_now env" env]
    by (auto split: prod.splits sum.splits intro: moved_trans)
qed simp

lemma RequeueAuditFailures_moved: "moved d (snd (RequeueAuditFailures valid after limit env d))"
  by (auto simp: RequeueAuditFailures_def Let_def split: sum.splits prod.splits option.splits)
    (metis requeueEvents_moved snd_conv)+

text \<open>The rows a claim updates are the ones it selected.\<close>

definition claimRow :: "time \<Rightarrow> outbox_row \<Rightarrow> outbox_row" where
  "claimRow at r = r\<lparr> ob_status := Processing, ob_attempts := ob_attempts r + 1, ob_claimed := Some at \<rparr>"

lemma each_claim:
  assumes "tx_each (\<lambda>r. tx_exec (claimEvent at (ob_id r))) rows env s = (Inr u, s')"
    and "distinct (map ob_id rows)"
  shows "work s' = (work s)\<lparr> outbox :=
      updateWhere (\<lambda>r. ob_id r \<in> ob_id ` set rows) (claimRow at) (outbox (work s)) \<rparr> \<and>
    durable s' = durable s \<and>
    (\<forall>r \<in> set (outbox (work s)). ob_id r \<in> ob_id ` set rows \<longrightarrow> ob_attempts r \<noteq> - 1)"
  using assms
proof (induction rows arbitrary: s)
  case Nil
  then show ?case by (simp add: updateWhere_def)
next
  case (Cons x rows)
  then obtain s1 where "tx_exec (claimEvent at (ob_id x)) env s = (Inr (), s1)"
    and rest: "tx_each (\<lambda>r. tx_exec (claimEvent at (ob_id r))) rows env s1 = (Inr u, s')"
    by (auto simp: tx_bind_Inr)
  then have s1: "work s1 = (work s)\<lparr> outbox := updateWhere (\<lambda>r. ob_id r = ob_id x) (claimRow at) (outbox (work s)) \<rparr>"
    "durable s1 = durable s" "\<forall>r \<in> set (outbox (work s)). ob_id r = ob_id x \<longrightarrow> ob_attempts r \<noteq> - 1"
    by (auto simp: tx_Inr claimEvent_def claimRow_def [abs_def] split: if_splits)
  have fresh: "ob_id x \<notin> ob_id ` set rows" using Cons.prems(2) by auto
  have "updateWhere (\<lambda>r. ob_id r \<in> ob_id ` set rows) (claimRow at)
      (updateWhere (\<lambda>r. ob_id r = ob_id x) (claimRow at) table) =
    updateWhere (\<lambda>r. ob_id r \<in> ob_id ` set (x # rows)) (claimRow at) table" for table
    using fresh by (induction table) (auto simp: claimRow_def)
  then show ?case using Cons.IH [OF rest] Cons.prems(2) s1 fresh
    by (auto simp: set_updateWhere)
qed

lemma claimRows_set:
  "set (claimRows held kind at cutoff limit d) \<subseteq> {r \<in> set (outbox d). claimable kind at cutoff r}"
  unfolding claimRows_def using set_take_subset by fastforce

lemma claimRows_distinct: "uniqueOn ob_id (outbox d) \<Longrightarrow> distinct (map ob_id (claimRows held kind at cutoff limit d))"
  unfolding claimRows_def uniqueOn_def take_map [symmetric]
  by (intro distinct_take) (simp add: distinct_map_filter)

lemma claimTransaction_effect:
  assumes "claimTransaction held kind limit claimTimeout env s = (Inr events, s')"
    and "uniqueOn ob_id (outbox (work s))"
  defines "rows \<equiv> claimRows held kind (db_now env) (now env - claimTimeout) (nat limit) (work s)"
  shows "events = map claimedEvent rows \<and>
    durable s' = (work s)\<lparr> outbox :=
      updateWhere (\<lambda>r. ob_id r \<in> ob_id ` set rows) (claimRow (db_now env)) (outbox (work s)) \<rparr> \<and>
    (\<forall>r \<in> set (outbox (work s)). ob_id r \<in> ob_id ` set rows \<longrightarrow> ob_attempts r \<noteq> - 1) \<and>
    (\<forall>r \<in> set rows. length (ob_id r) = 16)"
  using assms(1) each_claim [OF _ claimRows_distinct [OF assms(2)]]
  unfolding rows_def claimTransaction_def
  by (fastforce simp: tx_Inr list_ex_iff split: if_splits)

lemma atomic_claim: "atomic (claimTransaction held kind limit claimTimeout)"
  unfolding claimTransaction_def by (intro atomic_intros quiet_intros steady_intros) simp

lemma steady_claim: "steady (claimTransaction held kind limit claimTimeout)"
  unfolding claimTransaction_def by (intro steady_intros) simp

lemma ClaimOutbox_atomic: "allOrNothing (ClaimOutbox held kind limit claimTimeout)"
  unfolding ClaimOutbox_def by (intro allOrNothing_guard allOrNothing_run atomic_claim steady_claim)

lemma ClaimOutbox_effect:
  assumes "ClaimOutbox held kind limit claimTimeout env d = (Inr events, d')"
    and "uniqueOn ob_id (outbox d)"
  defines "rows \<equiv> claimRows held kind (db_now env) (now env - claimTimeout) (nat limit) d"
  shows "events = map claimedEvent rows \<and>
    d' = d\<lparr> outbox := updateWhere (\<lambda>r. ob_id r \<in> ob_id ` set rows) (claimRow (db_now env)) (outbox d) \<rparr> \<and>
    (\<forall>r \<in> set (outbox d). ob_id r \<in> ob_id ` set rows \<longrightarrow> ob_attempts r \<noteq> - 1) \<and>
    (\<forall>r \<in> set rows. length (ob_id r) = 16)"
  using assms(1) claimTransaction_effect [of held kind limit claimTimeout env
      "\<lparr> work = d, durable = d, tick = 1 \<rparr>" events] assms(2)
  unfolding rows_def by (auto simp: ClaimOutbox_def run_tx_iff split: if_splits)

lemma claimed_moved:
  assumes "uniqueOn ob_id (outbox d)" and "\<forall>r \<in> set rows. r \<in> set (outbox d) \<and> claimable kind at cutoff r"
    and "\<forall>r \<in> set (outbox d). ob_id r \<in> ob_id ` set rows \<longrightarrow> ob_attempts r \<noteq> - 1"
  shows "moved d (d\<lparr> outbox := updateWhere (\<lambda>r. ob_id r \<in> ob_id ` set rows) (claimRow t) (outbox d) \<rparr>)"
proof (rule moved_updateWhere)
  fix r
  assume r: "r \<in> set (outbox d)" "ob_id r \<in> ob_id ` set rows"
  then obtain x where "x \<in> set rows" "ob_id x = ob_id r" by auto
  then have "x = r" using assms(1,2) r(1) uniqueOnD by metis
  then have "claimable kind at cutoff r" using assms(2) \<open>x \<in> set rows\<close> by auto
  then show "outbox_step r (claimRow t r)"
    unfolding claimRow_def using assms(3) r by (intro outbox_step.claim) (auto simp: claimable_def)
qed

lemma ClaimOutbox_moved:
  assumes "uniqueOn ob_id (outbox d)"
  shows "moved d (snd (ClaimOutbox held kind limit claimTimeout env d))"
proof (rule allOrNothing_invariant [OF ClaimOutbox_atomic])
  fix env events d'
  assume run: "ClaimOutbox held kind limit claimTimeout env d = (Inr events, d')"
  show "moved d d'"
    using ClaimOutbox_effect [OF run assms]
      claimed_moved [OF assms, of "claimRows held kind (db_now env) (now env - claimTimeout) (nat limit) d"
        kind "db_now env" "now env - claimTimeout" "db_now env"] claimRows_set by blast
qed simp

section \<open>The worker\<close>

text \<open>One call of a store operation by some worker, at any time and whatever fails.\<close>

inductive worker_step :: "db \<Rightarrow> db \<Rightarrow> bool" where
  claim: "worker_step d (snd (ClaimOutbox held kind limit claimTimeout env d))"
| complete: "worker_step d (snd (CompleteOutbox i env d))"
| retry: "worker_step d (snd (RetryOutbox i at code dead env d))"
| recover: "worker_step d (snd (RequeueAuditFailures valid after limit env d))"

lemma worker_step_moved: "worker_step d d' \<Longrightarrow> outboxOk d \<Longrightarrow> moved d d'"
  by (induction rule: worker_step.induct)
    (simp_all add: ClaimOutbox_moved CompleteOutbox_moved RetryOutbox_moved RequeueAuditFailures_moved
      outboxOk_def)

lemma worker_moved: "worker_step\<^sup>*\<^sup>* d d' \<Longrightarrow> outboxOk d \<Longrightarrow> moved d d'"
proof (induction rule: rtranclp_induct)
  case (step d1 d2)
  then show ?case using worker_step_moved [of d1 d2] moved_outboxOk [of d d1] moved_trans [of d d1 d2] by blast
qed simp

lemma list_all2_member: "list_all2 P xs ys \<Longrightarrow> x \<in> set xs \<Longrightarrow> \<exists>y \<in> set ys. P x y"
  by (induction rule: list_all2_induct) auto

lemma moved_row:
  assumes "moved d d'" and "r \<in> set (outbox d)"
  obtains r' where "r' \<in> set (outbox d')" "outbox_step\<^sup>*\<^sup>* r r'"
  using assms list_all2_member [of _ "outbox d" "outbox d'" r] by (auto simp: moved_def)

text \<open>
  C6. Outbox rows are a state machine. However many workers call the outbox, in any order and
  whichever of their database calls fail, rows are neither added nor removed, each moves along
  the steps of the machine only, keeping its identity and its payload, the invariant of the rows
  holds, and a completed event stays exactly as it is.
\<close>

theorem outbox_state_machine:
  assumes "worker_step\<^sup>*\<^sup>* d d'" and "outboxOk d"
  shows "moved d d' \<and> outboxOk d' \<and>
    (\<forall>r \<in> set (outbox d). ob_status r = Completed \<longrightarrow> r \<in> set (outbox d')) \<and>
    (\<forall>r \<in> set (outbox d). \<exists>r' \<in> set (outbox d'). ob_id r' = ob_id r \<and> ob_payload r' = ob_payload r)"
proof -
  note m = worker_moved [OF assms]
  have "r \<in> set (outbox d')" if "r \<in> set (outbox d)" "ob_status r = Completed" for r
    using moved_row [OF m that(1)] steps_completed [of r] that(2) by metis
  moreover have "\<exists>r' \<in> set (outbox d'). ob_id r' = ob_id r \<and> ob_payload r' = ob_payload r"
    if "r \<in> set (outbox d)" for r
    using moved_row [OF m that] steps_identity [of r] by metis
  ultimately show ?thesis using m moved_outboxOk [OF m assms(2)] by blast
qed

section \<open>No event is stuck\<close>

lemma due_in_time:
  assumes "rowOk r" and "ob_status r = Pending \<or> ob_status r = Processing"
  shows "\<exists>T. \<forall>at cutoff. T \<le> at \<longrightarrow> T \<le> cutoff \<longrightarrow> claimable (ob_kind r) at cutoff r"
  using assms
  by (intro exI [of _ "max (ob_next r) (the (ob_claimed r))"]) (auto simp: claimable_def rowOk_def)

text \<open>Events are served oldest first: by the time they were written, then by identifier.\<close>

definition older :: "outbox_row \<Rightarrow> outbox_row \<Rightarrow> bool" where
  "older q r =
     (ob_kind q = ob_kind r \<and>
      (ob_created q < ob_created r \<or> (ob_created q = ob_created r \<and> ob_id q < ob_id r)))"

lemma sorted_take:
  assumes "sorted (map f xs)" and "x \<in> set xs" and "x \<notin> set (take n xs)" and "y \<in> set (take n xs)"
  shows "f y \<le> f x" and "length (take n xs) = n"
proof -
  have split: "sorted (map f (take n xs) @ map f (drop n xs))"
    using assms(1) by (metis append_take_drop_id map_append)
  have x: "x \<in> set (drop n xs)" using assms(2,3) by (metis UnE append_take_drop_id set_append)
  then show "f y \<le> f x" using split assms(4) by (auto simp: sorted_append)
  from x have "drop n xs \<noteq> []" by auto
  then show "length (take n xs) = n" by simp
qed

lemma claimRows_oldest:
  assumes "uniqueOn ob_id (outbox d)" and "r \<in> set (outbox d)" and "claimable (ob_kind r) at cutoff r"
    and "\<not> held (ob_id r)" and "q \<in> set (claimRows held (ob_kind r) at cutoff limit d)"
    and "r \<notin> set (claimRows held (ob_kind r) at cutoff limit d)"
  shows "older q r" and "length (claimRows held (ob_kind r) at cutoff limit d) = limit"
proof -
  let ?f = "\<lambda>r. (ob_created r, ob_id r)"
  let ?xs = "sort_key ?f (filter (\<lambda>r'. claimable (ob_kind r) at cutoff r' \<and> \<not> held (ob_id r')) (outbox d))"
  have r: "r \<in> set ?xs" using assms(2-4) by simp
  note order = sorted_take [OF sorted_sort_key r assms(6) [unfolded claimRows_def] assms(5) [unfolded claimRows_def]]
  show "length (claimRows held (ob_kind r) at cutoff limit d) = limit"
    unfolding claimRows_def by (rule order(2))
  have q: "q \<in> set (outbox d)" "ob_kind q = ob_kind r"
    using assms(5) claimRows_set [of held "ob_kind r" at cutoff limit d] by (auto simp: claimable_def)
  have "ob_id q \<noteq> ob_id r" using uniqueOnD [OF assms(1) q(1) assms(2)] assms(5,6) by auto
  then show "older q r" using order(1) q(2) by (auto simp: older_def less_eq_prod_def)
qed

text \<open>What a claim returns when an event is due.\<close>

lemma ClaimOutbox_served:
  assumes "ClaimOutbox held (ob_kind r) limit claimTimeout env d = (Inr events, d')"
    and "uniqueOn ob_id (outbox d)" and "r \<in> set (outbox d)"
    and "claimable (ob_kind r) (db_now env) (now env - claimTimeout) r" and "\<not> held (ob_id r)"
  shows "claimedEvent r \<in> set events \<or>
    (length events = nat limit \<and> (\<forall>e \<in> set events. \<exists>q \<in> set (outbox d). older q r \<and> e = claimedEvent q))"
proof -
  let ?rows = "claimRows held (ob_kind r) (db_now env) (now env - claimTimeout) (nat limit) d"
  have events: "events = map claimedEvent ?rows" using ClaimOutbox_effect [OF assms(1,2)] by blast
  show ?thesis
  proof (cases "r \<in> set ?rows")
    case False
    have "1 \<le> limit" using assms(1) by (auto simp: ClaimOutbox_def split: if_splits)
    have len: "length ?rows = nat limit"
    proof (cases "?rows = []")
      case True
      have "r \<in> set (sort_key (\<lambda>r. (ob_created r, ob_id r)) (filter (\<lambda>r'. claimable (ob_kind r) (db_now env)
          (now env - claimTimeout) r' \<and> \<not> held (ob_id r')) (outbox d)))" using assms(3-5) by simp
      then have "nat limit = 0" using True [unfolded claimRows_def take_eq_Nil] by (elim disjE) simp_all
      then show ?thesis using \<open>1 \<le> limit\<close> by simp
    next
      case False
      then obtain q where "q \<in> set ?rows" by (meson last_in_set)
      then show ?thesis by (rule claimRows_oldest(2) [OF assms(2-5) _ \<open>r \<notin> set ?rows\<close>])
    qed
    have "older q r" if "q \<in> set ?rows" for q
      by (rule claimRows_oldest(1) [OF assms(2-5) that False])
    moreover have "set ?rows \<subseteq> set (outbox d)" using claimRows_set by blast
    ultimately have "\<forall>e \<in> set events. \<exists>q \<in> set (outbox d). older q r \<and> e = claimedEvent q"
      unfolding events by auto
    then show ?thesis using len events by simp
  qed (simp add: events)
qed

lemma each_claim_runs:
  assumes "\<forall>n. \<not> fault env n" and "distinct (map ob_id rows)"
    and "\<forall>r \<in> set (outbox (work s)). ob_id r \<in> ob_id ` set rows \<longrightarrow> ob_attempts r \<noteq> - 1"
  shows "\<exists>s'. tx_each (\<lambda>r. tx_exec (claimEvent at (ob_id r))) rows env s = (Inr (), s')"
  using assms(2,3)
proof (induction rows arbitrary: s)
  case Nil
  then show ?case by simp
next
  case (Cons x rows)
  let ?s1 = "s\<lparr> work := (work s)\<lparr> outbox := updateWhere (\<lambda>r. ob_id r = ob_id x)
    (\<lambda>r. r\<lparr> ob_status := Processing, ob_attempts := ob_attempts r + 1, ob_claimed := Some at \<rparr>)
    (outbox (work s)) \<rparr>, tick := tick s + 1 \<rparr>"
  have "tx_exec (claimEvent at (ob_id x)) env s = (Inr (), ?s1)"
    using Cons.prems(2) assms(1) by (auto simp: tx_exec_def claimEvent_def)
  moreover have "\<exists>s'. tx_each (\<lambda>r. tx_exec (claimEvent at (ob_id r))) rows env ?s1 = (Inr (), s')"
    using Cons.prems by (intro Cons.IH) (auto simp: set_updateWhere)
  ultimately show ?case by (auto simp: tx_bind_def)
qed

lemma ClaimOutbox_runs:
  assumes "1 \<le> limit" "limit \<le> 1000" and "0 < claimTimeout" and "\<forall>n. \<not> fault env n"
    and "uniqueOn ob_id (outbox d)" and "\<forall>r \<in> set (outbox d). length (ob_id r) = 16 \<and> ob_attempts r \<noteq> - 1"
  shows "\<exists>events d'. ClaimOutbox held kind limit claimTimeout env d = (Inr events, d')"
proof -
  let ?rows = "claimRows held kind (db_now env) (now env - claimTimeout) (nat limit) d"
  have ids: "\<not> list_ex (\<lambda>r. length (ob_id r) \<noteq> 16) ?rows"
    using claimRows_set [of held kind "db_now env" "now env - claimTimeout" "nat limit" d] assms(6)
    by (auto simp: list_ex_iff)
  obtain s' where "tx_each (\<lambda>r. tx_exec (claimEvent (db_now env) (ob_id r))) ?rows env
      \<lparr> work = d, durable = d, tick = 2 \<rparr> = (Inr (), s')"
    using each_claim_runs [OF assms(4) claimRows_distinct [OF assms(5)],
        of "\<lparr> work = d, durable = d, tick = 2 \<rparr>"] assms(6) by fastforce
  then show ?thesis using assms(1-4) ids
    by (simp add: ClaimOutbox_def run_tx_def claimTransaction_def tx_bind_def tx_env_def tx_query_def
        tx_commit_def tx_return_def numeral_2_eq_2)
qed

section \<open>Overtaking\<close>

text \<open>
  How often the events older than this one have been claimed, and how often it was passed over: due
  and free, but not returned. Between the claims the workers do what they like and new events arrive.
\<close>

definition ahead :: "outbox_row \<Rightarrow> outbox_row \<Rightarrow> nat" where
  "ahead r q = (if older q r then unat (ob_attempts q) else 0)"

definition claimsAhead :: "outbox_row \<Rightarrow> db \<Rightarrow> nat" where
  "claimsAhead r d = sum_list (map (ahead r) (outbox d))"

inductive passed_over :: "outbox_row \<Rightarrow> nat \<Rightarrow> db \<Rightarrow> db \<Rightarrow> bool" for r where
  start: "passed_over r 0 d d"
| work: "passed_over r k d d1 \<Longrightarrow> worker_step d1 d2 \<Longrightarrow> passed_over r k d d2"
| arrive: "passed_over r k d d1 \<Longrightarrow> insertEvent i kind t oid p at d1 = Some d2 \<Longrightarrow> ob_created r < at \<Longrightarrow>
    passed_over r k d d2"
| pass: "passed_over r k d d1 \<Longrightarrow> ClaimOutbox held (ob_kind r) limit claimTimeout env d1 = (Inr events, d2) \<Longrightarrow>
    q \<in> set (outbox d1) \<Longrightarrow> ob_id q = ob_id r \<Longrightarrow>
    claimable (ob_kind r) (db_now env) (now env - claimTimeout) q \<Longrightarrow> \<not> held (ob_id r) \<Longrightarrow>
    ob_id r \<notin> oe_id ` set events \<Longrightarrow> passed_over r (Suc k) d d2"

lemma unat_attempts: "a \<noteq> - 1 \<Longrightarrow> unat (a + 1 :: u32) = Suc (unat a)"
proof -
  assume "a \<noteq> - 1"
  then have "a + 1 \<noteq> 0" by (simp add: eq_neg_iff_add_eq_0)
  then show ?thesis using unatSuc [of a] by (simp add: add.commute)
qed

lemma step_ahead: "outbox_step q q' \<Longrightarrow> ahead r q \<le> ahead r q'"
  by (elim outbox_stepE) (auto simp: ahead_def older_def unat_attempts)

lemma steps_ahead: "outbox_step\<^sup>*\<^sup>* q q' \<Longrightarrow> ahead r q \<le> ahead r q'"
  by (induction rule: rtranclp_induct) (auto intro: step_ahead order_trans)

lemma moved_ahead: "moved d d' \<Longrightarrow> claimsAhead r d \<le> claimsAhead r d'"
proof -
  have "sum_list (map (ahead r) rows) \<le> sum_list (map (ahead r) rows')"
    if "list_all2 (outbox_step\<^sup>*\<^sup>*) rows rows'" for rows rows'
    using that by (induction rule: list_all2_induct) (auto intro: add_mono steps_ahead)
  then show "moved d d' \<Longrightarrow> claimsAhead r d \<le> claimsAhead r d'" by (simp add: moved_def claimsAhead_def)
qed

lemma sum_updateWhere:
  assumes "\<And>x. x \<in> set xs \<Longrightarrow> p x \<Longrightarrow> (w x :: nat) \<le> w (f x)" and "y \<in> set xs" and "p y" and "w y < w (f y)"
  shows "sum_list (map w xs) < sum_list (map w (updateWhere p f xs))"
  using assms
proof (induction xs)
  case (Cons x xs)
  have le: "sum_list (map w xs) \<le> sum_list (map w (updateWhere p f xs))"
    if "\<And>x. x \<in> set xs \<Longrightarrow> p x \<Longrightarrow> w x \<le> w (f x)" for xs
    using that by (induction xs) (auto intro: add_mono simp: le_SucI)
  show ?case
  proof (cases "y \<in> set xs")
    case True
    then have "sum_list (map w xs) < sum_list (map w (updateWhere p f xs))"
      using Cons by simp
    then show ?thesis using Cons.prems(1) [of x] by (auto simp: add_le_less_mono)
  next
    case False
    then show ?thesis using Cons.prems le [of xs] by (auto simp: add_less_le_mono)
  qed
qed simp

text \<open>A claim that passes the event over has claimed an older one.\<close>

lemma passing_claims:
  assumes "ClaimOutbox held (ob_kind q) limit claimTimeout env d = (Inr events, d')"
    and "uniqueOn ob_id (outbox d)" and "q \<in> set (outbox d)"
    and "claimable (ob_kind q) (db_now env) (now env - claimTimeout) q" and "\<not> held (ob_id q)"
    and "ob_id q \<notin> oe_id ` set events"
  shows "claimsAhead q d < claimsAhead q d'"
proof -
  let ?rows = "claimRows held (ob_kind q) (db_now env) (now env - claimTimeout) (nat limit) d"
  have effect: "events = map claimedEvent ?rows"
    "outbox d' = updateWhere (\<lambda>r. ob_id r \<in> ob_id ` set ?rows) (claimRow (db_now env)) (outbox d)"
    and top: "\<forall>r \<in> set (outbox d). ob_id r \<in> ob_id ` set ?rows \<longrightarrow> ob_attempts r \<noteq> - 1"
    using ClaimOutbox_effect [OF assms(1,2)] by simp_all
  have "1 \<le> limit" using assms(1) by (auto simp: ClaimOutbox_def split: if_splits)
  have not: "claimedEvent q \<notin> set events" using assms(6) by (force simp: claimedEvent_def outboxEvent_def)
  then have "length ?rows = nat limit"
    and old: "\<forall>e \<in> set events. \<exists>x \<in> set (outbox d). older x q \<and> e = claimedEvent x"
    using ClaimOutbox_served [OF assms(1-5)] effect(1) by auto
  then obtain x where x: "x \<in> set ?rows" using \<open>1 \<le> limit\<close> by (cases ?rows) auto
  then have in_d: "x \<in> set (outbox d)" using claimRows_set by blast
  have "older x q"
  proof -
    obtain z where z: "z \<in> set (outbox d)" "older z q" "claimedEvent x = claimedEvent z"
      using old x effect(1) by auto
    then have "ob_id x = ob_id z" by (simp add: claimedEvent_def outboxEvent_def)
    then show ?thesis using z uniqueOnD [OF assms(2) in_d z(1)] by simp
  qed
  have step: "ahead q r' \<le> ahead q (claimRow at r')"
    "older r' q \<Longrightarrow> ahead q r' < ahead q (claimRow at r')" if "ob_attempts r' \<noteq> - 1" for r' at
    using that by (auto simp: ahead_def older_def claimRow_def unat_attempts)
  show ?thesis unfolding claimsAhead_def effect(2)
    by (rule sum_updateWhere [where y = x]) (use step top in_d x \<open>older x q\<close> in auto)
qed

lemma ahead_cong:
  "ob_id q = ob_id r \<Longrightarrow> ob_kind q = ob_kind r \<Longrightarrow> ob_created q = ob_created r \<Longrightarrow> claimsAhead q d = claimsAhead r d"
  by (simp add: claimsAhead_def ahead_def [abs_def] older_def)

lemma arrive_outboxOk:
  assumes "insertEvent i kind t oid p at d = Some d'" and "outboxOk d"
  shows "outboxOk d'" and "set (outbox d) \<subseteq> set (outbox d')"
    and "ob_created r < at \<Longrightarrow> claimsAhead r d' = claimsAhead r d"
  using assms
  by (auto simp: insertEvent_def outboxOk_def uniqueOn_def rowOk_def claimsAhead_def ahead_def older_def
      split: if_splits)

text \<open>The row with the identity of the event.\<close>

definition sameEvent :: "outbox_row \<Rightarrow> outbox_row \<Rightarrow> bool" where
  "sameEvent r q = (ob_id q = ob_id r \<and> ob_kind q = ob_kind r \<and> ob_created q = ob_created r)"

lemma worker_sameEvent:
  assumes "worker_step d d'" and "outboxOk d" and "q \<in> set (outbox d)" and "sameEvent r q"
  shows "\<exists>q' \<in> set (outbox d'). sameEvent r q'"
proof -
  obtain q' where "q' \<in> set (outbox d')" "outbox_step\<^sup>*\<^sup>* q q'"
    using moved_row [OF worker_step_moved [OF assms(1,2)] assms(3)] by blast
  then show ?thesis using steps_identity [of q q'] assms(4) by (auto simp: sameEvent_def)
qed

lemma passed_over_claims:
  assumes "passed_over r k d d'" and "outboxOk d" and "r \<in> set (outbox d)"
  shows "outboxOk d' \<and> (\<exists>q \<in> set (outbox d'). sameEvent r q) \<and> claimsAhead r d + k \<le> claimsAhead r d'"
  using assms
proof (induction rule: passed_over.induct)
  case (start d)
  then show ?case by (auto simp: sameEvent_def)
next
  case (work k d d1 d2)
  then have "moved d1 d2" using worker_step_moved by blast
  then show ?case using work moved_outboxOk moved_ahead [of d1 d2 r] worker_sameEvent [OF work(2)] by fastforce
next
  case (arrive k d d1 i kind t oid p at d2)
  then show ?case using arrive_outboxOk [OF arrive(2)] by fastforce
next
  case (pass k d d1 held limit claimTimeout env events d2 q)
  then obtain q1 where ok: "outboxOk d1" "q1 \<in> set (outbox d1)" "sameEvent r q1"
    and le: "claimsAhead r d + k \<le> claimsAhead r d1" by blast
  have u: "uniqueOn ob_id (outbox d1)" using ok(1) by (simp add: outboxOk_def)
  then have "q1 = q" using uniqueOnD [OF u ok(2) pass(3)] ok(3) pass(4) by (simp add: sameEvent_def)
  then have same: "ob_id q = ob_id r" "ob_kind q = ob_kind r" "ob_created q = ob_created r"
    using ok(3) by (simp_all add: sameEvent_def)
  have "claimsAhead q d1 < claimsAhead q d2"
    by (rule passing_claims [where held = held and limit = limit and claimTimeout = claimTimeout and env = env
          and events = events]) (use pass(2,3,5-7) u same in simp_all)
  then have "claimsAhead r d + Suc k \<le> claimsAhead r d2" using le ahead_cong [OF same] by simp
  moreover have step: "worker_step d1 d2" using worker_step.claim pass(2) by (metis snd_conv)
  moreover have "outboxOk d2" using moved_outboxOk [OF worker_step_moved [OF step ok(1)] ok(1)] .
  moreover have "\<exists>q \<in> set (outbox d2). sameEvent r q" by (rule worker_sameEvent [OF step ok])
  ultimately show ?case by blast
qed

text \<open>
  C7. No event is stuck. Workers claim in batches of any size, one included, while they complete,
  retry and give up what they like, die, and new events arrive. An event is passed over, though due
  and not held by another transaction, at most as often as older events of its kind are claimed in
  the meantime. And while it is neither completed nor given up there is a time from which on every
  claim in which nothing fails returns it, also when its worker died processing it, unless the
  whole batch are older events.
\<close>

theorem outbox_never_stuck:
  assumes "outboxOk d" and "r \<in> set (outbox d)" and "passed_over r k d d'"
    and "\<forall>q \<in> set (outbox d'). length (ob_id q) = 16 \<and> ob_attempts q \<noteq> - 1"
  shows "claimsAhead r d + k \<le> claimsAhead r d' \<and>
    (\<exists>r' \<in> set (outbox d'). ob_id r' = ob_id r \<and>
       (ob_status r' = Pending \<or> ob_status r' = Processing \<longrightarrow>
         (\<exists>T. \<forall>env held limit claimTimeout. T \<le> db_now env \<and> T \<le> now env - claimTimeout \<and>
            (\<forall>n. \<not> fault env n) \<and> \<not> held (ob_id r) \<and> 0 < claimTimeout \<and> 1 \<le> limit \<and> limit \<le> 1000 \<longrightarrow>
            (\<exists>events d2. ClaimOutbox held (ob_kind r) limit claimTimeout env d' = (Inr events, d2) \<and>
               (claimedEvent r' \<in> set events \<or>
                length events = nat limit \<and>
                (\<forall>e \<in> set events. \<exists>q \<in> set (outbox d'). older q r \<and> e = claimedEvent q))))))"
proof -
  from passed_over_claims [OF assms(3,1,2)] obtain r' where ok: "outboxOk d'" "r' \<in> set (outbox d')"
    and same: "ob_id r' = ob_id r" "ob_kind r' = ob_kind r" "ob_created r' = ob_created r"
    and le: "claimsAhead r d + k \<le> claimsAhead r d'"
    by (auto simp: sameEvent_def)
  have u: "uniqueOn ob_id (outbox d')" and "rowOk r'" using ok by (simp_all add: outboxOk_def list_all_iff)
  have served: "\<exists>events d2. ClaimOutbox held (ob_kind r) limit claimTimeout env d' = (Inr events, d2) \<and>
      (claimedEvent r' \<in> set events \<or> length events = nat limit \<and>
       (\<forall>e \<in> set events. \<exists>q \<in> set (outbox d'). older q r \<and> e = claimedEvent q))"
    if h: "claimable (ob_kind r') (db_now env) (now env - claimTimeout) r'" "\<forall>n. \<not> fault env n" "\<not> held (ob_id r)"
      "0 < claimTimeout" "1 \<le> limit" "limit \<le> 1000" for env held limit claimTimeout
  proof -
    obtain events d2 where run: "ClaimOutbox held (ob_kind r') limit claimTimeout env d' = (Inr events, d2)"
      using ClaimOutbox_runs [OF h(5,6,4,2) u assms(4)] by blast
    have "older q r' = older q r" for q using same by (simp add: older_def)
    then show ?thesis using ClaimOutbox_served [OF run u ok(2) h(1)] h(3) run same by auto
  qed
  show ?thesis
  proof (intro conjI le bexI [OF _ ok(2)] impI same(1))
    assume "ob_status r' = Pending \<or> ob_status r' = Processing"
    then obtain T where "\<forall>at cutoff. T \<le> at \<longrightarrow> T \<le> cutoff \<longrightarrow> claimable (ob_kind r') at cutoff r'"
      using due_in_time [OF \<open>rowOk r'\<close>] by blast
    then show "\<exists>T. \<forall>env held limit claimTimeout. T \<le> db_now env \<and> T \<le> now env - claimTimeout \<and>
        (\<forall>n. \<not> fault env n) \<and> \<not> held (ob_id r) \<and> 0 < claimTimeout \<and> 1 \<le> limit \<and> limit \<le> 1000 \<longrightarrow>
        (\<exists>events d2. ClaimOutbox held (ob_kind r) limit claimTimeout env d' = (Inr events, d2) \<and>
           (claimedEvent r' \<in> set events \<or> length events = nat limit \<and>
            (\<forall>e \<in> set events. \<exists>q \<in> set (outbox d'). older q r \<and> e = claimedEvent q)))"
      using served by (intro exI [of _ T]) blast
  qed
qed

section \<open>Samples\<close>

definition samplePayload :: event_payload where
  "samplePayload = \<lparr> ev_time = 1000, ev_source_ip = [], ev_field_key = [], ev_operation_id = ''op-create-1'',
     ev_actor = Actor ''user'' ''u1'', ev_action = ''environment.create'', ev_outcome = OutcomeSuccess,
     ev_environment = ''prod'', ev_namespace = [], ev_resource_type = ''environment'',
     ev_resource_key = ''prod'', ev_revision = 0, ev_request_id = None, ev_error_code = None \<rparr>"

definition sampleRow :: outbox_row where
  "sampleRow = \<lparr> ob_id = ''aaaaaabbbbbbbbbb'', ob_kind = OutboxAudit, ob_type = ''environment.create'',
     ob_operation = Some ''op-create-1'', ob_payload = samplePayload, ob_status = Pending,
     ob_attempts = 0, ob_next = 1000, ob_claimed = None, ob_completed = None, ob_error = None,
     ob_created = 1000 \<rparr>"

definition sampleOutbox :: db where
  "sampleOutbox = emptyDb\<lparr> outbox := [sampleRow] \<rparr>"

lemma sampleOutbox_ok: "outboxOk sampleOutbox" and sampleOutbox_row: "sampleRow \<in> set (outbox sampleOutbox)"
  by (simp_all add: outboxOk_def sampleOutbox_def sampleRow_def rowOk_def uniqueOn_def)

definition sampleClaimed :: db where
  "sampleClaimed = snd (ClaimOutbox (\<lambda>_. False) OutboxAudit 10 5 sampleEnv sampleOutbox)"

theorem outbox_state_machine_witness:
  "moved sampleOutbox sampleClaimed \<and> outboxOk sampleClaimed"
proof -
  have "worker_step\<^sup>*\<^sup>* sampleOutbox sampleClaimed"
    unfolding sampleClaimed_def by (rule r_into_rtranclp) (rule worker_step.claim)
  from outbox_state_machine [OF this sampleOutbox_ok] show ?thesis by blast
qed

text \<open>An older event is claimed first, in a batch of one.\<close>

definition youngRow :: outbox_row where
  "youngRow = sampleRow\<lparr> ob_id := ''bbbbbbbbbbbbbbbb'', ob_created := 1001 \<rparr>"

definition twoEvents :: db where
  "twoEvents = emptyDb\<lparr> outbox := [youngRow, sampleRow] \<rparr>"

definition oneClaimed :: db where
  "oneClaimed = snd (ClaimOutbox (\<lambda>_. False) OutboxAudit 1 5 sampleEnv twoEvents)"

lemma twoEvents_ok: "outboxOk twoEvents" "youngRow \<in> set (outbox twoEvents)"
  by (simp_all add: outboxOk_def twoEvents_def youngRow_def sampleRow_def rowOk_def uniqueOn_def)

lemma oneClaimed_run:
  "ClaimOutbox (\<lambda>_. False) OutboxAudit 1 5 sampleEnv twoEvents = (Inr [claimedEvent sampleRow], oneClaimed)"
proof -
  have "fst (ClaimOutbox (\<lambda>_. False) OutboxAudit 1 5 sampleEnv twoEvents) = Inr [claimedEvent sampleRow]"
    by code_simp
  then show ?thesis by (simp add: oneClaimed_def prod_eq_iff)
qed

lemma oneClaimed_rows: "outbox oneClaimed = [youngRow, claimRow 1000 sampleRow]"
  by code_simp

theorem outbox_never_stuck_witness:
  "claimsAhead youngRow twoEvents + 1 \<le> claimsAhead youngRow oneClaimed"
proof -
  have kind: "ob_kind youngRow = OutboxAudit" by (simp add: youngRow_def sampleRow_def)
  have "passed_over youngRow (Suc 0) twoEvents oneClaimed"
  proof (rule passed_over.pass [OF passed_over.start _ twoEvents_ok(2) refl])
    show "ClaimOutbox (\<lambda>_. False) (ob_kind youngRow) 1 5 sampleEnv twoEvents = (Inr [claimedEvent sampleRow], oneClaimed)"
      using oneClaimed_run kind by simp
  qed (simp_all add: claimable_def youngRow_def sampleRow_def sampleEnv_def claimedEvent_def outboxEvent_def)
  moreover have "\<forall>q \<in> set (outbox oneClaimed). length (ob_id q) = 16 \<and> ob_attempts q \<noteq> - 1"
    by (simp add: oneClaimed_rows youngRow_def sampleRow_def claimRow_def)
  ultimately show ?thesis using outbox_never_stuck [OF twoEvents_ok, of "Suc 0" oneClaimed] by simp
qed

end
