(* ===== verification/NetIP.thy ===== *)
theory NetIP
  imports Keys
begin

text \<open>
  Textual IP addresses as \<^verbatim>\<open>net.ParseIP\<close> of Go's standard library accepts them, which
  the decoders of audit and notification events check the recorded source address with.
\<close>

definition decimalValue :: "string \<Rightarrow> nat" where
  "decimalValue s = foldl (\<lambda>n c. 10 * n + (of_char c - 48)) 0 s"

definition octet :: "string \<Rightarrow> bool" where
  "octet s =
     (s \<noteq> [] \<and> list_all digitChar s \<and> length s \<le> 3 \<and> (length s > 1 \<longrightarrow> hd s \<noteq> CHR ''0'') \<and> decimalValue s \<le> 255)"

definition parsesIPv4 :: "string \<Rightarrow> bool" where
  "parsesIPv4 s = (let fields = splitOn CHR ''.'' s in length fields = 4 \<and> list_all octet fields)"

definition hexChar :: "char \<Rightarrow> bool" where
  "hexChar c = (fromHexChar c \<noteq> None)"

text \<open>
  The loop over the fields of an IPv6 address: \<^verbatim>\<open>i\<close> bytes are read, \<^verbatim>\<open>e\<close> tells
  whether a double colon was seen.
\<close>

definition endIPv6 :: "nat \<Rightarrow> bool \<Rightarrow> bool" where
  "endIPv6 i e = (if i < 16 then e else \<not> e)"

function fieldsIPv6 :: "nat \<Rightarrow> bool \<Rightarrow> string \<Rightarrow> bool" where
  "fieldsIPv6 i e s =
     (if 16 \<le> i then s = [] \<and> endIPv6 i e
      else
        (let h = takeWhile hexChar s; r = dropWhile hexChar s in
         if h = [] \<or> length h > 4 then False
         else
           (case r of
              [] \<Rightarrow> endIPv6 (i + 2) e
            | c # t \<Rightarrow>
                if c = CHR ''.'' then (e \<or> i = 12) \<and> i + 4 \<le> 16 \<and> parsesIPv4 s \<and> endIPv6 (i + 4) e
                else if c \<noteq> CHR '':'' then False
                else
                  (case t of
                     [] \<Rightarrow> False
                   | c' # u \<Rightarrow>
                       if c' = CHR '':'' then
                         \<not> e \<and> (if u = [] then endIPv6 (i + 2) True else fieldsIPv6 (i + 2) True u)
                       else fieldsIPv6 (i + 2) e t))))"
  by pat_completeness auto
termination
  by (relation "measure (\<lambda>(i, e, s). 16 - i)") auto

definition parsesIPv6 :: "string \<Rightarrow> bool" where
  "parsesIPv6 s =
     (if CHR ''%'' \<in> set s then False
      else if hasPrefix s ''::'' then drop 2 s = [] \<or> fieldsIPv6 0 True (drop 2 s)
      else fieldsIPv6 0 False s)"

text \<open>The first of the separators decides.\<close>

definition parsesIP :: "string \<Rightarrow> bool" where
  "parsesIP s =
     (case dropWhile (\<lambda>c. c \<notin> {CHR ''.'', CHR '':'', CHR ''%''}) s of
        c # _ \<Rightarrow> if c = CHR ''.'' then parsesIPv4 s else c = CHR '':'' \<and> parsesIPv6 s
      | [] \<Rightarrow> False)"

text \<open>Some addresses, as the package's own tests have them.\<close>

lemma parsesIP_examples:
  "list_all parsesIP [''127.0.0.1'', ''255.255.255.255'', ''::1'', ''2001:db8::68'', ''::ffff:192.0.2.1'', ''::'']"
  "list_all (\<lambda>s. \<not> parsesIP s) [[], ''127.0.0.256'', ''127.0.0.01'', ''1.2.3'', ''fe80::1%lo0'', '':1'', ''1::2::3'', ''12345::'']"
  by code_simp+

end
