(* ===== verification/AuditWorker.thy ===== *)
theory AuditWorker
  imports OutboxSteps NetIP
begin

text \<open>
  The audit worker (\<^verbatim>\<open>logworker/audit.go\<close>) and the part of the log store it feeds
  (\<^verbatim>\<open>logstore/clickhouse.go\<close>): the strict decoder of outbox events, the batch that is
  appended to the log, and the delay before a retry.
\<close>

section \<open>Decoding\<close>

record AuditRecord =
  ar_field :: string
  ar_source_ip :: string
  ar_id :: string
  ar_time :: time
  ar_type :: string
  ar_operation :: string
  ar_request :: string
  ar_error :: string
  ar_actor_type :: string
  ar_actor_id :: string
  ar_action :: string
  ar_outcome :: string
  ar_environment :: string
  ar_namespace :: string
  ar_resource_type :: string
  ar_resource :: string
  ar_revision :: u64
  ar_attempt :: u32

definition auditNamedKey :: "string \<Rightarrow> bool" where
  "auditNamedKey value =
     (case value of
        [] \<Rightarrow> False
      | c # _ \<Rightarrow> length value \<le> 63 \<and> lowerChar c \<and> list_all keyChar value)"

definition validAuditErrorCode :: "string \<Rightarrow> bool" where
  "validAuditErrorCode value =
     (value \<noteq> [] \<and> length value \<le> 64 \<and> list_all (\<lambda>c. lowerChar c \<or> c = CHR ''_'') value)"

definition validAuditOutcome :: "Outcome \<Rightarrow> bool" where
  "validAuditOutcome out =
     (out = OutcomeSuccess \<or> out = OutcomeNoChange \<or> out = OutcomeConflict \<or> out = OutcomeValidationFailed)"

definition zeroOutboxID :: "bytes \<Rightarrow> bool" where
  "zeroOutboxID i = (i = replicate 16 CHR 0x00)"

definition validAuditResourceKey :: "string \<Rightarrow> string \<Rightarrow> bool" where
  "validAuditResourceKey resourceType key =
     (if resourceType = ''release'' then
        (case cutStr CHR ''.'' key of
           None \<Rightarrow> False
         | Some (a, b) \<Rightarrow> auditNamedKey a \<and> auditNamedKey b)
      else
        (case auditIdentityLength resourceType of
           Some n \<Rightarrow>
             (case decodeHex key of
                None \<Rightarrow> False
              | Some decoded \<Rightarrow> length key = n \<and> length decoded * 2 = n)
         | None \<Rightarrow> auditNamedKey key))"

text \<open>A missing member decodes to the empty string.\<close>

definition orEmpty :: "string option \<Rightarrow> string" where
  "orEmpty x = (case x of None \<Rightarrow> [] | Some s \<Rightarrow> s)"

text \<open>Older writers kept invalid input in a rejected request's identities.\<close>

definition dropInvalid :: "event_payload \<Rightarrow> event_payload" where
  "dropInvalid p =
     (if ev_outcome p = OutcomeValidationFailed then
        (let namespace = (if auditNamedKey (ev_namespace p) then ev_namespace p else []);
             resource = (if validAuditResourceKey (ev_resource_type p) (ev_resource_key p)
                         then ev_resource_key p else [])
         in p\<lparr> ev_field_key := (if auditNamedKey (ev_field_key p) then ev_field_key p else []),
               ev_environment := (if auditNamedKey (ev_environment p) then ev_environment p else []),
               ev_namespace := namespace,
               ev_resource_key :=
                 (if ev_resource_type p = ''vault_item'' \<and> namespace = [] then [] else resource) \<rparr>)
      else p)"

text \<open>The request's identity: an operation, or the request ID of a rejected call.\<close>

definition validRequestIdentity :: "OutboxEvent \<Rightarrow> event_payload \<Rightarrow> bool" where
  "validRequestIdentity event p =
     (let request = orEmpty (ev_request_id p); code = orEmpty (ev_error_code p) in
      if oe_type event = ''management.request_rejected'' then
        oe_operation event = [] \<and> length request = 24 \<and>
        (case decodeHex request of None \<Rightarrow> False | Some b \<Rightarrow> length b = 12) \<and>
        code \<noteq> [] \<and> ev_outcome p = OutcomeValidationFailed
      else oe_operation event \<noteq> [] \<and> request = [] \<and> code = [])"

definition validAuditPayload :: "OutboxEvent \<Rightarrow> event_payload \<Rightarrow> bool" where
  "validAuditPayload event p =
     (ev_time p \<noteq> 0 \<and> ev_operation_id p = oe_operation event \<and>
      (ev_source_ip p = [] \<or> parsesIP (ev_source_ip p)) \<and>
      (ev_field_key p = [] \<or> auditNamedKey (ev_field_key p)) \<and>
      (actorType (ev_actor p) = ''token'' \<longrightarrow> validAuditResourceKey ''api_token'' (actorID (ev_actor p))) \<and>
      actorType (ev_actor p) \<in> {''user'', ''system'', ''token''} \<and>
      actorID (ev_actor p) \<noteq> [] \<and> length (actorID (ev_actor p)) \<le> 255 \<and>
      ev_action p \<noteq> [] \<and> length (ev_action p) \<le> 128 \<and>
      ev_resource_type p \<noteq> [] \<and> length (ev_resource_type p) \<le> 64 \<and> length (ev_namespace p) \<le> 63 \<and>
      \<not> (ev_resource_type p = ''vault_item'' \<and> ev_namespace p = [] \<and> ev_outcome p \<noteq> OutcomeValidationFailed) \<and>
      ((ev_outcome p = OutcomeValidationFailed \<and> ev_resource_key p = []) \<or>
        validAuditResourceKey (ev_resource_type p) (ev_resource_key p)) \<and>
      validAuditOutcome (ev_outcome p) \<and>
      (orEmpty (ev_error_code p) = [] \<or> validAuditErrorCode (orEmpty (ev_error_code p))) \<and>
      (ev_outcome p = OutcomeSuccess \<or> ev_revision p = 0))"

text \<open>
  The size of the payload's text is the one the database renders, an argument here; the members
  of a payload are those of the structure, so its strict decoding succeeds.
\<close>

definition DecodeAuditOutbox :: "(event_payload \<Rightarrow> int) \<Rightarrow> OutboxEvent \<Rightarrow> err + AuditRecord" where
  "DecodeAuditOutbox width event =
     (if oe_kind event \<noteq> OutboxAudit \<or> oe_type event = [] \<or> oe_attempts event = 0 \<or>
         width (oe_payload event) \<le> 0 \<or> width (oe_payload event) > 65536 \<or> zeroOutboxID (oe_id event)
      then Inl ErrInternal
      else
        (let p = dropInvalid (oe_payload event) in
         if \<not> validRequestIdentity event p then Inl ErrInternal
         else if \<not> validAuditPayload event p then Inl ErrInternal
         else
           Inr \<lparr> ar_field = ev_field_key p, ar_source_ip = ev_source_ip p, ar_id = encodeHex (oe_id event),
                 ar_time = ev_time p, ar_type = oe_type event, ar_operation = ev_operation_id p,
                 ar_request = orEmpty (ev_request_id p), ar_error = orEmpty (ev_error_code p),
                 ar_actor_type = actorType (ev_actor p), ar_actor_id = actorID (ev_actor p),
                 ar_action = ev_action p, ar_outcome = outcomeText (ev_outcome p),
                 ar_environment = ev_environment p, ar_namespace = ev_namespace p,
                 ar_resource_type = ev_resource_type p, ar_resource = ev_resource_key p,
                 ar_revision = ev_revision p, ar_attempt = oe_attempts event \<rparr>))"

section \<open>The retry delay\<close>

definition second :: time where "second = 1000000000"
definition minute :: time where "minute = 60 * second"

text \<open>
  A \<^verbatim>\<open>time.Duration\<close> is a 64-bit signed count of nanoseconds: comparisons are signed and the
  doubling wraps.
\<close>

type_synonym duration = "64 word"

definition oneSecond :: duration where "oneSecond = 1000000000"
definition fiveMinutes :: duration where "fiveMinutes = 300000000000"

function doubled :: "u32 \<Rightarrow> u32 \<Rightarrow> duration \<Rightarrow> duration" where
  "doubled current attempt delay =
     (if current < attempt \<and> delay <s fiveMinutes then doubled (current + 1) attempt (delay * 2) else delay)"
  by pat_completeness auto

lemma unat_next:
  assumes "(c :: u32) < a"
  shows "unat (c + 1) = unat c + 1"
proof -
  have "unat c + 1 < 2 ^ 32" using assms unsigned_less [of a, where 'a = nat] by (simp add: word_less_nat_alt)
  then show ?thesis by (simp add: unat_word_ariths)
qed

termination doubled
  by (relation "measure (\<lambda>(c, a, d). unat a - unat c)")
    (auto simp: unat_next word_less_nat_alt intro!: diff_less_mono2)

declare doubled.simps [simp del]

definition auditRetryDelay :: "u32 \<Rightarrow> duration" where
  "auditRetryDelay attempt =
     (let delay = doubled 1 attempt oneSecond in if fiveMinutes <s delay then fiveMinutes else delay)"

text \<open>The bound of the randomised delay between attempts of a notification.\<close>

definition notificationRetryBound :: "u32 \<Rightarrow> duration" where
  "notificationRetryBound attempt =
     (let maximum = doubled 1 attempt oneSecond in if fiveMinutes <s maximum then fiveMinutes else maximum)"

lemma sint_units: "sint fiveMinutes = 5 * minute" "sint oneSecond = second"
  by (simp_all add: fiveMinutes_def oneSecond_def minute_def second_def)

text \<open>Below the bound the doubling does not wrap.\<close>

lemma sint_double:
  assumes "0 < sint d" and "d <s fiveMinutes"
  shows "sint (d * 2) = 2 * sint d"
proof -
  have "sint d < 300000000000" using assms(2) by (simp add: word_sless_alt fiveMinutes_def)
  then have "signed_take_bit (LENGTH(64) - Suc 0) (sint d * 2) = sint d * 2"
    using assms(1) by (intro signed_take_bit_int_eq_self) simp_all
  moreover have "sint (d * 2) = signed_take_bit (LENGTH(64) - Suc 0) (sint d * sint (2 :: duration))"
    by (simp add: sint_word_ariths)
  ultimately show ?thesis by simp
qed

lemma min_double: "5 * minute \<le> d \<Longrightarrow> min (5 * minute) (d * 2 ^ n) = 5 * minute"
  by (smt (verit) minute_def second_def mult_le_cancel_left1 one_le_power)

lemma doubled_min:
  "0 < sint d \<Longrightarrow> 0 < sint (doubled c a d) \<and>
    min (5 * minute) (sint (doubled c a d)) = min (5 * minute) (sint d * 2 ^ (unat a - unat c))"
proof (induction c a d rule: doubled.induct)
  case (1 c a d)
  show ?case
  proof (cases "c < a \<and> d <s fiveMinutes")
    case True
    then have "unat a - unat c = Suc (unat a - unat (c + 1))"
      using unat_next [of c a] by (auto simp: word_less_nat_alt Suc_diff_Suc)
    moreover have "sint (d * 2) = 2 * sint d" using sint_double 1(2) True by blast
    ultimately show ?thesis using 1 True by (simp add: doubled.simps [of c a d] mult.assoc mult.left_commute)
  next
    case False
    then have same: "doubled c a d = d" by (auto simp: doubled.simps [of c a d])
    from False consider "a \<le> c" | "5 * minute \<le> sint d"
      using sint_units(1) by (fastforce simp: word_sless_alt)
    then show ?thesis
    proof cases
      case 1
      then show ?thesis using same \<open>0 < sint d\<close> by (simp add: word_le_nat_alt)
    next
      case 2
      then show ?thesis using min_double [OF 2] same \<open>0 < sint d\<close> by simp
    qed
  qed
qed

lemma capped:
  "sint (let delay = doubled 1 attempt oneSecond in if fiveMinutes <s delay then fiveMinutes else delay) =
    min (5 * minute) (second * 2 ^ (unat attempt - 1))"
proof -
  have "sint (let delay = doubled 1 attempt oneSecond in if fiveMinutes <s delay then fiveMinutes else delay) =
      min (5 * minute) (sint (doubled 1 attempt oneSecond))"
    by (simp add: Let_def min_def word_sless_alt sint_units)
  then show ?thesis using doubled_min [of oneSecond 1 attempt] by (simp add: sint_units second_def)
qed

text \<open>
  C12. The retry delay of an audit event is the capped exponential: one second, doubled with
  every attempt, at most five minutes. The loop that computes it ends for every attempt count,
  and the 64-bit durations it doubles never wrap to zero or below; the bound of the delay of a
  notification is the same.
\<close>

theorem audit_retry_delay_exact:
  "sint (auditRetryDelay attempt) = min (5 * minute) (second * 2 ^ (unat attempt - 1)) \<and>
   sint (notificationRetryBound attempt) = min (5 * minute) (second * 2 ^ (unat attempt - 1)) \<and>
   0 < sint (auditRetryDelay attempt)"
proof -
  have "0 < min (5 * minute) (second * 2 ^ (unat attempt - 1))" by (simp add: minute_def second_def)
  then show ?thesis by (simp only: auditRetryDelay_def notificationRetryBound_def capped simp_thms)
qed

section \<open>Delivery\<close>

text \<open>
  The log store is the list of the records appended so far; an append that reports a failure may
  have taken effect. Every call of the outbox is an operation of its own, with its own
  environment, numbered in the order of the calls.
\<close>

record log_env =
  lg_ok :: bool
  lg_landed :: bool

definition AppendAudits :: "log_env \<Rightarrow> AuditRecord list \<Rightarrow> AuditRecord list \<Rightarrow> bool \<times> AuditRecord list" where
  "AppendAudits le records log =
     (if records = [] then (True, log)
      else if lg_ok le then (True, log @ records)
      else (False, if lg_landed le then log @ records else log))"

definition errorsOf :: "err + 'a \<Rightarrow> err list" where
  "errorsOf r = (case r of Inl e \<Rightarrow> [e] | Inr _ \<Rightarrow> [])"

fun decodeBatch ::
  "(event_payload \<Rightarrow> int) \<Rightarrow> (nat \<Rightarrow> env) \<Rightarrow> nat \<Rightarrow> OutboxEvent list \<Rightarrow> db \<Rightarrow>
   ((AuditRecord \<times> OutboxEvent) list \<times> err list \<times> nat) \<times> db" where
  "decodeBatch width envs k [] d = (([], [], k), d)"
| "decodeBatch width envs k (e # es) d =
     (case DecodeAuditOutbox width e of
        Inr rec \<Rightarrow>
          (case decodeBatch width envs k es d of
             ((batch, errs, k'), d') \<Rightarrow> (((rec, e) # batch, errs, k'), d'))
      | Inl er \<Rightarrow>
          (case RetryOutbox (oe_id e) 0 ''invalid_audit_payload'' True (envs k) d of
             (r, d1) \<Rightarrow>
               (case decodeBatch width envs (k + 1) es d1 of
                  ((batch, errs, k'), d') \<Rightarrow> ((batch, er # errorsOf r @ errs, k'), d'))))"

fun retryBatch :: "time \<Rightarrow> (nat \<Rightarrow> env) \<Rightarrow> nat \<Rightarrow> OutboxEvent list \<Rightarrow> db \<Rightarrow> err list \<times> db" where
  "retryBatch at envs k [] d = ([], d)"
| "retryBatch at envs k (e # es) d =
     (case RetryOutbox (oe_id e) (at + sint (auditRetryDelay (oe_attempts e))) ''clickhouse_unavailable'' False
             (envs k) d of
        (r, d1) \<Rightarrow> (case retryBatch at envs (k + 1) es d1 of (errs, d') \<Rightarrow> (errorsOf r @ errs, d')))"

fun completeBatch :: "(nat \<Rightarrow> env) \<Rightarrow> nat \<Rightarrow> OutboxEvent list \<Rightarrow> db \<Rightarrow> (nat \<times> err list) \<times> db" where
  "completeBatch envs k [] d = ((0, []), d)"
| "completeBatch envs k (e # es) d =
     (case CompleteOutbox (oe_id e) (envs k) d of
        (r, d1) \<Rightarrow>
          (case completeBatch envs (k + 1) es d1 of
             ((n, errs), d') \<Rightarrow> (((case r of Inl _ \<Rightarrow> n | Inr _ \<Rightarrow> n + 1), errorsOf r @ errs), d')))"

definition auditBatchSize :: int where "auditBatchSize = 500"

text \<open>The number of events completed and the joined errors, with the outbox and the log after.\<close>

definition DeliverAuditOnce ::
  "(event_payload \<Rightarrow> int) \<Rightarrow> (bytes \<Rightarrow> bool) \<Rightarrow> (nat \<Rightarrow> env) \<Rightarrow> log_env \<Rightarrow> db \<times> AuditRecord list \<Rightarrow>
   (nat \<times> err list) \<times> db \<times> AuditRecord list" where
  "DeliverAuditOnce width held envs le w =
     (case w of (d, log) \<Rightarrow>
        (case ClaimOutbox held OutboxAudit auditBatchSize minute (envs 0) d of
           (Inl e, d1) \<Rightarrow> ((0, [e]), d1, log)
         | (Inr events, d1) \<Rightarrow>
             if events = [] then ((0, []), d1, log)
             else
               (case decodeBatch width envs 1 events d1 of
                  ((batch, errs, k), d2) \<Rightarrow>
                    if batch = [] then ((0, errs), d2, log)
                    else
                      (case AppendAudits le (map fst batch) log of
                         (False, log') \<Rightarrow>
                           (case retryBatch (now (envs k)) envs k (map snd batch) d2 of
                              (errs', d3) \<Rightarrow> ((0, errs @ ErrInternal # errs'), d3, log'))
                       | (True, log') \<Rightarrow>
                           (case completeBatch envs k (map snd batch) d2 of
                              ((n, errs'), d3) \<Rightarrow> ((n, errs @ errs'), d3, log'))))))"

section \<open>Completed means logged\<close>

definition completedIDs :: "db \<Rightarrow> bytes set" where
  "completedIDs d = ob_id ` {r \<in> set (outbox d). ob_status r = Completed}"

lemma completed_update:
  assumes "\<And>r. p r \<Longrightarrow> ob_status (f r) \<noteq> Completed"
  shows "completedIDs (d\<lparr> outbox := updateWhere p f (outbox d) \<rparr>) \<subseteq> completedIDs d"
  using assms by (auto simp: completedIDs_def set_updateWhere)

lemma completed_claim:
  assumes "uniqueOn ob_id (outbox d)"
  shows "completedIDs (snd (ClaimOutbox held kind limit t env d)) \<subseteq> completedIDs d"
proof (rule allOrNothing_invariant [OF ClaimOutbox_atomic])
  fix env events d'
  assume run: "ClaimOutbox held kind limit t env d = (Inr events, d')"
  show "completedIDs d' \<subseteq> completedIDs d"
    using ClaimOutbox_effect [OF run assms] completed_update [of _ "claimRow (db_now env)" d]
    by (simp add: claimRow_def)
qed simp

lemma completed_retry: "completedIDs (snd (RetryOutbox i at code dead env d)) \<subseteq> completedIDs d"
proof -
  have "completedIDs (snd (auto_exec k (updateEvents p f) env d)) \<subseteq> completedIDs d"
    if "\<And>r. p r \<Longrightarrow> ob_status (f r) \<noteq> Completed" for k p f
    using completed_update [of p f d] that by (auto simp: auto_exec_def updateEvents_def)
  then show ?thesis by (auto simp: RetryOutbox_def)
qed

lemma completed_complete: "completedIDs (snd (CompleteOutbox i env d)) \<subseteq> insert i (completedIDs d)"
  by (auto simp: CompleteOutbox_def auto_exec_def updateEvents_def completedIDs_def set_updateWhere
      claimedRow_def)

lemma completed_decodeBatch: "completedIDs (snd (decodeBatch width envs k es d)) \<subseteq> completedIDs d"
proof (induction width envs k es d rule: decodeBatch.induct)
  case (2 width envs k e es d)
  show ?case
  proof (cases "DecodeAuditOutbox width e")
    case (Inr rec)
    then show ?thesis using 2(2) [OF Inr] by (cases "decodeBatch width envs k es d") (auto split: prod.splits)
  next
    case (Inl er)
    obtain r d1 where r: "RetryOutbox (oe_id e) 0 ''invalid_audit_payload'' True (envs k) d = (r, d1)"
      by fastforce
    then have "completedIDs d1 \<subseteq> completedIDs d" using completed_retry by (metis snd_conv)
    then show ?thesis using 2(1) [OF Inl r [symmetric]] Inl r
      by (cases "decodeBatch width envs (k + 1) es d1") (auto split: prod.splits)
  qed
qed simp

lemma completed_retryBatch: "completedIDs (snd (retryBatch at envs k es d)) \<subseteq> completedIDs d"
proof (induction at envs k es d rule: retryBatch.induct)
  case (2 at envs k e es d)
  obtain r d1 where r: "RetryOutbox (oe_id e) (at + sint (auditRetryDelay (oe_attempts e))) ''clickhouse_unavailable''
      False (envs k) d = (r, d1)" by fastforce
  then have "completedIDs d1 \<subseteq> completedIDs d" using completed_retry by (metis snd_conv)
  then show ?case using 2 [OF r [symmetric]] r
    by (cases "retryBatch at envs (k + 1) es d1") auto
qed simp

lemma completed_completeBatch:
  "completedIDs (snd (completeBatch envs k es d)) \<subseteq> oe_id ` set es \<union> completedIDs d"
proof (induction envs k es d rule: completeBatch.induct)
  case (2 envs k e es d)
  obtain r d1 where r: "CompleteOutbox (oe_id e) (envs k) d = (r, d1)" by fastforce
  then have "completedIDs d1 \<subseteq> insert (oe_id e) (completedIDs d)" using completed_complete by (metis snd_conv)
  then show ?case using 2 [OF r [symmetric]] r by (auto split: prod.splits)
qed simp

lemma decodeBatch_ids:
  assumes "decodeBatch width envs k es d = ((batch, errs, k'), d')" and "(rec, e) \<in> set batch"
  shows "DecodeAuditOutbox width e = Inr rec \<and> e \<in> set es"
  using assms
proof (induction width envs k es d arbitrary: batch errs k' d' rule: decodeBatch.induct)
  case (2 width envs k x es d)
  show ?case
  proof (cases "DecodeAuditOutbox width x")
    case (Inr rec')
    then obtain batch' where "batch = (rec', x) # batch'" "decodeBatch width envs k es d = ((batch', errs, k'), d')"
      using 2(3) by (auto split: prod.splits)
    then show ?thesis using 2(2) [OF Inr] 2(4) Inr by auto
  next
    case (Inl er)
    obtain r d1 where r: "RetryOutbox (oe_id x) 0 ''invalid_audit_payload'' True (envs k) d = (r, d1)"
      by fastforce
    then obtain errs' where "decodeBatch width envs (k + 1) es d1 = ((batch, errs', k'), d')"
      using 2(3) Inl by (auto split: prod.splits)
    then show ?thesis using 2(1) [OF Inl r [symmetric]] 2(4) by auto
  qed
qed simp

lemma DecodeAuditOutbox_id: "DecodeAuditOutbox width e = Inr rec \<Longrightarrow> ar_id rec = encodeHex (oe_id e)"
  by (auto simp: DecodeAuditOutbox_def Let_def split: if_splits)

definition logged :: "AuditRecord list \<Rightarrow> bytes \<Rightarrow> bool" where
  "logged log i = (\<exists>rec \<in> set log. ar_id rec = encodeHex i)"

lemma logged_append: "logged log i \<Longrightarrow> logged (log @ records) i"
  by (auto simp: logged_def)

text \<open>
  C8. An audit event is completed only when its record is in the log. Whatever a delivery round
  decodes, whichever calls of the outbox fail and whether or not the append succeeds, every event
  that is completed after the round and was not before is in the log after it, and records that
  were in the log stay there.
\<close>

theorem completed_is_logged:
  assumes "DeliverAuditOnce width held envs le (d, log) = (result, d', log')" and "uniqueOn ob_id (outbox d)"
    and "i \<in> completedIDs d'" and "i \<notin> completedIDs d"
  shows "logged log' i \<and> set log \<subseteq> set log'"
proof -
  obtain r d1 where claim: "ClaimOutbox held OutboxAudit auditBatchSize minute (envs 0) d = (r, d1)" by fastforce
  have c1: "completedIDs d1 \<subseteq> completedIDs d"
    using completed_claim [OF assms(2)] claim by (metis snd_conv)
  then obtain events where r: "r = Inr events" "events \<noteq> []"
    using assms(1,3,4) claim by (cases r) (auto simp: DeliverAuditOnce_def split: if_splits)
  obtain batch errs k d2 where dec: "decodeBatch width envs 1 events d1 = ((batch, errs, k), d2)"
    by (metis prod.collapse)
  have c2: "completedIDs d2 \<subseteq> completedIDs d1" using completed_decodeBatch dec by (metis snd_conv)
  have n: "batch \<noteq> []"
    using assms(1,3,4) c1 c2 claim r dec by (auto simp: DeliverAuditOnce_def split: if_splits)
  show ?thesis
  proof (cases "lg_ok le")
    case False
    obtain errs' d3 where rb: "retryBatch (now (envs k)) envs k (map snd batch) d2 = (errs', d3)" by fastforce
    have "d' = d3" using assms(1) claim r dec n rb False by (simp add: DeliverAuditOnce_def AppendAudits_def)
    then have "completedIDs d' \<subseteq> completedIDs d2"
      using completed_retryBatch [of "now (envs k)" envs k "map snd batch" d2] rb by simp
    then show ?thesis using assms(3,4) c1 c2 by blast
  next
    case True
    obtain m errs' d3 where cb: "completeBatch envs k (map snd batch) d2 = ((m, errs'), d3)"
      by (metis prod.collapse)
    have d': "d' = d3" and log: "log' = log @ map fst batch"
      using assms(1) claim r dec n cb True by (simp_all add: DeliverAuditOnce_def AppendAudits_def)
    have "completedIDs d' \<subseteq> oe_id ` set (map snd batch) \<union> completedIDs d2"
      using completed_completeBatch [of envs k "map snd batch" d2] cb d' by simp
    then obtain rec e where e: "(rec, e) \<in> set batch" "i = oe_id e" using assms(3,4) c1 c2 by fastforce
    then have "ar_id rec = encodeHex i" using decodeBatch_ids [OF dec] DecodeAuditOutbox_id by blast
    then show ?thesis using log e(1) by (force simp: logged_def)
  qed
qed

definition sampleDelivery :: "(nat \<times> err list) \<times> db \<times> AuditRecord list" where
  "sampleDelivery = DeliverAuditOnce (\<lambda>_. 100) (\<lambda>_. False) (\<lambda>_. sampleEnv) \<lparr> lg_ok = True, lg_landed = True \<rparr>
     (sampleOutbox, [])"

theorem completed_is_logged_witness:
  "''aaaaaabbbbbbbbbb'' \<in> completedIDs (fst (snd sampleDelivery)) \<and>
   logged (snd (snd sampleDelivery)) ''aaaaaabbbbbbbbbb''"
proof -
  have run: "DeliverAuditOnce (\<lambda>_. 100) (\<lambda>_. False) (\<lambda>_. sampleEnv) \<lparr> lg_ok = True, lg_landed = True \<rparr>
      (sampleOutbox, []) = (fst sampleDelivery, fst (snd sampleDelivery), snd (snd sampleDelivery))"
    by (simp add: sampleDelivery_def)
  have u: "uniqueOn ob_id (outbox sampleOutbox)" using sampleOutbox_ok by (simp add: outboxOk_def)
  have i: "''aaaaaabbbbbbbbbb'' \<in> completedIDs (fst (snd sampleDelivery))"
    "''aaaaaabbbbbbbbbb'' \<notin> completedIDs sampleOutbox" by code_simp+
  from completed_is_logged [OF run u i] i(1) show ?thesis by blast
qed

end
