(* ===== verification/Notify.thy ===== *)
theory Notify
  imports AuditWorker
begin

text \<open>
  Notifications: the strict decoder of their events (\<^verbatim>\<open>notification/event.go\<close>), the
  claim and the record of a delivery attempt per destination
  (\<^verbatim>\<open>notification_destination.go\<close>, \<^verbatim>\<open>notification_delivery.go\<close>) and the
  worker's loop (\<^verbatim>\<open>logworker/notification.go\<close>). The sender, the credentials a
  destination row decrypts to and the random delays are arguments.
\<close>

section \<open>Events\<close>

record Event =
  ne_source_ip :: string
  ne_field :: string
  ne_schema :: int
  ne_delivery :: string
  ne_type :: string
  ne_time :: time
  ne_operation :: string
  ne_actor :: actor
  ne_action :: string
  ne_outcome :: Outcome
  ne_environment :: string
  ne_namespace :: string
  ne_resource_type :: string
  ne_resource :: string
  ne_revision :: u64

text \<open>Go's index of the first byte is reached with keys of at least one byte only.\<close>

definition validEventFieldKey :: "string \<Rightarrow> bool" where
  "validEventFieldKey key =
     (case key of
        [] \<Rightarrow> False
      | c # _ \<Rightarrow> length key \<le> 63 \<and> lowerChar c \<and> list_all keyChar key)"

definition validNotificationResource :: "string \<Rightarrow> string \<Rightarrow> bool" where
  "validNotificationResource kind key =
     (if kind = ''release'' then
        (case cutStr CHR ''.'' key of
           None \<Rightarrow> False
         | Some (a, b) \<Rightarrow> a \<noteq> [] \<and> b \<noteq> [] \<and> validEventFieldKey a \<and> validEventFieldKey b)
      else length key \<le> 63)"

definition tokenIdentity :: "actor \<Rightarrow> bool" where
  "tokenIdentity act =
     (actorType act = ''token'' \<longrightarrow>
       (case decodeHex (actorID act) of None \<Rightarrow> False | Some b \<Rightarrow> length b = 8))"

definition validNotificationPayload :: "OutboxEvent \<Rightarrow> event_payload \<Rightarrow> bool" where
  "validNotificationPayload event p =
     (ev_time p \<noteq> 0 \<and> ev_operation_id p = oe_operation event \<and>
      actorType (ev_actor p) \<in> {''user'', ''system'', ''token''} \<and>
      actorID (ev_actor p) \<noteq> [] \<and> length (actorID (ev_actor p)) \<le> 255 \<and>
      (ev_source_ip p = [] \<or> parsesIP (ev_source_ip p)) \<and>
      ev_action p \<noteq> [] \<and> length (ev_action p) \<le> 128 \<and> ev_outcome p = OutcomeSuccess \<and>
      ev_resource_type p \<noteq> [] \<and> length (ev_resource_type p) \<le> 64 \<and>
      ev_resource_key p \<noteq> [] \<and> validNotificationResource (ev_resource_type p) (ev_resource_key p) \<and>
      length (ev_environment p) \<le> 63 \<and> length (ev_namespace p) \<le> 63 \<and>
      \<not> (ev_resource_type p = ''vault_item'' \<and> ev_namespace p = []))"

text \<open>The members of a rejected request are unknown to this decoder, which is strict.\<close>

definition DecodeEvent :: "(event_payload \<Rightarrow> int) \<Rightarrow> OutboxEvent \<Rightarrow> err + Event" where
  "DecodeEvent width event =
     (let p = oe_payload event in
      if oe_kind event \<noteq> OutboxNotification \<or> zeroOutboxID (oe_id event) \<or> oe_type event = [] \<or>
         length (oe_type event) > 64 \<or> oe_operation event = [] \<or> oe_attempts event = 0 \<or>
         width p \<le> 0 \<or> width p > 65536
      then Inl ErrInternal
      else if ev_request_id p \<noteq> None \<or> ev_error_code p \<noteq> None then Inl ErrInternal
      else if \<not> tokenIdentity (ev_actor p) then Inl ErrInternal
      else if ev_field_key p \<noteq> [] \<and> \<not> validEventFieldKey (ev_field_key p) then Inl ErrInternal
      else if \<not> validNotificationPayload event p then Inl ErrInternal
      else
        Inr \<lparr> ne_source_ip = ev_source_ip p, ne_field = ev_field_key p, ne_schema = 1,
              ne_delivery = encodeHex (oe_id event), ne_type = oe_type event, ne_time = ev_time p,
              ne_operation = ev_operation_id p, ne_actor = ev_actor p, ne_action = ev_action p,
              ne_outcome = ev_outcome p, ne_environment = ev_environment p,
              ne_namespace = ev_namespace p, ne_resource_type = ev_resource_type p,
              ne_resource = ev_resource_key p, ne_revision = ev_revision p \<rparr>)"

section \<open>Claiming the targets of an event\<close>

record NotificationTarget =
  nt_outbox :: bytes
  nt_destination :: bytes
  nt_key :: string
  nt_provider :: string
  nt_url :: string
  nt_secret :: string
  nt_error :: string
  nt_attempt :: u32
  nt_active :: bool

type_synonym credentials = "bytes \<Rightarrow> (string \<times> string) option"

definition updateTargets :: "(target_row \<Rightarrow> bool) \<Rightarrow> (target_row \<Rightarrow> target_row) \<Rightarrow> db \<Rightarrow> db" where
  "updateTargets p f d = d\<lparr> targets := updateWhere p f (targets d) \<rparr>"

definition pendingTarget :: "bytes \<Rightarrow> target_row \<Rightarrow> bool" where
  "pendingTarget i t = (tg_event t = i \<and> tg_status t = TargetPending)"

definition expireTargets :: "bytes \<Rightarrow> db \<Rightarrow> db" where
  "expireTargets i =
     updateTargets (\<lambda>t. pendingTarget i t \<and> 8 \<le> tg_attempts t)
       (\<lambda>t. t\<lparr> tg_status := TargetDead, tg_error := Some ''attempt_limit_reached'' \<rparr>)"

text \<open>The rows of the join, ordered by the next attempt and the destination's key.\<close>

definition dueTargets :: "bytes \<Rightarrow> time \<Rightarrow> nat \<Rightarrow> db \<Rightarrow> (target_row \<times> destination_row) list" where
  "dueTargets i at limit d =
     (if \<not> existsRow (\<lambda>r. ob_id r = i \<and> ob_kind r = OutboxNotification \<and> ob_status r = Processing) (outbox d)
      then []
      else
        take limit (sort_key (\<lambda>(t, ds). (tg_next t, ds_key ds))
          (concat (map (\<lambda>t. map (\<lambda>ds. (t, ds)) (filter (\<lambda>ds. ds_id ds = tg_destination t) (destinations d)))
             (filter (\<lambda>t. pendingTarget i t \<and> tg_next t \<le> at \<and> tg_attempts t < 8) (targets d))))))"

definition claimedTarget :: "credentials \<Rightarrow> target_row \<times> destination_row \<Rightarrow> NotificationTarget" where
  "claimedTarget open x =
     (case x of (t, ds) \<Rightarrow>
        let active = (ds_enabled ds \<and> ds_archived ds = None);
            target = \<lparr> nt_outbox = tg_event t, nt_destination = ds_id ds, nt_key = ds_key ds,
                       nt_provider = ds_provider ds, nt_url = [], nt_secret = [], nt_error = [],
                       nt_attempt = tg_attempts t + 1, nt_active = active \<rparr>
        in
          if \<not> active then target
          else
            (case open (ds_id ds) of
               None \<Rightarrow> target\<lparr> nt_error := ''credential_integrity_failure'' \<rparr>
             | Some (url, secret) \<Rightarrow> target\<lparr> nt_url := url, nt_secret := secret \<rparr>))"

definition attemptRow :: "bytes \<Rightarrow> bytes \<Rightarrow> u32 \<Rightarrow> target_row \<Rightarrow> bool" where
  "attemptRow i ds n t = (pendingTarget i t \<and> tg_destination t = ds \<and> tg_attempts t = n)"

definition countAttempt :: "NotificationTarget \<Rightarrow> db \<Rightarrow> db \<times> nat" where
  "countAttempt target d =
     (let p = attemptRow (nt_outbox target) (nt_destination target) (nt_attempt target - 1) in
      (updateTargets p (\<lambda>t. t\<lparr> tg_attempts := nt_attempt target \<rparr>) d, countWhere p (targets d)))"

definition claimTargets :: "credentials \<Rightarrow> bytes \<Rightarrow> int \<Rightarrow> NotificationTarget list tx" where
  "claimTargets open i limit =
     tx_bind (tx_exec (\<lambda>d. Some (expireTargets i d))) (\<lambda>_.
     tx_bind (tx_env db_now) (\<lambda>at.
     tx_bind (tx_query (dueTargets i at (nat limit))) (\<lambda>rows.
       if list_ex (\<lambda>(t, ds). length (ds_id ds) \<noteq> 16) rows then tx_fail ErrInternal
       else
         (let claimed = map (claimedTarget open) rows in
          tx_bind (tx_each (\<lambda>target.
             tx_bind (tx_execCount (countAttempt target)) (\<lambda>changed.
               if changed \<noteq> 1 then tx_fail ErrInternal else tx_return ())) claimed) (\<lambda>_.
          tx_bind tx_commit (\<lambda>_.
          tx_return claimed))))))"

definition ClaimNotificationTargets ::
  "credentials \<Rightarrow> bytes \<Rightarrow> int \<Rightarrow> env \<Rightarrow> db \<Rightarrow> (err + NotificationTarget list) \<times> db" where
  "ClaimNotificationTargets open i limit env d =
     (if zeroOutboxID i \<or> limit < 1 \<or> limit > 1000 then (Inl ErrInternal, d)
      else run_tx (claimTargets open i limit) env d)"

section \<open>Recording an attempt\<close>

definition NotificationDeliverySucceeded :: string where "NotificationDeliverySucceeded = ''succeeded''"
definition NotificationDeliveryRetrying :: string where "NotificationDeliveryRetrying = ''retrying''"
definition NotificationDeliveryDead :: string where "NotificationDeliveryDead = ''dead''"

record NotificationDeliveryRecord =
  nr_target :: NotificationTarget
  nr_status :: string
  nr_http :: int
  nr_latency :: u32
  nr_error :: string
  nr_next :: time

definition validateNotificationDelivery :: "NotificationDeliveryRecord \<Rightarrow> bool" where
  "validateNotificationDelivery r =
     (let target = nr_target r in
      \<not> zeroOutboxID (nt_outbox target) \<and> \<not> zeroOutboxID (nt_destination target) \<and>
      1 \<le> nt_attempt target \<and> nt_attempt target \<le> 8 \<and>
      (nr_http r = 0 \<or> (100 \<le> nr_http r \<and> nr_http r \<le> 599)) \<and>
      (if nr_status r = NotificationDeliverySucceeded then nr_error r = [] \<and> nr_next r = 0
       else if nr_status r = NotificationDeliveryRetrying then
         nt_attempt target \<noteq> 8 \<and> validOutboxErrorCode (nr_error r) \<and> nr_next r \<noteq> 0
       else if nr_status r = NotificationDeliveryDead then
         validOutboxErrorCode (nr_error r) \<and> nr_next r = 0
       else False))"

definition errorColumn :: "string \<Rightarrow> string option" where
  "errorColumn code = (if code = [] then None else Some code)"

definition deliveryRow :: "bytes \<Rightarrow> NotificationDeliveryRecord \<Rightarrow> delivery_row" where
  "deliveryRow i r =
     \<lparr> dl_id = i, dl_event = nt_outbox (nr_target r), dl_destination = nt_destination (nr_target r),
       dl_attempt = nt_attempt (nr_target r), dl_status = nr_status r,
       dl_http = (if nr_http r = 0 then None else Some (nr_http r)), dl_latency = nr_latency r,
       dl_error = errorColumn (nr_error r) \<rparr>"

text \<open>The table's keys: the row's identifier, one row per attempt, and the two references.\<close>

definition insertDelivery :: "delivery_row \<Rightarrow> db \<Rightarrow> db option" where
  "insertDelivery row d =
     (if existsRow (\<lambda>x. dl_id x = dl_id row \<or>
            (dl_event x = dl_event row \<and> dl_destination x = dl_destination row \<and> dl_attempt x = dl_attempt row))
          (deliveries d) \<or>
         \<not> existsRow (\<lambda>r. ob_id r = dl_event row) (outbox d) \<or>
         \<not> existsRow (\<lambda>ds. ds_id ds = dl_destination row) (destinations d)
      then None
      else Some (d\<lparr> deliveries := deliveries d @ [row] \<rparr>))"

definition settledStatus :: "string \<Rightarrow> target_status" where
  "settledStatus status =
     (if status = NotificationDeliverySucceeded then TargetSucceeded
      else if status = NotificationDeliveryDead then TargetDead else TargetPending)"

text \<open>The number of affected rows is that of the rows the update changes.\<close>

definition settleTarget :: "NotificationDeliveryRecord \<Rightarrow> time \<Rightarrow> db \<Rightarrow> db \<times> nat" where
  "settleTarget r at d =
     (let p = attemptRow (nt_outbox (nr_target r)) (nt_destination (nr_target r)) (nt_attempt (nr_target r));
          f = (\<lambda>t. t\<lparr> tg_status := settledStatus (nr_status r),
                     tg_next := (if nr_status r = NotificationDeliveryRetrying then nr_next r else at),
                     tg_error := errorColumn (nr_error r) \<rparr>)
      in (updateTargets p f d, countWhere (\<lambda>t. p t \<and> f t \<noteq> t) (targets d)))"

definition recordDelivery :: "bytes \<Rightarrow> NotificationDeliveryRecord \<Rightarrow> unit tx" where
  "recordDelivery i r =
     tx_bind (tx_exec (insertDelivery (deliveryRow i r))) (\<lambda>_.
     tx_bind (tx_env now) (\<lambda>at.
     tx_bind (tx_execCount (settleTarget r at)) (\<lambda>changed.
       if changed \<noteq> 1 then tx_fail ErrInternal
       else tx_bind tx_commit (\<lambda>_. tx_return ()))))"

definition RecordNotificationDelivery :: "NotificationDeliveryRecord \<Rightarrow> env \<Rightarrow> db \<Rightarrow> (err + unit) \<times> db" where
  "RecordNotificationDelivery r env d =
     (if \<not> validateNotificationDelivery r then (Inl ErrInternal, d)
      else
        (case rand env 0 16 of
           None \<Rightarrow> (Inl ErrInternal, d)
         | Some i \<Rightarrow> run_tx (recordDelivery i r) env d))"

section \<open>Progress\<close>

record NotificationProgressResult =
  pr_complete :: bool
  pr_next :: time

definition earliest :: "time list \<Rightarrow> time" where
  "earliest ts = (case ts of [] \<Rightarrow> 0 | t # us \<Rightarrow> foldl min t us)"

definition targetProgress :: "bytes \<Rightarrow> db \<Rightarrow> NotificationProgressResult option" where
  "targetProgress i d =
     (if \<not> existsRow (\<lambda>r. ob_id r = i \<and> ob_kind r = OutboxNotification) (outbox d) then None
      else
        (let left = filter (pendingTarget i) (targets d) in
         Some \<lparr> pr_complete = (left = []), pr_next = earliest (map tg_next left) \<rparr>))"

definition NotificationProgress :: "bytes \<Rightarrow> env \<Rightarrow> db \<Rightarrow> err + NotificationProgressResult" where
  "NotificationProgress i env d =
     (if zeroOutboxID i then Inl ErrInternal
      else
        (case auto_query 0 (targetProgress i) env d of
           Inl e \<Rightarrow> Inl e
         | Inr None \<Rightarrow> Inl ErrInternal
         | Inr (Some p) \<Rightarrow> Inr p))"

end
