(* ===== verification/NotifyWorker.thy ===== *)
theory NotifyWorker
  imports Notify
begin

text \<open>
  The notification worker (\<^verbatim>\<open>logworker/notification.go\<close>) over the interface
  \<^verbatim>\<open>notificationOutbox\<close> the source gives it, and what follows from the contract of that
  interface: at most eight attempts per destination, and no event completed while a destination
  is still to be served.
\<close>

section \<open>The interface\<close>

record 'w notificationOutbox =
  op_ClaimOutbox :: "outbox_kind \<Rightarrow> int \<Rightarrow> time \<Rightarrow> env \<Rightarrow> 'w \<Rightarrow> (err + OutboxEvent list) \<times> 'w"
  op_ClaimTargets :: "bytes \<Rightarrow> int \<Rightarrow> env \<Rightarrow> 'w \<Rightarrow> (err + NotificationTarget list) \<times> 'w"
  op_Record :: "NotificationDeliveryRecord \<Rightarrow> env \<Rightarrow> 'w \<Rightarrow> (err + unit) \<times> 'w"
  op_Progress :: "bytes \<Rightarrow> env \<Rightarrow> 'w \<Rightarrow> (err + NotificationProgressResult) \<times> 'w"
  op_Complete :: "bytes \<Rightarrow> env \<Rightarrow> 'w \<Rightarrow> (err + unit) \<times> 'w"
  op_Retry :: "bytes \<Rightarrow> time \<Rightarrow> string \<Rightarrow> bool \<Rightarrow> env \<Rightarrow> 'w \<Rightarrow> (err + unit) \<times> 'w"

record AttemptResult =
  at_status :: string
  at_http :: int
  at_latency :: u32
  at_error :: string
  at_retry_after :: time
  at_has_retry_after :: bool

text \<open>
  What a round meets: the environment of each call, the context's deadline, the sender's answers
  and the random delays (\<^verbatim>\<open>rand.Int64N(n)\<close>), each by the number of the call.
\<close>

record round =
  rd_env :: "nat \<Rightarrow> env"
  rd_cancelled :: "nat \<Rightarrow> bool"
  rd_send :: "nat \<Rightarrow> NotificationTarget \<Rightarrow> Event \<Rightarrow> AttemptResult"
  rd_random :: "nat \<Rightarrow> time \<Rightarrow> time"

section \<open>The loop\<close>

definition notificationRetryDelay :: "round \<Rightarrow> nat \<Rightarrow> u32 \<Rightarrow> time" where
  "notificationRetryDelay rd k attempt = rd_random rd k (sint (notificationRetryBound attempt + 1))"

definition deliveryRecord :: "round \<Rightarrow> nat \<Rightarrow> NotificationTarget \<Rightarrow> AttemptResult \<Rightarrow> NotificationDeliveryRecord" where
  "deliveryRecord rd k target attempt =
     (let r = \<lparr> nr_target = target, nr_status = at_status attempt, nr_http = at_http attempt,
                nr_latency = at_latency attempt, nr_error = at_error attempt, nr_next = 0 \<rparr> in
      if nr_status r \<noteq> NotificationDeliveryRetrying then r
      else if nt_attempt target = 8 then r\<lparr> nr_status := NotificationDeliveryDead \<rparr>
      else
        (let delay = notificationRetryDelay rd k (nt_attempt target);
             delay' = (if at_has_retry_after attempt \<and> at_retry_after attempt > delay
                       then at_retry_after attempt else delay)
         in r\<lparr> nr_next := now (rd_env rd k) + delay' \<rparr>))"

datatype loop_end = Cancelled | RecordFailed | Drained

text \<open>At most the given number of attempts, one target at a time.\<close>

fun deliverTargets ::
  "'w notificationOutbox \<Rightarrow> round \<Rightarrow> nat \<Rightarrow> nat \<Rightarrow> bytes \<Rightarrow> Event \<Rightarrow> 'w \<Rightarrow> (loop_end \<times> err list \<times> nat) \<times> 'w" where
  "deliverTargets ops rd 0 k i event w = ((Drained, [], k), w)"
| "deliverTargets ops rd (Suc left) k i event w =
     (if rd_cancelled rd k then ((Cancelled, [ErrInternal], k), w)
      else
        (case op_ClaimTargets ops i 1 (rd_env rd k) w of
           (Inl e, w1) \<Rightarrow> ((RecordFailed, [e], k + 1), w1)
         | (Inr [], w1) \<Rightarrow> ((Drained, [], k + 1), w1)
         | (Inr (target # _), w1) \<Rightarrow>
             (case op_Record ops (deliveryRecord rd (k + 1) target (rd_send rd (k + 1) target event))
                     (rd_env rd (k + 2)) w1 of
                (Inl e, w2) \<Rightarrow> ((RecordFailed, [e], k + 3), w2)
              | (Inr _, w2) \<Rightarrow>
                  if rd_cancelled rd (k + 3) then ((Cancelled, [ErrInternal], k + 3), w2)
                  else deliverTargets ops rd left (k + 3) i event w2)))"

definition withErrors :: "err list \<Rightarrow> (nat \<times> err list) \<times> 'w \<Rightarrow> (nat \<times> err list) \<times> 'w" where
  "withErrors errs x = (case x of ((n, errs'), w) \<Rightarrow> ((n, errs @ errs'), w))"

text \<open>After the attempts: the event is completed when no target is pending, else retried.\<close>

definition finishEvent ::
  "'w notificationOutbox \<Rightarrow> round \<Rightarrow> nat \<Rightarrow> bytes \<Rightarrow> 'w \<Rightarrow> (nat \<times> err list) \<times> 'w" where
  "finishEvent ops rd k i w =
     (case op_Progress ops i (rd_env rd k) w of
        (Inl e, w1) \<Rightarrow> ((0, [e]), w1)
      | (Inr p, w1) \<Rightarrow>
          if pr_complete p then
            (case op_Complete ops i (rd_env rd (k + 1)) w1 of
               (Inl e, w2) \<Rightarrow> ((0, [e]), w2)
             | (Inr _, w2) \<Rightarrow> ((1, []), w2))
          else
            (case op_Retry ops i (pr_next p) ''delivery_retry'' False (rd_env rd (k + 1)) w1 of
               (r, w2) \<Rightarrow> ((0, errorsOf r), w2)))"

fun deliverEvents ::
  "'w notificationOutbox \<Rightarrow> round \<Rightarrow> (event_payload \<Rightarrow> int) \<Rightarrow> nat \<Rightarrow> nat \<Rightarrow> OutboxEvent list \<Rightarrow> 'w \<Rightarrow>
   (nat \<times> err list) \<times> 'w" where
  "deliverEvents ops rd width k completed [] w = ((completed, []), w)"
| "deliverEvents ops rd width k completed (e # es) w =
     (if rd_cancelled rd k then ((completed, [ErrInternal]), w)
      else
        (case DecodeEvent width e of
           Inl er \<Rightarrow>
             (case op_Retry ops (oe_id e) 0 ''invalid_notification_payload'' True (rd_env rd k) w of
                (r, w1) \<Rightarrow> withErrors (er # errorsOf r) (deliverEvents ops rd width (k + 1) completed es w1))
         | Inr event \<Rightarrow>
             (case deliverTargets ops rd 100 k (oe_id e) event w of
                ((Cancelled, errs, k1), w1) \<Rightarrow> ((completed, errs), w1)
              | ((RecordFailed, errs, k1), w1) \<Rightarrow>
                  withErrors errs (deliverEvents ops rd width k1 completed es w1)
              | ((Drained, errs, k1), w1) \<Rightarrow>
                  (case finishEvent ops rd k1 (oe_id e) w1 of
                     ((n, errs'), w2) \<Rightarrow>
                       withErrors errs' (deliverEvents ops rd width (k1 + 2) (completed + n) es w2)))))"

definition notificationBatchSize :: int where "notificationBatchSize = 1"

definition deliverNotificationsOnce ::
  "'w notificationOutbox \<Rightarrow> round \<Rightarrow> (event_payload \<Rightarrow> int) \<Rightarrow> 'w \<Rightarrow> (nat \<times> err list) \<times> 'w" where
  "deliverNotificationsOnce ops rd width w =
     (case op_ClaimOutbox ops OutboxNotification notificationBatchSize minute (rd_env rd 0) w of
        (Inl e, w1) \<Rightarrow> ((0, [e]), w1)
      | (Inr events, w1) \<Rightarrow>
          if events = [] then ((0, []), w1) else deliverEvents ops rd width 1 0 events w1)"

text \<open>\<^verbatim>\<open>DeliverNotificationsOnce\<close> gives the loop the store.\<close>

definition storeOutbox :: "credentials \<Rightarrow> (bytes \<Rightarrow> bool) \<Rightarrow> db notificationOutbox" where
  "storeOutbox open held =
     \<lparr> op_ClaimOutbox = ClaimOutbox held, op_ClaimTargets = ClaimNotificationTargets open,
       op_Record = RecordNotificationDelivery,
       op_Progress = (\<lambda>i env d. (NotificationProgress i env d, d)),
       op_Complete = CompleteOutbox, op_Retry = RetryOutbox \<rparr>"

definition DeliverNotificationsOnce ::
  "credentials \<Rightarrow> (bytes \<Rightarrow> bool) \<Rightarrow> round \<Rightarrow> (event_payload \<Rightarrow> int) \<Rightarrow> db \<Rightarrow> (nat \<times> err list) \<times> db" where
  "DeliverNotificationsOnce open held = deliverNotificationsOnce (storeOutbox open held)"

lemma snd_withErrors [simp]: "snd (withErrors errs x) = snd x"
  by (simp add: withErrors_def split: prod.splits)

section \<open>The contract of the interface\<close>

text \<open>
  \<^verbatim>\<open>I\<close> is an invariant that the calls keep; an event may be completed once it is
  \<^verbatim>\<open>ready\<close>, which is what complete progress tells.
\<close>

locale notification_outbox =
  fixes ops :: "'w notificationOutbox"
    and I :: "'w \<Rightarrow> bool"
    and ready :: "bytes \<Rightarrow> 'w \<Rightarrow> bool"
  assumes claim: "I w \<Longrightarrow> I (snd (op_ClaimOutbox ops kind limit t env w))"
    and targets: "I w \<Longrightarrow> I (snd (op_ClaimTargets ops i limit env w))"
    and record': "I w \<Longrightarrow> I (snd (op_Record ops r env w))"
    and progress: "I w \<Longrightarrow> I (snd (op_Progress ops i env w))"
    and complete: "I w \<Longrightarrow> ready i w \<Longrightarrow> I (snd (op_Complete ops i env w))"
    and retry: "I w \<Longrightarrow> I (snd (op_Retry ops i at code dead env w))"
    and progress_ready: "op_Progress ops i env w = (Inr p, w') \<Longrightarrow> pr_complete p \<Longrightarrow> ready i w'"
begin

lemma keeps_targets: "I w \<Longrightarrow> I (snd (deliverTargets ops rd left k i event w))"
proof (induction left arbitrary: k w)
  case (Suc left)
  obtain r w1 where 1: "op_ClaimTargets ops i 1 (rd_env rd k) w = (r, w1)" by fastforce
  then have i1: "I w1" using targets [OF Suc.prems] by (metis snd_conv)
  show ?case
  proof (cases "\<exists>target rest. r = Inr (target # rest)")
    case True
    then obtain target rest where r: "r = Inr (target # rest)" by blast
    obtain q w2 where 2: "op_Record ops (deliveryRecord rd (k + 1) target (rd_send rd (k + 1) target event))
        (rd_env rd (k + 2)) w1 = (q, w2)" by fastforce
    then have "I w2" using record' [OF i1] by (metis snd_conv)
    then show ?thesis using Suc 1 2 r by (cases q) simp_all
  next
    case False
    then show ?thesis using Suc.prems 1 i1 by (auto split: sum.splits list.splits)
  qed
qed simp

lemma keeps_finish:
  assumes "I w"
  shows "I (snd (finishEvent ops rd k i w))"
proof -
  obtain r w1 where 1: "op_Progress ops i (rd_env rd k) w = (r, w1)" by fastforce
  then have i1: "I w1" using progress [OF assms] by (metis snd_conv)
  show ?thesis
  proof (cases r)
    case (Inl e)
    then show ?thesis using 1 i1 by (simp add: finishEvent_def)
  next
    case (Inr p)
    then show ?thesis
      using 1 i1 progress_ready [of i "rd_env rd k" w p w1] complete [OF i1, of i "rd_env rd (k + 1)"]
        retry [OF i1, of i "pr_next p" "''delivery_retry''" False "rd_env rd (k + 1)"]
      by (auto simp: finishEvent_def split: sum.splits prod.splits)
  qed
qed

lemma keeps_events: "I w \<Longrightarrow> I (snd (deliverEvents ops rd width k completed es w))"
proof (induction es arbitrary: k completed w)
  case (Cons e es)
  show ?case
  proof (cases "rd_cancelled rd k")
    case True
    then show ?thesis using Cons.prems by simp
  next
    case live: False
    show ?thesis
    proof (cases "DecodeEvent width e")
      case (Inl er)
      obtain r w1 where "op_Retry ops (oe_id e) 0 ''invalid_notification_payload'' True (rd_env rd k) w = (r, w1)"
        by fastforce
      moreover from this have "I w1" using retry [OF Cons.prems] by (metis snd_conv)
      ultimately show ?thesis using Cons.IH live Inl by simp
    next
      case (Inr event)
      obtain x errs k1 w1 where 1: "deliverTargets ops rd 100 k (oe_id e) event w = ((x, errs, k1), w1)"
        by (metis prod.collapse)
      then have i1: "I w1" using keeps_targets [OF Cons.prems] by (metis snd_conv)
      obtain n errs' w2 where 2: "finishEvent ops rd k1 (oe_id e) w1 = ((n, errs'), w2)"
        by (metis prod.collapse)
      then have "I w2" using keeps_finish [OF i1] by (metis snd_conv)
      then show ?thesis using Cons.IH live Inr 1 2 i1 by (cases x) simp_all
    qed
  qed
qed simp

lemma keeps_round: "I w \<Longrightarrow> I (snd (deliverNotificationsOnce ops rd width w))"
  using claim [of w OutboxNotification notificationBatchSize minute "rd_env rd 0"] keeps_events
  by (auto simp: deliverNotificationsOnce_def split: prod.splits sum.splits)

end

end
