(* ===== verification/NotifyLaws.thy ===== *)
theory NotifyLaws
  imports NotifyWorker
begin

text \<open>
  The store meets the contract of the notification worker: its invariant (attempts and recorded
  deliveries are bounded, a completed event has no pending target) survives every call, whatever
  fails.
\<close>

section \<open>The invariant\<close>

definition settled :: "bytes \<Rightarrow> db \<Rightarrow> bool" where
  "settled i d = list_all (\<lambda>t. \<not> pendingTarget i t) (targets d)"

definition attemptsOk :: "db \<Rightarrow> bool" where
  "attemptsOk d =
     (list_all (\<lambda>t. tg_attempts t \<le> 8) (targets d) \<and>
      uniqueOn (\<lambda>x. (dl_event x, dl_destination x, dl_attempt x)) (deliveries d) \<and>
      list_all (\<lambda>x. 1 \<le> dl_attempt x \<and> dl_attempt x \<le> 8) (deliveries d))"

definition notifySafe :: "db \<Rightarrow> bool" where
  "notifySafe d = (outboxOk d \<and> attemptsOk d \<and> (\<forall>i \<in> completedIDs d. settled i d))"

section \<open>Outbox calls\<close>

lemma moved_targets: "moved d d' \<Longrightarrow> targets d' = targets d \<and> deliveries d' = deliveries d"
proof -
  assume "moved d d'"
  then obtain rows where "d' = d\<lparr> outbox := rows \<rparr>" by (auto simp: moved_def)
  then show ?thesis by simp
qed

lemma moved_safe:
  assumes "moved d d'" and "notifySafe d" and "\<forall>i \<in> completedIDs d' - completedIDs d. settled i d"
  shows "notifySafe d'"
proof -
  have "targets d' = targets d" "deliveries d' = deliveries d" using moved_targets [OF assms(1)] by auto
  then show ?thesis using assms moved_outboxOk [OF assms(1)]
    by (auto simp: notifySafe_def attemptsOk_def settled_def)
qed

lemma safe_unique: "notifySafe d \<Longrightarrow> uniqueOn ob_id (outbox d)"
  by (simp add: notifySafe_def outboxOk_def)

lemma ClaimOutbox_safe: "notifySafe d \<Longrightarrow> notifySafe (snd (ClaimOutbox held kind limit t env d))"
  using moved_safe [OF ClaimOutbox_moved [OF safe_unique]] completed_claim [OF safe_unique] by blast

lemma RetryOutbox_safe: "notifySafe d \<Longrightarrow> notifySafe (snd (RetryOutbox i at code dead env d))"
  using moved_safe [OF RetryOutbox_moved] completed_retry by blast

lemma CompleteOutbox_safe:
  "notifySafe d \<Longrightarrow> settled i d \<Longrightarrow> notifySafe (snd (CompleteOutbox i env d))"
  using moved_safe [OF CompleteOutbox_moved] completed_complete by blast

section \<open>Target calls\<close>

text \<open>A value read from the tables is known to come from them.\<close>

lemma preserves_read:
  "(\<And>d. preserves P (g (f d))) \<Longrightarrow> preserves P (tx_bind (tx_query f) g)"
  unfolding preserves_def tx_bind_def tx_query_def by (auto split: prod.splits sum.splits if_splits)

lemma preserves_each_set:
  "(\<And>x. x \<in> set xs \<Longrightarrow> preserves P (f x)) \<Longrightarrow> preserves P (tx_each f xs)"
  by (induction xs) (auto intro!: preserves_return preserves_bind)

lemma settled_update:
  assumes "\<And>t. p t \<Longrightarrow> tg_status t = TargetPending \<and> tg_event (f t) = tg_event t"
  shows "settled i d \<Longrightarrow> settled i (updateTargets p f d)"
  using assms by (auto simp: settled_def updateTargets_def list_all_iff set_updateWhere pendingTarget_def)

lemma safe_updateTargets:
  assumes "notifySafe d"
    and "\<And>t. p t \<Longrightarrow> tg_status t = TargetPending \<and> tg_event (f t) = tg_event t \<and>
      (tg_attempts t \<le> 8 \<longrightarrow> tg_attempts (f t) \<le> 8)"
  shows "notifySafe (updateTargets p f d)"
proof -
  have "outboxOk (updateTargets p f d) = outboxOk d" "completedIDs (updateTargets p f d) = completedIDs d"
    "deliveries (updateTargets p f d) = deliveries d"
    by (simp_all add: outboxOk_def completedIDs_def updateTargets_def)
  moreover have "list_all (\<lambda>t. tg_attempts t \<le> 8) (targets (updateTargets p f d))"
    using assms by (auto simp: notifySafe_def attemptsOk_def updateTargets_def list_all_iff set_updateWhere)
  ultimately show ?thesis using assms settled_update [of p f _ d]
    by (auto simp: notifySafe_def attemptsOk_def)
qed

lemma claimed_attempt:
  assumes "target \<in> set (map (claimedTarget open) (dueTargets i at limit d))"
  shows "nt_attempt target \<le> 8"
proof -
  obtain t ds where x: "(t, ds) \<in> set (dueTargets i at limit d)" "target = claimedTarget open (t, ds)"
    using assms by auto
  then have "tg_attempts t < 8"
    by (auto simp: dueTargets_def split: if_splits dest!: in_set_takeD)
  then have "tg_attempts t + 1 \<le> 8" by (rule inc_le)
  then show ?thesis using x(2) by (auto simp: claimedTarget_def Let_def split: option.splits)
qed

lemma countAttempt_safe:
  "notifySafe d \<Longrightarrow> nt_attempt target \<le> 8 \<Longrightarrow> notifySafe (fst (countAttempt target d))"
  by (auto simp: countAttempt_def Let_def attemptRow_def pendingTarget_def intro: safe_updateTargets)

lemma preserves_claimDue:
  "preserves notifySafe
     (tx_each (\<lambda>target. tx_bind (tx_execCount (countAttempt target)) (\<lambda>changed.
        if changed \<noteq> 1 then tx_fail ErrInternal else tx_return ()))
       (map (claimedTarget open) (dueTargets i at limit d)))"
proof (rule preserves_each_set)
  fix target
  assume "target \<in> set (map (claimedTarget open) (dueTargets i at limit d))"
  then have "nt_attempt target \<le> 8" by (rule claimed_attempt)
  then show "preserves notifySafe (tx_bind (tx_execCount (countAttempt target)) (\<lambda>changed.
      if changed \<noteq> 1 then tx_fail ErrInternal else tx_return ()))"
    by (intro preserves_bind preserves_execCount preserves_if preserves_fail preserves_return countAttempt_safe)
qed

lemma preserves_claimTargets: "preserves notifySafe (claimTargets open i limit)"
proof -
  have due: "preserves notifySafe (tx_bind (tx_query (dueTargets i at (nat limit))) (\<lambda>rows.
      if list_ex (\<lambda>(t, ds). length (ds_id ds) \<noteq> 16) rows then tx_fail ErrInternal
      else
        (let claimed = map (claimedTarget open) rows in
         tx_bind (tx_each (\<lambda>target. tx_bind (tx_execCount (countAttempt target)) (\<lambda>changed.
           if changed \<noteq> 1 then tx_fail ErrInternal else tx_return ())) claimed) (\<lambda>_.
         tx_bind tx_commit (\<lambda>_. tx_return claimed)))))" for at
    unfolding Let_def
    by (rule preserves_read)
      (intro preserves_if preserves_fail preserves_bind [OF preserves_claimDue] preserves_bind
        preserves_commit preserves_return)
  have "notifySafe (expireTargets i d)" if "notifySafe d" for d
    using that by (auto simp: expireTargets_def pendingTarget_def intro: safe_updateTargets)
  then show ?thesis unfolding claimTargets_def
    by (intro preserves_bind [OF preserves_exec] preserves_bind [OF preserves_env] due) auto
qed

lemma ClaimNotificationTargets_safe:
  assumes "notifySafe d"
  shows "notifySafe (snd (ClaimNotificationTargets open i limit env d))"
  using run_tx_preserves [OF preserves_claimTargets _ assms, of "open" i limit env] assms
  by (cases "run_tx (claimTargets open i limit) env d") (auto simp: ClaimNotificationTargets_def)

lemma insertDelivery_safe:
  assumes "insertDelivery row d = Some d'" and "notifySafe d" and "1 \<le> dl_attempt row" "dl_attempt row \<le> 8"
  shows "notifySafe d'"
proof -
  have d': "d' = d\<lparr> deliveries := deliveries d @ [row] \<rparr>"
    and new: "(dl_event row, dl_destination row, dl_attempt row) \<notin>
      (\<lambda>x. (dl_event x, dl_destination x, dl_attempt x)) ` set (deliveries d)"
    using assms(1) by (auto simp: insertDelivery_def split: if_splits)
  then show ?thesis using assms(2-4)
    by (auto simp: notifySafe_def attemptsOk_def outboxOk_def completedIDs_def settled_def uniqueOn_append)
qed

lemma settleTarget_safe: "notifySafe d \<Longrightarrow> notifySafe (fst (settleTarget r at d))"
  by (auto simp: settleTarget_def Let_def attemptRow_def pendingTarget_def intro: safe_updateTargets)

lemma preserves_recordDelivery:
  assumes "validateNotificationDelivery r"
  shows "preserves notifySafe (recordDelivery i r)"
  unfolding recordDelivery_def
proof (intro preserves_bind preserves_exec preserves_env preserves_if preserves_fail preserves_execCount
    preserves_return preserves_commit)
  fix d d'
  assume "notifySafe d" and "insertDelivery (deliveryRow i r) d = Some d'"
  then show "notifySafe d'" using insertDelivery_safe [of "deliveryRow i r" d d'] assms
    by (simp add: deliveryRow_def validateNotificationDelivery_def Let_def)
qed (rule settleTarget_safe)

lemma RecordNotificationDelivery_safe:
  assumes "notifySafe d"
  shows "notifySafe (snd (RecordNotificationDelivery r env d))"
proof (cases "validateNotificationDelivery r")
  case True
  then show ?thesis
    using run_tx_preserves [OF preserves_recordDelivery _ assms, of r _ env] assms
    by (auto simp: RecordNotificationDelivery_def split: option.splits)
      (metis prod.collapse)
next
  case False
  then show ?thesis using assms by (simp add: RecordNotificationDelivery_def)
qed

lemma progress_settled:
  "NotificationProgress i env d = Inr p \<Longrightarrow> pr_complete p \<Longrightarrow> settled i d"
  by (auto simp: NotificationProgress_def auto_query_def targetProgress_def settled_def list_all_iff
      filter_empty_conv Let_def split: if_splits option.splits)

interpretation store_outbox: notification_outbox "storeOutbox open held" notifySafe settled
  by unfold_locales
    (auto simp: storeOutbox_def ClaimOutbox_safe RetryOutbox_safe CompleteOutbox_safe
      ClaimNotificationTargets_safe RecordNotificationDelivery_safe progress_settled)

section \<open>Properties\<close>

lemma attempts_bounded:
  assumes "attemptsOk d"
  shows "length (filter (\<lambda>x. dl_event x = i \<and> dl_destination x = ds) (deliveries d)) \<le> 8"
proof -
  let ?xs = "filter (\<lambda>x. dl_event x = i \<and> dl_destination x = ds) (deliveries d)"
  have "distinct (map (\<lambda>x. (dl_event x, dl_destination x, dl_attempt x)) ?xs)"
    using assms unfolding attemptsOk_def uniqueOn_def by (simp add: distinct_map_filter)
  then have "distinct (map (\<lambda>x. unat (dl_attempt x)) ?xs)"
    by (auto simp: distinct_map inj_on_def word_unat_eq_iff)
  moreover have "set (map (\<lambda>x. unat (dl_attempt x)) ?xs) \<subseteq> {1..8}"
    using assms by (auto simp: attemptsOk_def list_all_iff word_le_nat_alt)
  ultimately have "length (map (\<lambda>x. unat (dl_attempt x)) ?xs) \<le> card {1..8::nat}"
    by (metis card_mono distinct_card finite_atLeastAtMost)
  then show ?thesis by simp
qed

text \<open>
  C9. A round of the notification worker is safe, whatever the sender answers, whichever calls
  fail and wherever its deadline cuts it: every destination of an event is attempted at most
  eight times and at most eight of its deliveries are recorded, and an event that is completed
  has no destination left to serve.
\<close>

theorem notification_round_safe:
  assumes "DeliverNotificationsOnce open held rd width d = (result, d')" and "notifySafe d"
  shows "notifySafe d' \<and>
    (\<forall>t \<in> set (targets d'). tg_attempts t \<le> 8 \<and>
       (tg_event t \<in> completedIDs d' \<longrightarrow> tg_status t \<noteq> TargetPending)) \<and>
    (\<forall>i ds. length (filter (\<lambda>x. dl_event x = i \<and> dl_destination x = ds) (deliveries d')) \<le> 8)"
proof -
  have safe: "notifySafe d'"
    using store_outbox.keeps_round [OF assms(2), of "open" held rd width] assms(1)
    by (simp add: DeliverNotificationsOnce_def)
  then show ?thesis using attempts_bounded
    by (auto simp: notifySafe_def attemptsOk_def settled_def list_all_iff pendingTarget_def)
qed

definition sampleTarget :: target_row where
  "sampleTarget = \<lparr> tg_event = ''aaaaaabbbbbbbbbb'', tg_destination = ''dddddddddddddddd'',
     tg_status = TargetPending, tg_attempts = 0, tg_next = 1000, tg_error = None \<rparr>"

definition sampleNotify :: db where
  "sampleNotify = emptyDb\<lparr> outbox := [sampleRow\<lparr> ob_kind := OutboxNotification \<rparr>],
     destinations := [\<lparr> ds_id = ''dddddddddddddddd'', ds_key = ''hook'', ds_name = ''Hook'', ds_provider = ''generic_webhook'',
       ds_safe_host = ''x'', ds_suffix = [],
       ds_secret = \<lparr> Algorithm = [], KeyVersion = [], Nonce = [], Ciphertext = [], EncryptedDEK = [] \<rparr>, ds_enabled = True, ds_archived = None \<rparr>],
     targets := [sampleTarget] \<rparr>"

definition sampleRound :: round where
  "sampleRound = \<lparr> rd_env = (\<lambda>_. sampleEnv), rd_cancelled = (\<lambda>_. False),
     rd_send = (\<lambda>_ _ _. \<lparr> at_status = NotificationDeliverySucceeded, at_http = 200, at_latency = 5,
       at_error = [], at_retry_after = 0, at_has_retry_after = False \<rparr>),
     rd_random = (\<lambda>_ _. 0) \<rparr>"

definition sampleDelivered :: db where
  "sampleDelivered = snd (DeliverNotificationsOnce (\<lambda>_. Some (''https://x'', [])) (\<lambda>_. False) sampleRound (\<lambda>_. 100)
     sampleNotify)"

lemma sampleNotify_safe: "notifySafe sampleNotify"
  by (simp add: notifySafe_def outboxOk_def attemptsOk_def settled_def sampleNotify_def sampleTarget_def
      sampleRow_def rowOk_def uniqueOn_def completedIDs_def emptyDb_def)

theorem notification_round_safe_witness:
  "notifySafe sampleDelivered \<and> ''aaaaaabbbbbbbbbb'' \<in> completedIDs sampleDelivered"
proof -
  have run: "DeliverNotificationsOnce (\<lambda>_. Some (''https://x'', [])) (\<lambda>_. False) sampleRound (\<lambda>_. 100)
      sampleNotify = ((1, []), sampleDelivered)"
  proof -
    have "fst (DeliverNotificationsOnce (\<lambda>_. Some (''https://x'', [])) (\<lambda>_. False) sampleRound (\<lambda>_. 100)
      sampleNotify) = (1, [])" by code_simp
    then show ?thesis by (simp add: sampleDelivered_def prod_eq_iff)
  qed
  moreover have "''aaaaaabbbbbbbbbb'' \<in> completedIDs sampleDelivered" by code_simp
  ultimately show ?thesis using notification_round_safe [OF run sampleNotify_safe] by blast
qed

end
