(* ===== verification/Journal.thy ===== *)
theory Journal
  imports NotifyLaws ConfigLaws
begin

text \<open>
  What the journal writes and what the two workers accept: the events of every well-named
  mutation pass the audit decoder; the notification decoder accepts the successful ones whose
  resource has a short key, and never those of client certificates, whose identities are digests.
\<close>

section \<open>Names\<close>

lemma utf8_auditLabel: "auditLabel v n \<Longrightarrow> utf8 v"
proof (rule utf8_plain)
  have "byteIn 0 0x7F CHR ''_''" "byteIn 0 0x7F CHR ''.''" by (simp_all add: byteIn_def)
  then show "auditLabel v n \<Longrightarrow> list_all (byteIn 0 0x7F) v"
    by (auto simp: auditLabel_def list_all_iff keyChar_ascii)
qed

lemma hexChar_ascii: "fromHexChar c = Some n \<Longrightarrow> byteIn 0 0x7F c"
  by (auto simp: fromHexChar_def inRange_def byteIn_def less_eq_char_def split: if_splits)

lemma decodeHex_facts: "decodeHex v = Some b \<Longrightarrow> list_all (byteIn 0 0x7F) v \<and> length v = 2 * length b"
  by (induction v arbitrary: b rule: decodeHex.induct) (auto split: option.splits dest: hexChar_ascii)

lemma utf8_hex: "decodeHex v = Some b \<Longrightarrow> utf8 v"
  using decodeHex_facts utf8_plain by blast

lemma utf8_operation: "validOperationID v \<Longrightarrow> utf8 v"
  by (rule utf8_plain)
    (auto simp: validOperationID_def list_all_iff inRange_def byteIn_def less_eq_char_def)

lemma auditNamedKey_eq: "auditNamedKey = validResourceKey"
  by (auto simp: auditNamedKey_def validResourceKey_def fun_eq_iff lowerChar_keyChar split: list.splits)

lemma validEventFieldKey_eq: "validEventFieldKey = validResourceKey"
  by (auto simp: validEventFieldKey_def validResourceKey_def fun_eq_iff lowerChar_keyChar split: list.splits)

lemma identity_key: "validAuditResourceIdentity kind k \<Longrightarrow> validAuditResourceKey kind k"
  by (auto simp: validAuditResourceIdentity_def validAuditResourceKey_def auditNamedKey_eq
      dest: decodeHex_facts split: if_splits option.splits)

lemma utf8_identity: "validAuditResourceIdentity kind k \<Longrightarrow> utf8 k"
proof -
  assume "validAuditResourceIdentity kind k"
  then consider a b where "k = a @ CHR ''.'' # b" "validResourceKey a" "validResourceKey b"
    | b where "decodeHex k = Some b" | "validResourceKey k"
    by (auto simp: validAuditResourceIdentity_def dest!: cutStr_Some split: if_splits option.splits)
  then show ?thesis
  proof cases
    case 1
    have "utf8 [CHR ''.'']" by (rule utf8_plain) (simp add: byteIn_def)
    then have "utf8 (a @ [CHR ''.''] @ b)" using 1 utf8_key utf8_append by blast
    then show ?thesis using 1 by simp
  next
    case 2
    then show ?thesis by (rule utf8_hex)
  next
    case 3
    then show ?thesis by (rule utf8_key)
  qed
qed

text \<open>Users and the system, and tokens named by eight bytes in hexadecimal.\<close>

definition actorOk :: "actor \<Rightarrow> bool" where
  "actorOk act =
     ((actorType act \<in> {''user'', ''system''} \<and> actorID act \<noteq> [] \<and> length (actorID act) \<le> 255 \<and>
       utf8 (actorID act)) \<or>
      (actorType act = ''token'' \<and> length (actorID act) = 16 \<and> decodeHex (actorID act) \<noteq> None))"

text \<open>The events the mutations write; a rejected request's keys may be anything.\<close>

definition wellNamed :: "Outcome \<Rightarrow> mutationEvent \<Rightarrow> bool" where
  "wellNamed out e =
     (me_type e \<noteq> [] \<and> me_type e \<noteq> ''management.request_rejected'' \<and>
      auditLabel (me_action e) 128 \<and> auditLabel (me_resource_type e) 64 \<and>
      (out \<noteq> OutcomeValidationFailed \<longrightarrow>
        (me_field e = [] \<or> validResourceKey (me_field e)) \<and>
        (me_namespace e = [] \<or> validResourceKey (me_namespace e)) \<and>
        validAuditResourceIdentity (me_resource_type e) (me_resource_key e) \<and>
        (me_resource_type e = ''vault_item'' \<longrightarrow> me_namespace e \<noteq> [])))"

lemma token_key:
  assumes "length i = 16" and "decodeHex i \<noteq> None"
  shows "validAuditResourceKey ''api_token'' i \<and> (\<exists>b. decodeHex i = Some b \<and> length b = 8)"
proof -
  obtain b where b: "decodeHex i = Some b" using assms(2) by auto
  then have "length b = 8" using decodeHex_facts [OF b] assms(1) by simp
  then show ?thesis using b assms(1) by (simp add: validAuditResourceKey_def auditIdentityLength_def)
qed

lemma utf8_nil [simp]: "utf8 []"
  by simp

lemma utf8_actor: "actorOk act \<Longrightarrow> utf8 (actorType act) \<and> utf8 (actorID act)"
  using utf8_plain [of "''user''"] utf8_plain [of "''system''"] utf8_plain [of "''token''"]
  by (auto simp: actorOk_def byteIn_def dest: utf8_hex)

lemma keepKey_cases: "keepKey k = [] \<or> validResourceKey (keepKey k)"
  by (simp add: keepKey_def)

lemma utf8_keepKey: "utf8 (keepKey k)"
  by (auto simp: keepKey_def intro: utf8_key)

section \<open>The audit decoder accepts what the journal writes\<close>

definition journalEvent :: "env \<Rightarrow> string \<Rightarrow> actor \<Rightarrow> Outcome \<Rightarrow> u64 \<Rightarrow> mutationEvent \<Rightarrow> event_payload" where
  "journalEvent env oid act out rv e = marshalPayload (mutationPayload env oid act out rv e)"

definition claimedAs :: "outbox_kind \<Rightarrow> bytes \<Rightarrow> mutationEvent \<Rightarrow> string \<Rightarrow> event_payload \<Rightarrow> OutboxEvent \<Rightarrow> bool" where
  "claimedAs kind i e oid p event =
     (oe_kind event = kind \<and> oe_id event = i \<and> oe_type event = me_type e \<and> oe_operation event = oid \<and>
      oe_payload event = p \<and> oe_attempts event \<noteq> 0)"

lemma journal_plain:
  assumes "out \<noteq> OutcomeValidationFailed" and "wellNamed out e" and "validOperationID oid" and "actorOk act"
    and "utf8 (sourceIP env)" and "utf8 (me_environment e)"
  shows "journalEvent env oid act out rv e =
    \<lparr> ev_time = now env, ev_source_ip = sourceIP env, ev_field_key = me_field e, ev_operation_id = oid,
      ev_actor = act, ev_action = me_action e, ev_outcome = out, ev_environment = me_environment e,
      ev_namespace = me_namespace e, ev_resource_type = me_resource_type e,
      ev_resource_key = me_resource_key e, ev_revision = (if out = OutcomeSuccess then rv else 0),
      ev_request_id = None, ev_error_code = None \<rparr>"
  using assms utf8_actor [OF assms(4)] utf8_operation [OF assms(3)]
  by (cases act)
    (auto simp: journalEvent_def marshalPayload_def mutationPayload_def Let_def wellNamed_def utf8_auditLabel
      dest: utf8_key utf8_identity)

definition keptIdentity :: "mutationEvent \<Rightarrow> string" where
  "keptIdentity e =
     (if me_resource_type e = ''vault_item'' \<and> keepKey (me_namespace e) = [] then []
      else if validAuditResourceIdentity (me_resource_type e) (me_resource_key e) then me_resource_key e
      else [])"

lemma keptIdentity: "utf8 (keptIdentity e)"
  "keptIdentity e = [] \<or> validAuditResourceKey (me_resource_type e) (keptIdentity e)"
  "me_resource_type e = ''vault_item'' \<Longrightarrow> keepKey (me_namespace e) = [] \<Longrightarrow> keptIdentity e = []"
  by (auto simp: keptIdentity_def dest: identity_key utf8_identity)

lemma journal_rejected:
  assumes "wellNamed OutcomeValidationFailed e" and "validOperationID oid" and "actorOk act"
    and "utf8 (sourceIP env)"
  shows "journalEvent env oid act OutcomeValidationFailed rv e =
    \<lparr> ev_time = now env, ev_source_ip = sourceIP env, ev_field_key = keepKey (me_field e),
      ev_operation_id = oid, ev_actor = act, ev_action = me_action e, ev_outcome = OutcomeValidationFailed,
      ev_environment = keepKey (me_environment e), ev_namespace = keepKey (me_namespace e),
      ev_resource_type = me_resource_type e, ev_resource_key = keptIdentity e, ev_revision = 0,
      ev_request_id = None, ev_error_code = None \<rparr>"
proof -
  have s: "sanitizePayload \<lparr> ev_time = now env, ev_source_ip = sourceIP env, ev_field_key = me_field e,
      ev_operation_id = oid, ev_actor = a, ev_action = me_action e, ev_outcome = OutcomeValidationFailed,
      ev_environment = me_environment e, ev_namespace = me_namespace e, ev_resource_type = me_resource_type e,
      ev_resource_key = me_resource_key e, ev_revision = 0, ev_request_id = None, ev_error_code = None \<rparr> =
    \<lparr> ev_time = now env, ev_source_ip = sourceIP env, ev_field_key = keepKey (me_field e),
      ev_operation_id = oid, ev_actor = a, ev_action = me_action e, ev_outcome = OutcomeValidationFailed,
      ev_environment = keepKey (me_environment e), ev_namespace = keepKey (me_namespace e),
      ev_resource_type = me_resource_type e, ev_resource_key = keptIdentity e, ev_revision = 0,
      ev_request_id = None, ev_error_code = None \<rparr>" for a
    by (simp add: sanitizePayload_def Let_def keptIdentity_def cong: if_cong)
  have "utf8 (me_action e)" "utf8 (me_resource_type e)"
    using assms(1) utf8_auditLabel by (auto simp: wellNamed_def)
  then show ?thesis
    using utf8_actor [OF assms(3)] utf8_operation [OF assms(2)] assms(4)
    by (cases act) (simp add: journalEvent_def marshalPayload_def mutationPayload_def utf8_keepKey
        keptIdentity(1) s)
qed

lemma dropInvalid_id:
  assumes "ev_field_key p = [] \<or> auditNamedKey (ev_field_key p)"
    and "ev_environment p = [] \<or> auditNamedKey (ev_environment p)"
    and "ev_namespace p = [] \<or> auditNamedKey (ev_namespace p)"
    and "ev_resource_key p = [] \<or> validAuditResourceKey (ev_resource_type p) (ev_resource_key p)"
    and "ev_resource_type p = ''vault_item'' \<Longrightarrow> ev_namespace p = [] \<Longrightarrow> ev_resource_key p = []"
  shows "dropInvalid p = p"
proof -
  have "(if auditNamedKey k then k else []) = k" if "k = [] \<or> auditNamedKey k" for k using that by auto
  note keep = this [OF assms(1)] this [OF assms(2)] this [OF assms(3)]
  have "(if validAuditResourceKey (ev_resource_type p) (ev_resource_key p) then ev_resource_key p else []) =
      ev_resource_key p"
    using assms(4) by auto
  then show ?thesis using assms(5) unfolding dropInvalid_def Let_def keep by auto
qed

lemma dropInvalid_journal:
  assumes "wellNamed OutcomeValidationFailed e" and "validOperationID oid" and "actorOk act"
    and "utf8 (sourceIP env)"
  shows "dropInvalid (journalEvent env oid act OutcomeValidationFailed rv e) =
    journalEvent env oid act OutcomeValidationFailed rv e"
  using keptIdentity(2,3) [of e] keepKey_cases
  by (intro dropInvalid_id) (auto simp: journal_rejected [OF assms] auditNamedKey_eq)

text \<open>
  C10. The audit worker accepts every event the journal writes: for a mutation by a valid actor
  under a valid identifier, whose event names an action, a resource type and, unless the request
  was rejected as invalid, the resource itself, the claimed audit event decodes to a record with
  that actor, action and outcome. No audit event of a mutation is given up as malformed.
\<close>

theorem journal_audit_accepted:
  assumes "wellNamed out e" and "out \<noteq> OutcomePending" and "validOperationID oid" and "actorOk act"
    and "now env \<noteq> 0" and "utf8 (sourceIP env)" and "sourceIP env = [] \<or> parsesIP (sourceIP env)"
    and "utf8 (me_environment e)"
    and "claimedAs OutboxAudit i e oid (journalEvent env oid act out rv e) event" and "\<not> zeroOutboxID i"
    and "0 < width (oe_payload event)" "width (oe_payload event) \<le> 65536"
  shows "\<exists>rec. DecodeAuditOutbox width event = Inr rec \<and> ar_id rec = encodeHex i \<and>
    ar_operation rec = oid \<and> ar_actor_type rec = actorType act \<and> ar_actor_id rec = actorID act \<and>
    ar_action rec = me_action e \<and> ar_outcome rec = outcomeText out"
proof -
  let ?p = "journalEvent env oid act out rv e"
  have drop: "dropInvalid ?p = ?p"
    using dropInvalid_journal [of e oid act env rv] assms(1,3,4,6)
    by (cases "out = OutcomeValidationFailed") (auto simp: dropInvalid_def journal_plain assms(8))
  have op: "oid \<noteq> []" using assms(3) by (auto simp: validOperationID_def)
  have actor: "actorType act \<in> {''user'', ''system'', ''token''}" "actorID act \<noteq> []" "length (actorID act) \<le> 255"
    "actorType act = ''token'' \<Longrightarrow> validAuditResourceKey ''api_token'' (actorID act)"
    using assms(4) token_key [of "actorID act"] by (auto simp: actorOk_def)
  have valid: "validAuditPayload event ?p \<and> validRequestIdentity event ?p \<and> ev_operation_id ?p = oid \<and>
      ev_actor ?p = act \<and> ev_action ?p = me_action e \<and> ev_outcome ?p = out"
  proof (cases "out = OutcomeValidationFailed")
    case True
    have "keepKey (me_field e) = [] \<or> auditNamedKey (keepKey (me_field e))" "length (keepKey (me_namespace e)) \<le> 63"
      using keepKey_cases [of "me_field e"] keepKey_cases [of "me_namespace e"] validResourceKey_length
      by (auto simp: auditNamedKey_eq)
    then show ?thesis
      using assms(1,5,7,9) actor op keptIdentity(2) [of e] True
        journal_rejected [OF assms(1) [unfolded True] assms(3,4,6), of rv]
      by (auto simp: validAuditPayload_def validRequestIdentity_def orEmpty_def claimedAs_def wellNamed_def
          validAuditOutcome_def auditLabel_def Let_def)
  next
    case False
    have "length (me_namespace e) \<le> 63"
      using assms(1) False validResourceKey_length by (auto simp: wellNamed_def)
    then show ?thesis
      using assms(1,2,5,7,9) actor op False journal_plain [OF False assms(1,3,4,6,8), of rv]
      by (cases out)
        (auto simp: validAuditPayload_def validRequestIdentity_def orEmpty_def claimedAs_def wellNamed_def
          validAuditOutcome_def auditLabel_def Let_def auditNamedKey_eq dest: identity_key)
  qed
  then show ?thesis using drop assms(9-12)
    by (auto simp: DecodeAuditOutbox_def claimedAs_def Let_def assms(1) [unfolded wellNamed_def])
qed

section \<open>The notification decoder\<close>

lemma identity_length: "validAuditResourceIdentity kind k \<Longrightarrow> kind \<noteq> ''release'' \<Longrightarrow>
    length k \<le> 63 \<or> kind = ''client_certificate'' \<or> kind = ''identity'' \<or> kind = ''outbox_archive''"
  by (auto simp: validAuditResourceIdentity_def auditIdentityLength_def dest: validResourceKey_length
      split: if_splits)

text \<open>
  C11. Which notifications are delivered. A claimed notification of a successful mutation decodes
  exactly when its resource is not one of those that are named by a digest of 64 digits: the
  notifications of client certificates, whose registration and revocation ask for one, are given
  up as malformed instead of being sent.
\<close>

theorem journal_notification_accepted:
  assumes "wellNamed OutcomeSuccess e" and "validOperationID oid" and "actorOk act"
    and "now env \<noteq> 0" and "utf8 (sourceIP env)" and "sourceIP env = [] \<or> parsesIP (sourceIP env)"
    and "me_environment e = [] \<or> validResourceKey (me_environment e)" and "length (me_type e) \<le> 64"
    and "claimedAs OutboxNotification i e oid (journalEvent env oid act OutcomeSuccess rv e) event"
    and "\<not> zeroOutboxID i" and "0 < width (oe_payload event)" "width (oe_payload event) \<le> 65536"
  shows "(\<exists>ev. DecodeEvent width event = Inr ev) \<longleftrightarrow>
    me_resource_type e \<notin> {''client_certificate'', ''identity'', ''outbox_archive''}"
proof -
  let ?p = "journalEvent env oid act OutcomeSuccess rv e"
  have env: "utf8 (me_environment e)" "length (me_environment e) \<le> 63"
    using assms(7) utf8_key validResourceKey_length by auto
  have identity: "validAuditResourceIdentity (me_resource_type e) (me_resource_key e)"
    using assms(1) by (simp add: wellNamed_def)
  have key: "me_resource_key e \<noteq> [] \<and> (validNotificationResource (me_resource_type e) (me_resource_key e) \<longleftrightarrow>
      me_resource_type e \<notin> {''client_certificate'', ''identity'', ''outbox_archive''})"
    using identity identity_length [OF identity] validResourceKey_nonempty
    by (auto simp: validNotificationResource_def validAuditResourceIdentity_def auditIdentityLength_def
        validEventFieldKey_eq split: if_splits option.splits)
  have actor: "tokenIdentity act" "actorType act \<in> {''user'', ''system'', ''token''}" "actorID act \<noteq> []"
    "length (actorID act) \<le> 255"
    using assms(3) token_key [of "actorID act"] by (auto simp: actorOk_def tokenIdentity_def)
  have "length (me_namespace e) \<le> 63" "oid \<noteq> []"
    using assms(1,2) validResourceKey_length by (auto simp: wellNamed_def validOperationID_def)
  then have valid: "validNotificationPayload event ?p \<longleftrightarrow>
      me_resource_type e \<notin> {''client_certificate'', ''identity'', ''outbox_archive''}"
    using assms(1,4,6,9) actor env key journal_plain [OF _ assms(1-3,5) env(1), of rv]
    by (auto simp: validNotificationPayload_def claimedAs_def wellNamed_def auditLabel_def)
  show ?thesis
    using valid actor(1) assms(1,8-12) \<open>oid \<noteq> []\<close> journal_plain [OF _ assms(1-3,5) env(1), of rv]
    by (auto simp: DecodeEvent_def claimedAs_def wellNamed_def Let_def validEventFieldKey_eq)
qed

section \<open>Samples\<close>

definition sampleRevocation :: mutationEvent where
  "sampleRevocation = \<lparr> me_field = [], me_type = ''client_certificate.revoked'',
     me_action = ''client_certificate.revoke'', me_environment = [], me_namespace = [],
     me_resource_type = ''client_certificate'', me_resource_key = replicate 64 CHR ''a'' \<rparr>"

definition sampleClaim :: "outbox_kind \<Rightarrow> OutboxEvent" where
  "sampleClaim kind = \<lparr> oe_id = ''aaaaaabbbbbbbbbb'', oe_kind = kind, oe_type = ''client_certificate.revoked'',
     oe_operation = ''op-revoke-1'',
     oe_payload = journalEvent sampleEnv ''op-revoke-1'' (Actor ''user'' ''u1'') OutcomeSuccess 0 sampleRevocation,
     oe_attempts = 1 \<rparr>"

lemma sample_named: "wellNamed OutcomeSuccess sampleRevocation"
  and sample_operation: "validOperationID ''op-revoke-1''"
  and sample_actor: "actorOk (Actor ''user'' ''u1'')"
  and sample_now: "now sampleEnv \<noteq> 0"
  and sample_ip: "utf8 (sourceIP sampleEnv)" "sourceIP sampleEnv = [] \<or> parsesIP (sourceIP sampleEnv)"
  and sample_environment: "utf8 (me_environment sampleRevocation)"
    "me_environment sampleRevocation = [] \<or> validResourceKey (me_environment sampleRevocation)"
  and sample_type: "length (me_type sampleRevocation) \<le> 64"
  and sample_id: "\<not> zeroOutboxID ''aaaaaabbbbbbbbbb''"
  by code_simp+

lemma sample_claim:
  "claimedAs kind ''aaaaaabbbbbbbbbb'' sampleRevocation ''op-revoke-1''
     (journalEvent sampleEnv ''op-revoke-1'' (Actor ''user'' ''u1'') OutcomeSuccess 0 sampleRevocation)
     (sampleClaim kind)"
  by (simp add: claimedAs_def sampleClaim_def sampleRevocation_def)

theorem journal_audit_accepted_witness:
  "\<exists>rec. DecodeAuditOutbox (\<lambda>_. 100) (sampleClaim OutboxAudit) = Inr rec \<and> ar_action rec = ''client_certificate.revoke''"
  using journal_audit_accepted [OF sample_named _ sample_operation sample_actor sample_now sample_ip
      sample_environment(1) sample_claim sample_id, of "\<lambda>_. 100"]
  by (auto simp: sampleRevocation_def)

theorem journal_notification_accepted_witness:
  "\<exists>er. DecodeEvent (\<lambda>_. 100) (sampleClaim OutboxNotification) = Inl er"
proof -
  have "\<not> (\<exists>ev. DecodeEvent (\<lambda>_. 100) (sampleClaim OutboxNotification) = Inr ev)"
    using journal_notification_accepted [OF sample_named sample_operation sample_actor sample_now sample_ip
        sample_environment(2) sample_type sample_claim sample_id, of "\<lambda>_. 100"]
    by (simp add: sampleRevocation_def)
  then show ?thesis by (cases "DecodeEvent (\<lambda>_. 100) (sampleClaim OutboxNotification)") auto
qed

end
