(* ===== verification/Rejections.thy ===== *)
theory Rejections
  imports Journal
begin

text \<open>
  Rejected management requests (\<^verbatim>\<open>management/audit.go\<close>,
  \<^verbatim>\<open>mysqlstore/audit_rejection.go\<close>): the route names the action, only validated route
  parameters name a resource, and the response writer records the rejection before it answers.
\<close>

section \<open>The record\<close>

record RejectedMutation =
  rj_field :: string
  rj_request :: string
  rj_actor :: actor
  rj_action :: string
  rj_error :: string
  rj_environment :: string
  rj_namespace :: string
  rj_resource_type :: string
  rj_resource :: string

definition validRejectedMetadata :: "RejectedMutation \<Rightarrow> bool" where
  "validRejectedMetadata r =
     ((case decodeHex (rj_request r) of None \<Rightarrow> False | Some b \<Rightarrow> length b = 12) \<and>
      length (rj_request r) = 24 \<and> validScopedActor (rj_actor r) \<and> auditLabel (rj_action r) 128 \<and>
      auditLabel (rj_error r) 64 \<and> auditLabel (rj_resource_type r) 64)"

definition validRejectedKeys :: "RejectedMutation \<Rightarrow> bool" where
  "validRejectedKeys r =
     ((rj_field r = [] \<or> validResourceKey (rj_field r)) \<and>
      (rj_environment r = [] \<or> validResourceKey (rj_environment r)) \<and>
      (rj_namespace r = [] \<or> validResourceKey (rj_namespace r)) \<and>
      (rj_resource r = [] \<or> validAuditResourceIdentity (rj_resource_type r) (rj_resource r)))"

definition rejectedPayload :: "env \<Rightarrow> RejectedMutation \<Rightarrow> event_payload" where
  "rejectedPayload env r =
     marshalPayload \<lparr> ev_time = now env, ev_source_ip = sourceIP env, ev_field_key = rj_field r,
       ev_operation_id = [], ev_actor = rj_actor r, ev_action = rj_action r,
       ev_outcome = OutcomeValidationFailed, ev_environment = rj_environment r,
       ev_namespace = rj_namespace r, ev_resource_type = rj_resource_type r,
       ev_resource_key = rj_resource r, ev_revision = 0,
       ev_request_id = Some (rj_request r), ev_error_code = Some (rj_error r) \<rparr>"

definition rejectedType :: string where
  "rejectedType = ''management.request_rejected''"

definition RecordRejectedMutation :: "RejectedMutation \<Rightarrow> env \<Rightarrow> db \<Rightarrow> (err + unit) \<times> db" where
  "RecordRejectedMutation r env d =
     (if \<not> validRejectedMetadata r then (Inl ErrInternal, d)
      else if \<not> validRejectedKeys r then (Inl ErrValidation, d)
      else
        (case rand env 0 16 of
           None \<Rightarrow> (Inl ErrInternal, d)
         | Some i \<Rightarrow>
             (case insertEvent i OutboxAudit rejectedType None (rejectedPayload env r) (db_now env) d of
                None \<Rightarrow> (Inl ErrDatabase, d)
              | Some d' \<Rightarrow>
                  if fault env 1 then (Inl ErrDatabase, if landed env 1 then d' else d)
                  else (Inr (), d'))))"

section \<open>The routes\<close>

definition mutationAuditRoutes :: "(string \<times> string \<times> string \<times> string) list" where
  "mutationAuditRoutes =
     [(''POST /v1/session-policies'', ''identity.change'', ''identity'', ''''),
      (''POST /v1/environments'', ''environment.create'', ''environment'', ''environment''),
      (''PATCH /v1/environments/{environment}'', ''environment.rename'', ''environment'', ''environment''),
      (''POST /v1/environments/{environment}/archive'', ''environment.archive'', ''environment'', ''environment''),
      (''POST /v1/environments/{environment}/unarchive'', ''environment.unarchive'', ''environment'', ''environment''),
      (''PUT /v1/environments/{environment}/configs/{config}'', ''config.commit'', ''config'', ''config''),
      (''POST /v1/environments/{environment}/configs/{config}/merge'', ''config.merge'', ''config'', ''config''),
      (''POST /v1/environments/{environment}/configs/{config}/replace'', ''config.replace'', ''config'', ''config''),
      (''POST /v1/environments/{environment}/configs/{config}/restore'', ''config.restore'', ''config'', ''config''),
      (''POST /v1/environments/{environment}/configs/{config}/clone'', ''config.clone'', ''config'', ''config''),
      (''POST /v1/configs/{config}/archive'', ''config.archive'', ''config'', ''config''),
      (''POST /v1/configs/{config}/unarchive'', ''config.unarchive'', ''config'', ''config''),
      (''PUT /v1/vault-items/{namespace}/{item}'', ''vault.commit'', ''vault_item'', ''item''),
      (''POST /v1/vault-items/{namespace}/{item}/restore'', ''vault.restore'', ''vault_item'', ''item''),
      (''POST /v1/vault-items/{namespace}/{item}/archive'', ''vault.archive'', ''vault_item'', ''item''),
      (''POST /v1/vault-items/{namespace}/{item}/unarchive'', ''vault.unarchive'', ''vault_item'', ''item''),
      (''POST /v1/api-tokens'', ''token.create'', ''api_token'', ''public_id''),
      (''PUT /v1/api-tokens/{public_id}/environments'', ''token.set_environments'', ''api_token'', ''public_id''),
      (''PATCH /v1/api-tokens/{public_id}/environments'', ''token.patch_environments'', ''api_token'', ''public_id''),
      (''POST /v1/api-tokens/{public_id}/revoke'', ''token.revoke'', ''api_token'', ''public_id''),
      (''POST /v1/client-certificates'', ''client_certificate.register'', ''client_certificate'', ''fingerprint''),
      (''POST /v1/client-certificates/issue'', ''client_certificate.issue'', ''client_certificate'', ''fingerprint''),
      (''POST /v1/client-certificates/{fingerprint}/revoke'', ''client_certificate.revoke'', ''client_certificate'', ''fingerprint''),
      (''POST /v1/certificate-authorities'', ''certificate_authority.create'', ''certificate_authority'', ''authority''),
      (''POST /v1/certificate-authorities/{authority}/revoke'', ''certificate_authority.revoke'', ''certificate_authority'', ''authority''),
      (''PUT /v1/notification-destinations/{destination}'', ''notification_destination.commit'', ''notification_destination'', ''destination''),
      (''POST /v1/notification-destinations/{destination}/archive'', ''notification_destination.archive'', ''notification_destination'', ''destination''),
      (''POST /v1/notification-destinations/{destination}/unarchive'', ''notification_destination.unarchive'', ''notification_destination'', ''destination''),
      (''POST /v1/notification-destinations/{destination}/test'', ''notification_destination.test'', ''notification_destination'', ''destination''),
      (''POST /v1/notification-destinations/{destination}/deliveries/{delivery}/redeliver'',
        ''notification_destination.redeliver'', ''notification_destination'', ''destination'')]"

text \<open>\<^verbatim>\<open>url.PathUnescape\<close>; \<^const>\<open>None\<close> is a malformed escape.\<close>

fun pathUnescape :: "string \<Rightarrow> string option" where
  "pathUnescape [] = Some []"
| "pathUnescape (c # s) =
     (if c = CHR ''%'' then
        (case s of
           a # b # r \<Rightarrow>
             (case (fromHexChar a, fromHexChar b) of
                (Some x, Some y) \<Rightarrow> map_option (\<lambda>t. char_of (x * 16 + y) # t) (pathUnescape r)
              | _ \<Rightarrow> None)
         | _ \<Rightarrow> None)
      else map_option (\<lambda>t. c # t) (pathUnescape s))"

definition auditResourceKey :: "string \<Rightarrow> bool" where
  "auditResourceKey value =
     (case value of
        [] \<Rightarrow> False
      | c # _ \<Rightarrow> length value \<le> 63 \<and> lowerChar c \<and> list_all keyChar value)"

definition identityParameter :: "string \<Rightarrow> nat option" where
  "identityParameter name =
     (if name = ''fingerprint'' then Some 64
      else if name = ''authority'' then Some 32
      else if name = ''public_id'' then Some 16
      else None)"

definition parameterValid :: "string \<Rightarrow> string \<Rightarrow> bool" where
  "parameterValid name value =
     (case identityParameter name of
        Some n \<Rightarrow> decodeHex value \<noteq> None \<and> length value = n \<and> value = toLower value
      | None \<Rightarrow> auditResourceKey value)"

definition trimBraces :: "string \<Rightarrow> string" where
  "trimBraces s =
     (let brace = (\<lambda>c. c = CHR ''{'' \<or> c = CHR ''}'') in rev (dropWhile brace (rev (dropWhile brace s))))"

definition noteParameter :: "string \<Rightarrow> RejectedMutation \<Rightarrow> string \<times> string \<Rightarrow> RejectedMutation" where
  "noteParameter parameter r pv =
     (case pv of (part, escaped) \<Rightarrow>
        if \<not> hasPrefix part ''{'' \<or> \<not> hasSuffix part ''}'' then r
        else
          (case pathUnescape escaped of
             None \<Rightarrow> r
           | Some value \<Rightarrow>
               let name = trimBraces part;
                   r1 = (if name = ''environment'' \<and> auditResourceKey value
                         then r\<lparr> rj_environment := value \<rparr> else r);
                   r2 = (if name = ''namespace'' \<and> auditResourceKey value
                         then r1\<lparr> rj_namespace := value \<rparr> else r1)
               in
                 if name = parameter \<and> parameterValid name value then r2\<lparr> rj_resource := value \<rparr> else r2))"

definition routeMetadata :: "string \<Rightarrow> string \<Rightarrow> RejectedMutation" where
  "routeMetadata action resourceType =
     \<lparr> rj_field = [], rj_request = [], rj_actor = Actor [] [], rj_action = action, rj_error = [],
       rj_environment = [], rj_namespace = [], rj_resource_type = resourceType, rj_resource = [] \<rparr>"

definition rejectedMetadata :: "string \<Rightarrow> string \<Rightarrow> RejectedMutation" where
  "rejectedMetadata pattern path =
     (case map_of mutationAuditRoutes pattern of
        None \<Rightarrow> routeMetadata ''management.request'' ''management_request''
      | Some (action, resourceType, parameter) \<Rightarrow>
          let parts = splitOn CHR ''/'' (case cutStr CHR '' '' pattern of None \<Rightarrow> [] | Some (_, p) \<Rightarrow> p);
              given = splitOn CHR ''/'' path
          in
            if length parts \<noteq> length given then routeMetadata action resourceType
            else foldl (noteParameter parameter) (routeMetadata action resourceType) (zip parts given))"

text \<open>What \<^verbatim>\<open>auditRejections\<close> records for a request of a signed-in user.\<close>

definition rejectionOf :: "string \<Rightarrow> string \<Rightarrow> string \<Rightarrow> bytes \<Rightarrow> string \<Rightarrow> RejectedMutation" where
  "rejectionOf pattern path actor requestID code =
     (rejectedMetadata pattern path)
       \<lparr> rj_actor := Actor ''user'' actor, rj_request := encodeHex requestID, rj_error := code \<rparr>"

section \<open>The response writer\<close>

record auditWriter =
  aw_code :: string
  aw_committed :: bool
  aw_written :: bool
  aw_failed :: bool
  aw_sent :: "int list"
  aw_body :: string

definition statusCodeText :: "int \<Rightarrow> string" where
  "statusCodeText status =
     (if status = 404 then ''not_found''
      else if status = 405 then ''method_not_allowed''
      else ''request_rejected'')"

text \<open>\<^verbatim>\<open>persist\<close> records the rejection under an error code, in whatever state it keeps.\<close>

definition WriteHeader ::
  "(string \<Rightarrow> 'w \<Rightarrow> bool \<times> 'w) \<Rightarrow> int \<Rightarrow> auditWriter \<times> 'w \<Rightarrow> auditWriter \<times> 'w" where
  "WriteHeader persist status aw =
     (case aw of (a, w) \<Rightarrow>
        if 100 \<le> status \<and> status < 200 then (a\<lparr> aw_sent := aw_sent a @ [status] \<rparr>, w)
        else if aw_written a then (a, w)
        else if status \<ge> 400 \<and> \<not> aw_committed a then
          (case persist (if aw_code a = [] then statusCodeText status else aw_code a) w of
             (True, w') \<Rightarrow> (a\<lparr> aw_written := True, aw_sent := aw_sent a @ [status] \<rparr>, w')
           | (False, w') \<Rightarrow>
               (a\<lparr> aw_written := True, aw_failed := True, aw_sent := aw_sent a @ [503],
                   aw_body := ''audit_unavailable'' \<rparr>, w'))
        else (a\<lparr> aw_written := True, aw_sent := aw_sent a @ [status] \<rparr>, w))"

definition WriteBody ::
  "(string \<Rightarrow> 'w \<Rightarrow> bool \<times> 'w) \<Rightarrow> string \<Rightarrow> auditWriter \<times> 'w \<Rightarrow> auditWriter \<times> 'w" where
  "WriteBody persist bytes aw =
     (case (if aw_written (fst aw) then aw else WriteHeader persist 200 aw) of (a, w) \<Rightarrow>
        if aw_failed a then (a, w) else (a\<lparr> aw_body := aw_body a @ bytes \<rparr>, w))"

text \<open>What a handler does with its writer; it marks operations whose audit record is committed.\<close>

datatype writerCall = CallHeader int | CallWrite string | CallCode string | CallCommitted

fun writerStep ::
  "(string \<Rightarrow> 'w \<Rightarrow> bool \<times> 'w) \<Rightarrow> writerCall \<Rightarrow> auditWriter \<times> 'w \<Rightarrow> auditWriter \<times> 'w" where
  "writerStep persist (CallHeader status) aw = WriteHeader persist status aw"
| "writerStep persist (CallWrite bytes) aw = WriteBody persist bytes aw"
| "writerStep persist (CallCode code) aw = ((fst aw)\<lparr> aw_code := code \<rparr>, snd aw)"
| "writerStep persist CallCommitted aw = ((fst aw)\<lparr> aw_committed := True \<rparr>, snd aw)"

definition newWriter :: auditWriter where
  "newWriter = \<lparr> aw_code = [], aw_committed = False, aw_written = False, aw_failed = False,
                 aw_sent = [], aw_body = [] \<rparr>"

definition finals :: "auditWriter \<Rightarrow> int list" where
  "finals a = filter (\<lambda>s. \<not> (100 \<le> s \<and> s < 200)) (aw_sent a)"

text \<open>The invariant of the writer.\<close>

definition writerOk :: "('w \<Rightarrow> bool) \<Rightarrow> auditWriter \<times> 'w \<Rightarrow> bool" where
  "writerOk recorded aw =
     (case aw of (a, w) \<Rightarrow>
        (if aw_written a
         then length (finals a) = 1 \<and> (aw_failed a \<longrightarrow> finals a = [503] \<and> aw_body a = ''audit_unavailable'') \<and>
           (hd (finals a) \<ge> 400 \<longrightarrow> aw_failed a \<or> aw_committed a \<or> recorded w)
         else finals a = [] \<and> \<not> aw_failed a \<and> aw_body a = []))"

lemma writerOk_header:
  assumes "\<And>code w w'. persist code w = (True, w') \<Longrightarrow> recorded w'" and "writerOk recorded aw"
  shows "writerOk recorded (WriteHeader persist status aw)"
  using assms by (cases aw) (auto simp: writerOk_def WriteHeader_def finals_def split: bool.splits prod.splits)

lemma written_header: "\<not> (100 \<le> status \<and> status < 200) \<Longrightarrow> aw_written (fst (WriteHeader persist status aw))"
  by (cases aw) (auto simp: WriteHeader_def split: bool.splits prod.splits)

lemma writerOk_body:
  assumes "\<And>code w w'. persist code w = (True, w') \<Longrightarrow> recorded w'" and "writerOk recorded aw"
  shows "writerOk recorded (WriteBody persist bytes aw)"
proof -
  let ?aw = "if aw_written (fst aw) then aw else WriteHeader persist 200 aw"
  have "writerOk recorded ?aw" "aw_written (fst ?aw)"
    using assms(2) writerOk_header [OF assms] written_header [of 200 persist aw]
    by (cases "aw_written (fst aw)"; simp)+
  then show ?thesis
    unfolding WriteBody_def by (cases ?aw) (auto simp: writerOk_def finals_def)
qed

lemma writerOk_step:
  assumes "\<And>code w w'. persist code w = (True, w') \<Longrightarrow> recorded w'" and "writerOk recorded aw"
  shows "writerOk recorded (writerStep persist call aw)"
  using writerOk_header [OF assms] writerOk_body [OF assms] assms(2)
  by (cases call) (auto simp: writerOk_def finals_def split: prod.splits if_splits)

lemma writerOk_run:
  assumes "\<And>code w w'. persist code w = (True, w') \<Longrightarrow> recorded w'"
  shows "writerOk recorded aw \<Longrightarrow> writerOk recorded (foldl (\<lambda>aw call. writerStep persist call aw) aw calls)"
  by (induction calls arbitrary: aw) (simp_all add: writerOk_step [OF assms])

text \<open>
  C16. No rejection is answered before it is recorded. Whatever a handler does with the response,
  at most one final status is sent, and a status of 400 and above is sent only when the rejection
  has been recorded, when the operation committed its own audit record, or as the 503 that
  replaces the answer, with nothing of it in the body, because the record could not be written.
\<close>

theorem rejections_recorded_first:
  assumes "\<And>code w w'. persist code w = (True, w') \<Longrightarrow> recorded w'"
    and "foldl (\<lambda>aw call. writerStep persist call aw) (newWriter, w) calls = (a, w')"
  shows "length (finals a) \<le> 1 \<and>
    (\<forall>s \<in> set (finals a). s \<ge> 400 \<longrightarrow>
       recorded w' \<or> aw_committed a \<or> (s = 503 \<and> aw_body a = ''audit_unavailable''))"
proof -
  have start: "writerOk recorded (newWriter, w)" by (simp add: writerOk_def newWriter_def finals_def)
  have "writerOk recorded (foldl (\<lambda>aw call. writerStep persist call aw) (newWriter, w) calls)"
    by (rule writerOk_run [OF _ start]) (rule assms(1))
  then have ok: "writerOk recorded (a, w')" unfolding assms(2) .
  show ?thesis
  proof (cases "aw_written a")
    case True
    then obtain s where "finals a = [s]" using ok by (auto simp: writerOk_def length_Suc_conv)
    then show ?thesis using ok True by (auto simp: writerOk_def)
  next
    case False
    then show ?thesis using ok by (simp add: writerOk_def)
  qed
qed

theorem rejections_recorded_first_witness:
  "length (finals (fst (foldl (\<lambda>aw call. writerStep (\<lambda>code w. (True, w @ [code])) call aw) (newWriter, [])
     [CallCode ''conflict'', CallHeader 409, CallWrite ''{}'']))) \<le> 1"
proof -
  obtain a w' where "foldl (\<lambda>aw call. writerStep (\<lambda>code w. (True, w @ [code])) call aw) (newWriter, [])
      [CallCode ''conflict'', CallHeader 409, CallWrite ''{}''] = (a, w')" by fastforce
  from rejections_recorded_first [OF _ this, of "\<lambda>w. w \<noteq> []"] this show ?thesis by auto
qed

section \<open>Rejected requests reach the log\<close>

definition routeParts :: "string \<Rightarrow> string list" where
  "routeParts pattern = splitOn CHR ''/'' (case cutStr CHR '' '' pattern of None \<Rightarrow> [] | Some (_, p) \<Rightarrow> p)"

text \<open>Every route names an action and a type, and its resource parameter is of that type.\<close>

definition routeOk :: "string \<times> string \<times> string \<times> string \<Rightarrow> bool" where
  "routeOk route =
     (case route of (pattern, action, resourceType, parameter) \<Rightarrow>
        auditLabel action 128 \<and> auditLabel resourceType 64 \<and> resourceType \<noteq> ''release'' \<and>
        (identityParameter parameter = auditIdentityLength resourceType \<or>
         list_all (\<lambda>part. \<not> hasPrefix part ''{'') (routeParts pattern)))"

lemma routes_ok: "list_all routeOk mutationAuditRoutes"
  by code_simp

lemma auditResourceKey_eq: "auditResourceKey = validResourceKey"
  by (auto simp: auditResourceKey_def validResourceKey_def fun_eq_iff lowerChar_keyChar split: list.splits)

lemma parameter_identity:
  assumes "parameterValid parameter value" and "identityParameter parameter = auditIdentityLength resourceType"
    and "resourceType \<noteq> ''release''"
  shows "validAuditResourceIdentity resourceType value"
  using assms by (auto simp: parameterValid_def validAuditResourceIdentity_def auditResourceKey_eq split: option.splits)

definition metadataOk :: "string \<Rightarrow> string \<Rightarrow> string \<Rightarrow> RejectedMutation \<Rightarrow> bool" where
  "metadataOk action resourceType parameter r =
     (rj_action r = action \<and> rj_resource_type r = resourceType \<and> rj_field r = [] \<and>
      (rj_environment r = [] \<or> validResourceKey (rj_environment r)) \<and>
      (rj_namespace r = [] \<or> validResourceKey (rj_namespace r)) \<and>
      (rj_resource r = [] \<or> parameterValid parameter (rj_resource r)))"

lemma metadataOk_note:
  "metadataOk action resourceType parameter r \<Longrightarrow>
   metadataOk action resourceType parameter (noteParameter parameter r pv)"
  by (auto simp: metadataOk_def noteParameter_def Let_def auditResourceKey_eq split: prod.splits option.splits)

lemma metadataOk_fold:
  "metadataOk action resourceType parameter r \<Longrightarrow>
   metadataOk action resourceType parameter (foldl (noteParameter parameter) r pvs)"
  by (induction pvs arbitrary: r) (simp_all add: metadataOk_note)

lemma no_parameters:
  "list_all (\<lambda>part. \<not> hasPrefix part ''{'') parts \<Longrightarrow>
   foldl (noteParameter parameter) r (zip parts given) = r"
  by (induction parts given arbitrary: r rule: list_induct2') (simp_all add: noteParameter_def)

lemma rejectedMetadata_ok:
  "auditLabel (rj_action (rejectedMetadata pattern path)) 128 \<and>
   auditLabel (rj_resource_type (rejectedMetadata pattern path)) 64 \<and>
   validRejectedKeys (rejectedMetadata pattern path)"
proof (cases "map_of mutationAuditRoutes pattern")
  case None
  have "auditLabel ''management.request'' 128" "auditLabel ''management_request'' 64" by code_simp+
  then show ?thesis using None by (simp add: rejectedMetadata_def routeMetadata_def validRejectedKeys_def)
next
  case (Some route)
  obtain action resourceType parameter where route: "route = (action, resourceType, parameter)"
    by (cases route) auto
  have ok: "routeOk (pattern, action, resourceType, parameter)"
    using map_of_SomeD [OF Some] routes_ok route by (auto simp: list_all_iff)
  let ?r = "rejectedMetadata pattern path"
  have start: "metadataOk action resourceType parameter (routeMetadata action resourceType)"
    by (simp add: metadataOk_def routeMetadata_def)
  then have m: "metadataOk action resourceType parameter ?r"
    using Some route metadataOk_fold by (simp add: rejectedMetadata_def Let_def)
  have "rj_resource ?r = [] \<or> validAuditResourceIdentity resourceType (rj_resource ?r)"
  proof (cases "identityParameter parameter = auditIdentityLength resourceType")
    case True
    then show ?thesis using m ok parameter_identity by (auto simp: metadataOk_def routeOk_def)
  next
    case False
    then have "list_all (\<lambda>part. \<not> hasPrefix part ''{'') (routeParts pattern)" using ok by (simp add: routeOk_def)
    then show ?thesis using Some route
      by (simp add: rejectedMetadata_def routeParts_def Let_def no_parameters routeMetadata_def)
  qed
  then show ?thesis using m ok by (auto simp: metadataOk_def routeOk_def validRejectedKeys_def)
qed

lemma rejectionOf_simps [simp]:
  "rj_actor (rejectionOf pattern path actor requestID code) = Actor ''user'' actor"
  "rj_request (rejectionOf pattern path actor requestID code) = encodeHex requestID"
  "rj_error (rejectionOf pattern path actor requestID code) = code"
  "rj_action (rejectionOf pattern path actor requestID code) = rj_action (rejectedMetadata pattern path)"
  "rj_resource_type (rejectionOf pattern path actor requestID code) = rj_resource_type (rejectedMetadata pattern path)"
  "validRejectedKeys (rejectionOf pattern path actor requestID code) = validRejectedKeys (rejectedMetadata pattern path)"
  by (simp_all add: rejectionOf_def validRejectedKeys_def)

text \<open>What the audit worker makes of a recorded rejection.\<close>

lemma rejectedPayload_plain:
  assumes "validRejectedMetadata r" and "validRejectedKeys r" and "utf8 (actorID (rj_actor r))"
    and "actorType (rj_actor r) = ''user''" and "utf8 (sourceIP env)"
  shows "rejectedPayload env r =
    \<lparr> ev_time = now env, ev_source_ip = sourceIP env, ev_field_key = rj_field r, ev_operation_id = [],
      ev_actor = rj_actor r, ev_action = rj_action r, ev_outcome = OutcomeValidationFailed,
      ev_environment = rj_environment r, ev_namespace = rj_namespace r,
      ev_resource_type = rj_resource_type r, ev_resource_key = rj_resource r, ev_revision = 0,
      ev_request_id = Some (rj_request r), ev_error_code = Some (rj_error r) \<rparr>"
proof -
  have "utf8 ''user''" by (rule utf8_plain) (simp add: byteIn_def)
  then show ?thesis using assms
    by (cases "rj_actor r")
      (auto simp: rejectedPayload_def marshalPayload_def validRejectedMetadata_def validRejectedKeys_def
        utf8_auditLabel utf8_key dest: utf8_identity)
qed

lemma rejection_decodes:
  assumes "validRejectedMetadata r" and "validRejectedKeys r" and "utf8 (actorID (rj_actor r))"
    and "actorType (rj_actor r) = ''user''" and "utf8 (sourceIP env)" and "now env \<noteq> 0"
    and "sourceIP env = [] \<or> parsesIP (sourceIP env)" and "validAuditErrorCode (rj_error r)"
    and "oe_kind event = OutboxAudit" "oe_type event = rejectedType" "oe_operation event = []"
      "oe_attempts event \<noteq> 0" "oe_payload event = rejectedPayload env r" "\<not> zeroOutboxID (oe_id event)"
    and "0 < width (oe_payload event)" "width (oe_payload event) \<le> 65536"
  shows "\<exists>rec. DecodeAuditOutbox width event = Inr rec \<and> ar_request rec = rj_request r \<and>
    ar_error rec = rj_error r \<and> ar_actor_id rec = actorID (rj_actor r) \<and> ar_action rec = rj_action r \<and>
    ar_environment rec = rj_environment r"
proof -
  let ?p = "rejectedPayload env r"
  note p = rejectedPayload_plain [OF assms(1-5)]
  have keys: "rj_field r = [] \<or> auditNamedKey (rj_field r)" "rj_environment r = [] \<or> auditNamedKey (rj_environment r)"
    "rj_namespace r = [] \<or> auditNamedKey (rj_namespace r)" "length (rj_namespace r) \<le> 63"
    "rj_resource r = [] \<or> validAuditResourceKey (rj_resource_type r) (rj_resource r)"
    using assms(2) identity_key validResourceKey_length by (auto simp: validRejectedKeys_def auditNamedKey_eq)
  define k where "k = (if rj_resource_type r = ''vault_item'' \<and> rj_namespace r = [] then [] else rj_resource r)"
  have k: "k = [] \<or> validAuditResourceKey (rj_resource_type r) k" using keys(5) by (simp add: k_def)
  have q: "dropInvalid ?p =
    \<lparr> ev_time = now env, ev_source_ip = sourceIP env, ev_field_key = rj_field r, ev_operation_id = [],
      ev_actor = rj_actor r, ev_action = rj_action r, ev_outcome = OutcomeValidationFailed,
      ev_environment = rj_environment r, ev_namespace = rj_namespace r,
      ev_resource_type = rj_resource_type r, ev_resource_key = k, ev_revision = 0,
      ev_request_id = Some (rj_request r), ev_error_code = Some (rj_error r) \<rparr>"
    using keys by (auto simp: dropInvalid_def p Let_def k_def)
  have meta: "rj_action r \<noteq> []" "length (rj_action r) \<le> 128" "rj_resource_type r \<noteq> []"
    "length (rj_resource_type r) \<le> 64" "rj_error r \<noteq> []" "length (rj_request r) = 24"
    "\<exists>b. decodeHex (rj_request r) = Some b \<and> length b = 12"
    "actorID (rj_actor r) \<noteq> []" "length (actorID (rj_actor r)) \<le> 255"
    using assms(1,4,8)
    by (auto simp: validRejectedMetadata_def auditLabel_def validAuditErrorCode_def validScopedActor_def
        validActor_def split: option.splits)
  have "validRequestIdentity event (dropInvalid ?p)"
    using meta assms(10,11) by (auto simp: validRequestIdentity_def q orEmpty_def rejectedType_def)
  moreover have "validAuditPayload event (dropInvalid ?p)"
    unfolding validAuditPayload_def q using meta keys k assms(4,6-8,11)
    by (simp add: orEmpty_def validAuditOutcome_def)
  ultimately show ?thesis
    using assms(9-16) by (simp add: DecodeAuditOutbox_def Let_def) (simp add: q orEmpty_def rejectedType_def)
qed

text \<open>
  C17. A rejected request of a user is logged. Whatever the request's route and path are, the
  rejection of a signed-in user with a well-formed error code is recorded when no database call
  fails, and the audit worker decodes the recorded event to the request's identifier, actor,
  action and error code: nothing in a hostile path makes the record malformed.
\<close>

theorem rejection_logged:
  assumes "actor \<noteq> []" and "length actor \<le> 255" and "utf8 actor" and "length requestID = 12"
    and "validAuditErrorCode code" and "\<forall>n. \<not> fault env n" and "rand env 0 16 = Some i"
    and "i \<notin> ob_id ` set (outbox d)" and "\<not> zeroOutboxID i" and "now env \<noteq> 0"
    and "utf8 (sourceIP env)" and "sourceIP env = [] \<or> parsesIP (sourceIP env)"
  shows "\<exists>row. RecordRejectedMutation (rejectionOf pattern path actor requestID code) env d =
      (Inr (), d\<lparr> outbox := outbox d @ [row] \<rparr>) \<and> ob_status row = Pending \<and>
    (\<forall>width. 0 < width (ob_payload row) \<and> width (ob_payload row) \<le> 65536 \<longrightarrow>
       (\<exists>rec. DecodeAuditOutbox width (claimedEvent row) = Inr rec \<and> ar_request rec = encodeHex requestID \<and>
          ar_error rec = code \<and> ar_actor_id rec = actor \<and>
          ar_action rec = rj_action (rejectedMetadata pattern path)))"
proof -
  let ?r = "rejectionOf pattern path actor requestID code"
  let ?row = "\<lparr> ob_id = i, ob_kind = OutboxAudit, ob_type = rejectedType, ob_operation = None,
     ob_payload = rejectedPayload env ?r, ob_status = Pending, ob_attempts = 0, ob_next = db_now env,
     ob_claimed = None, ob_completed = None, ob_error = None, ob_created = db_now env \<rparr> :: outbox_row"
  have code: "auditLabel code 64"
    using assms(5) by (auto simp: validAuditErrorCode_def auditLabel_def list_all_iff)
  have meta: "validRejectedMetadata ?r" "validRejectedKeys ?r"
    using rejectedMetadata_ok [of pattern path] assms(1,2,4) code
    by (simp_all add: validRejectedMetadata_def validScopedActor_def validActor_def)
  have "RecordRejectedMutation ?r env d = (Inr (), d\<lparr> outbox := outbox d @ [?row] \<rparr>)"
    using meta assms(6-8) by (auto simp: RecordRejectedMutation_def insertEvent_def existsRow_def)
  moreover have "\<exists>rec. DecodeAuditOutbox width (claimedEvent ?row) = Inr rec \<and> ar_request rec = encodeHex requestID \<and>
      ar_error rec = code \<and> ar_actor_id rec = actor \<and> ar_action rec = rj_action (rejectedMetadata pattern path)"
    if "0 < width (ob_payload ?row)" "width (ob_payload ?row) \<le> 65536" for width
    using rejection_decodes [OF meta, of env "claimedEvent ?row" width] assms that
    by (auto simp: claimedEvent_def outboxEvent_def)
  ultimately show ?thesis by (intro exI [of _ ?row]) simp
qed

theorem rejection_logged_witness:
  "\<exists>row. RecordRejectedMutation (rejectionOf ''POST /v1/configs/{config}/archive'' ''/v1/configs/app/archive'' ''u1''
      (replicate 12 CHR ''r'') ''conflict'') sampleEnv emptyDb =
    (Inr (), emptyDb\<lparr> outbox := outbox emptyDb @ [row] \<rparr>)"
proof -
  have given: "validAuditErrorCode ''conflict''" "\<not> zeroOutboxID (replicate 16 CHR ''b'')" "utf8 ''u1''"
    by code_simp+
  have env: "rand sampleEnv 0 16 = Some (replicate 16 CHR ''b'')" "\<forall>n. \<not> fault sampleEnv n"
    "replicate 16 CHR ''b'' \<notin> ob_id ` set (outbox emptyDb)" by (simp_all add: sampleEnv_def emptyDb_def)
  show ?thesis
    using rejection_logged [OF _ _ given(3) _ given(1) env(2,1,3) given(2) sample_now sample_ip,
        of "replicate 12 CHR ''r''" "''POST /v1/configs/{config}/archive''" "''/v1/configs/app/archive''"]
    unfolding ex_simps length_replicate by auto
qed

end
