(* ===== verification/JsonText.thy ===== *)
theory JsonText
  imports Operations
begin

text \<open>
  \<^verbatim>\<open>json.Unmarshal\<close> and \<^verbatim>\<open>json.Decoder.Decode\<close> of a whole text: the value
  with its members in the order of the text, duplicates included, which the component's own
  conversion turns into a Go value. What \<^verbatim>\<open>json.Marshal\<close> writes is read back.
\<close>

section \<open>Parsing\<close>

datatype parse_error = ParseFuel | Malformed

text \<open>The scanner refuses more than 10,000 levels.\<close>

definition maxNestingDepth :: int where "maxNestingDepth = 10000"

definition scalarOf :: "jtoken \<Rightarrow> json option" where
  "scalarOf t =
     (case t of
        TNull \<Rightarrow> Some JNull | TBool b \<Rightarrow> Some (JBool b) | TNumber n \<Rightarrow> Some (JNum n)
      | TString s \<Rightarrow> Some (JStr s) | _ \<Rightarrow> None)"

function (sequential) parseValue :: "nat \<Rightarrow> int \<Rightarrow> string \<Rightarrow> parse_error + json \<times> string"
  and parseMembers :: "nat \<Rightarrow> int \<Rightarrow> (string \<times> json) list \<Rightarrow> string \<Rightarrow> parse_error + json \<times> string"
  and parseElements :: "nat \<Rightarrow> int \<Rightarrow> json list \<Rightarrow> string \<Rightarrow> parse_error + json \<times> string" where
  "parseValue 0 depth s = Inl ParseFuel"
| "parseValue (Suc fuel) depth s =
     (case dropWhile isSpace s of
        [] \<Rightarrow> Inl Malformed
      | c # t \<Rightarrow>
          if c = CHR ''{'' then
            (if depth \<ge> maxNestingDepth then Inl Malformed
             else
               (case dropWhile isSpace t of
                  [] \<Rightarrow> Inl Malformed
                | b # r \<Rightarrow> if b = CHR ''}'' then Inr (JObj [], r)
                          else parseMembers fuel (depth + 1) [] (b # r)))
          else if c = CHR ''['' then
            (if depth \<ge> maxNestingDepth then Inl Malformed
             else
               (case dropWhile isSpace t of
                  [] \<Rightarrow> Inl Malformed
                | b # r \<Rightarrow> if b = CHR '']'' then Inr (JArr [], r)
                          else parseElements fuel (depth + 1) [] (b # r)))
          else
            (case lexScalar (c # t) of
               None \<Rightarrow> Inl Malformed
             | Some (tok, r) \<Rightarrow> (case scalarOf tok of None \<Rightarrow> Inl Malformed | Some v \<Rightarrow> Inr (v, r))))"
| "parseMembers 0 depth es s = Inl ParseFuel"
| "parseMembers (Suc fuel) depth es s =
     (case s of
        [] \<Rightarrow> Inl Malformed
      | c # t \<Rightarrow>
          if c \<noteq> CHR 0x22 then Inl Malformed
          else
            (case lexString t of
               None \<Rightarrow> Inl Malformed
             | Some (k, r) \<Rightarrow>
                 (case dropWhile isSpace r of
                    [] \<Rightarrow> Inl Malformed
                  | sep # r1 \<Rightarrow>
                      if sep \<noteq> CHR '':'' then Inl Malformed
                      else
                        (case parseValue fuel depth r1 of
                           Inl e \<Rightarrow> Inl e
                         | Inr (v, r2) \<Rightarrow>
                             (case dropWhile isSpace r2 of
                                [] \<Rightarrow> Inl Malformed
                              | b # r3 \<Rightarrow>
                                  if b = CHR '','' then
                                    parseMembers fuel depth (es @ [(k, v)]) (dropWhile isSpace r3)
                                  else if b = CHR ''}'' then Inr (JObj (es @ [(k, v)]), r3)
                                  else Inl Malformed)))))"
| "parseElements 0 depth vs s = Inl ParseFuel"
| "parseElements (Suc fuel) depth vs s =
     (case parseValue fuel depth s of
        Inl e \<Rightarrow> Inl e
      | Inr (v, r) \<Rightarrow>
          (case dropWhile isSpace r of
             [] \<Rightarrow> Inl Malformed
           | b # r1 \<Rightarrow>
               if b = CHR '','' then parseElements fuel depth (vs @ [v]) r1
               else if b = CHR '']'' then Inr (JArr (vs @ [v]), r1)
               else Inl Malformed))"
  by pat_completeness auto
termination
  by (relation "measure (\<lambda>x. case x of
      Inl (fuel, _) \<Rightarrow> fuel | Inr (Inl (fuel, _)) \<Rightarrow> fuel | Inr (Inr (fuel, _)) \<Rightarrow> fuel)") simp_all

text \<open>One value and nothing but space after it.\<close>

definition parseJSON :: "bytes \<Rightarrow> json option" where
  "parseJSON source =
     (case parseValue (2 * length source + 1) 0 source of
        Inl _ \<Rightarrow> None
      | Inr (v, r) \<Rightarrow> if dropWhile isSpace r = [] then Some v else None)"

section \<open>The fuel is enough\<close>

definition consumes :: "string \<Rightarrow> parse_error + json \<times> string \<Rightarrow> bool" where
  "consumes s result = (case result of Inl e \<Rightarrow> e \<noteq> ParseFuel | Inr (v, r) \<Rightarrow> length r < length s)"

lemma consumes_weaken: "consumes t x \<Longrightarrow> length t \<le> length s \<Longrightarrow> consumes s x"
  by (auto simp: consumes_def split: sum.splits)

lemma consumes_simps [simp]: "consumes s (Inl Malformed)" "consumes s (Inr (v, r)) \<longleftrightarrow> length r < length s"
  by (simp_all add: consumes_def)

lemma dropped: "dropWhile p s = c # t \<Longrightarrow> length t < length s"
  by (rule length_dropWhile_Cons)

declare dropWhile_eq_Nil_conv [simp del]

lemma parse_total:
  shows "2 * length s + 1 \<le> fuel \<Longrightarrow> consumes s (parseValue fuel depth s)"
    and "2 * length s + 1 \<le> fuel \<Longrightarrow> consumes s (parseMembers fuel depth es s)"
    and "2 * length s + 2 \<le> fuel \<Longrightarrow> consumes s (parseElements fuel depth vs s)"
proof (induction fuel depth s and fuel depth es s and fuel depth vs s
    rule: parseValue_parseMembers_parseElements.induct)
  case (2 fuel depth s)
  show ?case
  proof (cases "dropWhile isSpace s")
    case (Cons c t)
    note t = dropped [OF Cons]
    show ?thesis
    proof (cases "c = CHR ''{'' \<or> c = CHR ''[''")
      case True
      show ?thesis
      proof (cases "dropWhile isSpace t")
        case (Cons b r)
        note r = dropped [OF Cons]
        have small: "2 * length (b # r) + 2 \<le> fuel" "length (b # r) \<le> length s" using 2(3) t r by simp_all
        have "consumes s (parseMembers fuel (depth + 1) [] (b # r))"
          if "c = CHR ''{''" "b \<noteq> CHR ''}''" "\<not> depth \<ge> maxNestingDepth"
        proof (rule consumes_weaken [OF _ small(2)])
          show "consumes (b # r) (parseMembers fuel (depth + 1) [] (b # r))"
            by (rule 2(1) [OF \<open>dropWhile isSpace s = c # t\<close> that(1,3) Cons that(2)]) (use small in simp)
        qed
        moreover have "consumes s (parseElements fuel (depth + 1) [] (b # r))"
          if "c \<noteq> CHR ''{''" "c = CHR ''[''" "b \<noteq> CHR '']''" "\<not> depth \<ge> maxNestingDepth"
        proof (rule consumes_weaken [OF _ small(2)])
          show "consumes (b # r) (parseElements fuel (depth + 1) [] (b # r))"
            by (rule 2(2) [OF \<open>dropWhile isSpace s = c # t\<close> that(1,2,4) Cons that(3) small(1)])
        qed
        ultimately show ?thesis using \<open>dropWhile isSpace s = c # t\<close> Cons True t r
          by (cases "c = CHR ''{''") simp_all
      next
        case Nil
        then show ?thesis using \<open>dropWhile isSpace s = c # t\<close> True
          by (elim disjE) (simp_all del: dropWhile_eq_Nil_conv)
      qed
    next
      case False
      then show ?thesis using Cons t lexScalar_shorter [of "c # t"]
        by (auto split: option.splits prod.splits dest!: lexScalar_shorter)
    qed
  qed (simp del: dropWhile_eq_Nil_conv)
next
  case (4 fuel depth es s)
  show ?case
  proof (cases s)
    case (Cons c t)
    show ?thesis
    proof (cases "lexString t")
      case (Some kr)
      obtain k r where kr: "kr = (k, r)" by fastforce
      have r: "length r < length t" using lexString_shorter Some kr by blast
      show ?thesis
      proof (cases "dropWhile isSpace r")
        case inner: (Cons sep r1)
        note r1 = dropped [OF inner]
        show ?thesis
        proof (cases "c = CHR 0x22 \<and> sep = CHR '':''")
          case True
          have v: "consumes r1 (parseValue fuel depth r1)"
            using 4(1) [OF Cons _ Some kr [symmetric] inner] True 4(3) Cons r r1 by auto
          show ?thesis
          proof (cases "parseValue fuel depth r1")
            case (Inl e)
            then show ?thesis using True Cons Some kr inner v by (simp add: consumes_def)
          next
            case (Inr vr)
            obtain v' r2 where vr: "vr = (v', r2)" by fastforce
            have r2: "length r2 < length r1" using v Inr vr by simp
            show ?thesis
            proof (cases "dropWhile isSpace r2")
              case last: (Cons b r3)
              note r3 = dropped [OF last]
              have "length (dropWhile isSpace r3) \<le> length r3" by (rule length_dropWhile_le)
              then have small: "2 * length (dropWhile isSpace r3) + 1 \<le> fuel" "length (dropWhile isSpace r3) \<le> length s"
                "length r3 < length s"
                using 4(3) Cons r r1 r2 r3 by simp_all
              have "consumes s (parseMembers fuel depth (es @ [(k, v')]) (dropWhile isSpace r3))"
                if "b = CHR '',''"
              proof (rule consumes_weaken [OF _ small(2)])
                show "consumes (dropWhile isSpace r3) (parseMembers fuel depth (es @ [(k, v')]) (dropWhile isSpace r3))"
                  by (rule 4(2) [OF Cons _ Some kr [symmetric] inner _ Inr vr [symmetric] last that small(1)])
                    (use True in simp_all)
              qed
              then show ?thesis using True Cons Some kr inner Inr vr last small(3) by simp
            qed (use True Cons Some kr inner Inr vr in simp)
          qed
        qed (use Cons Some kr inner in auto)
      qed (use Cons Some kr in simp)
    qed (use Cons in simp)
  qed simp
next
  case (6 fuel depth vs s)
  have v: "consumes s (parseValue fuel depth s)" using 6(1,3) by simp
  show ?case
  proof (cases "parseValue fuel depth s")
    case (Inl e)
    then show ?thesis using v by (simp add: consumes_def)
  next
    case (Inr vr)
    obtain v' r where vr: "vr = (v', r)" by fastforce
    have r: "length r < length s" using v Inr vr by simp
    show ?thesis
    proof (cases "dropWhile isSpace r")
      case (Cons b r1)
      note r1 = dropped [OF Cons]
      have small: "2 * length r1 + 2 \<le> fuel" "length r1 \<le> length s" "length r1 < length s" using 6(3) r r1 by simp_all
      have "consumes s (parseElements fuel depth (vs @ [v']) r1)" if "b = CHR '',''"
        by (rule consumes_weaken [OF 6(2) [OF Inr vr [symmetric] Cons that small(1)] small(2)])
      then show ?thesis using Inr vr Cons small(3) by simp
    qed (use Inr vr in simp)
  qed
qed simp_all

declare dropWhile_eq_Nil_conv [simp]

section \<open>What is written is read\<close>

lemma compact_head:
  assumes "docOk d v"
  shows "\<exists>c t. compactJSON v = c # t \<and> valueStart c"
proof (cases v)
  case (JNum n)
  then have "numberText n" using assms by simp
  then obtain c t where "n = c # t" "c = CHR ''-'' \<or> digit c" using numberText_head by blast
  then show ?thesis using JNum digit_valueStart by (auto simp: valueStart_def isSpace_def)
qed (auto simp: quoteJSON_def valueStart_def isSpace_def)

lemma scalar_number:
  assumes "numberText n" and "stops r"
  shows "lexScalar (n @ r) = Some (TNumber n, r)"
proof -
  obtain c t where n: "n = c # t" "c = CHR ''-'' \<or> digit c" using numberText_head [OF assms(1)] by blast
  then have "c \<notin> set '':,[]{}ntf''" "c \<noteq> CHR 0x22" by (auto simp: digit_def byteIn_def)
  then show ?thesis using lexNumber_text [OF assms] n(1) by (auto simp: lexScalar_def hasPrefix_def)
qed

lemma scalar_string: "utf8 s \<Longrightarrow> lexScalar (quoteJSON s @ r) = Some (TString s, r)"
  using lexString_escapeJSON [of s r] by (simp add: quoteJSON_def lexScalar_def)

lemma not_space: "\<not> isSpace c \<Longrightarrow> dropWhile isSpace (c # r) = c # r"
  by simp

lemma space_facts: "\<not> isSpace CHR ''{''" "\<not> isSpace CHR ''[''" "\<not> isSpace CHR '',''" "\<not> isSpace CHR '':''"
  "\<not> isSpace CHR ''}''" "\<not> isSpace CHR '']''" "\<not> isSpace CHR 0x22"
  by (simp_all add: isSpace_def)

lemma parse_scalar:
  assumes "lexScalar (s @ r) = Some (tok, r)" and "scalarOf tok = Some v" and "s = c # t" and "valueStart c"
    and "c \<noteq> CHR ''{''" "c \<noteq> CHR ''[''" and "0 < fuel"
  shows "parseValue fuel depth (s @ r) = Inr (v, r)"
  using assms by (cases fuel) (auto simp: valueStart_def)

lemma joined_items: "itemsOk d vs \<Longrightarrow> vs \<noteq> [] \<Longrightarrow> \<exists>c t. joinWith CHR '','' (compactItems vs) = c # t \<and> valueStart c"
proof (cases vs)
  case (Cons v ws)
  moreover assume "itemsOk d vs"
  ultimately have "docOk d v" by simp
  then obtain c t where "compactJSON v = c # t" "valueStart c" using compact_head by blast
  then show ?thesis using Cons by (simp add: joinWith_Cons_char)
qed simp

lemma joined_entries: "es \<noteq> [] \<Longrightarrow> \<exists>t. joinWith CHR '','' (compactEntries es) = CHR 0x22 # t"
  by (cases es) (auto simp: quoteJSON_def joinWith_Cons_char split: prod.splits)

lemma compactItems_empty [simp]: "compactItems vs = [] \<longleftrightarrow> vs = []"
  by (cases vs) auto

lemma compactEntries_empty [simp]: "compactEntries es = [] \<longleftrightarrow> es = []"
  by (cases es) auto

lemma parse_compact:
  shows "docOk d v \<Longrightarrow> stops r \<Longrightarrow> length (compactJSON v) + 1 \<le> fuel \<Longrightarrow>
      parseValue fuel (int d) (compactJSON v @ r) = Inr (v, r)"
    and "itemsOk d vs \<Longrightarrow> vs \<noteq> [] \<Longrightarrow> length (joinWith CHR '','' (compactItems vs)) + 2 \<le> fuel \<Longrightarrow>
      parseElements fuel (int d) ws (joinWith CHR '','' (compactItems vs) @ CHR '']'' # r) = Inr (JArr (ws @ vs), r)"
    and "entriesOk d es \<Longrightarrow> es \<noteq> [] \<Longrightarrow> length (joinWith CHR '','' (compactEntries es)) + 2 \<le> fuel \<Longrightarrow>
      parseMembers fuel (int d) fs (joinWith CHR '','' (compactEntries es) @ CHR ''}'' # r) = Inr (JObj (fs @ es), r)"
proof (induction v and vs and es arbitrary: d r fuel and d r fuel ws and d r fuel fs
    rule: compactJSON_compactItems_compactEntries.induct)
  case 1
  then show ?case by (intro parse_scalar [of _ _ TNull]) (auto simp: lexScalar_def hasPrefix_def scalarOf_def valueStart_def isSpace_def)
next
  case (2 b)
  have "parseValue fuel (int d) (''true'' @ r) = Inr (JBool True, r)"
    by (rule parse_scalar [of _ _ "TBool True"])
      (use 2 in \<open>auto simp: lexScalar_def hasPrefix_def scalarOf_def valueStart_def isSpace_def\<close>)
  moreover have "parseValue fuel (int d) (''false'' @ r) = Inr (JBool False, r)"
    by (rule parse_scalar [of _ _ "TBool False"])
      (use 2 in \<open>auto simp: lexScalar_def hasPrefix_def scalarOf_def valueStart_def isSpace_def\<close>)
  ultimately show ?case by (cases b) simp_all
next
  case (3 n)
  then have "numberText n" by simp
  then obtain c t where n: "n = c # t" "c = CHR ''-'' \<or> digit c" using numberText_head by blast
  then have "c \<noteq> CHR ''{''" "c \<noteq> CHR ''[''" "valueStart c"
    using digit_valueStart by (auto simp: digit_def byteIn_def valueStart_def isSpace_def)
  moreover have "lexScalar (n @ r) = Some (TNumber n, r)" by (rule scalar_number) (use 3 in simp_all)
  ultimately have "parseValue fuel (int d) (n @ r) = Inr (JNum n, r)"
    using n(1) by (intro parse_scalar [of _ _ "TNumber n" _ c t]) (use 3 in \<open>simp_all add: scalarOf_def\<close>)
  then show ?case by simp
next
  case (4 s)
  then show ?case using scalar_string
    by (intro parse_scalar [of _ _ "TString s"]) (auto simp: scalarOf_def quoteJSON_def valueStart_def isSpace_def)
next
  case (5 vs)
  obtain f where f: "fuel = Suc f" using 5(4) by (cases fuel) auto
  show ?case
  proof (cases "vs = []")
    case True
    then show ?thesis using f 5(2) by (simp add: space_facts maxNestingDepth_def)
  next
    case False
    have ok: "itemsOk (Suc d) vs" using 5(2) by simp
    obtain c t where c: "joinWith CHR '','' (compactItems vs) = c # t" "valueStart c"
      using joined_items [OF ok False] by blast
    have "parseElements f (int (Suc d)) [] (joinWith CHR '','' (compactItems vs) @ CHR '']'' # r) = Inr (JArr ([] @ vs), r)"
      by (rule 5(1)) (use ok False 5(4) f in simp_all)
    then show ?thesis using f 5(2) c
      by (auto simp: space_facts maxNestingDepth_def valueStart_def add.commute)
  qed
next
  case (6 es)
  obtain f where f: "fuel = Suc f" using 6(4) by (cases fuel) auto
  show ?case
  proof (cases "es = []")
    case True
    then show ?thesis using f 6(2) by (simp add: space_facts maxNestingDepth_def)
  next
    case False
    obtain t where c: "joinWith CHR '','' (compactEntries es) = CHR 0x22 # t"
      using joined_entries [OF False] by auto
    have ok: "entriesOk (Suc d) es" using 6(2) by simp
    have "parseMembers f (int (Suc d)) [] (joinWith CHR '','' (compactEntries es) @ CHR ''}'' # r) = Inr (JObj ([] @ es), r)"
      by (rule 6(1)) (use ok False 6(4) f in simp_all)
    then show ?thesis using f 6(2) c
      by (auto simp: space_facts maxNestingDepth_def add.commute)
  qed
next
  case 7
  then show ?case by simp
next
  case (8 v vs)
  obtain f where f: "fuel = Suc f" using 8(5) by (cases fuel) auto
  show ?case
  proof (cases "vs = []")
    case True
    have "parseValue f (int d) (compactJSON v @ CHR '']'' # r) = Inr (v, CHR '']'' # r)"
      by (rule 8(1)) (use 8(3,5) f True stops_bracket in simp_all)
    then show ?thesis using f True by (simp add: space_facts)
  next
    case False
    let ?rest = "joinWith CHR '','' (compactItems vs) @ CHR '']'' # r"
    have join: "joinWith CHR '','' (compactItems (v # vs)) = compactJSON v @ CHR '','' # joinWith CHR '','' (compactItems vs)"
      using False by (simp add: joinWith_Cons)
    have "parseValue f (int d) (compactJSON v @ CHR '','' # ?rest) = Inr (v, CHR '','' # ?rest)"
      by (rule 8(1)) (use 8(3,5) f join stops_separator in simp_all)
    moreover have "parseElements f (int d) (ws @ [v]) ?rest = Inr (JArr ((ws @ [v]) @ vs), r)"
      by (rule 8(2)) (use 8(3,5) f join False in simp_all)
    ultimately show ?thesis using f join by (simp add: space_facts)
  qed
next
  case 9
  then show ?case by simp
next
  case (10 k v es)
  obtain f where f: "fuel = Suc f" using 10(5) by (cases fuel) auto
  have key: "lexString (escapeJSON k @ CHR 0x22 # r') = Some (k, r')" for r'
    using lexString_escapeJSON 10(3) by simp
  show ?case
  proof (cases "es = []")
    case True
    have "parseValue f (int d) (compactJSON v @ CHR ''}'' # r) = Inr (v, CHR ''}'' # r)"
      by (rule 10(1)) (use 10(3,5) f True stops_bracket in \<open>simp_all add: quoteJSON_def\<close>)
    then show ?thesis using f True key by (simp add: space_facts quoteJSON_def)
  next
    case False
    let ?rest = "joinWith CHR '','' (compactEntries es) @ CHR ''}'' # r"
    have join: "joinWith CHR '','' (compactEntries ((k, v) # es)) =
        quoteJSON k @ CHR '':'' # compactJSON v @ CHR '','' # joinWith CHR '','' (compactEntries es)"
      using False by (simp add: joinWith_Cons)
    have "parseValue f (int d) (compactJSON v @ CHR '','' # ?rest) = Inr (v, CHR '','' # ?rest)"
      by (rule 10(1)) (use 10(3,5) f join stops_separator in \<open>simp_all add: quoteJSON_def\<close>)
    moreover have "parseMembers f (int d) (fs @ [(k, v)]) ?rest = Inr (JObj ((fs @ [(k, v)]) @ es), r)"
      by (rule 10(2)) (use 10(3,5) f join False in \<open>simp_all add: quoteJSON_def\<close>)
    moreover obtain t where "joinWith CHR '','' (compactEntries es) = CHR 0x22 # t"
      using joined_entries [OF False] by auto
    ultimately show ?thesis using f join key by (simp add: space_facts quoteJSON_def)
  qed
qed

lemma parseJSON_compact:
  assumes "docOk 0 v"
  shows "parseJSON (compactJSON v) = Some v"
proof -
  have "parseValue (2 * length (compactJSON v) + 1) (int 0) (compactJSON v @ []) = Inr (v, [])"
    by (rule parse_compact(1) [OF assms]) (simp_all add: stops_def)
  then show ?thesis by (simp add: parseJSON_def)
qed

end
