(* ===== verification/VaultDoc.thy ===== *)
theory VaultDoc
  imports JsonText Journal
begin

text \<open>
  Vault snapshots (\<^verbatim>\<open>internal/vaultdoc/snapshot.go\<close>): fields, variants and values,
  the plaintext \<^verbatim>\<open>Encode\<close> makes of them and the strict \<^verbatim>\<open>Decode\<close> of a
  plaintext, \<^verbatim>\<open>encoding/json\<close>'s conversion into Go structs and maps included. Go maps are
  association lists with distinct keys; a nil slice is \<^const>\<open>None\<close> where JSON tells it from an
  empty one.
\<close>

section \<open>Snapshots\<close>

definition MaxTextBytes :: int where "MaxTextBytes = 512 * 1024"
definition MaxFileBytes :: int where "MaxFileBytes = 5 * 1024 * 1024"
definition MaxSnapshotBytes :: int where "MaxSnapshotBytes = 10 * 1024 * 1024"

definition Text :: string where "Text = ''text''"
definition Secret :: string where "Secret = ''secret''"
definition File :: string where "File = ''file''"

record Field =
  fd_key :: string
  fd_name :: string
  fd_type :: string

record FileValue =
  fl_name :: string
  fl_type :: string
  fl_bytes :: "bytes option"

record Value =
  vl_text :: "string option"
  vl_file :: "FileValue option"

record Variant =
  va_id :: string
  va_envs :: "string list option"
  va_values :: "(string \<times> Value) list"

record Snapshot =
  sn_fields :: "Field list"
  sn_variants :: "Variant list"

type_synonym VariantValues = "(string \<times> Value) list"
type_synonym Payload = "(string \<times> VariantValues) list"

record Encoded =
  Plaintext :: bytes
  StructureSHA256 :: bytes

definition elems :: "'a list option \<Rightarrow> 'a list" where
  "elems xs = (case xs of None \<Rightarrow> [] | Some ys \<Rightarrow> ys)"

definition zeroFile :: FileValue where "zeroFile = \<lparr> fl_name = [], fl_type = [], fl_bytes = None \<rparr>"
definition zeroValue :: Value where "zeroValue = \<lparr> vl_text = None, vl_file = None \<rparr>"

section \<open>Validation\<close>

definition validVariantID :: "string \<Rightarrow> bool" where
  "validVariantID v =
     (length v = 32 \<and> (case decodeHex v of None \<Rightarrow> False | Some b \<Rightarrow> encodeHex b = v))"

definition validFileMetadata :: "FileValue \<Rightarrow> bool" where
  "validFileMetadata f = (fl_name f \<noteq> [] \<and> length (fl_name f) \<le> 255 \<and> length (fl_type f) \<le> 255)"

definition validateValue :: "string \<Rightarrow> Value \<Rightarrow> bool" where
  "validateValue t v =
     (if t = Text \<or> t = Secret then
        (case vl_text v of
           None \<Rightarrow> False
         | Some s \<Rightarrow> vl_file v = None \<and> int (length s) \<le> MaxTextBytes)
      else if t = File then
        (vl_text v = None \<and>
         (case vl_file v of
            None \<Rightarrow> False
          | Some f \<Rightarrow> int (length (elems (fl_bytes f))) \<le> MaxFileBytes \<and> validFileMetadata f))
      else True)"

text \<open>The field types by key; \<^const>\<open>None\<close> is an invalid or repeated field.\<close>

fun fieldTypes :: "Field list \<Rightarrow> (string \<times> string) list \<Rightarrow> (string \<times> string) list option" where
  "fieldTypes [] types = Some types"
| "fieldTypes (f # fs) types =
     (if \<not> validResourceKey (fd_key f) \<or> fd_name f = [] \<or> length (fd_name f) > 255 then None
      else if fd_type f \<noteq> Text \<and> fd_type f \<noteq> Secret \<and> fd_type f \<noteq> File then None
      else if map_of types (fd_key f) \<noteq> None then None
      else fieldTypes fs ((fd_key f, fd_type f) # types))"

text \<open>The environments of a variant, sorted: none twice, none of another variant.\<close>

fun bindEnvironments :: "string \<Rightarrow> string option \<Rightarrow> string list \<Rightarrow> (string \<times> string) list \<Rightarrow>
    (string \<times> string) list option" where
  "bindEnvironments i prev [] bound = Some bound"
| "bindEnvironments i prev (e # es) bound =
     (if \<not> validResourceKey e then None
      else if prev = Some e then None
      else if map_of bound e \<noteq> None then None
      else bindEnvironments i (Some e) es ((e, i) # bound))"

definition valuesComplete :: "(string \<times> string) list \<Rightarrow> VariantValues \<Rightarrow> bool" where
  "valuesComplete types vs =
     (length vs = length types \<and> list_all (\<lambda>(k, _). map_of types k \<noteq> None) vs \<and>
      list_all (\<lambda>(k, t). case map_of vs k of None \<Rightarrow> False | Some v \<Rightarrow> validateValue t v) types)"

text \<open>The variants in order, with the IDs and environments of those before.\<close>

fun checkVariants :: "(string \<times> string) list \<Rightarrow> Variant list \<Rightarrow> string list \<Rightarrow> (string \<times> string) list \<Rightarrow> bool" where
  "checkVariants types [] ids bound = True"
| "checkVariants types (v # vs) ids bound =
     (validVariantID (va_id v) \<and> va_id v \<notin> set ids \<and>
      (case bindEnvironments (va_id v) None (sort (elems (va_envs v))) bound of
         None \<Rightarrow> False
       | Some bound' \<Rightarrow>
           valuesComplete types (va_values v) \<and> checkVariants types vs (va_id v # ids) bound'))"

section \<open>Encoding\<close>

definition textMembers :: "Value \<Rightarrow> (string \<times> json) list" where
  "textMembers v = (case vl_text v of None \<Rightarrow> [] | Some s \<Rightarrow> [(''text'', JStr s)])"

definition fileBytesJSON :: "bytes option \<Rightarrow> json" where
  "fileBytesJSON b = (case b of None \<Rightarrow> JNull | Some s \<Rightarrow> JStr (standardBase64 s))"

definition fileJSON :: "FileValue \<Rightarrow> json" where
  "fileJSON f = JObj [(''filename'', JStr (fl_name f)), (''content_type'', JStr (fl_type f)),
                      (''bytes'', fileBytesJSON (fl_bytes f))]"

definition fileMembers :: "Value \<Rightarrow> (string \<times> json) list" where
  "fileMembers v = (case vl_file v of None \<Rightarrow> [] | Some f \<Rightarrow> [(''file'', fileJSON f)])"

definition valueJSON :: "Value \<Rightarrow> json" where
  "valueJSON v = JObj (textMembers v @ fileMembers v)"

text \<open>Maps are written in the order of their keys.\<close>

definition mapJSON :: "('a \<Rightarrow> json) \<Rightarrow> (string \<times> 'a) list \<Rightarrow> json" where
  "mapJSON f m = JObj (map (\<lambda>(k, x). (k, f x)) (sort_key fst m))"

definition payloadJSON :: "Payload \<Rightarrow> json" where
  "payloadJSON p = JObj [(''variants'', mapJSON (\<lambda>vs. JObj [(''values'', mapJSON valueJSON vs)]) p)]"

definition fieldJSON :: "Field \<Rightarrow> json" where
  "fieldJSON f = JObj [(''key'', JStr (fd_key f)), (''name'', JStr (fd_name f)), (''type'', JStr (fd_type f))]"

definition environmentsJSON :: "string list option \<Rightarrow> json" where
  "environmentsJSON es = (case es of None \<Rightarrow> JNull | Some xs \<Rightarrow> JArr (map JStr (sort xs)))"

definition structureJSON :: "Field list \<Rightarrow> Variant list \<Rightarrow> json" where
  "structureJSON fs vs =
     JObj [(''fields'', JArr (map fieldJSON fs)),
           (''variants'', JArr (map (\<lambda>v. JObj [(''id'', JStr (va_id v)),
                                               (''environments'', environmentsJSON (va_envs v))])
                                  (sort_key va_id vs)))]"

definition payloadOf :: "Snapshot \<Rightarrow> Payload" where
  "payloadOf s = map (\<lambda>v. (va_id v, va_values v)) (sn_variants s)"

definition Encode :: "(bytes \<Rightarrow> bytes) \<Rightarrow> Snapshot \<Rightarrow> Encoded option" where
  "Encode sha s =
     (if sn_fields s = [] \<or> sn_variants s = [] then None
      else
        (case fieldTypes (sort_key fd_key (sn_fields s)) [] of
           None \<Rightarrow> None
         | Some types \<Rightarrow>
             if \<not> checkVariants types (sn_variants s) [] [] then None
             else
               let plaintext = compactJSON (payloadJSON (payloadOf s)) in
               if int (length plaintext) > MaxSnapshotBytes then None
               else
                 Some \<lparr> Plaintext = plaintext,
                        StructureSHA256 = sha (compactJSON
                          (structureJSON (sort_key fd_key (sn_fields s)) (sn_variants s))) \<rparr>))"

section \<open>Decoding\<close>

text \<open>
  A key names the member of a struct that equals it up to case; \<^verbatim>\<open>foldName\<close> takes the
  long s and the Kelvin sign for their ASCII letters.
\<close>

definition upperASCII :: "char \<Rightarrow> char" where
  "upperASCII c = (if lowerChar c then char_of ((of_char c :: nat) - 32) else c)"

fun foldName :: "string \<Rightarrow> string" where
  "foldName [] = []"
| "foldName (a # s) =
     (if a = CHR 0xC5 \<and> take 1 s = [CHR 0xBF] then CHR ''S'' # foldName (drop 1 s)
      else if a = CHR 0xE2 \<and> take 2 s = [CHR 0x84, CHR 0xAA] then CHR ''K'' # foldName (drop 2 s)
      else upperASCII a # foldName s)"

definition memberName :: "string list \<Rightarrow> string \<Rightarrow> string option" where
  "memberName names k = find (\<lambda>n. foldName n = foldName k) names"

text \<open>Go map assignment.\<close>

fun mapPut :: "'k \<Rightarrow> 'a \<Rightarrow> ('k \<times> 'a) list \<Rightarrow> ('k \<times> 'a) list" where
  "mapPut k x [] = [(k, x)]"
| "mapPut k x ((k', y) # m) = (if k' = k then (k, x) # m else (k', y) # mapPut k x m)"

text \<open>
  Decoding into a struct keeps what it holds and goes through the members in order, so a
  repeated member changes what an earlier one left; unknown members are errors
  (\<^verbatim>\<open>DisallowUnknownFields\<close>). The elements of a map are decoded from zero.
\<close>

fun eachMember :: "(string \<Rightarrow> json \<Rightarrow> 'a \<Rightarrow> 'a option) \<Rightarrow> (string \<times> json) list \<Rightarrow> 'a \<Rightarrow> 'a option" where
  "eachMember step [] x = Some x"
| "eachMember step ((k, v) # es) x =
     (case step k v x of None \<Rightarrow> None | Some y \<Rightarrow> eachMember step es y)"

definition intoStruct :: "string list \<Rightarrow> (string \<Rightarrow> json \<Rightarrow> 'a \<Rightarrow> 'a option) \<Rightarrow> json \<Rightarrow> 'a \<Rightarrow> 'a option" where
  "intoStruct names step v x =
     (case v of
        JNull \<Rightarrow> Some x
      | JObj es \<Rightarrow>
          eachMember (\<lambda>k v y. case memberName names k of None \<Rightarrow> None | Some n \<Rightarrow> step n v y) es x
      | _ \<Rightarrow> None)"

definition intoMap :: "(json \<Rightarrow> 'a option) \<Rightarrow> json \<Rightarrow> (string \<times> 'a) list \<Rightarrow> (string \<times> 'a) list option" where
  "intoMap elem v m =
     (case v of
        JNull \<Rightarrow> Some []
      | JObj es \<Rightarrow> eachMember (\<lambda>k v m. map_option (\<lambda>x. mapPut k x m) (elem v)) es m
      | _ \<Rightarrow> None)"

definition intoString :: "json \<Rightarrow> string \<Rightarrow> string option" where
  "intoString v s = (case v of JNull \<Rightarrow> Some s | JStr t \<Rightarrow> Some t | _ \<Rightarrow> None)"

text \<open>Padded standard base64, as \<^verbatim>\<open>base64.StdEncoding\<close> reads it: line ends are skipped.\<close>

definition fromStandardChar :: "char \<Rightarrow> char option" where
  "fromStandardChar c =
     (if c = CHR ''+'' then Some CHR ''-''
      else if c = CHR ''/'' then Some CHR ''_''
      else if c = CHR ''-'' \<or> c = CHR ''_'' \<or> c \<notin> set base64Alphabet then None
      else Some c)"

fun eachStandardChar :: "string \<Rightarrow> string option" where
  "eachStandardChar [] = Some []"
| "eachStandardChar (c # s) =
     (case fromStandardChar c of None \<Rightarrow> None | Some d \<Rightarrow> map_option (Cons d) (eachStandardChar s))"

definition unpad :: "string \<Rightarrow> string" where
  "unpad s =
     (if hasSuffix s ''=='' then take (length s - 2) s
      else if hasSuffix s ''='' then take (length s - 1) s
      else s)"

definition decodeStandard :: "string \<Rightarrow> bytes option" where
  "decodeStandard source =
     (let s = filter (\<lambda>c. c \<noteq> CHR 0x0A \<and> c \<noteq> CHR 0x0D) source in
      if length s mod 4 \<noteq> 0 then None
      else (case eachStandardChar (unpad s) of None \<Rightarrow> None | Some t \<Rightarrow> decodeBase64 t))"

text \<open>
  A byte slice is a string in base64 or an array of numbers; in an array null leaves the
  element as it is, zero beyond the former length.
\<close>

definition intoByte :: "json \<Rightarrow> char \<Rightarrow> char option" where
  "intoByte v c =
     (case v of
        JNull \<Rightarrow> Some c
      | JNum n \<Rightarrow> (case ParseUint n of None \<Rightarrow> None | Some w \<Rightarrow> if w < 256 then Some (char_of (unat w)) else None)
      | _ \<Rightarrow> None)"

fun intoByteItems :: "json list \<Rightarrow> bytes \<Rightarrow> bytes option" where
  "intoByteItems [] old = Some []"
| "intoByteItems (v # vs) old =
     (case intoByte v (case old of [] \<Rightarrow> CHR 0x00 | c # _ \<Rightarrow> c) of
        None \<Rightarrow> None
      | Some c \<Rightarrow> map_option (Cons c) (intoByteItems vs (drop 1 old)))"

definition intoBytes :: "json \<Rightarrow> bytes option \<Rightarrow> bytes option option" where
  "intoBytes v old =
     (case v of
        JNull \<Rightarrow> Some None
      | JStr s \<Rightarrow> map_option Some (decodeStandard s)
      | JArr vs \<Rightarrow> map_option Some (intoByteItems vs (elems old))
      | _ \<Rightarrow> None)"

definition intoFile :: "json \<Rightarrow> FileValue \<Rightarrow> FileValue option" where
  "intoFile =
     intoStruct [''filename'', ''content_type'', ''bytes''] (\<lambda>n v f.
       if n = ''filename'' then map_option (\<lambda>s. f\<lparr> fl_name := s \<rparr>) (intoString v (fl_name f))
       else if n = ''content_type'' then map_option (\<lambda>s. f\<lparr> fl_type := s \<rparr>) (intoString v (fl_type f))
       else map_option (\<lambda>b. f\<lparr> fl_bytes := b \<rparr>) (intoBytes v (fl_bytes f)))"

text \<open>Null sets a pointer to nil; anything else is decoded into what it points to.\<close>

definition intoPointer :: "(json \<Rightarrow> 'a \<Rightarrow> 'a option) \<Rightarrow> 'a \<Rightarrow> json \<Rightarrow> 'a option \<Rightarrow> 'a option option" where
  "intoPointer into zero v old =
     (if v = JNull then Some None
      else map_option Some (into v (case old of None \<Rightarrow> zero | Some x \<Rightarrow> x)))"

definition intoValue :: "json \<Rightarrow> Value \<Rightarrow> Value option" where
  "intoValue =
     intoStruct [''text'', ''file''] (\<lambda>n v x.
       if n = ''text'' then map_option (\<lambda>t. x\<lparr> vl_text := t \<rparr>) (intoPointer intoString [] v (vl_text x))
       else map_option (\<lambda>f. x\<lparr> vl_file := f \<rparr>) (intoPointer intoFile zeroFile v (vl_file x)))"

definition intoVariantValues :: "json \<Rightarrow> VariantValues \<Rightarrow> VariantValues option" where
  "intoVariantValues = intoStruct [''values''] (\<lambda>_. intoMap (\<lambda>v. intoValue v zeroValue))"

definition intoPayload :: "json \<Rightarrow> Payload \<Rightarrow> Payload option" where
  "intoPayload = intoStruct [''variants''] (\<lambda>_. intoMap (\<lambda>v. intoVariantValues v []))"

definition decodedValue :: "string \<times> Value \<Rightarrow> bool" where
  "decodedValue kv =
     (case kv of (k, v) \<Rightarrow>
        validResourceKey k \<and> (vl_text v = None) \<noteq> (vl_file v = None) \<and>
        (case vl_text v of None \<Rightarrow> True | Some s \<Rightarrow> int (length s) \<le> MaxTextBytes) \<and>
        (case vl_file v of
           None \<Rightarrow> True
         | Some f \<Rightarrow> int (length (elems (fl_bytes f))) \<le> MaxFileBytes \<and> validFileMetadata f))"

definition decodedVariant :: "string \<times> VariantValues \<Rightarrow> bool" where
  "decodedVariant iv = (case iv of (i, vs) \<Rightarrow> validVariantID i \<and> vs \<noteq> [] \<and> list_all decodedValue vs)"

definition Decode :: "bytes \<Rightarrow> Payload option" where
  "Decode plaintext =
     (if int (length plaintext) > MaxSnapshotBytes then None
      else
        (case parseJSON plaintext of
           None \<Rightarrow> None
         | Some v \<Rightarrow>
             (case intoPayload v [] of
                None \<Rightarrow> None
              | Some p \<Rightarrow> if p = [] \<or> \<not> list_all decodedVariant p then None else Some p)))"

section \<open>Base64 is read back\<close>

definition standardChar :: "char \<Rightarrow> char" where
  "standardChar c = (if c = CHR ''-'' then CHR ''+'' else if c = CHR ''_'' then CHR ''/'' else c)"

lemma standardChar_facts:
  "\<forall>c \<in> set base64Alphabet. fromStandardChar (standardChar c) = Some c \<and>
     standardChar c \<notin> {CHR 0x0A, CHR 0x0D, CHR ''=''} \<and> standardChar c \<in> set (CHR ''+'' # CHR ''/'' # base64Alphabet)"
  by code_simp

lemma eachStandardChar_map:
  "set t \<subseteq> set base64Alphabet \<Longrightarrow> eachStandardChar (map standardChar t) = Some t"
  using standardChar_facts by (induction t) auto

lemma encodeBase64_length: "length (encodeBase64 b) mod 4 \<in> {0, 2, 3}"
  by (induction b rule: encodeBase64.induct) (auto simp: Let_def)

lemma unpad_none: "CHR ''='' \<notin> set s \<Longrightarrow> unpad s = s"
  by (auto simp: unpad_def hasSuffix_iff)

lemma unpad_one: "CHR ''='' \<notin> set s \<Longrightarrow> unpad (s @ ''='') = s"
  by (auto simp: unpad_def hasSuffix_iff append_eq_append_conv2 Cons_eq_append_conv append_eq_Cons_conv)

lemma unpad_two: "unpad (s @ ''=='') = s"
  by (simp add: unpad_def)

lemma decodeStandard_standardBase64 [simp]: "decodeStandard (standardBase64 b) = Some b"
proof -
  define t where "t = encodeBase64 b"
  define s where "s = map standardChar t"
  have t: "set t \<subseteq> set base64Alphabet" using set_encodeBase64 by (auto simp: t_def)
  then have plain: "CHR 0x0A \<notin> set s" "CHR 0x0D \<notin> set s" "CHR ''='' \<notin> set s"
    using standardChar_facts by (auto simp: s_def)
  then have keep: "filter (\<lambda>c. c \<noteq> CHR 0x0A \<and> c \<noteq> CHR 0x0D) s = s" by (auto simp: filter_id_conv)
  have length: "length s mod 4 \<in> {0, 2, 3}" using encodeBase64_length by (simp add: s_def t_def)
  have padded: "standardBase64 b = s @ replicate ((4 - length s mod 4) mod 4) CHR ''=''"
    by (simp add: standardBase64_def s_def t_def standardChar_def Let_def)
  have mod: "(length s + 2) mod 4 = 0" if "length s mod 4 = 2" using that by presburger
  have mod': "Suc (length s) mod 4 = 0" if "length s mod 4 = 3" using that by presburger
  have chars: "eachStandardChar s = Some t" unfolding s_def by (rule eachStandardChar_map [OF t])
  have decoded: "decodeBase64 t = Some b" by (simp add: t_def)
  consider "length s mod 4 = 0" | "length s mod 4 = 2" | "length s mod 4 = 3" using length by auto
  then show ?thesis
  proof cases
    case 1
    then show ?thesis using padded keep chars decoded unpad_none [OF plain(3)] by (simp add: decodeStandard_def)
  next
    case 2
    then have "standardBase64 b = s @ ''==''" using padded by (simp add: numeral_2_eq_2)
    then show ?thesis using 2 keep chars decoded mod unpad_two [of s] by (simp add: decodeStandard_def)
  next
    case 3
    then have "standardBase64 b = s @ ''=''" using padded by simp
    then show ?thesis using 3 keep chars decoded mod' unpad_one [OF plain(3)] by (simp add: decodeStandard_def)
  qed
qed

lemma utf8_standardBase64: "utf8 (standardBase64 b)"
proof -
  have "\<forall>c \<in> set (CHR ''='' # CHR ''+'' # CHR ''/'' # base64Alphabet). byteIn 0 0x7F c" by code_simp
  moreover have "set (standardBase64 b) \<subseteq> set (CHR ''='' # CHR ''+'' # CHR ''/'' # base64Alphabet)"
    using standardChar_facts set_encodeBase64 by (fastforce simp: standardBase64_def standardChar_def Let_def)
  ultimately have "list_all (byteIn 0 0x7F) (standardBase64 b)" by (auto simp: list_all_iff)
  then show ?thesis by (rule utf8_plain)
qed

section \<open>The written form is read back\<close>

lemma member_names [simp]:
  "memberName [''filename'', ''content_type'', ''bytes''] ''filename'' = Some ''filename''"
  "memberName [''filename'', ''content_type'', ''bytes''] ''content_type'' = Some ''content_type''"
  "memberName [''filename'', ''content_type'', ''bytes''] ''bytes'' = Some ''bytes''"
  "memberName [''text'', ''file''] ''text'' = Some ''text''"
  "memberName [''text'', ''file''] ''file'' = Some ''file''"
  "memberName [''values''] ''values'' = Some ''values''"
  "memberName [''variants''] ''variants'' = Some ''variants''"
  by code_simp+

lemma intoFile_fileJSON [simp]: "intoFile (fileJSON f) x = Some f"
  by (cases f; cases "fl_bytes f")
    (auto simp: intoFile_def fileJSON_def intoStruct_def intoString_def intoBytes_def fileBytesJSON_def)

lemma intoValue_valueJSON [simp]: "intoValue (valueJSON v) zeroValue = Some v"
  by (cases v; cases "vl_text v"; cases "vl_file v")
    (auto simp: intoValue_def valueJSON_def intoStruct_def intoPointer_def intoString_def textMembers_def
      fileMembers_def zeroValue_def fileJSON_def [symmetric], auto simp: fileJSON_def)

lemma mapPut_new: "k \<notin> fst ` set m \<Longrightarrow> mapPut k x m = m @ [(k, x)]"
  by (induction k x m rule: mapPut.induct) auto

lemma eachMember_map:
  assumes "\<forall>(k, x) \<in> set m. elem (enc x) = Some (g x)" and "distinct (map fst m)"
    and "fst ` set m \<inter> fst ` set acc = {}"
  shows "eachMember (\<lambda>k v m. map_option (\<lambda>x. mapPut k x m) (elem v)) (map (\<lambda>(k, x). (k, enc x)) m) acc =
    Some (acc @ map (\<lambda>(k, x). (k, g x)) m)"
  using assms by (induction m arbitrary: acc) (auto simp: mapPut_new image_iff)

lemma intoMap_mapJSON:
  assumes "\<forall>(k, x) \<in> set m. elem (enc x) = Some (g x)" and "distinct (map fst m)"
  shows "intoMap elem (mapJSON enc m) [] = Some (map (\<lambda>(k, x). (k, g x)) (sort_key fst m))"
proof -
  have "\<forall>(k, x) \<in> set (sort_key fst m). elem (enc x) = Some (g x)" using assms(1) by simp
  moreover have "distinct (map fst (sort_key fst m))" using assms(2) by simp
  ultimately show ?thesis using eachMember_map [of "sort_key fst m" elem enc g "[]"]
    by (simp add: intoMap_def mapJSON_def)
qed

definition canonicalPayload :: "Payload \<Rightarrow> Payload" where
  "canonicalPayload p = map (\<lambda>(i, vs). (i, sort_key fst vs)) (sort_key fst p)"

lemma intoPayload_payloadJSON:
  assumes "distinct (map fst p)" and "\<forall>(i, vs) \<in> set p. distinct (map fst vs)"
  shows "intoPayload (payloadJSON p) [] = Some (canonicalPayload p)"
proof -
  have "intoMap (\<lambda>v. intoValue v zeroValue) (mapJSON valueJSON vs) [] = Some (sort_key fst vs)"
    if "distinct (map fst vs)" for vs
    using intoMap_mapJSON [of vs "\<lambda>v. intoValue v zeroValue" valueJSON "\<lambda>x. x"] that by simp
  then have "intoVariantValues (JObj [(''values'', mapJSON valueJSON vs)]) [] = Some (sort_key fst vs)"
    if "distinct (map fst vs)" for vs
    using that by (simp add: intoVariantValues_def intoStruct_def)
  then have "intoMap (\<lambda>v. intoVariantValues v []) (mapJSON (\<lambda>vs. JObj [(''values'', mapJSON valueJSON vs)]) p) [] =
      Some (canonicalPayload p)"
    unfolding canonicalPayload_def using assms by (intro intoMap_mapJSON) auto
  then show ?thesis by (simp add: intoPayload_def payloadJSON_def intoStruct_def)
qed

text \<open>The strings a snapshot holds, as JSON can write them.\<close>

definition utf8Value :: "Value \<Rightarrow> bool" where
  "utf8Value v =
     ((case vl_text v of None \<Rightarrow> True | Some s \<Rightarrow> utf8 s) \<and>
      (case vl_file v of None \<Rightarrow> True | Some f \<Rightarrow> utf8 (fl_name f) \<and> utf8 (fl_type f)))"

lemma member_names_utf8:
  "utf8 ''text''" "utf8 ''file''" "utf8 ''filename''" "utf8 ''content_type''" "utf8 ''bytes''" "utf8 ''values''"
  "utf8 ''variants''"
  by code_simp+

declare utf8.simps(2) [simp del]

lemma docOk_value: "utf8Value v \<Longrightarrow> d \<le> 98 \<Longrightarrow> docOk d (valueJSON v)"
  by (cases "vl_text v"; cases "vl_file v")
    (auto simp: utf8Value_def valueJSON_def textMembers_def fileMembers_def fileJSON_def fileBytesJSON_def
      member_names_utf8 utf8_standardBase64 split: option.splits)

lemma docOk_mapJSON:
  assumes "d \<le> 100" and "distinct (map fst m)" and "\<forall>(k, x) \<in> set m. utf8 k \<and> docOk (Suc d) (f x)"
  shows "docOk d (mapJSON f m)"
proof -
  have keys: "map fst (map (\<lambda>(k, x). (k, f x)) (sort_key fst m)) = map fst (sort_key fst m)"
    by (simp add: case_prod_unfold)
  have "distinct (map fst (map (\<lambda>(k, x). (k, f x)) (sort_key fst m)))"
    unfolding keys using assms(2) by simp
  then show ?thesis using assms(1,3) by (auto simp: mapJSON_def entriesOk_iff simp del: map_map)
qed

lemma docOk_payload:
  assumes "distinct (map fst p)" and "\<forall>(i, vs) \<in> set p. utf8 i \<and> distinct (map fst vs) \<and>
    (\<forall>(k, v) \<in> set vs. utf8 k \<and> utf8Value v)"
  shows "docOk 0 (payloadJSON p)"
proof -
  have "docOk (Suc (Suc 0)) (JObj [(''values'', mapJSON valueJSON vs)])" if "distinct (map fst vs)"
    "\<forall>(k, v) \<in> set vs. utf8 k \<and> utf8Value v" for vs
  proof -
    have "docOk (Suc (Suc (Suc 0))) (mapJSON valueJSON vs)" using that by (intro docOk_mapJSON) (auto intro!: docOk_value)
    then show ?thesis using member_names_utf8 by simp
  qed
  then have "docOk (Suc (Suc 0)) (JObj [(''values'', mapJSON valueJSON vs)])" if "(i, vs) \<in> set p" for i vs
    using assms(2) that by fastforce
  then have "docOk (Suc 0) (mapJSON (\<lambda>vs. JObj [(''values'', mapJSON valueJSON vs)]) p)"
    using assms by (intro docOk_mapJSON) auto
  then show ?thesis using member_names_utf8 by (simp add: payloadJSON_def)
qed

section \<open>What an encoded snapshot satisfies\<close>

lemma fieldTypes_valid:
  "fieldTypes fs types = Some types' \<Longrightarrow>
    (\<forall>(k, t) \<in> set types. validResourceKey k \<and> t \<in> {Text, Secret, File}) \<Longrightarrow> distinct (map fst types) \<Longrightarrow>
    (\<forall>(k, t) \<in> set types'. validResourceKey k \<and> t \<in> {Text, Secret, File}) \<and> distinct (map fst types') \<and>
    length types' = length fs + length types"
  by (induction fs types rule: fieldTypes.induct)
    (auto simp: map_of_eq_None_iff image_iff split: if_splits)

lemma checkVariants_variant:
  "checkVariants types vs ids bound \<Longrightarrow>
    distinct (map va_id vs) \<and> set ids \<inter> va_id ` set vs = {} \<and>
    (\<forall>v \<in> set vs. validVariantID (va_id v) \<and> valuesComplete types (va_values v))"
  by (induction types vs ids bound rule: checkVariants.induct) (auto split: option.splits)

lemma validateValue_decoded:
  "validateValue t v \<Longrightarrow> t \<in> {Text, Secret, File} \<Longrightarrow> validResourceKey k \<Longrightarrow> decodedValue (k, v)"
  by (auto simp: validateValue_def decodedValue_def Text_def Secret_def File_def split: option.splits if_splits)

lemma valuesComplete_decoded:
  assumes "valuesComplete types vs" and "distinct (map fst vs)" and "distinct (map fst types)"
    and types: "\<forall>(k, t) \<in> set types. validResourceKey k \<and> t \<in> {Text, Secret, File}" and "types \<noteq> []"
  shows "vs \<noteq> []" and "list_all decodedValue vs"
proof -
  show "vs \<noteq> []" using assms(1,5) by (auto simp: valuesComplete_def)
  have "decodedValue (k, v)" if kv: "(k, v) \<in> set vs" for k v
  proof -
    have "map_of types k \<noteq> None" using assms(1) kv by (auto simp: valuesComplete_def list_all_iff)
    then obtain t where t: "(k, t) \<in> set types" using map_of_SomeD by fast
    moreover have "map_of vs k = Some v" using kv assms(2) by simp
    ultimately have "validateValue t v" using assms(1) by (force simp: valuesComplete_def list_all_iff)
    then show ?thesis using types t by (intro validateValue_decoded) auto
  qed
  then show "list_all decodedValue vs" by (auto simp: list_all_iff)
qed

text \<open>A snapshot as Go holds it: its value maps have distinct keys; and as JSON can write it.\<close>

definition goSnapshot :: "Snapshot \<Rightarrow> bool" where
  "goSnapshot s = list_all (\<lambda>v. distinct (map fst (va_values v))) (sn_variants s)"

definition utf8Snapshot :: "Snapshot \<Rightarrow> bool" where
  "utf8Snapshot s = list_all (\<lambda>v. list_all (\<lambda>(_, x). utf8Value x) (va_values v)) (sn_variants s)"

lemma Encode_payload:
  assumes "Encode sha s = Some e" and "goSnapshot s"
  shows "Plaintext e = compactJSON (payloadJSON (payloadOf s))" and "int (length (Plaintext e)) \<le> MaxSnapshotBytes"
    and "payloadOf s \<noteq> []" and "distinct (map fst (payloadOf s))"
    and "\<forall>(i, vs) \<in> set (payloadOf s). distinct (map fst vs)"
    and "list_all decodedVariant (payloadOf s)"
proof -
  obtain types where types: "fieldTypes (sort_key fd_key (sn_fields s)) [] = Some types"
    and variants: "checkVariants types (sn_variants s) [] []" and "sn_variants s \<noteq> []" "sn_fields s \<noteq> []"
    and e: "Plaintext e = compactJSON (payloadJSON (payloadOf s))" "int (length (Plaintext e)) \<le> MaxSnapshotBytes"
    using assms(1) by (auto simp: Encode_def Let_def split: if_splits option.splits)
  then show "payloadOf s \<noteq> []" by (simp add: payloadOf_def)
  show "Plaintext e = compactJSON (payloadJSON (payloadOf s))" "int (length (Plaintext e)) \<le> MaxSnapshotBytes" by (rule e)+
  note t = fieldTypes_valid [OF types, simplified]
  have "types \<noteq> []" using t \<open>sn_fields s \<noteq> []\<close> by auto
  note v = checkVariants_variant [OF variants]
  show "distinct (map fst (payloadOf s))" using v by (simp add: payloadOf_def comp_def)
  show "\<forall>(i, vs) \<in> set (payloadOf s). distinct (map fst vs)"
    using assms(2) by (auto simp: payloadOf_def goSnapshot_def list_all_iff)
  have "decodedVariant (va_id x, va_values x)" if x: "x \<in> set (sn_variants s)" for x
  proof -
    have "valuesComplete types (va_values x)" "distinct (map fst (va_values x))" "validVariantID (va_id x)"
      using v x assms(2) by (auto simp: goSnapshot_def list_all_iff)
    then show ?thesis using valuesComplete_decoded [of types "va_values x"] t \<open>types \<noteq> []\<close>
      by (simp add: decodedVariant_def)
  qed
  then show "list_all decodedVariant (payloadOf s)" by (auto simp: payloadOf_def list_all_iff)
qed

lemma utf8_variantID: "validVariantID i \<Longrightarrow> utf8 i"
  by (auto simp: validVariantID_def utf8_hex split: option.splits)

lemma decodedVariant_sorted: "decodedVariant (i, sort_key fst vs) = decodedVariant (i, vs)"
  by (simp add: decodedVariant_def list_all_iff)

lemma Encode_Decode:
  assumes "Encode sha s = Some e" and "goSnapshot s" and "utf8Snapshot s"
  shows "Decode (Plaintext e) = Some (canonicalPayload (payloadOf s))"
proof -
  note p = Encode_payload [OF assms(1,2)]
  have "utf8 i \<and> distinct (map fst vs) \<and> (\<forall>(k, v) \<in> set vs. utf8 k \<and> utf8Value v)" if iv: "(i, vs) \<in> set (payloadOf s)" for i vs
  proof -
    have "decodedVariant (i, vs)" using p(6) iv by (auto simp: list_all_iff)
    moreover have "\<forall>(k, v) \<in> set vs. utf8Value v"
      using iv assms(3) by (auto simp: payloadOf_def utf8Snapshot_def list_all_iff)
    ultimately show ?thesis using p(5) iv
      by (auto simp: decodedVariant_def list_all_iff decodedValue_def utf8_variantID utf8_key)
  qed
  then have "docOk 0 (payloadJSON (payloadOf s))" by (intro docOk_payload [OF p(4)]) blast
  then have "parseJSON (Plaintext e) = Some (payloadJSON (payloadOf s))"
    unfolding p(1) by (rule parseJSON_compact)
  moreover have "intoPayload (payloadJSON (payloadOf s)) [] = Some (canonicalPayload (payloadOf s))"
    by (rule intoPayload_payloadJSON [OF p(4,5)])
  moreover have "canonicalPayload (payloadOf s) \<noteq> []" using p(3) by (simp add: canonicalPayload_def)
  moreover have "list_all decodedVariant (canonicalPayload (payloadOf s))"
    using p(6) by (auto simp: canonicalPayload_def list_all_iff decodedVariant_sorted)
  ultimately show ?thesis using p(2) by (simp add: Decode_def)
qed

lemma map_of_sorted: "distinct (map fst m) \<Longrightarrow> map_of (sort_key fst m) = map_of m"
  by (rule map_of_inject_set [THEN iffD2]) simp_all

text \<open>
  C34. What \<^verbatim>\<open>Encode\<close> accepts, \<^verbatim>\<open>Decode\<close> reads back: the plaintext of a
  snapshot decodes into exactly its variants, and every variant into the values it had.
\<close>

theorem vault_document_roundtrip:
  assumes "Encode sha s = Some e" and "goSnapshot s" and "utf8Snapshot s"
  shows "\<exists>p. Decode (Plaintext e) = Some p \<and> fst ` set p = va_id ` set (sn_variants s) \<and>
    (\<forall>v \<in> set (sn_variants s). \<exists>values. map_of p (va_id v) = Some values \<and> map_of values = map_of (va_values v))"
proof -
  note p = Encode_payload [OF assms(1,2)]
  have "map_of (canonicalPayload (payloadOf s)) (va_id v) = Some (sort_key fst (va_values v))"
    and "map_of (sort_key fst (va_values v)) = map_of (va_values v)" if v: "v \<in> set (sn_variants s)" for v
  proof -
    have "(va_id v, va_values v) \<in> set (payloadOf s)" using v by (simp add: payloadOf_def)
    then have "(va_id v, sort_key fst (va_values v)) \<in> set (canonicalPayload (payloadOf s))"
      by (force simp: canonicalPayload_def)
    moreover have "map fst (canonicalPayload (payloadOf s)) = map fst (sort_key fst (payloadOf s))"
      by (simp add: canonicalPayload_def case_prod_unfold)
    ultimately show "map_of (canonicalPayload (payloadOf s)) (va_id v) = Some (sort_key fst (va_values v))"
      using p(4) by (simp add: distinct_map_sort_key)
    show "map_of (sort_key fst (va_values v)) = map_of (va_values v)"
      using assms(2) v by (intro map_of_sorted) (simp add: goSnapshot_def list_all_iff)
  qed
  moreover have "fst ` set (canonicalPayload (payloadOf s)) = va_id ` set (sn_variants s)"
    by (force simp: canonicalPayload_def payloadOf_def image_iff)
  ultimately show ?thesis using Encode_Decode [OF assms] by blast
qed

definition sampleFile :: FileValue where
  "sampleFile = \<lparr> fl_name = ''ca'', fl_type = [], fl_bytes = Some [CHR 0x00, CHR 0xFF] \<rparr>"

definition sampleSnapshot :: Snapshot where
  "sampleSnapshot =
     \<lparr> sn_fields = [\<lparr> fd_key = ''user'', fd_name = ''U'', fd_type = Text \<rparr>, \<lparr> fd_key = ''cert'', fd_name = ''C'', fd_type = File \<rparr>],
       sn_variants =
         [\<lparr> va_id = replicate 31 CHR ''0'' @ ''b'', va_envs = Some [''test'', ''dev''],
            va_values = [(''user'', \<lparr> vl_text = Some ''u'', vl_file = None \<rparr>), (''cert'', \<lparr> vl_text = None, vl_file = Some sampleFile \<rparr>)] \<rparr>,
          \<lparr> va_id = replicate 31 CHR ''0'' @ ''a'', va_envs = None,
            va_values = [(''cert'', \<lparr> vl_text = None, vl_file = Some sampleFile \<rparr>), (''user'', \<lparr> vl_text = Some [], vl_file = None \<rparr>)] \<rparr>] \<rparr>"

definition sampleEncoded :: Encoded where
  "sampleEncoded = the (Encode (\<lambda>b. take 32 b) sampleSnapshot)"

lemma sampleEncoded: "Encode (\<lambda>b. take 32 b) sampleSnapshot = Some sampleEncoded"
proof -
  have "Encode (\<lambda>b. take 32 b) sampleSnapshot \<noteq> None" by code_simp
  then show ?thesis by (auto simp: sampleEncoded_def)
qed

lemma vault_document_roundtrip_witness:
  "\<exists>p. Decode (Plaintext sampleEncoded) = Some p \<and> fst ` set p = va_id ` set (sn_variants sampleSnapshot) \<and>
    (\<forall>v \<in> set (sn_variants sampleSnapshot).
      \<exists>values. map_of p (va_id v) = Some values \<and> map_of values = map_of (va_values v))"
proof (rule vault_document_roundtrip [OF sampleEncoded])
  show "goSnapshot sampleSnapshot" by code_simp
  show "utf8Snapshot sampleSnapshot" by code_simp
qed

end
