(* ===== verification/MachineRead.thy ===== *)
theory MachineRead
  imports VaultDoc
begin

text \<open>
  The reads of the machine API (\<^verbatim>\<open>mysqlstore/machine.go\<close> and the queries of
  \<^verbatim>\<open>machine_statements.go\<close>): the token of a request, the state of its certificate, and the
  snapshot reads of a resolved Config and of a file. A query is one call on the tables; the cache
  of prepared statements only saves work and is left out. The iteration order of a Go map decides
  which of several errors is reported; here it is the order of the keys. \<^verbatim>\<open>clear\<close> of
  buffers is left out. \<^const>\<open>ErrVaultIntegrity\<close> is \<^verbatim>\<open>machine.ErrIntegrity\<close>.
\<close>

section \<open>Tokens and certificates\<close>

definition tokenOf :: "string \<Rightarrow> api_token_row \<Rightarrow> bool \<Rightarrow> string list option \<Rightarrow> string list option \<Rightarrow> Token" where
  "tokenOf publicID row granted configKeys namespaceKeys =
     \<lparr> tok_public = publicID, tok_parent = (case tk_parent row of None \<Rightarrow> [] | Some p \<Rightarrow> p),
       tok_digest = tk_digest row, tok_granted = granted, tok_without_mtls = tk_without_mtls row,
       tok_expires = (case tk_expires row of None \<Rightarrow> 0 | Some at \<Rightarrow> at),
       tok_revoked = (tk_revoked row \<noteq> None), tok_kind = tk_kind row,
       tok_configs = configKeys, tok_namespaces = namespaceKeys,
       tok_fingerprint = (case tk_fingerprint row of None \<Rightarrow> [] | Some f \<Rightarrow> f) \<rparr>"

definition TokenForEnvironment :: "string \<Rightarrow> string \<Rightarrow> Token tx" where
  "TokenForEnvironment publicID environmentKey =
     tx_bind (tx_query (\<lambda>d. map_option (\<lambda>t. (t, environmentGranted False (tk_id t) environmentKey d))
                 (findToken publicID d))) (\<lambda>result.
       case result of
         None \<Rightarrow> tx_fail ErrNotFound
       | Some (row, granted) \<Rightarrow>
           if length (tk_id row) \<noteq> 16 \<or> length (tk_digest row) \<noteq> 32 then tx_fail ErrInternal
           else
             (case (decodeTokenScope (tk_configs row), decodeTokenScope (tk_namespaces row)) of
                (Some configKeys, Some namespaceKeys) \<Rightarrow>
                  if (tk_kind row \<noteq> TokenReadOnly \<and> tk_kind row \<noteq> TokenWriteScoped) \<or>
                     (tk_kind row = TokenWriteScoped \<and> (tk_expires row = None \<or> tk_without_mtls row))
                  then tx_fail ErrInternal
                  else tx_return (tokenOf publicID row granted configKeys namespaceKeys)
              | _ \<Rightarrow> tx_fail ErrInternal))"

text \<open>Of the certificate and, when it has one, of its authority.\<close>

definition certificateActive :: "time \<Rightarrow> bytes \<Rightarrow> db \<Rightarrow> bool" where
  "certificateActive at fingerprint d =
     existsRow (\<lambda>c. ct_fingerprint c = fingerprint \<and> ct_revoked c = None \<and>
         ct_not_before c \<le> at \<and> at < ct_not_after c \<and>
         (case ct_authority c of
            None \<Rightarrow> True
          | Some a \<Rightarrow> existsRow (\<lambda>ca. ca_id ca = a \<and> ca_revoked ca = None \<and>
              ca_not_before ca \<le> at \<and> at < ca_not_after ca) (authorities d)))
       (certificates d)"

definition IsCertificateActive :: "bytes \<Rightarrow> bool tx" where
  "IsCertificateActive fingerprint =
     tx_bind (tx_env db_now) (\<lambda>at. tx_query (certificateActive at fingerprint))"

section \<open>What a Config refers to\<close>

type_synonym vaultItemIdentity = "string \<times> string"

record vaultMetadata =
  md_item :: bytes
  md_revision :: u64
  md_variant :: bytes

definition revisionKey :: "vaultItemIdentity \<Rightarrow> string" where
  "revisionKey i = (case i of (namespaceKey, itemKey) \<Rightarrow> namespaceKey @ CHR ''.'' # itemKey)"

fun groupReferences :: "reference list \<Rightarrow> (vaultItemIdentity \<times> string list) list \<Rightarrow>
    (vaultItemIdentity \<times> string list) list" where
  "groupReferences [] m = m"
| "groupReferences (Reference n i f # refs) m =
     groupReferences refs (mapPut (n, i) ((case map_of m (n, i) of None \<Rightarrow> [] | Some fs \<Rightarrow> fs) @ [f]) m)"

definition revisionReferences :: "bytes \<Rightarrow> bytes \<Rightarrow> u64 \<Rightarrow> db \<Rightarrow> reference list" where
  "revisionReferences configID environmentID revision d =
     sort (map rf_reference
       (filter (\<lambda>r. rf_config r = configID \<and> rf_env r = environmentID \<and> rf_revision r = revision) (config_refs d)))"

definition readReferences :: "bytes \<Rightarrow> bytes \<Rightarrow> u64 \<Rightarrow> (vaultItemIdentity \<times> string list) list tx" where
  "readReferences configID environmentID revision =
     tx_query (\<lambda>d. groupReferences (revisionReferences configID environmentID revision d) [])"

definition itemMetadata :: "bytes \<Rightarrow> vaultItemIdentity \<Rightarrow> db \<Rightarrow> vaultMetadata option" where
  "itemMetadata environmentID i d =
     (case activeItem (fst i) (snd i) d of
        None \<Rightarrow> None
      | Some (itemID, revision) \<Rightarrow>
          map_option (\<lambda>b. \<lparr> md_item = itemID, md_revision = revision, md_variant = vb_variant b \<rparr>)
            (find (\<lambda>b. vb_item b = itemID \<and> vb_revision b = revision \<and> vb_env b = environmentID)
              (vault_bindings d)))"

definition readOneVaultMetadata :: "bytes \<Rightarrow> vaultItemIdentity \<Rightarrow> vaultMetadata tx" where
  "readOneVaultMetadata environmentID i =
     tx_bind (tx_query (itemMetadata environmentID i)) (\<lambda>metadata.
       case metadata of
         None \<Rightarrow> tx_fail ErrUnresolved
       | Some m \<Rightarrow>
           if length (md_item m) \<noteq> 16 \<or> length (md_variant m) \<noteq> 16 \<or> md_revision m = 0 then tx_fail ErrVaultIntegrity
           else tx_return m)"

definition readVaultMetadata :: "bytes \<Rightarrow> (vaultItemIdentity \<times> string list) list \<Rightarrow>
    (vaultItemIdentity \<times> vaultMetadata) list tx" where
  "readVaultMetadata environmentID references =
     tx_collect (\<lambda>(i, _). tx_bind (readOneVaultMetadata environmentID i) (\<lambda>m. tx_return [(i, m)])) references"

section \<open>Values\<close>

definition revisionFieldTypes :: "bytes \<Rightarrow> u64 \<Rightarrow> db \<Rightarrow> (string \<times> string) list" where
  "revisionFieldTypes itemID revision d =
     map (\<lambda>f. (vf_key f, vf_type f))
       (filter (\<lambda>f. vf_item f = itemID \<and> vf_revision f = revision \<and> \<not> vf_archived f) (vault_fields d))"

definition readFieldTypes :: "vaultMetadata \<Rightarrow> (string \<times> string) list tx" where
  "readFieldTypes metadata = tx_query (revisionFieldTypes (md_item metadata) (md_revision metadata))"

definition vaultRevision :: "bytes \<Rightarrow> u64 \<Rightarrow> db \<Rightarrow> vault_revision_row option" where
  "vaultRevision itemID revision d =
     find (\<lambda>r. vr_item r = itemID \<and> vr_revision r = revision) (vault_revisions d)"

definition openPayload :: "aead \<Rightarrow> LocalKeyProvider \<Rightarrow> vaultMetadata \<Rightarrow> EncryptedSnapshot \<Rightarrow> Payload option" where
  "openPayload A provider metadata encrypted =
     (case DecryptSnapshot A provider \<lparr> ItemID = encodeHex (md_item metadata), Revision = md_revision metadata \<rparr> encrypted of
        Inl _ \<Rightarrow> None
      | Inr plaintext \<Rightarrow> Decode plaintext)"

definition decryptVaultPayload :: "aead \<Rightarrow> LocalKeyProvider \<Rightarrow> vaultMetadata \<Rightarrow> Payload tx" where
  "decryptVaultPayload A provider metadata =
     tx_bind (tx_query (vaultRevision (md_item metadata) (md_revision metadata))) (\<lambda>row.
       case row of
         None \<Rightarrow> tx_fail ErrUnresolved
       | Some r \<Rightarrow>
           if int (length (Ciphertext (vr_snapshot r))) > MaxSnapshotBytes + 32 then tx_fail ErrVaultIntegrity
           else
             (case openPayload A provider metadata (vr_snapshot r) of
                None \<Rightarrow> tx_fail ErrVaultIntegrity
              | Some payload \<Rightarrow> tx_return payload))"

definition textValue :: "(string \<times> string) list \<Rightarrow> VariantValues \<Rightarrow> string \<Rightarrow> string option" where
  "textValue types variant fieldKey =
     (if map_of types fieldKey \<noteq> Some Text \<and> map_of types fieldKey \<noteq> Some Secret then None
      else
        (case map_of variant fieldKey of
           None \<Rightarrow> None
         | Some v \<Rightarrow>
             (case vl_text v of
                None \<Rightarrow> None
              | Some s \<Rightarrow> if int (length s) > MaxTextBytes then None else Some s)))"

fun textValues :: "(string \<times> string) list \<Rightarrow> VariantValues \<Rightarrow> string list \<Rightarrow> (string \<times> string) list option" where
  "textValues types variant [] = Some []"
| "textValues types variant (k # ks) =
     (case textValue types variant k of
        None \<Rightarrow> None
      | Some s \<Rightarrow> map_option (Cons (k, s)) (textValues types variant ks))"

definition readVaultTextValues :: "aead \<Rightarrow> LocalKeyProvider \<Rightarrow> vaultMetadata \<Rightarrow> string list \<Rightarrow> (string \<times> string) list tx" where
  "readVaultTextValues A provider metadata fieldKeys =
     tx_bind (readFieldTypes metadata) (\<lambda>types.
     tx_bind (decryptVaultPayload A provider metadata) (\<lambda>payload.
       case map_of payload (encodeHex (md_variant metadata)) of
         None \<Rightarrow> tx_fail ErrUnresolved
       | Some variant \<Rightarrow>
           (case textValues types variant fieldKeys of
              None \<Rightarrow> tx_fail ErrUnresolved
            | Some values \<Rightarrow> tx_return values)))"

section \<open>Entity tags\<close>

definition quotedHash :: "(bytes \<Rightarrow> bytes) \<Rightarrow> bytes \<Rightarrow> string" where
  "quotedHash sha text = CHR 0x22 # encodeBase64 (sha text) @ [CHR 0x22]"

definition itemTag :: "vaultItemIdentity \<times> vaultMetadata \<Rightarrow> bytes" where
  "itemTag im = (case im of ((namespaceKey, itemKey), m) \<Rightarrow>
     writeString namespaceKey @ writeString itemKey @ md_item m @ writeUint64 (md_revision m))"

definition resolvedConfigETag :: "(bytes \<Rightarrow> bytes) \<Rightarrow> bytes \<Rightarrow> u64 \<Rightarrow> (vaultItemIdentity \<times> vaultMetadata) list \<Rightarrow> string" where
  "resolvedConfigETag sha configID revision items =
     quotedHash sha (''configra:resolved-config-etag:v1'' @ [CHR 0x00] @ configID @ writeUint64 revision @
       concat (map itemTag (sort_key (\<lambda>(i, _). revisionKey i) items)))"

definition vaultFileETag :: "(bytes \<Rightarrow> bytes) \<Rightarrow> bytes \<Rightarrow> u64 \<Rightarrow> string \<Rightarrow> string" where
  "vaultFileETag sha itemID revision fieldKey =
     quotedHash sha (''configra:vault-file-etag:v1'' @ [CHR 0x00] @ itemID @ writeUint64 revision @ writeString fieldKey)"

section \<open>The resolved Config\<close>

text \<open>\<^verbatim>\<open>ErrNotModified\<close> comes with the result but its content.\<close>

datatype 'a conditional = Fresh 'a | NotModified 'a

record ResolvedConfig =
  rc_format :: string
  rc_content :: bytes
  rc_revision :: u64
  rc_vault :: "(string \<times> u64) list"
  rc_etag :: string

definition currentConfig :: "string \<Rightarrow> string \<Rightarrow> db \<Rightarrow> (bytes \<times> bytes \<times> config_revision_row) option" where
  "currentConfig environmentKey configKey d =
     (case (activeEnvironment environmentKey d, findConfig configKey d) of
        (Some environmentID, Some (configID, archived)) \<Rightarrow>
          if archived then None
          else
            (case currentRevision configID environmentID d of
               None \<Rightarrow> None
             | Some n \<Rightarrow> map_option (\<lambda>r. (environmentID, configID, r)) (findRevision configID environmentID n d))
      | _ \<Rightarrow> None)"

definition vaultRevisionsOf :: "(vaultItemIdentity \<times> vaultMetadata) list \<Rightarrow> (string \<times> u64) list" where
  "vaultRevisionsOf items = foldl (\<lambda>m (i, md). mapPut (revisionKey i) (md_revision md) m) [] items"

definition valueLookup :: "(reference \<times> string) list \<Rightarrow> lookup" where
  "valueLookup values r = (case map_of values r of None \<Rightarrow> Inl LookupError | Some s \<Rightarrow> Inr s)"

definition scopeAllows :: "Token option \<Rightarrow> string \<Rightarrow> (vaultItemIdentity \<times> string list) list \<Rightarrow> bool" where
  "scopeAllows token configKey references =
     (case token of
        None \<Rightarrow> True
      | Some t \<Rightarrow> AllowsConfig t configKey \<and> list_all (\<lambda>((namespaceKey, _), _). AllowsNamespace t namespaceKey) references)"

definition itemValues :: "aead \<Rightarrow> LocalKeyProvider \<Rightarrow> (vaultItemIdentity \<times> string list) list \<Rightarrow>
    vaultItemIdentity \<times> vaultMetadata \<Rightarrow> (reference \<times> string) list tx" where
  "itemValues A provider references im =
     (case im of (i, metadata) \<Rightarrow>
        tx_bind (readVaultTextValues A provider metadata
                  (case map_of references i of None \<Rightarrow> [] | Some fs \<Rightarrow> fs)) (\<lambda>values.
          tx_return (map (\<lambda>(f, s). (Reference (fst i) (snd i) f, s)) values)))"

definition ReadResolvedConfig ::
  "yaml_codec \<Rightarrow> aead \<Rightarrow> LocalKeyProvider \<Rightarrow> Token option \<Rightarrow> string \<Rightarrow> string \<Rightarrow> string \<Rightarrow>
    ResolvedConfig conditional tx" where
  "ReadResolvedConfig codec A provider token environmentKey configKey ifNoneMatch =
     tx_bind (tx_query (currentConfig environmentKey configKey)) (\<lambda>result.
       case result of
         None \<Rightarrow> tx_fail ErrNotFound
       | Some (environmentID, configID, row) \<Rightarrow>
           if length environmentID \<noteq> 16 \<or> length configID \<noteq> 16 \<or> cr_revision row = 0 \<or>
              int (length (cr_content row)) > 5 * 1024 * 1024
           then tx_fail ErrInternal
           else
             tx_bind (readReferences configID environmentID (cr_revision row)) (\<lambda>references.
               if \<not> scopeAllows token configKey references then tx_fail ErrForbidden
               else
                 tx_bind (readVaultMetadata environmentID references) (\<lambda>items.
                 tx_bind (tx_env sha256) (\<lambda>sha.
                   let etag = resolvedConfigETag sha configID (cr_revision row) items;
                       unresolved = \<lparr> rc_format = cr_format row, rc_content = [], rc_revision = cr_revision row,
                                      rc_vault = vaultRevisionsOf items, rc_etag = etag \<rparr>
                   in
                     if ifNoneMatch = etag then
                       tx_bind tx_commit (\<lambda>_. tx_return (NotModified unresolved))
                     else
                       tx_bind (tx_collect (itemValues A provider references) items) (\<lambda>values.
                         case Resolve codec (cr_format row) (cr_content row) (Some (valueLookup values)) of
                           Inl _ \<Rightarrow> tx_fail ErrUnresolved
                         | Inr content \<Rightarrow>
                             tx_bind tx_commit (\<lambda>_. tx_return (Fresh (unresolved\<lparr> rc_content := content \<rparr>))))))))"

section \<open>Files\<close>

record FileContent =
  fc_bytes :: bytes
  fc_filename :: string
  fc_type :: string
  fc_revision :: u64
  fc_etag :: string

definition fileOf :: "Payload \<Rightarrow> vaultMetadata \<Rightarrow> string \<Rightarrow> FileValue option" where
  "fileOf payload metadata fieldKey =
     (case map_of payload (encodeHex (md_variant metadata)) of
        None \<Rightarrow> None
      | Some variant \<Rightarrow>
          (case map_of variant fieldKey of
             None \<Rightarrow> None
           | Some v \<Rightarrow>
               (case vl_file v of
                  None \<Rightarrow> None
                | Some f \<Rightarrow> if int (length (elems (fl_bytes f))) > 5 * 1024 * 1024 then None else Some f)))"

definition ReadFile ::
  "aead \<Rightarrow> LocalKeyProvider \<Rightarrow> string \<Rightarrow> string \<Rightarrow> string \<Rightarrow> string \<Rightarrow> string \<Rightarrow> FileContent conditional tx" where
  "ReadFile A provider environmentKey namespaceKey itemKey fieldKey ifNoneMatch =
     tx_bind (tx_query (activeEnvironment environmentKey)) (\<lambda>environment.
       case environment of
         None \<Rightarrow> tx_fail ErrNotFound
       | Some environmentID \<Rightarrow>
           tx_handle (\<lambda>e. e = ErrUnresolved) (readOneVaultMetadata environmentID (namespaceKey, itemKey))
             (\<lambda>_. tx_fail ErrNotFound) (\<lambda>metadata.
           tx_bind (tx_env sha256) (\<lambda>sha.
             let etag = vaultFileETag sha (md_item metadata) (md_revision metadata) fieldKey;
                 unread = \<lparr> fc_bytes = [], fc_filename = [], fc_type = [], fc_revision = md_revision metadata,
                            fc_etag = etag \<rparr>
             in
               if ifNoneMatch = etag then tx_bind tx_commit (\<lambda>_. tx_return (NotModified unread))
               else
                 tx_bind (readFieldTypes metadata) (\<lambda>types.
                   if map_of types fieldKey \<noteq> Some File then tx_fail ErrNotFound
                   else
                     tx_bind (decryptVaultPayload A provider metadata) (\<lambda>payload.
                       case fileOf payload metadata fieldKey of
                         None \<Rightarrow> tx_fail ErrNotFound
                       | Some f \<Rightarrow>
                           tx_bind tx_commit (\<lambda>_. tx_return (Fresh (unread\<lparr>
                             fc_bytes := elems (fl_bytes f), fc_filename := fl_name f, fc_type := fl_type f \<rparr>))))))))"

end
