(* ===== verification/MachineLaws.thy ===== *)
theory MachineLaws
  imports MachineRead "HOL-Library.Product_Lexorder"
begin

text \<open>
  What the machine reads answer: every call of a snapshot read leaves the tables alone, and unless
  the database fails its result is a function of them; those functions, and from them the exact
  conditions under which a Config is served, with which content, and what an entity tag says.
\<close>

section \<open>Reading calls\<close>

definition reads :: "'a tx \<Rightarrow> (env \<Rightarrow> db \<Rightarrow> err + 'a) \<Rightarrow> bool" where
  "reads m g = (\<forall>env s r s'. m env s = (r, s') \<longrightarrow>
     work s' = work s \<and> (durable s = work s \<longrightarrow> durable s' = durable s) \<and>
     (r = g env (work s) \<or> r = Inl ErrDatabase \<and> (\<exists>n. fault env n)))"

named_theorems reads_intros \<open>reading calls and what they read\<close>

lemma readsI:
  assumes "\<And>env s r s'. m env s = (r, s') \<Longrightarrow> work s' = work s \<and> (durable s = work s \<longrightarrow> durable s' = durable s) \<and>
    (r = g env (work s) \<or> r = Inl ErrDatabase \<and> (\<exists>n. fault env n))"
  shows "reads m g"
  using assms unfolding reads_def by blast

lemma readsD:
  assumes "reads m g" and "m env s = (r, s')"
  shows "work s' = work s" and "durable s = work s \<Longrightarrow> durable s' = durable s"
    and "r = g env (work s) \<or> r = Inl ErrDatabase \<and> (\<exists>n. fault env n)"
  using assms unfolding reads_def by blast+

definition resultBind :: "err + 'a \<Rightarrow> ('a \<Rightarrow> err + 'b) \<Rightarrow> err + 'b" where
  "resultBind x f = (case x of Inl e \<Rightarrow> Inl e | Inr a \<Rightarrow> f a)"

fun collectResults :: "('a \<Rightarrow> err + 'b list) \<Rightarrow> 'a list \<Rightarrow> err + 'b list" where
  "collectResults f [] = Inr []"
| "collectResults f (x # xs) = resultBind (f x) (\<lambda>ys. resultBind (collectResults f xs) (\<lambda>zs. Inr (ys @ zs)))"

lemma resultBind_simps [simp]:
  "resultBind (Inl e) f = Inl e" "resultBind (Inr a) f = f a"
  by (simp_all add: resultBind_def)

lemma resultBind_Inr: "resultBind x f = Inr b \<longleftrightarrow> (\<exists>a. x = Inr a \<and> f a = Inr b)"
  by (auto simp: resultBind_def split: sum.splits)

lemma reads_return [reads_intros]: "reads (tx_return x) (\<lambda>_ _. Inr x)"
  by (rule readsI) simp

lemma reads_fail [reads_intros]: "reads (tx_fail e) (\<lambda>_ _. Inl e)"
  by (rule readsI) simp

lemma reads_env [reads_intros]: "reads (tx_env f) (\<lambda>env _. Inr (f env))"
  by (rule readsI) simp

lemma reads_query [reads_intros]: "reads (tx_query f) (\<lambda>_ d. Inr (f d))"
  by (rule readsI) (auto simp: tx_query_def split: if_splits)

lemma reads_commit [reads_intros]: "reads tx_commit (\<lambda>_ _. Inr ())"
  by (rule readsI) (auto simp: tx_commit_def split: if_splits)

lemma reads_bind [reads_intros]:
  assumes "reads m g" and "\<And>a. reads (f a) (h a)"
  shows "reads (tx_bind m f) (\<lambda>env d. resultBind (g env d) (\<lambda>a. h a env d))"
proof (rule readsI)
  fix env s r s'
  assume "tx_bind m f env s = (r, s')"
  then show "work s' = work s \<and> (durable s = work s \<longrightarrow> durable s' = durable s) \<and>
    (r = resultBind (g env (work s)) (\<lambda>a. h a env (work s)) \<or> r = Inl ErrDatabase \<and> (\<exists>n. fault env n))"
  proof (cases rule: tx_bindE)
    case (failed e)
    then show ?thesis using readsD [OF assms(1) failed(1)] by (cases "g env (work s)") auto
  next
    case (continued a s1)
    then show ?thesis using readsD [OF assms(1) continued(1)] readsD [OF assms(2) continued(2)]
      by (cases "g env (work s)") auto
  qed
qed

lemma reads_handle [reads_intros]:
  assumes "reads m g" and "\<And>e. reads (h e) (h' e)" and "\<And>a. reads (f a) (f' a)" and "\<not> p ErrDatabase"
  shows "reads (tx_handle p m h f) (\<lambda>env d. case g env d of
      Inl e \<Rightarrow> if p e then h' e env d else Inl e | Inr a \<Rightarrow> f' a env d)"
proof (rule readsI)
  fix env s r s'
  assume run: "tx_handle p m h f env s = (r, s')"
  obtain x s1 where m: "m env s = (x, s1)" by fastforce
  note m' = readsD [OF assms(1) m]
  show "work s' = work s \<and> (durable s = work s \<longrightarrow> durable s' = durable s) \<and>
    (r = (case g env (work s) of Inl e \<Rightarrow> if p e then h' e env (work s) else Inl e | Inr a \<Rightarrow> f' a env (work s)) \<or>
     r = Inl ErrDatabase \<and> (\<exists>n. fault env n))"
  proof (cases x)
    case (Inl e)
    show ?thesis
    proof (cases "p e")
      case True
      then have "h e env s1 = (r, s')" using run m Inl by (simp add: tx_handle_def)
      note h = readsD [OF assms(2) this]
      have "g env (work s) = Inl e" using m' Inl True assms(4) by auto
      then show ?thesis using h m' True by auto
    next
      case False
      then show ?thesis using run m Inl m' by (cases "g env (work s)") (auto simp: tx_handle_def)
    qed
  next
    case (Inr a)
    then have "f a env s1 = (r, s')" using run m by (simp add: tx_handle_def)
    note f = readsD [OF assms(3) this]
    have "g env (work s) = Inr a" using m' Inr by auto
    then show ?thesis using f m' by auto
  qed
qed

lemma reads_collect [reads_intros]:
  assumes "\<And>x. reads (f x) (g x)"
  shows "reads (tx_collect f xs) (\<lambda>env d. collectResults (\<lambda>x. g x env d) xs)"
proof (induction xs)
  case Nil
  show ?case using reads_return [of "[]"] by simp
next
  case (Cons x xs)
  show ?case using reads_bind [OF assms reads_bind [OF Cons reads_return]] by simp
qed

lemma reads_if [reads_intros]:
  "(b \<Longrightarrow> reads m g) \<Longrightarrow> (\<not> b \<Longrightarrow> reads n h) \<Longrightarrow> reads (if b then m else n) (\<lambda>env d. if b then g env d else h env d)"
  by simp

lemma reads_option [reads_intros]:
  "reads m g \<Longrightarrow> (\<And>a. reads (f a) (h a)) \<Longrightarrow>
    reads (case x of None \<Rightarrow> m | Some a \<Rightarrow> f a) (\<lambda>env d. case x of None \<Rightarrow> g env d | Some a \<Rightarrow> h a env d)"
  by (cases x) simp_all

lemma reads_sum [reads_intros]:
  "(\<And>a. reads (f a) (g a)) \<Longrightarrow> (\<And>b. reads (h b) (k b)) \<Longrightarrow>
    reads (case x of Inl a \<Rightarrow> f a | Inr b \<Rightarrow> h b) (\<lambda>env d. case x of Inl a \<Rightarrow> g a env d | Inr b \<Rightarrow> k b env d)"
  by (cases x) simp_all

lemma reads_prod [reads_intros]:
  "(\<And>a b. reads (f a b) (g a b)) \<Longrightarrow> reads (case x of (a, b) \<Rightarrow> f a b) (\<lambda>env d. case x of (a, b) \<Rightarrow> g a b env d)"
  by (cases x) simp_all

lemma reads_Let: "reads (f x) g \<Longrightarrow> reads (let y = x in f y) g"
  by simp

text \<open>A whole snapshot read.\<close>

lemma run_reads:
  assumes "reads m g" and "run_tx m env d = (r, d')"
  shows "d' = d \<and> (r = g env d \<or> r = Inl ErrDatabase \<and> (\<exists>n. fault env n))"
proof (cases "fault env 0")
  case False
  then obtain s where run: "m env \<lparr> work = d, durable = d, tick = 1 \<rparr> = (r, s)" "d' = durable s"
    using assms(2) by (auto simp: run_tx_iff)
  show ?thesis using readsD [OF assms(1) run(1)] run(2) by simp
qed (use assms(2) in \<open>auto simp: run_tx_iff\<close>)

section \<open>What is read\<close>

definition metadataOf :: "bytes \<Rightarrow> vaultItemIdentity \<Rightarrow> db \<Rightarrow> err + vaultMetadata" where
  "metadataOf environmentID i d =
     (case itemMetadata environmentID i d of
        None \<Rightarrow> Inl ErrUnresolved
      | Some m \<Rightarrow>
          if length (md_item m) \<noteq> 16 \<or> length (md_variant m) \<noteq> 16 \<or> md_revision m = 0 then Inl ErrVaultIntegrity
          else Inr m)"

lemma reads_metadata [reads_intros]:
  "reads (readOneVaultMetadata e i) (\<lambda>_ d. metadataOf e i d)"
proof -
  have "reads (readOneVaultMetadata e i) (\<lambda>env d. resultBind (Inr (itemMetadata e i d)) (\<lambda>x.
      case x of None \<Rightarrow> Inl ErrUnresolved
      | Some m \<Rightarrow> if length (md_item m) \<noteq> 16 \<or> length (md_variant m) \<noteq> 16 \<or> md_revision m = 0
          then Inl ErrVaultIntegrity else Inr m))"
    unfolding readOneVaultMetadata_def by (intro reads_intros)
  then show ?thesis by (simp add: metadataOf_def [abs_def])
qed

definition payloadIn :: "aead \<Rightarrow> LocalKeyProvider \<Rightarrow> vaultMetadata \<Rightarrow> db \<Rightarrow> err + Payload" where
  "payloadIn A provider m d =
     (case vaultRevision (md_item m) (md_revision m) d of
        None \<Rightarrow> Inl ErrUnresolved
      | Some r \<Rightarrow>
          if int (length (Ciphertext (vr_snapshot r))) > MaxSnapshotBytes + 32 then Inl ErrVaultIntegrity
          else
            (case openPayload A provider m (vr_snapshot r) of
               None \<Rightarrow> Inl ErrVaultIntegrity
             | Some payload \<Rightarrow> Inr payload))"

lemma reads_payload [reads_intros]:
  "reads (decryptVaultPayload A provider m) (\<lambda>_ d. payloadIn A provider m d)"
proof -
  have "reads (decryptVaultPayload A provider m) (\<lambda>env d. resultBind (Inr (vaultRevision (md_item m) (md_revision m) d))
      (\<lambda>x. case x of None \<Rightarrow> Inl ErrUnresolved
      | Some r \<Rightarrow> if int (length (Ciphertext (vr_snapshot r))) > MaxSnapshotBytes + 32 then Inl ErrVaultIntegrity
          else (case openPayload A provider m (vr_snapshot r) of None \<Rightarrow> Inl ErrVaultIntegrity | Some p \<Rightarrow> Inr p)))"
    unfolding decryptVaultPayload_def by (intro reads_intros)
  then show ?thesis by (simp add: payloadIn_def [abs_def])
qed

definition textsIn :: "aead \<Rightarrow> LocalKeyProvider \<Rightarrow> vaultMetadata \<Rightarrow> string list \<Rightarrow> db \<Rightarrow> err + (string \<times> string) list" where
  "textsIn A provider m fieldKeys d =
     resultBind (payloadIn A provider m d) (\<lambda>payload.
       case map_of payload (encodeHex (md_variant m)) of
         None \<Rightarrow> Inl ErrUnresolved
       | Some variant \<Rightarrow>
           (case textValues (revisionFieldTypes (md_item m) (md_revision m) d) variant fieldKeys of
              None \<Rightarrow> Inl ErrUnresolved
            | Some values \<Rightarrow> Inr values))"

lemma reads_types [reads_intros]:
  "reads (readFieldTypes m) (\<lambda>_ d. Inr (revisionFieldTypes (md_item m) (md_revision m) d))"
  unfolding readFieldTypes_def by (rule reads_query)

lemma reads_texts [reads_intros]:
  "reads (readVaultTextValues A provider m fieldKeys) (\<lambda>_ d. textsIn A provider m fieldKeys d)"
proof -
  have "reads (readVaultTextValues A provider m fieldKeys) (\<lambda>env d.
      resultBind (Inr (revisionFieldTypes (md_item m) (md_revision m) d)) (\<lambda>types.
      resultBind (payloadIn A provider m d) (\<lambda>payload.
        case map_of payload (encodeHex (md_variant m)) of
          None \<Rightarrow> Inl ErrUnresolved
        | Some variant \<Rightarrow>
            (case textValues types variant fieldKeys of None \<Rightarrow> Inl ErrUnresolved | Some values \<Rightarrow> Inr values))))"
    unfolding readVaultTextValues_def by (intro reads_intros)
  then show ?thesis by (simp add: textsIn_def [abs_def])
qed

definition itemsOf :: "bytes \<Rightarrow> (vaultItemIdentity \<times> string list) list \<Rightarrow> db \<Rightarrow>
    err + (vaultItemIdentity \<times> vaultMetadata) list" where
  "itemsOf environmentID references d =
     collectResults (\<lambda>(i, _). resultBind (metadataOf environmentID i d) (\<lambda>m. Inr [(i, m)])) references"

lemma reads_items [reads_intros]: "reads (readVaultMetadata e references) (\<lambda>_ d. itemsOf e references d)"
proof -
  have "reads (readVaultMetadata e references) (\<lambda>env d. collectResults (\<lambda>x. case x of (i, _) \<Rightarrow>
      resultBind (metadataOf e i d) (\<lambda>m. Inr [(i, m)])) references)"
    unfolding readVaultMetadata_def by (intro reads_intros)
  then show ?thesis by (simp add: itemsOf_def [abs_def])
qed

definition valuesOf :: "aead \<Rightarrow> LocalKeyProvider \<Rightarrow> (vaultItemIdentity \<times> string list) list \<Rightarrow>
    vaultItemIdentity \<times> vaultMetadata \<Rightarrow> db \<Rightarrow> err + (reference \<times> string) list" where
  "valuesOf A provider references im d =
     (case im of (i, m) \<Rightarrow>
        resultBind (textsIn A provider m (case map_of references i of None \<Rightarrow> [] | Some fs \<Rightarrow> fs) d) (\<lambda>values.
          Inr (map (\<lambda>(f, s). (Reference (fst i) (snd i) f, s)) values)))"

lemma reads_values [reads_intros]:
  "reads (itemValues A provider references im) (\<lambda>_ d. valuesOf A provider references im d)"
proof -
  have "reads (itemValues A provider references im) (\<lambda>env d. case im of (i, m) \<Rightarrow>
      resultBind (textsIn A provider m (case map_of references i of None \<Rightarrow> [] | Some fs \<Rightarrow> fs) d) (\<lambda>values.
        Inr (map (\<lambda>(f, s). (Reference (fst i) (snd i) f, s)) values)))"
    unfolding itemValues_def by (intro reads_intros)
  then show ?thesis by (simp add: valuesOf_def [abs_def])
qed

lemma reads_references [reads_intros]:
  "reads (readReferences c e n) (\<lambda>_ d. Inr (groupReferences (revisionReferences c e n d) []))"
  unfolding readReferences_def by (rule reads_query)

definition wellStored :: "bytes \<Rightarrow> bytes \<Rightarrow> config_revision_row \<Rightarrow> bool" where
  "wellStored environmentID configID row =
     (length environmentID = 16 \<and> length configID = 16 \<and> cr_revision row \<noteq> 0 \<and>
      int (length (cr_content row)) \<le> 5 * 1024 * 1024)"

definition unresolvedConfig :: "(bytes \<Rightarrow> bytes) \<Rightarrow> bytes \<Rightarrow> config_revision_row \<Rightarrow>
    (vaultItemIdentity \<times> vaultMetadata) list \<Rightarrow> ResolvedConfig" where
  "unresolvedConfig sha configID row items =
     \<lparr> rc_format = cr_format row, rc_content = [], rc_revision = cr_revision row,
       rc_vault = vaultRevisionsOf items, rc_etag = resolvedConfigETag sha configID (cr_revision row) items \<rparr>"

lemma unresolvedConfig_simps [simp]:
  "rc_etag (unresolvedConfig sha c row items) = resolvedConfigETag sha c (cr_revision row) items"
  "rc_revision (unresolvedConfig sha c row items) = cr_revision row"
  "rc_format (unresolvedConfig sha c row items) = cr_format row"
  by (simp_all add: unresolvedConfig_def)

definition resolvedConfig ::
  "yaml_codec \<Rightarrow> aead \<Rightarrow> LocalKeyProvider \<Rightarrow> (bytes \<Rightarrow> bytes) \<Rightarrow> Token option \<Rightarrow> string \<Rightarrow> string \<Rightarrow> string \<Rightarrow> db \<Rightarrow>
    err + ResolvedConfig conditional" where
  "resolvedConfig codec A provider sha token environmentKey configKey ifNoneMatch d =
     (case currentConfig environmentKey configKey d of
        None \<Rightarrow> Inl ErrNotFound
      | Some (environmentID, configID, row) \<Rightarrow>
          if \<not> wellStored environmentID configID row then Inl ErrInternal
          else
            let references = groupReferences (revisionReferences configID environmentID (cr_revision row) d) [] in
            if \<not> scopeAllows token configKey references then Inl ErrForbidden
            else
              resultBind (itemsOf environmentID references d) (\<lambda>items.
                let unresolved = unresolvedConfig sha configID row items in
                if ifNoneMatch = rc_etag unresolved then Inr (NotModified unresolved)
                else
                  resultBind (collectResults (\<lambda>im. valuesOf A provider references im d) items) (\<lambda>values.
                    case Resolve codec (cr_format row) (cr_content row) (Some (valueLookup values)) of
                      Inl _ \<Rightarrow> Inl ErrUnresolved
                    | Inr content \<Rightarrow> Inr (Fresh (unresolved\<lparr> rc_content := content \<rparr>)))))"

lemma reads_resolved:
  "reads (ReadResolvedConfig codec A provider token ek ck tag)
     (\<lambda>env d. resolvedConfig codec A provider (sha256 env) token ek ck tag d)"
proof -
  have "reads (ReadResolvedConfig codec A provider token ek ck tag) (\<lambda>env d.
    resultBind (Inr (currentConfig ek ck d)) (\<lambda>x. case x of None \<Rightarrow> Inl ErrNotFound | Some y \<Rightarrow>
      (case y of (e, z) \<Rightarrow> case z of (c, row) \<Rightarrow>
        if length e \<noteq> 16 \<or> length c \<noteq> 16 \<or> cr_revision row = 0 \<or> int (length (cr_content row)) > 5 * 1024 * 1024
        then Inl ErrInternal
        else resultBind (Inr (groupReferences (revisionReferences c e (cr_revision row) d) [])) (\<lambda>refs.
          if \<not> scopeAllows token ck refs then Inl ErrForbidden
          else resultBind (itemsOf e refs d) (\<lambda>items. resultBind (Inr (sha256 env)) (\<lambda>sha.
            if tag = resolvedConfigETag sha c (cr_revision row) items
            then resultBind (Inr ()) (\<lambda>_. Inr (NotModified (unresolvedConfig sha c row items)))
            else resultBind (collectResults (\<lambda>im. valuesOf A provider refs im d) items) (\<lambda>values.
              case Resolve codec (cr_format row) (cr_content row) (Some (valueLookup values)) of
                Inl _ \<Rightarrow> Inl ErrUnresolved
              | Inr content \<Rightarrow> resultBind (Inr ()) (\<lambda>_.
                  Inr (Fresh ((unresolvedConfig sha c row items)\<lparr> rc_content := content \<rparr>))))))))))"
    unfolding ReadResolvedConfig_def Let_def unresolvedConfig_def [symmetric] by (intro reads_intros)
  moreover have "(length e \<noteq> 16 \<or> length c \<noteq> 16 \<or> cr_revision row = 0 \<or> int (length (cr_content row)) > 5 * 1024 * 1024)
      = (\<not> wellStored e c row)" for e c row
    by (auto simp: wellStored_def)
  ultimately show ?thesis
    unfolding resolvedConfig_def Let_def resultBind_simps
    by (simp only: unresolvedConfig_simps)
qed

section \<open>The references of a revision, by item\<close>

definition identityOf :: "reference \<Rightarrow> vaultItemIdentity" where
  "identityOf r = (NamespaceKey r, ItemKey r)"

lemma map_of_mapPut [simp]: "map_of (mapPut k x m) = (map_of m)(k \<mapsto> x)"
  by (induction k x m rule: mapPut.induct) auto

lemma set_mapPut_keys: "fst ` set (mapPut k x m) = insert k (fst ` set m)"
  by (induction k x m rule: mapPut.induct) auto

lemma distinct_mapPut: "distinct (map fst m) \<Longrightarrow> distinct (map fst (mapPut k x m))"
  by (induction k x m rule: mapPut.induct) (auto simp: set_mapPut_keys)

lemma groupReferences_distinct:
  "distinct (map fst m) \<Longrightarrow> distinct (map fst (groupReferences refs m))"
  by (induction refs m rule: groupReferences.induct) (auto simp: distinct_mapPut)

definition fieldsOf :: "vaultItemIdentity \<Rightarrow> reference list \<Rightarrow> string list" where
  "fieldsOf i refs = map FieldKey (filter (\<lambda>r. identityOf r = i) refs)"

lemma groupReferences_lookup:
  "map_of (groupReferences refs m) i =
    (if fieldsOf i refs = [] then map_of m i
     else Some ((case map_of m i of None \<Rightarrow> [] | Some fs \<Rightarrow> fs) @ fieldsOf i refs))"
proof (induction refs m rule: groupReferences.induct)
  case (2 n k f refs m)
  then show ?case by (auto simp: fieldsOf_def identityOf_def split: option.splits)
qed (simp add: fieldsOf_def)

lemma group_fields:
  "map_of (groupReferences refs []) i = Some fs \<longleftrightarrow> fs = fieldsOf i refs \<and> fs \<noteq> []"
  by (auto simp: groupReferences_lookup)

lemma group_keys: "fst ` set (groupReferences refs []) = identityOf ` set refs"
proof (intro set_eqI iffI)
  fix i
  assume "i \<in> fst ` set (groupReferences refs [])"
  then obtain fs where "map_of (groupReferences refs []) i = Some fs" by (metis map_of_eq_None_iff not_None_eq)
  then show "i \<in> identityOf ` set refs" by (auto simp: group_fields fieldsOf_def filter_empty_conv)
next
  fix i
  assume "i \<in> identityOf ` set refs"
  then have "fieldsOf i refs \<noteq> []" by (auto simp: fieldsOf_def filter_empty_conv)
  then have "map_of (groupReferences refs []) i = Some (fieldsOf i refs)" by (simp add: group_fields)
  then show "i \<in> fst ` set (groupReferences refs [])" using map_of_SomeD by force
qed

lemma scope_references:
  "scopeAllows token ck (groupReferences refs []) \<longleftrightarrow>
    (\<forall>t. token = Some t \<longrightarrow> AllowsConfig t ck \<and> (\<forall>r \<in> set refs. AllowsNamespace t (NamespaceKey r)))"
proof -
  have "(\<forall>x \<in> set (groupReferences refs []). P (fst (fst x))) \<longleftrightarrow> (\<forall>i \<in> identityOf ` set refs. P (fst i))" for P
    unfolding group_keys [symmetric] by auto
  then show ?thesis
    by (auto simp: scopeAllows_def list_all_iff case_prod_unfold identityOf_def split: option.splits)
qed

section \<open>Values of references\<close>

definition fieldText :: "aead \<Rightarrow> LocalKeyProvider \<Rightarrow> vaultMetadata \<Rightarrow> db \<Rightarrow> string \<Rightarrow> string option" where
  "fieldText A provider m d k =
     (case payloadIn A provider m d of
        Inl _ \<Rightarrow> None
      | Inr payload \<Rightarrow>
          (case map_of payload (encodeHex (md_variant m)) of
             None \<Rightarrow> None
           | Some variant \<Rightarrow> textValue (revisionFieldTypes (md_item m) (md_revision m) d) variant k))"

text \<open>The value a reference has in an environment: of the current revision of its item.\<close>

definition vaultText :: "aead \<Rightarrow> LocalKeyProvider \<Rightarrow> bytes \<Rightarrow> db \<Rightarrow> reference \<Rightarrow> string option" where
  "vaultText A provider environmentID d r =
     (case metadataOf environmentID (identityOf r) d of
        Inl _ \<Rightarrow> None
      | Inr m \<Rightarrow> fieldText A provider m d (FieldKey r))"

lemma textValues_Some:
  "textValues types variant ks = Some vs \<longleftrightarrow>
    map fst vs = ks \<and> (\<forall>(k, s) \<in> set vs. textValue types variant k = Some s)"
proof (induction ks arbitrary: vs)
  case (Cons k ks)
  show ?case
  proof (cases vs)
    case (Cons v ws)
    then show ?thesis using Cons.IH [of ws] by (cases v) (auto split: option.splits)
  qed (auto split: option.splits)
qed auto

lemma textsIn_Inr:
  assumes "ks \<noteq> []"
  shows "textsIn A provider m ks d = Inr vs \<longleftrightarrow>
    map fst vs = ks \<and> (\<forall>(k, s) \<in> set vs. fieldText A provider m d k = Some s)"
proof (cases "payloadIn A provider m d")
  case (Inl e)
  then show ?thesis using assms by (cases vs) (auto simp: textsIn_def fieldText_def)
next
  case (Inr payload)
  show ?thesis
  proof (cases "map_of payload (encodeHex (md_variant m))")
    case None
    then show ?thesis using Inr assms by (cases vs) (auto simp: textsIn_def fieldText_def)
  next
    case (Some variant)
    let ?t = "textValues (revisionFieldTypes (md_item m) (md_revision m) d) variant ks"
    have "textsIn A provider m ks d = Inr vs \<longleftrightarrow> ?t = Some vs"
      using Inr Some by (auto simp: textsIn_def split: option.splits)
    then show ?thesis using Inr Some by (simp add: textValues_Some fieldText_def)
  qed
qed

lemma textsIn_exists:
  assumes "ks \<noteq> []" and "\<forall>k \<in> set ks. fieldText A provider m d k \<noteq> None"
  shows "\<exists>vs. textsIn A provider m ks d = Inr vs"
proof
  show "textsIn A provider m ks d = Inr (map (\<lambda>k. (k, the (fieldText A provider m d k))) ks)"
    unfolding textsIn_Inr [OF assms(1)] using assms(2) by (auto simp: comp_def)
qed

lemma collectResults_Inr:
  "collectResults f xs = Inr ys \<longleftrightarrow> (\<exists>yss. map f xs = map Inr yss \<and> ys = concat yss)"
proof (induction xs arbitrary: ys)
  case (Cons x xs)
  show ?case
  proof
    assume "collectResults f (x # xs) = Inr ys"
    then obtain a zs where a: "f x = Inr a" "collectResults f xs = Inr zs" "ys = a @ zs"
      by (auto simp: resultBind_Inr)
    then obtain yss where "map f xs = map Inr yss" "zs = concat yss" using Cons by blast
    then have "map f (x # xs) = map Inr (a # yss) \<and> ys = concat (a # yss)" using a by simp
    then show "\<exists>yss. map f (x # xs) = map Inr yss \<and> ys = concat yss" by blast
  next
    assume "\<exists>yss. map f (x # xs) = map Inr yss \<and> ys = concat yss"
    then obtain a yss where "f x = Inr a" "map f xs = map Inr yss" "ys = a @ concat yss" by (auto simp: Cons_eq_map_conv)
    moreover from this have "collectResults f xs = Inr (concat yss)" using Cons by blast
    ultimately show "collectResults f (x # xs) = Inr ys" by simp
  qed
qed auto

lemma collectResults_each:
  assumes "collectResults f xs = Inr ys"
  shows "x \<in> set xs \<Longrightarrow> \<exists>a. f x = Inr a \<and> set a \<subseteq> set ys" and "y \<in> set ys \<Longrightarrow> \<exists>x \<in> set xs. \<exists>a. f x = Inr a \<and> y \<in> set a"
proof -
  obtain yss where yss: "map f xs = map Inr yss" "ys = concat yss" using assms by (auto simp: collectResults_Inr)
  have f: "f ` set xs = Inr ` set yss" using arg_cong [OF yss(1), of set] by simp
  show "\<exists>a. f x = Inr a \<and> set a \<subseteq> set ys" if x: "x \<in> set xs"
  proof -
    have "f x \<in> Inr ` set yss" using f x by blast
    then show ?thesis using yss(2) by auto
  qed
  show "\<exists>x \<in> set xs. \<exists>a. f x = Inr a \<and> y \<in> set a" if y: "y \<in> set ys"
  proof -
    obtain a where a: "a \<in> set yss" "y \<in> set a" using y yss(2) by auto
    then have "Inr a \<in> f ` set xs" using f by blast
    then show ?thesis using a(2) by force
  qed
qed

lemma collectResults_exists:
  "(\<forall>x \<in> set xs. \<exists>a. f x = Inr a) \<Longrightarrow> \<exists>ys. collectResults f xs = Inr ys"
  by (induction xs) auto

lemma itemsOf_Inr:
  assumes "itemsOf e references d = Inr items"
  shows "map fst items = map fst references" and "(i, m) \<in> set items \<Longrightarrow> metadataOf e i d = Inr m"
proof -
  show "map fst items = map fst references"
    using assms unfolding itemsOf_def
    by (induction references arbitrary: items) (auto simp: resultBind_Inr)
  show "metadataOf e i d = Inr m" if "(i, m) \<in> set items"
    using collectResults_each(2) [OF assms [unfolded itemsOf_def] that] by (auto simp: resultBind_Inr)
qed

lemma values_of_references:
  assumes items: "itemsOf e (groupReferences refs []) d = Inr items"
    and vals: "collectResults (\<lambda>im. valuesOf A provider (groupReferences refs []) im d) items = Inr values"
  shows "map_of values r = (if r \<in> set refs then vaultText A provider e d r else None)"
    and "r \<in> set refs \<Longrightarrow> vaultText A provider e d r \<noteq> None"
proof -
  let ?g = "groupReferences refs []"
  have each: "r' \<in> set refs \<and> vaultText A provider e d r' = Some s" if rs: "(r', s) \<in> set values" for r' s
  proof -
    obtain i m ws where i: "(i, m) \<in> set items" "valuesOf A provider ?g (i, m) d = Inr ws" "(r', s) \<in> set ws"
      using collectResults_each(2) [OF vals rs] by force
    have m: "metadataOf e i d = Inr m" by (rule itemsOf_Inr(2) [OF items i(1)])
    have "i \<in> set (map fst ?g)" using i(1) itemsOf_Inr(1) [OF items, symmetric] by force
    then obtain fs where fs: "map_of ?g i = Some fs" by (metis map_of_eq_None_iff not_None_eq set_map)
    then have f: "fs = fieldsOf i refs" "fs \<noteq> []" by (auto simp: group_fields)
    obtain vs where vs: "textsIn A provider m fs d = Inr vs" "ws = map (\<lambda>(f, s). (Reference (fst i) (snd i) f, s)) vs"
      using i(2) fs by (auto simp: valuesOf_def resultBind_Inr)
    then obtain k where k: "(k, s) \<in> set vs" "r' = Reference (fst i) (snd i) k" using i(3) by auto
    then have "k \<in> set fs" "fieldText A provider m d k = Some s"
      using vs(1) unfolding textsIn_Inr [OF f(2)] by force+
    then show ?thesis using k(2) m f(1) by (cases i) (auto simp: vaultText_def identityOf_def fieldsOf_def)
  qed
  have all: "\<exists>s. (r', s) \<in> set values" if r: "r' \<in> set refs" for r'
  proof -
    have "fieldsOf (identityOf r') refs \<noteq> []" using r by (auto simp: fieldsOf_def filter_empty_conv)
    then have fs: "map_of ?g (identityOf r') = Some (fieldsOf (identityOf r') refs)" by (simp add: group_fields)
    then have "identityOf r' \<in> fst ` set items" using itemsOf_Inr(1) [OF items] r
      by (metis group_keys image_eqI set_map)
    then obtain m where m: "(identityOf r', m) \<in> set items" by force
    then obtain ws where ws: "valuesOf A provider ?g (identityOf r', m) d = Inr ws" "set ws \<subseteq> set values"
      using collectResults_each(1) [OF vals m] by blast
    then obtain vs where vs: "textsIn A provider m (fieldsOf (identityOf r') refs) d = Inr vs"
      "ws = map (\<lambda>(f, s). (Reference (fst (identityOf r')) (snd (identityOf r')) f, s)) vs"
      using fs by (auto simp: valuesOf_def resultBind_Inr)
    then have "map fst vs = fieldsOf (identityOf r') refs"
      using \<open>fieldsOf (identityOf r') refs \<noteq> []\<close> by (simp add: textsIn_Inr)
    moreover have "FieldKey r' \<in> set (fieldsOf (identityOf r') refs)" using r by (auto simp: fieldsOf_def)
    ultimately have "FieldKey r' \<in> fst ` set vs" by (metis set_map)
    then obtain s where "(FieldKey r', s) \<in> set vs" by force
    then have "(r', s) \<in> set ws" using vs(2) by (cases r') (force simp: identityOf_def)
    then show ?thesis using ws(2) by blast
  qed
  show "map_of values r = (if r \<in> set refs then vaultText A provider e d r else None)"
  proof (cases "map_of values r")
    case None
    then have "r \<notin> fst ` set values" by (simp add: map_of_eq_None_iff)
    then show ?thesis using all [of r] None by force
  next
    case (Some s)
    then show ?thesis using each [of r s] map_of_SomeD by fastforce
  qed
  show "vaultText A provider e d r \<noteq> None" if "r \<in> set refs"
    using all [OF that] each by force
qed

lemma values_exist:
  assumes "\<forall>r \<in> set refs. vaultText A provider e d r \<noteq> None"
  shows "\<exists>items. itemsOf e (groupReferences refs []) d = Inr items"
    and "itemsOf e (groupReferences refs []) d = Inr items \<Longrightarrow>
      \<exists>values. collectResults (\<lambda>im. valuesOf A provider (groupReferences refs []) im d) items = Inr values"
proof -
  let ?g = "groupReferences refs []"
  have meta: "\<exists>m. metadataOf e i d = Inr m \<and> (\<forall>k \<in> set (fieldsOf i refs). fieldText A provider m d k \<noteq> None)"
    if i: "i \<in> fst ` set ?g" for i
  proof -
    obtain r where r: "r \<in> set refs" "i = identityOf r" using i by (auto simp: group_keys)
    then have "vaultText A provider e d r \<noteq> None" using assms by blast
    then obtain m where m: "metadataOf e i d = Inr m"
      using r(2) by (auto simp: vaultText_def split: sum.splits)
    moreover have "fieldText A provider m d k \<noteq> None" if k: "k \<in> set (fieldsOf i refs)" for k
    proof -
      obtain r' where "r' \<in> set refs" "identityOf r' = i" "FieldKey r' = k" using k by (auto simp: fieldsOf_def)
      then show ?thesis using assms m by (force simp: vaultText_def)
    qed
    ultimately show ?thesis by blast
  qed
  show "\<exists>items. itemsOf e ?g d = Inr items"
    unfolding itemsOf_def
  proof (rule collectResults_exists, rule ballI)
    fix x
    assume x: "x \<in> set ?g"
    then obtain m where "metadataOf e (fst x) d = Inr m" using meta by blast
    then show "\<exists>a. (case x of (i, _) \<Rightarrow> resultBind (metadataOf e i d) (\<lambda>m. Inr [(i, m)])) = Inr a"
      by (cases x) simp
  qed
  show "\<exists>values. collectResults (\<lambda>im. valuesOf A provider ?g im d) items = Inr values"
    if items: "itemsOf e ?g d = Inr items"
  proof (rule collectResults_exists, rule ballI)
    fix im
    assume im: "im \<in> set items"
    obtain i m where im': "im = (i, m)" by fastforce
    have "i \<in> set (map fst ?g)" using im im' itemsOf_Inr(1) [OF items, symmetric] by force
    then have i: "i \<in> fst ` set ?g" by simp
    then obtain fs where fs: "map_of ?g i = Some fs" by (metis map_of_eq_None_iff not_None_eq)
    then have f: "fs = fieldsOf i refs" "fs \<noteq> []" by (auto simp: group_fields)
    have "metadataOf e i d = Inr m" using im im' itemsOf_Inr(2) [OF items] by blast
    then have "\<forall>k \<in> set fs. fieldText A provider m d k \<noteq> None" using meta [OF i] f(1) by auto
    then obtain vs where "textsIn A provider m fs d = Inr vs" using textsIn_exists f(2) by blast
    then show "\<exists>a. valuesOf A provider ?g im d = Inr a" using fs im' by (simp add: valuesOf_def)
  qed
qed

section \<open>When a Config is served\<close>

text \<open>
  The active Config has a current revision in the active environment, the token may read it and
  every namespace it refers to, every reference has a value, and those values, in the places of
  the references, make the content.
\<close>

definition served ::
  "yaml_codec \<Rightarrow> aead \<Rightarrow> LocalKeyProvider \<Rightarrow> Token option \<Rightarrow> string \<Rightarrow> string \<Rightarrow> db \<Rightarrow> config_revision_row \<Rightarrow> bytes \<Rightarrow> bool" where
  "served codec A provider token environmentKey configKey d row content =
     (\<exists>environmentID configID refs.
        currentConfig environmentKey configKey d = Some (environmentID, configID, row) \<and>
        wellStored environmentID configID row \<and>
        refs = revisionReferences configID environmentID (cr_revision row) d \<and>
        (\<forall>t. token = Some t \<longrightarrow> AllowsConfig t configKey \<and> (\<forall>r \<in> set refs. AllowsNamespace t (NamespaceKey r))) \<and>
        (\<forall>r \<in> set refs. vaultText A provider environmentID d r \<noteq> None) \<and>
        Resolve codec (cr_format row) (cr_content row)
          (Some (\<lambda>r. if r \<in> set refs then Inr (the (vaultText A provider environmentID d r)) else Inl LookupError))
          = Inr content)"

lemma valueLookup_references:
  assumes "itemsOf e (groupReferences refs []) d = Inr items"
    and "collectResults (\<lambda>im. valuesOf A provider (groupReferences refs []) im d) items = Inr vs"
  shows "valueLookup vs =
    (\<lambda>r. if r \<in> set refs then Inr (the (vaultText A provider e d r)) else Inl LookupError)"
proof
  fix r
  show "valueLookup vs r = (if r \<in> set refs then Inr (the (vaultText A provider e d r)) else Inl LookupError)"
    using values_of_references(1) [OF assms, of r] values_of_references(2) [OF assms, of r]
    by (auto simp: valueLookup_def)
qed

lemma resolvedConfig_cases:
  assumes "resolvedConfig codec A provider sha token ek ck tag d = Inr out"
  obtains e c row refs items where "currentConfig ek ck d = Some (e, c, row)" "wellStored e c row"
    "refs = revisionReferences c e (cr_revision row) d" "scopeAllows token ck (groupReferences refs [])"
    "itemsOf e (groupReferences refs []) d = Inr items"
    "(tag = resolvedConfigETag sha c (cr_revision row) items \<and> out = NotModified (unresolvedConfig sha c row items)) \<or>
     (tag \<noteq> resolvedConfigETag sha c (cr_revision row) items \<and>
      (\<exists>vs content. collectResults (\<lambda>im. valuesOf A provider (groupReferences refs []) im d) items = Inr vs \<and>
        Resolve codec (cr_format row) (cr_content row) (Some (valueLookup vs)) = Inr content \<and>
        out = Fresh ((unresolvedConfig sha c row items)\<lparr> rc_content := content \<rparr>)))"
proof -
  obtain e c row where start: "currentConfig ek ck d = Some (e, c, row)"
    using assms by (auto simp: resolvedConfig_def split: option.splits)
  define g where "g = groupReferences (revisionReferences c e (cr_revision row) d) []"
  have ok: "wellStored e c row" "scopeAllows token ck g"
    using assms start by (simp_all add: resolvedConfig_def Let_def g_def split: if_splits)
  obtain items where items: "itemsOf e g d = Inr items"
    using assms start ok by (cases "itemsOf e g d") (simp_all add: resolvedConfig_def Let_def g_def)
  have rest: "(if tag = resolvedConfigETag sha c (cr_revision row) items
      then Inr (NotModified (unresolvedConfig sha c row items))
      else resultBind (collectResults (\<lambda>im. valuesOf A provider g im d) items) (\<lambda>vs.
        case Resolve codec (cr_format row) (cr_content row) (Some (valueLookup vs)) of
          Inl _ \<Rightarrow> Inl ErrUnresolved
        | Inr content \<Rightarrow> Inr (Fresh ((unresolvedConfig sha c row items)\<lparr> rc_content := content \<rparr>)))) = Inr out"
    using assms start ok items by (simp add: resolvedConfig_def Let_def g_def split: if_splits)
  show thesis
  proof (rule that [OF start ok(1) refl ok(2) [unfolded g_def] items [unfolded g_def]])
    show "(tag = resolvedConfigETag sha c (cr_revision row) items \<and> out = NotModified (unresolvedConfig sha c row items)) \<or>
     (tag \<noteq> resolvedConfigETag sha c (cr_revision row) items \<and>
      (\<exists>vs content. collectResults (\<lambda>im. valuesOf A provider
          (groupReferences (revisionReferences c e (cr_revision row) d) []) im d) items = Inr vs \<and>
        Resolve codec (cr_format row) (cr_content row) (Some (valueLookup vs)) = Inr content \<and>
        out = Fresh ((unresolvedConfig sha c row items)\<lparr> rc_content := content \<rparr>)))"
    proof (cases "tag = resolvedConfigETag sha c (cr_revision row) items")
      case False
      then obtain vs where vs: "collectResults (\<lambda>im. valuesOf A provider
          (groupReferences (revisionReferences c e (cr_revision row) d) []) im d) items = Inr vs"
        "(case Resolve codec (cr_format row) (cr_content row) (Some (valueLookup vs)) of
          Inl _ \<Rightarrow> Inl ErrUnresolved
        | Inr content \<Rightarrow> Inr (Fresh ((unresolvedConfig sha c row items)\<lparr> rc_content := content \<rparr>))) = Inr out"
        using rest by (auto simp: resultBind_Inr g_def)
      then show ?thesis using False
        by (cases "Resolve codec (cr_format row) (cr_content row) (Some (valueLookup vs))") auto
    qed (use rest in auto)
  qed
qed

lemma quotedHash_not_Nil: "[] \<noteq> resolvedConfigETag sha c n items"
  by (simp add: resolvedConfigETag_def quotedHash_def)

lemma resolvedConfig_Fresh:
  assumes "resolvedConfig codec A provider sha token ek ck tag d = Inr (Fresh r)"
  shows "\<exists>row. served codec A provider token ek ck d row (rc_content r) \<and>
    rc_format r = cr_format row \<and> rc_revision r = cr_revision row"
proof -
  obtain e c row refs items vs content where *: "currentConfig ek ck d = Some (e, c, row)" "wellStored e c row"
    "refs = revisionReferences c e (cr_revision row) d" "scopeAllows token ck (groupReferences refs [])"
    "itemsOf e (groupReferences refs []) d = Inr items"
    "collectResults (\<lambda>im. valuesOf A provider (groupReferences refs []) im d) items = Inr vs"
    "Resolve codec (cr_format row) (cr_content row) (Some (valueLookup vs)) = Inr content"
    "r = (unresolvedConfig sha c row items)\<lparr> rc_content := content \<rparr>"
    using assms by (elim resolvedConfig_cases) auto
  have "served codec A provider token ek ck d row content"
    unfolding served_def
    using * values_of_references(2) [OF *(5,6)] by (auto simp: scope_references valueLookup_references [OF *(5,6)])
  then show ?thesis using *(8) by auto
qed

lemma served_resolvedConfig:
  assumes "served codec A provider token ek ck d row content"
  shows "\<exists>r. resolvedConfig codec A provider sha token ek ck [] d = Inr (Fresh r) \<and>
    rc_content r = content \<and> rc_format r = cr_format row \<and> rc_revision r = cr_revision row"
proof -
  obtain e c refs where *: "currentConfig ek ck d = Some (e, c, row)" "wellStored e c row"
    "refs = revisionReferences c e (cr_revision row) d" "scopeAllows token ck (groupReferences refs [])"
    "\<forall>r \<in> set refs. vaultText A provider e d r \<noteq> None"
    "Resolve codec (cr_format row) (cr_content row)
       (Some (\<lambda>r. if r \<in> set refs then Inr (the (vaultText A provider e d r)) else Inl LookupError)) = Inr content"
    using assms by (auto simp: served_def scope_references)
  obtain items where items: "itemsOf e (groupReferences refs []) d = Inr items"
    using values_exist(1) [OF *(5)] by blast
  then obtain vs where vs: "collectResults (\<lambda>im. valuesOf A provider (groupReferences refs []) im d) items = Inr vs"
    using values_exist(2) [OF *(5)] by blast
  show ?thesis
    using * items vs valueLookup_references [OF items vs]
    by (simp add: resolvedConfig_def Let_def quotedHash_not_Nil)
qed

text \<open>
  C24. A Config is served exactly when it may and can be. Whatever fails on the way, a fresh answer
  has the content of the current revision with every reference replaced by its current value in
  this environment, and the token may read the Config and every namespace it refers to; and where
  nothing fails, a request without an entity tag gets that answer. The tables stay as they are.
\<close>

theorem resolved_config_exact:
  assumes "run_tx (ReadResolvedConfig codec A provider token ek ck tag) env d = (out, d')"
  shows "d' = d \<and>
    (\<forall>r. out = Inr (Fresh r) \<longrightarrow>
       (\<exists>row. served codec A provider token ek ck d row (rc_content r) \<and>
          rc_format r = cr_format row \<and> rc_revision r = cr_revision row)) \<and>
    (\<forall>row content. served codec A provider token ek ck d row content \<and> tag = [] \<and> (\<forall>n. \<not> fault env n) \<longrightarrow>
       (\<exists>r. out = Inr (Fresh r) \<and> rc_content r = content \<and> rc_format r = cr_format row \<and>
          rc_revision r = cr_revision row))"
proof -
  note run = run_reads [OF reads_resolved assms]
  have "\<exists>r. out = Inr (Fresh r) \<and> rc_content r = content \<and> rc_format r = cr_format row \<and> rc_revision r = cr_revision row"
    if "served codec A provider token ek ck d row content" "tag = []" "\<forall>n. \<not> fault env n" for row content
    using served_resolvedConfig [OF that(1), of "sha256 env"] that(2,3) run by auto
  moreover have "\<exists>row. served codec A provider token ek ck d row (rc_content r) \<and>
      rc_format r = cr_format row \<and> rc_revision r = cr_revision row" if "out = Inr (Fresh r)" for r
    using run that by (intro resolvedConfig_Fresh [of _ _ _ "sha256 env" _ _ _ tag]) auto
  ultimately show ?thesis using run by blast
qed

section \<open>What an entity tag says\<close>

lemma encodeBase64_inj: "encodeBase64 a = encodeBase64 b \<Longrightarrow> a = b"
  using decodeBase64_encodeBase64 by (metis option.inject)

lemma quotedHash_inj: "inj sha \<Longrightarrow> quotedHash sha a = quotedHash sha b \<Longrightarrow> a = b"
  by (auto simp: quotedHash_def dest!: encodeBase64_inj injD)

definition tagOf :: "vaultItemIdentity \<times> vaultMetadata \<Rightarrow> vaultItemIdentity \<times> bytes \<times> u64" where
  "tagOf im = (fst im, md_item (snd im), md_revision (snd im))"

definition plainItem :: "vaultItemIdentity \<times> vaultMetadata \<Rightarrow> bool" where
  "plainItem im = (short (fst (fst im)) \<and> short (snd (fst im)) \<and> length (md_item (snd im)) = 16)"

lemma itemTag_append:
  assumes eq: "itemTag a @ s = itemTag b @ t" and "plainItem a" and "plainItem b"
  shows "tagOf a = tagOf b \<and> s = t"
proof -
  obtain n i m where a: "a = ((n, i), m)" by (metis prod.exhaust)
  obtain n' i' m' where b: "b = ((n', i'), m')" by (metis prod.exhaust)
  have short: "short n" "short i" "short n'" "short i'" "length (md_item m) = length (md_item m')"
    using assms(2,3) a b by (simp_all add: plainItem_def)
  have e: "writeString n @ (writeString i @ md_item m @ writeUint64 (md_revision m) @ s) =
      writeString n' @ (writeString i' @ md_item m' @ writeUint64 (md_revision m') @ t)"
    using eq a b by (simp add: itemTag_def)
  note e1 = writeString_append [OF e short(1,3)]
  note e2 = writeString_append [OF e1(2) short(2,4)]
  have e3: "md_item m = md_item m' \<and> writeUint64 (md_revision m) @ s = writeUint64 (md_revision m') @ t"
    by (rule append_prefix_inj [OF e2(2) short(5)])
  note e4 = writeUint64_append [OF conjunct2 [OF e3]]
  show ?thesis using e1 e2 e3 e4 a b by (simp add: tagOf_def)
qed

lemma itemTag_not_Nil: "itemTag a \<noteq> []"
proof -
  obtain n i m where a: "a = ((n, i), m)" by (metis prod.exhaust)
  have "bigEndian 4 (length n) \<noteq> []" using length_bigEndian [of 4 "length n"] by fastforce
  then show ?thesis by (simp add: a itemTag_def writeString_def)
qed

lemma itemTags_inj:
  "concat (map itemTag as) = concat (map itemTag bs) \<Longrightarrow> list_all plainItem as \<Longrightarrow> list_all plainItem bs \<Longrightarrow>
    map tagOf as = map tagOf bs"
proof (induction as arbitrary: bs)
  case Nil
  then show ?case using itemTag_not_Nil by (cases bs) auto
next
  case (Cons a as)
  then obtain b bs' where bs: "bs = b # bs'" using itemTag_not_Nil by (cases bs) auto
  have "tagOf a = tagOf b \<and> concat (map itemTag as) = concat (map itemTag bs')"
    using Cons(2-4) bs by (intro itemTag_append) simp_all
  then show ?case using Cons bs by simp
qed

lemma resolvedConfigETag_inj:
  assumes "inj sha" and "resolvedConfigETag sha c n items = resolvedConfigETag sha c' n' items'"
    and "length c = length c'" and "list_all plainItem items" and "list_all plainItem items'"
  shows "c = c'" and "n = n'" and "tagOf ` set items = tagOf ` set items'"
proof -
  let ?s = "\<lambda>items. sort_key (\<lambda>(i, _). revisionKey i) items"
  have "c @ (writeUint64 n @ concat (map itemTag (?s items))) = c' @ (writeUint64 n' @ concat (map itemTag (?s items')))"
    using quotedHash_inj [OF assms(1)] assms(2) by (auto simp: resolvedConfigETag_def)
  then have c: "c = c' \<and> writeUint64 n @ concat (map itemTag (?s items)) = writeUint64 n' @ concat (map itemTag (?s items'))"
    using assms(3) by (rule append_prefix_inj)
  then show "c = c'" by blast
  note n = writeUint64_append [OF conjunct2 [OF c]]
  show "n = n'" by (rule n(1))
  have "map tagOf (?s items) = map tagOf (?s items')"
    by (rule itemTags_inj [OF n(2)]) (use assms(4,5) in \<open>simp_all add: list_all_iff\<close>)
  then have "set (map tagOf (?s items)) = set (map tagOf (?s items'))" by simp
  then show "tagOf ` set items = tagOf ` set items'" by simp
qed

text \<open>
  What later states keep of an earlier one: revisions with their references and bindings, and the
  values of vault revisions, whatever key they are wrapped with by then.
\<close>

definition variantBinding :: "bytes \<Rightarrow> bytes \<Rightarrow> u64 \<Rightarrow> db \<Rightarrow> bytes option" where
  "variantBinding e i n d =
     map_option vb_variant (find (\<lambda>b. vb_item b = i \<and> vb_revision b = n \<and> vb_env b = e) (vault_bindings d))"

definition historyKept :: "aead \<Rightarrow> LocalKeyProvider \<Rightarrow> LocalKeyProvider \<Rightarrow> db \<Rightarrow> db \<Rightarrow> bool" where
  "historyKept A provider provider' d d' =
     ((\<forall>c e n r. findRevision c e n d = Some r \<longrightarrow>
         findRevision c e n d' = Some r \<and> revisionReferences c e n d' = revisionReferences c e n d) \<and>
      (\<forall>e i n v. variantBinding e i n d = Some v \<longrightarrow> variantBinding e i n d' = Some v) \<and>
      (\<forall>m payload. payloadIn A provider m d = Inr payload \<longrightarrow> payloadIn A provider' m d' = Inr payload \<and>
         revisionFieldTypes (md_item m) (md_revision m) d' = revisionFieldTypes (md_item m) (md_revision m) d))"

definition referencesValid :: "db \<Rightarrow> bool" where
  "referencesValid d = list_all (\<lambda>r. validReference (rf_reference r)) (config_refs d)"

lemma metadataOf_Inr:
  assumes "metadataOf e i d = Inr m"
  shows "variantBinding e (md_item m) (md_revision m) d = Some (md_variant m)" and "length (md_item m) = 16"
  using assms by (auto simp: metadataOf_def itemMetadata_def variantBinding_def split: option.splits if_splits)

lemma short_key: "validResourceKey k \<Longrightarrow> short k"
  using validResourceKey_length by (fastforce simp: short_def)

lemma items_plain:
  assumes "referencesValid d" and "itemsOf e (groupReferences (revisionReferences c e n d) []) d = Inr items"
  shows "list_all plainItem items"
proof -
  have "plainItem (i, m)" if im: "(i, m) \<in> set items" for i m
  proof -
    let ?refs = "revisionReferences c e n d"
    have "i \<in> set (map fst (groupReferences ?refs []))" using im itemsOf_Inr(1) [OF assms(2), symmetric] by force
    then have "i \<in> identityOf ` set ?refs" using group_keys by (metis set_map)
    then obtain r where "r \<in> set (config_refs d)" "i = identityOf (rf_reference r)"
      by (auto simp: revisionReferences_def)
    then have "validResourceKey (fst i) \<and> validResourceKey (snd i)"
      using assms(1) by (cases "rf_reference r")
        (fastforce simp: referencesValid_def list_all_iff validReference_def identityOf_def)
    then show ?thesis using metadataOf_Inr(2) [OF itemsOf_Inr(2) [OF assms(2) im]] by (simp add: plainItem_def short_key)
  qed
  then show ?thesis by (auto simp: list_all_iff)
qed

lemma items_same:
  assumes kept: "historyKept A p p' d d'"
    and items: "itemsOf e g d = Inr items" "itemsOf e g d' = Inr items'"
    and tags: "tagOf ` set items = tagOf ` set items'" and "distinct (map fst g)"
  shows "items = items'"
proof (rule nth_equalityI)
  have keys: "map fst items = map fst items'" "distinct (map fst items)"
    using itemsOf_Inr(1) [OF items(1)] itemsOf_Inr(1) [OF items(2)] assms(5) by simp_all
  then show len: "length items = length items'" by (metis length_map)
  fix j
  assume j: "j < length items"
  obtain i m where a: "items ! j = (i, m)" by fastforce
  have "fst (items' ! j) = i" using j a len arg_cong [OF keys(1), of "\<lambda>ks. ks ! j"] by simp
  then obtain m' where b: "items' ! j = (i, m')" by (cases "items' ! j") auto
  have in_items: "(i, m) \<in> set items" "(i, m') \<in> set items'"
    using nth_mem [OF j] nth_mem [of j items'] j len a b by simp_all
  then have "tagOf (i, m) \<in> tagOf ` set items'" using tags by blast
  then obtain m'' where "(i, m'') \<in> set items'" "md_item m'' = md_item m" "md_revision m'' = md_revision m"
    by (auto simp: tagOf_def)
  moreover have "m'' = m'" using calculation(1) in_items(2) keys by (metis eq_key_imp_eq_value)
  ultimately have same: "md_item m' = md_item m" "md_revision m' = md_revision m" by auto
  have "variantBinding e (md_item m) (md_revision m) d = Some (md_variant m)"
    by (rule metadataOf_Inr(1) [OF itemsOf_Inr(2) [OF items(1) in_items(1)]])
  then have "variantBinding e (md_item m) (md_revision m) d' = Some (md_variant m)"
    using kept by (simp add: historyKept_def)
  moreover have "variantBinding e (md_item m') (md_revision m') d' = Some (md_variant m')"
    by (rule metadataOf_Inr(1) [OF itemsOf_Inr(2) [OF items(2) in_items(2)]])
  ultimately have "m = m'" using same by (simp add: vaultMetadata.equality)
  then show "items ! j = items' ! j" using a b by simp
qed

lemma collectResults_kept:
  "collectResults f xs = Inr ys \<Longrightarrow> (\<And>x a. x \<in> set xs \<Longrightarrow> f x = Inr a \<Longrightarrow> g x = Inr a) \<Longrightarrow> collectResults g xs = Inr ys"
  by (induction xs arbitrary: ys) (auto simp: resultBind_Inr)

lemma values_kept:
  assumes "historyKept A p p' d d'" and "valuesOf A p refs im d = Inr a"
  shows "valuesOf A p' refs im d' = Inr a"
proof -
  obtain i m where im: "im = (i, m)" by fastforce
  have "textsIn A p' m ks d' = Inr vs" if texts: "textsIn A p m ks d = Inr vs" for ks vs
  proof -
    obtain payload where "payloadIn A p m d = Inr payload"
      using texts by (cases "payloadIn A p m d") (auto simp: textsIn_def)
    moreover from this have "payloadIn A p' m d' = Inr payload"
      "revisionFieldTypes (md_item m) (md_revision m) d' = revisionFieldTypes (md_item m) (md_revision m) d"
      using assms(1) by (auto simp: historyKept_def)
    ultimately show ?thesis using texts by (simp add: textsIn_def cong: option.case_cong)
  qed
  then show ?thesis using assms(2) im by (auto simp: valuesOf_def resultBind_Inr)
qed

lemma not_modified_same:
  assumes fresh: "resolvedConfig codec A p sha token ek ck tag d = Inr (Fresh r)"
    and unchanged: "resolvedConfig codec A p' sha token' ek ck (rc_etag r) d' = Inr (NotModified r')"
    and "inj sha" and kept: "historyKept A p p' d d'"
    and env: "activeEnvironment ek d' = activeEnvironment ek d"
    and valid: "referencesValid d" "referencesValid d'"
  shows "resolvedConfig codec A p' sha token' ek ck [] d' = Inr (Fresh r)"
proof -
  obtain e c row refs items vs content where 1: "currentConfig ek ck d = Some (e, c, row)" "wellStored e c row"
    "refs = revisionReferences c e (cr_revision row) d" "itemsOf e (groupReferences refs []) d = Inr items"
    "collectResults (\<lambda>im. valuesOf A p (groupReferences refs []) im d) items = Inr vs"
    "Resolve codec (cr_format row) (cr_content row) (Some (valueLookup vs)) = Inr content"
    "r = (unresolvedConfig sha c row items)\<lparr> rc_content := content \<rparr>"
    using fresh by (elim resolvedConfig_cases) auto
  obtain e' c' row' refs' items' where 2: "currentConfig ek ck d' = Some (e', c', row')" "wellStored e' c' row'"
    "refs' = revisionReferences c' e' (cr_revision row') d'" "scopeAllows token' ck (groupReferences refs' [])"
    "itemsOf e' (groupReferences refs' []) d' = Inr items'"
    "rc_etag r = resolvedConfigETag sha c' (cr_revision row') items'"
    using unchanged by (elim resolvedConfig_cases) auto
  have tags: "resolvedConfigETag sha c (cr_revision row) items = resolvedConfigETag sha c' (cr_revision row') items'"
    using 1(7) 2(6) by simp
  have plain: "list_all plainItem items" "list_all plainItem items'"
    using items_plain [OF valid(1) 1(4) [unfolded 1(3)]] items_plain [OF valid(2) 2(5) [unfolded 2(3)]] by simp_all
  have "length c = length c'" using 1(2) 2(2) by (simp add: wellStored_def)
  note same = resolvedConfigETag_inj [OF assms(3) tags this plain]
  have e: "e' = e" using 1(1) 2(1) env by (auto simp: currentConfig_def split: option.splits if_splits)
  have row: "findRevision c e (cr_revision row) d = Some row" "findRevision c' e' (cr_revision row') d' = Some row'"
    using 1(1) 2(1) find_SomeD
    by (fastforce simp: currentConfig_def findRevision_def split: option.splits if_splits)+
  then have row': "row' = row" and refs: "refs' = refs"
    using kept same(1,2) e 1(3) 2(3) by (auto simp: historyKept_def)
  have "distinct (map fst (groupReferences refs []))" by (rule groupReferences_distinct) simp
  then have items: "items = items'"
    using items_same [OF kept 1(4) _ same(3)] 2(5) e refs by simp
  have "collectResults (\<lambda>im. valuesOf A p' (groupReferences refs []) im d') items = Inr vs"
    by (rule collectResults_kept [OF 1(5)]) (rule values_kept [OF kept])
  then show ?thesis
    using 1 2 e row' refs items same(1) quotedHash_not_Nil
    by (simp add: resolvedConfig_def Let_def)
qed

text \<open>
  C25. A conditional read is sound. When a request with the entity tag of an earlier answer is told
  that nothing changed, the unconditional request would have got that very answer: the same
  content, revision and vault revisions. The hash is taken to be injective; between the two reads
  the history was kept.
\<close>

theorem conditional_read_sound:
  assumes "run_tx (ReadResolvedConfig codec A p token ek ck tag) env d = (Inr (Fresh r), d1)"
    and "run_tx (ReadResolvedConfig codec A p' token' ek ck (rc_etag r)) env' d' = (Inr (NotModified r'), d2)"
    and "sha256 env = sha256 env'" and "inj (sha256 env')" and "historyKept A p p' d d'"
    and "activeEnvironment ek d' = activeEnvironment ek d" and "referencesValid d" and "referencesValid d'"
  shows "run_tx (ReadResolvedConfig codec A p' token' ek ck []) (nofault env') d' = (Inr (Fresh r), d')"
proof -
  have "resolvedConfig codec A p (sha256 env') token ek ck tag d = Inr (Fresh r)"
    using run_reads [OF reads_resolved assms(1)] assms(3) by auto
  moreover have "resolvedConfig codec A p' (sha256 env') token' ek ck (rc_etag r) d' = Inr (NotModified r')"
    using run_reads [OF reads_resolved assms(2)] by auto
  ultimately have again: "resolvedConfig codec A p' (sha256 env') token' ek ck [] d' = Inr (Fresh r)"
    by (rule not_modified_same) (rule assms)+
  obtain out d3 where run: "run_tx (ReadResolvedConfig codec A p' token' ek ck []) (nofault env') d' = (out, d3)"
    by fastforce
  show ?thesis using run run_reads [OF reads_resolved run] again by simp
qed

section \<open>A stored Config and its Vault\<close>

definition machineVault :: EncryptedSnapshot where
  \<open>machineVault = \<lparr>
     Algorithm = ''AES-256-GCM'', KeyVersion = ''local-v1'',
     Nonce = [CHR 0x00, CHR 0x00, CHR 0x00, CHR 0x00, CHR 0x00, CHR 0x00, CHR 0x00, CHR 0x00, CHR 0x00,
       CHR 0x00, CHR 0x00, CHR 0x00],
     Ciphertext =
       ''{"variants":{"76767676767676767676767676767676":{"values":{"pw":{"text":"s3"}}}}}'' @
       [CHR 0x00, CHR 0x00, CHR 0x00, CHR 0x00, CHR 0x00, CHR 0x00, CHR 0x00, CHR 0x00, CHR 0x00,
       CHR 0x00, CHR 0x00, CHR 0x00, CHR 0x00, CHR 0x00, CHR 0x00, CHR 0x00],
     EncryptedDEK =
       [CHR 0x00, CHR 0x00, CHR 0x00, CHR 0x00, CHR 0x00, CHR 0x00, CHR 0x00, CHR 0x00, CHR 0x00,
       CHR 0x00, CHR 0x00, CHR 0x00, CHR 0x00, CHR 0x00, CHR 0x00, CHR 0x00, CHR 0x00, CHR 0x00,
       CHR 0x00, CHR 0x00, CHR 0x00, CHR 0x00, CHR 0x00, CHR 0x00, CHR 0x00, CHR 0x00, CHR 0x00,
       CHR 0x00, CHR 0x00, CHR 0x00, CHR 0x00, CHR 0x00, CHR 0x00, CHR 0x00, CHR 0x00, CHR 0x00,
       CHR 0x00, CHR 0x00, CHR 0x00, CHR 0x00, CHR 0x00, CHR 0x00, CHR 0x00, CHR 0x00, CHR 0x00,
       CHR 0x00, CHR 0x00, CHR 0x00, CHR 0x00, CHR 0x00, CHR 0x00, CHR 0x00, CHR 0x00, CHR 0x00,
       CHR 0x00, CHR 0x00, CHR 0x00, CHR 0x00, CHR 0x00, CHR 0x00] \<rparr>\<close>

definition machineDb :: db where
  "machineDb = emptyDb\<lparr>
     environments := [\<lparr> env_id = ''eeeeeeeeeeeeeeee'', env_key = ''prod'', env_name = ''P'', env_archived = None \<rparr>],
     configs := [\<lparr> cfg_id = ''cccccccccccccccc'', cfg_key = ''app'', cfg_name = ''A'', cfg_archived = None \<rparr>],
     config_states := [\<lparr> st_config = ''cccccccccccccccc'', st_env = ''eeeeeeeeeeeeeeee'', st_revision = 1 \<rparr>],
     config_revisions := [\<lparr> cr_config = ''cccccccccccccccc'', cr_env = ''eeeeeeeeeeeeeeee'', cr_revision = 1,
       cr_format = JSON, cr_content = Content sampleDocument, cr_sha256 = [], cr_operation = ''op'',
       cr_actor = Actor ''user'' ''u'', cr_source_config = None, cr_source_env = None, cr_source_revision = None \<rparr>],
     config_refs := [\<lparr> rf_config = ''cccccccccccccccc'', rf_env = ''eeeeeeeeeeeeeeee'', rf_revision = 1,
       rf_reference = sampleReference \<rparr>],
     vault_items := [\<lparr> vi_id = ''iiiiiiiiiiiiiiii'', vi_namespace = ''db'', vi_key = ''main'', vi_name = ''M'',
       vi_revision = 1, vi_archived = None \<rparr>],
     vault_revisions := [\<lparr> vr_item = ''iiiiiiiiiiiiiiii'', vr_revision = 1, vr_name = ''M'', vr_structure = [],
       vr_snapshot = machineVault, vr_operation = ''op2'', vr_actor = Actor ''user'' ''u'', vr_restored = None \<rparr>],
     vault_fields := [\<lparr> vf_item = ''iiiiiiiiiiiiiiii'', vf_revision = 1, vf_field = ''ffffffffffffffff'',
       vf_key = ''pw'', vf_name = ''Password'', vf_type = ''secret'', vf_archived = False \<rparr>],
     vault_bindings := [\<lparr> vb_item = ''iiiiiiiiiiiiiiii'', vb_revision = 1, vb_variant = ''vvvvvvvvvvvvvvvv'',
       vb_env = ''eeeeeeeeeeeeeeee'' \<rparr>] \<rparr>"

definition machineEnv :: env where "machineEnv = sampleEnv\<lparr> sha256 := \<lambda>b. b \<rparr>"

definition machineReferences :: "(vaultItemIdentity \<times> string list) list" where
  "machineReferences = [((''db'', ''main''), [''pw''])]"

definition machineValues :: "(reference \<times> string) list" where
  "machineValues = [(Reference ''db'' ''main'' ''pw'', ''s3'')]"

definition machineRow :: config_revision_row where
  "machineRow = hd (config_revisions machineDb)"

definition machineItems :: "(vaultItemIdentity \<times> vaultMetadata) list" where
  "machineItems = projr (itemsOf ''eeeeeeeeeeeeeeee'' machineReferences machineDb)"

definition machineAnswer :: ResolvedConfig where
  "machineAnswer = (unresolvedConfig (\<lambda>b. b) ''cccccccccccccccc'' machineRow machineItems)\<lparr>
     rc_content := projr (Resolve noYaml JSON (Content sampleDocument) (Some (valueLookup machineValues))) \<rparr>"

lemma machine_current: "currentConfig ''prod'' ''app'' machineDb = Some (''eeeeeeeeeeeeeeee'', ''cccccccccccccccc'', machineRow)"
  by code_simp

lemma machine_stored: "wellStored ''eeeeeeeeeeeeeeee'' ''cccccccccccccccc'' machineRow"
  by code_simp

lemma machine_references:
  "groupReferences (revisionReferences ''cccccccccccccccc'' ''eeeeeeeeeeeeeeee'' (cr_revision machineRow) machineDb) [] =
     machineReferences"
  by code_simp

lemma machine_row: "cr_format machineRow = JSON" "cr_content machineRow = Content sampleDocument"
  by (simp_all add: machineRow_def machineDb_def)

lemma machine_items: "itemsOf ''eeeeeeeeeeeeeeee'' machineReferences machineDb = Inr machineItems"
proof -
  have "case itemsOf ''eeeeeeeeeeeeeeee'' machineReferences machineDb of Inr m \<Rightarrow> True | _ \<Rightarrow> False" by code_simp
  then show ?thesis by (auto simp: machineItems_def split: sum.splits)
qed

lemma machine_values:
  "collectResults (\<lambda>im. valuesOf plainAEAD zeroProvider machineReferences im machineDb) machineItems = Inr machineValues"
  by code_simp

lemma machine_resolves:
  "Resolve noYaml JSON (Content sampleDocument) (Some (valueLookup machineValues)) =
     Inr (rc_content machineAnswer)"
proof -
  have "case Resolve noYaml JSON (Content sampleDocument) (Some (valueLookup machineValues)) of
      Inr c \<Rightarrow> True | _ \<Rightarrow> False"
    by code_simp
  then show ?thesis by (auto simp: machineAnswer_def split: sum.splits)
qed

lemma machine_answers:
  "resolvedConfig noYaml plainAEAD zeroProvider (\<lambda>b. b) None ''prod'' ''app'' tag machineDb =
     (if tag = rc_etag machineAnswer
      then Inr (NotModified (unresolvedConfig (\<lambda>b. b) ''cccccccccccccccc'' machineRow machineItems))
      else Inr (Fresh machineAnswer))"
proof -
  have tag: "rc_etag machineAnswer = resolvedConfigETag (\<lambda>b. b) ''cccccccccccccccc'' (cr_revision machineRow) machineItems"
    by (simp add: machineAnswer_def)
  have served: "(unresolvedConfig (\<lambda>b. b) ''cccccccccccccccc'' machineRow machineItems)\<lparr> rc_content := rc_content machineAnswer \<rparr>
      = machineAnswer"
    by (simp add: machineAnswer_def)
  show ?thesis
    by (simp add: resolvedConfig_def machine_current machine_stored machine_references machine_items tag scopeAllows_def)
      (simp add: machine_values machine_resolves machine_row served)
qed

lemma machine_read:
  "run_tx (ReadResolvedConfig noYaml plainAEAD zeroProvider None ''prod'' ''app'' tag) machineEnv machineDb =
     (if tag = rc_etag machineAnswer
      then Inr (NotModified (unresolvedConfig (\<lambda>b. b) ''cccccccccccccccc'' machineRow machineItems))
      else Inr (Fresh machineAnswer), machineDb)"
proof -
  have calm: "\<not> fault machineEnv n" "sha256 machineEnv = (\<lambda>b. b)" for n
    by (simp_all add: machineEnv_def sampleEnv_def)
  obtain out d where run: "run_tx (ReadResolvedConfig noYaml plainAEAD zeroProvider None ''prod'' ''app'' tag)
      machineEnv machineDb = (out, d)"
    by fastforce
  then show ?thesis
    using run_reads [OF reads_resolved run] machine_answers [of tag] by (simp add: calm)
qed

lemma machine_fresh:
  "run_tx (ReadResolvedConfig noYaml plainAEAD zeroProvider None ''prod'' ''app'' []) machineEnv machineDb =
     (Inr (Fresh machineAnswer), machineDb)"
  by (simp add: machine_read) (simp add: machineAnswer_def quotedHash_not_Nil)

lemma machine_unchanged:
  "run_tx (ReadResolvedConfig noYaml plainAEAD zeroProvider None ''prod'' ''app'' (rc_etag machineAnswer))
       machineEnv machineDb =
     (Inr (NotModified (unresolvedConfig (\<lambda>b. b) ''cccccccccccccccc'' machineRow machineItems)), machineDb)"
  by (simp add: machine_read)

lemma resolved_config_exact_witness:
  "\<exists>row. served noYaml plainAEAD zeroProvider None ''prod'' ''app'' machineDb row (rc_content machineAnswer)"
  using resolved_config_exact [OF machine_fresh] by blast

lemma conditional_read_sound_witness:
  "run_tx (ReadResolvedConfig noYaml plainAEAD zeroProvider None ''prod'' ''app'' []) (nofault machineEnv) machineDb =
    (Inr (Fresh machineAnswer), machineDb)"
proof (rule conditional_read_sound [OF machine_fresh machine_unchanged])
  show "inj (sha256 machineEnv)" by (simp add: machineEnv_def inj_def)
  show "historyKept plainAEAD zeroProvider zeroProvider machineDb machineDb" by (simp add: historyKept_def)
  show "referencesValid machineDb" by code_simp
  show "referencesValid machineDb" by code_simp
qed simp_all

end
