(* ===== verification/MachineHttp.thy ===== *)
theory MachineHttp
  imports MachineLaws
begin

text \<open>
  The HTTP side of the machine API (\<^verbatim>\<open>machine/http.go\<close>): the bearer credential and the
  client certificate of a request, and the handlers that read a Config or a file for them. The
  router has split the path; a request carries the headers the handlers read and the certificates
  of its TLS connection. A response holds what was written and the access events that were
  published. What \<^verbatim>\<open>mime\<close> parses and formats are fields of the server, and so are the
  clock at each of its readings, the random bytes of a request id, and whether the connection takes
  the whole body.
\<close>

section \<open>Requests, responses, servers\<close>

record peer =
  pr_raw :: bytes
  pr_not_after :: time

record machine_request =
  rq_authorization :: string
  rq_if_none_match :: string
  rq_tls :: "peer list option"

type_synonym Authentication = string

definition AuthenticationMTLS :: Authentication where "AuthenticationMTLS = ''mtls''"
definition AuthenticationTokenOnly :: Authentication where "AuthenticationTokenOnly = ''token_only''"

record AccessEvent =
  ac_time :: time
  ac_principal :: string
  ac_authentication :: Authentication
  ac_environment :: string
  ac_namespace :: string
  ac_resource_type :: string
  ac_resource :: string
  ac_config_revision :: u64
  ac_vault_revisions :: "(string \<times> u64) list"

record machine_response =
  rs_status :: int
  rs_headers :: "(string \<times> string) list"
  rs_body :: bytes
  rs_published :: "AccessEvent list"

record repository =
  repo_token :: "string \<Rightarrow> string \<Rightarrow> err + Token"
  repo_active :: "bytes \<Rightarrow> err + bool"
  repo_config :: "Token option \<Rightarrow> string \<Rightarrow> string \<Rightarrow> string \<Rightarrow> err + ResolvedConfig conditional"
  repo_file :: "string \<Rightarrow> string \<Rightarrow> string \<Rightarrow> string \<Rightarrow> string \<Rightarrow> err + FileContent conditional"

record server =
  sv_repository :: repository
  sv_now :: "nat \<Rightarrow> time"
  sv_sha :: "bytes \<Rightarrow> bytes"
  sv_request_id :: bytes
  sv_written :: bool
  sv_parse_media :: "string \<Rightarrow> string option"
  sv_attachment :: "string \<Rightarrow> string"

section \<open>Credentials\<close>

definition validPublicID :: "string \<Rightarrow> bool" where
  "validPublicID s = (6 \<le> length s \<and> length s \<le> 64 \<and> list_all (\<lambda>c. lowerChar c \<or> digitChar c) s)"

definition bearerPrefix :: string where "bearerPrefix = ''Bearer cfg_''"

definition bearerToken :: "string \<Rightarrow> (string \<times> bytes) option" where
  "bearerToken header =
     (if \<not> hasPrefix header bearerPrefix \<or> CHR 0x0D \<in> set header \<or> CHR 0x0A \<in> set header then None
      else
        (case cutStr CHR ''_'' (drop (length bearerPrefix) header) of
           None \<Rightarrow> None
         | Some (publicID, encodedSecret) \<Rightarrow>
             if \<not> validPublicID publicID \<or> encodedSecret = [] \<or> CHR ''='' \<in> set encodedSecret then None
             else
               (case decodeBase64 encodedSecret of
                  None \<Rightarrow> None
                | Some secret \<Rightarrow>
                    if length secret \<noteq> 32 \<or> encodeBase64 secret \<noteq> encodedSecret then None
                    else Some (publicID, secret))))"

definition tokenPublicID :: "string \<Rightarrow> string" where
  "tokenPublicID header = (case bearerToken header of None \<Rightarrow> [] | Some (publicID, _) \<Rightarrow> publicID)"

text \<open>What the client's certificate proves for a token that has passed; status 0 lets the request in.\<close>

definition presentedCertificate :: "server \<Rightarrow> Token \<Rightarrow> peer \<Rightarrow> Token \<times> Authentication \<times> int" where
  "presentedCertificate server token peer =
     (let fingerprint = sv_sha server (pr_raw peer) in
      if tok_fingerprint token \<noteq> [] \<and> fingerprint \<noteq> tok_fingerprint token then (zeroToken, [], 401)
      else
        (case repo_active (sv_repository server) fingerprint of
           Inl _ \<Rightarrow> (zeroToken, [], 503)
         | Inr active \<Rightarrow>
             if \<not> active then (zeroToken, [], 401)
             else if \<not> tok_granted token then (token, [], 403)
             else (token, AuthenticationMTLS, 0)))"

definition authenticate :: "server \<Rightarrow> machine_request \<Rightarrow> string \<Rightarrow> Token \<times> Authentication \<times> int" where
  "authenticate server request environment =
     (case bearerToken (rq_authorization request) of
        None \<Rightarrow> (zeroToken, [], 401)
      | Some (publicID, secret) \<Rightarrow>
          (case repo_token (sv_repository server) publicID environment of
             Inl e \<Rightarrow> (zeroToken, [], if isErr ErrNotFound e then 401 else 503)
           | Inr token \<Rightarrow>
               if tok_public token \<noteq> publicID \<or> sv_sha server secret \<noteq> tok_digest token \<or> tok_revoked token \<or>
                  (tok_expires token \<noteq> 0 \<and> \<not> sv_now server 0 < tok_expires token)
               then (zeroToken, [], 401)
               else
                 (case rq_tls request of
                    None \<Rightarrow> (zeroToken, [], 401)
                  | Some [] \<Rightarrow>
                      if tok_without_mtls token \<and> tok_kind token \<noteq> TokenWriteScoped \<and> tok_fingerprint token = []
                      then if \<not> tok_granted token then (token, [], 403)
                           else (token, AuthenticationTokenOnly, 0)
                      else (zeroToken, [], 401)
                  | Some (peer # _) \<Rightarrow> presentedCertificate server token peer)))"

section \<open>Responses\<close>

definition statusCode :: "int \<Rightarrow> string" where
  "statusCode status =
     (if status = 403 then ''environment_forbidden''
      else if status = 503 then ''service_unavailable''
      else ''unauthorized'')"

text \<open>\<^verbatim>\<open>json.NewEncoder(response).Encode(value)\<close> ends the text with a line feed.\<close>

definition encoded :: "json \<Rightarrow> bytes" where
  "encoded j = compactJSON j @ [CHR 0x0A]"

definition noStore :: "string \<times> string" where
  "noStore = (''Cache-Control'', ''no-store'')"

definition writeError :: "server \<Rightarrow> int \<Rightarrow> string \<Rightarrow> machine_response" where
  "writeError server status code =
     \<lparr> rs_status = status, rs_headers = [noStore, (''Content-Type'', ''application/json'')],
       rs_body = encoded (JObj [(''error'', JObj [(''code'', JStr code),
         (''request_id'', JStr (encodeHex (sv_request_id server)))])]),
       rs_published = [] \<rparr>"

definition notModified :: "string \<Rightarrow> machine_response" where
  "notModified etag =
     \<lparr> rs_status = 304, rs_headers = [noStore, (''ETag'', etag)], rs_body = [], rs_published = [] \<rparr>"

text \<open>The answer to a failed read; the branches of \<^verbatim>\<open>readFile\<close> are those of a file read only.\<close>

definition configFailure :: "server \<Rightarrow> err \<Rightarrow> machine_response" where
  "configFailure server e =
     (if isErr ErrForbidden e then writeError server 403 ''scope_forbidden''
      else if isErr ErrNotFound e then writeError server 404 ''not_found''
      else if isErr ErrUnresolved e then writeError server 422 ''unresolved_vault_reference''
      else if isErr ErrVaultIntegrity e then writeError server 500 ''crypto_integrity_failure''
      else writeError server 503 ''service_unavailable'')"

definition fileFailure :: "server \<Rightarrow> err \<Rightarrow> machine_response" where
  "fileFailure server e =
     (if isErr ErrNotFound e then writeError server 404 ''not_found''
      else if isErr ErrVaultIntegrity e then writeError server 500 ''crypto_integrity_failure''
      else writeError server 503 ''service_unavailable'')"

definition maxResolvedConfigBytes :: int where
  "maxResolvedConfigBytes = 5 * 1024 * 1024"

definition resolvedConfigJSON :: "ResolvedConfig \<Rightarrow> json" where
  "resolvedConfigJSON r =
     JObj [(''format'', JStr (rc_format r)), (''content'', JStr (rc_content r)),
           (''config_revision'', JNum (FormatUint (rc_revision r))),
           (''vault_revisions'', mapJSON (\<lambda>n. JNum (FormatUint n)) (rc_vault r))]"

section \<open>The handlers\<close>

definition configAccess :: "server \<Rightarrow> machine_request \<Rightarrow> Authentication \<Rightarrow> string \<Rightarrow> string \<Rightarrow> ResolvedConfig \<Rightarrow> AccessEvent" where
  "configAccess server request authentication environment config resolved =
     \<lparr> ac_time = sv_now server 1, ac_principal = tokenPublicID (rq_authorization request),
       ac_authentication = authentication, ac_environment = environment, ac_namespace = [],
       ac_resource_type = ''config'', ac_resource = config, ac_config_revision = rc_revision resolved,
       ac_vault_revisions = rc_vault resolved \<rparr>"

definition readResolvedConfig :: "server \<Rightarrow> machine_request \<Rightarrow> string \<Rightarrow> string \<Rightarrow> machine_response" where
  "readResolvedConfig server request environment config =
     (if \<not> validResourceKey environment \<or> \<not> validResourceKey config
      then writeError server 400 ''invalid_resource_key''
      else
        (case authenticate server request environment of (token, authentication, status) \<Rightarrow>
           if status \<noteq> 0 then writeError server status (statusCode status)
           else if \<not> AllowsConfig token config then writeError server 403 ''scope_forbidden''
           else
             (case repo_config (sv_repository server) (Some token) environment config (rq_if_none_match request) of
                Inl e \<Rightarrow> configFailure server e
              | Inr (NotModified resolved) \<Rightarrow> notModified (rc_etag resolved)
              | Inr (Fresh resolved) \<Rightarrow>
                  if int (length (rc_content resolved)) > maxResolvedConfigBytes
                  then writeError server 500 ''resolved_config_too_large''
                  else
                    \<lparr> rs_status = 200,
                      rs_headers = [noStore, (''Content-Type'', ''application/json''), (''ETag'', rc_etag resolved)],
                      rs_body = encoded (resolvedConfigJSON resolved),
                      rs_published =
                        (if sv_written server
                         then [configAccess server request authentication environment config resolved] else []) \<rparr>)))"

definition fileAccess :: "server \<Rightarrow> machine_request \<Rightarrow> Authentication \<Rightarrow> string \<Rightarrow> string \<Rightarrow> string \<Rightarrow> string \<Rightarrow>
    FileContent \<Rightarrow> AccessEvent" where
  "fileAccess server request authentication environment namespace item field content =
     \<lparr> ac_time = sv_now server 1, ac_principal = tokenPublicID (rq_authorization request),
       ac_authentication = authentication, ac_environment = environment, ac_namespace = namespace,
       ac_resource_type = ''vault_file'', ac_resource = item @ ''.'' @ field, ac_config_revision = 0,
       ac_vault_revisions = [(namespace @ ''.'' @ item, fc_revision content)] \<rparr>"

definition readFile :: "server \<Rightarrow> machine_request \<Rightarrow> string \<Rightarrow> string \<Rightarrow> string \<Rightarrow> string \<Rightarrow> machine_response" where
  "readFile server request environment namespace item field =
     (if \<not> validResourceKey environment \<or> \<not> validResourceKey namespace \<or> \<not> validResourceKey item \<or>
         \<not> validResourceKey field
      then writeError server 400 ''invalid_resource_key''
      else
        (case authenticate server request environment of (token, authentication, status) \<Rightarrow>
           if status \<noteq> 0 then writeError server status (statusCode status)
           else if \<not> AllowsNamespace token namespace then writeError server 403 ''scope_forbidden''
           else
             (case repo_file (sv_repository server) environment namespace item field (rq_if_none_match request) of
                Inl e \<Rightarrow> fileFailure server e
              | Inr (NotModified content) \<Rightarrow> notModified (fc_etag content)
              | Inr (Fresh content) \<Rightarrow>
                  if int (length (fc_bytes content)) > maxResolvedConfigBytes
                  then writeError server 500 ''file_too_large''
                  else
                    \<lparr> rs_status = 200,
                      rs_headers =
                        [noStore,
                         (''Content-Type'', case sv_parse_media server (fc_type content) of
                            None \<Rightarrow> ''application/octet-stream'' | Some t \<Rightarrow> t),
                         (''Content-Disposition'', sv_attachment server (fc_filename content)),
                         (''ETag'', fc_etag content)],
                      rs_body = fc_bytes content,
                      rs_published =
                        (if sv_written server
                         then [fileAccess server request authentication environment namespace item field content]
                         else []) \<rparr>)))"

section \<open>Identity\<close>

text \<open>
  \<^verbatim>\<open>time.Time.MarshalJSON\<close> in UTC: RFC 3339 with the fraction's trailing zeros left out.
  Instant 0 is the first of January of year 1; days are counted from the first of March of year 0.
\<close>

definition civilDate :: "int \<Rightarrow> int \<times> int \<times> int" where
  "civilDate days =
     (let z = days + 306; era = z div 146097; d = z mod 146097;
          y = (d - d div 1460 + d div 36524 - d div 146096) div 365;
          n = d - (365 * y + y div 4 - y div 100);
          m = (5 * n + 2) div 153;
          month = (if m < 10 then m + 3 else m - 9)
      in (y + era * 400 + (if month \<le> 2 then 1 else 0), month, n - (153 * m + 2) div 5 + 1))"

definition padded :: "nat \<Rightarrow> int \<Rightarrow> string" where
  "padded width n = (let s = digitsOf (nat n) in replicate (width - length s) (CHR ''0'') @ s)"

definition timeFraction :: "int \<Rightarrow> string" where
  "timeFraction n =
     (if n = 0 then []
      else CHR ''.'' # rev (dropWhile (\<lambda>c. c = CHR ''0'') (rev (padded 9 n))))"

definition timeText :: "time \<Rightarrow> string" where
  "timeText t =
     (let seconds = t div 1000000000; s = seconds mod 86400 in
        case civilDate (seconds div 86400) of (year, month, day) \<Rightarrow>
          padded 4 year @ ''-'' @ padded 2 month @ ''-'' @ padded 2 day @ ''T'' @
          padded 2 (s div 3600) @ '':'' @ padded 2 (s div 60 mod 60) @ '':'' @ padded 2 (s mod 60) @
          timeFraction (t mod 1000000000) @ ''Z'')"

definition omitText :: "string \<Rightarrow> string \<Rightarrow> (string \<times> json) list" where
  "omitText name s = (if s = [] then [] else [(name, JStr s)])"

definition scopeJSON :: "string list option \<Rightarrow> json" where
  "scopeJSON scope = (case scope of None \<Rightarrow> JNull | Some ks \<Rightarrow> JArr (map JStr ks))"

definition readIdentity :: "server \<Rightarrow> machine_request \<Rightarrow> string \<Rightarrow> machine_response" where
  "readIdentity server request environment =
     (if \<not> validResourceKey environment then writeError server 400 ''invalid_resource_key''
      else
        (case authenticate server request environment of (token, authentication, status) \<Rightarrow>
           if status \<noteq> 0 then writeError server status (statusCode status)
           else
             (let (fingerprint, certificateExpiry) =
                  (case rq_tls request of
                     Some (peer # _) \<Rightarrow> (encodeHex (sv_sha server (pr_raw peer)),
                       [(''certificate_expires_at'', JStr (timeText (pr_not_after peer)))])
                   | _ \<Rightarrow> ([], []))
              in
                \<lparr> rs_status = 200, rs_headers = [noStore, (''Content-Type'', ''application/json'')],
                  rs_body = encoded (JObj
                    ((''public_id'', JStr (tok_public token)) # omitText ''parent_public_id'' (tok_parent token) @
                     [(''kind'', JStr (tok_kind token)), (''environment'', JStr environment),
                      (''config_keys'', scopeJSON (tok_configs token)),
                      (''namespace_keys'', scopeJSON (tok_namespaces token)),
                      (''expires_at'', if tok_expires token = 0 then JNull else JStr (timeText (tok_expires token))),
                      (''authentication'', JStr authentication)] @
                     omitText ''certificate_fingerprint'' fingerprint @ certificateExpiry)),
                  rs_published = [] \<rparr>)))"

end
