(* ===== verification/MasterKey.thy ===== *)
theory MasterKey
  imports ConfigHistory VaultDoc
begin

text \<open>
  The master key in the database (\<^verbatim>\<open>mysqlstore/bootstrap.go\<close>): transactions that
  encrypt or decrypt first check that the sentinel opens under their key, and hold its row. A
  transaction is one step here, so the lock is the check. Encrypting draws a data key and two
  nonces from the random source.
\<close>

section \<open>The sentinel\<close>

definition readSentinel :: "EncryptedSentinel tx" where
  "readSentinel =
     tx_bind (tx_query crypto_sentinel) (\<lambda>row.
       case row of None \<Rightarrow> tx_fail ErrCryptoIntegrity | Some s \<Rightarrow> tx_return s)"

definition verifySentinel :: "aead \<Rightarrow> LocalKeyProvider \<Rightarrow> unit tx" where
  "verifySentinel A provider =
     tx_bind readSentinel (\<lambda>s.
       if VerifySentinel A provider s then tx_return () else tx_fail ErrCryptoIntegrity)"

definition lockMasterKey :: "aead \<Rightarrow> LocalKeyProvider \<Rightarrow> unit tx" where
  "lockMasterKey A provider = verifySentinel A provider"

definition schemaVersion :: u64 where "schemaVersion = 4"

definition verifyDatabase :: "aead \<Rightarrow> LocalKeyProvider \<Rightarrow> unit tx" where
  "verifyDatabase A provider =
     tx_bind (tx_query schema_version) (\<lambda>version.
       if version \<noteq> schemaVersion then tx_fail ErrInternal else verifySentinel A provider)"

section \<open>Drawing from the random source\<close>

definition sealing :: "(random \<Rightarrow> nat \<Rightarrow> crypto_error + 'a) \<Rightarrow> 'a tx" where
  "sealing f env s =
     (case f (rand env) (tick s) of
        Inl _ \<Rightarrow> (Inl ErrInternal, s\<lparr> tick := tick s + 3 \<rparr>)
      | Inr x \<Rightarrow> (Inr x, s\<lparr> tick := tick s + 3 \<rparr>))"

lemma sealing_Inr:
  "sealing f env s = (Inr x, s') \<longleftrightarrow> f (rand env) (tick s) = Inr x \<and> s' = s\<lparr> tick := tick s + 3 \<rparr>"
  by (auto simp: sealing_def split: sum.splits)

lemma quiet_sealing [quiet_intros]: "quiet (sealing f)"
  by (auto simp: quiet_def sealing_def split: sum.splits)

lemma preserves_sealing [preserves_intros]: "preserves P (sealing f)"
  by (auto simp: preserves_def sealing_def split: sum.splits)

lemma steady_sealing [steady_intros]: "steady (sealing f)"
  by (auto simp: steady_def sealing_def split: sum.splits)

lemma quiet_lockMasterKey [quiet_intros]: "quiet (lockMasterKey A provider)"
  unfolding lockMasterKey_def verifySentinel_def readSentinel_def by (intro quiet_intros)

lemma steady_lockMasterKey [steady_intros]: "steady (lockMasterKey A provider)"
  unfolding lockMasterKey_def verifySentinel_def readSentinel_def by (intro steady_intros)

lemma preserves_lockMasterKey [preserves_intros]: "preserves P (lockMasterKey A provider)"
  unfolding lockMasterKey_def verifySentinel_def readSentinel_def by (intro preserves_intros)

text \<open>The key a transaction runs under is the one of the database.\<close>

definition keyed :: "aead \<Rightarrow> LocalKeyProvider \<Rightarrow> db \<Rightarrow> bool" where
  "keyed A provider d = (\<exists>s. crypto_sentinel d = Some s \<and> VerifySentinel A provider s)"

lemma lockMasterKey_Inr:
  "lockMasterKey A provider env s = (Inr u, s') \<Longrightarrow>
    keyed A provider (work s) \<and> work s' = work s \<and> durable s' = durable s"
  by (auto simp: lockMasterKey_def verifySentinel_def readSentinel_def keyed_def tx_Inr
      split: option.splits if_splits)

lemma lockMasterKey_quietly:
  assumes "keyed A provider (work s)" and "\<forall>n. \<not> fault env n"
  shows "\<exists>s'. lockMasterKey A provider env s = (Inr (), s') \<and> work s' = work s \<and> durable s' = durable s"
  using assms
  by (auto simp: lockMasterKey_def verifySentinel_def readSentinel_def keyed_def tx_bind_def tx_query_def tx_return_def)

end
