(* ===== verification/Vaults.thy ===== *)
theory Vaults
  imports MasterKey
begin

text \<open>
  Vault items (\<^verbatim>\<open>mysqlstore/vault_mutation.go\<close>, \<^verbatim>\<open>scoped_vault.go\<close>,
  \<^verbatim>\<open>vault_lifecycle.go\<close> and the item read of \<^verbatim>\<open>vault_read.go\<close>): the commit of a
  snapshot as the next encrypted revision of an item, guarded by the revision the caller expects;
  the restore of an earlier revision; the writes of a token that is confined to one environment;
  archiving. The iteration order of a Go map decides which of several errors is reported first;
  here it is the order of the list. \<^verbatim>\<open>cloneVaultSnapshot\<close> copies what is immutable here.
\<close>

section \<open>Requests and results\<close>

record ScopedVaultWrite =
  sw_operation :: string
  sw_actor :: actor
  sw_environment :: string
  sw_namespace :: string
  sw_item :: string
  sw_name :: string
  sw_expected :: u64
  sw_action :: string
  sw_fields :: "Field list"
  sw_values :: VariantValues
  sw_field :: Field
  sw_value :: Value

record VaultCommit =
  vc_operation :: string
  vc_actor :: actor
  vc_namespace :: string
  vc_item :: string
  vc_name :: string
  vc_expected :: u64
  vc_snapshot :: Snapshot
  vc_digest :: "bytes option"
  vc_invalid :: bool
  vc_action :: string
  vc_success :: string
  vc_restored :: u64
  vc_scoped :: "ScopedVaultWrite option"

record VaultRestore =
  vo_operation :: string
  vo_actor :: actor
  vo_namespace :: string
  vo_item :: string
  vo_source :: u64
  vo_expected :: u64

record VaultCommitResult =
  vm_outcome :: Outcome
  vm_revision :: u64
  vm_variants :: "string list"

section \<open>Their JSON forms\<close>

definition variantJSON :: "Variant \<Rightarrow> json" where
  "variantJSON v =
     JObj ([(''id'', JStr (va_id v)),
            (''environments'', case va_envs v of None \<Rightarrow> JNull | Some es \<Rightarrow> JArr (map JStr es))] @
           omitEmpty (va_values v = []) ''values'' (mapJSON valueJSON (va_values v)))"

definition snapshotJSON :: "Snapshot \<Rightarrow> json" where
  "snapshotJSON s =
     JObj [(''fields'', JArr (map fieldJSON (sn_fields s))), (''variants'', JArr (map variantJSON (sn_variants s)))]"

definition vaultCommitDigest :: "env \<Rightarrow> VaultCommit \<Rightarrow> bytes" where
  "vaultCommitDigest env r =
     sha256 env (compactJSON (JObj
       [(''OperationID'', JStr (vc_operation r)), (''Actor'', actorJSON (vc_actor r)),
        (''NamespaceKey'', JStr (vc_namespace r)), (''ItemKey'', JStr (vc_item r)),
        (''ItemName'', JStr (vc_name r)), (''ExpectedRevision'', JNum (FormatUint (vc_expected r))),
        (''Snapshot'', snapshotJSON (vc_snapshot r))]))"

definition vaultRestoreDigest :: "env \<Rightarrow> VaultRestore \<Rightarrow> bytes" where
  "vaultRestoreDigest env r =
     sha256 env (compactJSON (JObj
       [(''OperationID'', JStr (vo_operation r)), (''Actor'', actorJSON (vo_actor r)),
        (''NamespaceKey'', JStr (vo_namespace r)), (''ItemKey'', JStr (vo_item r)),
        (''SourceRevision'', JNum (FormatUint (vo_source r))),
        (''ExpectedRevision'', JNum (FormatUint (vo_expected r)))]))"

definition scopedVaultDigest :: "env \<Rightarrow> ScopedVaultWrite \<Rightarrow> bytes" where
  "scopedVaultDigest env r =
     sha256 env (compactJSON (JObj
       [(''OperationID'', JStr (sw_operation r)), (''Actor'', actorJSON (sw_actor r)),
        (''EnvironmentKey'', JStr (sw_environment r)), (''NamespaceKey'', JStr (sw_namespace r)),
        (''ItemKey'', JStr (sw_item r)), (''ItemName'', JStr (sw_name r)),
        (''ExpectedRevision'', JNum (FormatUint (sw_expected r))), (''Action'', JStr (sw_action r)),
        (''Fields'', JArr (map fieldJSON (sw_fields r))), (''Values'', mapJSON valueJSON (sw_values r)),
        (''Field'', fieldJSON (sw_field r)), (''Value'', valueJSON (sw_value r))]))"

definition vaultResultJSON :: "VaultCommitResult \<Rightarrow> json" where
  "vaultResultJSON r =
     JObj ([(''outcome'', JStr (outcomeText (vm_outcome r)))] @
           omitEmpty (vm_revision r = 0) ''revision'' (JNum (FormatUint (vm_revision r))) @
           omitEmpty (vm_variants r = []) ''variant_ids'' (jsonStrings (vm_variants r)))"

definition vaultResultOf :: "json \<Rightarrow> VaultCommitResult option" where
  "vaultResultOf v =
     (case (isObject v, outcomeOf (member ''outcome'' v), asUint64 (member ''revision'' v),
            asStrings (member ''variant_ids'' v)) of
        (True, Some out, Some n, Some ids) \<Rightarrow>
          Some \<lparr> vm_outcome = out, vm_revision = n, vm_variants = elems ids \<rparr>
      | _ \<Rightarrow> None)"

definition replayVaultResult :: "operationReplay \<Rightarrow> err + VaultCommitResult \<times> err option" where
  "replayVaultResult rp =
     (case vaultResultOf (replayResponse rp) of
        None \<Rightarrow> Inl ErrInternal
      | Some previous \<Rightarrow>
          if vm_outcome previous \<noteq> replayOutcome rp then Inl ErrInternal
          else Inr (previous, outcomeError (vm_outcome previous)))"

definition validateVaultCommit :: "VaultCommit \<Rightarrow> bool" where
  "validateVaultCommit r =
     (validResourceKey (vc_namespace r) \<and> validResourceKey (vc_item r) \<and>
      vc_name r \<noteq> [] \<and> length (vc_name r) \<le> 255)"

section \<open>Finishing\<close>

definition scopedEnvironment :: "VaultCommit \<Rightarrow> string" where
  "scopedEnvironment r = (case vc_scoped r of None \<Rightarrow> [] | Some w \<Rightarrow> sw_environment w)"

definition scopedField :: "VaultCommit \<Rightarrow> string" where
  "scopedField r = (case vc_scoped r of None \<Rightarrow> [] | Some w \<Rightarrow> fd_key (sw_field w))"

definition finishVaultOperation :: "VaultCommit \<Rightarrow> VaultCommitResult \<Rightarrow> string \<Rightarrow> bool \<Rightarrow> unit tx" where
  "finishVaultOperation r res eventType notify =
     finishOperation (vc_operation r) (vc_actor r) (vm_outcome res) (vm_revision res) (vaultResultJSON res)
       \<lparr> me_field = scopedField r, me_type = eventType,
         me_action = ''vault.'' @ (if vc_action r = [] then ''commit'' else vc_action r),
         me_environment = scopedEnvironment r, me_namespace = vc_namespace r,
         me_resource_type = ''vault_item'', me_resource_key = vc_item r \<rparr> notify"

definition finishVaultFailure :: "VaultCommit \<Rightarrow> Outcome \<Rightarrow> string \<Rightarrow> (VaultCommitResult \<times> err option) tx" where
  "finishVaultFailure r out eventType =
     (let res = \<lparr> vm_outcome = out, vm_revision = 0, vm_variants = [] \<rparr> in
      tx_bind (finishVaultOperation r res eventType False) (\<lambda>_.
        commitWith res (withCommittedAudit (Some (if out = OutcomeConflict then ErrConflict else ErrValidation)))))"

definition finishVault :: "VaultCommit \<Rightarrow> VaultCommitResult \<Rightarrow> string \<Rightarrow> bool \<Rightarrow> (VaultCommitResult \<times> err option) tx" where
  "finishVault r res eventType notify =
     tx_bind (finishVaultOperation r res eventType notify) (\<lambda>_. commitWith res None)"

section \<open>Reading an item\<close>

record VaultItem =
  it_namespace :: string
  it_key :: string
  it_name :: string
  it_revision :: u64
  it_archived :: bool
  it_snapshot :: Snapshot

definition vaultRow :: "string \<Rightarrow> string \<Rightarrow> db \<Rightarrow> vault_item_row option" where
  "vaultRow n k d = find (\<lambda>v. vi_namespace v = n \<and> vi_key v = k) (vault_items d)"

definition revisionRow :: "bytes \<Rightarrow> u64 \<Rightarrow> db \<Rightarrow> vault_revision_row option" where
  "revisionRow i n d = find (\<lambda>r. vr_item r = i \<and> vr_revision r = n) (vault_revisions d)"

definition revisionFields :: "bytes \<Rightarrow> u64 \<Rightarrow> db \<Rightarrow> Field list" where
  "revisionFields i n d =
     map (\<lambda>f. \<lparr> fd_key = vf_key f, fd_name = vf_name f, fd_type = vf_type f \<rparr>)
       (sort_key vf_key (filter (\<lambda>f. vf_item f = i \<and> vf_revision f = n \<and> \<not> vf_archived f) (vault_fields d)))"

definition environmentKeyOf :: "bytes \<Rightarrow> db \<Rightarrow> string option" where
  "environmentKeyOf i d = map_option env_key (find (\<lambda>e. env_id e = i) (environments d))"

text \<open>The keys of the environments a variant of a revision is bound to, in order.\<close>

definition boundKeys :: "bytes \<Rightarrow> u64 \<Rightarrow> bytes \<Rightarrow> db \<Rightarrow> string list" where
  "boundKeys i n v d =
     sort (List.map_filter (\<lambda>b. environmentKeyOf (vb_env b) d)
       (filter (\<lambda>b. vb_item b = i \<and> vb_revision b = n \<and> vb_variant b = v) (vault_bindings d)))"

definition revisionVariants :: "bytes \<Rightarrow> u64 \<Rightarrow> db \<Rightarrow> Variant list" where
  "revisionVariants i n d =
     map (\<lambda>v. \<lparr> va_id = encodeHex (vn_variant v),
                va_envs = (let keys = boundKeys i n (vn_variant v) d in if keys = [] then None else Some keys),
                va_values = [] \<rparr>)
       (sort_key vn_ordinal (filter (\<lambda>v. vn_item v = i \<and> vn_revision v = n) (vault_variants d)))"

definition currentVaultSnapshot :: "aead \<Rightarrow> LocalKeyProvider \<Rightarrow> bytes \<Rightarrow> u64 \<Rightarrow> (bytes \<times> bytes) tx" where
  "currentVaultSnapshot A provider i n =
     tx_bind (tx_query (revisionRow i n)) (\<lambda>row.
       case row of
         None \<Rightarrow> tx_fail ErrInternal
       | Some r \<Rightarrow>
           if length (vr_structure r) \<noteq> 32 then tx_fail ErrInternal
           else
             (case DecryptSnapshot A provider \<lparr> ItemID = encodeHex i, Revision = n \<rparr> (vr_snapshot r) of
                Inl _ \<Rightarrow> tx_fail ErrCryptoIntegrity
              | Inr plaintext \<Rightarrow>
                  if Decode plaintext = None then tx_fail ErrCryptoIntegrity
                  else tx_return (plaintext, vr_structure r)))"

fun fillValues :: "Payload \<Rightarrow> Variant list \<Rightarrow> Variant list option" where
  "fillValues payload [] = Some []"
| "fillValues payload (v # vs) =
     (case map_of payload (va_id v) of
        None \<Rightarrow> None
      | Some values \<Rightarrow> map_option (Cons (v\<lparr> va_values := values \<rparr>)) (fillValues payload vs))"

definition readVaultItem :: "aead \<Rightarrow> LocalKeyProvider \<Rightarrow> string \<Rightarrow> string \<Rightarrow> u64 \<Rightarrow> bool \<Rightarrow> VaultItem tx" where
  "readVaultItem A provider namespace key revision includeValues =
     tx_bind (tx_query (vaultRow namespace key)) (\<lambda>row.
       case row of
         None \<Rightarrow> tx_fail ErrNotFound
       | Some v \<Rightarrow>
           if vi_archived v \<noteq> None \<and> includeValues then tx_fail ErrNotFound
           else
             (let n = (if revision = 0 then vi_revision v else revision) in
              tx_bind (tx_query (revisionRow (vi_id v) n)) (\<lambda>named.
                case named of
                  None \<Rightarrow> tx_fail ErrNotFound
                | Some r \<Rightarrow>
                    tx_bind (tx_query (revisionFields (vi_id v) n)) (\<lambda>fields.
                      if fields = [] then tx_fail ErrInternal
                      else
                        tx_bind (tx_query (revisionVariants (vi_id v) n)) (\<lambda>variants.
                          if variants = [] then tx_fail ErrInternal
                          else
                            (let item = \<lparr> it_namespace = vi_namespace v, it_key = vi_key v, it_name = vr_name r,
                                   it_revision = n, it_archived = (vi_archived v \<noteq> None),
                                   it_snapshot = \<lparr> sn_fields = fields, sn_variants = variants \<rparr> \<rparr> in
                             if \<not> includeValues then tx_return item
                             else
                               tx_bind (currentVaultSnapshot A provider (vi_id v) n) (\<lambda>(plaintext, structure).
                                 case Decode plaintext of
                                   None \<Rightarrow> tx_fail ErrCryptoIntegrity
                                 | Some payload \<Rightarrow>
                                     if length payload \<noteq> length variants then tx_fail ErrCryptoIntegrity
                                     else
                                       (case fillValues payload variants of
                                          None \<Rightarrow> tx_fail ErrCryptoIntegrity
                                        | Some filled \<Rightarrow>
                                            tx_return (item\<lparr> it_snapshot :=
                                              \<lparr> sn_fields = fields, sn_variants = filled \<rparr> \<rparr>))))))))) "

definition ReadVaultItem :: "aead \<Rightarrow> LocalKeyProvider \<Rightarrow> string \<Rightarrow> string \<Rightarrow> u64 \<Rightarrow> bool \<Rightarrow> VaultItem tx" where
  "ReadVaultItem A provider namespace key revision includeValues =
     tx_bind (readVaultItem A provider namespace key revision includeValues) (\<lambda>item.
     tx_bind tx_commit (\<lambda>_. tx_return item))"

text \<open>One environment of an item.\<close>

definition ReadScopedVault :: "aead \<Rightarrow> LocalKeyProvider \<Rightarrow> string \<Rightarrow> string \<Rightarrow> string \<Rightarrow> VaultItem tx" where
  "ReadScopedVault A provider environment namespace key =
     tx_bind (ReadVaultItem A provider namespace key 0 True) (\<lambda>item.
       case find (\<lambda>v. environment \<in> set (elems (va_envs v))) (sn_variants (it_snapshot item)) of
         None \<Rightarrow> tx_fail ErrNotFound
       | Some v \<Rightarrow>
           tx_return (item\<lparr> it_snapshot := (it_snapshot item)\<lparr> sn_variants := [v\<lparr> va_envs := Some [environment] \<rparr>] \<rparr> \<rparr>))"

end
