(* ===== verification/VaultCommits.thy ===== *)
theory VaultCommits
  imports Vaults
begin

text \<open>
  The mutations of Vault items: the commit of a snapshot (\<^verbatim>\<open>vault_mutation.go\<close>), with
  the preparation of a confined token's write (\<^verbatim>\<open>scoped_vault.go\<close>) in it, the restore of
  a revision, and archiving (\<^verbatim>\<open>vault_lifecycle.go\<close>).
\<close>

section \<open>Statements\<close>

definition insertItem :: "vault_item_row \<Rightarrow> db \<Rightarrow> db option" where
  "insertItem v d =
     (if existsRow (\<lambda>w. vi_id w = vi_id v \<or> (vi_namespace w = vi_namespace v \<and> vi_key w = vi_key v)) (vault_items d) \<or>
         vi_revision v = 0
      then None else Some (d\<lparr> vault_items := vault_items d @ [v] \<rparr>))"

definition advanceItem :: "bytes \<Rightarrow> string \<Rightarrow> u64 \<Rightarrow> db \<Rightarrow> db option" where
  "advanceItem i name n d =
     (if n = 0 then None
      else Some (d\<lparr> vault_items := updateWhere (\<lambda>v. vi_id v = i)
                      (\<lambda>v. v\<lparr> vi_name := name, vi_revision := n \<rparr>) (vault_items d) \<rparr>))"

definition markItem :: "bytes \<Rightarrow> time option \<Rightarrow> db \<Rightarrow> db" where
  "markItem i at d =
     d\<lparr> vault_items := updateWhere (\<lambda>v. vi_id v = i) (\<lambda>v. v\<lparr> vi_archived := at \<rparr>) (vault_items d) \<rparr>"

text \<open>\<^verbatim>\<open>INSERT ... ON DUPLICATE KEY UPDATE\<close>, and the archiving of a field that was left out.\<close>

definition upsertField :: "vault_field_row \<Rightarrow> db \<Rightarrow> db" where
  "upsertField f d =
     (let same = (\<lambda>w. vw_item w = vw_item f \<and> (vw_id w = vw_id f \<or> vw_key w = vw_key f)) in
      if existsRow same (vault_item_fields d) then
        d\<lparr> vault_item_fields := updateWhere same (\<lambda>w. w\<lparr> vw_name := vw_name f, vw_archived := None \<rparr>)
             (vault_item_fields d) \<rparr>
      else d\<lparr> vault_item_fields := vault_item_fields d @ [f] \<rparr>)"

definition archiveField :: "bytes \<Rightarrow> bytes \<Rightarrow> time \<Rightarrow> db \<Rightarrow> db" where
  "archiveField i f at d =
     d\<lparr> vault_item_fields := updateWhere (\<lambda>w. vw_item w = i \<and> vw_id w = f)
          (\<lambda>w. w\<lparr> vw_archived := Some (case vw_archived w of None \<Rightarrow> at | Some a \<Rightarrow> a) \<rparr>) (vault_item_fields d) \<rparr>"

definition insertVaultRevision :: "vault_revision_row \<Rightarrow> db \<Rightarrow> db option" where
  "insertVaultRevision r d =
     (if revisionRow (vr_item r) (vr_revision r) d \<noteq> None \<or> vr_revision r = 0 then None
      else Some (d\<lparr> vault_revisions := vault_revisions d @ [r] \<rparr>))"

definition insertRevisionField :: "vault_revision_field_row \<Rightarrow> db \<Rightarrow> db option" where
  "insertRevisionField f d =
     (if existsRow (\<lambda>g. vf_item g = vf_item f \<and> vf_revision g = vf_revision f \<and>
           (vf_field g = vf_field f \<or> vf_key g = vf_key f)) (vault_fields d)
      then None else Some (d\<lparr> vault_fields := vault_fields d @ [f] \<rparr>))"

definition insertVariant :: "vault_variant_row \<Rightarrow> db \<Rightarrow> db option" where
  "insertVariant v d =
     (if existsRow (\<lambda>w. vn_item w = vn_item v \<and> vn_revision w = vn_revision v \<and>
           (vn_variant w = vn_variant v \<or> vn_ordinal w = vn_ordinal v)) (vault_variants d)
      then None else Some (d\<lparr> vault_variants := vault_variants d @ [v] \<rparr>))"

definition insertBinding :: "vault_binding_row \<Rightarrow> db \<Rightarrow> db option" where
  "insertBinding b d =
     (if existsRow (\<lambda>c. vb_item c = vb_item b \<and> vb_revision c = vb_revision b \<and> vb_env c = vb_env b)
           (vault_bindings d)
      then None else Some (d\<lparr> vault_bindings := vault_bindings d @ [b] \<rparr>))"

section \<open>Fields and environments of a snapshot\<close>

record vaultFieldRecord =
  fr_id :: bytes
  fr_key :: string
  fr_name :: string
  fr_type :: string
  fr_active :: bool

definition storedFields :: "bytes \<Rightarrow> db \<Rightarrow> (string \<times> vaultFieldRecord) list" where
  "storedFields i d =
     map (\<lambda>w. (vw_key w, \<lparr> fr_id = vw_id w, fr_key = vw_key w, fr_name = vw_name w, fr_type = vw_type w,
                          fr_active = False \<rparr>))
       (filter (\<lambda>w. vw_item w = i) (vault_item_fields d))"

text \<open>A field keeps its type for ever: \<^const>\<open>None\<close> is the attempt to change one.\<close>

fun requestFields :: "(string \<times> vaultFieldRecord) list \<Rightarrow> Field list \<Rightarrow> vaultFieldRecord list option tx" where
  "requestFields existing [] = tx_return (Some (sort_key fr_key (map snd existing)))"
| "requestFields existing (f # fs) =
     (case map_of existing (fd_key f) of
        Some known \<Rightarrow>
          if fr_type known \<noteq> fd_type f then tx_return None
          else requestFields (mapPut (fd_key f) (known\<lparr> fr_name := fd_name f, fr_active := True \<rparr>) existing) fs
      | None \<Rightarrow>
          tx_bind randomID (\<lambda>i.
            requestFields (mapPut (fd_key f)
              \<lparr> fr_id = i, fr_key = fd_key f, fr_name = fd_name f, fr_type = fd_type f, fr_active = True \<rparr> existing) fs))"

definition prepareVaultFields :: "bytes \<Rightarrow> bool \<Rightarrow> Field list \<Rightarrow> vaultFieldRecord list option tx" where
  "prepareVaultFields i exists requested =
     (if exists then tx_bind (tx_query (storedFields i)) (\<lambda>existing. requestFields existing requested)
      else requestFields [] requested)"

definition currentBindings :: "bytes \<Rightarrow> u64 \<Rightarrow> db \<Rightarrow> (string \<times> string) list" where
  "currentBindings i n d =
     concat (map (\<lambda>b. case environmentKeyOf (vb_env b) d of None \<Rightarrow> [] | Some k \<Rightarrow> [(k, encodeHex (vb_variant b))])
       (filter (\<lambda>b. vb_item b = i \<and> vb_revision b = n) (vault_bindings d)))"

definition requestedBindings :: "Variant list \<Rightarrow> (string \<times> string) list" where
  "requestedBindings variants =
     foldl (\<lambda>m v. foldl (\<lambda>m e. mapPut e (va_id v) m) m (elems (va_envs v))) [] variants"

definition environmentState :: "string \<Rightarrow> db \<Rightarrow> (bytes \<times> bool) option" where
  "environmentState k d =
     map_option (\<lambda>e. (env_id e, env_archived e \<noteq> None)) (find (\<lambda>e. env_key e = k) (environments d))"

text \<open>Archived environments keep the variant they have.\<close>

fun resolveBindings :: "(string \<times> string) list \<Rightarrow> (string \<times> string) list \<Rightarrow> (string \<times> bytes) list \<Rightarrow>
    (string \<times> bytes) list option tx" where
  "resolveBindings bound [] ids = tx_return (Some ids)"
| "resolveBindings bound ((k, v) # rest) ids =
     tx_bind (tx_query (environmentState k)) (\<lambda>state.
       case state of
         None \<Rightarrow> tx_return None
       | Some (i, archived) \<Rightarrow>
           if archived \<and> map_of bound k \<noteq> Some v then tx_return None
           else resolveBindings bound rest (mapPut k i ids))"

fun retainBindings :: "(string \<times> string) list \<Rightarrow> (string \<times> string) list \<Rightarrow> bool tx" where
  "retainBindings requested [] = tx_return True"
| "retainBindings requested ((k, v) # rest) =
     tx_bind (tx_query (environmentState k)) (\<lambda>state.
       case state of
         None \<Rightarrow> tx_fail ErrInternal
       | Some (_, archived) \<Rightarrow>
           if archived \<and> map_of requested k \<noteq> Some v then tx_return False else retainBindings requested rest)"

definition validateVaultEnvironments :: "bytes \<Rightarrow> u64 \<Rightarrow> Variant list \<Rightarrow> (string \<times> bytes) list option tx" where
  "validateVaultEnvironments i latest variants =
     tx_bind (if latest > 0 then tx_query (currentBindings i latest) else tx_return []) (\<lambda>bound.
       let requested = requestedBindings variants in
       tx_bind (resolveBindings bound requested []) (\<lambda>ids.
         case ids of
           None \<Rightarrow> tx_return None
         | Some placed \<Rightarrow>
             tx_bind (retainBindings requested bound) (\<lambda>ok.
               tx_return (if ok then Some placed else None))))"

section \<open>Writing a revision\<close>

definition writeVaultField :: "bytes \<Rightarrow> vaultFieldRecord \<Rightarrow> unit tx" where
  "writeVaultField i f =
     (if fr_active f then
        tx_exec (\<lambda>d. Some (upsertField \<lparr> vw_item = i, vw_id = fr_id f, vw_key = fr_key f, vw_name = fr_name f,
                                         vw_type = fr_type f, vw_archived = None \<rparr> d))
      else tx_bind (tx_env db_now) (\<lambda>at. tx_exec (\<lambda>d. Some (archiveField i (fr_id f) at d))))"

definition writeRevisionField :: "bytes \<Rightarrow> u64 \<Rightarrow> vaultFieldRecord \<Rightarrow> unit tx" where
  "writeRevisionField i n f =
     tx_exec (insertRevisionField \<lparr> vf_item = i, vf_revision = n, vf_field = fr_id f, vf_key = fr_key f,
       vf_name = fr_name f, vf_type = fr_type f, vf_archived = (\<not> fr_active f) \<rparr>)"

definition variantBytes :: "string \<Rightarrow> bytes" where
  "variantBytes v = (case decodeHex v of None \<Rightarrow> [] | Some b \<Rightarrow> b)"

definition writeVariant :: "bytes \<Rightarrow> u64 \<Rightarrow> (string \<times> bytes) list \<Rightarrow> nat \<times> Variant \<Rightarrow> unit tx" where
  "writeVariant i n placed iv =
     (case iv of (index, v) \<Rightarrow>
        tx_bind (tx_exec (insertVariant \<lparr> vn_item = i, vn_revision = n, vn_variant = variantBytes (va_id v),
                                          vn_ordinal = index + 1 \<rparr>)) (\<lambda>_.
        tx_each (\<lambda>e. tx_exec (insertBinding \<lparr> vb_item = i, vb_revision = n, vb_variant = variantBytes (va_id v),
                                vb_env = (case map_of placed e of None \<Rightarrow> [] | Some x \<Rightarrow> x) \<rparr>))
          (elems (va_envs v))))"

definition writeVaultRevisionMetadata ::
  "bytes \<Rightarrow> u64 \<Rightarrow> vaultFieldRecord list \<Rightarrow> Variant list \<Rightarrow> (string \<times> bytes) list \<Rightarrow> unit tx" where
  "writeVaultRevisionMetadata i n shape variants placed =
     tx_bind (tx_each (writeRevisionField i n) shape) (\<lambda>_.
     tx_each (writeVariant i n placed) (List.enumerate 0 variants))"

section \<open>The write of a confined token\<close>

text \<open>Every binding of the revision is granted to the token; a variant without one is not.\<close>

definition allVaultBindingsGranted :: "string \<Rightarrow> bytes \<Rightarrow> u64 \<Rightarrow> db \<Rightarrow> bool" where
  "allVaultBindingsGranted publicID i n d =
     list_all (\<lambda>v.
       (let bindings = filter (\<lambda>b. vb_item b = i \<and> vb_revision b = n \<and> vb_variant b = vn_variant v) (vault_bindings d) in
        bindings \<noteq> [] \<and>
        list_all (\<lambda>b. existsRow (\<lambda>g. te_env g = vb_env b \<and>
            existsRow (\<lambda>t. tk_id t = te_token g \<and> tk_public_id t = publicID) (api_tokens d)) (token_environments d))
          bindings))
       (filter (\<lambda>v. vn_item v = i \<and> vn_revision v = n) (vault_variants d))"

text \<open>The last variant that is bound to the environment.\<close>

fun lastIndex :: "('a \<Rightarrow> bool) \<Rightarrow> 'a list \<Rightarrow> nat option" where
  "lastIndex p [] = None"
| "lastIndex p (x # xs) =
     (case lastIndex p xs of Some i \<Rightarrow> Some (Suc i) | None \<Rightarrow> if p x then Some 0 else None)"

definition mapDelete :: "string \<Rightarrow> (string \<times> 'a) list \<Rightarrow> (string \<times> 'a) list" where
  "mapDelete k m = filter (\<lambda>(k', _). k' \<noteq> k) m"

definition sameMap :: "(string \<times> 'a) list \<Rightarrow> (string \<times> 'a) list \<Rightarrow> bool" where
  "sameMap a b = (list_all (\<lambda>(k, _). map_of a k = map_of b k) a \<and> list_all (\<lambda>(k, _). map_of a k = map_of b k) b)"

fun putField :: "Field \<Rightarrow> Field list \<Rightarrow> Field list" where
  "putField f [] = [f]"
| "putField f (g # gs) = (if fd_key g = fd_key f then f # gs else g # putField f gs)"

text \<open>Every variant holds the shared fields: the values it has, and the given ones for new fields.\<close>

definition alignValues :: "Field list \<Rightarrow> VariantValues \<Rightarrow> VariantValues \<Rightarrow> VariantValues" where
  "alignValues shape values vs =
     foldl (\<lambda>m f. if map_of m (fd_key f) \<noteq> None then m
                  else mapPut (fd_key f) (case map_of values (fd_key f) of None \<Rightarrow> zeroValue | Some x \<Rightarrow> x) m)
       (filter (\<lambda>(k, _). list_ex (\<lambda>f. fd_key f = k) shape) vs) shape"

definition alignVariants :: "Field list \<Rightarrow> VariantValues \<Rightarrow> Variant list \<Rightarrow> Variant list" where
  "alignVariants shape values variants =
     map (\<lambda>v. v\<lparr> va_values := alignValues shape values (va_values v) \<rparr>) variants"

text \<open>The environment's variant takes the values; one it shares with others is split.\<close>

definition placeVariant :: "string \<Rightarrow> nat option \<Rightarrow> VariantValues \<Rightarrow> Variant list \<Rightarrow> Variant list" where
  "placeVariant environment target values variants =
     (let variant = \<lparr> va_id = [], va_envs = Some [environment], va_values = values \<rparr> in
      case target of
        None \<Rightarrow> variants @ [variant]
      | Some t \<Rightarrow>
          (let old = variants ! t in
           if length (elems (va_envs old)) = 1 then variants[t := variant\<lparr> va_id := va_id old \<rparr>]
           else
             variants[t := old\<lparr> va_envs := Some (filter (\<lambda>k. k \<noteq> environment) (elems (va_envs old))) \<rparr>] @ [variant]))"

definition mergeScoped :: "ScopedVaultWrite \<Rightarrow> (bytes \<times> u64) option \<Rightarrow> VaultItem \<Rightarrow> nat option \<Rightarrow>
    Field list \<Rightarrow> VariantValues \<Rightarrow> VaultCommit \<Rightarrow> VaultCommit tx" where
  "mergeScoped w item latest target shape values r =
     (if shape = [] then tx_fail ErrValidation
      else
        (let sorted = sort_key fd_key shape;
             variants = alignVariants sorted values (sn_variants (it_snapshot latest));
             merged = (case target of
                         Some t \<Rightarrow> if sameMap (va_values (variants ! t)) values then variants
                                  else placeVariant (sw_environment w) target values variants
                       | None \<Rightarrow> placeVariant (sw_environment w) target values variants);
             commit = r\<lparr> vc_snapshot := \<lparr> sn_fields = sorted, sn_variants = merged \<rparr> \<rparr>
         in
           case item of
             None \<Rightarrow> tx_return commit
           | Some (i, n) \<Rightarrow>
               if sorted = sn_fields (it_snapshot latest) \<and> vc_name r = it_name latest then tx_return commit
               else
                 tx_bind (tx_query (allVaultBindingsGranted (actorID (sw_actor w)) i n)) (\<lambda>allowed.
                   if allowed then tx_return commit else tx_fail ErrForbidden)))"

definition deleteScopedItem :: "ScopedVaultWrite \<Rightarrow> (bytes \<times> u64) option \<Rightarrow> VaultCommit \<Rightarrow> VaultCommit tx" where
  "deleteScopedItem w item r =
     (case item of
        None \<Rightarrow> tx_fail ErrNotFound
      | Some (i, n) \<Rightarrow>
          tx_bind (tx_query (allVaultBindingsGranted (actorID (sw_actor w)) i n)) (\<lambda>allowed.
            if \<not> allowed then tx_fail ErrForbidden
            else
              tx_bind (tx_env db_now) (\<lambda>at.
              tx_bind (tx_exec (\<lambda>d. Some (markItem i (Some at) d))) (\<lambda>_. tx_return r))))"

definition prepareScopedVault :: "aead \<Rightarrow> LocalKeyProvider \<Rightarrow> ScopedVaultWrite \<Rightarrow> (bytes \<times> u64) option \<Rightarrow>
    VaultCommit \<Rightarrow> VaultCommit tx" where
  "prepareScopedVault A provider w item r =
     tx_bind
       (case item of
          None \<Rightarrow> tx_return \<lparr> it_namespace = [], it_key = [], it_name = vc_name r, it_revision = 0,
                             it_archived = False, it_snapshot = \<lparr> sn_fields = [], sn_variants = [] \<rparr> \<rparr>
        | Some (_, n) \<Rightarrow> readVaultItem A provider (sw_namespace w) (sw_item w) n True) (\<lambda>latest.
       let named = (if item \<noteq> None \<and> sw_name w = [] then r\<lparr> vc_name := it_name latest \<rparr> else r);
           shape = sn_fields (it_snapshot latest);
           variants = sn_variants (it_snapshot latest);
           target = lastIndex (\<lambda>v. sw_environment w \<in> set (elems (va_envs v))) variants;
           values = (case target of None \<Rightarrow> [] | Some t \<Rightarrow> va_values (variants ! t));
           key = fd_key (sw_field w)
       in
         if sw_action w = ''put_item'' then
           mergeScoped w item latest target (sw_fields w) (sw_values w) named
         else if sw_action w = ''put_field'' then
           if \<not> validResourceKey key then tx_fail ErrValidation
           else mergeScoped w item latest target (putField (sw_field w) shape) (mapPut key (sw_value w) values) named
         else if sw_action w = ''delete_field'' then
           if target = None then tx_fail ErrNotFound
           else if \<not> validResourceKey key then tx_fail ErrValidation
           else mergeScoped w item latest target (filter (\<lambda>f. fd_key f \<noteq> key) shape) (mapDelete key values) named
         else if sw_action w = ''delete_item'' then
           if target = None then tx_fail ErrNotFound else deleteScopedItem w item named
         else tx_fail ErrValidation)"

section \<open>The commit\<close>

type_synonym found_item = "bytes \<times> u64 \<times> bool"

definition lockVaultItem :: "string \<Rightarrow> string \<Rightarrow> db \<Rightarrow> found_item option" where
  "lockVaultItem namespace key d =
     map_option (\<lambda>v. (vi_id v, vi_revision v, vi_archived v \<noteq> None)) (vaultRow namespace key d)"

definition environmentBound :: "bytes \<Rightarrow> u64 \<Rightarrow> string \<Rightarrow> db \<Rightarrow> bool" where
  "environmentBound i n k d =
     existsRow (\<lambda>b. vb_item b = i \<and> vb_revision b = n \<and>
       existsRow (\<lambda>e. env_id e = vb_env b \<and> env_key e = k) (environments d)) (vault_bindings d)"

definition creatingVariant :: "VaultCommit \<Rightarrow> found_item option \<Rightarrow> bool tx" where
  "creatingVariant r existing =
     (case (vc_scoped r, existing) of
        (Some w, Some (i, n, _)) \<Rightarrow>
          if vc_expected r = 0 \<and> (sw_action w = ''put_item'' \<or> sw_action w = ''put_field'')
          then tx_query (\<lambda>d. \<not> environmentBound i n (sw_environment w) d)
          else tx_return False
      | _ \<Rightarrow> tx_return False)"

fun assignIDs :: "Variant list \<Rightarrow> Variant list tx" where
  "assignIDs [] = tx_return []"
| "assignIDs (v # vs) =
     tx_bind (if va_id v = [] then tx_bind randomID (\<lambda>i. tx_return (v\<lparr> va_id := encodeHex i \<rparr>)) else tx_return v) (\<lambda>v'.
     tx_bind (assignIDs vs) (\<lambda>vs'. tx_return (v' # vs')))"

definition unchangedSnapshot :: "aead \<Rightarrow> LocalKeyProvider \<Rightarrow> VaultCommit \<Rightarrow> bytes \<Rightarrow> u64 \<Rightarrow> Encoded \<Rightarrow> bool tx" where
  "unchangedSnapshot A provider r i latest encoded =
     (if latest = 0 then tx_return False
      else
        tx_bind (currentVaultSnapshot A provider i latest) (\<lambda>(plaintext, structure).
        tx_bind (tx_query (revisionRow i latest)) (\<lambda>row.
          case row of
            None \<Rightarrow> tx_fail ErrInternal
          | Some v \<Rightarrow> tx_return (vr_name v = vc_name r \<and> structure = StructureSHA256 encoded \<and>
                                plaintext = Plaintext encoded))))"

definition sortedVariantIDs :: "VaultCommit \<Rightarrow> Variant list \<Rightarrow> string list" where
  "sortedVariantIDs r variants = (if actorType (vc_actor r) = ''token'' then [] else sort (map va_id variants))"

definition storeVault :: "aead \<Rightarrow> LocalKeyProvider \<Rightarrow> VaultCommit \<Rightarrow> bytes \<Rightarrow> (bytes \<times> u64) option \<Rightarrow> u64 \<Rightarrow>
    Encoded \<Rightarrow> vaultFieldRecord list \<Rightarrow> Variant list \<Rightarrow> (string \<times> bytes) list \<Rightarrow> unit tx" where
  "storeVault A provider r i item n encoded shape variants placed =
     tx_bind (sealing (\<lambda>R t. EncryptSnapshot A R t provider \<lparr> ItemID = encodeHex i, Revision = n \<rparr> (Plaintext encoded)))
       (\<lambda>encrypted.
     tx_bind (if item = None
              then tx_exec (insertItem \<lparr> vi_id = i, vi_namespace = vc_namespace r, vi_key = vc_item r,
                     vi_name = vc_name r, vi_revision = n, vi_archived = None \<rparr>)
              else tx_return ()) (\<lambda>_.
     tx_bind (tx_each (writeVaultField i) shape) (\<lambda>_.
     tx_bind (tx_exec (insertVaultRevision
        \<lparr> vr_item = i, vr_revision = n, vr_name = vc_name r, vr_structure = StructureSHA256 encoded,
          vr_snapshot = encrypted, vr_operation = vc_operation r, vr_actor = vc_actor r,
          vr_restored = nullableRevision (vc_restored r) \<rparr>)) (\<lambda>_.
     tx_bind (writeVaultRevisionMetadata i n shape variants placed) (\<lambda>_.
       if item = None then tx_return () else tx_exec (advanceItem i (vc_name r) n))))))"

text \<open>From the checked snapshot on: nothing to do, or the next revision.\<close>

definition commitEncoded :: "aead \<Rightarrow> LocalKeyProvider \<Rightarrow> VaultCommit \<Rightarrow> bytes \<Rightarrow> (bytes \<times> u64) option \<Rightarrow> u64 \<Rightarrow>
    Encoded \<Rightarrow> vaultFieldRecord list \<Rightarrow> Variant list \<Rightarrow> (string \<times> bytes) list \<Rightarrow>
    (VaultCommitResult \<times> err option) tx" where
  "commitEncoded A provider r i item latest encoded shape variants placed =
     tx_bind (unchangedSnapshot A provider r i latest encoded) (\<lambda>same.
       if same then
         finishVault r \<lparr> vm_outcome = OutcomeNoChange, vm_revision = latest,
                         vm_variants = sortedVariantIDs r variants \<rparr> ''vault.no_change'' False
       else
         tx_bind (storeVault A provider r i item (latest + 1) encoded shape variants placed) (\<lambda>_.
           finishVault r \<lparr> vm_outcome = OutcomeSuccess, vm_revision = latest + 1,
                           vm_variants = sortedVariantIDs r variants \<rparr>
             (if vc_success r \<noteq> [] then vc_success r
              else if latest = 0 then ''vault.created'' else ''vault.updated'') True))"

definition commitSnapshot :: "aead \<Rightarrow> LocalKeyProvider \<Rightarrow> VaultCommit \<Rightarrow> (bytes \<times> u64) option \<Rightarrow>
    (VaultCommitResult \<times> err option) tx" where
  "commitSnapshot A provider r item =
     (let latest = (case item of None \<Rightarrow> 0 | Some (_, n) \<Rightarrow> n) in
      tx_bind (case item of None \<Rightarrow> randomID | Some (i, _) \<Rightarrow> tx_return i) (\<lambda>i.
      tx_bind (assignIDs (sn_variants (vc_snapshot r))) (\<lambda>variants.
      tx_bind (tx_env sha256) (\<lambda>sha.
        case Encode sha ((vc_snapshot r)\<lparr> sn_variants := variants \<rparr>) of
          None \<Rightarrow> finishVaultFailure r OutcomeValidationFailed ''vault.validation_failed''
        | Some encoded \<Rightarrow>
            tx_bind (prepareVaultFields i (item \<noteq> None) (sn_fields (vc_snapshot r))) (\<lambda>prepared.
              case prepared of
                None \<Rightarrow> finishVaultFailure r OutcomeValidationFailed ''vault.field_type_immutable''
              | Some shape \<Rightarrow>
                  tx_bind (validateVaultEnvironments i latest variants) (\<lambda>resolved.
                    case resolved of
                      None \<Rightarrow> finishVaultFailure r OutcomeValidationFailed ''vault.environment_invalid''
                    | Some placed \<Rightarrow>
                        commitEncoded A provider r i item latest encoded shape variants placed))))))"

definition vaultFound :: "aead \<Rightarrow> LocalKeyProvider \<Rightarrow> VaultCommit \<Rightarrow> found_item option \<Rightarrow>
    (VaultCommitResult \<times> err option) tx" where
  "vaultFound A provider r existing =
     (let latest = (case existing of None \<Rightarrow> 0 | Some (_, n, _) \<Rightarrow> n);
          item = map_option (\<lambda>(i, n, _). (i, n)) existing
      in
        if (case existing of Some (_, _, archived) \<Rightarrow> archived | None \<Rightarrow> False)
        then finishVaultFailure r OutcomeValidationFailed ''vault.archived''
        else
          tx_bind (creatingVariant r existing) (\<lambda>creating.
            if vc_expected r \<noteq> latest \<and> \<not> creating then finishVaultFailure r OutcomeConflict ''vault.conflict''
            else
              (case vc_scoped r of
                 None \<Rightarrow> commitSnapshot A provider r item
               | Some w \<Rightarrow>
                   tx_bind (prepareScopedVault A provider w item r) (\<lambda>prepared.
                     if sw_action w = ''delete_item'' then
                       finishVault prepared \<lparr> vm_outcome = OutcomeSuccess, vm_revision = latest, vm_variants = [] \<rparr>
                         ''vault.archived'' True
                     else commitSnapshot A provider prepared item))))"

definition vaultBody :: "aead \<Rightarrow> LocalKeyProvider \<Rightarrow> VaultCommit \<Rightarrow> (VaultCommitResult \<times> err option) tx" where
  "vaultBody A provider r =
     (if vc_invalid r \<or> \<not> validateVaultCommit r
      then finishVaultFailure r OutcomeValidationFailed ''vault.validation_failed''
      else
        tx_bind (tx_query (lockVaultItem (vc_namespace r) (vc_item r))) (vaultFound A provider r))"

definition authorizeVault :: "VaultCommit \<Rightarrow> unit tx" where
  "authorizeVault r =
     (if actorType (vc_actor r) \<noteq> ''token'' then tx_return ()
      else
        (case vc_scoped r of
           None \<Rightarrow> tx_fail ErrForbidden
         | Some w \<Rightarrow>
             tx_bind (authorizeScopedWrite (vc_actor r) (sw_environment w) [] (vc_namespace r)) (\<lambda>_. tx_return ())))"

definition vaultRequestDigest :: "env \<Rightarrow> VaultCommit \<Rightarrow> bytes" where
  "vaultRequestDigest env r = (case vc_digest r of Some dg \<Rightarrow> dg | None \<Rightarrow> vaultCommitDigest env r)"

definition CommitVault :: "aead \<Rightarrow> LocalKeyProvider \<Rightarrow> VaultCommit \<Rightarrow> env \<Rightarrow> db \<Rightarrow>
    (err + VaultCommitResult \<times> err option) \<times> db" where
  "CommitVault A provider r env d =
     (if \<not> validOperationID (vc_operation r) \<or> \<not> validScopedActor (vc_actor r) then (Inl ErrValidation, d)
      else
        run_tx
          (tx_bind (lockMasterKey A provider) (\<lambda>_.
           tx_bind (authorizeVault r) (\<lambda>_.
             journaled (vc_operation r) (vaultRequestDigest env r) (vc_actor r) [] replayVaultResult
               (vaultBody A provider r)))) env d)"

section \<open>Restore\<close>

definition restoreCommit :: "env \<Rightarrow> VaultRestore \<Rightarrow> VaultCommit" where
  "restoreCommit env r =
     \<lparr> vc_operation = vo_operation r, vc_actor = vo_actor r, vc_namespace = vo_namespace r, vc_item = vo_item r,
       vc_name = [], vc_expected = vo_expected r, vc_snapshot = \<lparr> sn_fields = [], sn_variants = [] \<rparr>,
       vc_digest = Some (vaultRestoreDigest env r), vc_invalid = False, vc_action = ''restore'',
       vc_success = ''vault.restored'', vc_restored = vo_source r, vc_scoped = None \<rparr>"

text \<open>The source is read first, from the tables as they are then.\<close>

definition RestoreVault :: "aead \<Rightarrow> LocalKeyProvider \<Rightarrow> VaultRestore \<Rightarrow> env \<Rightarrow> db \<Rightarrow> env \<Rightarrow> db \<Rightarrow>
    (err + VaultCommitResult \<times> err option) \<times> db" where
  "RestoreVault A provider r reading seen env d =
     (if \<not> validOperationID (vo_operation r) \<or> \<not> validActor (vo_actor r) then (Inl ErrValidation, d)
      else
        let commit = restoreCommit env r;
            invalid = CommitVault A provider (commit\<lparr> vc_invalid := True \<rparr>) env d
        in
          if \<not> validResourceKey (vo_namespace r) \<or> \<not> validResourceKey (vo_item r) \<or> vo_source r = 0 then invalid
          else
            (case fst (run_tx (ReadVaultItem A provider (vo_namespace r) (vo_item r) (vo_source r) True) reading seen) of
               Inl e \<Rightarrow> if isErr ErrNotFound e then invalid else (Inl e, d)
             | Inr source \<Rightarrow>
                 CommitVault A provider
                   (commit\<lparr> vc_name := it_name source, vc_snapshot := it_snapshot source \<rparr>) env d))"

section \<open>Confined writes\<close>

definition scopedCommit :: "env \<Rightarrow> ScopedVaultWrite \<Rightarrow> VaultCommit" where
  "scopedCommit env w =
     \<lparr> vc_operation = sw_operation w, vc_actor = sw_actor w, vc_namespace = sw_namespace w, vc_item = sw_item w,
       vc_name = (if sw_name w = [] then sw_item w else sw_name w), vc_expected = sw_expected w,
       vc_snapshot = \<lparr> sn_fields = [], sn_variants = [] \<rparr>, vc_digest = Some (scopedVaultDigest env w),
       vc_invalid = False, vc_action = sw_action w, vc_success = [], vc_restored = 0, vc_scoped = Some w \<rparr>"

definition WriteScopedVault :: "aead \<Rightarrow> LocalKeyProvider \<Rightarrow> ScopedVaultWrite \<Rightarrow> env \<Rightarrow> db \<Rightarrow>
    (err + VaultCommitResult \<times> err option) \<times> db" where
  "WriteScopedVault A provider w env d =
     (if actorType (sw_actor w) \<noteq> ''token'' \<or> \<not> validResourceKey (sw_environment w) then (Inl ErrValidation, d)
      else CommitVault A provider (scopedCommit env w) env d)"

section \<open>Archiving\<close>

record VaultLifecycleChange =
  vl_operation :: string
  vl_actor :: actor
  vl_action :: string
  vl_namespace :: string
  vl_key :: string

record VaultLifecycleResult =
  vz_outcome :: Outcome
  vz_namespace :: string
  vz_key :: string
  vz_archived :: bool

definition VaultArchive :: string where "VaultArchive = ''archive''"
definition VaultUnarchive :: string where "VaultUnarchive = ''unarchive''"

definition vaultLifecycleDigest :: "env \<Rightarrow> VaultLifecycleChange \<Rightarrow> bytes" where
  "vaultLifecycleDigest env r =
     sha256 env (compactJSON (JObj
       [(''OperationID'', JStr (vl_operation r)), (''Actor'', actorJSON (vl_actor r)),
        (''Action'', JStr (vl_action r)), (''NamespaceKey'', JStr (vl_namespace r)), (''Key'', JStr (vl_key r))]))"

definition vaultLifecycleJSON :: "VaultLifecycleResult \<Rightarrow> json" where
  "vaultLifecycleJSON r =
     JObj [(''outcome'', JStr (outcomeText (vz_outcome r))), (''namespace_key'', JStr (jsonText (vz_namespace r))),
           (''key'', JStr (jsonText (vz_key r))), (''archived'', JBool (vz_archived r))]"

definition vaultLifecycleOf :: "json \<Rightarrow> VaultLifecycleResult option" where
  "vaultLifecycleOf v =
     (case (isObject v, outcomeOf (member ''outcome'' v), asString (member ''namespace_key'' v),
            asString (member ''key'' v), asBool (member ''archived'' v)) of
        (True, Some out, Some n, Some k, Some a) \<Rightarrow>
          Some \<lparr> vz_outcome = out, vz_namespace = n, vz_key = k, vz_archived = a \<rparr>
      | _ \<Rightarrow> None)"

definition replayVaultLifecycle :: "operationReplay \<Rightarrow> err + VaultLifecycleResult \<times> err option" where
  "replayVaultLifecycle rp =
     (case vaultLifecycleOf (replayResponse rp) of
        None \<Rightarrow> Inl ErrInternal
      | Some previous \<Rightarrow>
          if vz_outcome previous \<noteq> replayOutcome rp then Inl ErrInternal
          else Inr (previous, outcomeError (vz_outcome previous)))"

definition vaultLifecycleEvent :: "VaultLifecycleChange \<Rightarrow> string \<Rightarrow> mutationEvent" where
  "vaultLifecycleEvent r eventType =
     \<lparr> me_field = [], me_type = eventType, me_action = ''vault.'' @ vl_action r, me_environment = [],
       me_namespace = vl_namespace r, me_resource_type = ''vault_item'', me_resource_key = vl_key r \<rparr>"

definition finishVaultLifecycle :: "VaultLifecycleChange \<Rightarrow> Outcome \<Rightarrow> bool \<Rightarrow> string \<Rightarrow> err option \<Rightarrow>
    (VaultLifecycleResult \<times> err option) tx" where
  "finishVaultLifecycle r out archived eventType failure =
     (let res = \<lparr> vz_outcome = out, vz_namespace = vl_namespace r, vz_key = vl_key r, vz_archived = archived \<rparr> in
      tx_bind (finishOperation (vl_operation r) (vl_actor r) out 0 (vaultLifecycleJSON res)
                 (vaultLifecycleEvent r eventType) (out = OutcomeSuccess)) (\<lambda>_.
        commitWith res (withCommittedAudit failure)))"

definition vaultLifecycleBody :: "VaultLifecycleChange \<Rightarrow> (VaultLifecycleResult \<times> err option) tx" where
  "vaultLifecycleBody r =
     (if \<not> validResourceKey (vl_namespace r) \<or> \<not> validResourceKey (vl_key r) \<or>
         (vl_action r \<noteq> VaultArchive \<and> vl_action r \<noteq> VaultUnarchive)
      then finishVaultLifecycle r OutcomeValidationFailed False ''vault.validation_failed'' (Some ErrValidation)
      else
        tx_bind (tx_query (vaultRow (vl_namespace r) (vl_key r))) (\<lambda>row.
          case row of
            None \<Rightarrow> finishVaultLifecycle r OutcomeValidationFailed False ''vault.not_found'' (Some ErrValidation)
          | Some v \<Rightarrow>
              if vl_action r = VaultArchive then
                if vi_archived v = None then
                  tx_bind (tx_env db_now) (\<lambda>at.
                  tx_bind (tx_exec (\<lambda>d. Some (markItem (vi_id v) (Some at) d))) (\<lambda>_.
                    finishVaultLifecycle r OutcomeSuccess True ''vault.archived'' None))
                else finishVaultLifecycle r OutcomeNoChange True ''vault.archived'' None
              else if vi_archived v \<noteq> None then
                tx_bind (tx_exec (\<lambda>d. Some (markItem (vi_id v) None d))) (\<lambda>_.
                  finishVaultLifecycle r OutcomeSuccess False ''vault.unarchived'' None)
              else finishVaultLifecycle r OutcomeNoChange False ''vault.unarchived'' None))"

definition ApplyVaultLifecycleChange :: "VaultLifecycleChange \<Rightarrow> env \<Rightarrow> db \<Rightarrow>
    (err + VaultLifecycleResult \<times> err option) \<times> db" where
  "ApplyVaultLifecycleChange r env d =
     (if \<not> validOperationID (vl_operation r) \<or> \<not> validActor (vl_actor r) then (Inl ErrValidation, d)
      else
        run_tx (journaled (vl_operation r) (vaultLifecycleDigest env r) (vl_actor r) []
          replayVaultLifecycle (vaultLifecycleBody r)) env d)"

end
