(* ===== verification/VaultLaws.thy ===== *)
theory VaultLaws
  imports VaultCommits MachineLaws
begin

text \<open>
  What the mutations of Vault items do to the tables: they take effect as a whole or not at all, a
  revision is appended with its fields, variants and bindings and nothing stored before changes,
  and what was committed is what the machine reads serve.
\<close>

section \<open>All or nothing\<close>

lemma quiet_requestFields [quiet_intros]: "quiet (requestFields m fs)"
  by (induction m fs rule: requestFields.induct)
    (auto simp: randomID_def intro!: quiet_intros split: option.splits)

lemma steady_requestFields [steady_intros]: "steady (requestFields m fs)"
  by (induction m fs rule: requestFields.induct)
    (auto simp: randomID_def intro!: steady_intros split: option.splits)

lemma preserves_requestFields [preserves_intros]: "preserves P (requestFields m fs)"
  by (induction m fs rule: requestFields.induct)
    (auto simp: randomID_def intro!: preserves_intros split: option.splits)

lemma quiet_resolveBindings [quiet_intros]: "quiet (resolveBindings b r ids)"
  by (induction b r ids rule: resolveBindings.induct) (auto intro!: quiet_intros)

lemma steady_resolveBindings [steady_intros]: "steady (resolveBindings b r ids)"
  by (induction b r ids rule: resolveBindings.induct) (auto intro!: steady_intros)

lemma preserves_resolveBindings [preserves_intros]: "preserves P (resolveBindings b r ids)"
  by (induction b r ids rule: resolveBindings.induct) (auto intro!: preserves_intros)

lemma quiet_retainBindings [quiet_intros]: "quiet (retainBindings q b)"
  by (induction q b rule: retainBindings.induct) (auto intro!: quiet_intros)

lemma steady_retainBindings [steady_intros]: "steady (retainBindings q b)"
  by (induction q b rule: retainBindings.induct) (auto intro!: steady_intros)

lemma preserves_retainBindings [preserves_intros]: "preserves P (retainBindings q b)"
  by (induction q b rule: retainBindings.induct) (auto intro!: preserves_intros)

lemma quiet_assignIDs [quiet_intros]: "quiet (assignIDs vs)"
  by (induction vs rule: assignIDs.induct) (auto simp: randomID_def intro!: quiet_intros)

lemma steady_assignIDs [steady_intros]: "steady (assignIDs vs)"
  by (induction vs rule: assignIDs.induct) (auto simp: randomID_def intro!: steady_intros)

lemma preserves_assignIDs [preserves_intros]: "preserves P (assignIDs vs)"
  by (induction vs rule: assignIDs.induct) (auto simp: randomID_def intro!: preserves_intros)

lemmas vault_reading = readVaultItem_def prepareVaultFields_def validateVaultEnvironments_def
  creatingVariant_def unchangedSnapshot_def Let_def randomID_def

lemma quiet_currentVaultSnapshot [quiet_intros]: "quiet (currentVaultSnapshot A p i n)"
  unfolding currentVaultSnapshot_def by (intro quiet_intros)

lemma steady_currentVaultSnapshot [steady_intros]: "steady (currentVaultSnapshot A p i n)"
  unfolding currentVaultSnapshot_def by (intro steady_intros)

lemma preserves_currentVaultSnapshot [preserves_intros]: "preserves P (currentVaultSnapshot A p i n)"
  unfolding currentVaultSnapshot_def by (intro preserves_intros)

lemma quiet_reading [quiet_intros]:
  "quiet (readVaultItem A p ns k n b)" "quiet (prepareVaultFields i x fs)"
  "quiet (validateVaultEnvironments i n vs)" "quiet (creatingVariant r f)"
  "quiet (unchangedSnapshot A p r i n e)" "quiet randomID"
  unfolding vault_reading by (intro quiet_intros)+

lemma steady_reading [steady_intros]:
  "steady (readVaultItem A p ns k n b)" "steady (prepareVaultFields i x fs)"
  "steady (validateVaultEnvironments i n vs)" "steady (creatingVariant r f)"
  "steady (unchangedSnapshot A p r i n e)" "steady randomID"
  unfolding vault_reading by (intro steady_intros)+

lemma preserves_reading [preserves_intros]:
  "preserves P (readVaultItem A p ns k n b)" "preserves P (prepareVaultFields i x fs)"
  "preserves P (validateVaultEnvironments i n vs)" "preserves P (creatingVariant r f)"
  "preserves P (unchangedSnapshot A p r i n e)" "preserves P randomID"
  unfolding vault_reading by (intro preserves_intros)+

lemma quiet_prepareScoped [quiet_intros]: "quiet (prepareScopedVault A p w item r)"
  unfolding prepareScopedVault_def mergeScoped_def deleteScopedItem_def Let_def by (intro quiet_intros)

lemma steady_prepareScoped [steady_intros]: "steady (prepareScopedVault A p w item r)"
  unfolding prepareScopedVault_def mergeScoped_def deleteScopedItem_def Let_def by (intro steady_intros) simp

lemma quiet_storeVault [quiet_intros]: "quiet (storeVault A p r i item n e fs vs ids)"
  unfolding storeVault_def writeVaultField_def writeVaultRevisionMetadata_def writeRevisionField_def writeVariant_def
  by (intro quiet_intros)

lemma steady_storeVault [steady_intros]: "steady (storeVault A p r i item n e fs vs ids)"
  unfolding storeVault_def writeVaultField_def writeVaultRevisionMetadata_def writeRevisionField_def writeVariant_def
  by (intro steady_intros) simp

lemma atomic_finishVault [atomic_intros]:
  "atomic (finishVault r res t n)" "atomic (finishVaultFailure r out t)"
  unfolding finishVault_def finishVaultFailure_def finishVaultOperation_def Let_def
  by (intro atomic_intros quiet_intros steady_intros)+

lemma steady_finishVault [steady_intros]:
  "steady (finishVault r res t n)" "steady (finishVaultFailure r out t)"
  unfolding finishVault_def finishVaultFailure_def finishVaultOperation_def Let_def
  by (intro steady_intros)+

lemma atomic_vaultBody [atomic_intros]: "atomic (vaultBody A p r)"
  unfolding vaultBody_def vaultFound_def commitSnapshot_def commitEncoded_def Let_def
  by (intro atomic_intros quiet_intros steady_intros) simp_all

lemma steady_vaultBody [steady_intros]: "steady (vaultBody A p r)"
  unfolding vaultBody_def vaultFound_def commitSnapshot_def commitEncoded_def Let_def
  by (intro steady_intros) simp_all

lemma quiet_authorizeVault [quiet_intros]: "quiet (authorizeVault r)"
  unfolding authorizeVault_def by (intro quiet_intros)

lemma steady_authorizeVault [steady_intros]: "steady (authorizeVault r)"
  unfolding authorizeVault_def by (intro steady_intros)

lemma CommitVault_atomic: "allOrNothing (CommitVault A p r)"
  unfolding CommitVault_def
  by (intro allOrNothing_guard allOrNothing_env atomic_intros steady_intros quiet_intros)
    (simp add: vaultRequestDigest_def vaultCommitDigest_def split: option.split)

lemmas vaultLifecycle_bodies = vaultLifecycleBody_def finishVaultLifecycle_def Let_def

lemma atomic_vaultLifecycle: "atomic (vaultLifecycleBody r)"
  unfolding vaultLifecycle_bodies by (intro atomic_intros quiet_intros steady_intros) simp_all

lemma steady_vaultLifecycle: "steady (vaultLifecycleBody r)"
  unfolding vaultLifecycle_bodies by (intro steady_intros) simp_all

lemma ApplyVaultLifecycleChange_atomic: "allOrNothing (ApplyVaultLifecycleChange r)"
  unfolding ApplyVaultLifecycleChange_def
  by (intro allOrNothing_guard allOrNothing_env atomic_journaled steady_journaled
      atomic_vaultLifecycle steady_vaultLifecycle) (simp add: vaultLifecycleDigest_def)

section \<open>What is written\<close>

lemma each_effect:
  assumes "\<And>x s s'. m x env s = (Inr (), s') \<Longrightarrow> work s' = F [x] (work s) \<and> durable s' = durable s"
    and "\<And>d. F [] d = d" and "\<And>x xs d. F (x # xs) d = F xs (F [x] d)"
  shows "tx_each m xs env s = (Inr (), s') \<Longrightarrow> work s' = F xs (work s) \<and> durable s' = durable s"
proof (induction xs arbitrary: s)
  case Nil
  then show ?case using assms(2) by simp
next
  case (Cons x xs)
  then obtain s1 where "m x env s = (Inr (), s1)" "tx_each m xs env s1 = (Inr (), s')"
    by (auto simp: tx_bind_Inr)
  then show ?case using Cons.IH [of s1] assms(1) [of x s s1] assms(3) [of x xs "work s"] by simp
qed

definition fieldRow :: "bytes \<Rightarrow> u64 \<Rightarrow> vaultFieldRecord \<Rightarrow> vault_revision_field_row" where
  "fieldRow i n f =
     \<lparr> vf_item = i, vf_revision = n, vf_field = fr_id f, vf_key = fr_key f,
       vf_name = fr_name f, vf_type = fr_type f, vf_archived = (\<not> fr_active f) \<rparr>"

definition variantRow :: "bytes \<Rightarrow> u64 \<Rightarrow> nat \<times> Variant \<Rightarrow> vault_variant_row" where
  "variantRow i n jv =
     \<lparr> vn_item = i, vn_revision = n, vn_variant = variantBytes (va_id (snd jv)), vn_ordinal = fst jv + 1 \<rparr>"

definition bindingRows :: "bytes \<Rightarrow> u64 \<Rightarrow> (string \<times> bytes) list \<Rightarrow> Variant \<Rightarrow> vault_binding_row list" where
  "bindingRows i n placed v =
     map (\<lambda>e. \<lparr> vb_item = i, vb_revision = n, vb_variant = variantBytes (va_id v),
                vb_env = (case map_of placed e of None \<Rightarrow> [] | Some x \<Rightarrow> x) \<rparr>) (elems (va_envs v))"

lemma writeFields_effect:
  "tx_each (writeRevisionField i n) fs env s = (Inr (), s') \<Longrightarrow>
    work s' = (work s)\<lparr> vault_fields := vault_fields (work s) @ map (fieldRow i n) fs \<rparr> \<and> durable s' = durable s"
  by (rule each_effect [where F = "\<lambda>fs d. d\<lparr> vault_fields := vault_fields d @ map (fieldRow i n) fs \<rparr>"])
    (auto simp: writeRevisionField_def insertRevisionField_def fieldRow_def tx_Inr split: if_splits)

lemma writeBindings_effect:
  "tx_each (\<lambda>e. tx_exec (insertBinding \<lparr> vb_item = i, vb_revision = n, vb_variant = v, vb_env = f e \<rparr>)) es env s =
      (Inr (), s') \<Longrightarrow>
    work s' = (work s)\<lparr> vault_bindings := vault_bindings (work s) @
       map (\<lambda>e. \<lparr> vb_item = i, vb_revision = n, vb_variant = v, vb_env = f e \<rparr>) es \<rparr> \<and> durable s' = durable s"
  by (rule each_effect [where F = "\<lambda>es d. d\<lparr> vault_bindings := vault_bindings d @
       map (\<lambda>e. \<lparr> vb_item = i, vb_revision = n, vb_variant = v, vb_env = f e \<rparr>) es \<rparr>"])
    (auto simp: insertBinding_def tx_Inr split: if_splits)

lemma writeVariants_effect:
  "tx_each (writeVariant i n placed) jvs env s = (Inr (), s') \<Longrightarrow>
    work s' = (work s)\<lparr> vault_variants := vault_variants (work s) @ map (variantRow i n) jvs,
      vault_bindings := vault_bindings (work s) @ concat (map (bindingRows i n placed \<circ> snd) jvs) \<rparr> \<and>
    durable s' = durable s"
proof (rule each_effect [where F = "\<lambda>jvs d. d\<lparr> vault_variants := vault_variants d @ map (variantRow i n) jvs,
      vault_bindings := vault_bindings d @ concat (map (bindingRows i n placed \<circ> snd) jvs) \<rparr>"])
  fix x s s'
  assume run: "writeVariant i n placed x env s = (Inr (), s')"
  obtain j v where x: "x = (j, v)" by fastforce
  obtain s1 where "tx_exec (insertVariant (variantRow i n x)) env s = (Inr (), s1)"
    and rest: "tx_each (\<lambda>e. tx_exec (insertBinding \<lparr> vb_item = i, vb_revision = n,
         vb_variant = variantBytes (va_id v), vb_env = (case map_of placed e of None \<Rightarrow> [] | Some x \<Rightarrow> x) \<rparr>))
       (elems (va_envs v)) env s1 = (Inr (), s')"
    using run x by (auto simp: writeVariant_def variantRow_def tx_bind_Inr)
  then have "work s1 = (work s)\<lparr> vault_variants := vault_variants (work s) @ [variantRow i n x] \<rparr> \<and> durable s1 = durable s"
    by (auto simp: insertVariant_def tx_Inr split: if_splits)
  then show "work s' = (work s)\<lparr> vault_variants := vault_variants (work s) @ map (variantRow i n) [x],
      vault_bindings := vault_bindings (work s) @ concat (map (bindingRows i n placed \<circ> snd) [x]) \<rparr> \<and>
    durable s' = durable s"
    using writeBindings_effect [OF rest] x by (simp add: bindingRows_def)
qed simp_all

text \<open>The fields of the item are kept aside: no other statement depends on them.\<close>

lemma itemField_frames:
  "\<exists>rows. upsertField f d = d\<lparr> vault_item_fields := rows \<rparr>"
  "\<exists>rows. archiveField i k at d = d\<lparr> vault_item_fields := rows \<rparr>"
  unfolding upsertField_def archiveField_def Let_def by (auto intro: exI [of _ "vault_item_fields (archiveField i k at d)"])

lemma writeItemFields_effect:
  "tx_each (writeVaultField i) fs env s = (Inr (), s') \<Longrightarrow>
    \<exists>rows. work s' = (work s)\<lparr> vault_item_fields := rows \<rparr> \<and> durable s' = durable s"
proof (induction fs arbitrary: s)
  case Nil
  then show ?case by (intro exI [of _ "vault_item_fields (work s)"]) simp
next
  case (Cons f fs)
  then obtain s1 where 1: "writeVaultField i f env s = (Inr (), s1)"
    and rest: "tx_each (writeVaultField i) fs env s1 = (Inr (), s')" by (auto simp: tx_bind_Inr)
  have "\<exists>d. work s1 = d \<and> durable s1 = durable s \<and> (\<exists>rows. d = (work s)\<lparr> vault_item_fields := rows \<rparr>)"
    using 1 itemField_frames
    by (cases "fr_active f") (simp_all add: writeVaultField_def tx_bind_Inr tx_exec_Inr)
  then have "\<exists>rows. work s1 = (work s)\<lparr> vault_item_fields := rows \<rparr> \<and> durable s1 = durable s" by blast
  moreover obtain rows where "work s' = (work s1)\<lparr> vault_item_fields := rows \<rparr>" "durable s' = durable s1"
    using Cons.IH [OF rest] by blast
  ultimately show ?case by force
qed

definition newItem :: "VaultCommit \<Rightarrow> bytes \<Rightarrow> u64 \<Rightarrow> vault_item_row" where
  "newItem r i n =
     \<lparr> vi_id = i, vi_namespace = vc_namespace r, vi_key = vc_item r, vi_name = vc_name r, vi_revision = n,
       vi_archived = None \<rparr>"

definition itemsAfter :: "VaultCommit \<Rightarrow> bytes \<Rightarrow> (bytes \<times> u64) option \<Rightarrow> u64 \<Rightarrow> vault_item_row list \<Rightarrow> vault_item_row list" where
  "itemsAfter r i item n rows =
     (if item = None then rows @ [newItem r i n]
      else updateWhere (\<lambda>v. vi_id v = i) (\<lambda>v. v\<lparr> vi_name := vc_name r, vi_revision := n \<rparr>) rows)"

definition revisionAfter :: "VaultCommit \<Rightarrow> bytes \<Rightarrow> u64 \<Rightarrow> Encoded \<Rightarrow> EncryptedSnapshot \<Rightarrow> vault_revision_row" where
  "revisionAfter r i n encoded encrypted =
     \<lparr> vr_item = i, vr_revision = n, vr_name = vc_name r, vr_structure = StructureSHA256 encoded,
       vr_snapshot = encrypted, vr_operation = vc_operation r, vr_actor = vc_actor r,
       vr_restored = nullableRevision (vc_restored r) \<rparr>"

text \<open>The tables after a revision was appended; the rows of the item's fields are some rows.\<close>

definition appendedVault :: "VaultCommit \<Rightarrow> bytes \<Rightarrow> (bytes \<times> u64) option \<Rightarrow> u64 \<Rightarrow> vault_revision_row \<Rightarrow>
    vaultFieldRecord list \<Rightarrow> Variant list \<Rightarrow> (string \<times> bytes) list \<Rightarrow> vault_field_row list \<Rightarrow> db \<Rightarrow> db" where
  "appendedVault r i item n row shape variants placed rows d =
     d\<lparr> vault_items := itemsAfter r i item n (vault_items d),
        vault_revisions := vault_revisions d @ [row],
        vault_fields := vault_fields d @ map (fieldRow i n) shape,
        vault_variants := vault_variants d @ map (variantRow i n) (List.enumerate 0 variants),
        vault_bindings := vault_bindings d @ concat (map (bindingRows i n placed) variants),
        vault_item_fields := rows \<rparr>"

lemma bindings_enumerate:
  "map (bindingRows i n placed \<circ> snd) (List.enumerate k variants) = map (bindingRows i n placed) variants"
  by (metis map_map map_snd_enumerate)

lemma storeVault_effect:
  assumes "storeVault A p r i item n encoded shape variants placed env s = (Inr (), s')"
  obtains encrypted t rows where
    "EncryptSnapshot A (rand env) t p \<lparr> ItemID = encodeHex i, Revision = n \<rparr> (Plaintext encoded) = Inr encrypted"
    "work s' = appendedVault r i item n (revisionAfter r i n encoded encrypted) shape variants placed rows (work s)"
    "durable s' = durable s" "n \<noteq> 0" "revisionRow i n (work s) = None"
    "item = None \<Longrightarrow> i \<notin> vi_id ` set (vault_items (work s)) \<and> vaultRow (vc_namespace r) (vc_item r) (work s) = None"
proof -
  let ?row = "revisionAfter r i n encoded"
  obtain encrypted s1 s2 s3 s4 s5 where
    1: "sealing (\<lambda>R t. EncryptSnapshot A R t p \<lparr> ItemID = encodeHex i, Revision = n \<rparr> (Plaintext encoded)) env s =
          (Inr encrypted, s1)"
    and 2: "(if item = None then tx_exec (insertItem (newItem r i n)) else tx_return ()) env s1 = (Inr (), s2)"
    and 3: "tx_each (writeVaultField i) shape env s2 = (Inr (), s3)"
    and 4: "tx_exec (insertVaultRevision (?row encrypted)) env s3 = (Inr (), s4)"
    and 5: "writeVaultRevisionMetadata i n shape variants placed env s4 = (Inr (), s5)"
    and 6: "(if item = None then tx_return () else tx_exec (advanceItem i (vc_name r) n)) env s5 = (Inr (), s')"
    using assms unfolding storeVault_def tx_bind_Inr newItem_def revisionAfter_def by auto
  obtain s6 where 7: "tx_each (writeRevisionField i n) shape env s4 = (Inr (), s6)"
    and 8: "tx_each (writeVariant i n placed) (List.enumerate 0 variants) env s6 = (Inr (), s5)"
    using 5 by (auto simp: writeVaultRevisionMetadata_def tx_bind_Inr)
  have w1: "work s1 = work s" "durable s1 = durable s"
    and enc: "EncryptSnapshot A (rand env) (tick s) p \<lparr> ItemID = encodeHex i, Revision = n \<rparr> (Plaintext encoded) = Inr encrypted"
    using 1 by (auto simp: sealing_Inr)
  have w2: "work s2 = (work s)\<lparr> vault_items := (if item = None then vault_items (work s) @ [newItem r i n]
      else vault_items (work s)) \<rparr>" "durable s2 = durable s"
    and new: "item = None \<Longrightarrow> i \<notin> vi_id ` set (vault_items (work s)) \<and> vaultRow (vc_namespace r) (vc_item r) (work s) = None"
    using 2 w1 by (auto simp: insertItem_def newItem_def vaultRow_def find_None_iff tx_Inr split: if_splits)
  obtain rows where w3: "work s3 = (work s2)\<lparr> vault_item_fields := rows \<rparr>" "durable s3 = durable s"
    using writeItemFields_effect [OF 3] w2(2) by auto
  have w4: "work s4 = (work s3)\<lparr> vault_revisions := vault_revisions (work s3) @ [?row encrypted] \<rparr>"
      "durable s4 = durable s" "n \<noteq> 0" "revisionRow i n (work s3) = None"
    using 4 w3(2) by (auto simp: insertVaultRevision_def revisionAfter_def tx_Inr split: if_splits)
  note w6 = writeFields_effect [OF 7]
  note w5 = writeVariants_effect [OF 8, unfolded bindings_enumerate]
  have "work s' = appendedVault r i item n (?row encrypted) shape variants placed rows (work s)" "durable s' = durable s"
    using 6 w2 w3 w4 w5 w6
    by (auto simp: appendedVault_def itemsAfter_def advanceItem_def tx_Inr split: if_splits)
  moreover have "revisionRow i n (work s) = None" using w4(4) w3(1) w2(1) by (simp add: revisionRow_def)
  ultimately show thesis using that enc new w4(3) by blast
qed

section \<open>The stored history\<close>

definition revisionIDs :: "db \<Rightarrow> (bytes \<times> u64) set" where
  "revisionIDs d = (\<lambda>r. (vr_item r, vr_revision r)) ` set (vault_revisions d)"

definition itemRevision :: "bytes \<Rightarrow> db \<Rightarrow> u64" where
  "itemRevision i d = (case find (\<lambda>v. vi_id v = i) (vault_items d) of None \<Rightarrow> 0 | Some v \<Rightarrow> vi_revision v)"

text \<open>
  Items are named once, the revisions of each are numbered from 1 without gaps up to the current
  one, and fields, variants and bindings belong to a revision, each key of them once.
\<close>

definition vaultKeysOk :: "db \<Rightarrow> bool" where
  "vaultKeysOk d =
     (uniqueOn (\<lambda>f. (vf_item f, vf_revision f, vf_key f)) (vault_fields d) \<and>
      uniqueOn (\<lambda>b. (vb_item b, vb_revision b, vb_env b)) (vault_bindings d))"

definition vaultOk :: "db \<Rightarrow> bool" where
  "vaultOk d =
     (vaultKeysOk d \<and> uniqueOn vi_id (vault_items d) \<and>
      uniqueOn (\<lambda>v. (vi_namespace v, vi_key v)) (vault_items d) \<and>
      uniqueOn (\<lambda>r. (vr_item r, vr_revision r)) (vault_revisions d) \<and>
      (\<forall>i. {n. (i, n) \<in> revisionIDs d} = {n. 0 < n \<and> n \<le> itemRevision i d}) \<and>
      (\<forall>f \<in> set (vault_fields d). (vf_item f, vf_revision f) \<in> revisionIDs d) \<and>
      (\<forall>v \<in> set (vault_variants d). (vn_item v, vn_revision v) \<in> revisionIDs d) \<and>
      (\<forall>b \<in> set (vault_bindings d). (vb_item b, vb_revision b) \<in> revisionIDs d))"

lemma vaultOk_tables:
  assumes "vault_items d' = vault_items d" "vault_revisions d' = vault_revisions d"
    "vault_fields d' = vault_fields d" "vault_variants d' = vault_variants d" "vault_bindings d' = vault_bindings d"
  shows "vaultOk d' = vaultOk d"
  by (simp add: vaultOk_def vaultKeysOk_def revisionIDs_def itemRevision_def assms)

lemma vaultOk_data: "data d' = data d \<Longrightarrow> vaultOk d' = vaultOk d"
  by (rule vaultOk_tables) (auto dest: data_tables)

lemma preserves_vaultKeys: "preserves vaultKeysOk (storeVault A p r i item n encoded shape variants placed)"
  unfolding storeVault_def writeVaultField_def writeVaultRevisionMetadata_def writeRevisionField_def writeVariant_def
  by (intro preserves_intros)
    (auto simp: vaultKeysOk_def insertItem_def upsertField_def archiveField_def insertVaultRevision_def
      insertRevisionField_def insertVariant_def insertBinding_def advanceItem_def uniqueOn_append Let_def
      split: if_splits, blast+)

lemma itemRevision_row: "vaultOk d \<Longrightarrow> v \<in> set (vault_items d) \<Longrightarrow> itemRevision (vi_id v) d = vi_revision v"
  using find_unique [of vi_id "vault_items d" v "\<lambda>w. vi_id w = vi_id v"]
  by (simp add: itemRevision_def vaultOk_def)

lemma next_greater: "m + 1 \<noteq> 0 \<Longrightarrow> \<not> m + 1 \<le> (m :: u64)"
  using unatSuc [of m] by (simp add: word_le_nat_alt add.commute)

definition holdsItem :: "VaultCommit \<Rightarrow> bytes \<Rightarrow> (bytes \<times> u64) option \<Rightarrow> db \<Rightarrow> bool" where
  "holdsItem r i item d =
     (case item of
        None \<Rightarrow> i \<notin> vi_id ` set (vault_items d) \<and> vaultRow (vc_namespace r) (vc_item r) d = None
      | Some (j, m) \<Rightarrow> j = i \<and> (\<exists>v. vaultRow (vc_namespace r) (vc_item r) d = Some v \<and> vi_id v = i \<and>
                                   vi_revision v = m \<and> vi_archived v = None))"

lemma itemRevision_held:
  assumes "vaultOk d" and "holdsItem r i item d"
  shows "itemRevision i d = (case item of None \<Rightarrow> 0 | Some (_, m) \<Rightarrow> m)"
proof (cases item)
  case None
  then show ?thesis using assms(2) by (auto simp: holdsItem_def itemRevision_def find_None_iff split: option.splits dest: find_SomeD)
next
  case (Some jm)
  then obtain v m where "item = Some (i, m)" "v \<in> set (vault_items d)" "vi_id v = i" "vi_revision v = m"
    using assms(2) by (cases jm) (auto simp: holdsItem_def vaultRow_def dest: find_SomeD)
  then show ?thesis using itemRevision_row [OF assms(1)] by fastforce
qed

lemma itemRevision_after:
  assumes "holdsItem r i item d" and "vault_items d' = itemsAfter r i item n (vault_items d)"
  shows "itemRevision j d' = (if j = i then n else itemRevision j d)"
proof (cases item)
  case None
  then show ?thesis using assms
    by (auto simp: itemRevision_def itemsAfter_def newItem_def holdsItem_def find_None_iff split: option.splits dest: find_SomeD)
next
  case (Some jm)
  have "\<exists>v \<in> set (vault_items d). vi_id v = i"
    using assms(1) Some by (auto simp: holdsItem_def vaultRow_def dest: find_SomeD)
  then have "find (\<lambda>v. vi_id v = i) (vault_items d) \<noteq> None" by (auto simp: find_None_iff)
  then show ?thesis using assms(2) Some
    by (auto simp: itemRevision_def itemsAfter_def find_updateWhere dest: find_SomeD split: option.splits)
qed

lemma vaultOk_appended:
  assumes ok: "vaultOk d" and held: "holdsItem r i item d" and "n = (case item of None \<Rightarrow> 0 | Some (_, m) \<Rightarrow> m) + 1"
    and "n \<noteq> 0" and row: "vr_item row = i" "vr_revision row = n"
    and keys: "vaultKeysOk (appendedVault r i item n row shape variants placed rows d)"
  shows "vaultOk (appendedVault r i item n row shape variants placed rows d)"
proof -
  let ?d = "appendedVault r i item n row shape variants placed rows d"
  have n: "n = itemRevision i d + 1" using itemRevision_held [OF ok held] assms(3) by simp
  have rev: "itemRevision j ?d = (if j = i then n else itemRevision j d)" for j
    by (rule itemRevision_after [OF held]) (simp add: appendedVault_def)
  have ids: "revisionIDs ?d = insert (i, n) (revisionIDs d)"
    using row by (auto simp: revisionIDs_def appendedVault_def)
  have old: "{m. (j, m) \<in> revisionIDs d} = {m. 0 < m \<and> m \<le> itemRevision j d}" for j
    using ok by (simp add: vaultOk_def)
  have step: "{m. 0 < m \<and> m \<le> n} = insert n {m. 0 < m \<and> m \<le> itemRevision i d}"
    using next_revision [of "itemRevision i d"] n assms(4) by simp
  have gaps: "{m. (j, m) \<in> revisionIDs ?d} = {m. 0 < m \<and> m \<le> itemRevision j ?d}" for j
  proof (cases "j = i")
    case True
    have "{m. (i, m) \<in> revisionIDs ?d} = insert n {m. (i, m) \<in> revisionIDs d}" using ids by auto
    then show ?thesis using True rev [of i] old [of i] step by simp
  next
    case False
    then show ?thesis using rev [of j] old [of j] ids by simp
  qed
  have fresh: "(i, n) \<notin> revisionIDs d"
  proof
    assume "(i, n) \<in> revisionIDs d"
    then have "n \<le> itemRevision i d" using old [of i] by auto
    then show False using n assms(4) by (simp add: next_greater)
  qed
  have "uniqueOn (\<lambda>r. (vr_item r, vr_revision r)) (vault_revisions ?d)"
    using ok fresh row by (auto simp: appendedVault_def vaultOk_def uniqueOn_append revisionIDs_def)
  moreover have "uniqueOn vi_id (vault_items ?d)" "uniqueOn (\<lambda>v. (vi_namespace v, vi_key v)) (vault_items ?d)"
    using ok held by (auto simp: appendedVault_def vaultOk_def itemsAfter_def uniqueOn_append newItem_def
        holdsItem_def vaultRow_def find_None_iff)
  moreover have "(vf_item f, vf_revision f) \<in> revisionIDs ?d" if "f \<in> set (vault_fields ?d)" for f
    using that ok ids by (auto simp: appendedVault_def vaultOk_def fieldRow_def)
  moreover have "(vn_item v, vn_revision v) \<in> revisionIDs ?d" if "v \<in> set (vault_variants ?d)" for v
    using that ok ids by (auto simp: appendedVault_def vaultOk_def variantRow_def)
  moreover have "(vb_item b, vb_revision b) \<in> revisionIDs ?d" if "b \<in> set (vault_bindings ?d)" for b
    using that ok ids by (auto simp: appendedVault_def vaultOk_def bindingRows_def)
  ultimately show ?thesis using keys gaps unfolding vaultOk_def by blast
qed

end
