(* ===== verification/VaultHistory.thy ===== *)
theory VaultHistory
  imports VaultLaws
begin

text \<open>
  The effect of a commit of a Vault item, step by step: what the preparation of fields, variants
  and environments yields, the one revision that is appended, and that the stored history stays
  in order whatever is answered.
\<close>

section \<open>The steps that only read\<close>

lemma unread:
  assumes "m env s = (r, s')" and "quiet m" and "\<And>P. preserves P m"
  shows "work s' = work s \<and> durable s' = durable s"
  using preservesD [OF assms(3) assms(1), of "\<lambda>d. d = work s"] quietD [OF assms(2,1)] by simp

lemmas reading_steps = unread [OF _ quiet_reading(1) preserves_reading(1)]
  unread [OF _ quiet_reading(2) preserves_reading(2)] unread [OF _ quiet_reading(3) preserves_reading(3)]
  unread [OF _ quiet_reading(4) preserves_reading(4)] unread [OF _ quiet_reading(5) preserves_reading(5)]
  unread [OF _ quiet_reading(6) preserves_reading(6)] unread [OF _ quiet_assignIDs preserves_assignIDs]

text \<open>Variants without an ID get one.\<close>

definition sameVariant :: "Variant \<Rightarrow> Variant \<Rightarrow> bool" where
  "sameVariant v w = (va_envs w = va_envs v \<and> va_values w = va_values v \<and> (va_id v \<noteq> [] \<longrightarrow> w = v))"

lemma assignIDs_Inr:
  "assignIDs vs env s = (Inr vs', s') \<Longrightarrow> list_all2 sameVariant vs vs'"
proof (induction vs arbitrary: s vs')
  case (Cons v vs)
  obtain w s1 ws where w: "(if va_id v = [] then tx_bind randomID (\<lambda>i. tx_return (v\<lparr> va_id := encodeHex i \<rparr>))
      else tx_return v) env s = (Inr w, s1)" and ws: "assignIDs vs env s1 = (Inr ws, s')" "vs' = w # ws"
    using Cons.prems by (auto simp: tx_bind_Inr simp del: if_split)
  have "sameVariant v w" using w by (auto simp: sameVariant_def randomID_def tx_Inr split: if_splits)
  then show ?case using Cons.IH [OF ws(1)] ws(2) by simp
qed simp

text \<open>The fields of the revision: those that were asked for are active, every key is there once.\<close>

definition fieldMapOk :: "(string \<times> vaultFieldRecord) list \<Rightarrow> bool" where
  "fieldMapOk m = (\<forall>(k, f) \<in> set m. fr_key f = k)"

definition keepsTypes :: "(string \<times> vaultFieldRecord) list \<Rightarrow> Field list \<Rightarrow> vaultFieldRecord list \<Rightarrow> bool" where
  "keepsTypes m fs shape =
     ((\<forall>f \<in> set fs. \<exists>g \<in> set shape. fr_key g = fd_key f \<and> fr_type g = fd_type f \<and> fr_active g) \<and>
      (\<forall>(k, g) \<in> set m. fr_active g \<longrightarrow> (\<exists>h \<in> set shape. fr_key h = k \<and> fr_type h = fr_type g \<and> fr_active h)))"

lemma map_of_put: "(k, g) \<in> set m \<Longrightarrow> distinct (map fst m) \<Longrightarrow> k' \<noteq> k \<Longrightarrow> (k, g) \<in> set (mapPut k' x m)"
  by (metis distinct_mapPut fun_upd_other map_of_eq_Some_iff map_of_mapPut)

lemma requestFields_Inr:
  "requestFields m fs env s = (Inr (Some shape), s') \<Longrightarrow> distinct (map fst m) \<Longrightarrow> fieldMapOk m \<Longrightarrow>
    keepsTypes m fs shape"
proof (induction m fs arbitrary: s rule: requestFields.induct)
  case (1 m)
  then have shape: "set shape = snd ` set m" by auto
  have "\<exists>h \<in> set shape. fr_key h = k \<and> fr_type h = fr_type g \<and> fr_active h" if "(k, g) \<in> set m" "fr_active g" for k g
  proof (rule bexI [of _ g])
    show "g \<in> set shape" using that(1) shape by force
    show "fr_key g = k \<and> fr_type g = fr_type g \<and> fr_active g" using that "1.prems"(3) by (auto simp: fieldMapOk_def)
  qed
  then show ?case by (auto simp: keepsTypes_def)
next
  case (2 m f fs)
  define g where "g = (case map_of m (fd_key f) of Some known \<Rightarrow> known\<lparr> fr_name := fd_name f, fr_active := True \<rparr>
      | None \<Rightarrow> \<lparr> fr_id = [], fr_key = fd_key f, fr_name = fd_name f, fr_type = fd_type f, fr_active = True \<rparr>)"
  have "\<exists>g s1. requestFields (mapPut (fd_key f) g m) fs env s1 = (Inr (Some shape), s') \<and> fr_key g = fd_key f \<and>
      fr_type g = fd_type f \<and> fr_active g \<and>
      (\<forall>k h. (k, h) \<in> set m \<and> k = fd_key f \<longrightarrow> fr_type h = fd_type f) \<and>
      (distinct (map fst (mapPut (fd_key f) g m)) \<longrightarrow> fieldMapOk (mapPut (fd_key f) g m) \<longrightarrow>
        keepsTypes (mapPut (fd_key f) g m) fs shape)"
  proof (cases "map_of m (fd_key f)")
    case (Some known)
    then have "(fd_key f, known) \<in> set m" by (simp add: map_of_SomeD)
    then have "fr_key known = fd_key f" using "2.prems"(3) by (auto simp: fieldMapOk_def)
    moreover have "fr_type known = fd_type f" using "2.prems"(1) Some by (auto split: if_splits)
    moreover have "(k, h) \<in> set m \<Longrightarrow> k = fd_key f \<Longrightarrow> h = known" for k h
      using Some "2.prems"(2) by (metis map_of_is_SomeI option.inject)
    ultimately show ?thesis using "2.IH"(2) [OF Some, of s] "2.prems"(1) Some
      by (intro exI [of _ "known\<lparr> fr_name := fd_name f, fr_active := True \<rparr>"] exI [of _ s]) auto
  next
    case None
    then obtain i s1 where "requestFields (mapPut (fd_key f)
        \<lparr> fr_id = i, fr_key = fd_key f, fr_name = fd_name f, fr_type = fd_type f, fr_active = True \<rparr> m) fs env s1 =
        (Inr (Some shape), s')" using "2.prems"(1) by (auto simp: tx_bind_Inr)
    moreover have "(k, h) \<notin> set m" if "k = fd_key f" for k h using None that by (force simp: map_of_eq_None_iff)
    ultimately show ?thesis using "2.IH"(1) [OF None] None by fastforce
  qed
  then obtain g where g: "fr_key g = fd_key f" "fr_type g = fd_type f" "fr_active g"
    and types: "\<And>h. (fd_key f, h) \<in> set m \<Longrightarrow> fr_type h = fd_type f"
    and keeps: "distinct (map fst (mapPut (fd_key f) g m)) \<longrightarrow> fieldMapOk (mapPut (fd_key f) g m) \<longrightarrow>
        keepsTypes (mapPut (fd_key f) g m) fs shape" by blast
  let ?m = "mapPut (fd_key f) g m"
  have d: "distinct (map fst ?m)" using "2.prems"(2) by (rule distinct_mapPut)
  have put: "map_of ?m (fd_key f) = Some g" by simp
  have "fr_key h = k" if "(k, h) \<in> set ?m" for k h
  proof (cases "k = fd_key f")
    case True
    then show ?thesis using put that d g(1) by (metis map_of_is_SomeI option.inject)
  next
    case False
    then have "map_of m k = Some h" using that d by (metis fun_upd_other map_of_is_SomeI map_of_mapPut)
    then show ?thesis using "2.prems"(3) by (auto simp: fieldMapOk_def dest: map_of_SomeD)
  qed
  then have "fieldMapOk ?m" by (auto simp: fieldMapOk_def)
  with keeps d have k: "keepsTypes ?m fs shape" by simp
  have "(fd_key f, g) \<in> set ?m" using put by (simp add: map_of_SomeD)
  then have this_f: "\<exists>h \<in> set shape. fr_key h = fd_key f \<and> fr_type h = fd_type f \<and> fr_active h"
    using k g by (fastforce simp: keepsTypes_def)
  moreover have "\<exists>h \<in> set shape. fr_key h = j \<and> fr_type h = fr_type x \<and> fr_active h"
    if "(j, x) \<in> set m" "fr_active x" for j x
  proof (cases "j = fd_key f")
    case True
    then show ?thesis using this_f types that(1) by metis
  next
    case False
    then show ?thesis using k map_of_put [OF that(1) "2.prems"(2)] that(2) by (fastforce simp: keepsTypes_def)
  qed
  ultimately show ?case using k by (auto simp: keepsTypes_def)
qed

lemma map_of_distinct_filter: "uniqueOn key rows \<Longrightarrow> distinct (map key (filter p rows))"
  by (simp add: uniqueOn_def distinct_map_filter)

lemma prepareVaultFields_Inr:
  assumes "prepareVaultFields i x fs env s = (Inr (Some shape), s')"
    and "distinct (map vw_key (filter (\<lambda>w. vw_item w = i) (vault_item_fields (work s))))"
  shows "\<forall>f \<in> set fs. \<exists>g \<in> set shape. fr_key g = fd_key f \<and> fr_type g = fd_type f \<and> fr_active g"
proof -
  have "\<exists>m s1. requestFields m fs env s1 = (Inr (Some shape), s') \<and> distinct (map fst m) \<and> fieldMapOk m"
  proof (cases x)
    case True
    then show ?thesis using assms
      by (intro exI [of _ "storedFields i (work s)"])
        (auto simp: prepareVaultFields_def tx_bind_Inr tx_query_Inr storedFields_def fieldMapOk_def comp_def)
  next
    case False
    then show ?thesis using assms(1) by (intro exI [of _ "[]"]) (auto simp: prepareVaultFields_def fieldMapOk_def)
  qed
  then obtain m s1 where "requestFields m fs env s1 = (Inr (Some shape), s')" "distinct (map fst m)" "fieldMapOk m"
    by blast
  from requestFields_Inr [OF this] show ?thesis by (auto simp: keepsTypes_def)
qed

text \<open>Every environment a variant names is placed at its row.\<close>

definition placedAt :: "db \<Rightarrow> (string \<times> bytes) list \<Rightarrow> (string \<times> string) list \<Rightarrow> (string \<times> bytes) list \<Rightarrow> bool" where
  "placedAt d base requested placed =
     (\<forall>k. map_of placed k = (if k \<in> fst ` set requested then map_option fst (environmentState k d) else map_of base k) \<and>
          (k \<in> fst ` set requested \<longrightarrow> environmentState k d \<noteq> None))"

lemma resolveBindings_Inr:
  "resolveBindings b requested ids env s = (Inr (Some placed), s') \<Longrightarrow> distinct (map fst requested) \<Longrightarrow>
    placedAt (work s) ids requested placed"
proof (induction b requested ids arbitrary: s rule: resolveBindings.induct)
  case (1 b ids)
  then show ?case by (simp add: placedAt_def)
next
  case (2 b k v rest ids)
  then obtain i a where e: "environmentState k (work s) = Some (i, a)" and a: "\<not> (a \<and> map_of b k \<noteq> Some v)"
    and r: "resolveBindings b rest (mapPut k i ids) env (s\<lparr> tick := Suc (tick s) \<rparr>) = (Inr (Some placed), s')"
    by (auto simp: tx_bind_Inr tx_query_Inr split: option.splits if_splits)
  have "placedAt (work (s\<lparr> tick := Suc (tick s) \<rparr>)) (mapPut k i ids) rest placed"
    by (rule "2.IH" [OF a r]) (use "2.prems"(2) in auto)
  then show ?case using e "2.prems"(2) by (auto simp: placedAt_def)
qed

lemma requestedBindings_keys:
  "distinct (map fst (requestedBindings variants)) \<and>
   fst ` set (requestedBindings variants) = (\<Union>v \<in> set variants. set (elems (va_envs v)))"
proof -
  have inner: "distinct (map fst m) \<Longrightarrow> distinct (map fst (foldl (\<lambda>m e. mapPut e i m) m es)) \<and>
      fst ` set (foldl (\<lambda>m e. mapPut e i m) m es) = fst ` set m \<union> set es" for i :: string and m es
    by (induction es arbitrary: m) (auto simp: distinct_mapPut set_mapPut_keys)
  have "distinct (map fst m) \<Longrightarrow>
      distinct (map fst (foldl (\<lambda>m v. foldl (\<lambda>m e. mapPut e (va_id v) m) m (elems (va_envs v))) m variants)) \<and>
      fst ` set (foldl (\<lambda>m v. foldl (\<lambda>m e. mapPut e (va_id v) m) m (elems (va_envs v))) m variants) =
        fst ` set m \<union> (\<Union>v \<in> set variants. set (elems (va_envs v)))" for m
    by (induction variants arbitrary: m) (auto simp: inner)
  from this [of "[]"] show ?thesis by (simp add: requestedBindings_def)
qed

lemma validateVaultEnvironments_Inr:
  assumes "validateVaultEnvironments i latest variants env s = (Inr (Some placed), s')"
  shows "placedAt (work s) [] (requestedBindings variants) placed"
proof -
  obtain bound s1 where 1: "(if latest > 0 then tx_query (currentBindings i latest) else tx_return []) env s = (Inr bound, s1)"
    and r: "tx_bind (resolveBindings bound (requestedBindings variants) []) (\<lambda>ids.
         case ids of None \<Rightarrow> tx_return None
         | Some placed \<Rightarrow> tx_bind (retainBindings (requestedBindings variants) bound)
             (\<lambda>ok. tx_return (if ok then Some placed else None))) env s1 = (Inr (Some placed), s')"
    using assms by (auto simp: validateVaultEnvironments_def Let_def tx_bind_Inr simp del: if_split)
  obtain s2 where "resolveBindings bound (requestedBindings variants) [] env s1 = (Inr (Some placed), s2)"
    using r by (auto simp: tx_bind_Inr split: option.splits if_splits)
  moreover have "work s1 = work s" using 1 by (auto simp: tx_query_Inr split: if_splits)
  ultimately show ?thesis using resolveBindings_Inr requestedBindings_keys by metis
qed

section \<open>The appended revision\<close>

definition snapshotOf :: "VaultCommit \<Rightarrow> Variant list \<Rightarrow> Snapshot" where
  "snapshotOf r variants = (vc_snapshot r)\<lparr> sn_variants := variants \<rparr>"

definition drewID :: "env \<Rightarrow> bytes \<Rightarrow> bool" where
  "drewID env i = (\<exists>t. rand env t 16 = Some i)"

text \<open>A revision that follows the item's latest one, with what the request holds.\<close>

definition vaultAppended ::
  "aead \<Rightarrow> LocalKeyProvider \<Rightarrow> env \<Rightarrow> VaultCommit \<Rightarrow> (bytes \<times> u64) option \<Rightarrow> db \<Rightarrow> db \<Rightarrow> bool" where
  "vaultAppended A provider env r item d d' =
     (\<exists>i n variants encoded shape placed encrypted t rows.
        n = (case item of None \<Rightarrow> 0 | Some (_, m) \<Rightarrow> m) + 1 \<and> n \<noteq> 0 \<and> holdsItem r i item d \<and>
        (item = None \<longrightarrow> drewID env i) \<and>
        list_all2 sameVariant (sn_variants (vc_snapshot r)) variants \<and>
        Encode (sha256 env) (snapshotOf r variants) = Some encoded \<and>
        (distinct (map vw_key (filter (\<lambda>w. vw_item w = i) (vault_item_fields d))) \<longrightarrow>
          (\<forall>f \<in> set (sn_fields (vc_snapshot r)). \<exists>g \<in> set shape.
             fr_key g = fd_key f \<and> fr_type g = fd_type f \<and> fr_active g)) \<and>
        placedAt d [] (requestedBindings variants) placed \<and>
        EncryptSnapshot A (rand env) t provider \<lparr> ItemID = encodeHex i, Revision = n \<rparr> (Plaintext encoded) = Inr encrypted \<and>
        (vaultKeysOk d \<longrightarrow> vaultKeysOk (appendedVault r i item n (revisionAfter r i n encoded encrypted) shape variants placed rows d)) \<and>
        revisionRow i n d = None \<and>
        data d' = data (appendedVault r i item n (revisionAfter r i n encoded encrypted) shape variants placed rows d))"

definition vaultAnswer :: "aead \<Rightarrow> LocalKeyProvider \<Rightarrow> env \<Rightarrow> VaultCommit \<Rightarrow> (bytes \<times> u64) option \<Rightarrow>
    VaultCommitResult \<Rightarrow> db \<Rightarrow> db \<Rightarrow> bool" where
  "vaultAnswer A provider env r item res d d' =
     (if vm_outcome res = OutcomeSuccess
      then vm_revision res = (case item of None \<Rightarrow> 0 | Some (_, m) \<Rightarrow> m) + 1 \<and> vaultAppended A provider env r item d d'
      else data d' = data d)"

lemma finishVault_effect:
  "finishVault r res t b env s = (Inr q, s') \<Longrightarrow> q = (res, None) \<and> data (durable s') = data (work s)"
  unfolding finishVault_def finishVaultOperation_def by (rule finishCommit_effect)

lemma finishVaultFailure_effect:
  assumes "finishVaultFailure r out t env s = (Inr (res, er), s')"
  shows "vm_outcome res = out \<and> data (durable s') = data (work s)"
  using finishCommit_effect [OF assms [unfolded finishVaultFailure_def finishVaultOperation_def Let_def]] by auto

lemma failed_answer:
  assumes "finishVaultFailure r' out t env s = (Inr (res, er), s')" and "out \<noteq> OutcomeSuccess"
  shows "vaultAnswer A p env r item res (work s) (durable s')"
  using finishVaultFailure_effect [OF assms(1)] assms(2) by (simp add: vaultAnswer_def)

lemma appendedVault_item:
  assumes "storeVault A p r i item n encoded shape variants placed env s = (Inr (), s')"
    and "item \<noteq> None \<Longrightarrow> holdsItem r i item (work s)"
  shows "holdsItem r i item (work s)"
proof (cases "item = None")
  case True
  from assms(1) show ?thesis by (rule storeVault_effect) (use True in \<open>simp add: holdsItem_def\<close>)
qed (rule assms(2))

lemma commitEncoded_effect:
  assumes run: "commitEncoded A p r i item latest encoded shape variants placed env s = (Inr (res, er), s')"
    and latest: "latest = (case item of None \<Rightarrow> 0 | Some (_, m) \<Rightarrow> m)"
    and item: "item \<noteq> None \<Longrightarrow> holdsItem r i item (work s)"
    and new: "item = None \<Longrightarrow> drewID env i"
    and same: "list_all2 sameVariant (sn_variants (vc_snapshot r)) variants"
    and enc: "Encode (sha256 env) (snapshotOf r variants) = Some encoded"
    and shape: "distinct (map vw_key (filter (\<lambda>w. vw_item w = i) (vault_item_fields (work s)))) \<longrightarrow>
          (\<forall>f \<in> set (sn_fields (vc_snapshot r)). \<exists>g \<in> set shape.
             fr_key g = fd_key f \<and> fr_type g = fd_type f \<and> fr_active g)"
    and placed: "placedAt (work s) [] (requestedBindings variants) placed"
  shows "vaultAnswer A p env r item res (work s) (durable s')"
proof -
  obtain b s1 where b: "unchangedSnapshot A p r i latest encoded env s = (Inr b, s1)"
    and rest: "(if b then finishVault r \<lparr> vm_outcome = OutcomeNoChange, vm_revision = latest,
          vm_variants = sortedVariantIDs r variants \<rparr> ''vault.no_change'' False
       else tx_bind (storeVault A p r i item (latest + 1) encoded shape variants placed) (\<lambda>_.
           finishVault r \<lparr> vm_outcome = OutcomeSuccess, vm_revision = latest + 1,
                           vm_variants = sortedVariantIDs r variants \<rparr>
             (if vc_success r \<noteq> [] then vc_success r
              else if latest = 0 then ''vault.created'' else ''vault.updated'') True)) env s1 = (Inr (res, er), s')"
    using run by (auto simp: commitEncoded_def tx_bind_Inr simp del: if_split)
  have w1: "work s1 = work s" using reading_steps(5) [OF b] by simp
  show ?thesis
  proof (cases b)
    case True
    then show ?thesis using finishVault_effect rest w1 by (fastforce simp: vaultAnswer_def)
  next
    case False
    then obtain s2 where st: "storeVault A p r i item (latest + 1) encoded shape variants placed env s1 = (Inr (), s2)"
      and fin: "res = \<lparr> vm_outcome = OutcomeSuccess, vm_revision = latest + 1, vm_variants = sortedVariantIDs r variants \<rparr>"
      "data (durable s') = data (work s2)"
      using rest finishVault_effect by (fastforce simp: tx_bind_Inr)
    have held: "holdsItem r i item (work s)" using appendedVault_item [OF st] item unfolding w1 .
    have keys: "vaultKeysOk (work s1) \<Longrightarrow> vaultKeysOk (work s2)" using preservesD [OF preserves_vaultKeys st] by simp
    from st show ?thesis
    proof (rule storeVault_effect)
      fix encrypted t rows
      assume e: "EncryptSnapshot A (rand env) t p \<lparr> ItemID = encodeHex i, Revision = latest + 1 \<rparr> (Plaintext encoded) = Inr encrypted"
        and w: "work s2 = appendedVault r i item (latest + 1) (revisionAfter r i (latest + 1) encoded encrypted) shape variants placed rows (work s1)"
        and n: "latest + 1 \<noteq> 0" "revisionRow i (latest + 1) (work s1) = None"
      have "vaultAppended A p env r item (work s) (durable s')"
        unfolding vaultAppended_def
        by (intro exI [of _ i] exI [of _ "latest + 1"] exI [of _ variants] exI [of _ encoded] exI [of _ shape]
            exI [of _ placed] exI [of _ encrypted] exI [of _ t] exI [of _ rows] conjI impI)
          (use latest n held new same enc shape placed e keys w w1 fin(2) in simp_all)
      then show ?thesis using fin(1) latest by (simp add: vaultAnswer_def)
    qed
  qed
qed

lemma commitSnapshot_effect:
  assumes run: "commitSnapshot A p r item env s = (Inr (res, er), s')"
    and item: "\<forall>j m. item = Some (j, m) \<longrightarrow> holdsItem r j item (work s)"
  shows "vaultAnswer A p env r item res (work s) (durable s')"
proof -
  define latest where "latest = (case item of None \<Rightarrow> 0 | Some (_, m) \<Rightarrow> m)"
  obtain i s1 variants s2 where
    i: "(case item of None \<Rightarrow> randomID | Some (i, _) \<Rightarrow> tx_return i) env s = (Inr i, s1)"
    and v: "assignIDs (sn_variants (vc_snapshot r)) env s1 = (Inr variants, s2)"
    and rest: "(case Encode (sha256 env) (snapshotOf r variants) of
          None \<Rightarrow> finishVaultFailure r OutcomeValidationFailed ''vault.validation_failed''
        | Some encoded \<Rightarrow>
            tx_bind (prepareVaultFields i (item \<noteq> None) (sn_fields (vc_snapshot r))) (\<lambda>prepared.
              case prepared of
                None \<Rightarrow> finishVaultFailure r OutcomeValidationFailed ''vault.field_type_immutable''
              | Some shape \<Rightarrow>
                  tx_bind (validateVaultEnvironments i latest variants) (\<lambda>resolved.
                    case resolved of
                      None \<Rightarrow> finishVaultFailure r OutcomeValidationFailed ''vault.environment_invalid''
                    | Some placed \<Rightarrow>
                        commitEncoded A p r i item latest encoded shape variants placed))) env s2 = (Inr (res, er), s')"
    using run by (auto simp: commitSnapshot_def Let_def tx_bind_Inr snapshotOf_def latest_def cong: option.case_cong)
  have w1: "work s1 = work s" and new: "item = None \<Longrightarrow> drewID env i"
    and held: "item \<noteq> None \<Longrightarrow> holdsItem r i item (work s)"
    using i item by (auto simp: randomID_def drewID_def tx_Inr split: option.splits prod.splits)
  have w2: "work s2 = work s" using reading_steps(7) [OF v] w1 by simp
  show ?thesis
  proof (cases "Encode (sha256 env) (snapshotOf r variants)")
    case None
    then show ?thesis using failed_answer rest w2 by (metis Outcome.distinct option.simps(4))
  next
    case enc: (Some encoded)
    then obtain prepared s3 where p: "prepareVaultFields i (item \<noteq> None) (sn_fields (vc_snapshot r)) env s2 = (Inr prepared, s3)"
      and rest: "(case prepared of
                None \<Rightarrow> finishVaultFailure r OutcomeValidationFailed ''vault.field_type_immutable''
              | Some shape \<Rightarrow>
                  tx_bind (validateVaultEnvironments i latest variants) (\<lambda>resolved.
                    case resolved of
                      None \<Rightarrow> finishVaultFailure r OutcomeValidationFailed ''vault.environment_invalid''
                    | Some placed \<Rightarrow>
                        commitEncoded A p r i item latest encoded shape variants placed)) env s3 = (Inr (res, er), s')"
      using rest by (auto simp: tx_bind_Inr)
    have w3: "work s3 = work s" using reading_steps(2) [OF p] w2 by simp
    show ?thesis
    proof (cases prepared)
      case None
      then show ?thesis using failed_answer rest w3 by (metis Outcome.distinct option.simps(4))
    next
      case (Some shape)
      then obtain resolved s4 where v': "validateVaultEnvironments i latest variants env s3 = (Inr resolved, s4)"
        and rest: "(case resolved of
                      None \<Rightarrow> finishVaultFailure r OutcomeValidationFailed ''vault.environment_invalid''
                    | Some placed \<Rightarrow>
                        commitEncoded A p r i item latest encoded shape variants placed) env s4 = (Inr (res, er), s')"
        using rest by (auto simp: tx_bind_Inr)
      have w4: "work s4 = work s" using reading_steps(3) [OF v'] w3 by simp
      show ?thesis
      proof (cases resolved)
        case None
        then show ?thesis using failed_answer rest w4 by (metis Outcome.distinct option.simps(4))
      next
        case placed: (Some placed)
        have "commitEncoded A p r i item latest encoded shape variants placed env s4 = (Inr (res, er), s')"
          using rest placed by simp
        from commitEncoded_effect [OF this latest_def] show ?thesis
          using held new assignIDs_Inr [OF v] enc prepareVaultFields_Inr [OF p [unfolded Some]]
            validateVaultEnvironments_Inr [OF v' [unfolded placed]] unfolding w2 w3 w4 by blast
      qed
    qed
  qed
qed

section \<open>Confined writes\<close>

definition marked :: "db \<Rightarrow> db \<Rightarrow> bool" where
  "marked d d' = (\<exists>i at. d' = markItem i at d)"

lemma mergeScoped_effect:
  assumes "mergeScoped w item latest target shape values r env s = (Inr r', s')"
  shows "vc_namespace r' = vc_namespace r \<and> vc_item r' = vc_item r \<and> work s' = work s \<and> durable s' = durable s"
  using assms by (auto simp: mergeScoped_def Let_def tx_Inr split: if_splits option.splits prod.splits)

lemma deleteScopedItem_effect:
  assumes "deleteScopedItem w item r env s = (Inr r', s')"
  shows "r' = r \<and> marked (work s) (work s') \<and> durable s' = durable s"
  using assms by (auto simp: deleteScopedItem_def marked_def tx_Inr split: if_splits option.splits prod.splits)

lemma prepareScopedVault_effect:
  assumes "prepareScopedVault A p w item r env s = (Inr r', s')"
  shows "vc_namespace r' = vc_namespace r" "vc_item r' = vc_item r" "durable s' = durable s"
    and "if sw_action w = ''delete_item'' then marked (work s) (work s') else work s' = work s"
proof -
  obtain latest s1 where l: "(case item of
          None \<Rightarrow> tx_return \<lparr> it_namespace = [], it_key = [], it_name = vc_name r, it_revision = 0,
                             it_archived = False, it_snapshot = \<lparr> sn_fields = [], sn_variants = [] \<rparr> \<rparr>
        | Some (_, n) \<Rightarrow> readVaultItem A p (sw_namespace w) (sw_item w) n True) env s = (Inr latest, s1)"
    using assms unfolding prepareScopedVault_def tx_bind_Inr by blast
  have w1: "work s1 = work s \<and> durable s1 = durable s"
    using l reading_steps(1) by (cases item) (auto split: prod.splits)
  show "vc_namespace r' = vc_namespace r" "vc_item r' = vc_item r" "durable s' = durable s"
    "if sw_action w = ''delete_item'' then marked (work s) (work s') else work s' = work s"
    using assms l w1
    by (auto simp: prepareScopedVault_def Let_def tx_bind_Inr split: if_splits
        dest!: mergeScoped_effect deleteScopedItem_effect)
qed

section \<open>The whole commit\<close>

lemma holdsItem_found:
  assumes "lockVaultItem (vc_namespace r) (vc_item r) d = Some (i, n, False)"
  shows "holdsItem r i (Some (i, n)) d"
  using assms by (auto simp: lockVaultItem_def holdsItem_def)

lemma vaultAppended_request:
  "vc_namespace r' = vc_namespace r \<Longrightarrow> vc_item r' = vc_item r \<Longrightarrow> holdsItem r' i item d = holdsItem r i item d"
  by (simp add: holdsItem_def split: option.splits)

text \<open>
  What a commit does: nothing but the journal, archive an item, or append a revision; one of a
  caller that is not confined only where it expected the revision there is.
\<close>

definition vaultMoves ::
  "aead \<Rightarrow> LocalKeyProvider \<Rightarrow> env \<Rightarrow> VaultCommit \<Rightarrow> VaultCommitResult \<Rightarrow> db \<Rightarrow> db \<Rightarrow> bool" where
  "vaultMoves A provider env r res d d' =
     (data d' = data d \<and> (vc_scoped r = None \<longrightarrow> vm_outcome res \<noteq> OutcomeSuccess) \<or>
      (\<exists>d1. marked d d1 \<and> data d' = data d1) \<and> vc_scoped r \<noteq> None \<or>
      (\<exists>r' item. vc_namespace r' = vc_namespace r \<and> vc_item r' = vc_item r \<and> vm_outcome res = OutcomeSuccess \<and>
         vm_revision res = (case item of None \<Rightarrow> 0 | Some (_, m) \<Rightarrow> m) + 1 \<and>
         vaultAppended A provider env r' item d d' \<and>
         (vc_scoped r = None \<longrightarrow> r' = r \<and> vc_expected r + 1 = vm_revision res)))"

lemma vaultAnswer_moves:
  assumes "vaultAnswer A p env r' item res d d'" and "vc_namespace r' = vc_namespace r" "vc_item r' = vc_item r"
    and "vc_scoped r = None \<Longrightarrow> r' = r \<and> vc_expected r = (case item of None \<Rightarrow> 0 | Some (_, m) \<Rightarrow> m)"
  shows "vaultMoves A p env r res d d'"
  using assms by (cases "vm_outcome res = OutcomeSuccess") (auto simp: vaultAnswer_def vaultMoves_def)

lemma failed_moves:
  assumes "finishVaultFailure r out t env s = (Inr (res, er), s')" and "out \<noteq> OutcomeSuccess"
  shows "vaultMoves A p env r res (work s) (durable s')"
  using finishVaultFailure_effect [OF assms(1)] assms(2) by (simp add: vaultMoves_def)

lemma vaultFound_effect:
  assumes run: "vaultFound A p r existing env s = (Inr (res, er), s')"
    and existing: "existing = lockVaultItem (vc_namespace r) (vc_item r) (work s)"
  shows "vaultMoves A p env r res (work s) (durable s')"
proof -
  define latest where "latest = (case existing of None \<Rightarrow> 0 | Some (_, n, _) \<Rightarrow> n)"
  define item where "item = map_option (\<lambda>(i, n, _). (i, n)) existing"
  have latest: "latest = (case item of None \<Rightarrow> 0 | Some (_, m) \<Rightarrow> m)"
    by (simp add: latest_def item_def split: option.splits prod.splits)
  show ?thesis
  proof (cases "case existing of Some (_, _, archived) \<Rightarrow> archived | None \<Rightarrow> False")
    case True
    then show ?thesis using run failed_moves by (fastforce simp: vaultFound_def)
  next
    case False
    have held: "\<forall>j m. item = Some (j, m) \<longrightarrow> holdsItem r' j item (work s)"
      if "vc_namespace r' = vc_namespace r" "vc_item r' = vc_item r" for r'
      using False existing holdsItem_found [of r' "work s"] that by (auto simp: item_def split: option.splits)
    obtain creating s1 where c: "creatingVariant r existing env s = (Inr creating, s1)"
      and rest: "(if vc_expected r \<noteq> latest \<and> \<not> creating then finishVaultFailure r OutcomeConflict ''vault.conflict''
            else
              (case vc_scoped r of
                 None \<Rightarrow> commitSnapshot A p r item
               | Some w \<Rightarrow>
                   tx_bind (prepareScopedVault A p w item r) (\<lambda>prepared.
                     if sw_action w = ''delete_item'' then
                       finishVault prepared \<lparr> vm_outcome = OutcomeSuccess, vm_revision = latest, vm_variants = [] \<rparr>
                         ''vault.archived'' True
                     else commitSnapshot A p prepared item))) env s1 = (Inr (res, er), s')"
      using run [unfolded vaultFound_def Let_def, folded latest_def item_def] False
      unfolding tx_bind_Inr if_not_P [OF False] by blast
    have w1: "work s1 = work s" using reading_steps(4) [OF c] by simp
    show ?thesis
    proof (cases "vc_expected r \<noteq> latest \<and> \<not> creating")
      case True
      then show ?thesis using rest failed_moves w1 by fastforce
    next
      case go: False
      show ?thesis
      proof (cases "vc_scoped r")
        case None
        then have "\<not> creating" using c by (auto simp: creatingVariant_def)
        then have "vc_expected r = latest" using go by simp
        moreover have "vaultAnswer A p env r item res (work s) (durable s')"
          using commitSnapshot_effect [of A p r item env s1] rest go None held w1 by simp
        ultimately show ?thesis using vaultAnswer_moves latest by blast
      next
        case (Some w)
        then obtain r' s2 where pr: "prepareScopedVault A p w item r env s1 = (Inr r', s2)"
          and rest: "(if sw_action w = ''delete_item'' then
                       finishVault r' \<lparr> vm_outcome = OutcomeSuccess, vm_revision = latest, vm_variants = [] \<rparr>
                         ''vault.archived'' True
                     else commitSnapshot A p r' item) env s2 = (Inr (res, er), s')"
          using rest go by (auto simp: tx_bind_Inr simp del: if_split)
        note pre = prepareScopedVault_effect [OF pr]
        show ?thesis
        proof (cases "sw_action w = ''delete_item''")
          case True
          then have "data (durable s') = data (work s2)" "marked (work s) (work s2)"
            using rest finishVault_effect pre(4) w1 by fastforce+
          then show ?thesis using Some by (auto simp: vaultMoves_def)
        next
          case False
          then have "vaultAnswer A p env r' item res (work s) (durable s')"
            using commitSnapshot_effect [of A p r' item env s2] rest held pre w1 by simp
          then show ?thesis by (rule vaultAnswer_moves [OF _ pre(1,2)]) (use Some in simp)
        qed
      qed
    qed
  qed
qed

lemma vaultBody_effect:
  assumes "vaultBody A p r env s = (Inr (res, er), s')"
  shows "vaultMoves A p env r res (work s) (durable s')"
proof (cases "vc_invalid r \<or> \<not> validateVaultCommit r")
  case True
  then show ?thesis using assms failed_moves by (fastforce simp: vaultBody_def)
next
  case False
  then obtain s1 where "vaultFound A p r (lockVaultItem (vc_namespace r) (vc_item r) (work s)) env s1 = (Inr (res, er), s')"
    "work s1 = work s"
    using assms by (auto simp: vaultBody_def tx_bind_Inr tx_query_Inr)
  then show ?thesis using vaultFound_effect [of A p r _ env s1] by simp
qed

section \<open>The history of a whole database\<close>

lemma preserves_authorizeVault [preserves_intros]: "preserves P (authorizeVault r)"
  unfolding authorizeVault_def by (intro preserves_intros)

lemma CommitVault_cases:
  assumes "CommitVault A p r env d = (Inr out, d')"
  obtains s s' where "keyed A p d" "work s = d" "durable s = d" "d' = durable s'"
    "journaled (vc_operation r) (vaultRequestDigest env r) (vc_actor r) [] replayVaultResult (vaultBody A p r) env s =
      (Inr out, s')"
proof -
  let ?s0 = "\<lparr> work = d, durable = d, tick = 1 \<rparr>"
  obtain s1 s2 s' where 1: "lockMasterKey A p env ?s0 = (Inr (), s1)" and 2: "authorizeVault r env s1 = (Inr (), s2)"
    and 3: "journaled (vc_operation r) (vaultRequestDigest env r) (vc_actor r) [] replayVaultResult (vaultBody A p r) env s2 =
      (Inr out, s')" and 4: "d' = durable s'"
    using assms by (auto simp: CommitVault_def run_tx_iff tx_bind_Inr split: if_splits)
  have "keyed A p d" "work s2 = d" "durable s2 = d"
    using lockMasterKey_Inr [OF 1] unread [OF 2 quiet_authorizeVault preserves_authorizeVault] by auto
  then show thesis using that 3 4 by blast
qed

lemma marked_tables:
  assumes "marked d d'"
  shows "vault_revisions d' = vault_revisions d" "vault_fields d' = vault_fields d"
    "vault_variants d' = vault_variants d" "vault_bindings d' = vault_bindings d"
  using assms by (auto simp: marked_def markItem_def)

lemma marked_ok: "marked d d' \<Longrightarrow> vaultOk d \<Longrightarrow> vaultOk d'"
proof -
  assume m: "marked d d'" and ok: "vaultOk d"
  then obtain i at where d': "d' = markItem i at d" by (auto simp: marked_def)
  have "itemRevision j d' = itemRevision j d" for j
    by (simp add: d' itemRevision_def markItem_def find_updateWhere split: option.split)
  moreover have "revisionIDs d' = revisionIDs d" by (simp add: d' revisionIDs_def markItem_def)
  moreover have "uniqueOn vi_id (vault_items d')" "uniqueOn (\<lambda>v. (vi_namespace v, vi_key v)) (vault_items d')"
    using ok by (auto simp: d' markItem_def vaultOk_def)
  ultimately show "vaultOk d'" using ok marked_tables [OF m] by (simp add: vaultOk_def vaultKeysOk_def)
qed

definition vaultGrown :: "db \<Rightarrow> db \<Rightarrow> bool" where
  "vaultGrown d d' =
     (vaultOk d' \<and>
      (\<exists>rows fs vs bs. vault_revisions d' = vault_revisions d @ rows \<and> length rows \<le> 1 \<and>
         vault_fields d' = vault_fields d @ fs \<and> vault_variants d' = vault_variants d @ vs \<and>
         vault_bindings d' = vault_bindings d @ bs))"

lemma vaultGrown_same:
  assumes "vaultOk d'" and "vault_revisions d' = vault_revisions d" "vault_fields d' = vault_fields d"
    "vault_variants d' = vault_variants d" "vault_bindings d' = vault_bindings d"
  shows "vaultGrown d d'"
  using assms by (auto simp: vaultGrown_def intro: exI [of _ "[]"])

lemma vaultGrown_data: "data d1 = data d \<Longrightarrow> vaultGrown d1 d' = vaultGrown d d'"
  by (simp add: vaultGrown_def data_tables [of d1 d])

lemma appended_grown:
  assumes "vaultAppended A p env r item d d'" and "vaultOk d"
  shows "vaultGrown d d'"
proof -
  from assms(1) obtain i n variants encoded shape placed encrypted t rows where
    n: "n = (case item of None \<Rightarrow> 0 | Some (_, m) \<Rightarrow> m) + 1" "n \<noteq> 0" and held: "holdsItem r i item d"
    and keys: "vaultKeysOk d \<longrightarrow> vaultKeysOk (appendedVault r i item n (revisionAfter r i n encoded encrypted) shape variants placed rows d)"
    and d': "data d' = data (appendedVault r i item n (revisionAfter r i n encoded encrypted) shape variants placed rows d)"
    unfolding vaultAppended_def by blast
  let ?d = "appendedVault r i item n (revisionAfter r i n encoded encrypted) shape variants placed rows d"
  have "vaultKeysOk ?d" using keys assms(2) by (simp add: vaultOk_def)
  from vaultOk_appended [OF assms(2) held n _ _ this] have "vaultOk ?d" by (simp add: revisionAfter_def)
  then have "vaultOk d'" using vaultOk_data [OF d'] by simp
  then show ?thesis unfolding vaultGrown_def data_tables [OF d'] by (simp add: appendedVault_def)
qed

lemma moves_grown:
  assumes "vaultMoves A p env r res d d'" and "vaultOk d"
  shows "vaultGrown d d'"
  using assms(1) unfolding vaultMoves_def
proof (elim disjE exE conjE)
  assume same: "data d' = data d"
  show ?thesis
    by (rule vaultGrown_same) (simp_all only: data_tables [OF same] vaultOk_data [OF same] assms(2))
next
  fix d1
  assume m: "marked d d1" and d1: "data d' = data d1"
  show ?thesis unfolding vaultGrown_def data_tables [OF d1]
    using marked_ok [OF m assms(2)] vaultOk_data [OF d1] marked_tables [OF m] by simp
qed (use appended_grown assms(2) in blast)

lemma CommitVault_moves:
  assumes "CommitVault A p r env d = (Inr (res, er), d')" and "opRow (vc_operation r) d = None"
  obtains d1 where "data d1 = data d" "vaultMoves A p env r res d1 d'" "keyed A p d"
  using assms(1)
proof (rule CommitVault_cases)
  fix s s'
  assume s: "keyed A p d" "work s = d" "durable s = d" "d' = durable s'"
    "journaled (vc_operation r) (vaultRequestDigest env r) (vc_actor r) [] replayVaultResult (vaultBody A p r) env s =
      (Inr (res, er), s')"
  from s(5) show thesis
    by (rule journaled_first_at) (use assms(2) s vaultBody_effect that in auto)
qed

lemma CommitVault_grown:
  assumes "vaultOk d"
  shows "vaultGrown d (snd (CommitVault A p r env d))"
proof (rule allOrNothing_invariant [OF CommitVault_atomic])
  show start: "vaultGrown d d" using assms by (intro vaultGrown_same) auto
  fix env out d'
  assume run: "CommitVault A p r env d = (Inr out, d')"
  show "vaultGrown d d'"
  proof (cases "opRow (vc_operation r) d = None")
    case True
    obtain res er where "out = (res, er)" by fastforce
    then obtain d1 where d1: "data d1 = data d" "vaultMoves A p env r res d1 d'"
      using CommitVault_moves run True by metis
    then show ?thesis using moves_grown vaultOk_data [OF d1(1)] vaultGrown_data [OF d1(1)] assms by blast
  next
    case False
    from run have "d' = d"
      by (rule CommitVault_cases) (use False journaled_seen_at in fastforce)
    with start show ?thesis by simp
  qed
qed

end
