(* ===== verification/VaultServed.thy ===== *)
theory VaultServed
  imports VaultHistory
begin

text \<open>
  Writing and reading of Vault items together: what a commit stored is what a machine's read of
  the item decrypts, and the properties of the item mutations with their witnesses.
\<close>

section \<open>A snapshot and its revision\<close>

lemma fieldTypes_fields:
  "fieldTypes fs types = Some types' \<Longrightarrow> (k, t) \<in> set types' \<Longrightarrow>
    (k, t) \<in> set types \<or> (\<exists>f \<in> set fs. fd_key f = k \<and> fd_type f = t)"
  by (induction fs types rule: fieldTypes.induct) (auto split: if_splits)

lemma Encode_text:
  assumes "Encode sha s = Some e" and "v \<in> set (sn_variants s)" and "map_of (va_values v) k = Some x"
    and "vl_text x = Some txt"
  shows "(\<exists>f \<in> set (sn_fields s). fd_key f = k \<and> fd_type f \<in> {Text, Secret}) \<and> int (length txt) \<le> MaxTextBytes \<and>
    validVariantID (va_id v)"
proof -
  obtain types where types: "fieldTypes (sort_key fd_key (sn_fields s)) [] = Some types"
    and variants: "checkVariants types (sn_variants s) [] []"
    using assms(1) by (auto simp: Encode_def Let_def split: if_splits option.splits)
  have v: "valuesComplete types (va_values v)" "validVariantID (va_id v)"
    using checkVariants_variant [OF variants] assms(2) by auto
  have "(k, x) \<in> set (va_values v)" using assms(3) by (rule map_of_SomeD)
  then obtain t where "map_of types k = Some t" using v(1) by (force simp: valuesComplete_def list_all_iff)
  then have t: "(k, t) \<in> set types" by (rule map_of_SomeD)
  then have valid: "validateValue t x" using v(1) assms(3) by (force simp: valuesComplete_def list_all_iff)
  have "t \<in> {Text, Secret, File}" using fieldTypes_valid [OF types] t by auto
  moreover have "\<exists>f \<in> set (sn_fields s). fd_key f = k \<and> fd_type f = t" using fieldTypes_fields [OF types t] by auto
  ultimately show ?thesis using valid assms(4) v(2)
    by (auto simp: validateValue_def Text_def Secret_def File_def split: if_splits)
qed

lemma validVariantID_bytes:
  "validVariantID v \<Longrightarrow> length (variantBytes v) = 16 \<and> encodeHex (variantBytes v) = v"
  by (auto simp: validVariantID_def variantBytes_def dest: decodeHex_facts split: option.splits)

lemma canonicalPayload_variant:
  assumes "Encode sha s = Some e" and "goSnapshot s" and "v \<in> set (sn_variants s)"
  shows "map_of (canonicalPayload (payloadOf s)) (va_id v) = Some (sort_key fst (va_values v))"
    and "map_of (sort_key fst (va_values v)) = map_of (va_values v)"
proof -
  have "(va_id v, va_values v) \<in> set (payloadOf s)" using assms(3) by (simp add: payloadOf_def)
  then have "(va_id v, sort_key fst (va_values v)) \<in> set (canonicalPayload (payloadOf s))"
    by (force simp: canonicalPayload_def)
  moreover have "map fst (canonicalPayload (payloadOf s)) = map fst (sort_key fst (payloadOf s))"
    by (simp add: canonicalPayload_def case_prod_unfold)
  ultimately show "map_of (canonicalPayload (payloadOf s)) (va_id v) = Some (sort_key fst (va_values v))"
    using Encode_payload(4) [OF assms(1,2)] by (simp add: distinct_map_sort_key)
  show "map_of (sort_key fst (va_values v)) = map_of (va_values v)"
    using assms(2,3) by (intro map_of_sorted) (simp add: goSnapshot_def list_all_iff)
qed

lemma sameVariant_snapshot:
  assumes "list_all2 sameVariant (sn_variants (vc_snapshot r)) variants"
  shows "goSnapshot (snapshotOf r variants) = goSnapshot (vc_snapshot r)"
    and "utf8Snapshot (snapshotOf r variants) = utf8Snapshot (vc_snapshot r)"
proof -
  have "map va_values variants = map va_values (sn_variants (vc_snapshot r))"
    using assms by (induction rule: list_all2_induct) (simp_all add: sameVariant_def)
  moreover have "goSnapshot s = list_all (\<lambda>vs. distinct (map fst vs)) (map va_values (sn_variants s))"
    "utf8Snapshot s = list_all (list_all (\<lambda>(_, x). utf8Value x)) (map va_values (sn_variants s))" for s
    by (simp_all add: goSnapshot_def utf8Snapshot_def list.pred_map comp_def)
  ultimately show "goSnapshot (snapshotOf r variants) = goSnapshot (vc_snapshot r)"
    and "utf8Snapshot (snapshotOf r variants) = utf8Snapshot (vc_snapshot r)"
    by (simp_all add: snapshotOf_def)
qed

lemma sameVariant_found:
  assumes "list_all2 sameVariant vs ws" and "v \<in> set vs"
  obtains w where "w \<in> set ws" "sameVariant v w"
  using assms by (metis in_set_conv_nth list_all2_conv_all_nth)

text \<open>What was sealed opens again, and is not too long to be read.\<close>

lemma snapshot_opens:
  assumes "exactAEAD A" and "sizedRandom R" and "length (master p) = dekSize"
    and "EncryptSnapshot A R t p identity plain = Inr encrypted"
  shows "DecryptSnapshot A p identity encrypted = Inr plain"
    and "length (Ciphertext encrypted) = length plain + 16"
proof -
  have valid: "validateIdentity identity"
    and e: "encrypt A R t p plain (snapshotAAD identity AlgorithmAES256GCM LocalKeyVersion) = Inr encrypted"
    using assms(4) by (auto simp: EncryptSnapshot_def split: if_splits)
  show "DecryptSnapshot A p identity encrypted = Inr plain"
    using encrypt_decrypt [OF assms(1-3) e] valid by (simp add: DecryptSnapshot_def)
  obtain dek nonce where "R t dekSize = Some dek" "R (t + 1) nonceSize = Some nonce"
    and "Ciphertext encrypted = seal A dek nonce plain (snapshotAAD identity AlgorithmAES256GCM LocalKeyVersion)"
    using e by (auto simp: encrypt_def split: option.splits sum.splits)
  then show "length (Ciphertext encrypted) = length plain + 16"
    using assms(1) sizedRandom_length [OF assms(2)] by (simp add: exactAEAD_def)
qed

section \<open>Reading what was appended\<close>

definition revisionStored :: "aead \<Rightarrow> LocalKeyProvider \<Rightarrow> env \<Rightarrow> VaultCommit \<Rightarrow> bytes \<Rightarrow> (bytes \<times> u64) option \<Rightarrow> u64 \<Rightarrow>
    Encoded \<Rightarrow> EncryptedSnapshot \<Rightarrow> vaultFieldRecord list \<Rightarrow> Variant list \<Rightarrow> (string \<times> bytes) list \<Rightarrow>
    vault_field_row list \<Rightarrow> db \<Rightarrow> nat \<Rightarrow> db \<Rightarrow> bool" where
  "revisionStored A p env r i item n encoded encrypted shape variants placed rows d t D =
     (D = appendedVault r i item n (revisionAfter r i n encoded encrypted) shape variants placed rows d \<and>
      vaultOk D \<and> holdsItem r i item d \<and> n \<noteq> 0 \<and> length i = 16 \<and>
      Encode (sha256 env) (snapshotOf r variants) = Some encoded \<and>
      goSnapshot (snapshotOf r variants) \<and> utf8Snapshot (snapshotOf r variants) \<and>
      exactAEAD A \<and> sizedRandom (rand env) \<and> length (master p) = dekSize \<and>
      EncryptSnapshot A (rand env) t p \<lparr> ItemID = encodeHex i, Revision = n \<rparr> (Plaintext encoded) = Inr encrypted \<and>
      (\<forall>f \<in> set (sn_fields (vc_snapshot r)). \<exists>g \<in> set shape.
         fr_key g = fd_key f \<and> fr_type g = fd_type f \<and> fr_active g))"

lemma stored_facts:
  assumes "revisionStored A p env r i item n encoded encrypted shape variants placed rows d t D"
  shows "vaultOk D" "holdsItem r i item d" "n \<noteq> 0" "length i = 16"
    "Encode (sha256 env) (snapshotOf r variants) = Some encoded"
    "goSnapshot (snapshotOf r variants)" "utf8Snapshot (snapshotOf r variants)"
    "exactAEAD A" "sizedRandom (rand env)" "length (master p) = dekSize"
    "EncryptSnapshot A (rand env) t p \<lparr> ItemID = encodeHex i, Revision = n \<rparr> (Plaintext encoded) = Inr encrypted"
    "\<forall>f \<in> set (sn_fields (vc_snapshot r)). \<exists>g \<in> set shape. fr_key g = fd_key f \<and> fr_type g = fd_type f \<and> fr_active g"
    "D = appendedVault r i item n (revisionAfter r i n encoded encrypted) shape variants placed rows d"
  using assms unfolding revisionStored_def by blast+

lemma stored_tables:
  assumes stored: "revisionStored A p env r i item n encoded encrypted shape variants placed rows d t D"
  shows "vault_items D = itemsAfter r i item n (vault_items d)"
  "vault_revisions D = vault_revisions d @ [revisionAfter r i n encoded encrypted]"
  "vault_fields D = vault_fields d @ map (fieldRow i n) shape"
  "vault_bindings D = vault_bindings d @ concat (map (bindingRows i n placed) variants)"
  using stored_facts(13) [OF stored] by (simp_all add: appendedVault_def)

lemma stored_unique:
  assumes stored: "revisionStored A p env r i item n encoded encrypted shape variants placed rows d t D"
  shows "uniqueOn (\<lambda>v. (vi_namespace v, vi_key v)) (vault_items D)"
  "uniqueOn (\<lambda>r. (vr_item r, vr_revision r)) (vault_revisions D)"
  "uniqueOn (\<lambda>f. (vf_item f, vf_revision f, vf_key f)) (vault_fields D)"
  "uniqueOn (\<lambda>b. (vb_item b, vb_revision b, vb_env b)) (vault_bindings D)"
  using stored_facts(1) [OF stored] by (simp_all add: vaultOk_def vaultKeysOk_def)

lemma item_read:
  assumes stored: "revisionStored A p env r i item n encoded encrypted shape variants placed rows d t D"
  shows "activeItem (vc_namespace r) (vc_item r) D = Some (i, n)"
proof -
  have "\<exists>v \<in> set (vault_items D). vi_namespace v = vc_namespace r \<and> vi_key v = vc_item r \<and>
      vi_archived v = None \<and> vi_id v = i \<and> vi_revision v = n"
  proof (cases item)
    case None
    then show ?thesis by (simp add: stored_tables [OF stored] itemsAfter_def newItem_def)
  next
    case (Some jm)
    then obtain v where "v \<in> set (vault_items d)" "vi_namespace v = vc_namespace r" "vi_key v = vc_item r"
      "vi_id v = i" "vi_archived v = None"
      using stored_facts(2) [OF stored] by (cases jm) (auto simp: holdsItem_def vaultRow_def dest: find_SomeD)
    then show ?thesis using Some
      by (intro bexI [of _ "v\<lparr> vi_name := vc_name r, vi_revision := n \<rparr>"])
        (auto simp: stored_tables [OF stored] itemsAfter_def set_updateWhere)
  qed
  then obtain v where v: "v \<in> set (vault_items D)" "vi_namespace v = vc_namespace r" "vi_key v = vc_item r"
    "vi_archived v = None" "vi_id v = i" "vi_revision v = n" by blast
  have "find (\<lambda>v. vi_namespace v = vc_namespace r \<and> vi_key v = vc_item r \<and> vi_archived v = None)
      (vault_items D) = Some v"
    by (rule find_unique [OF stored_unique(1) [OF stored] v(1)]) (use v in auto)
  then show ?thesis using v by (simp add: activeItem_def)
qed

lemma payload_read:
  assumes stored: "revisionStored A p env r i item n encoded encrypted shape variants placed rows d t D"
    and "md_item m = i" and "md_revision m = n"
  shows "payloadIn A p m D = Inr (canonicalPayload (payloadOf (snapshotOf r variants)))"
proof -
  have "find (\<lambda>x. vr_item x = i \<and> vr_revision x = n) (vault_revisions D) =
      Some (revisionAfter r i n encoded encrypted)"
    by (rule find_unique [OF stored_unique(2) [OF stored]]) (auto simp: stored_tables [OF stored] revisionAfter_def)
  moreover have "int (length (Ciphertext encrypted)) \<le> MaxSnapshotBytes + 32"
    using snapshot_opens(2) [OF stored_facts(8,9,10,11) [OF stored]] Encode_payload(2) [OF stored_facts(5,6) [OF stored]] by simp
  moreover have "openPayload A p m encrypted = Some (canonicalPayload (payloadOf (snapshotOf r variants)))"
    using snapshot_opens(1) [OF stored_facts(8,9,10,11) [OF stored]] Encode_Decode [OF stored_facts(5,6,7) [OF stored]] assms(2,3)
    by (simp add: openPayload_def)
  ultimately show ?thesis using assms(2,3) by (simp add: payloadIn_def vaultRevision_def revisionAfter_def)
qed

lemma type_read:
  assumes stored: "revisionStored A p env r i item n encoded encrypted shape variants placed rows d t D"
    and "f \<in> set (sn_fields (vc_snapshot r))"
  shows "map_of (revisionFieldTypes i n D) (fd_key f) = Some (fd_type f)"
proof -
  obtain g where g: "g \<in> set shape" "fr_key g = fd_key f" "fr_type g = fd_type f" "fr_active g"
    using stored_facts(12) [OF stored] assms(2) by blast
  let ?rows = "filter (\<lambda>x. vf_item x = i \<and> vf_revision x = n \<and> \<not> vf_archived x) (vault_fields D)"
  have "fieldRow i n g \<in> set ?rows" using g by (auto simp: stored_tables [OF stored] fieldRow_def)
  then have "(fd_key f, fd_type f) \<in> set (revisionFieldTypes i n D)"
    using g by (force simp: revisionFieldTypes_def fieldRow_def)
  moreover have "distinct (map fst (revisionFieldTypes i n D))"
  proof -
    have "uniqueOn (\<lambda>f. (vf_item f, vf_revision f, vf_key f)) ?rows" using stored_unique(3) [OF stored] by (rule uniqueOn_filter)
    then have "distinct (map vf_key ?rows)"
      by (auto simp: uniqueOn_def distinct_map inj_on_def)
    then show ?thesis by (simp add: revisionFieldTypes_def comp_def)
  qed
  ultimately show ?thesis by (simp add: map_of_is_SomeI)
qed

lemma binding_read:
  assumes stored: "revisionStored A p env r i item n encoded encrypted shape variants placed rows d t D"
    and "v \<in> set variants" and "k \<in> set (elems (va_envs v))" and "map_of placed k = Some e"
  shows "find (\<lambda>b. vb_item b = i \<and> vb_revision b = n \<and> vb_env b = e) (vault_bindings D) =
    Some \<lparr> vb_item = i, vb_revision = n, vb_variant = variantBytes (va_id v), vb_env = e \<rparr>"
  by (rule find_unique [OF stored_unique(4) [OF stored]])
    (use assms(2-4) in \<open>force simp: stored_tables [OF stored] bindingRows_def\<close>, auto)

text \<open>A text the snapshot holds for an environment is what the item's reference there resolves to.\<close>

lemma text_read:
  assumes stored: "revisionStored A p env r i item n encoded encrypted shape variants placed rows d t D"
    and "v \<in> set variants" and "k \<in> set (elems (va_envs v))" and "map_of placed k = Some e"
    and "map_of (va_values v) f = Some x" and "vl_text x = Some txt"
  shows "vaultText A p e D (Reference (vc_namespace r) (vc_item r) f) = Some txt"
proof -
  have in_s: "v \<in> set (sn_variants (snapshotOf r variants))" using assms(2) by (simp add: snapshotOf_def)
  note t = Encode_text [OF stored_facts(5) [OF stored] in_s assms(5,6)]
  obtain fd where fd: "fd \<in> set (sn_fields (vc_snapshot r))" "fd_key fd = f" "fd_type fd \<in> {Text, Secret}"
    using t by (auto simp: snapshotOf_def)
  have valid: "length (variantBytes (va_id v)) = 16" "encodeHex (variantBytes (va_id v)) = va_id v"
    using validVariantID_bytes t by auto
  let ?m = "\<lparr> md_item = i, md_revision = n, md_variant = variantBytes (va_id v) \<rparr>"
  have "itemMetadata e (vc_namespace r, vc_item r) D = Some ?m"
    using item_read [OF stored] binding_read [OF stored assms(2-4)] by (simp add: itemMetadata_def)
  then have m: "metadataOf e (vc_namespace r, vc_item r) D = Inr ?m"
    using stored_facts(3,4) [OF stored] valid by (simp add: metadataOf_def)
  have "textValue (revisionFieldTypes i n D) (sort_key fst (va_values v)) f = Some txt"
    using type_read [OF stored fd(1)] fd(2,3) t assms(5,6) canonicalPayload_variant(2) [OF stored_facts(5,6) [OF stored] in_s]
    by (auto simp: textValue_def)
  then have "fieldText A p ?m D f = Some txt"
    using payload_read [OF stored, of ?m] canonicalPayload_variant(1) [OF stored_facts(5,6) [OF stored] in_s] valid by (simp add: fieldText_def)
  then show ?thesis using m by (simp add: vaultText_def identityOf_def)
qed

lemma vaultText_tables:
  assumes "vault_items d' = vault_items d" "vault_bindings d' = vault_bindings d"
    "vault_revisions d' = vault_revisions d" "vault_fields d' = vault_fields d"
  shows "vaultText A p e d' x = vaultText A p e d x"
proof -
  have metadata: "metadataOf e i d' = metadataOf e i d" for i
    unfolding metadataOf_def itemMetadata_def activeItem_def assms by (rule refl)
  have payload: "payloadIn A p m d' = payloadIn A p m d" for m
    by (simp add: payloadIn_def vaultRevision_def assms)
  have types: "revisionFieldTypes i n d' = revisionFieldTypes i n d" for i n
    by (simp add: revisionFieldTypes_def assms)
  show ?thesis unfolding vaultText_def fieldText_def metadata payload types by (rule refl)
qed

text \<open>The keys the tables are looked up by.\<close>

definition vaultTablesOk :: "db \<Rightarrow> bool" where
  "vaultTablesOk d =
     (vaultOk d \<and> (\<forall>v \<in> set (vault_items d). length (vi_id v) = 16) \<and>
      uniqueOn (\<lambda>w. (vw_item w, vw_key w)) (vault_item_fields d) \<and> uniqueOn env_key (environments d))"

lemma vaultTablesOk_data:
  assumes "data d' = data d"
  shows "vaultTablesOk d' = vaultTablesOk d"
  by (simp only: vaultTablesOk_def vaultOk_data [OF assms] data_tables(1,6,17) [OF assms])

lemma appended_served:
  assumes app: "vaultAppended A p env r item d d'" and ok: "vaultTablesOk d"
    and A: "exactAEAD A" and R: "sizedRandom (rand env)" and key: "length (master p) = dekSize"
    and snapshot: "goSnapshot (vc_snapshot r)" "utf8Snapshot (vc_snapshot r)"
    and v: "v \<in> set (sn_variants (vc_snapshot r))" "k \<in> set (elems (va_envs v))"
    and e: "activeEnvironment k d = Some e"
    and x: "map_of (va_values v) f = Some x" "vl_text x = Some txt"
  shows "vaultText A p e d' (Reference (vc_namespace r) (vc_item r) f) = Some txt"
proof -
  have okd: "vaultOk d" using ok by (simp add: vaultTablesOk_def)
  from app obtain i n variants encoded shape placed encrypted t rows where
    n: "n = (case item of None \<Rightarrow> 0 | Some (_, m) \<Rightarrow> m) + 1" "n \<noteq> 0" and held: "holdsItem r i item d"
    and new: "item = None \<longrightarrow> drewID env i"
    and same: "list_all2 sameVariant (sn_variants (vc_snapshot r)) variants"
    and enc: "Encode (sha256 env) (snapshotOf r variants) = Some encoded"
    and shape: "distinct (map vw_key (filter (\<lambda>w. vw_item w = i) (vault_item_fields d))) \<longrightarrow>
          (\<forall>f \<in> set (sn_fields (vc_snapshot r)). \<exists>g \<in> set shape.
             fr_key g = fd_key f \<and> fr_type g = fd_type f \<and> fr_active g)"
    and placed: "placedAt d [] (requestedBindings variants) placed"
    and sealed: "EncryptSnapshot A (rand env) t p \<lparr> ItemID = encodeHex i, Revision = n \<rparr> (Plaintext encoded) = Inr encrypted"
    and keys: "vaultKeysOk d \<longrightarrow> vaultKeysOk (appendedVault r i item n (revisionAfter r i n encoded encrypted) shape variants placed rows d)"
    and d': "data d' = data (appendedVault r i item n (revisionAfter r i n encoded encrypted) shape variants placed rows d)"
    unfolding vaultAppended_def by blast
  let ?D = "appendedVault r i item n (revisionAfter r i n encoded encrypted) shape variants placed rows d"
  have "vaultKeysOk ?D" using keys okd by (simp add: vaultOk_def)
  from vaultOk_appended [OF okd held n _ _ this] have D: "vaultOk ?D" by (simp add: revisionAfter_def)
  have "length i = 16"
  proof (cases item)
    case None
    then show ?thesis using new R by (auto simp: drewID_def sizedRandom_def)
  next
    case (Some jm)
    then show ?thesis using held ok
      by (cases jm) (auto simp: holdsItem_def vaultRow_def vaultTablesOk_def dest: find_SomeD)
  qed
  moreover have "distinct (map vw_key (filter (\<lambda>w. vw_item w = i) (vault_item_fields d)))"
  proof -
    have "uniqueOn (\<lambda>w. (vw_item w, vw_key w)) (filter (\<lambda>w. vw_item w = i) (vault_item_fields d))"
      using ok by (auto simp: vaultTablesOk_def)
    then show ?thesis by (auto simp: uniqueOn_def distinct_map inj_on_def)
  qed
  ultimately have stored: "revisionStored A p env r i item n encoded encrypted shape variants placed rows d t ?D"
    unfolding revisionStored_def using D held n(2) enc snapshot sameVariant_snapshot [OF same] A R key sealed shape
    by blast
  from same v(1) obtain w where w: "w \<in> set variants" "sameVariant v w" by (rule sameVariant_found)
  then have wk: "k \<in> set (elems (va_envs w))" "map_of (va_values w) f = Some x"
    using v(2) x(1) by (simp_all add: sameVariant_def)
  have "find (\<lambda>x. env_key x = k) (environments d) = find (\<lambda>x. env_key x = k \<and> env_archived x = None) (environments d)"
  proof -
    obtain y where y: "find (\<lambda>x. env_key x = k \<and> env_archived x = None) (environments d) = Some y"
      using e by (auto simp: activeEnvironment_def)
    then have "y \<in> set (environments d)" "env_key y = k" by (auto dest: find_SomeD)
    then have "find (\<lambda>x. env_key x = k) (environments d) = Some y"
      using ok by (intro find_unique [of env_key]) (auto simp: vaultTablesOk_def)
    with y show ?thesis by simp
  qed
  then have "map_option fst (environmentState k d) = Some e"
    using e by (auto simp: environmentState_def activeEnvironment_def)
  moreover have "k \<in> fst ` set (requestedBindings variants)" using requestedBindings_keys wk(1) w(1) by blast
  ultimately have "map_of placed k = Some e" using placed by (simp add: placedAt_def)
  from text_read [OF stored w(1) wk(1) this wk(2) x(2)] show ?thesis
    by (subst vaultText_tables [where d = ?D]) (simp_all only: data_tables [OF d'])
qed

section \<open>The lifecycle\<close>

lemma markedI: "marked d (markItem i at d)"
  by (auto simp: marked_def)

lemma finishVaultLifecycle_effect:
  assumes "finishVaultLifecycle r out a t fl env s = (Inr q, s')"
  shows "data (durable s') = data (work s)"
  using finishCommit_effect [OF assms [unfolded finishVaultLifecycle_def Let_def]] by simp

lemma vaultLifecycleBody_effect:
  assumes "vaultLifecycleBody r env s = (Inr q, s')"
  shows "data (durable s') = data (work s) \<or> (\<exists>d1. marked (work s) d1 \<and> data (durable s') = data d1)"
  using assms
  by (auto simp: vaultLifecycleBody_def tx_bind_Inr tx_query_Inr tx_exec_Inr split: if_splits option.splits
      dest!: finishVaultLifecycle_effect) (blast intro: markedI)+

lemma lifecycle_grown:
  assumes "vaultOk d"
  shows "vaultGrown d (snd (ApplyVaultLifecycleChange r env d))"
proof (rule allOrNothing_invariant [OF ApplyVaultLifecycleChange_atomic])
  show start: "vaultGrown d d" using assms by (intro vaultGrown_same) auto
  fix env out d'
  assume run: "ApplyVaultLifecycleChange r env d = (Inr out, d')"
  then have run: "run_tx (journaled (vl_operation r) (vaultLifecycleDigest env r) (vl_actor r) []
      replayVaultLifecycle (vaultLifecycleBody r)) env d = (Inr out, d')"
    by (simp add: ApplyVaultLifecycleChange_def split: if_splits)
  show "vaultGrown d d'"
  proof (cases "opRow (vl_operation r) d = None")
    case True
    from run True obtain s s' where s: "data (work s) = data d" "vaultLifecycleBody r env s = (Inr out, s')" "d' = durable s'"
      by (rule journaled_first)
    from vaultLifecycleBody_effect [OF s(2)]
    have "vaultMoves undefined undefined env (undefined\<lparr> vc_scoped := Some undefined \<rparr>) undefined (work s) d'"
      using s(3) by (auto simp: vaultMoves_def)
    then show ?thesis using moves_grown vaultOk_data [OF s(1)] vaultGrown_data [OF s(1)] assms by blast
  next
    case False
    then show ?thesis using run journaled_seen_at start by (fastforce simp: run_tx_iff)
  qed
qed

section \<open>Properties\<close>

text \<open>
  C26. What is committed is what machines read. When a commit of a snapshot reports success, the
  next revision of the item was written, and from then on every text of the snapshot is what the
  item's reference resolves to in each active environment its variant names, through encoding,
  encryption and the tables.
\<close>

theorem vault_commit_served:
  assumes "CommitVault A p r env d = (Inr (res, er), d')" and "vm_outcome res = OutcomeSuccess"
    and "vc_scoped r = None" and "opRow (vc_operation r) d = None" and "vaultTablesOk d"
    and "exactAEAD A" and "sizedRandom (rand env)" and "length (master p) = dekSize"
    and "goSnapshot (vc_snapshot r)" and "utf8Snapshot (vc_snapshot r)"
  shows "vm_revision res = vc_expected r + 1 \<and>
    (\<forall>v \<in> set (sn_variants (vc_snapshot r)). \<forall>k \<in> set (elems (va_envs v)). \<forall>e f x txt.
       activeEnvironment k d = Some e \<longrightarrow> map_of (va_values v) f = Some x \<longrightarrow> vl_text x = Some txt \<longrightarrow>
       vaultText A p e d' (Reference (vc_namespace r) (vc_item r) f) = Some txt)"
proof -
  from assms(1,4) obtain d1 where d1: "data d1 = data d" and moves: "vaultMoves A p env r res d1 d'"
    by (rule CommitVault_moves)
  from moves obtain item where app: "vaultAppended A p env r item d1 d'"
    and n: "vm_revision res = vc_expected r + 1" using assms(2,3) by (auto simp: vaultMoves_def)
  have "vaultTablesOk d1" using vaultTablesOk_data [OF d1] assms(5) by simp
  moreover have "activeEnvironment k d1 = activeEnvironment k d" for k
    by (simp add: activeEnvironment_def data_tables(1) [OF d1])
  ultimately show ?thesis using appended_served [OF app _ assms(6-10)] n by auto
qed

text \<open>
  C27. The history of Vault items is append-only: whatever a commit, a restore, a confined write
  or a change of lifecycle answers, and whichever database calls fail, at most one revision is
  added with its fields, variants and bindings, nothing that was stored changes, and the
  revisions of every item stay numbered from 1 without gaps.
\<close>

theorem vault_history_append_only:
  assumes "vaultOk d"
  shows "vaultGrown d (snd (CommitVault A p r env d)) \<and> vaultGrown d (snd (WriteScopedVault A p w env d)) \<and>
    vaultGrown d (snd (RestoreVault A p v reading seen env d)) \<and>
    vaultGrown d (snd (ApplyVaultLifecycleChange c env d))"
proof -
  have same: "vaultGrown d d" using assms by (intro vaultGrown_same) auto
  have commit: "vaultGrown d (snd (CommitVault A p r env d))" for r by (rule CommitVault_grown [OF assms])
  have "vaultGrown d (snd (WriteScopedVault A p w env d))"
    using commit same by (simp add: WriteScopedVault_def)
  moreover have "vaultGrown d (snd (RestoreVault A p v reading seen env d))"
    using commit same by (simp add: RestoreVault_def Let_def split: sum.split)
  ultimately show ?thesis using commit lifecycle_grown [OF assms] by blast
qed

section \<open>Samples\<close>

definition vaultRequest :: VaultCommit where
  "vaultRequest =
     \<lparr> vc_operation = ''op-vault-1'', vc_actor = Actor ''user'' ''u1'', vc_namespace = ''db'', vc_item = ''main'',
       vc_name = ''Main'', vc_expected = 0,
       vc_snapshot = \<lparr> sn_fields = [\<lparr> fd_key = ''pw'', fd_name = ''P'', fd_type = Secret \<rparr>],
         sn_variants = [\<lparr> va_id = [], va_envs = Some [''prod''],
           va_values = [(''pw'', \<lparr> vl_text = Some ''s3'', vl_file = None \<rparr>)] \<rparr>] \<rparr>,
       vc_digest = Some ''digest'', vc_invalid = False, vc_action = [], vc_success = [], vc_restored = 0,
       vc_scoped = None \<rparr>"

text \<open>A database with one environment and the sentinel of its key.\<close>

definition vaultDb :: db where
  "vaultDb = sampleDb\<lparr> crypto_sentinel :=
     (case CreateSentinel plainAEAD zeroRandom 0 zeroProvider of Inl _ \<Rightarrow> None | Inr s \<Rightarrow> Some s) \<rparr>"

definition vaultEnv :: env where
  "vaultEnv = sampleEnv\<lparr> rand := \<lambda>t n. Some (take n (replicate (t - 12) CHR ''a'' @ replicate n CHR ''b'')) \<rparr>"

definition vaultOutcome :: "VaultCommitResult \<times> err option" where
  "vaultOutcome = projr (fst (CommitVault plainAEAD zeroProvider vaultRequest vaultEnv vaultDb))"

definition vaultAfter :: db where
  "vaultAfter = snd (CommitVault plainAEAD zeroProvider vaultRequest vaultEnv vaultDb)"

lemma vault_run: "map_sum id (\<lambda>(res, _). (vm_outcome res, vm_revision res))
   (fst (CommitVault plainAEAD zeroProvider vaultRequest vaultEnv vaultDb)) = Inr (OutcomeSuccess, 1)"
  by code_simp

lemma vault_committed:
  "CommitVault plainAEAD zeroProvider vaultRequest vaultEnv vaultDb =
     (Inr (fst vaultOutcome, snd vaultOutcome), vaultAfter) \<and>
   vm_outcome (fst vaultOutcome) = OutcomeSuccess"
proof -
  obtain out d' where run: "CommitVault plainAEAD zeroProvider vaultRequest vaultEnv vaultDb = (out, d')" by fastforce
  with vault_run obtain res er where out: "out = Inr (res, er)" "vm_outcome res = OutcomeSuccess"
    by (cases out) auto
  then show ?thesis using run by (simp add: vaultOutcome_def vaultAfter_def)
qed

lemma vault_tables: "vaultTablesOk vaultDb"
proof -
  have "vault_items vaultDb = []" "vault_revisions vaultDb = []" "vault_fields vaultDb = []"
    "vault_variants vaultDb = []" "vault_bindings vaultDb = []" "vault_item_fields vaultDb = []"
    "map env_key (environments vaultDb) = [''prod'']"
    by (simp_all add: vaultDb_def sampleDb_def emptyDb_def)
  then show ?thesis
    by (auto simp: vaultTablesOk_def vaultOk_def vaultKeysOk_def revisionIDs_def itemRevision_def uniqueOn_def)
qed

lemma vault_random: "sizedRandom (rand vaultEnv)"
  by (auto simp: vaultEnv_def sizedRandom_def)

lemma vault_request: "vc_scoped vaultRequest = None" "opRow (vc_operation vaultRequest) vaultDb = None"
  "goSnapshot (vc_snapshot vaultRequest)" "utf8Snapshot (vc_snapshot vaultRequest)"
  "activeEnvironment ''prod'' vaultDb = Some ''env-prod''"
  by code_simp+

theorem vault_commit_served_witness:
  "vm_revision (fst vaultOutcome) = 1 \<and>
   vaultText plainAEAD zeroProvider ''env-prod'' vaultAfter (Reference ''db'' ''main'' ''pw'') = Some ''s3''"
  using vault_commit_served [OF conjunct1 [OF vault_committed] conjunct2 [OF vault_committed] vault_request(1,2)
      vault_tables plainAEAD_exact vault_random zeroProvider_key vault_request(3,4)] vault_request(5)
  by (auto simp: vaultRequest_def elems_def)

theorem vault_history_append_only_witness:
  "vaultGrown vaultDb (snd (CommitVault plainAEAD zeroProvider vaultRequest vaultEnv vaultDb))"
proof -
  have "vaultOk vaultDb" using vault_tables by (simp add: vaultTablesOk_def)
  from vault_history_append_only [OF this] show ?thesis by blast
qed

end
