(* ===== verification/Sessions.thy ===== *)
theory Sessions
  imports VaultServed HumanAuth MachineAccess
begin

text \<open>
  Sessions in the database (\<^verbatim>\<open>mysqlstore/session_policy.go\<close>, \<^verbatim>\<open>session.go\<close>):
  the policy row of an identity (a subject or a session of an issuer) whose generation grows with
  every change, the change as a journalled mutation, the policy a sign-in and every request read,
  and the rows of the session manager. The source address of a logout notice is that of the
  environment; the ticker that repeats the clean-up is left out.
\<close>

section \<open>Identities and their policies\<close>

record SessionChange =
  sc_operation :: string
  sc_actor :: actor
  sc_issuer :: string
  sc_subject :: string
  sc_session :: string
  sc_action :: string
  sc_logout_issued :: time

record SessionChangeResult =
  sr_outcome :: Outcome
  sr_identity :: string
  sr_generation :: u64
  sr_blocked :: bool

definition sessionIdentity :: "env \<Rightarrow> string \<Rightarrow> string \<Rightarrow> string \<Rightarrow> bytes" where
  "sessionIdentity env kind issuer target =
     sha256 env (compactJSON (JArr [JStr kind, JStr issuer, JStr target]))"

definition policyRow :: "bytes \<Rightarrow> db \<Rightarrow> session_policy_row option" where
  "policyRow i d = find (\<lambda>p. sp_identity p = i) (session_policies d)"

text \<open>The generations and the latest revocation of the subject and of the session.\<close>

definition addPolicy :: "bool \<Rightarrow> session_policy_row option \<Rightarrow> SessionPolicy \<Rightarrow> SessionPolicy" where
  "addPolicy subject row policy =
     (case row of
        None \<Rightarrow> policy
      | Some p \<Rightarrow>
          (let counted = (if subject then policy\<lparr> SubjectGeneration := sp_generation p \<rparr>
                          else policy\<lparr> SessionGeneration := sp_generation p \<rparr>) in
           counted\<lparr> Blocked := Blocked policy \<or> sp_blocked p,
                    RevokedAt := (if RevokedAt policy < sp_revoked p then sp_revoked p else RevokedAt policy) \<rparr>))"

definition readPolicyPart :: "string \<Rightarrow> string \<Rightarrow> string \<Rightarrow> SessionPolicy \<Rightarrow> SessionPolicy tx" where
  "readPolicyPart kind issuer target policy =
     (if target = [] then tx_return policy
      else
        tx_bind (tx_env (\<lambda>env. sessionIdentity env kind issuer target)) (\<lambda>i.
        tx_bind (tx_query (policyRow i)) (\<lambda>row. tx_return (addPolicy (kind = ''subject'') row policy))))"

definition noPolicy :: SessionPolicy where
  "noPolicy = \<lparr> SubjectGeneration = 0, SessionGeneration = 0, Blocked = False, RevokedAt = 0 \<rparr>"

definition ReadSessionPolicy :: "string \<Rightarrow> string \<Rightarrow> string \<Rightarrow> SessionPolicy tx" where
  "ReadSessionPolicy issuer subject sid =
     tx_bind (readPolicyPart ''subject'' issuer subject noPolicy) (readPolicyPart ''sid'' issuer sid)"

section \<open>Changes\<close>

definition validSessionChange :: "SessionChange \<Rightarrow> bool" where
  "validSessionChange r =
     (validOperationID (sc_operation r) \<and> validActor (sc_actor r) \<and> sc_issuer r \<noteq> [] \<and>
      length (sc_issuer r) \<le> 512 \<and> (sc_subject r = []) \<noteq> (sc_session r = []) \<and>
      length (sc_subject r) \<le> 255 \<and> length (sc_session r) \<le> 1024 \<and>
      (sc_action r = ''invalidate'' \<or> sc_action r = ''block'' \<or> sc_action r = ''unblock''))"

definition sessionTarget :: "SessionChange \<Rightarrow> string \<times> string" where
  "sessionTarget r =
     (if sc_session r \<noteq> [] then (''sid'', sc_session r) else (''subject'', sc_subject r))"

definition sessionChangeDigest :: "env \<Rightarrow> SessionChange \<Rightarrow> bytes" where
  "sessionChangeDigest env r =
     sha256 env (compactJSON (JObj
       [(''Request'', JObj [(''OperationID'', JStr (sc_operation r)), (''Actor'', actorJSON (sc_actor r)),
                           (''issuer'', JStr (sc_issuer r)), (''subject'', JStr (sc_subject r)),
                           (''action'', JStr (sc_action r))]),
        (''SID'', JStr (sc_session r)), (''IssuedAt'', JStr (timeText (sc_logout_issued r)))]))"

definition sessionResultJSON :: "SessionChangeResult \<Rightarrow> json" where
  "sessionResultJSON r =
     JObj [(''outcome'', JStr (outcomeText (sr_outcome r))), (''identity_id'', JStr (sr_identity r)),
           (''generation'', JNum (FormatUint (sr_generation r))), (''blocked'', JBool (sr_blocked r))]"

definition sessionResultOf :: "json \<Rightarrow> SessionChangeResult option" where
  "sessionResultOf v =
     (case (isObject v, outcomeOf (member ''outcome'' v), asString (member ''identity_id'' v),
            asUint64 (member ''generation'' v), asBool (member ''blocked'' v)) of
        (True, Some out, Some i, Some g, Some b) \<Rightarrow>
          Some \<lparr> sr_outcome = out, sr_identity = i, sr_generation = g, sr_blocked = b \<rparr>
      | _ \<Rightarrow> None)"

definition replaySessionResult :: "operationReplay \<Rightarrow> err + SessionChangeResult \<times> err option" where
  "replaySessionResult rp =
     (case sessionResultOf (replayResponse rp) of
        None \<Rightarrow> Inl ErrInternal
      | Some previous \<Rightarrow> Inr (previous, outcomeError (sr_outcome previous)))"

text \<open>
  \<^verbatim>\<open>INSERT ... ON DUPLICATE KEY UPDATE\<close>: the generation starts at 1, the column does not
  wrap around.
\<close>

definition movePolicy :: "bytes \<Rightarrow> SessionChange \<Rightarrow> time \<Rightarrow> db \<Rightarrow> db option" where
  "movePolicy i r at d =
     (case policyRow i d of
        None \<Rightarrow>
          Some (d\<lparr> session_policies := session_policies d @
            [\<lparr> sp_identity = i, sp_issuer = sc_issuer r, sp_kind = fst (sessionTarget r),
               sp_target = snd (sessionTarget r), sp_generation = 1, sp_blocked = (sc_action r = ''block''),
               sp_revoked = at \<rparr>] \<rparr>)
      | Some p \<Rightarrow>
          if sp_generation p + 1 = 0 then None
          else
            Some (d\<lparr> session_policies := updateWhere (\<lambda>p. sp_identity p = i)
              (\<lambda>p. p\<lparr> sp_generation := sp_generation p + 1,
                      sp_blocked := (if sc_action r = ''invalidate'' then sp_blocked p else sc_action r = ''block''),
                      sp_revoked := at \<rparr>) (session_policies d) \<rparr>))"

definition sessionEvent :: "SessionChange \<Rightarrow> string \<Rightarrow> mutationEvent" where
  "sessionEvent r identity =
     \<lparr> me_field = [], me_type = ''identity.'' @ sc_action r, me_action = ''identity.'' @ sc_action r,
       me_environment = [], me_namespace = [], me_resource_type = ''identity'', me_resource_key = identity \<rparr>"

definition finishSessionChange :: "SessionChange \<Rightarrow> bytes \<Rightarrow> session_policy_row \<Rightarrow> (SessionChangeResult \<times> err option) tx" where
  "finishSessionChange r i p =
     (let res = \<lparr> sr_outcome = OutcomeSuccess, sr_identity = encodeHex i, sr_generation = sp_generation p,
                  sr_blocked = sp_blocked p \<rparr> in
      tx_bind (finishOperation (sc_operation r) (sc_actor r) OutcomeSuccess 0 (sessionResultJSON res)
                 (sessionEvent r (encodeHex i)) False) (\<lambda>_.
        commitWith res None))"

definition sessionChangeBody :: "SessionChange \<Rightarrow> (SessionChangeResult \<times> err option) tx" where
  "sessionChangeBody r =
     tx_bind (tx_env (\<lambda>env. sessionIdentity env (fst (sessionTarget r)) (sc_issuer r) (snd (sessionTarget r)))) (\<lambda>i.
     tx_bind (tx_env db_now) (\<lambda>at.
     tx_bind (tx_exec (movePolicy i r at)) (\<lambda>_.
     tx_bind (tx_query (policyRow i)) (\<lambda>row.
       case row of None \<Rightarrow> tx_fail ErrInternal | Some p \<Rightarrow> finishSessionChange r i p))))"

definition ChangeSessions :: "aead \<Rightarrow> LocalKeyProvider \<Rightarrow> SessionChange \<Rightarrow> env \<Rightarrow> db \<Rightarrow>
    (err + SessionChangeResult \<times> err option) \<times> db" where
  "ChangeSessions A provider r env d =
     (if \<not> validSessionChange r then (Inl ErrValidation, d)
      else
        run_tx
          (tx_bind (lockMasterKey A provider) (\<lambda>_.
             journaled (sc_operation r) (sessionChangeDigest env r) (sc_actor r) [] replaySessionResult
               (sessionChangeBody r))) env d)"

section \<open>Logout of the identity provider\<close>

record LogoutNotice =
  ln_issuer :: string
  ln_subject :: string
  ln_session :: string
  ln_token :: string
  ln_issued :: time

definition logoutChange :: "env \<Rightarrow> LogoutNotice \<Rightarrow> SessionChange" where
  "logoutChange env notice =
     \<lparr> sc_operation = ''oidc-logout-'' @ encodeHex (sessionIdentity env ''logout'' (ln_issuer notice) (ln_token notice)),
       sc_actor = Actor ''system'' ''oidc-backchannel-logout'', sc_issuer = ln_issuer notice,
       sc_subject = (if ln_session notice \<noteq> [] then [] else ln_subject notice), sc_session = ln_session notice,
       sc_action = ''invalidate'', sc_logout_issued = ln_issued notice \<rparr>"

definition ApplyOIDCLogout :: "aead \<Rightarrow> LocalKeyProvider \<Rightarrow> LogoutNotice \<Rightarrow> env \<Rightarrow> db \<Rightarrow> err option \<times> db" where
  "ApplyOIDCLogout A provider notice env d =
     (if ln_token notice = [] \<or> length (ln_token notice) > 1024 \<or> ln_issued notice = 0 then (Some ErrValidation, d)
      else
        (case ChangeSessions A provider (logoutChange env notice) env d of
           (Inl e, d') \<Rightarrow> (Some e, d')
         | (Inr (_, e), d') \<Rightarrow> (e, d')))"

section \<open>Rows of the session manager\<close>

definition FindCtx :: "string \<Rightarrow> bytes option tx" where
  "FindCtx token =
     tx_bind (tx_env db_now) (\<lambda>at.
       tx_query (\<lambda>d. map_option ms_data (find (\<lambda>s. ms_token s = token \<and> at < ms_expiry s) (management_sessions d))))"

definition putSession :: "session_row \<Rightarrow> db \<Rightarrow> db" where
  "putSession s d =
     (if existsRow (\<lambda>t. ms_token t = ms_token s) (management_sessions d)
      then d\<lparr> management_sessions := updateWhere (\<lambda>t. ms_token t = ms_token s) (\<lambda>_. s) (management_sessions d) \<rparr>
      else d\<lparr> management_sessions := management_sessions d @ [s] \<rparr>)"

definition CommitCtx :: "string \<Rightarrow> bytes \<Rightarrow> time \<Rightarrow> unit tx" where
  "CommitCtx token value expiry =
     tx_exec (\<lambda>d. Some (putSession \<lparr> ms_token = token, ms_data = value, ms_expiry = expiry \<rparr> d))"

definition DeleteCtx :: "string \<Rightarrow> unit tx" where
  "DeleteCtx token =
     tx_exec (\<lambda>d. Some (d\<lparr> management_sessions := filter (\<lambda>s. ms_token s \<noteq> token) (management_sessions d) \<rparr>))"

text \<open>At most 1000 rows a statement: the first of them, and how many there were.\<close>

fun dropExpired :: "time \<Rightarrow> nat \<Rightarrow> session_row list \<Rightarrow> session_row list \<times> nat" where
  "dropExpired at 0 rows = (rows, 0)"
| "dropExpired at (Suc n) [] = ([], 0)"
| "dropExpired at (Suc n) (s # rows) =
     (if ms_expiry s < at then (case dropExpired at n rows of (kept, k) \<Rightarrow> (kept, Suc k))
      else (case dropExpired at (Suc n) rows of (kept, k) \<Rightarrow> (s # kept, k)))"

lemma dropExpired_length: "dropExpired at n rows = (kept, k) \<Longrightarrow> length kept + k = length rows \<and> k \<le> n"
  by (induction at n rows arbitrary: kept k rule: dropExpired.induct) (force split: if_splits prod.splits)+

text \<open>The loop ends when fewer were deleted; \<^const>\<open>None\<close> is a statement that failed.\<close>

function deleteExpired :: "env \<Rightarrow> time \<Rightarrow> nat \<Rightarrow> session_row list \<Rightarrow> session_row list" where
  "deleteExpired env at k rows =
     (if fault env k then rows
      else
        (case dropExpired at 1000 rows of (kept, n) \<Rightarrow>
           if n < 1000 then kept else deleteExpired env at (Suc k) kept))"
  by pat_completeness auto

termination
  by (relation "measure (\<lambda>(env, at, k, rows). length rows)") (auto dest!: dropExpired_length [OF sym])

end
