(* ===== verification/Login.thy ===== *)
theory Login
  imports Sessions
begin

text \<open>
  Sign-in with an identity provider (\<^verbatim>\<open>humanauth/oidc.go\<close>, \<^verbatim>\<open>logout.go\<close>): the
  callback that turns a verified ID token into the values of a session, the check every request
  passes, and the provider's logout notices. What the provider and the libraries answer (the code
  exchange, the verification of a signed token, the user info, the session manager's renewal and
  destruction) are arguments; the redirect that starts a sign-in and the parsing of URLs are left
  out. A principal's session limits are left out.
\<close>

section \<open>What is signed in\<close>

type_synonym claims = "string \<rightharpoonup> json"

record id_token =
  idt_issuer :: string
  idt_subject :: string
  idt_audience :: "string list"
  idt_nonce :: string
  idt_issued :: time
  idt_expiry :: time
  idt_claims :: "claims option"

text \<open>The values of a session; one that is absent is the zero value.\<close>

record sessionValues =
  sv_state :: string
  sv_nonce :: string
  sv_verifier :: string
  sv_created :: int
  sv_return :: string
  sv_issuer :: string
  sv_subject :: string
  sv_email :: string
  sv_role :: string
  sv_mfa :: bool
  sv_policy :: string
  sv_sid :: string

definition noValues :: sessionValues where
  "noValues =
     \<lparr> sv_state = [], sv_nonce = [], sv_verifier = [], sv_created = 0, sv_return = [], sv_issuer = [],
       sv_subject = [], sv_email = [], sv_role = [], sv_mfa = False, sv_policy = [], sv_sid = [] \<rparr>"

record oidc =
  oi_roles :: RoleMapper
  oi_userinfo :: bool
  oi_client :: string
  oi_exchange :: "string \<Rightarrow> string \<Rightarrow> (string \<times> string option) option"
  oi_verify :: "string \<Rightarrow> id_token option"
  oi_verify_logout :: "string \<Rightarrow> id_token option"
  oi_user :: "string \<Rightarrow> (string \<times> claims option) option"
  oi_renew :: bool
  oi_destroy :: bool
  oi_authority :: "(string \<Rightarrow> string \<Rightarrow> string \<Rightarrow> err + SessionPolicy) option"
  oi_return :: "string \<Rightarrow> string"

datatype login_answer = Redirected string | LoginError nat string | Passed "Principal option"

definition authenticationFailed :: login_answer where
  "authenticationFailed = LoginError 401 ''authentication_failed''"

definition authenticationUnavailable :: login_answer where
  "authenticationUnavailable = LoginError 503 ''authentication_unavailable''"

definition sessionRevoked :: login_answer where
  "sessionRevoked = LoginError 401 ''session_revoked''"

section \<open>Claims\<close>

definition claimString :: "claims \<Rightarrow> string \<Rightarrow> string" where
  "claimString cs key =
     (case cs key of
        None \<Rightarrow> []
      | Some raw \<Rightarrow> (case unmarshalString raw of None \<Rightarrow> [] | Some s \<Rightarrow> s))"

definition verifiedMFA :: "claims \<Rightarrow> bool" where
  "verifiedMFA cs =
     (case cs ''amr'' of
        None \<Rightarrow> False
      | Some raw \<Rightarrow>
          (case unmarshalStrings raw of
             None \<Rightarrow> False
           | Some methods \<Rightarrow>
               ''mfa'' \<in> set methods \<or> (''pwd'' \<in> set methods \<and> ''otp'' \<in> set methods)))"

definition validAuthorizedParty :: "string list \<Rightarrow> claims \<Rightarrow> string \<Rightarrow> bool" where
  "validAuthorizedParty audience cs client =
     (length audience \<le> 1 \<or> claimString cs ''azp'' = client)"

definition roleText :: "Role \<Rightarrow> string" where
  "roleText role = (case role of RoleViewer \<Rightarrow> ''viewer'' | RoleAdmin \<Rightarrow> ''admin'')"

definition roleOf :: "string \<Rightarrow> Role option" where
  "roleOf s = (if s = ''viewer'' then Some RoleViewer else if s = ''admin'' then Some RoleAdmin else None)"

section \<open>The callback\<close>

text \<open>Seconds since 1970; the instant 0 is Go's zero time.\<close>

definition unixSeconds :: "time \<Rightarrow> int" where
  "unixSeconds t = t div second - 62135596800"

definition unixTime :: "int \<Rightarrow> time" where
  "unixTime s = (s + 62135596800) * second"

definition withoutLogin :: "sessionValues \<Rightarrow> sessionValues" where
  "withoutLogin v = v\<lparr> sv_state := [], sv_nonce := [], sv_verifier := [], sv_created := 0, sv_return := [] \<rparr>"

record callback_query =
  cq_state :: string
  cq_error :: string
  cq_code :: string

definition loginExpected :: "time \<Rightarrow> callback_query \<Rightarrow> sessionValues \<Rightarrow> bool" where
  "loginExpected at q v =
     (sv_state v \<noteq> [] \<and> sv_nonce v \<noteq> [] \<and> sv_verifier v \<noteq> [] \<and> sv_created v \<noteq> 0 \<and> sv_state v = cq_state q \<and>
      unixSeconds at - sv_created v \<le> 10 * 60 \<and> sv_created v \<le> unixSeconds (at + minute) \<and>
      cq_error q = [] \<and> cq_code q \<noteq> [])"

text \<open>The claims roles are taken from: those of the token or of the provider's user info.\<close>

definition roleClaims :: "oidc \<Rightarrow> string \<Rightarrow> id_token \<Rightarrow> claims \<Rightarrow> claims option" where
  "roleClaims idp access token cs =
     (if \<not> oi_userinfo idp then Some cs
      else
        (case oi_user idp access of
           None \<Rightarrow> None
         | Some (subject, info) \<Rightarrow> if subject \<noteq> idt_subject token then None else info))"

definition loginPrincipal :: "id_token \<Rightarrow> claims \<Rightarrow> Role \<Rightarrow> Principal" where
  "loginPrincipal token cs role =
     \<lparr> Issuer = idt_issuer token, Subject = idt_subject token, Email = claimString cs ''email'',
       PrincipalRole = Some role, MFAVerified = verifiedMFA cs \<rparr>"

definition signIn :: "oidc \<Rightarrow> id_token \<Rightarrow> claims \<Rightarrow> Role \<Rightarrow> SessionPolicy \<Rightarrow> string \<Rightarrow> sessionValues \<Rightarrow>
    login_answer \<times> sessionValues" where
  "signIn idp token cs role policy return v =
     (if \<not> oi_renew idp then (authenticationUnavailable, v)
      else
        (Redirected (oi_return idp return),
         v\<lparr> sv_issuer := idt_issuer token, sv_subject := idt_subject token, sv_email := claimString cs ''email'',
            sv_role := roleText role, sv_mfa := verifiedMFA cs, sv_policy := stamp policy,
            sv_sid := claimString cs ''sid'' \<rparr>))"

text \<open>The role and the identity are known: is the session allowed?\<close>

definition admitLogin :: "oidc \<Rightarrow> id_token \<Rightarrow> claims \<Rightarrow> Role \<Rightarrow> string \<Rightarrow> sessionValues \<Rightarrow> login_answer \<times> sessionValues" where
  "admitLogin idp token cs role return v =
     (let principal' = loginPrincipal token cs role; sid = claimString cs ''sid'' in
      if ActorID principal' = [] \<or> length (ActorID principal') > 255 \<or> length sid > 1024
      then (authenticationFailed, v)
      else
        (case oi_authority idp of
           None \<Rightarrow> signIn idp token cs role noPolicy return v
         | Some authority \<Rightarrow>
             (case authority (idt_issuer token) (idt_subject token) sid of
                Inl _ \<Rightarrow> (authenticationUnavailable, v)
              | Inr policy \<Rightarrow>
                  if Blocked policy \<or> (RevokedAt policy \<noteq> 0 \<and> \<not> RevokedAt policy < idt_issued token)
                  then (sessionRevoked, v)
                  else signIn idp token cs role policy return v)))"

definition callback :: "oidc \<Rightarrow> time \<Rightarrow> callback_query \<Rightarrow> sessionValues \<Rightarrow> login_answer \<times> sessionValues" where
  "callback idp at q v0 =
     (let v = withoutLogin v0 in
      if \<not> loginExpected at q v0 then (authenticationFailed, v)
      else
        (case oi_exchange idp (cq_code q) (sv_verifier v0) of
           None \<Rightarrow> (authenticationUnavailable, v)
         | Some (access, raw) \<Rightarrow>
             (case raw of
                None \<Rightarrow> (authenticationFailed, v)
              | Some raw_token \<Rightarrow>
                  if raw_token = [] then (authenticationFailed, v)
                  else
                    (case oi_verify idp raw_token of
                       None \<Rightarrow> (authenticationFailed, v)
                     | Some token \<Rightarrow>
                         if idt_subject token = [] \<or> idt_nonce token \<noteq> sv_nonce v0 then (authenticationFailed, v)
                         else
                           (case idt_claims token of
                              None \<Rightarrow> (authenticationFailed, v)
                            | Some cs \<Rightarrow>
                                if \<not> validAuthorizedParty (idt_audience token) cs (oi_client idp)
                                then (authenticationFailed, v)
                                else
                                  (case roleClaims idp access token cs of
                                     None \<Rightarrow> (authenticationFailed, v)
                                   | Some rcs \<Rightarrow>
                                       (case mapRole (oi_roles idp) rcs of
                                          Inl _ \<Rightarrow> (LoginError 403 ''role_denied'', v)
                                        | Inr role \<Rightarrow> admitLogin idp token cs role (sv_return v0) v)))))))"

definition logout :: "oidc \<Rightarrow> sessionValues \<Rightarrow> login_answer \<times> sessionValues" where
  "logout idp v = (if \<not> oi_destroy idp then (authenticationUnavailable, v) else (Redirected ''/'', noValues))"

section \<open>Every request\<close>

definition sessionPrincipal :: "sessionValues \<Rightarrow> Principal" where
  "sessionPrincipal v =
     \<lparr> Issuer = sv_issuer v, Subject = sv_subject v, Email = sv_email v, PrincipalRole = roleOf (sv_role v),
       MFAVerified = sv_mfa v \<rparr>"

definition attachPrincipal :: "oidc \<Rightarrow> sessionValues \<Rightarrow> login_answer \<times> sessionValues" where
  "attachPrincipal idp v =
     (let p = sessionPrincipal v in
      if Subject p = [] \<or> length (ActorID p) > 255 \<or> PrincipalRole p = None then (Passed None, v)
      else
        (case oi_authority idp of
           None \<Rightarrow> (Passed (Some p), v)
         | Some authority \<Rightarrow>
             (case authority (sv_issuer v) (sv_subject v) (sv_sid v) of
                Inl _ \<Rightarrow> (authenticationUnavailable, v)
              | Inr policy \<Rightarrow>
                  if \<not> accepts policy (sv_policy v) then
                    (if \<not> oi_destroy idp then (authenticationUnavailable, v) else (sessionRevoked, noValues))
                  else (Passed (Some p), v))))"

section \<open>Logout notices\<close>

definition logoutEvent :: string where
  "logoutEvent = ''http://schemas.openid.net/event/backchannel-logout''"

definition asInt64 :: "json \<Rightarrow> int option" where
  "asInt64 v =
     (case v of
        JNull \<Rightarrow> Some 0
      | JNum (CHR ''-'' # digits) \<Rightarrow>
          (case ParseUint digits of
             None \<Rightarrow> None
           | Some n \<Rightarrow> if uint n \<le> 2 ^ 63 then Some (- uint n) else None)
      | JNum digits \<Rightarrow>
          (case ParseUint digits of
             None \<Rightarrow> None
           | Some n \<Rightarrow> if uint n < 2 ^ 63 then Some (uint n) else None)
      | _ \<Rightarrow> None)"

text \<open>The claim \<^verbatim>\<open>events\<close> has the member of a logout, an empty object.\<close>

definition hasLogoutEvent :: "claims \<Rightarrow> bool" where
  "hasLogoutEvent cs =
     (case cs ''events'' of
        Some (JObj events) \<Rightarrow> map_of (rev events) logoutEvent = Some (JObj [])
      | _ \<Rightarrow> False)"

definition notBefore :: "time \<Rightarrow> claims \<Rightarrow> bool" where
  "notBefore at cs =
     (case cs ''nbf'' of
        None \<Rightarrow> True
      | Some raw \<Rightarrow> (case asInt64 raw of None \<Rightarrow> False | Some s \<Rightarrow> unixTime s \<le> at))"

definition validLogout :: "time \<Rightarrow> id_token \<Rightarrow> claims \<Rightarrow> bool" where
  "validLogout at token cs =
     (let sid = claimString cs ''sid''; jti = claimString cs ''jti'' in
      hasLogoutEvent cs \<and> notBefore at cs \<and> cs ''nonce'' = None \<and> jti \<noteq> [] \<and> length jti \<le> 1024 \<and>
      (idt_subject token \<noteq> [] \<or> sid \<noteq> []) \<and> length (idt_subject token) \<le> 255 \<and> length sid \<le> 1024 \<and>
      idt_issued token \<noteq> 0 \<and> idt_issued token \<le> at + minute \<and> at - 10 * minute \<le> idt_issued token \<and>
      (cs ''exp'' \<noteq> None \<longrightarrow> at < idt_expiry token))"

definition logoutNotice :: "id_token \<Rightarrow> claims \<Rightarrow> LogoutNotice" where
  "logoutNotice token cs =
     \<lparr> ln_issuer = idt_issuer token, ln_subject = idt_subject token, ln_session = claimString cs ''sid'',
       ln_token = claimString cs ''jti'', ln_issued = idt_issued token \<rparr>"

text \<open>\<^verbatim>\<open>tokens\<close> is the form's field, \<^const>\<open>None\<close> a form that does not parse.\<close>

definition backchannelLogout :: "oidc \<Rightarrow> time \<Rightarrow> string \<Rightarrow> string list option \<Rightarrow>
    (LogoutNotice \<Rightarrow> err option \<times> 'w) \<Rightarrow> 'w \<Rightarrow> (nat \<times> string) \<times> 'w" where
  "backchannelLogout idp at contentType tokens applyLogout w =
     (let invalid = ((400, ''invalid_logout_token''), w) in
      if oi_authority idp = None then ((503, ''authentication_unavailable''), w)
      else if \<not> hasPrefix contentType ''application/x-www-form-urlencoded'' then invalid
      else
        (case tokens of
           Some [raw_token] \<Rightarrow>
             (case oi_verify_logout idp raw_token of
                None \<Rightarrow> invalid
              | Some token \<Rightarrow>
                  (case idt_claims token of
                     None \<Rightarrow> invalid
                   | Some cs \<Rightarrow>
                       if \<not> validLogout at token cs then invalid
                       else
                         (case applyLogout (logoutNotice token cs) of
                            (Some _, w') \<Rightarrow> ((503, ''authentication_unavailable''), w')
                          | (None, w') \<Rightarrow> ((200, []), w'))))
         | _ \<Rightarrow> invalid))"

end
