(* ===== verification/SessionLaws.thy ===== *)
theory SessionLaws
  imports Login
begin

text \<open>
  What a change of an identity's sessions guarantees: generations only grow, so that a session
  that was signed in before is refused by every later request, and a token that was issued before
  cannot sign in again.
\<close>

section \<open>Policies\<close>

definition policyIn :: "(bytes \<Rightarrow> bytes) \<Rightarrow> string \<Rightarrow> string \<Rightarrow> string \<Rightarrow> db \<Rightarrow> session_policy_row option" where
  "policyIn sha kind issuer target d =
     (if target = [] then None
      else policyRow (sha (compactJSON (JArr [JStr kind, JStr issuer, JStr target]))) d)"

definition policyOf :: "(bytes \<Rightarrow> bytes) \<Rightarrow> string \<Rightarrow> string \<Rightarrow> string \<Rightarrow> db \<Rightarrow> SessionPolicy" where
  "policyOf sha issuer subject sid d =
     addPolicy False (policyIn sha ''sid'' issuer sid d)
       (addPolicy True (policyIn sha ''subject'' issuer subject d) noPolicy)"

lemma reads_part [reads_intros]:
  "reads (readPolicyPart kind issuer target policy)
     (\<lambda>env d. Inr (addPolicy (kind = ''subject'') (policyIn (sha256 env) kind issuer target d) policy))"
proof (cases "target = []")
  case True
  then show ?thesis by (simp add: readPolicyPart_def policyIn_def addPolicy_def reads_return)
next
  case False
  have "reads (readPolicyPart kind issuer target policy)
      (\<lambda>env d. resultBind (Inr (sessionIdentity env kind issuer target)) (\<lambda>i.
         resultBind (Inr (policyRow i d)) (\<lambda>row. Inr (addPolicy (kind = ''subject'') row policy))))"
    unfolding readPolicyPart_def if_not_P [OF False] by (intro reads_intros)
  then show ?thesis using False by (simp add: policyIn_def sessionIdentity_def)
qed

lemma reads_policy: "reads (ReadSessionPolicy issuer subject sid) (\<lambda>env d. Inr (policyOf (sha256 env) issuer subject sid d))"
proof -
  have "reads (ReadSessionPolicy issuer subject sid) (\<lambda>env d.
      resultBind (Inr (addPolicy (''subject'' = ''subject'') (policyIn (sha256 env) ''subject'' issuer subject d) noPolicy))
        (\<lambda>p. Inr (addPolicy (''sid'' = ''subject'') (policyIn (sha256 env) ''sid'' issuer sid d) p)))"
    unfolding ReadSessionPolicy_def by (intro reads_intros)
  then show ?thesis by (simp add: policyOf_def)
qed

lemma policyOf_simps:
  "SubjectGeneration (policyOf sha issuer subject sid d) =
     (case policyIn sha ''subject'' issuer subject d of None \<Rightarrow> 0 | Some p \<Rightarrow> sp_generation p)"
  "SessionGeneration (policyOf sha issuer subject sid d) =
     (case policyIn sha ''sid'' issuer sid d of None \<Rightarrow> 0 | Some p \<Rightarrow> sp_generation p)"
  by (auto simp: policyOf_def addPolicy_def noPolicy_def Let_def split: option.splits)

lemma policyOf_revoked:
  "policyIn sha ''subject'' issuer subject d = Some p \<or> policyIn sha ''sid'' issuer sid d = Some p \<Longrightarrow>
    sp_revoked p \<le> RevokedAt (policyOf sha issuer subject sid d)"
  by (auto simp: policyOf_def addPolicy_def noPolicy_def Let_def split: option.splits)

section \<open>Generations grow\<close>

definition generation :: "bytes \<Rightarrow> db \<Rightarrow> u64" where
  "generation i d = (case policyRow i d of None \<Rightarrow> 0 | Some p \<Rightarrow> sp_generation p)"

definition grows :: "db \<Rightarrow> db \<Rightarrow> bool" where
  "grows d d' = (\<forall>i. generation i d \<le> generation i d')"

lemma grows_refl: "grows d d" by (simp add: grows_def)

lemma grows_trans: "grows d d' \<Longrightarrow> grows d' d'' \<Longrightarrow> grows d d''"
  unfolding grows_def using order_trans by blast

lemma policyRow_data: "data d' = data d \<Longrightarrow> policyRow i d' = policyRow i d"
  by (simp only: policyRow_def data_tables(22) [of d' d])

lemma grows_data:
  assumes "data d1 = data d" and "data d2 = data d'"
  shows "grows d1 d2 = grows d d'"
  by (simp add: grows_def generation_def policyRow_data [OF assms(1)] policyRow_data [OF assms(2)])

lemma movePolicy_effect:
  assumes "movePolicy i r at d = Some d'"
  shows "generation i d < generation i d'" and "\<exists>p. policyRow i d' = Some p \<and> sp_revoked p = at"
    and "grows d d'"
proof -
  have other: "policyRow j d' = policyRow j d" if "j \<noteq> i" for j
    using assms that
    by (cases "find (\<lambda>p. sp_identity p = j) (session_policies d)")
      (auto simp: movePolicy_def policyRow_def find_append find_updateWhere split: option.splits if_splits
        dest: find_SomeD)
  have "generation i d < generation i d' \<and> (\<exists>p. policyRow i d' = Some p \<and> sp_revoked p = at)"
  proof (cases "policyRow i d")
    case None
    then show ?thesis using assms by (auto simp: movePolicy_def policyRow_def generation_def find_append)
  next
    case (Some p)
    then have "sp_identity p = i" by (auto simp: policyRow_def dest: find_SomeD)
    then have "policyRow i d' = Some (p\<lparr> sp_generation := sp_generation p + 1,
        sp_blocked := (if sc_action r = ''invalidate'' then sp_blocked p else sc_action r = ''block''),
        sp_revoked := at \<rparr>)" and "sp_generation p + 1 \<noteq> 0"
      using assms Some by (auto simp: movePolicy_def policyRow_def find_updateWhere split: if_splits)
    then show ?thesis using Some next_greater [of "sp_generation p"] by (auto simp: generation_def)
  qed
  then show "generation i d < generation i d'" "\<exists>p. policyRow i d' = Some p \<and> sp_revoked p = at" by auto
  then show "grows d d'" unfolding grows_def using other by (metis generation_def order.strict_implies_order order_refl)
qed

lemma sessionChangeBody_effect:
  assumes "sessionChangeBody r env s = (Inr q, s')"
  obtains d1 where "data (durable s') = data d1"
    "movePolicy (sessionIdentity env (fst (sessionTarget r)) (sc_issuer r) (snd (sessionTarget r))) r (db_now env) (work s) =
      Some d1"
proof -
  let ?i = "sessionIdentity env (fst (sessionTarget r)) (sc_issuer r) (snd (sessionTarget r))"
  obtain d1 p where m: "movePolicy ?i r (db_now env) (work s) = Some d1"
    and f: "finishSessionChange r ?i p env (s\<lparr> work := d1, tick := Suc (Suc (tick s)) \<rparr>) = (Inr q, s')"
    using assms by (auto simp: sessionChangeBody_def tx_bind_Inr tx_exec_Inr tx_query_Inr split: option.splits)
  show thesis using that [OF _ m] finishCommit_effect [OF f [unfolded finishSessionChange_def Let_def]] by simp
qed

lemma steady_finishSession [steady_intros]: "steady (finishSessionChange r i p)"
  unfolding finishSessionChange_def Let_def by (intro steady_intros)

lemma atomic_sessionChange [atomic_intros]: "atomic (sessionChangeBody r)"
  unfolding sessionChangeBody_def finishSessionChange_def Let_def
  by (intro atomic_intros quiet_intros steady_intros) (simp_all add: sessionIdentity_def)

lemma steady_sessionChange [steady_intros]: "steady (sessionChangeBody r)"
  unfolding sessionChangeBody_def finishSessionChange_def Let_def
  by (intro steady_intros) (simp_all add: sessionIdentity_def)

lemma ChangeSessions_atomic: "allOrNothing (ChangeSessions A provider r)"
  unfolding ChangeSessions_def
  by (intro allOrNothing_guard allOrNothing_env atomic_intros steady_intros quiet_intros)
    (simp add: sessionChangeDigest_def)

text \<open>The first attempt of a change.\<close>

lemma ChangeSessions_first:
  assumes "ChangeSessions A provider r env d = (Inr q, d')" and "opRow (sc_operation r) d = None"
  obtains d1 d2 where "data d1 = data d" "data d' = data d2"
    "movePolicy (sessionIdentity env (fst (sessionTarget r)) (sc_issuer r) (snd (sessionTarget r))) r (db_now env) d1 =
      Some d2"
proof -
  let ?s0 = "\<lparr> work = d, durable = d, tick = 1 \<rparr>"
  obtain s1 s' where 1: "lockMasterKey A provider env ?s0 = (Inr (), s1)"
    and 2: "journaled (sc_operation r) (sessionChangeDigest env r) (sc_actor r) [] replaySessionResult
      (sessionChangeBody r) env s1 = (Inr q, s')" and 3: "d' = durable s'"
    using assms(1) by (auto simp: ChangeSessions_def run_tx_iff tx_bind_Inr split: if_splits)
  have w: "work s1 = d" using lockMasterKey_Inr [OF 1] by simp
  from 2 obtain s2 where "data (work s2) = data (work s1)" "sessionChangeBody r env s2 = (Inr q, s')"
    by (rule journaled_first_at) (use assms(2) w in auto)
  then show thesis using that w 3 sessionChangeBody_effect by metis
qed

lemma ChangeSessions_grows: "grows d (snd (ChangeSessions A provider r env d))"
proof (rule allOrNothing_invariant [OF ChangeSessions_atomic])
  show "grows d d" by (rule grows_refl)
  fix env q d'
  assume run: "ChangeSessions A provider r env d = (Inr q, d')"
  show "grows d d'"
  proof (cases "opRow (sc_operation r) d = None")
    case True
    from run True obtain d1 d2 where "data d1 = data d" "data d' = data d2"
      "movePolicy (sessionIdentity env (fst (sessionTarget r)) (sc_issuer r) (snd (sessionTarget r))) r (db_now env) d1 =
        Some d2" by (rule ChangeSessions_first)
    then show ?thesis using movePolicy_effect(3) grows_data by metis
  next
    case False
    obtain s1 s' where 1: "lockMasterKey A provider env \<lparr> work = d, durable = d, tick = 1 \<rparr> = (Inr (), s1)"
      and 2: "journaled (sc_operation r) (sessionChangeDigest env r) (sc_actor r) [] replaySessionResult
        (sessionChangeBody r) env s1 = (Inr q, s')" and 3: "d' = durable s'"
      using run by (auto simp: ChangeSessions_def run_tx_iff tx_bind_Inr split: if_splits)
    have "work s1 = d \<and> durable s1 = d" using lockMasterKey_Inr [OF 1] by simp
    then show ?thesis using journaled_seen_at [OF 2] False 3 grows_refl by simp
  qed
qed

text \<open>Any number of changes, each under its own readings of clock, faults and chance.\<close>

definition changeAll :: "aead \<Rightarrow> LocalKeyProvider \<Rightarrow> (SessionChange \<times> env) list \<Rightarrow> db \<Rightarrow> db" where
  "changeAll A provider runs d = foldl (\<lambda>d (r, env). snd (ChangeSessions A provider r env d)) d runs"

lemma changeAll_grows: "grows d (changeAll A provider runs d)"
proof (induction runs arbitrary: d)
  case Nil
  then show ?case by (simp add: changeAll_def grows_refl)
next
  case (Cons x runs)
  show ?case using grows_trans [OF ChangeSessions_grows Cons.IH] by (cases x) (simp add: changeAll_def)
qed

section \<open>Signing in\<close>

lemma signIn_Redirected:
  "signIn idp token cs role policy return v = (Redirected u, v') \<Longrightarrow>
    sv_issuer v' = idt_issuer token \<and> sv_subject v' = idt_subject token \<and> sv_sid v' = claimString cs ''sid'' \<and>
    sv_policy v' = stamp policy"
  by (auto simp: signIn_def authenticationUnavailable_def split: if_splits)

lemma admitLogin_Redirected:
  assumes "admitLogin idp token cs role return v = (Redirected u, v')" and "oi_authority idp = Some authority"
  shows "\<exists>policy. authority (sv_issuer v') (sv_subject v') (sv_sid v') = Inr policy \<and> sv_policy v' = stamp policy \<and>
    (RevokedAt policy = 0 \<or> RevokedAt policy < idt_issued token) \<and> \<not> Blocked policy"
  using assms
  by (auto simp: admitLogin_def Let_def authenticationFailed_def authenticationUnavailable_def sessionRevoked_def
      split: if_splits sum.splits dest: signIn_Redirected)

lemma admitLogin_identity:
  assumes "admitLogin idp token cs role return v = (Redirected u, v')"
  shows "sv_issuer v' = idt_issuer token \<and> sv_subject v' = idt_subject token"
  using assms
  by (auto simp: admitLogin_def Let_def authenticationFailed_def authenticationUnavailable_def sessionRevoked_def
      split: if_splits sum.splits option.splits dest: signIn_Redirected)

lemma callback_Redirected:
  assumes "callback idp at q v = (Redirected u, v')" and "oi_authority idp = Some authority"
  obtains raw token policy where "oi_verify idp raw = Some token" "sv_issuer v' = idt_issuer token"
    "sv_subject v' = idt_subject token" "authority (sv_issuer v') (sv_subject v') (sv_sid v') = Inr policy"
    "sv_policy v' = stamp policy" "RevokedAt policy = 0 \<or> RevokedAt policy < idt_issued token" "\<not> Blocked policy"
proof -
  obtain raw token cs role where "oi_verify idp raw = Some token"
    and "admitLogin idp token cs role (sv_return v) (withoutLogin v) = (Redirected u, v')"
    using assms(1)
    by (auto simp: callback_def Let_def authenticationFailed_def authenticationUnavailable_def
        split: if_splits option.splits sum.splits)
  then show thesis using that admitLogin_Redirected [OF _ assms(2)] admitLogin_identity by metis
qed

text \<open>The policies a process reads from the tables.\<close>

definition storedPolicy :: "env \<Rightarrow> db \<Rightarrow> string \<Rightarrow> string \<Rightarrow> string \<Rightarrow> err + SessionPolicy" where
  "storedPolicy env d issuer subject sid = fst (run_tx (ReadSessionPolicy issuer subject sid) env d)"

lemma storedPolicy_Inr:
  "storedPolicy env d issuer subject sid = Inr p \<Longrightarrow> p = policyOf (sha256 env) issuer subject sid d"
  using run_reads_fst [OF reads_policy, of issuer subject sid env d] by (auto simp: storedPolicy_def)

definition identityKey :: "(bytes \<Rightarrow> bytes) \<Rightarrow> SessionChange \<Rightarrow> bytes" where
  "identityKey sha r =
     sha (compactJSON (JArr [JStr (fst (sessionTarget r)), JStr (sc_issuer r), JStr (snd (sessionTarget r))]))"

text \<open>A change concerns a session by its subject or by its session identifier.\<close>

definition concerns :: "SessionChange \<Rightarrow> sessionValues \<Rightarrow> bool" where
  "concerns r v =
     (sc_issuer r = sv_issuer v \<and> snd (sessionTarget r) \<noteq> [] \<and>
      sessionTarget r \<in> {(''subject'', sv_subject v), (''sid'', sv_sid v)})"

lemma concerned_generation:
  assumes "concerns r v"
  shows "generation (identityKey sha r) d =
    (if sessionTarget r = (''subject'', sv_subject v)
     then SubjectGeneration (policyOf sha (sv_issuer v) (sv_subject v) (sv_sid v) d)
     else SessionGeneration (policyOf sha (sv_issuer v) (sv_subject v) (sv_sid v) d))"
  using assms by (auto simp: concerns_def policyOf_simps policyIn_def generation_def identityKey_def)

lemma concerned_revoked:
  assumes "concerns r v" and "policyRow (identityKey sha r) d = Some p"
  shows "sp_revoked p \<le> RevokedAt (policyOf sha (sv_issuer v) (sv_subject v) (sv_sid v) d)"
  by (rule policyOf_revoked) (use assms in \<open>auto simp: concerns_def policyIn_def identityKey_def\<close>)

lemma accepted_generation:
  assumes "accepts (policyOf sha i s x d') (stamp (policyOf sha i s x d))"
  shows "SubjectGeneration (policyOf sha i s x d) = SubjectGeneration (policyOf sha i s x d')"
    and "SessionGeneration (policyOf sha i s x d) = SessionGeneration (policyOf sha i s x d')"
  using assms session_stamp_exact by blast+

lemma ChangeSessions_moves:
  assumes "ChangeSessions A provider r env d = (Inr q, d')" and "opRow (sc_operation r) d = None"
  shows "generation (identityKey (sha256 env) r) d < generation (identityKey (sha256 env) r) d'"
    and "\<exists>p. policyRow (identityKey (sha256 env) r) d' = Some p \<and> sp_revoked p = db_now env"
proof -
  from assms obtain d1 d2 where e: "data d1 = data d" "data d' = data d2"
    and m: "movePolicy (identityKey (sha256 env) r) r (db_now env) d1 = Some d2"
    by (rule ChangeSessions_first) (simp add: identityKey_def sessionIdentity_def)
  show "generation (identityKey (sha256 env) r) d < generation (identityKey (sha256 env) r) d'"
    and "\<exists>p. policyRow (identityKey (sha256 env) r) d' = Some p \<and> sp_revoked p = db_now env"
    using movePolicy_effect(1,2) [OF m]
    by (simp_all add: generation_def policyRow_data [OF e(1)] policyRow_data [OF e(2)])
qed

section \<open>Properties\<close>

text \<open>
  C39. Revocation is final. Once a change of an identity's sessions succeeded, whether it
  invalidates, blocks or removes a block, no session that signed in before it, by that subject or
  with that session identifier, passes a request again, whatever changes came between or come
  later; and right after it a sign-in of the identity needs an ID token that was issued after it.
\<close>

theorem revoked_sessions_end:
  assumes "callback (idp\<lparr> oi_authority := Some (storedPolicy env0 d0) \<rparr>) at q v0 = (Redirected u, v)"
    and "d = changeAll A provider runs d0"
    and "ChangeSessions A provider r env d = (Inr (res, er), d1)" and "opRow (sc_operation r) d = None"
    and "concerns r v" and "sha256 env0 = sha256 env" and "sha256 env2 = sha256 env" and "0 < db_now env"
  shows "fst (attachPrincipal (idp2\<lparr> oi_authority := Some (storedPolicy env2 (changeAll A provider later d1)) \<rparr>) v) \<noteq>
      Passed (Some p) \<and>
    (callback (idp2\<lparr> oi_authority := Some (storedPolicy env2 d1) \<rparr>) at2 q2 v2 = (Redirected u2, v3) \<longrightarrow> concerns r v3 \<longrightarrow>
      (\<exists>raw token. oi_verify idp2 raw = Some token \<and> db_now env < idt_issued token))"
proof (intro conjI notI impI)
  let ?k = "identityKey (sha256 env) r" and ?policy = "policyOf (sha256 env) (sv_issuer v) (sv_subject v) (sv_sid v)"
  let ?d2 = "changeAll A provider later d1"
  have "generation ?k d0 \<le> generation ?k d" "generation ?k d1 \<le> generation ?k ?d2"
    using changeAll_grows [of d0 A provider runs] changeAll_grows [of d1 A provider later] assms(2) by (simp_all add: grows_def)
  moreover have "generation ?k d < generation ?k d1" by (rule ChangeSessions_moves(1) [OF assms(3,4)])
  ultimately have less: "generation ?k d0 < generation ?k ?d2" by order
  have "\<exists>policy. storedPolicy env0 d0 (sv_issuer v) (sv_subject v) (sv_sid v) = Inr policy \<and> sv_policy v = stamp policy"
    using assms(1) by (rule callback_Redirected) auto
  then have stamped: "sv_policy v = stamp (?policy d0)" using storedPolicy_Inr assms(6) by metis
  assume "fst (attachPrincipal (idp2\<lparr> oi_authority := Some (storedPolicy env2 ?d2) \<rparr>) v) = Passed (Some p)"
  then have "\<exists>policy. storedPolicy env2 ?d2 (sv_issuer v) (sv_subject v) (sv_sid v) = Inr policy \<and> accepts policy (sv_policy v)"
    by (auto simp: attachPrincipal_def Let_def authenticationUnavailable_def sessionRevoked_def split: if_splits sum.splits)
  then have "accepts (?policy ?d2) (stamp (?policy d0))" using storedPolicy_Inr assms(7) stamped by metis
  from accepted_generation [OF this] have "generation ?k d0 = generation ?k ?d2"
    by (simp add: concerned_generation [OF assms(5)])
  then show False using less by simp
next
  assume run: "callback (idp2\<lparr> oi_authority := Some (storedPolicy env2 d1) \<rparr>) at2 q2 v2 = (Redirected u2, v3)"
    and c: "concerns r v3"
  from run show "\<exists>raw token. oi_verify idp2 raw = Some token \<and> db_now env < idt_issued token"
  proof (rule callback_Redirected)
    fix raw token policy
    assume token: "oi_verify (idp2\<lparr> oi_authority := Some (storedPolicy env2 d1) \<rparr>) raw = Some token"
      and policy: "storedPolicy env2 d1 (sv_issuer v3) (sv_subject v3) (sv_sid v3) = Inr policy"
      and issued: "RevokedAt policy = 0 \<or> RevokedAt policy < idt_issued token"
    obtain p where "policyRow (identityKey (sha256 env) r) d1 = Some p" "sp_revoked p = db_now env"
      using ChangeSessions_moves(2) [OF assms(3,4)] by blast
    then have "db_now env \<le> RevokedAt policy"
      using concerned_revoked [OF c] storedPolicy_Inr [OF policy] assms(7) by metis
    then have "db_now env < idt_issued token" using issued assms(8) by auto
    then show ?thesis using token by auto
  qed simp_all
qed

section \<open>Samples\<close>

definition sampleToken :: id_token where
  "sampleToken =
     \<lparr> idt_issuer = ''https://idp'', idt_subject = ''s1'', idt_audience = [''app''], idt_nonce = ''n'', idt_issued = 500,
       idt_expiry = 5000, idt_claims = Some [''groups'' \<mapsto> JStr ''ops''] \<rparr>"

definition sampleIdp :: oidc where
  "sampleIdp =
     \<lparr> oi_roles = \<lparr> claim = ''groups'', viewers = {''read''}, admins = {''ops''} \<rparr>, oi_userinfo = False, oi_client = ''app'',
       oi_exchange = \<lambda>_ _. Some (''access'', Some ''signed''), oi_verify = \<lambda>_. Some sampleToken,
       oi_verify_logout = \<lambda>_. None, oi_user = \<lambda>_. None, oi_renew = True, oi_destroy = True, oi_authority = None,
       oi_return = \<lambda>s. s \<rparr>"

definition sampleLogin :: "login_answer \<times> sessionValues" where
  "sampleLogin = callback (sampleIdp\<lparr> oi_authority := Some (storedPolicy vaultEnv vaultDb) \<rparr>) (unixTime 1)
     \<lparr> cq_state = ''s'', cq_error = [], cq_code = ''c'' \<rparr>
     (noValues\<lparr> sv_state := ''s'', sv_nonce := ''n'', sv_verifier := ''v'', sv_created := 1, sv_return := ''/'' \<rparr>)"

definition sampleInvalidation :: SessionChange where
  "sampleInvalidation =
     \<lparr> sc_operation = ''op-session-1'', sc_actor = Actor ''user'' ''u1'', sc_issuer = ''https://idp'', sc_subject = ''s1'',
       sc_session = [], sc_action = ''invalidate'', sc_logout_issued = 0 \<rparr>"

definition sampleRevoked :: db where
  "sampleRevoked = snd (ChangeSessions plainAEAD zeroProvider sampleInvalidation vaultEnv vaultDb)"

definition sampleInvalidated :: SessionChangeResult where
  "sampleInvalidated = \<lparr> sr_outcome = OutcomeSuccess,
     sr_identity = encodeHex (sessionIdentity vaultEnv ''subject'' ''https://idp'' ''s1''), sr_generation = 1,
     sr_blocked = False \<rparr>"

lemma sample_login: "fst sampleLogin = Redirected ''/''" "sv_issuer (snd sampleLogin) = ''https://idp''"
  "sv_subject (snd sampleLogin) = ''s1''" "sv_role (snd sampleLogin) = ''admin''"
  by code_simp+

lemma sample_revocation:
  "fst (ChangeSessions plainAEAD zeroProvider sampleInvalidation vaultEnv vaultDb) = Inr (sampleInvalidated, None)"
  by code_simp

lemma sample_concerns: "concerns sampleInvalidation (snd sampleLogin)"
  by (simp add: concerns_def sample_login sampleInvalidation_def sessionTarget_def)

theorem revoked_sessions_end_witness:
  "fst (attachPrincipal (sampleIdp\<lparr> oi_authority := Some (storedPolicy vaultEnv sampleRevoked) \<rparr>) (snd sampleLogin)) \<noteq>
     Passed (Some (sessionPrincipal (snd sampleLogin)))"
proof -
  have login: "callback (sampleIdp\<lparr> oi_authority := Some (storedPolicy vaultEnv vaultDb) \<rparr>) (unixTime 1)
     \<lparr> cq_state = ''s'', cq_error = [], cq_code = ''c'' \<rparr>
     (noValues\<lparr> sv_state := ''s'', sv_nonce := ''n'', sv_verifier := ''v'', sv_created := 1, sv_return := ''/'' \<rparr>) =
     (Redirected ''/'', snd sampleLogin)"
    using sample_login(1) unfolding sampleLogin_def by (metis prod.collapse)
  have run: "ChangeSessions plainAEAD zeroProvider sampleInvalidation vaultEnv vaultDb =
      (Inr (sampleInvalidated, None), sampleRevoked)"
    using sample_revocation unfolding sampleRevoked_def by (metis prod.collapse)
  have "vaultDb = changeAll plainAEAD zeroProvider [] vaultDb" "opRow (sc_operation sampleInvalidation) vaultDb = None"
    "0 < db_now vaultEnv"
    by (simp add: changeAll_def) code_simp+
  from revoked_sessions_end [where ?idp2.0 = sampleIdp and later = "[]" and p = "sessionPrincipal (snd sampleLogin)",
      OF login this(1) run this(2) sample_concerns refl refl this(3)]
  show ?thesis by (simp add: changeAll_def)
qed

end
