(* ===== verification/KeyRotation.thy ===== *)
theory KeyRotation
  imports SessionLaws "HOL-Library.Product_Lexorder"
begin

text \<open>
  The offline change of the master key (\<^verbatim>\<open>mysqlstore/key_rotation.go\<close>) and the check of
  every encrypted record that precedes it (\<^verbatim>\<open>verification.go\<close>). What stays an argument is
  the pair check of an authority's certificate and key (X.509) and the decoder of notification
  credentials. The rows of a table are visited in the order of their keys, as the cursor of the
  statement does; that the six tables are transactional is a query the schema satisfies. An
  opaque error of the database stands for the messages that hide it.
\<close>

section \<open>Encrypted tables\<close>

record 'r encryptedTable =
  et_rows :: "db \<Rightarrow> 'r list"
  et_put :: "'r list \<Rightarrow> db \<Rightarrow> db"
  et_key :: "'r \<Rightarrow> bytes \<times> u64"
  et_held :: "'r \<Rightarrow> EncryptedSnapshot"
  et_hold :: "EncryptedSnapshot \<Rightarrow> 'r \<Rightarrow> 'r"

definition vaultRevisionsTable :: "vault_revision_row encryptedTable" where
  "vaultRevisionsTable =
     \<lparr> et_rows = vault_revisions, et_put = (\<lambda>rows d. d\<lparr> vault_revisions := rows \<rparr>),
       et_key = (\<lambda>r. (vr_item r, vr_revision r)), et_held = vr_snapshot, et_hold = (\<lambda>e r. r\<lparr> vr_snapshot := e \<rparr>) \<rparr>"

definition authoritiesTable :: "authority_row encryptedTable" where
  "authoritiesTable =
     \<lparr> et_rows = authorities, et_put = (\<lambda>rows d. d\<lparr> authorities := rows \<rparr>),
       et_key = (\<lambda>a. (ca_id a, 0)), et_held = ca_secret, et_hold = (\<lambda>e a. a\<lparr> ca_secret := e \<rparr>) \<rparr>"

definition destinationsTable :: "destination_row encryptedTable" where
  "destinationsTable =
     \<lparr> et_rows = destinations, et_put = (\<lambda>rows d. d\<lparr> destinations := rows \<rparr>),
       et_key = (\<lambda>n. (ds_id n, 0)), et_held = ds_secret, et_hold = (\<lambda>e n. n\<lparr> ds_secret := e \<rparr>) \<rparr>"

definition authorityKeyIdentity :: "(bytes \<Rightarrow> bytes) \<Rightarrow> string \<Rightarrow> bytes \<Rightarrow> string" where
  "authorityKeyIdentity sha i der = ''ca:'' @ i @ '':'' @ encodeHex (sha der)"

definition notificationCredentialIdentity :: "bytes \<Rightarrow> string" where
  "notificationCredentialIdentity i = ''notification-destination:'' @ encodeHex i"

definition revisionIdentity :: "vault_revision_row \<Rightarrow> SnapshotIdentity" where
  "revisionIdentity r = \<lparr> ItemID = encodeHex (vr_item r), Revision = vr_revision r \<rparr>"

definition authorityIdentity :: "(bytes \<Rightarrow> bytes) \<Rightarrow> authority_row \<Rightarrow> string" where
  "authorityIdentity sha a = authorityKeyIdentity sha (encodeHex (ca_id a)) (ca_der a)"

section \<open>Verification\<close>

record EncryptionVerification =
  en_revisions :: u64
  en_authorities :: u64
  en_destinations :: u64

record checks =
  ck_authority :: "bytes \<Rightarrow> bytes \<Rightarrow> bool"
  ck_credentials :: "bytes \<Rightarrow> bool"

definition revisionOpens :: "aead \<Rightarrow> LocalKeyProvider \<Rightarrow> vault_revision_row \<Rightarrow> bool" where
  "revisionOpens A provider r =
     (case DecryptSnapshot A provider (revisionIdentity r) (vr_snapshot r) of
        Inl _ \<Rightarrow> False
      | Inr plaintext \<Rightarrow> Decode plaintext \<noteq> None)"

definition authorityOpens :: "checks \<Rightarrow> aead \<Rightarrow> LocalKeyProvider \<Rightarrow> (bytes \<Rightarrow> bytes) \<Rightarrow> authority_row \<Rightarrow> bool" where
  "authorityOpens ck A provider sha a =
     (case DecryptSecret A provider (authorityIdentity sha a) (ca_secret a) of
        Inl _ \<Rightarrow> False
      | Inr private \<Rightarrow> ck_authority ck (ca_der a) private)"

definition destinationOpens :: "checks \<Rightarrow> aead \<Rightarrow> LocalKeyProvider \<Rightarrow> destination_row \<Rightarrow> bool" where
  "destinationOpens ck A provider n =
     (case DecryptSecret A provider (notificationCredentialIdentity (ds_id n)) (ds_secret n) of
        Inl _ \<Rightarrow> False
      | Inr plaintext \<Rightarrow> ck_credentials ck plaintext)"

definition sortedRows :: "'r encryptedTable \<Rightarrow> db \<Rightarrow> 'r list" where
  "sortedRows table d = sort_key (et_key table) (et_rows table d)"

definition verifyEncryptedTable :: "'r encryptedTable \<Rightarrow> ('r \<Rightarrow> bool) \<Rightarrow> u64 tx" where
  "verifyEncryptedTable table opens =
     tx_bind (tx_query (sortedRows table)) (\<lambda>rows.
       if list_all (\<lambda>r. length (fst (et_key table r)) = 16 \<and> opens r) rows then tx_return (of_nat (length rows))
       else tx_fail ErrCryptoIntegrity)"

definition verifyEncryptedState :: "checks \<Rightarrow> aead \<Rightarrow> LocalKeyProvider \<Rightarrow> EncryptionVerification tx" where
  "verifyEncryptedState ck A provider =
     tx_bind (verifyDatabase A provider) (\<lambda>_.
     tx_bind (tx_env sha256) (\<lambda>sha.
     tx_bind (verifyEncryptedTable vaultRevisionsTable (revisionOpens A provider)) (\<lambda>revisions.
     tx_bind (verifyEncryptedTable authoritiesTable (authorityOpens ck A provider sha)) (\<lambda>cas.
     tx_bind (verifyEncryptedTable destinationsTable (destinationOpens ck A provider)) (\<lambda>dests.
       tx_return \<lparr> en_revisions = revisions, en_authorities = cas, en_destinations = dests \<rparr>)))))"

definition VerifyEncryptedState :: "checks \<Rightarrow> aead \<Rightarrow> LocalKeyProvider \<Rightarrow> EncryptionVerification tx" where
  "VerifyEncryptedState ck A provider =
     tx_bind (verifyEncryptedState ck A provider) (\<lambda>report. tx_bind tx_commit (\<lambda>_. tx_return report))"

section \<open>Rotation\<close>

record KeyRotationResult =
  kr_operation :: string
  kr_counts :: EncryptionVerification

definition rotationJSON :: "KeyRotationResult \<Rightarrow> json" where
  "rotationJSON r =
     JObj [(''operation_id'', JStr (kr_operation r)),
           (''vault_revisions'', JNum (FormatUint (en_revisions (kr_counts r)))),
           (''certificate_authorities'', JNum (FormatUint (en_authorities (kr_counts r)))),
           (''notification_destinations'', JNum (FormatUint (en_destinations (kr_counts r))))]"

text \<open>\<^verbatim>\<open>UPDATE ... SET encrypted_dek\<close>, with the number of rows that it changed.\<close>

definition setDEK :: "'r encryptedTable \<Rightarrow> 'r \<Rightarrow> bytes \<Rightarrow> db \<Rightarrow> db \<times> nat" where
  "setDEK table r wrapped d =
     (et_put table (updateWhere (\<lambda>q. et_key table q = et_key table r)
        (\<lambda>q. et_hold table ((et_held table q)\<lparr> EncryptedDEK := wrapped \<rparr>) q) (et_rows table d)) d,
      countWhere (\<lambda>q. et_key table q = et_key table r \<and> EncryptedDEK (et_held table q) \<noteq> wrapped) (et_rows table d))"

definition rewrapRow :: "'r encryptedTable \<Rightarrow> (random \<Rightarrow> nat \<Rightarrow> 'r \<Rightarrow> crypto_error + bytes) \<Rightarrow> 'r \<Rightarrow> unit tx" where
  "rewrapRow table rewrapped r =
     (if length (fst (et_key table r)) \<noteq> 16 then tx_fail ErrInternal
      else
        tx_handle (\<lambda>_. True) (sealing (\<lambda>R t. rewrapped R t r)) (\<lambda>_. tx_fail ErrCryptoIntegrity) (\<lambda>wrapped.
        tx_bind (tx_execCount (setDEK table r wrapped)) (\<lambda>n. if n \<noteq> 1 then tx_fail ErrInternal else tx_return ())))"

definition rewrapTable :: "'r encryptedTable \<Rightarrow> (random \<Rightarrow> nat \<Rightarrow> 'r \<Rightarrow> crypto_error + bytes) \<Rightarrow> u64 tx" where
  "rewrapTable table rewrapped =
     tx_bind (tx_query (sortedRows table)) (\<lambda>rows.
     tx_bind (tx_each (\<lambda>r. tx_bind (rewrapRow table rewrapped r) (\<lambda>_. tx_query (\<lambda>_. ()))) rows) (\<lambda>_.
       tx_return (of_nat (length rows))))"

definition rewrapRevision :: "aead \<Rightarrow> LocalKeyProvider \<Rightarrow> LocalKeyProvider \<Rightarrow> random \<Rightarrow> nat \<Rightarrow> vault_revision_row \<Rightarrow>
    crypto_error + bytes" where
  "rewrapRevision A provider nxt R t r = RewrapSnapshot A R t provider (revisionIdentity r) (vr_snapshot r) (Some nxt)"

definition rewrapAuthority :: "(bytes \<Rightarrow> bytes) \<Rightarrow> aead \<Rightarrow> LocalKeyProvider \<Rightarrow> LocalKeyProvider \<Rightarrow> random \<Rightarrow> nat \<Rightarrow>
    authority_row \<Rightarrow> crypto_error + bytes" where
  "rewrapAuthority sha A provider nxt R t a = RewrapSecret A R t provider (authorityIdentity sha a) (ca_secret a) (Some nxt)"

definition rewrapDestination :: "aead \<Rightarrow> LocalKeyProvider \<Rightarrow> LocalKeyProvider \<Rightarrow> random \<Rightarrow> nat \<Rightarrow> destination_row \<Rightarrow>
    crypto_error + bytes" where
  "rewrapDestination A provider nxt R t n =
     RewrapSecret A R t provider (notificationCredentialIdentity (ds_id n)) (ds_secret n) (Some nxt)"

definition rewrapAll :: "aead \<Rightarrow> LocalKeyProvider \<Rightarrow> LocalKeyProvider \<Rightarrow> EncryptionVerification tx" where
  "rewrapAll A provider nxt =
     tx_bind (tx_env sha256) (\<lambda>sha.
     tx_bind (rewrapTable vaultRevisionsTable (rewrapRevision A provider nxt)) (\<lambda>revisions.
     tx_bind (rewrapTable authoritiesTable (rewrapAuthority sha A provider nxt)) (\<lambda>cas.
     tx_bind (rewrapTable destinationsTable (rewrapDestination A provider nxt)) (\<lambda>dests.
       tx_return \<lparr> en_revisions = revisions, en_authorities = cas, en_destinations = dests \<rparr>))))"

definition rotationActor :: actor where
  "rotationActor = Actor ''system'' ''offline-master-key-rotation''"

definition rotationEvent :: mutationEvent where
  "rotationEvent =
     \<lparr> me_field = [], me_type = ''master_key.rotated'', me_action = ''master_key.rotate'', me_environment = [],
       me_namespace = [], me_resource_type = ''deployment'', me_resource_key = ''master-key'' \<rparr>"

text \<open>The audit of the rotation and its commit.\<close>

definition recordRotation :: "EncryptionVerification \<Rightarrow> KeyRotationResult tx" where
  "recordRotation counts =
     tx_bind randomID (\<lambda>i.
       let res = \<lparr> kr_operation = ''key-rotation-'' @ encodeHex i, kr_counts = counts \<rparr> in
       tx_bind (tx_env (\<lambda>env. sha256 env (compactJSON (rotationJSON res)))) (\<lambda>dg.
       tx_bind (beginOperation (kr_operation res) dg rotationActor []) (\<lambda>replay.
         if replay \<noteq> None then tx_fail ErrInternal
         else
           tx_bind (finishOperation (kr_operation res) rotationActor OutcomeSuccess 0 (rotationJSON res)
                      rotationEvent False) (\<lambda>_.
           tx_bind tx_commit (\<lambda>_. tx_return res)))))"

definition rotateUnder :: "checks \<Rightarrow> aead \<Rightarrow> LocalKeyProvider \<Rightarrow> LocalKeyProvider \<Rightarrow> KeyRotationResult tx" where
  "rotateUnder ck A provider nxt =
     tx_bind (tx_query (\<lambda>_. ())) (\<lambda>_.
     tx_bind (verifyEncryptedState ck A provider) (\<lambda>verified.
     tx_bind (rewrapAll A provider nxt) (\<lambda>counts.
       if counts \<noteq> verified then tx_fail ErrInternal
       else
         tx_bind (sealing (\<lambda>R t. CreateSentinel A R t nxt)) (\<lambda>sentinel.
         tx_bind (tx_exec (\<lambda>d. Some (d\<lparr> crypto_sentinel := map_option (\<lambda>_. sentinel) (crypto_sentinel d) \<rparr>))) (\<lambda>_.
           recordRotation counts)))))"

definition RotateMasterKey :: "checks \<Rightarrow> aead \<Rightarrow> LocalKeyProvider \<Rightarrow> LocalKeyProvider option \<Rightarrow> env \<Rightarrow> db \<Rightarrow>
    (err + KeyRotationResult) \<times> db" where
  "RotateMasterKey ck A provider nxt env d =
     (case nxt of
        None \<Rightarrow> (Inl ErrInternal, d)
      | Some n \<Rightarrow>
          run_tx
            (tx_bind (lockMasterKey A provider) (\<lambda>_.
             tx_handle (\<lambda>_. True) (verifySentinel A n) (\<lambda>_. rotateUnder ck A provider n) (\<lambda>_. tx_fail ErrInternal)))
            env d)"

end
