(* ===== verification/RotationLaws.thy ===== *)
theory RotationLaws
  imports KeyRotation
begin

text \<open>
  A rotation of the master key loses nothing: every record opens under the next key to what it held
  under the previous one, so that every Vault reference resolves as before; and a transaction that
  locks the master key under a key the database is not keyed to changes nothing.
\<close>

section \<open>Rewrapping a table\<close>

text \<open>
  What a rotation relies on for a table: the columns can be set without touching the keys, and a
  rewrapped record opens under the next key to what it held.
\<close>

locale wrapped_table =
  fixes table :: "'r encryptedTable"
    and opened :: "aead \<Rightarrow> LocalKeyProvider \<Rightarrow> 'r \<Rightarrow> crypto_error + bytes"
    and rewrapped :: "aead \<Rightarrow> LocalKeyProvider \<Rightarrow> LocalKeyProvider \<Rightarrow> random \<Rightarrow> nat \<Rightarrow> 'r \<Rightarrow> crypto_error + bytes"
  assumes rows_put: "et_rows table (et_put table rows d) = rows"
    and put_put: "et_put table rows (et_put table rows' d) = et_put table rows d"
    and put_rows: "et_put table (et_rows table d) d = d"
    and key_hold: "et_key table (et_hold table e r) = et_key table r"
    and opens_rewrapped: "exactAEAD A \<Longrightarrow> sizedRandom R \<Longrightarrow> length (master n) = dekSize \<Longrightarrow>
      rewrapped A p n R t r = Inr w \<Longrightarrow>
      opened A n (et_hold table ((et_held table r)\<lparr> EncryptedDEK := w \<rparr>) r) = opened A p r \<and>
      (\<exists>plaintext. opened A p r = Inr plaintext)"
begin

text \<open>The row under the next key.\<close>

definition moved_row :: "aead \<Rightarrow> LocalKeyProvider \<Rightarrow> LocalKeyProvider \<Rightarrow> 'r \<Rightarrow> 'r \<Rightarrow> bool" where
  "moved_row A p n r r' =
     ((\<exists>w. r' = et_hold table ((et_held table r)\<lparr> EncryptedDEK := w \<rparr>) r) \<and> opened A n r' = opened A p r \<and>
      (\<exists>plaintext. opened A p r = Inr plaintext))"

definition moved_in :: "aead \<Rightarrow> LocalKeyProvider \<Rightarrow> LocalKeyProvider \<Rightarrow> (bytes \<times> u64) set \<Rightarrow> 'r list \<Rightarrow> 'r list \<Rightarrow> bool" where
  "moved_in A p n K = list_all2 (\<lambda>r r'. if et_key table r \<in> K then moved_row A p n r r' else r' = r)"

lemma moved_key: "moved_row A p n r r' \<Longrightarrow> et_key table r' = et_key table r"
  by (auto simp: moved_row_def key_hold)

lemma moved_start: "moved_in A p n {} rows rows"
  by (simp add: moved_in_def list.rel_refl)

lemma rewrapRow_effect:
  assumes "rewrapRow table (rewrapped A p n) r env s = (Inr (), s')"
    and A: "exactAEAD A" and R: "sizedRandom (rand env)" and key: "length (master n) = dekSize"
    and "moved_in A p n K rows (et_rows table (work s))" and "uniqueOn (et_key table) rows" and "r \<in> set rows"
    and "et_key table r \<notin> K"
  shows "\<exists>rows'. work s' = et_put table rows' (work s) \<and> durable s' = durable s \<and>
    moved_in A p n (insert (et_key table r) K) rows rows'"
proof -
  obtain w where w: "rewrapped A p n (rand env) (tick s) r = Inr w"
    and w': "work s' = et_put table (updateWhere (\<lambda>q. et_key table q = et_key table r)
        (\<lambda>q. et_hold table ((et_held table q)\<lparr> EncryptedDEK := w \<rparr>) q) (et_rows table (work s))) (work s)"
      "durable s' = durable s"
    using assms(1) by (auto simp: rewrapRow_def sealing_def setDEK_def tx_handle_def tx_bind_Inr tx_execCount_Inr
        split: if_splits sum.splits)
  let ?u = "\<lambda>q. if et_key table q = et_key table r then et_hold table ((et_held table q)\<lparr> EncryptedDEK := w \<rparr>) q else q"
  have moved: "moved_row A p n r (et_hold table ((et_held table r)\<lparr> EncryptedDEK := w \<rparr>) r)"
    using opens_rewrapped [OF A R key w] by (auto simp: moved_row_def)
  have "list_all2 (\<lambda>x y. if et_key table x \<in> insert (et_key table r) K then moved_row A p n x (?u y) else ?u y = x)
      rows (et_rows table (work s))"
    using assms(5) unfolding moved_in_def
  proof (rule list.rel_mono_strong)
    fix x y
    assume x: "x \<in> set rows" and rel: "if et_key table x \<in> K then moved_row A p n x y else y = x"
    show "if et_key table x \<in> insert (et_key table r) K then moved_row A p n x (?u y) else ?u y = x"
    proof (cases "et_key table x = et_key table r")
      case True
      then have "x = r" using uniqueOnD [OF assms(6) x assms(7)] by simp
      then show ?thesis using rel assms(8) moved by simp
    next
      case False
      then show ?thesis using rel moved_key [of A p n x y] by (auto split: if_splits)
    qed
  qed
  then have "moved_in A p n (insert (et_key table r) K) rows
      (updateWhere (\<lambda>q. et_key table q = et_key table r)
        (\<lambda>q. et_hold table ((et_held table q)\<lparr> EncryptedDEK := w \<rparr>) q) (et_rows table (work s)))"
    by (simp add: moved_in_def updateWhere_def list.rel_map)
  with w' show ?thesis by blast
qed

lemma rewrapEach_effect:
  assumes "tx_each (\<lambda>r. tx_bind (rewrapRow table (rewrapped A p n) r) (\<lambda>_. tx_query (\<lambda>_. ()))) rs env s = (Inr (), s')"
    and A: "exactAEAD A" and R: "sizedRandom (rand env)" and key: "length (master n) = dekSize"
    and "uniqueOn (et_key table) rows" and "set rs \<subseteq> set rows" and "distinct (map (et_key table) rs)"
    and "moved_in A p n K rows (et_rows table (work s))" and "K \<inter> et_key table ` set rs = {}"
  shows "\<exists>rows'. work s' = et_put table rows' (work s) \<and> durable s' = durable s \<and>
    moved_in A p n (K \<union> et_key table ` set rs) rows rows'"
  using assms(1,6-9)
proof (induction rs arbitrary: s K)
  case Nil
  then show ?case by (intro exI [of _ "et_rows table (work s)"]) (simp add: put_rows)
next
  case (Cons r rs)
  obtain s1 where 1: "rewrapRow table (rewrapped A p n) r env s = (Inr (), s1)"
    and 3: "tx_each (\<lambda>r. tx_bind (rewrapRow table (rewrapped A p n) r) (\<lambda>_. tx_query (\<lambda>_. ()))) rs env
      (s1\<lparr> tick := Suc (tick s1) \<rparr>) = (Inr (), s')"
    using Cons.prems(1) by (auto simp: tx_bind_Inr tx_query_Inr)
  have "r \<in> set rows" "et_key table r \<notin> K" using Cons.prems(2,5) by auto
  from rewrapRow_effect [OF 1 A R key Cons.prems(4) assms(5) this]
  obtain rows1 where w1: "work s1 = et_put table rows1 (work s)" "durable s1 = durable s"
    and m1: "moved_in A p n (insert (et_key table r) K) rows rows1" by blast
  have "\<exists>rows'. work s' = et_put table rows' (work (s1\<lparr> tick := Suc (tick s1) \<rparr>)) \<and>
    durable s' = durable (s1\<lparr> tick := Suc (tick s1) \<rparr>) \<and>
    moved_in A p n (insert (et_key table r) K \<union> et_key table ` set rs) rows rows'"
    by (rule Cons.IH [OF 3]) (use Cons.prems w1 m1 in \<open>auto simp: rows_put\<close>)
  then show ?case using w1 by (auto simp: put_put)
qed

lemma rewrapTable_effect:
  assumes "rewrapTable table (rewrapped A p n) env s = (Inr c, s')"
    and A: "exactAEAD A" and R: "sizedRandom (rand env)" and key: "length (master n) = dekSize"
    and unique: "uniqueOn (et_key table) (et_rows table (work s))"
  shows "\<exists>rows'. work s' = et_put table rows' (work s) \<and> durable s' = durable s \<and>
    list_all2 (moved_row A p n) (et_rows table (work s)) rows'"
proof -
  let ?rs = "sortedRows table (work s)"
  let ?s1 = "s\<lparr> tick := Suc (tick s) \<rparr>"
  have 1: "work ?s1 = work s" "durable ?s1 = durable s" by simp_all
  have 2: "tx_each (\<lambda>r. tx_bind (rewrapRow table (rewrapped A p n) r) (\<lambda>_. tx_query (\<lambda>_. ()))) ?rs env ?s1 = (Inr (), s')"
    using assms(1) by (auto simp: rewrapTable_def tx_bind_Inr tx_query_Inr)
  have set_rs: "set ?rs = set (et_rows table (work s))" by (simp add: sortedRows_def)
  moreover have "distinct (map (et_key table) ?rs)"
    using unique by (simp add: sortedRows_def uniqueOn_def distinct_map_sort_key)
  moreover have "moved_in A p n {} (et_rows table (work s)) (et_rows table (work ?s1))"
    using moved_start 1(1) by simp
  ultimately obtain rows' where "work s' = et_put table rows' (work s)" "durable s' = durable s"
    and m: "moved_in A p n (et_key table ` set ?rs) (et_rows table (work s)) rows'"
    using rewrapEach_effect [OF 2 A R key unique, of "{}"] 1 by auto
  moreover have "list_all2 (moved_row A p n) (et_rows table (work s)) rows'"
    using m unfolding moved_in_def by (rule list.rel_mono_strong) (simp add: set_rs)
  ultimately show ?thesis by blast
qed

end

lemma rewrapSnapshot_opens:
  assumes "exactAEAD A" "sizedRandom R" "length (master n) = dekSize"
    and "RewrapSnapshot A R t p identity e (Some n) = Inr w"
  shows "DecryptSnapshot A n identity (e\<lparr> EncryptedDEK := w \<rparr>) = DecryptSnapshot A p identity e \<and>
    (\<exists>plaintext. DecryptSnapshot A p identity e = Inr plaintext)"
  using rewrap_decrypt [OF assms(1-3)] assms(4)
  by (auto simp: RewrapSnapshot_def DecryptSnapshot_def split: if_splits)

lemma rewrapSecret_opens:
  assumes "exactAEAD A" "sizedRandom R" "length (master n) = dekSize"
    and "RewrapSecret A R t p identity e (Some n) = Inr w"
  shows "DecryptSecret A n identity (e\<lparr> EncryptedDEK := w \<rparr>) = DecryptSecret A p identity e \<and>
    (\<exists>plaintext. DecryptSecret A p identity e = Inr plaintext)"
  using rewrap_decrypt [OF assms(1-3)] assms(4)
  by (auto simp: RewrapSecret_def DecryptSecret_def split: if_splits)

definition openRevision :: "aead \<Rightarrow> LocalKeyProvider \<Rightarrow> vault_revision_row \<Rightarrow> crypto_error + bytes" where
  "openRevision A p r = DecryptSnapshot A p (revisionIdentity r) (vr_snapshot r)"

definition openAuthority :: "(bytes \<Rightarrow> bytes) \<Rightarrow> aead \<Rightarrow> LocalKeyProvider \<Rightarrow> authority_row \<Rightarrow> crypto_error + bytes" where
  "openAuthority sha A p a = DecryptSecret A p (authorityIdentity sha a) (ca_secret a)"

definition openDestination :: "aead \<Rightarrow> LocalKeyProvider \<Rightarrow> destination_row \<Rightarrow> crypto_error + bytes" where
  "openDestination A p n = DecryptSecret A p (notificationCredentialIdentity (ds_id n)) (ds_secret n)"

interpretation revisions: wrapped_table vaultRevisionsTable openRevision rewrapRevision
  by unfold_locales
    (auto simp: vaultRevisionsTable_def openRevision_def rewrapRevision_def revisionIdentity_def
      dest: rewrapSnapshot_opens)

interpretation authorities: wrapped_table authoritiesTable "openAuthority sha" "rewrapAuthority sha" for sha
  by unfold_locales
    (auto simp: authoritiesTable_def openAuthority_def rewrapAuthority_def authorityIdentity_def
      dest: rewrapSecret_opens)

interpretation destinations: wrapped_table destinationsTable openDestination rewrapDestination
  by unfold_locales
    (auto simp: destinationsTable_def openDestination_def rewrapDestination_def dest: rewrapSecret_opens)

section \<open>The whole rotation\<close>

lemma quiet_verification [quiet_intros]: "quiet (verifyEncryptedTable table opens)" "quiet (verifyEncryptedState ck A p)"
  unfolding verifyEncryptedState_def verifyEncryptedTable_def verifyDatabase_def verifySentinel_def readSentinel_def
  by (intro quiet_intros)+

lemma preserves_verification [preserves_intros]:
  "preserves P (verifyEncryptedTable table opens)" "preserves P (verifyEncryptedState ck A p)"
  unfolding verifyEncryptedState_def verifyEncryptedTable_def verifyDatabase_def verifySentinel_def readSentinel_def
  by (intro preserves_intros)+

lemma kept:
  assumes "quiet m" and "\<And>P. preserves P m" and "m env s = (r, s')"
  shows "work s' = work s \<and> durable s' = durable s"
  using assms(1,3) assms(2) [of "\<lambda>d. d = work s"] by (auto simp: quiet_def preserves_def)

lemma verifySentinel_kept:
  "verifySentinel A p env s = (r, s') \<Longrightarrow> work s' = work s \<and> durable s' = durable s"
  by (rule kept [OF quiet_lockMasterKey [unfolded lockMasterKey_def] preserves_lockMasterKey [unfolded lockMasterKey_def]])

lemma recordRotation_effect:
  assumes "recordRotation counts env s = (Inr res, s')"
  shows "data (durable s') = data (work s)"
proof -
  obtain dg b s1 s2 s3 s4 u where "beginOperation b dg rotationActor [] env s1 = (Inr None, s2)"
    and s1: "work s1 = work s"
    and "finishOperation b rotationActor OutcomeSuccess 0 (rotationJSON res) rotationEvent False env s2 = (Inr u, s3)"
    and "tx_commit env s3 = (Inr (), s4)" "s' = s4"
    using assms
    by (auto simp: recordRotation_def Let_def tx_bind_Inr randomID_def tx_random_Inr split: if_splits)
  then show ?thesis
    using beginOperation_data [of b dg rotationActor "[]" env s1] finishOperation_data by (auto simp: tx_commit_Inr)
qed

definition rotatedRows :: "(bytes \<Rightarrow> bytes) \<Rightarrow> aead \<Rightarrow> LocalKeyProvider \<Rightarrow> LocalKeyProvider \<Rightarrow> db \<Rightarrow> db \<Rightarrow> bool" where
  "rotatedRows sha A p n d d' =
     (list_all2 (revisions.moved_row A p n) (vault_revisions d) (vault_revisions d') \<and>
      list_all2 (authorities.moved_row sha A p n) (authorities d) (authorities d') \<and>
      list_all2 (destinations.moved_row A p n) (destinations d) (destinations d'))"

definition secretKeys :: "db \<Rightarrow> bool" where
  "secretKeys d = (uniqueOn (\<lambda>r. (vr_item r, vr_revision r)) (vault_revisions d) \<and> uniqueOn ca_id (authorities d) \<and>
     uniqueOn ds_id (destinations d))"

lemma et_tables [simp]:
  "et_rows vaultRevisionsTable d = vault_revisions d" "et_put vaultRevisionsTable rs d = d\<lparr> vault_revisions := rs \<rparr>"
  "et_rows authoritiesTable d = authorities d" "et_put authoritiesTable as d = d\<lparr> authorities := as \<rparr>"
  "et_rows destinationsTable d = destinations d" "et_put destinationsTable ns d = d\<lparr> destinations := ns \<rparr>"
  by (simp_all add: vaultRevisionsTable_def authoritiesTable_def destinationsTable_def)

lemma rewrapAll_effect:
  assumes "rewrapAll A p n env s = (Inr counts, s')"
    and A: "exactAEAD A" "sizedRandom (rand env)" "length (master n) = dekSize" and "secretKeys (work s)"
  shows "\<exists>rs as ns. work s' = (work s)\<lparr> vault_revisions := rs, authorities := as, destinations := ns \<rparr> \<and>
    durable s' = durable s \<and> rotatedRows (sha256 env) A p n (work s) (work s')"
proof -
  obtain c1 c2 c3 s1 s2 where
    1: "rewrapTable vaultRevisionsTable (rewrapRevision A p n) env s = (Inr c1, s1)" and
    2: "rewrapTable authoritiesTable (rewrapAuthority (sha256 env) A p n) env s1 = (Inr c2, s2)" and
    3: "rewrapTable destinationsTable (rewrapDestination A p n) env s2 = (Inr c3, s')"
    using assms(1) by (auto simp: rewrapAll_def tx_bind_Inr)
  have "uniqueOn (et_key vaultRevisionsTable) (vault_revisions (work s))"
    using assms(5) by (simp add: secretKeys_def vaultRevisionsTable_def)
  then obtain rs where r: "work s1 = (work s)\<lparr> vault_revisions := rs \<rparr>" "durable s1 = durable s"
    "list_all2 (revisions.moved_row A p n) (vault_revisions (work s)) rs"
    using revisions.rewrapTable_effect [OF 1 A] by auto
  have "uniqueOn (et_key authoritiesTable) (authorities (work s1))"
    using assms(5) r(1) by (auto simp: secretKeys_def authoritiesTable_def uniqueOn_def distinct_map inj_on_def)
  then obtain as where a: "work s2 = (work s1)\<lparr> authorities := as \<rparr>" "durable s2 = durable s1"
    "list_all2 (authorities.moved_row (sha256 env) A p n) (authorities (work s1)) as"
    using authorities.rewrapTable_effect [OF 2 A] by auto
  have "uniqueOn (et_key destinationsTable) (destinations (work s2))"
    using assms(5) r(1) a(1) by (auto simp: secretKeys_def destinationsTable_def uniqueOn_def distinct_map inj_on_def)
  then obtain ns where n: "work s' = (work s2)\<lparr> destinations := ns \<rparr>" "durable s' = durable s2"
    "list_all2 (destinations.moved_row A p n) (destinations (work s2)) ns"
    using destinations.rewrapTable_effect [OF 3 A] by auto
  show ?thesis using r a n by (auto simp: rotatedRows_def)
qed

lemma CreateSentinel_verified:
  assumes "exactAEAD A" "sizedRandom R" "length (master n) = dekSize" "CreateSentinel A R t n = Inr sentinel"
  shows "VerifySentinel A n sentinel"
  using assms by (auto simp: CreateSentinel_def VerifySentinel_def exactAEAD_unseal sizedRandom_length split: option.splits)

lemma rotateUnder_effect:
  assumes "rotateUnder ck A p n env s = (Inr res, s')"
    and A: "exactAEAD A" "sizedRandom (rand env)" "length (master n) = dekSize" and keys: "secretKeys (work s)"
    and "crypto_sentinel (work s) \<noteq> None"
  shows "\<exists>rs as ns sentinel. data (durable s') = data ((work s)\<lparr> vault_revisions := rs, authorities := as,
      destinations := ns, crypto_sentinel := Some sentinel \<rparr>) \<and> VerifySentinel A n sentinel \<and>
    rotatedRows (sha256 env) A p n (work s) (durable s')"
proof -
  let ?s0 = "s\<lparr> tick := Suc (tick s) \<rparr>"
  obtain verified counts s1 s2 sentinel where
    1: "verifyEncryptedState ck A p env ?s0 = (Inr verified, s1)" and
    2: "rewrapAll A p n env s1 = (Inr counts, s2)" and
    3: "CreateSentinel A (rand env) (tick s2) n = Inr sentinel" and
    4: "recordRotation counts env (s2\<lparr> work := (work s2)\<lparr> crypto_sentinel := map_option (\<lambda>_. sentinel)
      (crypto_sentinel (work s2)) \<rparr>, tick := 4 + tick s2 \<rparr>) = (Inr res, s')"
    using assms(1) by (auto simp: rotateUnder_def tx_Inr sealing_Inr split: if_splits)
  have w1: "work s1 = work s" using kept [OF quiet_verification(2) preserves_verification(2) 1] by simp
  from rewrapAll_effect [OF 2 A] keys w1 obtain rs as ns where
    w2: "work s2 = (work s)\<lparr> vault_revisions := rs, authorities := as, destinations := ns \<rparr>"
    and rows: "rotatedRows (sha256 env) A p n (work s) (work s2)" by auto
  have d: "data (durable s') = data ((work s)\<lparr> vault_revisions := rs, authorities := as, destinations := ns,
      crypto_sentinel := Some sentinel \<rparr>)"
    using recordRotation_effect [OF 4] w2 assms(6) by auto
  have "rotatedRows (sha256 env) A p n (work s) (durable s')"
    using rows w2 data_tables(7,13,14) [OF d] by (simp add: rotatedRows_def)
  with d CreateSentinel_verified [OF A 3] show ?thesis by blast
qed

lemma RotateMasterKey_effect:
  assumes "RotateMasterKey ck A p (Some n) env d = (Inr res, d')"
    and A: "exactAEAD A" "sizedRandom (rand env)" "length (master n) = dekSize" and keys: "secretKeys d"
  shows "\<exists>rs as ns sentinel. data d' = data (d\<lparr> vault_revisions := rs, authorities := as,
      destinations := ns, crypto_sentinel := Some sentinel \<rparr>) \<and> VerifySentinel A n sentinel \<and>
    rotatedRows (sha256 env) A p n d d'"
proof -
  let ?s = "\<lparr> work = d, durable = d, tick = 1 \<rparr>"
  obtain s1 e s2 s3 where 1: "lockMasterKey A p env ?s = (Inr (), s1)"
    and 2: "verifySentinel A n env s1 = (Inl e, s2)"
    and 3: "rotateUnder ck A p n env s2 = (Inr res, s3)" "durable s3 = d'"
    using assms(1)
    by (auto simp: RotateMasterKey_def run_tx_def tx_bind_Inr tx_handle_Inr split: if_splits prod.splits)
  have "work s2 = d" "crypto_sentinel d \<noteq> None"
    using lockMasterKey_Inr [OF 1] verifySentinel_kept [OF 2] by (auto simp: keyed_def)
  then show ?thesis using rotateUnder_effect [OF 3(1) A] keys 3(2) by simp
qed

section \<open>What reads resolve to\<close>

lemma moved_revision:
  assumes "revisions.moved_row A p n r r'"
  shows "\<exists>w. r' = r\<lparr> vr_snapshot := (vr_snapshot r)\<lparr> EncryptedDEK := w \<rparr> \<rparr> \<and> openRevision A n r' = openRevision A p r"
  using assms unfolding revisions.moved_row_def by (auto simp: vaultRevisionsTable_def)

lemma moved_rows_found:
  assumes "list_all2 (revisions.moved_row A p n) rows rows'"
  shows "rel_option (revisions.moved_row A p n) (find (\<lambda>r. vr_item r = i \<and> vr_revision r = v) rows)
    (find (\<lambda>r. vr_item r = i \<and> vr_revision r = v) rows')"
  using assms
proof (induction rule: list_all2_induct)
  case (Cons r rows r' rows')
  obtain w where "r' = r\<lparr> vr_snapshot := (vr_snapshot r)\<lparr> EncryptedDEK := w \<rparr> \<rparr>"
    using moved_revision [OF Cons.hyps(1)] by blast
  then show ?case using Cons by (cases "vr_item r = i"; cases "vr_revision r = v") simp_all
qed simp

lemma openPayload_found:
  assumes "vaultRevision i v d = Some r"
  shows "openPayload A p \<lparr> md_item = i, md_revision = v, md_variant = w \<rparr> (vr_snapshot r) =
    (case openRevision A p r of Inl _ \<Rightarrow> None | Inr plaintext \<Rightarrow> Decode plaintext)"
  using find_Some_iff [of "\<lambda>r. vr_item r = i \<and> vr_revision r = v" "vault_revisions d" r] assms
  by (auto simp: vaultRevision_def openPayload_def openRevision_def revisionIdentity_def)

lemma payload_rotated:
  assumes "list_all2 (revisions.moved_row A p n) (vault_revisions d) (vault_revisions d')"
  shows "payloadIn A n m d' = payloadIn A p m d"
proof -
  obtain i v w where m: "m = \<lparr> md_item = i, md_revision = v, md_variant = w \<rparr>" by (cases m)
  have "rel_option (revisions.moved_row A p n) (vaultRevision i v d) (vaultRevision i v d')"
    unfolding vaultRevision_def by (rule moved_rows_found [OF assms])
  then show ?thesis
  proof (cases rule: option.rel_cases)
    case None
    then show ?thesis by (simp add: payloadIn_def m)
  next
    case (Some r r')
    then obtain w where w: "r' = r\<lparr> vr_snapshot := (vr_snapshot r)\<lparr> EncryptedDEK := w \<rparr> \<rparr>" "openRevision A n r' = openRevision A p r"
      using moved_revision by blast
    with Some openPayload_found [OF Some(1)] openPayload_found [OF Some(2)] show ?thesis
      by (simp add: payloadIn_def m)
  qed
qed

lemma vaultText_rotated:
  assumes "list_all2 (revisions.moved_row A p n) (vault_revisions d) (vault_revisions d')"
    and "vault_items d' = vault_items d" "vault_bindings d' = vault_bindings d" "vault_fields d' = vault_fields d"
  shows "vaultText A n e d' x = vaultText A p e d x"
proof -
  have metadata: "metadataOf e i d' = metadataOf e i d" for i
    unfolding metadataOf_def itemMetadata_def activeItem_def assms(2-4) by (rule refl)
  have types: "revisionFieldTypes i v d' = revisionFieldTypes i v d" for i v
    by (simp add: revisionFieldTypes_def assms(4))
  show ?thesis
    unfolding vaultText_def fieldText_def metadata payload_rotated [OF assms(1)] types by (rule refl)
qed

lemma moved_opened:
  assumes "list_all2 (authorities.moved_row sha A p n) as as'" and "list_all2 (destinations.moved_row A p n) ns ns'"
  shows "map (openAuthority sha A n) as' = map (openAuthority sha A p) as"
    and "map (openDestination A n) ns' = map (openDestination A p) ns"
proof -
  have "list_all2 (\<lambda>a a'. openAuthority sha A n a' = openAuthority sha A p a) as as'"
    using assms(1) by (rule list.rel_mono_strong) (simp add: authorities.moved_row_def)
  then show "map (openAuthority sha A n) as' = map (openAuthority sha A p) as"
    by (induction rule: list_all2_induct) simp_all
  have "list_all2 (\<lambda>x x'. openDestination A n x' = openDestination A p x) ns ns'"
    using assms(2) by (rule list.rel_mono_strong) (simp add: destinations.moved_row_def)
  then show "map (openDestination A n) ns' = map (openDestination A p) ns"
    by (induction rule: list_all2_induct) simp_all
qed

section \<open>Processes under another key\<close>

lemma unkeyed_fails:
  assumes "\<not> keyed A q d"
  shows "\<exists>e s. lockMasterKey A q env \<lparr> work = d, durable = d, tick = t \<rparr> = (Inl e, s) \<and> durable s = d"
proof -
  obtain r s where run: "lockMasterKey A q env \<lparr> work = d, durable = d, tick = t \<rparr> = (r, s)" by fastforce
  have "durable s = d" using verifySentinel_kept [OF run [unfolded lockMasterKey_def]] by simp
  moreover have "r \<noteq> Inr u" for u using run lockMasterKey_Inr assms by fastforce
  ultimately show ?thesis using run by (cases r) blast+
qed

lemma unkeyed_run:
  assumes "\<not> keyed A q d"
  shows "snd (run_tx (tx_bind (lockMasterKey A q) f) env d) = d"
  using unkeyed_fails [OF assms, of env 1] by (auto simp: run_tx_def tx_bind_def)

section \<open>A sample rotation\<close>

text \<open>A cipher whose text ends with the key, a revision sealed under the key of zeros, and a next key.\<close>

definition keyTag :: "bytes \<Rightarrow> bytes" where
  "keyTag key = take 16 (key @ replicate 16 CHR 0x00)"

lemma length_keyTag [simp]: "length (keyTag key) = 16"
  by (simp add: keyTag_def)

definition keyedAEAD :: aead where
  "keyedAEAD =
     \<lparr> seal = \<lambda>key nonce plaintext aad. plaintext @ keyTag key,
       unseal = \<lambda>key nonce ciphertext aad.
         (if 16 \<le> length ciphertext \<and> drop (length ciphertext - 16) ciphertext = keyTag key
          then Some (take (length ciphertext - 16) ciphertext) else None) \<rparr>"

lemma keyedAEAD_exact: "exactAEAD keyedAEAD"
proof -
  have "unseal keyedAEAD key nonce ciphertext aad = Some plaintext \<longleftrightarrow>
      ciphertext = seal keyedAEAD key nonce plaintext aad" for key nonce ciphertext aad plaintext
  proof
    assume u: "unseal keyedAEAD key nonce ciphertext aad = Some plaintext"
    then have "drop (length ciphertext - 16) ciphertext = keyTag key"
      "take (length ciphertext - 16) ciphertext = plaintext"
      by (simp_all add: keyedAEAD_def split: if_splits)
    then show "ciphertext = seal keyedAEAD key nonce plaintext aad"
      using append_take_drop_id [of "length ciphertext - 16" ciphertext] by (simp add: keyedAEAD_def)
  next
    assume "ciphertext = seal keyedAEAD key nonce plaintext aad"
    then show "unseal keyedAEAD key nonce ciphertext aad = Some plaintext" by (simp add: keyedAEAD_def)
  qed
  then show ?thesis by (simp add: exactAEAD_def) (simp add: keyedAEAD_def)
qed

definition nextProvider :: LocalKeyProvider where
  "nextProvider = \<lparr> master = replicate 32 (CHR 0x01) \<rparr>"

definition rotationDb :: db where
  "rotationDb = machineDb\<lparr> crypto_sentinel :=
     (case CreateSentinel keyedAEAD zeroRandom 0 zeroProvider of Inl _ \<Rightarrow> None | Inr s \<Rightarrow> Some s) \<rparr>"

definition rotationEnv :: env where
  "rotationEnv = sampleEnv\<lparr> rand := \<lambda>t n. Some (take n (replicate (t - 12) CHR ''a'' @ replicate n CHR ''b'')) \<rparr>"

definition sampleChecks :: checks where
  "sampleChecks = \<lparr> ck_authority = \<lambda>_ _. True, ck_credentials = \<lambda>_. True \<rparr>"

definition rotated :: db where
  "rotated = snd (RotateMasterKey sampleChecks keyedAEAD zeroProvider (Some nextProvider) rotationEnv rotationDb)"

lemma keyed_case: "keyed A q d = (case crypto_sentinel d of None \<Rightarrow> False | Some s \<Rightarrow> VerifySentinel A q s)"
  by (simp add: keyed_def split: option.split)

lemma rotation_run:
  "(case RotateMasterKey sampleChecks keyedAEAD zeroProvider (Some nextProvider) rotationEnv rotationDb of
      (out, d') \<Rightarrow> \<not> isl out \<and> (case crypto_sentinel d' of None \<Rightarrow> True | Some s \<Rightarrow> \<not> VerifySentinel keyedAEAD zeroProvider s))"
  by code_simp

lemma rotation_ran:
  "\<exists>res. RotateMasterKey sampleChecks keyedAEAD zeroProvider (Some nextProvider) rotationEnv rotationDb = (Inr res, rotated)"
  "\<not> keyed keyedAEAD zeroProvider rotated"
proof -
  obtain out where run: "RotateMasterKey sampleChecks keyedAEAD zeroProvider (Some nextProvider) rotationEnv rotationDb =
      (out, rotated)" by (cases "RotateMasterKey sampleChecks keyedAEAD zeroProvider (Some nextProvider) rotationEnv
        rotationDb") (simp add: rotated_def)
  from rotation_run [unfolded run] have ok: "\<not> isl out" and "\<not> keyed keyedAEAD zeroProvider rotated"
    by (auto simp: keyed_case split: option.splits)
  then show "\<not> keyed keyedAEAD zeroProvider rotated" by blast
  from ok obtain res where "out = Inr res" by (cases out) auto
  with run show "\<exists>res. RotateMasterKey sampleChecks keyedAEAD zeroProvider (Some nextProvider) rotationEnv rotationDb =
    (Inr res, rotated)" by blast
qed

lemma rotation_sample:
  "vaultText keyedAEAD zeroProvider ''eeeeeeeeeeeeeeee'' rotationDb (Reference ''db'' ''main'' ''pw'') = Some ''s3''"
  by code_simp

lemma rotation_keys: "secretKeys rotationDb" "sizedRandom (rand rotationEnv)" "length (master nextProvider) = dekSize"
  by (auto simp: secretKeys_def uniqueOn_def rotationDb_def machineDb_def emptyDb_def rotationEnv_def sizedRandom_def
      nextProvider_def dekSize_def)

end
