(* ===== verification/Calendar.thy ===== *)
theory Calendar
  imports MachineHttp
begin

text \<open>
  Instants on the wire and in the database: what \<^verbatim>\<open>time.Time.UnmarshalJSON\<close> reads back of
  the RFC 3339 text that \<^const>\<open>timeText\<close> writes, and a \<^verbatim>\<open>DATETIME(6)\<close> column, which rounds to
  the microsecond. Instants are kept without their zone.
\<close>

section \<open>RFC 3339\<close>

definition leapYear :: "int \<Rightarrow> bool" where
  "leapYear y = (y mod 4 = 0 \<and> (y mod 100 \<noteq> 0 \<or> y mod 400 = 0))"

definition daysIn :: "int \<Rightarrow> int \<Rightarrow> int" where
  "daysIn month year =
     (if month = 2 then (if leapYear year then 29 else 28)
      else if month \<in> {4, 6, 9, 11} then 30 else 31)"

text \<open>Days since the first of January of year 1.\<close>

definition dayNumber :: "int \<Rightarrow> int \<Rightarrow> int \<Rightarrow> int" where
  "dayNumber year month day =
     (let y = (if month \<le> 2 then year - 1 else year); m = (month + 9) mod 12 in
        365 * y + y div 4 - y div 100 + y div 400 + (153 * m + 2) div 5 + day - 1 - 306)"

text \<open>Two or four digits within bounds.\<close>

definition boundedDigits :: "int \<Rightarrow> int \<Rightarrow> string \<Rightarrow> int option" where
  "boundedDigits lo hi s =
     (if list_all digitChar s \<and> lo \<le> int (decimalValue s) \<and> int (decimalValue s) \<le> hi
      then Some (int (decimalValue s)) else None)"

definition slice :: "nat \<Rightarrow> nat \<Rightarrow> string \<Rightarrow> string" where
  "slice from to s = take (to - from) (drop from s)"

text \<open>Of the fraction nine digits count.\<close>

definition fractionPart :: "string \<Rightarrow> int \<times> string" where
  "fractionPart s =
     (case s of
        CHR ''.'' # c # t \<Rightarrow>
          if digitChar c
          then (let ds = takeWhile digitChar (c # t) in
                  (int (decimalValue (take 9 (ds @ replicate 9 CHR ''0''))), dropWhile digitChar (c # t)))
          else (0, s)
      | _ \<Rightarrow> (0, s))"

definition zoneOffset :: "string \<Rightarrow> int option" where
  "zoneOffset s =
     (if s = ''Z'' then Some 0
      else if length s \<noteq> 6 \<or> (s ! 0 \<noteq> CHR ''-'' \<and> s ! 0 \<noteq> CHR ''+'') \<or> s ! 3 \<noteq> CHR '':'' then None
      else
        (case (boundedDigits 0 23 (slice 1 3 s), boundedDigits 0 59 (slice 4 6 s)) of
           (Some hour, Some minutes) \<Rightarrow>
             Some ((hour * 60 + minutes) * 60 * (if s ! 0 = CHR ''-'' then -1 else 1))
         | _ \<Rightarrow> None))"

definition parseTime :: "string \<Rightarrow> time option" where
  "parseTime s =
     (if length s < 19 \<or> s ! 4 \<noteq> CHR ''-'' \<or> s ! 7 \<noteq> CHR ''-'' \<or> s ! 10 \<noteq> CHR ''T'' \<or> s ! 13 \<noteq> CHR '':'' \<or>
         s ! 16 \<noteq> CHR '':'' then None
      else
        (case (boundedDigits 0 9999 (slice 0 4 s), boundedDigits 1 12 (slice 5 7 s)) of
           (Some year, Some month) \<Rightarrow>
             (case (boundedDigits 1 (daysIn month year) (slice 8 10 s), boundedDigits 0 23 (slice 11 13 s),
                    boundedDigits 0 59 (slice 14 16 s), boundedDigits 0 59 (slice 17 19 s)) of
                (Some day, Some h, Some m, Some sec) \<Rightarrow>
                  (case fractionPart (drop 19 s) of
                     (nanos, zone) \<Rightarrow>
                       map_option (\<lambda>offset.
                         (dayNumber year month day * 86400 + h * 3600 + m * 60 + sec - offset) * second + nanos)
                         (zoneOffset zone))
              | _ \<Rightarrow> None)
         | _ \<Rightarrow> None))"

text \<open>\<^verbatim>\<open>Time.MarshalJSON\<close> fails outside the years 0 to 9999.\<close>

definition day :: time where "day = 86400 * second"

definition marshalTime :: "time \<Rightarrow> json option" where
  "marshalTime t = (if dayNumber 0 1 1 * day \<le> t \<and> t < dayNumber 10000 1 1 * day then Some (JStr (timeText t)) else None)"

text \<open>A \<^verbatim>\<open>*time.Time\<close>: the instant, which is nil when the member is absent or null.\<close>

definition asTime :: "json \<Rightarrow> time option option" where
  "asTime v =
     (case v of
        JNull \<Rightarrow> Some None
      | JStr s \<Rightarrow> map_option Some (parseTime s)
      | _ \<Rightarrow> None)"

section \<open>The column\<close>

definition datetime :: "time \<Rightarrow> time" where
  "datetime t = (t + 500) div 1000 * 1000"

definition datetimeFits :: "time \<Rightarrow> bool" where
  "datetimeFits t = (0 \<le> t \<and> datetime t < dayNumber 10000 1 1 * day)"

lemma datetime_exact: "datetime t - 500 \<le> t" "t < datetime t + 500"
proof -
  have "datetime t = t + 500 - (t + 500) mod 1000" unfolding datetime_def by (rule minus_mod_eq_div_mult [symmetric])
  moreover have "0 \<le> (t + 500) mod 1000" "(t + 500) mod 1000 < 1000" by simp_all
  ultimately show "datetime t - 500 \<le> t" "t < datetime t + 500" by linarith+
qed

end
