(* ===== verification/ClientCert.thy ===== *)
theory ClientCert
  imports Calendar
begin

text \<open>
  Client certificates (\<^verbatim>\<open>internal/clientcert\<close>): parsing and verifying an imported one, issuing
  authorities and clients with bounded lifetimes, the exported bundle, and the pool of trusted
  authorities. X.509, PEM, ZIP and key generation of the standard library are the record
  \<^verbatim>\<open>x509\<close>; the refresh loop and the TLS configuration of \<^verbatim>\<open>trust.go\<close> are left out.
\<close>

section \<open>The library\<close>

record certificate =
  cf_raw :: bytes
  cf_subject :: string
  cf_serial :: "int option"
  cf_not_before :: time
  cf_not_after :: time
  cf_is_ca :: bool
  cf_constraints :: bool
  cf_signs :: bool
  cf_public :: bytes

text \<open>What the templates of the program differ in; the rest follows from \<^verbatim>\<open>tm_is_ca\<close>.\<close>

record certificate_template =
  tm_serial :: int
  tm_name :: string
  tm_not_before :: time
  tm_not_after :: time
  tm_is_ca :: bool

record x509 =
  x_parse :: "bytes \<Rightarrow> certificate option"
  x_verify :: "certificate list \<Rightarrow> certificate list \<Rightarrow> time \<Rightarrow> certificate \<Rightarrow> bool"
  x_signed_by :: "certificate \<Rightarrow> certificate \<Rightarrow> bool"
  x_key :: "random \<Rightarrow> nat \<Rightarrow> (bytes \<times> bytes) option"
  x_signer :: "bytes \<Rightarrow> bytes option"
  x_below :: "int \<Rightarrow> random \<Rightarrow> nat \<Rightarrow> int option"
  x_create :: "random \<Rightarrow> nat \<Rightarrow> certificate_template \<Rightarrow> certificate option \<Rightarrow> bytes \<Rightarrow> bytes \<Rightarrow> bytes option"
  x_pem :: "string \<Rightarrow> bytes \<Rightarrow> string"
  x_decode :: "string \<Rightarrow> (string \<times> bool \<times> bytes \<times> string) option"
  x_zip :: "(string \<times> bytes) list \<Rightarrow> bytes option"

section \<open>White space\<close>

text \<open>The encodings of the code points that \<^verbatim>\<open>unicode.IsSpace\<close> accepts.\<close>

definition spaceEncodings :: "string list" where
  "spaceEncodings =
     [[CHR 0x09], [CHR 0x0A], [CHR 0x0B], [CHR 0x0C], [CHR 0x0D], [CHR 0x20], [CHR 0xC2, CHR 0x85], [CHR 0xC2, CHR 0xA0],
      [CHR 0xE1, CHR 0x9A, CHR 0x80], [CHR 0xE2, CHR 0x80, CHR 0x80], [CHR 0xE2, CHR 0x80, CHR 0x81],
      [CHR 0xE2, CHR 0x80, CHR 0x82], [CHR 0xE2, CHR 0x80, CHR 0x83], [CHR 0xE2, CHR 0x80, CHR 0x84],
      [CHR 0xE2, CHR 0x80, CHR 0x85], [CHR 0xE2, CHR 0x80, CHR 0x86], [CHR 0xE2, CHR 0x80, CHR 0x87],
      [CHR 0xE2, CHR 0x80, CHR 0x88], [CHR 0xE2, CHR 0x80, CHR 0x89], [CHR 0xE2, CHR 0x80, CHR 0x8A],
      [CHR 0xE2, CHR 0x80, CHR 0xA8], [CHR 0xE2, CHR 0x80, CHR 0xA9], [CHR 0xE2, CHR 0x80, CHR 0xAF],
      [CHR 0xE2, CHR 0x81, CHR 0x9F], [CHR 0xE3, CHR 0x80, CHR 0x80]]"

definition startsWithSpace :: "string \<Rightarrow> bool" where
  "startsWithSpace s = list_ex (hasPrefix s) spaceEncodings"

definition endsWithSpace :: "string \<Rightarrow> bool" where
  "endsWithSpace s = list_ex (\<lambda>e. hasPrefix (rev s) (rev e)) spaceEncodings"

fun dropSpaces :: "nat \<Rightarrow> string \<Rightarrow> string" where
  "dropSpaces 0 s = s"
| "dropSpaces (Suc n) s =
     (case find (hasPrefix s) spaceEncodings of
        None \<Rightarrow> s
      | Some e \<Rightarrow> dropSpaces n (drop (length e) s))"

text \<open>\<^verbatim>\<open>len(bytes.TrimSpace(s)) == 0\<close>.\<close>

definition blank :: "string \<Rightarrow> bool" where
  "blank s = (dropSpaces (length s) s = [])"

definition validCertificateName :: "string \<Rightarrow> bool" where
  "validCertificateName name =
     (\<not> startsWithSpace name \<and> \<not> endsWithSpace name \<and> name \<noteq> [] \<and> length name \<le> 128 \<and>
      CHR 0x00 \<notin> set name \<and> CHR 0x0D \<notin> set name \<and> CHR 0x0A \<notin> set name)"

section \<open>Importing\<close>

definition maxCertificateInputBytes :: nat where "maxCertificateInputBytes = 1048576"

text \<open>At most ten certificates: the argument counts those still allowed.\<close>

fun pemCertificates :: "x509 \<Rightarrow> nat \<Rightarrow> string \<Rightarrow> certificate list option" where
  "pemCertificates X 0 remaining = (if blank remaining then Some [] else None)"
| "pemCertificates X (Suc n) remaining =
     (if blank remaining then Some []
      else
        (case x_decode X remaining of
           None \<Rightarrow> None
         | Some (kind, headers, block, rest) \<Rightarrow>
             if kind \<noteq> ''CERTIFICATE'' \<or> headers then None
             else
               (case (x_parse X block, pemCertificates X n rest) of
                  (Some c, Some cs) \<Rightarrow> Some (c # cs)
                | _ \<Rightarrow> None)))"

definition parseCertificates :: "x509 \<Rightarrow> string \<Rightarrow> certificate list option" where
  "parseCertificates X input =
     (if \<not> containsStr input ''-----BEGIN'' then map_option (\<lambda>c. [c]) (x_parse X input)
      else
        (case pemCertificates X 10 input of
           Some [] \<Rightarrow> None
         | cs \<Rightarrow> cs))"

definition ParseAndVerify :: "x509 \<Rightarrow> string \<Rightarrow> certificate list option \<Rightarrow> time \<Rightarrow> certificate option" where
  "ParseAndVerify X input roots at =
     (case roots of
        None \<Rightarrow> None
      | Some pool \<Rightarrow>
          if input = [] \<or> length input > maxCertificateInputBytes then None
          else
            (case parseCertificates X input of
               Some (leaf # chain) \<Rightarrow>
                 if cf_is_ca leaf \<or> \<not> at < cf_not_after leaf then None
                 else if x_verify X pool chain (if at < cf_not_before leaf then cf_not_before leaf else at) leaf then Some leaf
                 else None
             | _ \<Rightarrow> None))"

section \<open>Issuing\<close>

record GeneratedCertificate =
  gc_certificate :: certificate
  gc_private :: bytes

definition newSerial :: "x509 \<Rightarrow> random \<Rightarrow> nat \<Rightarrow> int option" where
  "newSerial X R t = map_option (\<lambda>n. n + 1) (x_below X (2 ^ 159 - 1) R t)"

text \<open>A key pair signed with the private key \<^verbatim>\<open>signer\<close> of the parent, or with its own.\<close>

definition createCertificate :: "x509 \<Rightarrow> random \<Rightarrow> nat \<Rightarrow> certificate_template \<Rightarrow> certificate option \<Rightarrow> bytes \<times> bytes \<Rightarrow>
    bytes \<Rightarrow> GeneratedCertificate option" where
  "createCertificate X R t template parent pair signer =
     (case x_create X R t template parent (snd pair) signer of
        None \<Rightarrow> None
      | Some der \<Rightarrow> map_option (\<lambda>c. \<lparr> gc_certificate = c, gc_private = fst pair \<rparr>) (x_parse X der))"

definition GenerateAuthority :: "x509 \<Rightarrow> string \<Rightarrow> int \<Rightarrow> time \<Rightarrow> random \<Rightarrow> nat \<Rightarrow> GeneratedCertificate option" where
  "GenerateAuthority X name days at R t =
     (let n = (if days = 0 then 5 * 365 else days) in
      if \<not> validCertificateName name \<or> n < 1 \<or> n > 10 * 365 then None
      else
        (case (x_key X R t, newSerial X R (t + 1)) of
           (Some pair, Some serial) \<Rightarrow>
             createCertificate X R (t + 2)
               \<lparr> tm_serial = serial, tm_name = name, tm_not_before = at - 5 * minute, tm_not_after = at + n * day,
                 tm_is_ca = True \<rparr> None pair (fst pair)
         | _ \<Rightarrow> None))"

definition ParseAuthorityKey :: "x509 \<Rightarrow> certificate \<Rightarrow> bytes \<Rightarrow> bool" where
  "ParseAuthorityKey X authority private =
     (cf_is_ca authority \<and> cf_constraints authority \<and> cf_signs authority \<and>
      x_signer X private = Some (cf_public authority))"

definition clientTemplate :: "certificate \<Rightarrow> string \<Rightarrow> time \<Rightarrow> time \<Rightarrow> int \<Rightarrow> certificate_template" where
  "clientTemplate authority name notAfter at serial =
     \<lparr> tm_serial = serial, tm_name = name,
       tm_not_before = (if at - 5 * minute < cf_not_before authority then cf_not_before authority else at - 5 * minute),
       tm_not_after = (if notAfter > cf_not_after authority then cf_not_after authority else notAfter), tm_is_ca = False \<rparr>"

definition GenerateClientUntil :: "x509 \<Rightarrow> certificate \<Rightarrow> bytes \<Rightarrow> string \<Rightarrow> time \<Rightarrow> time \<Rightarrow> random \<Rightarrow> nat \<Rightarrow>
    GeneratedCertificate option" where
  "GenerateClientUntil X authority private name notAfter at R t =
     (if \<not> validCertificateName name \<or> \<not> at < notAfter \<or> notAfter > at + 365 * day \<or> \<not> cf_is_ca authority \<or>
         at < cf_not_before authority \<or> \<not> at < cf_not_after authority \<or> \<not> ParseAuthorityKey X authority private then None
      else
        (case (x_key X R t, newSerial X R (t + 1)) of
           (Some pair, Some serial) \<Rightarrow>
             createCertificate X R (t + 2) (clientTemplate authority name notAfter at serial) (Some authority) pair private
         | _ \<Rightarrow> None))"

definition GenerateClient :: "x509 \<Rightarrow> certificate \<Rightarrow> bytes \<Rightarrow> string \<Rightarrow> int \<Rightarrow> time \<Rightarrow> random \<Rightarrow> nat \<Rightarrow>
    GeneratedCertificate option" where
  "GenerateClient X authority private name days at R t =
     (let n = (if days = 0 then 90 else days) in
      if n < 1 \<or> n > 365 then None else GenerateClientUntil X authority private name (at + n * day) at R t)"

definition CertificatePEM :: "x509 \<Rightarrow> certificate \<Rightarrow> string" where
  "CertificatePEM X c = x_pem X ''CERTIFICATE'' (cf_raw c)"

text \<open>The files in the order of their names.\<close>

definition ExportBundle :: "x509 \<Rightarrow> GeneratedCertificate \<Rightarrow> certificate option \<Rightarrow> string option" where
  "ExportBundle X generated authority =
     (let private = x_pem X ''PRIVATE KEY'' (gc_private generated);
          files =
            (if cf_is_ca (gc_certificate generated)
             then [(''ca.crt'', CertificatePEM X (gc_certificate generated)), (''ca.key'', private)]
             else [(''ca.crt'', case authority of None \<Rightarrow> [] | Some a \<Rightarrow> CertificatePEM X a),
                   (''client.crt'', CertificatePEM X (gc_certificate generated)), (''client.key'', private)])
      in map_option standardBase64 (x_zip X files))"

section \<open>Trust\<close>

record TrustManager =
  tm_static :: "certificate list"
  tm_current :: "certificate list"

text \<open>The pool is replaced as a whole, or kept when a certificate of the source is not a CA.\<close>

fun authorityPool :: "x509 \<Rightarrow> bytes list \<Rightarrow> certificate list option" where
  "authorityPool X [] = Some []"
| "authorityPool X (der # ders) =
     (case x_parse X der of
        None \<Rightarrow> None
      | Some c \<Rightarrow> if \<not> cf_is_ca c then None else map_option ((#) c) (authorityPool X ders))"

definition Refresh :: "x509 \<Rightarrow> (err + bytes list) \<Rightarrow> TrustManager \<Rightarrow> bool \<times> TrustManager" where
  "Refresh X source manager =
     (case source of
        Inl _ \<Rightarrow> (False, manager)
      | Inr ders \<Rightarrow>
          (case authorityPool X ders of
             None \<Rightarrow> (False, manager)
           | Some pool \<Rightarrow> (True, manager\<lparr> tm_current := tm_static manager @ pool \<rparr>)))"

definition NewTrustManager :: "x509 \<Rightarrow> certificate list option \<Rightarrow> (err + bytes list) \<Rightarrow> TrustManager option" where
  "NewTrustManager X static source =
     (let pool = (case static of None \<Rightarrow> [] | Some p \<Rightarrow> p) in
      case Refresh X source \<lparr> tm_static = pool, tm_current = [] \<rparr> of
        (True, manager) \<Rightarrow> Some manager
      | _ \<Rightarrow> None)"

end
