(* ===== verification/Tokens.thy ===== *)
theory Tokens
  imports Calendar MasterKey Login
begin

text \<open>
  API tokens (\<^verbatim>\<open>mysqlstore/token_mutation.go\<close>, \<^verbatim>\<open>token_validation.go\<close>): creating one, changing
  the environments it is granted, and revoking it together with the credentials that were issued
  from it (\<^verbatim>\<open>deployment_credential.go\<close>). The longest lifetime of a writing token is an argument.
  An instant of a request is in UTC. The token's text leaves the database only as the answer of
  the creation: what the journal keeps has it blanked.
\<close>

section \<open>Requests and results\<close>

record TokenCreate =
  tc_kind :: string
  tc_configs :: "string list option"
  tc_namespaces :: "string list option"
  tc_parent :: string
  tc_fingerprint :: bytes
  tc_operation :: string
  tc_actor :: actor
  tc_name :: string
  tc_environments :: "string list option"
  tc_without_mtls :: bool
  tc_expires :: time
  tc_never :: bool

record TokenValidationError =
  ti_field :: string
  ti_reason :: string
  ti_days :: int

record TokenCreateResult =
  tr_validation :: "TokenValidationError option"
  tr_kind :: string
  tr_configs :: "string list option"
  tr_namespaces :: "string list option"
  tr_outcome :: Outcome
  tr_public :: string
  tr_prefix :: string
  tr_token :: string
  tr_environments :: "string list option"
  tr_without_mtls :: bool
  tr_expires :: "time option"

record TokenEnvironmentChange =
  te_operation :: string
  te_actor :: actor
  te_public :: string
  te_environments :: "string list option"
  te_patch :: bool
  te_add :: "string list option"
  te_remove :: "string list option"

record TokenEnvironmentResult =
  tn_outcome :: Outcome
  tn_public :: string
  tn_environments :: "string list option"

record TokenRevoke =
  tx_operation :: string
  tx_actor :: actor
  tx_public :: string

record TokenRevokeResult =
  tk_outcome :: Outcome
  tk_public :: string
  tk_isRevoked :: bool

definition stringsJSON :: "string list option \<Rightarrow> json" where
  "stringsJSON ks = (case ks of None \<Rightarrow> JNull | Some xs \<Rightarrow> jsonStrings xs)"

definition omitStrings :: "string \<Rightarrow> string list option \<Rightarrow> (string \<times> json) list" where
  "omitStrings name ks = omitEmpty (elems ks = []) name (stringsJSON ks)"

section \<open>The digest of a request\<close>

definition tokenCreateJSON :: "TokenCreate \<Rightarrow> json \<Rightarrow> json" where
  "tokenCreateJSON r expires =
     JObj (omitEmpty (tc_kind r = []) ''Kind'' (JStr (jsonText (tc_kind r))) @
       omitStrings ''ConfigKeys'' (tc_configs r) @ omitStrings ''NamespaceKeys'' (tc_namespaces r) @
       [(''OperationID'', JStr (tc_operation r)), (''Actor'', actorJSON (tc_actor r)),
        (''DisplayName'', JStr (jsonText (tc_name r))), (''EnvironmentKeys'', stringsJSON (tc_environments r)),
        (''AllowWithoutMTLS'', JBool (tc_without_mtls r)), (''ExpiresAt'', expires),
        (''NeverExpires'', JBool (tc_never r))])"

text \<open>
  Nil and empty scopes differ, which \<^verbatim>\<open>omitempty\<close> would hide. A request that cannot be encoded has
  the digest of the empty text.
\<close>

definition tokenCreateDigest :: "env \<Rightarrow> TokenCreate \<Rightarrow> bytes" where
  "tokenCreateDigest env r =
     sha256 env
       (case marshalTime (tc_expires r) of
          None \<Rightarrow> []
        | Some expires \<Rightarrow>
            compactJSON
              (if tc_configs r \<noteq> None \<or> tc_namespaces r \<noteq> None
               then JObj [(''Request'', tokenCreateJSON r expires),
                          (''ConfigScopeSet'', JBool (tc_configs r \<noteq> None)),
                          (''NamespaceScopeSet'', JBool (tc_namespaces r \<noteq> None))]
               else tokenCreateJSON r expires))"

definition tokenEnvironmentDigest :: "env \<Rightarrow> TokenEnvironmentChange \<Rightarrow> bytes" where
  "tokenEnvironmentDigest env r =
     sha256 env (compactJSON (JObj
       ([(''OperationID'', JStr (te_operation r)), (''Actor'', actorJSON (te_actor r)),
         (''PublicID'', JStr (jsonText (te_public r))), (''EnvironmentKeys'', stringsJSON (te_environments r))] @
        omitEmpty (\<not> te_patch r) ''Patch'' (JBool (te_patch r)) @
        omitStrings ''Add'' (te_add r) @ omitStrings ''Remove'' (te_remove r))))"

definition tokenRevokeDigest :: "env \<Rightarrow> TokenRevoke \<Rightarrow> bytes" where
  "tokenRevokeDigest env r =
     sha256 env (compactJSON (JObj
       [(''OperationID'', JStr (tx_operation r)), (''Actor'', actorJSON (tx_actor r)),
        (''PublicID'', JStr (jsonText (tx_public r)))]))"

section \<open>Validation of a creation\<close>

definition WriteTokenLifetime :: "int \<Rightarrow> int" where
  "WriteTokenLifetime maxTTL = (if maxTTL \<le> 0 \<or> maxTTL > 90 * day then 90 * day else maxTTL)"

definition tokenIssue :: "string \<Rightarrow> string \<Rightarrow> err" where
  "tokenIssue field reason = TokenMutationError field reason 0"

text \<open>The first fault of a list of keys; \<^verbatim>\<open>seen\<close> are those before.\<close>

fun scopeKeysIssue :: "string \<Rightarrow> string set \<Rightarrow> string list \<Rightarrow> err option" where
  "scopeKeysIssue field seen [] = None"
| "scopeKeysIssue field seen (k # ks) =
     (if \<not> validResourceKey k then Some (tokenIssue field ''scope_key_invalid'')
      else if k \<in> seen then Some (tokenIssue field ''scope_keys_duplicate'')
      else scopeKeysIssue field (insert k seen) ks)"

definition scopeIssue :: "string \<Rightarrow> string list \<Rightarrow> err option" where
  "scopeIssue field ks =
     (if length ks > 256 then Some (tokenIssue field ''scope_keys_too_many'') else scopeKeysIssue field {} ks)"

definition firstIssue :: "err option list \<Rightarrow> err option" where
  "firstIssue issues = (case filter (\<lambda>i. i \<noteq> None) issues of [] \<Rightarrow> None | i # _ \<Rightarrow> i)"

definition issueIf :: "bool \<Rightarrow> string \<Rightarrow> string \<Rightarrow> err option" where
  "issueIf b field reason = (if b then Some (tokenIssue field reason) else None)"

definition writeTokenIssue :: "int \<Rightarrow> time \<Rightarrow> TokenCreate \<Rightarrow> err option" where
  "writeTokenIssue maxTTL at r =
     firstIssue
       [issueIf (actorType (tc_actor r) \<noteq> ''user'') ''kind'' ''write_token_requires_user'',
        issueIf (elems (tc_environments r) = []) ''environment_keys'' ''environment_required'',
        issueIf (tc_without_mtls r) ''allow_without_mtls'' ''write_token_requires_mtls'',
        issueIf (tc_never r \<or> tc_expires r = 0) ''expires_at'' ''expiry_required'',
        if tc_expires r > at + WriteTokenLifetime maxTTL
        then Some (TokenMutationError ''expires_at'' ''write_token_expiry_limit'' (WriteTokenLifetime maxTTL div day))
        else None]"

definition validateTokenCreate :: "int \<Rightarrow> time \<Rightarrow> TokenCreate \<Rightarrow> err option" where
  "validateTokenCreate maxTTL at r =
     firstIssue
       [issueIf (tc_kind r \<noteq> [] \<and> tc_kind r \<noteq> TokenReadOnly \<and> tc_kind r \<noteq> TokenWriteScoped) ''kind'' ''token_kind_invalid'',
        scopeIssue ''config_keys'' (elems (tc_configs r)),
        scopeIssue ''namespace_keys'' (elems (tc_namespaces r)),
        if tc_kind r = TokenWriteScoped then writeTokenIssue maxTTL at r else None,
        issueIf (tc_name r = [] \<or> length (tc_name r) > 255) ''display_name'' ''token_name_invalid'',
        issueIf (tc_never r \<and> tc_expires r \<noteq> 0) ''expires_at'' ''expiry_conflicts_with_never'',
        issueIf (tc_expires r \<noteq> 0 \<and> \<not> at < tc_expires r) ''expires_at'' ''expiry_in_past'',
        issueIf (\<not> list_all validResourceKey (elems (tc_environments r)) \<or> \<not> distinct (elems (tc_environments r)))
          ''environment_keys'' ''environment_keys_invalid'']"

section \<open>Results in the journal\<close>

definition validationJSON :: "TokenValidationError \<Rightarrow> json" where
  "validationJSON i =
     JObj ([(''field'', JStr (ti_field i)), (''reason'', JStr (ti_reason i))] @
       omitEmpty (ti_days i = 0) ''max_ttl_days'' (JNum (FormatUint (of_int (ti_days i)))))"

definition tokenResultJSON :: "TokenCreateResult \<Rightarrow> json" where
  "tokenResultJSON r =
     JObj ((case tr_validation r of None \<Rightarrow> [] | Some i \<Rightarrow> [(''validation'', validationJSON i)]) @
       [(''kind'', JStr (tr_kind r)), (''config_keys'', stringsJSON (tr_configs r)),
        (''namespace_keys'', stringsJSON (tr_namespaces r)), (''outcome'', JStr (outcomeText (tr_outcome r))),
        (''public_id'', JStr (tr_public r)), (''display_prefix'', JStr (tr_prefix r))] @
       omitText ''token'' (tr_token r) @
       [(''environment_keys'', stringsJSON (tr_environments r)), (''allow_without_mtls'', JBool (tr_without_mtls r))] @
       (case tr_expires r of None \<Rightarrow> [] | Some at \<Rightarrow> [(''expires_at'', JStr (timeText at))]))"

definition validationOf :: "json \<Rightarrow> TokenValidationError option option" where
  "validationOf v =
     (case v of
        JNull \<Rightarrow> Some None
      | _ \<Rightarrow>
          (case (isObject v, asString (member ''field'' v), asString (member ''reason'' v), asInt64 (member ''max_ttl_days'' v)) of
             (True, Some f, Some r, Some n) \<Rightarrow> Some (Some \<lparr> ti_field = f, ti_reason = r, ti_days = n \<rparr>)
           | _ \<Rightarrow> None))"

definition tokenResultOf :: "json \<Rightarrow> TokenCreateResult option" where
  "tokenResultOf v =
     (case (isObject v, validationOf (member ''validation'' v), asString (member ''kind'' v),
            asStrings (member ''config_keys'' v), asStrings (member ''namespace_keys'' v)) of
        (True, Some i, Some k, Some cs, Some ns) \<Rightarrow>
          (case (outcomeOf (member ''outcome'' v), asString (member ''public_id'' v), asString (member ''display_prefix'' v),
                 asString (member ''token'' v), asStrings (member ''environment_keys'' v),
                 asBool (member ''allow_without_mtls'' v), asTime (member ''expires_at'' v)) of
             (Some out, Some p, Some d, Some t, Some es, Some w, Some at) \<Rightarrow>
               Some \<lparr> tr_validation = i, tr_kind = k, tr_configs = cs, tr_namespaces = ns, tr_outcome = out,
                      tr_public = p, tr_prefix = d, tr_token = t, tr_environments = es, tr_without_mtls = w,
                      tr_expires = at \<rparr>
           | _ \<Rightarrow> None)
      | _ \<Rightarrow> None)"

definition replayTokenCreate :: "operationReplay \<Rightarrow> err + TokenCreateResult \<times> err option" where
  "replayTokenCreate rp =
     (case tokenResultOf (replayResponse rp) of
        None \<Rightarrow> Inl ErrInternal
      | Some previous \<Rightarrow>
          if tr_outcome previous \<noteq> replayOutcome rp then Inl ErrInternal
          else
            (case (tr_outcome previous, tr_validation previous) of
               (OutcomeValidationFailed, Some i) \<Rightarrow>
                 Inr (previous, withCommittedAudit (Some (TokenMutationError (ti_field i) (ti_reason i) (ti_days i))))
             | _ \<Rightarrow> Inr (previous, outcomeError (tr_outcome previous))))"

definition tokenEnvironmentJSON :: "TokenEnvironmentResult \<Rightarrow> json" where
  "tokenEnvironmentJSON r =
     JObj [(''outcome'', JStr (outcomeText (tn_outcome r))), (''public_id'', JStr (jsonText (tn_public r))),
           (''environment_keys'', stringsJSON (tn_environments r))]"

definition tokenEnvironmentOf :: "json \<Rightarrow> TokenEnvironmentResult option" where
  "tokenEnvironmentOf v =
     (case (isObject v, outcomeOf (member ''outcome'' v), asString (member ''public_id'' v),
            asStrings (member ''environment_keys'' v)) of
        (True, Some out, Some p, Some es) \<Rightarrow> Some \<lparr> tn_outcome = out, tn_public = p, tn_environments = es \<rparr>
      | _ \<Rightarrow> None)"

definition replayTokenEnvironment :: "operationReplay \<Rightarrow> err + TokenEnvironmentResult \<times> err option" where
  "replayTokenEnvironment rp =
     (case tokenEnvironmentOf (replayResponse rp) of
        None \<Rightarrow> Inl ErrInternal
      | Some previous \<Rightarrow>
          if tn_outcome previous \<noteq> replayOutcome rp then Inl ErrInternal
          else Inr (previous, outcomeError (tn_outcome previous)))"

definition tokenRevokeJSON :: "TokenRevokeResult \<Rightarrow> json" where
  "tokenRevokeJSON r =
     JObj [(''outcome'', JStr (outcomeText (tk_outcome r))), (''public_id'', JStr (jsonText (tk_public r))),
           (''revoked'', JBool (tk_isRevoked r))]"

definition tokenRevokeOf :: "json \<Rightarrow> TokenRevokeResult option" where
  "tokenRevokeOf v =
     (case (isObject v, outcomeOf (member ''outcome'' v), asString (member ''public_id'' v), asBool (member ''revoked'' v)) of
        (True, Some out, Some p, Some b) \<Rightarrow> Some \<lparr> tk_outcome = out, tk_public = p, tk_isRevoked = b \<rparr>
      | _ \<Rightarrow> None)"

definition replayTokenRevoke :: "operationReplay \<Rightarrow> err + TokenRevokeResult \<times> err option" where
  "replayTokenRevoke rp =
     (case tokenRevokeOf (replayResponse rp) of
        None \<Rightarrow> Inl ErrInternal
      | Some previous \<Rightarrow>
          if tk_outcome previous \<noteq> replayOutcome rp then Inl ErrInternal
          else Inr (previous, outcomeError (tk_outcome previous)))"

section \<open>Statements\<close>

text \<open>Sorted, without duplicates, all active.\<close>

fun environmentIDs :: "string list \<Rightarrow> (string \<times> bytes) list tx" where
  "environmentIDs [] = tx_return []"
| "environmentIDs (k # ks) =
     tx_bind (tx_query (activeEnvironment k)) (\<lambda>e.
       case e of
         None \<Rightarrow> tx_fail ErrValidation
       | Some i \<Rightarrow> tx_bind (environmentIDs ks) (\<lambda>rest. tx_return ((k, i) # rest)))"

definition activeEnvironmentIDs :: "string list \<Rightarrow> (string \<times> bytes) list tx" where
  "activeEnvironmentIDs requested =
     (let keys = sort requested in
        if \<not> list_all validResourceKey keys \<or> \<not> distinct keys then tx_fail ErrValidation else environmentIDs keys)"

definition tokenRowAllowed :: "api_token_row \<Rightarrow> db \<Rightarrow> bool" where
  "tokenRowAllowed t d =
     (\<not> existsRow (\<lambda>q. tk_id q = tk_id t \<or> tk_public_id q = tk_public_id t) (api_tokens d) \<and>
      (tk_kind t = TokenReadOnly \<or> tk_kind t = TokenWriteScoped) \<and>
      (tk_kind t = TokenWriteScoped \<longrightarrow> \<not> tk_without_mtls t \<and> tk_expires t \<noteq> None) \<and>
      (case tk_parent t of None \<Rightarrow> True | Some p \<Rightarrow> existsRow (\<lambda>q. tk_public_id q = p) (api_tokens d)))"

definition insertToken :: "api_token_row \<Rightarrow> time \<Rightarrow> db \<Rightarrow> db option" where
  "insertToken t expires d =
     (if tokenRowAllowed t d \<and> (tk_expires t = None \<or> datetimeFits expires)
      then Some (d\<lparr> api_tokens := api_tokens d @ [t] \<rparr>) else None)"

definition hasGrant :: "bytes \<Rightarrow> bytes \<Rightarrow> db \<Rightarrow> bool" where
  "hasGrant token e d = existsRow (\<lambda>g. te_token g = token \<and> te_env g = e) (token_environments d)"

definition insertGrant :: "bytes \<Rightarrow> bytes \<Rightarrow> db \<Rightarrow> db option" where
  "insertGrant token e d =
     (if hasGrant token e d then None
      else Some (d\<lparr> token_environments := token_environments d @ [\<lparr> te_token = token, te_env = e \<rparr>] \<rparr>))"

definition addGrant :: "bytes \<Rightarrow> bytes \<Rightarrow> db \<Rightarrow> db \<times> nat" where
  "addGrant token e d = (case insertGrant token e d of None \<Rightarrow> (d, 0) | Some d' \<Rightarrow> (d', 1))"

definition grantFor :: "bytes \<Rightarrow> string \<Rightarrow> db \<Rightarrow> token_environment_row \<Rightarrow> bool" where
  "grantFor token k d g =
     (te_token g = token \<and> existsRow (\<lambda>e. env_id e = te_env g \<and> env_key e = k) (environments d))"

definition removeGrant :: "bytes \<Rightarrow> string \<Rightarrow> db \<Rightarrow> db \<times> nat" where
  "removeGrant token k d =
     (d\<lparr> token_environments := filter (\<lambda>g. \<not> grantFor token k d g) (token_environments d) \<rparr>,
      length (filter (grantFor token k d) (token_environments d)))"

definition clearGrants :: "bytes \<Rightarrow> db \<Rightarrow> db option" where
  "clearGrants token d =
     Some (d\<lparr> token_environments := filter (\<lambda>g. te_token g \<noteq> token) (token_environments d) \<rparr>)"

definition tokenEnvironmentKeys :: "bytes \<Rightarrow> db \<Rightarrow> string list" where
  "tokenEnvironmentKeys token d =
     sort (concat (map (\<lambda>g. map env_key (filter (\<lambda>e. env_id e = te_env g) (environments d)))
       (filter (\<lambda>g. te_token g = token) (token_environments d))))"

text \<open>The token and those issued from it, with their certificates.\<close>

definition ofToken :: "string \<Rightarrow> api_token_row \<Rightarrow> bool" where
  "ofToken p t = (tk_public_id t = p \<or> tk_parent t = Some p)"

definition revokedAt :: "time \<Rightarrow> time option \<Rightarrow> time option" where
  "revokedAt at old = (case old of None \<Rightarrow> Some at | Some x \<Rightarrow> Some x)"

definition revokeCertificates :: "string \<Rightarrow> time \<Rightarrow> db \<Rightarrow> db option" where
  "revokeCertificates p at d =
     Some (d\<lparr> certificates :=
       updateWhere (\<lambda>c. existsRow (\<lambda>t. ofToken p t \<and> tk_fingerprint t = Some (ct_fingerprint c)) (api_tokens d))
         (\<lambda>c. c\<lparr> ct_revoked := revokedAt at (ct_revoked c) \<rparr>) (certificates d) \<rparr>)"

definition revokeTokens :: "string \<Rightarrow> time \<Rightarrow> db \<Rightarrow> db option" where
  "revokeTokens p at d =
     Some (d\<lparr> api_tokens := updateWhere (ofToken p) (\<lambda>t. t\<lparr> tk_revoked := revokedAt at (tk_revoked t) \<rparr>) (api_tokens d) \<rparr>)"

definition revokeTokenAndDeployments :: "string \<Rightarrow> unit tx" where
  "revokeTokenAndDeployments p =
     tx_bind (tx_env db_now) (\<lambda>at.
     tx_bind (tx_exec (revokeCertificates p at)) (\<lambda>_.
       tx_exec (revokeTokens p at)))"

section \<open>Creating a token\<close>

definition tokenEvent :: "string \<Rightarrow> string \<Rightarrow> string \<Rightarrow> mutationEvent" where
  "tokenEvent eventType action key =
     \<lparr> me_field = [], me_type = eventType, me_action = action, me_environment = [], me_namespace = [],
       me_resource_type = ''api_token'', me_resource_key = key \<rparr>"

definition noTokenResult :: "Outcome \<Rightarrow> TokenCreateResult" where
  "noTokenResult out =
     \<lparr> tr_validation = None, tr_kind = [], tr_configs = None, tr_namespaces = None, tr_outcome = out, tr_public = [],
       tr_prefix = [], tr_token = [], tr_environments = None, tr_without_mtls = False, tr_expires = None \<rparr>"

definition nullableString :: "string \<Rightarrow> string option" where
  "nullableString s = (if s = [] then None else Some s)"

definition tokenExpiry :: "time \<Rightarrow> TokenCreate \<Rightarrow> time" where
  "tokenExpiry at r = (if tc_never r then 0 else if tc_expires r = 0 then at + 90 * day else tc_expires r)"

definition tokenRow :: "TokenCreate \<Rightarrow> bytes \<Rightarrow> bytes \<Rightarrow> bytes \<Rightarrow> time \<Rightarrow> api_token_row" where
  "tokenRow r i pub secretDigest expires =
     \<lparr> tk_id = i, tk_public_id = encodeHex pub, tk_name = tc_name r, tk_prefix = ''cfg_'' @ encodeHex pub,
       tk_digest = secretDigest, tk_without_mtls = tc_without_mtls r,
       tk_expires = (if expires = 0 then None else Some (datetime expires)), tk_revoked = None,
       tk_kind = (if tc_kind r = [] then TokenReadOnly else tc_kind r), tk_configs = tc_configs r,
       tk_namespaces = tc_namespaces r, tk_fingerprint = nullableString (tc_fingerprint r),
       tk_parent = nullableString (tc_parent r) \<rparr>"

definition tokenResult :: "TokenCreate \<Rightarrow> bytes \<Rightarrow> bytes \<Rightarrow> time \<Rightarrow> (string \<times> bytes) list \<Rightarrow> TokenCreateResult" where
  "tokenResult r pub secret expires placed =
     \<lparr> tr_validation = None, tr_kind = (if tc_kind r = [] then TokenReadOnly else tc_kind r), tr_configs = tc_configs r,
       tr_namespaces = tc_namespaces r, tr_outcome = OutcomeSuccess, tr_public = encodeHex pub,
       tr_prefix = ''cfg_'' @ encodeHex pub, tr_token = ''cfg_'' @ encodeHex pub @ ''_'' @ encodeBase64 secret,
       tr_environments = map_option (\<lambda>_. map fst placed) (tc_environments r),
       tr_without_mtls = tc_without_mtls r, tr_expires = (if expires = 0 then None else Some expires) \<rparr>"

definition createTokenRecord :: "TokenCreate \<Rightarrow> TokenCreateResult tx" where
  "createTokenRecord r =
     tx_handle (isErr ErrValidation) (activeEnvironmentIDs (elems (tc_environments r)))
       (\<lambda>_. tx_fail (tokenIssue ''environment_keys'' ''environment_unavailable'')) (\<lambda>placed.
     tx_bind randomID (\<lambda>i.
     tx_bind (tx_random 8) (\<lambda>pub.
     tx_bind (tx_random 32) (\<lambda>secret.
     tx_bind (tx_env (\<lambda>env. (now env, sha256 env secret))) (\<lambda>(at, secretDigest).
     tx_bind (tx_exec (insertToken (tokenRow r i pub secretDigest (tokenExpiry at r)) (tokenExpiry at r))) (\<lambda>_.
     tx_bind (tx_each (\<lambda>(_, e). tx_exec (insertGrant i e)) placed) (\<lambda>_.
       tx_return (tokenResult r pub secret (tokenExpiry at r) placed))))))))"

definition finishTokenCreateFailure :: "TokenCreate \<Rightarrow> err \<Rightarrow> (TokenCreateResult \<times> err option) tx" where
  "finishTokenCreateFailure r cause =
     (let (issue, e) =
        (case cause of
           TokenMutationError f m n \<Rightarrow> (Some \<lparr> ti_field = f, ti_reason = m, ti_days = n \<rparr>, cause)
         | _ \<Rightarrow> (None, ErrValidation));
        res = (noTokenResult OutcomeValidationFailed)\<lparr> tr_validation := issue \<rparr>
      in
        tx_bind (finishOperation (tc_operation r) (tc_actor r) OutcomeValidationFailed 0 (tokenResultJSON res)
                   (tokenEvent ''token.validation_failed'' ''token.create'' []) False) (\<lambda>_.
          commitWith res (withCommittedAudit (Some e))))"

text \<open>What is kept of the result leaves the token's text out.\<close>

definition finishTokenCreate :: "TokenCreate \<Rightarrow> TokenCreateResult \<Rightarrow> (TokenCreateResult \<times> err option) tx" where
  "finishTokenCreate r res =
     tx_bind (finishOperation (tc_operation r) (tc_actor r) (tr_outcome res) 0 (tokenResultJSON (res\<lparr> tr_token := [] \<rparr>))
                (tokenEvent ''token.created'' ''token.create'' (tr_public res)) True) (\<lambda>_.
       commitWith res None)"

definition createTokenBody :: "int \<Rightarrow> TokenCreate \<Rightarrow> (TokenCreateResult \<times> err option) tx" where
  "createTokenBody maxTTL r =
     tx_bind (tx_env now) (\<lambda>at.
       case validateTokenCreate maxTTL at r of
         Some cause \<Rightarrow> finishTokenCreateFailure r cause
       | None \<Rightarrow> tx_handle (isErr ErrValidation) (createTokenRecord r) (finishTokenCreateFailure r) (finishTokenCreate r))"

definition CreateToken :: "int \<Rightarrow> TokenCreate \<Rightarrow> env \<Rightarrow> db \<Rightarrow> (err + TokenCreateResult \<times> err option) \<times> db" where
  "CreateToken maxTTL r env d =
     (if actorType (tc_actor r) = ''token'' then (Inl ErrForbidden, d)
      else if \<not> validOperationID (tc_operation r) \<or> \<not> validActor (tc_actor r) then (Inl ErrValidation, d)
      else
        run_tx (journaled (tc_operation r) (tokenCreateDigest env r) (tc_actor r) [] replayTokenCreate
          (createTokenBody maxTTL r)) env d)"

section \<open>Changing the environments of a token\<close>

definition environmentAction :: "TokenEnvironmentChange \<Rightarrow> string" where
  "environmentAction r = (if te_patch r then ''token.patch_environments'' else ''token.set_environments'')"

definition finishTokenEnvironmentFailure :: "TokenEnvironmentChange \<Rightarrow> (TokenEnvironmentResult \<times> err option) tx" where
  "finishTokenEnvironmentFailure r =
     (let res = \<lparr> tn_outcome = OutcomeValidationFailed, tn_public = te_public r, tn_environments = None \<rparr> in
      tx_bind (finishOperation (te_operation r) (te_actor r) OutcomeValidationFailed 0 (tokenEnvironmentJSON res)
                 (tokenEvent ''token.validation_failed'' (environmentAction r) (te_public r)) False) (\<lambda>_.
        commitWith res (withCommittedAudit (Some ErrValidation))))"

definition finishTokenEnvironments :: "TokenEnvironmentChange \<Rightarrow> TokenEnvironmentResult \<Rightarrow>
    (TokenEnvironmentResult \<times> err option) tx" where
  "finishTokenEnvironments r res =
     tx_bind (finishOperation (te_operation r) (te_actor r) (tn_outcome res) 0 (tokenEnvironmentJSON res)
                (tokenEvent ''token.environments_updated'' (environmentAction r) (te_public r))
                (tn_outcome res = OutcomeSuccess)) (\<lambda>_.
       commitWith res None)"

definition validEnvironmentChange :: "TokenEnvironmentChange \<Rightarrow> bool" where
  "validEnvironmentChange r =
     (validTokenPublicID (te_public r) \<and>
      (if te_patch r
       then list_all validResourceKey (elems (te_add r) @ elems (te_remove r)) \<and>
         distinct (elems (te_add r) @ elems (te_remove r)) \<and> elems (te_environments r) = []
       else elems (te_add r) = [] \<and> elems (te_remove r) = []))"

text \<open>A token whose scope cannot be changed: a writing one, or one issued from another.\<close>

definition immutableScope :: "api_token_row \<Rightarrow> bool" where
  "immutableScope t = (tk_kind t = TokenWriteScoped \<or> tk_parent t \<noteq> None)"

fun changedRows :: "(db \<Rightarrow> db \<times> nat) list \<Rightarrow> bool tx" where
  "changedRows [] = tx_return False"
| "changedRows (f # fs) =
     tx_bind (tx_execCount f) (\<lambda>n. tx_bind (changedRows fs) (\<lambda>b. tx_return (n > 0 \<or> b)))"

definition patchGrants :: "TokenEnvironmentChange \<Rightarrow> bytes \<Rightarrow> (string \<times> bytes) list \<Rightarrow> TokenEnvironmentResult tx" where
  "patchGrants r token placed =
     tx_bind (changedRows (map (\<lambda>(_, e). addGrant token e) placed @ map (removeGrant token) (elems (te_remove r)))) (\<lambda>b.
       tx_return \<lparr> tn_outcome = (if b then OutcomeSuccess else OutcomeNoChange), tn_public = te_public r,
                   tn_environments = None \<rparr>)"

definition replaceGrants :: "TokenEnvironmentChange \<Rightarrow> bytes \<Rightarrow> (string \<times> bytes) list \<Rightarrow> TokenEnvironmentResult tx" where
  "replaceGrants r token placed =
     tx_bind (tx_query (tokenEnvironmentKeys token)) (\<lambda>had.
       let keys = map_option (\<lambda>_. map fst placed) (te_environments r) in
       if had = map fst placed
       then tx_return \<lparr> tn_outcome = OutcomeNoChange, tn_public = te_public r, tn_environments = keys \<rparr>
       else
         tx_bind (tx_exec (clearGrants token)) (\<lambda>_.
         tx_bind (tx_each (\<lambda>(_, e). tx_exec (insertGrant token e)) placed) (\<lambda>_.
           tx_return \<lparr> tn_outcome = OutcomeSuccess, tn_public = te_public r, tn_environments = keys \<rparr>)))"

definition setTokenEnvironmentsBody :: "TokenEnvironmentChange \<Rightarrow> (TokenEnvironmentResult \<times> err option) tx" where
  "setTokenEnvironmentsBody r =
     (if \<not> validEnvironmentChange r then finishTokenEnvironmentFailure r
      else
        tx_bind (tx_query (findToken (te_public r))) (\<lambda>row.
          case row of
            None \<Rightarrow> finishTokenEnvironmentFailure r
          | Some t \<Rightarrow>
              if tk_revoked t \<noteq> None \<or> immutableScope t then finishTokenEnvironmentFailure r
              else
                tx_handle (isErr ErrValidation)
                  (activeEnvironmentIDs (elems (if te_patch r then te_add r else te_environments r)))
                  (\<lambda>_. finishTokenEnvironmentFailure r) (\<lambda>placed.
                tx_bind ((if te_patch r then patchGrants else replaceGrants) r (tk_id t) placed)
                  (finishTokenEnvironments r))))"

definition SetTokenEnvironments :: "TokenEnvironmentChange \<Rightarrow> env \<Rightarrow> db \<Rightarrow>
    (err + TokenEnvironmentResult \<times> err option) \<times> db" where
  "SetTokenEnvironments r env d =
     (if actorType (te_actor r) = ''token'' then (Inl ErrForbidden, d)
      else if \<not> validOperationID (te_operation r) \<or> \<not> validActor (te_actor r) then (Inl ErrValidation, d)
      else
        run_tx (journaled (te_operation r) (tokenEnvironmentDigest env r) (te_actor r) [] replayTokenEnvironment
          (setTokenEnvironmentsBody r)) env d)"

section \<open>Revoking a token\<close>

definition finishTokenRevokeFailure :: "TokenRevoke \<Rightarrow> (TokenRevokeResult \<times> err option) tx" where
  "finishTokenRevokeFailure r =
     (let res = \<lparr> tk_outcome = OutcomeValidationFailed, tk_public = tx_public r, tk_isRevoked = False \<rparr> in
      tx_bind (finishOperation (tx_operation r) (tx_actor r) OutcomeValidationFailed 0 (tokenRevokeJSON res)
                 (tokenEvent ''token.validation_failed'' ''token.revoke'' (tx_public r)) False) (\<lambda>_.
        commitWith res (withCommittedAudit (Some ErrValidation))))"

definition finishTokenRevoke :: "TokenRevoke \<Rightarrow> Outcome \<Rightarrow> (TokenRevokeResult \<times> err option) tx" where
  "finishTokenRevoke r out =
     (let res = \<lparr> tk_outcome = out, tk_public = tx_public r, tk_isRevoked = True \<rparr> in
      tx_bind (finishOperation (tx_operation r) (tx_actor r) out 0 (tokenRevokeJSON res)
                 (tokenEvent ''token.revoked'' ''token.revoke'' (tx_public r)) (out = OutcomeSuccess)) (\<lambda>_.
        commitWith res None))"

definition revokeTokenBody :: "TokenRevoke \<Rightarrow> (TokenRevokeResult \<times> err option) tx" where
  "revokeTokenBody r =
     (if \<not> validTokenPublicID (tx_public r) then finishTokenRevokeFailure r
      else
        tx_bind (tx_query (findToken (tx_public r))) (\<lambda>row.
          case row of
            None \<Rightarrow> finishTokenRevokeFailure r
          | Some t \<Rightarrow>
              if tk_revoked t \<noteq> None then finishTokenRevoke r OutcomeNoChange
              else tx_bind (revokeTokenAndDeployments (tx_public r)) (\<lambda>_. finishTokenRevoke r OutcomeSuccess)))"

definition RevokeToken :: "TokenRevoke \<Rightarrow> env \<Rightarrow> db \<Rightarrow> (err + TokenRevokeResult \<times> err option) \<times> db" where
  "RevokeToken r env d =
     (if actorType (tx_actor r) = ''token'' then (Inl ErrForbidden, d)
      else if \<not> validOperationID (tx_operation r) \<or> \<not> validActor (tx_actor r) then (Inl ErrValidation, d)
      else
        run_tx (journaled (tx_operation r) (tokenRevokeDigest env r) (tx_actor r) [] replayTokenRevoke
          (revokeTokenBody r)) env d)"

section \<open>Samples\<close>

definition tokenEnv :: env where
  "tokenEnv = sampleEnv\<lparr> rand := \<lambda>t n. Some (take n (replicate t CHR ''a'' @ replicate n CHR ''b'')),
     sha256 := \<lambda>b. take 32 (b @ replicate 32 CHR ''d'') \<rparr>"

definition tokenRequest :: TokenCreate where
  "tokenRequest =
     \<lparr> tc_kind = [], tc_configs = None, tc_namespaces = Some [''db''], tc_parent = [], tc_fingerprint = [],
       tc_operation = ''op-token-1'', tc_actor = Actor ''user'' ''u1'', tc_name = ''ci'',
       tc_environments = Some [''prod''], tc_without_mtls = True, tc_expires = 0, tc_never = False \<rparr>"

end
