(* ===== verification/Certificates.thy ===== *)
theory Certificates
  imports ClientCert Tokens KeyRotation
begin

text \<open>
  Client certificates and authorities in the database (\<^verbatim>\<open>mysqlstore/certificate_mutation.go\<close>,
  \<^verbatim>\<open>authority.go\<close>): registering and revoking a certificate, creating and revoking an authority, and
  issuing a certificate from one. An authority's private key is kept encrypted under the master key.
  The zero result that accompanies an error of the authority operations is \<^const>\<open>None\<close>. The paged
  listings are left out.
\<close>

section \<open>Requests and results\<close>

record ClientCertificateRegister =
  cg_operation :: string
  cg_actor :: actor
  cg_name :: string
  cg_certificate :: "certificate option"

record ClientCertificateResult =
  xr_outcome :: Outcome
  xr_fingerprint :: string
  xr_name :: string
  xr_subject :: string
  xr_serial :: string
  xr_not_before :: time
  xr_not_after :: time
  xr_revoked :: bool

record ClientCertificateRevoke =
  xk_operation :: string
  xk_actor :: actor
  xk_fingerprint :: string

record CertificateAuthority =
  ay_id :: string
  ay_name :: string
  ay_fingerprint :: string
  ay_pem :: string
  ay_not_before :: time
  ay_not_after :: time
  ay_revoked :: bool
  ay_created :: time
  ay_count :: u64

record AuthorityCreate =
  au_operation :: string
  au_actor :: actor
  au_name :: string
  au_days :: int

record AuthorityRevoke =
  av_operation :: string
  av_actor :: actor
  av_authority :: string

record AuthorityResult =
  ar_outcome :: Outcome
  ar_authority :: CertificateAuthority
  ar_bundle :: string

record ClientCertificateIssue =
  ci_not_after :: time
  ci_operation :: string
  ci_actor :: actor
  ci_authority :: string
  ci_name :: string
  ci_days :: int

record ClientCertificateIssueResult =
  ir_outcome :: Outcome
  ir_certificate :: ClientCertificateResult
  ir_authority :: string
  ir_bundle :: string

section \<open>Results in the journal\<close>

definition FormatInt :: "int \<Rightarrow> string" where
  "FormatInt n = (if n < 0 then CHR ''-'' # digitsOf (nat (- n)) else digitsOf (nat n))"

definition timeJSON :: "time \<Rightarrow> json" where
  "timeJSON t = JStr (timeText t)"

definition certificateJSON :: "ClientCertificateResult \<Rightarrow> json" where
  "certificateJSON r =
     JObj [(''outcome'', JStr (outcomeText (xr_outcome r))), (''fingerprint_sha256'', JStr (jsonText (xr_fingerprint r))),
           (''display_name'', JStr (jsonText (xr_name r))), (''subject'', JStr (jsonText (xr_subject r))),
           (''serial_hex'', JStr (xr_serial r)), (''not_before'', timeJSON (xr_not_before r)),
           (''not_after'', timeJSON (xr_not_after r)), (''revoked'', JBool (xr_revoked r))]"

definition authorityJSON :: "CertificateAuthority \<Rightarrow> json" where
  "authorityJSON a =
     JObj [(''id'', JStr (jsonText (ay_id a))), (''display_name'', JStr (jsonText (ay_name a))),
           (''fingerprint_sha256'', JStr (ay_fingerprint a)), (''certificate_pem'', JStr (jsonText (ay_pem a))),
           (''not_before'', timeJSON (ay_not_before a)), (''not_after'', timeJSON (ay_not_after a)),
           (''revoked'', JBool (ay_revoked a)), (''created_at'', timeJSON (ay_created a)),
           (''client_certificate_count'', JNum (FormatUint (ay_count a)))]"

definition authorityResultJSON :: "AuthorityResult \<Rightarrow> json" where
  "authorityResultJSON r =
     JObj ([(''outcome'', JStr (outcomeText (ar_outcome r))), (''authority'', authorityJSON (ar_authority r))] @
       omitText ''export_bundle'' (ar_bundle r))"

definition issueResultJSON :: "ClientCertificateIssueResult \<Rightarrow> json" where
  "issueResultJSON r =
     JObj ([(''outcome'', JStr (outcomeText (ir_outcome r))), (''certificate'', certificateJSON (ir_certificate r)),
            (''authority_id'', JStr (jsonText (ir_authority r)))] @ omitText ''export_bundle'' (ir_bundle r))"

text \<open>A \<^verbatim>\<open>time.Time\<close>, and a nested object: absent and null leave the zero value.\<close>

definition asInstant :: "json \<Rightarrow> time option" where
  "asInstant v = map_option (\<lambda>t. case t of None \<Rightarrow> 0 | Some at \<Rightarrow> at) (asTime v)"

definition nestedObject :: "json \<Rightarrow> bool" where
  "nestedObject v = (isObject v \<or> v = JNull)"

definition certificateOf :: "json \<Rightarrow> ClientCertificateResult option" where
  "certificateOf v =
     (case (isObject v, outcomeOf (member ''outcome'' v), asString (member ''fingerprint_sha256'' v),
            asString (member ''display_name'' v), asString (member ''subject'' v)) of
        (True, Some out, Some f, Some n, Some s) \<Rightarrow>
          (case (asString (member ''serial_hex'' v), asInstant (member ''not_before'' v), asInstant (member ''not_after'' v),
                 asBool (member ''revoked'' v)) of
             (Some x, Some nb, Some na, Some b) \<Rightarrow>
               Some \<lparr> xr_outcome = out, xr_fingerprint = f, xr_name = n, xr_subject = s, xr_serial = x,
                      xr_not_before = nb, xr_not_after = na, xr_revoked = b \<rparr>
           | _ \<Rightarrow> None)
      | _ \<Rightarrow> None)"

definition authorityOf :: "json \<Rightarrow> CertificateAuthority option" where
  "authorityOf v =
     (case (nestedObject v, asString (member ''id'' v), asString (member ''display_name'' v),
            asString (member ''fingerprint_sha256'' v), asString (member ''certificate_pem'' v)) of
        (True, Some i, Some n, Some f, Some p) \<Rightarrow>
          (case (asInstant (member ''not_before'' v), asInstant (member ''not_after'' v), asBool (member ''revoked'' v),
                 asInstant (member ''created_at'' v), asUint64 (member ''client_certificate_count'' v)) of
             (Some nb, Some na, Some b, Some cr, Some c) \<Rightarrow>
               Some \<lparr> ay_id = i, ay_name = n, ay_fingerprint = f, ay_pem = p, ay_not_before = nb, ay_not_after = na,
                      ay_revoked = b, ay_created = cr, ay_count = c \<rparr>
           | _ \<Rightarrow> None)
      | _ \<Rightarrow> None)"

definition authorityResultOf :: "json \<Rightarrow> AuthorityResult option" where
  "authorityResultOf v =
     (case (isObject v, outcomeOf (member ''outcome'' v), authorityOf (member ''authority'' v),
            asString (member ''export_bundle'' v)) of
        (True, Some out, Some a, Some b) \<Rightarrow> Some \<lparr> ar_outcome = out, ar_authority = a, ar_bundle = b \<rparr>
      | _ \<Rightarrow> None)"

definition replayCertificate :: "operationReplay \<Rightarrow> err + ClientCertificateResult \<times> err option" where
  "replayCertificate rp =
     (case certificateOf (replayResponse rp) of
        None \<Rightarrow> Inl ErrInternal
      | Some previous \<Rightarrow>
          if xr_outcome previous \<noteq> replayOutcome rp then Inl ErrInternal
          else Inr (previous, outcomeError (xr_outcome previous)))"

definition replayAuthority :: "operationReplay \<Rightarrow> err + AuthorityResult option \<times> err option" where
  "replayAuthority rp =
     (case authorityResultOf (replayResponse rp) of
        None \<Rightarrow> Inl ErrCryptoIntegrity
      | Some previous \<Rightarrow>
          if ar_outcome previous \<noteq> replayOutcome rp then Inl ErrCryptoIntegrity
          else Inr (Some previous, outcomeError (ar_outcome previous)))"

text \<open>
  The certificate of a failed issue is absent from the stored response, which leaves a zero
  certificate without an outcome: here \<^const>\<open>None\<close>.
\<close>

definition issueResultOf :: "json \<Rightarrow> (Outcome \<times> ClientCertificateIssueResult option) option" where
  "issueResultOf v =
     (case (isObject v, outcomeOf (member ''outcome'' v), asString (member ''authority_id'' v),
            asString (member ''export_bundle'' v)) of
        (True, Some out, Some a, Some b) \<Rightarrow>
          (if member ''certificate'' v = JNull then Some (out, None)
           else map_option (\<lambda>c. (out, Some \<lparr> ir_outcome = out, ir_certificate = c, ir_authority = a, ir_bundle = b \<rparr>))
                  (certificateOf (member ''certificate'' v)))
      | _ \<Rightarrow> None)"

definition replayIssue :: "operationReplay \<Rightarrow> err + ClientCertificateIssueResult option \<times> err option" where
  "replayIssue rp =
     (case issueResultOf (replayResponse rp) of
        None \<Rightarrow> Inl ErrCryptoIntegrity
      | Some (out, previous) \<Rightarrow>
          if out \<noteq> replayOutcome rp then Inl ErrCryptoIntegrity else Inr (previous, outcomeError out))"

section \<open>Digests\<close>

definition certificateRegisterDigest :: "env \<Rightarrow> ClientCertificateRegister \<Rightarrow> bytes" where
  "certificateRegisterDigest env r =
     sha256 env (compactJSON (JObj
       [(''OperationID'', JStr (cg_operation r)), (''Actor'', actorJSON (cg_actor r)),
        (''DisplayName'', JStr (jsonText (cg_name r))),
        (''Certificate'', case cg_certificate r of None \<Rightarrow> JNull | Some c \<Rightarrow> bytesJSON (cf_raw c))]))"

definition certificateRevokeDigest :: "env \<Rightarrow> ClientCertificateRevoke \<Rightarrow> bytes" where
  "certificateRevokeDigest env r =
     sha256 env (compactJSON (JObj
       [(''OperationID'', JStr (xk_operation r)), (''Actor'', actorJSON (xk_actor r)),
        (''FingerprintSHA256'', JStr (jsonText (xk_fingerprint r)))]))"

definition pkiDigest :: "env \<Rightarrow> string \<Rightarrow> json \<Rightarrow> bytes" where
  "pkiDigest env action request = sha256 env (compactJSON (JObj [(''Action'', JStr action), (''Request'', request)]))"

definition authorityCreateDigest :: "env \<Rightarrow> AuthorityCreate \<Rightarrow> bytes" where
  "authorityCreateDigest env r = pkiDigest env ''authority.create'' (JObj
     [(''OperationID'', JStr (au_operation r)), (''Actor'', actorJSON (au_actor r)),
      (''DisplayName'', JStr (jsonText (au_name r))), (''ValidDays'', JNum (FormatInt (au_days r)))])"

definition authorityRevokeDigest :: "env \<Rightarrow> AuthorityRevoke \<Rightarrow> bytes" where
  "authorityRevokeDigest env r = pkiDigest env ''authority.revoke'' (JObj
     [(''OperationID'', JStr (av_operation r)), (''Actor'', actorJSON (av_actor r)),
      (''AuthorityID'', JStr (jsonText (av_authority r)))])"

definition certificateIssueDigest :: "env \<Rightarrow> ClientCertificateIssue \<Rightarrow> bytes" where
  "certificateIssueDigest env r = pkiDigest env ''certificate.issue'' (JObj
     [(''OperationID'', JStr (ci_operation r)), (''Actor'', actorJSON (ci_actor r)),
      (''AuthorityID'', JStr (jsonText (ci_authority r))), (''DisplayName'', JStr (jsonText (ci_name r))),
      (''ValidDays'', JNum (FormatInt (ci_days r)))])"

section \<open>Statements\<close>

definition findCertificate :: "bytes \<Rightarrow> db \<Rightarrow> certificate_row option" where
  "findCertificate fingerprint d = find (\<lambda>c. ct_fingerprint c = fingerprint) (certificates d)"

definition insertCertificate :: "certificate_row \<Rightarrow> db \<Rightarrow> db option" where
  "insertCertificate c d =
     (if existsRow (\<lambda>q. ct_id q = ct_id c \<or> ct_fingerprint q = ct_fingerprint c) (certificates d) \<or>
         (case ct_authority c of None \<Rightarrow> False | Some a \<Rightarrow> \<not> existsRow (\<lambda>q. ca_id q = a) (authorities d))
      then None else Some (d\<lparr> certificates := certificates d @ [c] \<rparr>))"

definition updateCertificate :: "bytes \<Rightarrow> (certificate_row \<Rightarrow> certificate_row) \<Rightarrow> db \<Rightarrow> db option" where
  "updateCertificate i f d = Some (d\<lparr> certificates := updateWhere (\<lambda>c. ct_id c = i) f (certificates d) \<rparr>)"

definition findAuthority :: "bytes \<Rightarrow> db \<Rightarrow> authority_row option" where
  "findAuthority i d = find (\<lambda>a. ca_id a = i) (authorities d)"

definition insertAuthority :: "authority_row \<Rightarrow> db \<Rightarrow> db option" where
  "insertAuthority a d =
     (if existsRow (\<lambda>q. ca_id q = ca_id a) (authorities d) then None
      else Some (d\<lparr> authorities := authorities d @ [a] \<rparr>))"

definition activeAuthorities :: "time \<Rightarrow> db \<Rightarrow> nat" where
  "activeAuthorities at d = countWhere (\<lambda>a. ca_revoked a = None \<and> at < ca_not_after a) (authorities d)"

definition revokeAuthority :: "bytes \<Rightarrow> time \<Rightarrow> db \<Rightarrow> db option" where
  "revokeAuthority i at d =
     Some (d\<lparr> authorities := updateWhere (\<lambda>a. ca_id a = i) (\<lambda>a. a\<lparr> ca_revoked := Some at \<rparr>) (authorities d) \<rparr>)"

definition revokeIssued :: "bytes \<Rightarrow> time \<Rightarrow> db \<Rightarrow> db option" where
  "revokeIssued i at d =
     Some (d\<lparr> certificates := updateWhere (\<lambda>c. ct_authority c = Some i \<and> ct_revoked c = None)
       (\<lambda>c. c\<lparr> ct_revoked := Some at \<rparr>) (certificates d) \<rparr>)"

text \<open>\<^verbatim>\<open>SerialNumber.Text(16)\<close> in upper case.\<close>

fun natHex :: "nat \<Rightarrow> string" where
  "natHex n = (if n < 16 then [hexDigit n] else natHex (n div 16) @ [hexDigit (n mod 16)])"

declare natHex.simps [simp del]

definition upperHex :: "char \<Rightarrow> char" where
  "upperHex c = (if lowerChar c then char_of (of_char c - 32 :: nat) else c)"

definition serialHex :: "int \<Rightarrow> string" where
  "serialHex n = (if n < 0 then CHR ''-'' # map upperHex (natHex (nat (- n))) else map upperHex (natHex (nat n)))"

definition parseFingerprint :: "string \<Rightarrow> bytes option" where
  "parseFingerprint value =
     (if length value \<noteq> 64 then None
      else
        (case decodeHex value of
           None \<Rightarrow> None
         | Some fingerprint \<Rightarrow> if encodeHex fingerprint \<noteq> value then None else Some fingerprint))"

definition parseAuthorityID :: "string \<Rightarrow> bytes option" where
  "parseAuthorityID value =
     (case decodeHex value of
        None \<Rightarrow> None
      | Some i \<Rightarrow> if length i \<noteq> 16 \<or> encodeHex i \<noteq> value then None else Some i)"

section \<open>Registering a certificate\<close>

definition certificateEvent :: "string \<Rightarrow> string \<Rightarrow> string \<Rightarrow> mutationEvent" where
  "certificateEvent eventType action key =
     \<lparr> me_field = [], me_type = eventType, me_action = action, me_environment = [], me_namespace = [],
       me_resource_type = ''client_certificate'', me_resource_key = key \<rparr>"

definition finishCertificateFailure :: "string \<Rightarrow> actor \<Rightarrow> string \<Rightarrow> string \<Rightarrow>
    (ClientCertificateResult \<times> err option) tx" where
  "finishCertificateFailure oid act action key =
     (let res = \<lparr> xr_outcome = OutcomeValidationFailed, xr_fingerprint = key, xr_name = [], xr_subject = [], xr_serial = [],
                  xr_not_before = 0, xr_not_after = 0, xr_revoked = False \<rparr> in
      tx_bind (finishOperation oid act OutcomeValidationFailed 0 (certificateJSON res)
                 (certificateEvent ''client_certificate.validation_failed'' action key) False) (\<lambda>_.
        commitWith res (withCommittedAudit (Some ErrValidation))))"

definition validateVerifiedCertificate :: "x509 \<Rightarrow> ClientCertificateRegister \<Rightarrow> certificate option" where
  "validateVerifiedCertificate X r =
     (case cg_certificate r of
        None \<Rightarrow> None
      | Some given \<Rightarrow>
          if cg_name r = [] \<or> length (cg_name r) > 255 then None
          else
            (case x_parse X (cf_raw given) of
               None \<Rightarrow> None
             | Some c \<Rightarrow>
                 (case cf_serial c of
                    None \<Rightarrow> None
                  | Some serial \<Rightarrow>
                      if cf_is_ca c \<or> serial < 0 \<or> \<not> cf_not_before c < cf_not_after c \<or>
                         length (cf_subject c) > 1024 \<or> length (serialHex serial) > 128
                      then None else Some c)))"

text \<open>The last of the authorities, in the order of their ids, whose key signed the leaf.\<close>

fun lastIssuer :: "x509 \<Rightarrow> certificate \<Rightarrow> bytes option \<Rightarrow> authority_row list \<Rightarrow> err + bytes option" where
  "lastIssuer X leaf matched [] = Inr matched"
| "lastIssuer X leaf matched (a # as) =
     (case x_parse X (ca_der a) of
        None \<Rightarrow> Inl ErrCryptoIntegrity
      | Some c \<Rightarrow> lastIssuer X leaf (if x_signed_by X leaf c then Some (ca_id a) else matched) as)"

definition managedCertificateIssuer :: "x509 \<Rightarrow> certificate \<Rightarrow> bytes option tx" where
  "managedCertificateIssuer X leaf =
     tx_bind (tx_query (\<lambda>d. sort_key ca_id (authorities d))) (\<lambda>rows.
     tx_bind (tx_lift (lastIssuer X leaf None rows)) (\<lambda>matched.
       case matched of
         None \<Rightarrow> tx_return None
       | Some i \<Rightarrow>
           tx_bind (tx_query (findAuthority i)) (\<lambda>row.
             case row of
               None \<Rightarrow> tx_fail ErrInternal
             | Some a \<Rightarrow> if ca_revoked a \<noteq> None then tx_fail ErrValidation else tx_return (Some i))))"

definition certificateResult :: "(bytes \<Rightarrow> bytes) \<Rightarrow> string \<Rightarrow> certificate \<Rightarrow> Outcome \<Rightarrow> ClientCertificateResult" where
  "certificateResult sha name c out =
     \<lparr> xr_outcome = out, xr_fingerprint = encodeHex (sha (cf_raw c)), xr_name = name, xr_subject = cf_subject c,
       xr_serial = (case cf_serial c of None \<Rightarrow> [] | Some n \<Rightarrow> serialHex n), xr_not_before = cf_not_before c,
       xr_not_after = cf_not_after c, xr_revoked = False \<rparr>"

definition certificateRow :: "(bytes \<Rightarrow> bytes) \<Rightarrow> bytes \<Rightarrow> string \<Rightarrow> certificate \<Rightarrow> bytes option \<Rightarrow> certificate_row" where
  "certificateRow sha i name c authority =
     \<lparr> ct_id = i, ct_fingerprint = sha (cf_raw c), ct_name = name, ct_der = cf_raw c, ct_subject = cf_subject c,
       ct_serial = (case cf_serial c of None \<Rightarrow> [] | Some n \<Rightarrow> serialHex n), ct_not_before = datetime (cf_not_before c),
       ct_not_after = datetime (cf_not_after c), ct_revoked = None, ct_authority = authority \<rparr>"

definition finishRegister :: "ClientCertificateRegister \<Rightarrow> ClientCertificateResult \<Rightarrow>
    (ClientCertificateResult \<times> err option) tx" where
  "finishRegister r res =
     tx_bind (finishOperation (cg_operation r) (cg_actor r) (xr_outcome res) 0 (certificateJSON res)
       (certificateEvent (if xr_outcome res = OutcomeNoChange then ''client_certificate.no_change''
          else ''client_certificate.registered'') ''client_certificate.register'' (xr_fingerprint res))
       (xr_outcome res = OutcomeSuccess)) (\<lambda>_. commitWith res None)"

definition storeCertificate :: "ClientCertificateRegister \<Rightarrow> certificate \<Rightarrow> bytes option \<Rightarrow>
    (ClientCertificateResult \<times> err option) tx" where
  "storeCertificate r c authority =
     tx_bind (tx_env sha256) (\<lambda>sha.
     let res = certificateResult sha (cg_name r) c in
     tx_bind (tx_query (findCertificate (sha (cf_raw c)))) (\<lambda>row.
       case row of
         Some had \<Rightarrow>
           if ct_revoked had \<noteq> None
           then finishCertificateFailure (cg_operation r) (cg_actor r) ''client_certificate.register''
             (encodeHex (sha (cf_raw c)))
           else if ct_name had = cg_name r then finishRegister r (res OutcomeNoChange)
           else
             tx_bind (tx_exec (updateCertificate (ct_id had) (\<lambda>q. q\<lparr> ct_name := cg_name r \<rparr>))) (\<lambda>_.
               finishRegister r (res OutcomeSuccess))
       | None \<Rightarrow>
           tx_bind randomID (\<lambda>i.
           tx_bind (tx_exec (insertCertificate (certificateRow sha i (cg_name r) c authority))) (\<lambda>_.
             finishRegister r (res OutcomeSuccess)))))"

definition registerBody :: "x509 \<Rightarrow> ClientCertificateRegister \<Rightarrow> (ClientCertificateResult \<times> err option) tx" where
  "registerBody X r =
     (let failure = finishCertificateFailure (cg_operation r) (cg_actor r) ''client_certificate.register'' [] in
      case validateVerifiedCertificate X r of
        None \<Rightarrow> failure
      | Some c \<Rightarrow> tx_handle (isErr ErrValidation) (managedCertificateIssuer X c) (\<lambda>_. failure) (storeCertificate r c))"

definition RegisterVerifiedClientCertificate :: "x509 \<Rightarrow> ClientCertificateRegister \<Rightarrow> env \<Rightarrow> db \<Rightarrow>
    (err + ClientCertificateResult \<times> err option) \<times> db" where
  "RegisterVerifiedClientCertificate X r env d =
     (if \<not> validOperationID (cg_operation r) \<or> \<not> validActor (cg_actor r) then (Inl ErrValidation, d)
      else
        run_tx (journaled (cg_operation r) (certificateRegisterDigest env r) (cg_actor r) [] replayCertificate
          (registerBody X r)) env d)"

section \<open>Revoking a certificate\<close>

definition revokedResult :: "certificate_row \<Rightarrow> string \<Rightarrow> Outcome \<Rightarrow> ClientCertificateResult" where
  "revokedResult c fingerprint out =
     \<lparr> xr_outcome = out, xr_fingerprint = fingerprint, xr_name = ct_name c, xr_subject = ct_subject c,
       xr_serial = ct_serial c, xr_not_before = ct_not_before c, xr_not_after = ct_not_after c, xr_revoked = True \<rparr>"

definition finishCertificateRevoke :: "ClientCertificateRevoke \<Rightarrow> ClientCertificateResult \<Rightarrow>
    (ClientCertificateResult \<times> err option) tx" where
  "finishCertificateRevoke r res =
     tx_bind (finishOperation (xk_operation r) (xk_actor r) (xr_outcome res) 0 (certificateJSON res)
       (certificateEvent ''client_certificate.revoked'' ''client_certificate.revoke'' (xk_fingerprint r))
       (xr_outcome res = OutcomeSuccess)) (\<lambda>_. commitWith res None)"

definition revokeCertificateBody :: "ClientCertificateRevoke \<Rightarrow> (ClientCertificateResult \<times> err option) tx" where
  "revokeCertificateBody r =
     (let failure = finishCertificateFailure (xk_operation r) (xk_actor r) ''client_certificate.revoke'' (xk_fingerprint r) in
      case parseFingerprint (xk_fingerprint r) of
        None \<Rightarrow> failure
      | Some fingerprint \<Rightarrow>
          tx_bind (tx_query (findCertificate fingerprint)) (\<lambda>row.
            case row of
              None \<Rightarrow> failure
            | Some c \<Rightarrow>
                if ct_revoked c \<noteq> None then finishCertificateRevoke r (revokedResult c (xk_fingerprint r) OutcomeNoChange)
                else
                  tx_bind (tx_env db_now) (\<lambda>at.
                  tx_bind (tx_exec (updateCertificate (ct_id c) (\<lambda>q. q\<lparr> ct_revoked := Some at \<rparr>))) (\<lambda>_.
                    finishCertificateRevoke r (revokedResult c (xk_fingerprint r) OutcomeSuccess)))))"

definition RevokeClientCertificate :: "ClientCertificateRevoke \<Rightarrow> env \<Rightarrow> db \<Rightarrow>
    (err + ClientCertificateResult \<times> err option) \<times> db" where
  "RevokeClientCertificate r env d =
     (if \<not> validOperationID (xk_operation r) \<or> \<not> validActor (xk_actor r) then (Inl ErrValidation, d)
      else
        run_tx (journaled (xk_operation r) (certificateRevokeDigest env r) (xk_actor r) [] replayCertificate
          (revokeCertificateBody r)) env d)"

section \<open>Authorities\<close>

definition authorityEvent :: "string \<Rightarrow> string \<Rightarrow> string \<Rightarrow> mutationEvent" where
  "authorityEvent eventType action key =
     \<lparr> me_field = [], me_type = eventType, me_action = action, me_environment = [], me_namespace = [],
       me_resource_type = ''certificate_authority'', me_resource_key = key \<rparr>"

definition finishPKIFailure :: "string \<Rightarrow> actor \<Rightarrow> string \<Rightarrow> string \<Rightarrow> ('res option \<times> err option) tx" where
  "finishPKIFailure oid act action key =
     tx_bind (finishOperation oid act OutcomeValidationFailed 0
                (JObj [(''outcome'', JStr (outcomeText OutcomeValidationFailed))])
                (authorityEvent ''certificate.validation_failed'' action (if parseAuthorityID key = None then [] else key))
                False) (\<lambda>_.
       commitWith None (withCommittedAudit (Some ErrValidation)))"

definition setAuthorityCertificate :: "x509 \<Rightarrow> (bytes \<Rightarrow> bytes) \<Rightarrow> CertificateAuthority \<Rightarrow> certificate \<Rightarrow> CertificateAuthority" where
  "setAuthorityCertificate X sha a c =
     a\<lparr> ay_fingerprint := encodeHex (sha (cf_raw c)), ay_pem := CertificatePEM X c, ay_not_before := cf_not_before c,
        ay_not_after := cf_not_after c \<rparr>"

definition newAuthority :: "string \<Rightarrow> string \<Rightarrow> time \<Rightarrow> CertificateAuthority" where
  "newAuthority i name created =
     \<lparr> ay_id = i, ay_name = name, ay_fingerprint = [], ay_pem = [], ay_not_before = 0, ay_not_after = 0,
       ay_revoked = False, ay_created = created, ay_count = 0 \<rparr>"

text \<open>Draws that may fail.\<close>

definition drawing :: "(random \<Rightarrow> nat \<Rightarrow> 'a option) \<Rightarrow> 'a tx" where
  "drawing f = sealing (\<lambda>R t. case f R t of None \<Rightarrow> Inl RandomFailed | Some x \<Rightarrow> Inr x)"

text \<open>The exported bundle is attached to the result, not to what the journal keeps.\<close>

definition finishAuthority :: "AuthorityCreate \<Rightarrow> CertificateAuthority \<Rightarrow> string \<Rightarrow> (AuthorityResult option \<times> err option) tx" where
  "finishAuthority r a bundle =
     (let res = \<lparr> ar_outcome = OutcomeSuccess, ar_authority = a, ar_bundle = [] \<rparr> in
      tx_bind (finishOperation (au_operation r) (au_actor r) OutcomeSuccess 0 (authorityResultJSON res)
        (authorityEvent ''certificate_authority.created'' ''certificate_authority.create'' (ay_id a)) False) (\<lambda>_.
        commitWith (Some (res\<lparr> ar_bundle := bundle \<rparr>)) None))"

definition authorityRow :: "bytes \<Rightarrow> string \<Rightarrow> certificate \<Rightarrow> EncryptedSnapshot \<Rightarrow> time \<Rightarrow> authority_row" where
  "authorityRow i name c encrypted created =
     \<lparr> ca_id = i, ca_name = name, ca_der = cf_raw c, ca_secret = encrypted, ca_not_before = datetime (cf_not_before c),
       ca_not_after = datetime (cf_not_after c), ca_revoked = None, ca_created = created \<rparr>"

definition storeAuthority :: "x509 \<Rightarrow> aead \<Rightarrow> LocalKeyProvider \<Rightarrow> AuthorityCreate \<Rightarrow> GeneratedCertificate \<Rightarrow>
    (AuthorityResult option \<times> err option) tx" where
  "storeAuthority X A provider r generated =
     (let c = gc_certificate generated in
      tx_bind randomID (\<lambda>i.
      tx_bind (tx_env (\<lambda>env. (sha256 env, now env, db_now env))) (\<lambda>(sha, at, created).
      tx_handle (\<lambda>_. True)
        (sealing (\<lambda>R t. EncryptSecret A R t provider (authorityKeyIdentity sha (encodeHex i) (cf_raw c)) (gc_private generated)))
        (\<lambda>_. tx_fail ErrCryptoIntegrity) (\<lambda>encrypted.
        case ExportBundle X generated None of
          None \<Rightarrow> tx_fail ErrInternal
        | Some bundle \<Rightarrow>
            tx_bind (tx_exec (insertAuthority (authorityRow i (au_name r) c encrypted created))) (\<lambda>_.
              finishAuthority r (setAuthorityCertificate X sha (newAuthority (encodeHex i) (au_name r) at) c) bundle)))))"

definition createAuthorityBody :: "x509 \<Rightarrow> aead \<Rightarrow> LocalKeyProvider \<Rightarrow> AuthorityCreate \<Rightarrow>
    (AuthorityResult option \<times> err option) tx" where
  "createAuthorityBody X A provider r =
     (let failure = finishPKIFailure (au_operation r) (au_actor r) ''certificate_authority.create'' [] in
      tx_bind (tx_env (\<lambda>env. (now env, db_now env))) (\<lambda>(at, dbAt).
      tx_bind (tx_query (activeAuthorities dbAt)) (\<lambda>active.
        if active \<ge> 32 then failure
        else
          tx_handle (\<lambda>_. True) (drawing (GenerateAuthority X (au_name r) (au_days r) at)) (\<lambda>_. failure)
            (storeAuthority X A provider r))))"

definition CreateCertificateAuthority :: "x509 \<Rightarrow> aead \<Rightarrow> LocalKeyProvider \<Rightarrow> AuthorityCreate \<Rightarrow> env \<Rightarrow> db \<Rightarrow>
    (err + AuthorityResult option \<times> err option) \<times> db" where
  "CreateCertificateAuthority X A provider r env d =
     (if \<not> validOperationID (au_operation r) \<or> \<not> validActor (au_actor r) then (Inl ErrValidation, d)
      else
        run_tx
          (tx_bind (lockMasterKey A provider) (\<lambda>_.
             journaled (au_operation r) (authorityCreateDigest env r) (au_actor r) [] replayAuthority
               (createAuthorityBody X A provider r))) env d)"

definition finishAuthorityRevoke :: "AuthorityRevoke \<Rightarrow> CertificateAuthority \<Rightarrow> Outcome \<Rightarrow>
    (AuthorityResult option \<times> err option) tx" where
  "finishAuthorityRevoke r a out =
     (let res = \<lparr> ar_outcome = out, ar_authority = a, ar_bundle = [] \<rparr> in
      tx_bind (finishOperation (av_operation r) (av_actor r) out 0 (authorityResultJSON res)
        (authorityEvent ''certificate_authority.revoked'' ''certificate_authority.revoke'' (av_authority r)) False) (\<lambda>_.
        commitWith (Some res) None))"

definition revokeAuthorityBody :: "x509 \<Rightarrow> AuthorityRevoke \<Rightarrow> (AuthorityResult option \<times> err option) tx" where
  "revokeAuthorityBody X r =
     (let failure = finishPKIFailure (av_operation r) (av_actor r) ''certificate_authority.revoke'' (av_authority r) in
      case parseAuthorityID (av_authority r) of
        None \<Rightarrow> failure
      | Some i \<Rightarrow>
          tx_bind (tx_query (findAuthority i)) (\<lambda>row.
            case row of
              None \<Rightarrow> failure
            | Some a \<Rightarrow>
                (case x_parse X (ca_der a) of
                   None \<Rightarrow> tx_fail ErrCryptoIntegrity
                 | Some c \<Rightarrow>
                     tx_bind (tx_env (\<lambda>env. (sha256 env, db_now env))) (\<lambda>(sha, at).
                     let authority = setAuthorityCertificate X sha
                           ((newAuthority (av_authority r) (ca_name a) (ca_created a))\<lparr> ay_revoked := True \<rparr>) c in
                     if ca_revoked a \<noteq> None then finishAuthorityRevoke r authority OutcomeNoChange
                     else
                       tx_bind (tx_exec (revokeAuthority i at)) (\<lambda>_.
                       tx_bind (tx_exec (revokeIssued i at)) (\<lambda>_.
                         finishAuthorityRevoke r authority OutcomeSuccess))))))"

definition RevokeCertificateAuthority :: "x509 \<Rightarrow> AuthorityRevoke \<Rightarrow> env \<Rightarrow> db \<Rightarrow>
    (err + AuthorityResult option \<times> err option) \<times> db" where
  "RevokeCertificateAuthority X r env d =
     (if \<not> validOperationID (av_operation r) \<or> \<not> validActor (av_actor r) then (Inl ErrValidation, d)
      else
        run_tx (journaled (av_operation r) (authorityRevokeDigest env r) (av_actor r) [] replayAuthority
          (revokeAuthorityBody X r)) env d)"

text \<open>The pool of trusted authorities.\<close>

definition ActiveCertificateAuthorities :: "bytes list tx" where
  "ActiveCertificateAuthorities =
     tx_bind (tx_env db_now) (\<lambda>at.
       tx_query (\<lambda>d. map ca_der (sort_key ca_id
         (filter (\<lambda>a. ca_revoked a = None \<and> ca_not_before a \<le> at \<and> at < ca_not_after a) (authorities d)))))"

section \<open>Issuing a certificate\<close>

definition issueResult :: "(bytes \<Rightarrow> bytes) \<Rightarrow> ClientCertificateIssue \<Rightarrow> certificate \<Rightarrow> string \<Rightarrow> ClientCertificateIssueResult" where
  "issueResult sha r c bundle =
     \<lparr> ir_outcome = OutcomeSuccess, ir_certificate = certificateResult sha (ci_name r) c OutcomeSuccess,
       ir_authority = ci_authority r, ir_bundle = bundle \<rparr>"

definition generateFor :: "x509 \<Rightarrow> certificate \<Rightarrow> bytes \<Rightarrow> ClientCertificateIssue \<Rightarrow> time \<Rightarrow> random \<Rightarrow> nat \<Rightarrow>
    GeneratedCertificate option" where
  "generateFor X authority private r at R t =
     (if ci_not_after r = 0 then GenerateClient X authority private (ci_name r) (ci_days r) at R t
      else GenerateClientUntil X authority private (ci_name r) (ci_not_after r) at R t)"

definition recordIssued :: "x509 \<Rightarrow> ClientCertificateIssue \<Rightarrow> bytes \<Rightarrow> certificate \<Rightarrow> GeneratedCertificate \<Rightarrow>
    ClientCertificateIssueResult tx" where
  "recordIssued X r i authority generated =
     (case ExportBundle X generated (Some authority) of
        None \<Rightarrow> tx_fail ErrInternal
      | Some bundle \<Rightarrow>
          tx_bind (tx_env sha256) (\<lambda>sha.
          tx_bind randomID (\<lambda>j.
          tx_bind (tx_exec (insertCertificate (certificateRow sha j (ci_name r) (gc_certificate generated) (Some i)))) (\<lambda>_.
            tx_return (issueResult sha r (gc_certificate generated) bundle)))))"

definition issueFrom :: "x509 \<Rightarrow> aead \<Rightarrow> LocalKeyProvider \<Rightarrow> ClientCertificateIssue \<Rightarrow> bytes \<Rightarrow> authority_row \<Rightarrow>
    ClientCertificateIssueResult tx" where
  "issueFrom X A provider r i a =
     (case x_parse X (ca_der a) of
        None \<Rightarrow> tx_fail ErrCryptoIntegrity
      | Some authority \<Rightarrow>
          tx_bind (tx_env (\<lambda>env. (sha256 env, now env))) (\<lambda>(sha, at).
          case DecryptSecret A provider (authorityKeyIdentity sha (ci_authority r) (ca_der a)) (ca_secret a) of
            Inl _ \<Rightarrow> tx_fail ErrCryptoIntegrity
          | Inr private \<Rightarrow>
              tx_handle (\<lambda>_. True) (drawing (generateFor X authority private r at)) (\<lambda>_. tx_fail ErrValidation)
                (recordIssued X r i authority)))"

definition issueClientCertificateRecord :: "x509 \<Rightarrow> aead \<Rightarrow> LocalKeyProvider \<Rightarrow> ClientCertificateIssue \<Rightarrow>
    ClientCertificateIssueResult tx" where
  "issueClientCertificateRecord X A provider r =
     (case parseAuthorityID (ci_authority r) of
        None \<Rightarrow> tx_fail ErrValidation
      | Some i \<Rightarrow>
          tx_bind (tx_query (findAuthority i)) (\<lambda>row.
            case row of
              None \<Rightarrow> tx_fail ErrValidation
            | Some a \<Rightarrow> if ca_revoked a \<noteq> None then tx_fail ErrValidation else issueFrom X A provider r i a))"

definition finishIssue :: "ClientCertificateIssue \<Rightarrow> ClientCertificateIssueResult \<Rightarrow>
    (ClientCertificateIssueResult option \<times> err option) tx" where
  "finishIssue r res =
     tx_bind (finishOperation (ci_operation r) (ci_actor r) OutcomeSuccess 0 (issueResultJSON (res\<lparr> ir_bundle := [] \<rparr>))
       (certificateEvent ''client_certificate.issued'' ''client_certificate.issue'' (xr_fingerprint (ir_certificate res))) False) (\<lambda>_.
       commitWith (Some res) None)"

definition IssueClientCertificate :: "x509 \<Rightarrow> aead \<Rightarrow> LocalKeyProvider \<Rightarrow> ClientCertificateIssue \<Rightarrow> env \<Rightarrow> db \<Rightarrow>
    (err + ClientCertificateIssueResult option \<times> err option) \<times> db" where
  "IssueClientCertificate X A provider r env d =
     (if \<not> validOperationID (ci_operation r) \<or> \<not> validActor (ci_actor r) then (Inl ErrValidation, d)
      else
        run_tx
          (tx_bind (lockMasterKey A provider) (\<lambda>_.
             journaled (ci_operation r) (certificateIssueDigest env r) (ci_actor r) [] replayIssue
               (tx_handle (isErr ErrValidation) (issueClientCertificateRecord X A provider r)
                  (\<lambda>_. finishPKIFailure (ci_operation r) (ci_actor r) ''client_certificate.issue'' (ci_authority r))
                  (finishIssue r)))) env d)"

end
