(* ===== verification/Deployments.thy ===== *)
theory Deployments
  imports Certificates
begin

text \<open>
  Deployment credentials (\<^verbatim>\<open>mysqlstore/deployment_credential.go\<close>): a writing token issues a
  reading token together with a client certificate to which it is bound, and revokes them. The
  retry after a deadlock repeats the whole operation and is left out.
\<close>

record DeploymentCredentialIssue =
  di_operation :: string
  di_actor :: actor
  di_environment :: string
  di_name :: string
  di_authority :: string
  di_expires :: time

record DeploymentCredentialResult =
  dr_outcome :: Outcome
  dr_token :: TokenCreateResult
  dr_certificate :: ClientCertificateIssueResult

record DeploymentCredentialRevoke =
  dv_operation :: string
  dv_actor :: actor
  dv_environment :: string
  dv_public :: string

definition deploymentIssueDigest :: "env \<Rightarrow> DeploymentCredentialIssue \<Rightarrow> bytes" where
  "deploymentIssueDigest env r =
     (case marshalTime (di_expires r) of
        None \<Rightarrow> sha256 env []
      | Some expires \<Rightarrow>
          pkiDigest env ''deployment.issue'' (JObj
            [(''OperationID'', JStr (di_operation r)), (''Actor'', actorJSON (di_actor r)),
             (''EnvironmentKey'', JStr (jsonText (di_environment r))), (''DisplayName'', JStr (jsonText (di_name r))),
             (''AuthorityID'', JStr (jsonText (di_authority r))), (''ExpiresAt'', expires)]))"

definition deploymentRevokeDigest :: "env \<Rightarrow> DeploymentCredentialRevoke \<Rightarrow> bytes" where
  "deploymentRevokeDigest env r = pkiDigest env ''deployment.revoke'' (JObj
     [(''OperationID'', JStr (dv_operation r)), (''Actor'', actorJSON (dv_actor r)),
      (''EnvironmentKey'', JStr (jsonText (dv_environment r))), (''PublicID'', JStr (dv_public r))])"

definition deploymentJSON :: "DeploymentCredentialResult \<Rightarrow> json" where
  "deploymentJSON r =
     JObj [(''outcome'', JStr (outcomeText (dr_outcome r))), (''token'', tokenResultJSON (dr_token r)),
           (''certificate'', issueResultJSON (dr_certificate r))]"

definition deploymentOf :: "json \<Rightarrow> DeploymentCredentialResult option" where
  "deploymentOf v =
     (case (isObject v, outcomeOf (member ''outcome'' v), tokenResultOf (member ''token'' v),
            issueResultOf (member ''certificate'' v)) of
        (True, Some out, Some t, Some (_, Some c)) \<Rightarrow> Some \<lparr> dr_outcome = out, dr_token = t, dr_certificate = c \<rparr>
      | _ \<Rightarrow> None)"

definition replayDeployment :: "operationReplay \<Rightarrow> err + DeploymentCredentialResult \<times> err option" where
  "replayDeployment rp =
     (case deploymentOf (replayResponse rp) of
        None \<Rightarrow> Inl ErrInternal
      | Some previous \<Rightarrow>
          if dr_outcome previous \<noteq> replayOutcome rp then Inl ErrInternal
          else Inr (previous, outcomeError (dr_outcome previous)))"

definition deploymentEvent :: "string \<Rightarrow> string \<Rightarrow> string \<Rightarrow> mutationEvent" where
  "deploymentEvent action environment key =
     \<lparr> me_field = [], me_type = (if action = ''deployment.issue'' then ''deployment.issued'' else ''deployment.revoked''),
       me_action = action, me_environment = environment, me_namespace = [], me_resource_type = ''api_token'',
       me_resource_key = key \<rparr>"

definition deploymentCertificate :: "DeploymentCredentialIssue \<Rightarrow> ClientCertificateIssue" where
  "deploymentCertificate r =
     \<lparr> ci_not_after = di_expires r, ci_operation = [], ci_actor = di_actor r, ci_authority = di_authority r,
       ci_name = di_name r, ci_days = 0 \<rparr>"

text \<open>The token: of the parent's scope, bound to the certificate, no longer than either lives.\<close>

definition deploymentToken :: "DeploymentCredentialIssue \<Rightarrow> Token \<Rightarrow> ClientCertificateResult \<Rightarrow> TokenCreate" where
  "deploymentToken r parent c =
     \<lparr> tc_kind = TokenReadOnly, tc_configs = tok_configs parent, tc_namespaces = tok_namespaces parent,
       tc_parent = tok_public parent,
       tc_fingerprint = (case decodeHex (xr_fingerprint c) of None \<Rightarrow> [] | Some f \<Rightarrow> f), tc_operation = [],
       tc_actor = di_actor r, tc_name = di_name r, tc_environments = Some [di_environment r], tc_without_mtls = False,
       tc_expires = (if xr_not_after c < di_expires r then xr_not_after c else di_expires r), tc_never = False \<rparr>"

definition finishDeployment :: "DeploymentCredentialIssue \<Rightarrow> ClientCertificateIssueResult \<Rightarrow> TokenCreateResult \<Rightarrow>
    (DeploymentCredentialResult \<times> err option) tx" where
  "finishDeployment r c t =
     (let res = \<lparr> dr_outcome = OutcomeSuccess, dr_token = t, dr_certificate = c \<rparr> in
      tx_bind (finishOperation (di_operation r) (di_actor r) OutcomeSuccess 0
        (deploymentJSON (res\<lparr> dr_token := t\<lparr> tr_token := [] \<rparr>, dr_certificate := c\<lparr> ir_bundle := [] \<rparr> \<rparr>))
        (deploymentEvent ''deployment.issue'' (di_environment r) (tr_public t)) False) (\<lambda>_.
        commitWith res None))"

definition issueDeploymentBody :: "x509 \<Rightarrow> aead \<Rightarrow> LocalKeyProvider \<Rightarrow> DeploymentCredentialIssue \<Rightarrow> Token \<Rightarrow>
    (DeploymentCredentialResult \<times> err option) tx" where
  "issueDeploymentBody X A provider r parent =
     tx_bind (tx_env now) (\<lambda>at.
       if \<not> validResourceKey (di_environment r) \<or> \<not> at < di_expires r \<or> di_expires r > tok_expires parent
       then tx_fail ErrValidation
       else
         tx_bind (issueClientCertificateRecord X A provider (deploymentCertificate r)) (\<lambda>c.
         tx_bind (createTokenRecord (deploymentToken r parent (ir_certificate c))) (\<lambda>t.
           finishDeployment r c t)))"

definition IssueDeploymentCredential :: "x509 \<Rightarrow> aead \<Rightarrow> LocalKeyProvider \<Rightarrow> DeploymentCredentialIssue \<Rightarrow> env \<Rightarrow> db \<Rightarrow>
    (err + DeploymentCredentialResult \<times> err option) \<times> db" where
  "IssueDeploymentCredential X A provider r env d =
     (if \<not> validOperationID (di_operation r) \<or> \<not> validScopedActor (di_actor r) \<or> actorType (di_actor r) \<noteq> ''token''
      then (Inl ErrValidation, d)
      else
        run_tx
          (tx_bind (lockMasterKey A provider) (\<lambda>_.
           tx_bind (authorizeScopedWrite (di_actor r) (di_environment r) [] []) (\<lambda>parent.
             journaled (di_operation r) (deploymentIssueDigest env r) (di_actor r) [] replayDeployment
               (issueDeploymentBody X A provider r parent)))) env d)"

text \<open>A reading token that the actor issued for the environment.\<close>

definition deploymentRow :: "DeploymentCredentialRevoke \<Rightarrow> db \<Rightarrow> api_token_row option" where
  "deploymentRow r d =
     find (\<lambda>t. tk_public_id t = dv_public r \<and> tk_parent t = Some (actorID (dv_actor r)) \<and> tk_kind t = TokenReadOnly \<and>
       environmentGranted False (tk_id t) (dv_environment r) d) (api_tokens d)"

definition finishDeploymentRevoke :: "DeploymentCredentialRevoke \<Rightarrow> Outcome \<Rightarrow> (TokenRevokeResult \<times> err option) tx" where
  "finishDeploymentRevoke r out =
     (let res = \<lparr> tk_outcome = out, tk_public = dv_public r, tk_isRevoked = True \<rparr> in
      tx_bind (finishOperation (dv_operation r) (dv_actor r) out 0 (tokenRevokeJSON res)
        (deploymentEvent ''deployment.revoke'' (dv_environment r) (dv_public r)) False) (\<lambda>_.
        commitWith res None))"

definition revokeDeploymentBody :: "DeploymentCredentialRevoke \<Rightarrow> api_token_row \<Rightarrow> (TokenRevokeResult \<times> err option) tx" where
  "revokeDeploymentBody r t =
     (if tk_revoked t \<noteq> None then finishDeploymentRevoke r OutcomeNoChange
      else tx_bind (revokeTokenAndDeployments (dv_public r)) (\<lambda>_. finishDeploymentRevoke r OutcomeSuccess))"

definition RevokeDeploymentCredential :: "DeploymentCredentialRevoke \<Rightarrow> env \<Rightarrow> db \<Rightarrow>
    (err + TokenRevokeResult \<times> err option) \<times> db" where
  "RevokeDeploymentCredential r env d =
     (if \<not> validOperationID (dv_operation r) \<or> \<not> validScopedActor (dv_actor r) \<or> actorType (dv_actor r) \<noteq> ''token'' \<or>
         \<not> validTokenPublicID (dv_public r)
      then (Inl ErrValidation, d)
      else
        run_tx
          (tx_bind (authorizeScopedWrite (dv_actor r) (dv_environment r) [] []) (\<lambda>_.
           tx_bind (tx_query (deploymentRow r)) (\<lambda>row.
             case row of
               None \<Rightarrow> tx_fail ErrForbidden
             | Some t \<Rightarrow>
                 journaled (dv_operation r) (deploymentRevokeDigest env r) (dv_actor r) [] replayTokenRevoke
                   (revokeDeploymentBody r t)))) env d)"

end
