(* ===== verification/Releases.thy ===== *)
theory Releases
  imports MachineAccess MasterKey
begin

text \<open>
  Releases (\<^verbatim>\<open>mysqlstore/release.go\<close>, \<^verbatim>\<open>machine/release.go\<close>,
  \<^verbatim>\<open>machine/release_http.go\<close>): a named, immutable set of a Config revision and files of Vault
  items, with the Vault revisions it was prepared on pinned; its activation, a stream of generations
  per Config and environment; and its reading, which resolves the pinned revisions as one snapshot.
  The size of the manifest column's text is an argument. The iteration order of a Go map decides which
  of several errors is reported; here it is the order in which the items are first needed.
\<close>

section \<open>Paths\<close>

text \<open>\<^verbatim>\<open>path.Clean\<close>; the components kept so far are in reverse.\<close>

fun cleanParts :: "bool \<Rightarrow> string list \<Rightarrow> string list \<Rightarrow> string list" where
  "cleanParts rooted kept [] = rev kept"
| "cleanParts rooted kept (p # ps) =
     (if p = [] \<or> p = ''.'' then cleanParts rooted kept ps
      else if p \<noteq> ''..'' then cleanParts rooted (p # kept) ps
      else
        (case kept of
           [] \<Rightarrow> cleanParts rooted (if rooted then [] else [''..'']) ps
         | q # qs \<Rightarrow> cleanParts rooted (if q = ''..'' then ''..'' # kept else qs) ps))"

definition cleanPath :: "string \<Rightarrow> string" where
  "cleanPath value =
     (let rooted = hasPrefix value ''/'';
          joined = joinWith CHR ''/'' (cleanParts rooted [] (splitOn CHR ''/'' value))
      in if rooted then CHR ''/'' # joined else if joined = [] then ''.'' else joined)"

definition ValidReleasePath :: "string \<Rightarrow> bool" where
  "ValidReleasePath value =
     (value \<noteq> [] \<and> length value \<le> 255 \<and> \<not> hasPrefix value ''/'' \<and> cleanPath value = value \<and> value \<noteq> ''.'' \<and>
      value \<noteq> ''..'' \<and> \<not> hasPrefix value ''../'' \<and>
      list_all (\<lambda>c. c \<notin> {CHR 0x5C, CHR '':'', CHR 0x00, CHR 0x0D, CHR 0x0A}) value \<and>
      list_all (\<lambda>c. \<not> (of_char c < (32 :: nat)) \<and> of_char c \<noteq> (127 :: nat)) value)"

section \<open>Specifications\<close>

record ReleaseFileRef =
  rl_namespace :: string
  rl_item :: string
  rl_field :: string
  rl_path :: string
  rl_revision :: u64

text \<open>A nil slice of files is \<^const>\<open>None\<close>.\<close>

record ReleaseSpec =
  sp_config :: u64
  sp_path :: string
  sp_files :: "ReleaseFileRef list option"

record ReleaseManifest =
  mf_environment :: string
  mf_config :: string
  mf_release :: string
  mf_spec :: ReleaseSpec
  mf_vault :: "(string \<times> u64) list option"

definition maxReleaseBytes :: int where "maxReleaseBytes = 5 * 1024 * 1024"

text \<open>No path is another's, or inside another; \<^verbatim>\<open>paths\<close> are those before.\<close>

definition nestedPaths :: "string \<Rightarrow> string \<Rightarrow> bool" where
  "nestedPaths a b = (a = b \<or> hasPrefix a (b @ ''/'') \<or> hasPrefix b (a @ ''/''))"

fun validReleaseFiles :: "string list \<Rightarrow> ReleaseFileRef list \<Rightarrow> bool" where
  "validReleaseFiles paths [] = True"
| "validReleaseFiles paths (f # fs) =
     (validResourceKey (rl_namespace f) \<and> validResourceKey (rl_item f) \<and> validResourceKey (rl_field f) \<and>
      rl_revision f \<noteq> 0 \<and> ValidReleasePath (rl_path f) \<and> list_all (\<lambda>p. \<not> nestedPaths (rl_path f) p) paths \<and>
      validReleaseFiles (paths @ [rl_path f]) fs)"

definition specFiles :: "ReleaseSpec \<Rightarrow> ReleaseFileRef list" where
  "specFiles spec = (case sp_files spec of None \<Rightarrow> [] | Some fs \<Rightarrow> fs)"

definition validateReleaseSpec :: "ReleaseSpec \<Rightarrow> bool" where
  "validateReleaseSpec spec =
     (sp_config spec \<noteq> 0 \<and> ValidReleasePath (sp_path spec) \<and> length (specFiles spec) \<le> 31 \<and>
      validReleaseFiles [sp_path spec] (specFiles spec))"

text \<open>The paths of a valid specification differ, so the order is that of any sorting.\<close>

definition sortedReleaseSpec :: "ReleaseSpec \<Rightarrow> ReleaseSpec" where
  "sortedReleaseSpec spec = spec\<lparr> sp_files := Some (sort_key rl_path (specFiles spec)) \<rparr>"

subsection \<open>On the wire\<close>

definition fileRefJSON :: "ReleaseFileRef \<Rightarrow> json" where
  "fileRefJSON f =
     JObj [(''namespace'', JStr (jsonText (rl_namespace f))), (''item'', JStr (jsonText (rl_item f))),
           (''field'', JStr (jsonText (rl_field f))), (''path'', JStr (jsonText (rl_path f))),
           (''revision'', JNum (FormatUint (rl_revision f)))]"

definition specMembers :: "ReleaseSpec \<Rightarrow> (string \<times> json) list" where
  "specMembers s =
     [(''config_revision'', JNum (FormatUint (sp_config s))), (''config_path'', JStr (jsonText (sp_path s))),
      (''files'', case sp_files s of None \<Rightarrow> JNull | Some fs \<Rightarrow> JArr (map fileRefJSON fs))]"

definition revisionsJSON :: "(string \<times> u64) list option \<Rightarrow> json" where
  "revisionsJSON m = (case m of None \<Rightarrow> JNull | Some rs \<Rightarrow> mapJSON (\<lambda>n. JNum (FormatUint n)) rs)"

definition manifestJSON :: "ReleaseManifest \<Rightarrow> json" where
  "manifestJSON m =
     JObj ([(''environment'', JStr (jsonText (mf_environment m))), (''config_key'', JStr (jsonText (mf_config m))),
            (''release_key'', JStr (jsonText (mf_release m)))] @ specMembers (mf_spec m) @
       [(''vault_revisions'', revisionsJSON (mf_vault m))])"

definition fileRefOf :: "json \<Rightarrow> ReleaseFileRef option" where
  "fileRefOf v =
     (case (isObject v, asString (member ''namespace'' v), asString (member ''item'' v), asString (member ''field'' v)) of
        (True, Some n, Some i, Some f) \<Rightarrow>
          (case (asString (member ''path'' v), asUint64 (member ''revision'' v)) of
             (Some p, Some r) \<Rightarrow> Some \<lparr> rl_namespace = n, rl_item = i, rl_field = f, rl_path = p, rl_revision = r \<rparr>
           | _ \<Rightarrow> None)
      | _ \<Rightarrow> None)"

fun fileRefsOf :: "json list \<Rightarrow> ReleaseFileRef list option" where
  "fileRefsOf [] = Some []"
| "fileRefsOf (v # vs) =
     (case fileRefOf v of None \<Rightarrow> None | Some f \<Rightarrow> map_option ((#) f) (fileRefsOf vs))"

definition filesOf :: "json \<Rightarrow> ReleaseFileRef list option option" where
  "filesOf v = (case v of JNull \<Rightarrow> Some None | JArr vs \<Rightarrow> map_option Some (fileRefsOf vs) | _ \<Rightarrow> None)"

definition revisionsOf :: "json \<Rightarrow> (string \<times> u64) list option option" where
  "revisionsOf v = (case v of JNull \<Rightarrow> Some None | _ \<Rightarrow> map_option Some (intoMap asUint64 v []))"

definition manifestOf :: "json \<Rightarrow> ReleaseManifest option" where
  "manifestOf v =
     (case (isObject v, asString (member ''environment'' v), asString (member ''config_key'' v),
            asString (member ''release_key'' v), asUint64 (member ''config_revision'' v)) of
        (True, Some e, Some c, Some k, Some n) \<Rightarrow>
          (case (asString (member ''config_path'' v), filesOf (member ''files'' v), revisionsOf (member ''vault_revisions'' v)) of
             (Some p, Some fs, Some rs) \<Rightarrow>
               Some \<lparr> mf_environment = e, mf_config = c, mf_release = k,
                      mf_spec = \<lparr> sp_config = n, sp_path = p, sp_files = fs \<rparr>, mf_vault = rs \<rparr>
           | _ \<Rightarrow> None)
      | _ \<Rightarrow> None)"

definition manifestDigest :: "(bytes \<Rightarrow> bytes) \<Rightarrow> ReleaseManifest \<Rightarrow> bytes" where
  "manifestDigest sha m = sha (compactJSON (manifestJSON m))"

section \<open>Reading the tables\<close>

text \<open>The environment and the Config, both active, and the current revision.\<close>

definition releaseAnchor :: "string \<Rightarrow> string \<Rightarrow> db \<Rightarrow> (bytes \<times> bytes \<times> u64) option" where
  "releaseAnchor environment config d =
     (case (activeEnvironment environment d, findConfig config d) of
        (Some e, Some (c, archived)) \<Rightarrow>
          if archived then None else map_option (\<lambda>n. (e, c, n)) (currentRevision c e d)
      | _ \<Rightarrow> None)"

definition releaseRoot :: "Token option \<Rightarrow> string \<Rightarrow> string \<Rightarrow> (bytes \<times> bytes \<times> u64) tx" where
  "releaseRoot token environment config =
     (if (case token of None \<Rightarrow> False | Some t \<Rightarrow> \<not> AllowsConfig t config) then tx_fail ErrForbidden
      else
        tx_bind (tx_query (releaseAnchor environment config)) (\<lambda>root.
          case root of None \<Rightarrow> tx_fail ErrNotFound | Some r \<Rightarrow> tx_return r))"

definition findRelease :: "bytes \<Rightarrow> bytes \<Rightarrow> string \<Rightarrow> db \<Rightarrow> release_set_row option" where
  "findRelease e c key d =
     find (\<lambda>r. rs_env r = e \<and> rs_config r = c \<and> rs_key r = key) (release_sets d)"

definition releaseManifest :: "(json \<Rightarrow> nat) \<Rightarrow> (bytes \<Rightarrow> bytes) \<Rightarrow> string \<Rightarrow> release_set_row \<Rightarrow> ReleaseManifest option" where
  "releaseManifest width sha key row =
     (if width (rs_manifest row) > 131072 then None
      else
        (case manifestOf (rs_manifest row) of
           None \<Rightarrow> None
         | Some m \<Rightarrow>
             if validateReleaseSpec (mf_spec m) \<and> validResourceKey (mf_environment m) \<and> validResourceKey (mf_config m) \<and>
                mf_release m = key \<and> manifestDigest sha m = rs_digest row
             then Some m else None))"

definition loadRelease :: "(json \<Rightarrow> nat) \<Rightarrow> bytes \<Rightarrow> bytes \<Rightarrow> string \<Rightarrow> (ReleaseManifest \<times> bytes) tx" where
  "loadRelease width e c key =
     tx_bind (tx_query (findRelease e c key)) (\<lambda>row.
       case row of
         None \<Rightarrow> tx_fail ErrNotFound
       | Some r \<Rightarrow>
           tx_bind (tx_env sha256) (\<lambda>sha.
             case releaseManifest width sha key r of
               None \<Rightarrow> tx_fail ErrVaultIntegrity
             | Some m \<Rightarrow> tx_return (m, rs_digest r)))"

record ReleaseState =
  re_key :: string
  re_generation :: u64

definition releaseState :: "bytes \<Rightarrow> bytes \<Rightarrow> db \<Rightarrow> ReleaseState" where
  "releaseState e c d =
     (case find (\<lambda>r. rt_env r = e \<and> rt_config r = c) (release_states d) of
        None \<Rightarrow> \<lparr> re_key = [], re_generation = 0 \<rparr>
      | Some r \<Rightarrow> \<lparr> re_key = (case rt_active r of None \<Rightarrow> [] | Some k \<Rightarrow> k), re_generation = rt_generation r \<rparr>)"

section \<open>Resolving\<close>

record resolution =
  rn_vault :: "(string \<times> u64) list"
  rn_values :: "(reference \<times> string) list"
  rn_files :: "(string \<times> bytes option) list"
  rn_size :: int
  rn_text :: int

record ReleaseBundle =
  bd_manifest :: ReleaseManifest
  bd_generation :: u64
  bd_digest :: string
  bd_config :: ResolvedConfig
  bd_files :: "(string \<times> bytes option) list"
  bd_etag :: string

text \<open>The fields each item is needed for; those of a file are added to the references'.\<close>

fun neededItems :: "ReleaseFileRef list \<Rightarrow> (vaultItemIdentity \<times> string list) list \<Rightarrow> (vaultItemIdentity \<times> string list) list" where
  "neededItems [] m = m"
| "neededItems (f # fs) m =
     neededItems fs
       (let i = (rl_namespace f, rl_item f) in
        mapPut i ((case map_of m i of None \<Rightarrow> [] | Some ks \<Rightarrow> ks) @ [rl_field f]) m)"

definition neededFields :: "(vaultItemIdentity \<times> string list) list \<Rightarrow> nat" where
  "neededFields m = sum_list (map (\<lambda>(_, ks). length ks) m)"

text \<open>The text of a field, which must be one now and in the pinned revision.\<close>

definition releaseText :: "(string \<times> string) list \<Rightarrow> (string \<times> string) list \<Rightarrow> VariantValues \<Rightarrow> string \<Rightarrow> string option" where
  "releaseText types now_types variant k =
     (case map_of variant k of
        None \<Rightarrow> None
      | Some v \<Rightarrow>
          if map_of types k \<notin> {Some Text, Some Secret} \<or> map_of now_types k \<notin> {Some Text, Some Secret} then None
          else vl_text v)"

fun releaseTexts :: "(string \<times> string) list \<Rightarrow> (string \<times> string) list \<Rightarrow> VariantValues \<Rightarrow> vaultItemIdentity \<Rightarrow>
    string list \<Rightarrow> resolution \<Rightarrow> err + resolution" where
  "releaseTexts types now_types variant i [] r = Inr r"
| "releaseTexts types now_types variant i (k # ks) r =
     (case releaseText types now_types variant k of
        None \<Rightarrow> Inl ErrUnresolved
      | Some s \<Rightarrow>
          if rn_text r + int (length s) > maxReleaseBytes then Inl ErrValidation
          else
            releaseTexts types now_types variant i ks
              (r\<lparr> rn_text := rn_text r + int (length s), rn_values := mapPut (Reference (fst i) (snd i) k) s (rn_values r) \<rparr>))"

definition releaseFile :: "(string \<times> string) list \<Rightarrow> (string \<times> string) list \<Rightarrow> VariantValues \<Rightarrow> string \<Rightarrow> FileValue option" where
  "releaseFile types now_types variant k =
     (case map_of variant k of
        None \<Rightarrow> None
      | Some v \<Rightarrow> if map_of types k \<noteq> Some File \<or> map_of now_types k \<noteq> Some File then None else vl_file v)"

fun releaseFiles :: "(string \<times> string) list \<Rightarrow> (string \<times> string) list \<Rightarrow> VariantValues \<Rightarrow> vaultItemIdentity \<Rightarrow>
    ReleaseFileRef list \<Rightarrow> resolution \<Rightarrow> err + resolution" where
  "releaseFiles types now_types variant i [] r = Inr r"
| "releaseFiles types now_types variant i (f # fs) r =
     (if (rl_namespace f, rl_item f) \<noteq> i then releaseFiles types now_types variant i fs r
      else
        (case releaseFile types now_types variant (rl_field f) of
           None \<Rightarrow> Inl ErrUnresolved
         | Some v \<Rightarrow>
             if rn_size r + int (length (elems (fl_bytes v))) > maxReleaseBytes then Inl ErrValidation
             else
               releaseFiles types now_types variant i fs
                 (r\<lparr> rn_size := rn_size r + int (length (elems (fl_bytes v))),
                     rn_files := mapPut (rl_path f) (fl_bytes v) (rn_files r) \<rparr>)))"

definition pinnedBinding :: "bytes \<Rightarrow> vaultMetadata \<Rightarrow> db \<Rightarrow> bytes option" where
  "pinnedBinding environmentID m d =
     map_option vb_variant
       (find (\<lambda>b. vb_item b = md_item m \<and> vb_revision b = md_revision m \<and> vb_env b = environmentID) (vault_bindings d))"

text \<open>The payload of the pinned revision, once its binding and the types of its fields are read.\<close>

definition releaseVariant :: "aead \<Rightarrow> LocalKeyProvider \<Rightarrow> bytes \<Rightarrow> vaultMetadata \<Rightarrow> ((string \<times> string) list \<times> VariantValues) tx" where
  "releaseVariant A provider environmentID pinned =
     tx_bind (tx_query (pinnedBinding environmentID pinned)) (\<lambda>binding.
       case binding of
         None \<Rightarrow> tx_fail ErrUnresolved
       | Some v \<Rightarrow>
           tx_bind (readFieldTypes pinned) (\<lambda>types.
           tx_bind (decryptVaultPayload A provider (pinned\<lparr> md_variant := v \<rparr>)) (\<lambda>payload.
             case map_of payload (encodeHex v) of
               None \<Rightarrow> tx_fail ErrVaultIntegrity
             | Some variant \<Rightarrow> tx_return (types, variant))))"

definition releaseItem :: "aead \<Rightarrow> LocalKeyProvider \<Rightarrow> Token option \<Rightarrow> bytes \<Rightarrow> ReleaseFileRef list \<Rightarrow>
    (vaultItemIdentity \<times> string list) list \<Rightarrow> bool \<Rightarrow> vaultItemIdentity \<Rightarrow> resolution \<Rightarrow> resolution tx" where
  "releaseItem A provider token environmentID files references prepare i r =
     (if (case token of None \<Rightarrow> False | Some t \<Rightarrow> \<not> AllowsNamespace t (fst i)) then tx_fail ErrForbidden
      else
        tx_bind (readOneVaultMetadata environmentID i) (\<lambda>m.
        tx_bind (readFieldTypes m) (\<lambda>now_types.
          let vault = (if prepare then mapPut (revisionKey i) (md_revision m) (rn_vault r) else rn_vault r);
              revision = (case map_of vault (revisionKey i) of None \<Rightarrow> 0 | Some n \<Rightarrow> n);
              pinned = m\<lparr> md_revision := revision \<rparr>
          in
            if revision = 0 then tx_fail ErrVaultIntegrity
            else if list_ex (\<lambda>f. (rl_namespace f, rl_item f) = i \<and> rl_revision f \<noteq> revision) files
            then tx_fail (if prepare then ErrConflict else ErrVaultIntegrity)
            else
              tx_bind (releaseVariant A provider environmentID pinned) (\<lambda>(types, variant).
                tx_lift
                  (resultBind
                    (releaseTexts types now_types variant i
                      (case map_of references i of None \<Rightarrow> [] | Some ks \<Rightarrow> ks) (r\<lparr> rn_vault := vault \<rparr>))
                    (releaseFiles types now_types variant i files))))))"

fun releaseItems :: "aead \<Rightarrow> LocalKeyProvider \<Rightarrow> Token option \<Rightarrow> bytes \<Rightarrow> ReleaseFileRef list \<Rightarrow>
    (vaultItemIdentity \<times> string list) list \<Rightarrow> bool \<Rightarrow> vaultItemIdentity list \<Rightarrow> resolution \<Rightarrow> resolution tx" where
  "releaseItems A provider token environmentID files references prepare [] r = tx_return r"
| "releaseItems A provider token environmentID files references prepare (i # is) r =
     tx_bind (releaseItem A provider token environmentID files references prepare i r)
       (releaseItems A provider token environmentID files references prepare is)"

definition releaseBundle :: "ReleaseManifest \<Rightarrow> string \<Rightarrow> bytes \<Rightarrow> resolution \<Rightarrow> ReleaseBundle" where
  "releaseBundle m format content r =
     \<lparr> bd_manifest = m, bd_generation = 0, bd_digest = [],
       bd_config = \<lparr> rc_format = format, rc_content = content, rc_revision = sp_config (mf_spec m),
                     rc_vault = elems (mf_vault m), rc_etag = [] \<rparr>,
       bd_files = map (\<lambda>f. (rl_path f, case map_of (rn_files r) (rl_path f) of None \<Rightarrow> None | Some b \<Rightarrow> b))
                    (specFiles (mf_spec m)),
       bd_etag = [] \<rparr>"

text \<open>The bundle, whose manifest has the revisions filled in when it is being prepared.\<close>

definition resolveRelease :: "yaml_codec \<Rightarrow> aead \<Rightarrow> LocalKeyProvider \<Rightarrow> Token option \<Rightarrow> bytes \<Rightarrow> bytes \<Rightarrow> ReleaseManifest \<Rightarrow>
    bool \<Rightarrow> ReleaseBundle tx" where
  "resolveRelease codec A provider token environmentID configID m prepare =
     (let spec = mf_spec m; files = specFiles spec in
      tx_bind (tx_query (findRevision configID environmentID (sp_config spec))) (\<lambda>row.
        case row of
          None \<Rightarrow> tx_fail ErrNotFound
        | Some c \<Rightarrow>
            if int (length (cr_content c)) > maxReleaseBytes then tx_fail ErrVaultIntegrity
            else
              tx_bind (readReferences configID environmentID (sp_config spec)) (\<lambda>references.
                let needed = neededItems files references in
                if length needed > 64 \<or> neededFields needed > 256 then tx_fail ErrValidation
                else if \<not> prepare \<and> length (elems (mf_vault m)) \<noteq> length needed then tx_fail ErrVaultIntegrity
                else
                  tx_bind (releaseItems A provider token environmentID files references prepare (map fst needed)
                            \<lparr> rn_vault = (if prepare then [] else elems (mf_vault m)), rn_values = [], rn_files = [],
                              rn_size = 0, rn_text = 0 \<rparr>) (\<lambda>r.
                    case Resolve codec (cr_format c) (cr_content c) (Some (valueLookup (rn_values r))) of
                      Inl _ \<Rightarrow> tx_fail ErrUnresolved
                    | Inr content \<Rightarrow>
                        if rn_size r + int (length content) > maxReleaseBytes then tx_fail ErrValidation
                        else
                          tx_return (releaseBundle (m\<lparr> mf_vault := if prepare then Some (rn_vault r) else mf_vault m \<rparr>)
                            (cr_format c) content r)))))"

section \<open>Requests and results\<close>

record ReleasePrepare =
  pp_operation :: string
  pp_actor :: actor
  pp_environment :: string
  pp_config :: string
  pp_release :: string
  pp_spec :: ReleaseSpec

record ReleaseActivate =
  pa_operation :: string
  pa_actor :: actor
  pa_environment :: string
  pa_config :: string
  pa_release :: string
  pa_expected :: u64

record ReleaseResult =
  rr_outcome :: Outcome
  rr_state :: ReleaseState
  rr_digest :: string

definition specJSON :: "ReleaseSpec \<Rightarrow> json" where
  "specJSON s = JObj (specMembers s)"

definition prepareDigest :: "env \<Rightarrow> ReleasePrepare \<Rightarrow> bytes" where
  "prepareDigest env r =
     sha256 env (compactJSON (JObj
       [(''OperationID'', JStr (pp_operation r)), (''Actor'', actorJSON (pp_actor r)),
        (''EnvironmentKey'', JStr (pp_environment r)), (''ConfigKey'', JStr (pp_config r)),
        (''ReleaseKey'', JStr (pp_release r)), (''Spec'', specJSON (pp_spec r))]))"

definition activateDigest :: "env \<Rightarrow> ReleaseActivate \<Rightarrow> bytes" where
  "activateDigest env r =
     sha256 env (compactJSON (JObj
       [(''OperationID'', JStr (pa_operation r)), (''Actor'', actorJSON (pa_actor r)),
        (''EnvironmentKey'', JStr (pa_environment r)), (''ConfigKey'', JStr (pa_config r)),
        (''ReleaseKey'', JStr (pa_release r)), (''ExpectedGeneration'', JNum (FormatUint (pa_expected r)))]))"

definition releaseResultJSON :: "ReleaseResult \<Rightarrow> json" where
  "releaseResultJSON r =
     JObj ([(''outcome'', JStr (outcomeText (rr_outcome r))), (''release_key'', JStr (re_key (rr_state r))),
            (''generation'', JNum (FormatUint (re_generation (rr_state r))))] @ omitText ''digest'' (rr_digest r))"

definition releaseResultOf :: "json \<Rightarrow> ReleaseResult option" where
  "releaseResultOf v =
     (case (isObject v, outcomeOf (member ''outcome'' v), asString (member ''release_key'' v),
            asUint64 (member ''generation'' v), asString (member ''digest'' v)) of
        (True, Some out, Some k, Some g, Some dg) \<Rightarrow>
          Some \<lparr> rr_outcome = out, rr_state = \<lparr> re_key = k, re_generation = g \<rparr>, rr_digest = dg \<rparr>
      | _ \<Rightarrow> None)"

definition replayRelease :: "operationReplay \<Rightarrow> err + ReleaseResult \<times> err option" where
  "replayRelease rp =
     (case releaseResultOf (replayResponse rp) of
        None \<Rightarrow> Inl ErrInternal
      | Some previous \<Rightarrow>
          if rr_outcome previous \<noteq> replayOutcome rp then Inl ErrInternal
          else Inr (previous, outcomeError (rr_outcome previous)))"

definition releaseEvent :: "string \<Rightarrow> string \<Rightarrow> string \<Rightarrow> string \<Rightarrow> mutationEvent" where
  "releaseEvent environment config release action =
     \<lparr> me_field = [], me_type = ''release.'' @ action, me_action = ''release.'' @ action,
       me_environment = environment, me_namespace = [], me_resource_type = ''release'',
       me_resource_key = config @ ''.'' @ release \<rparr>"

definition finishRelease :: "string \<Rightarrow> actor \<Rightarrow> string \<Rightarrow> string \<Rightarrow> string \<Rightarrow> string \<Rightarrow> ReleaseResult \<Rightarrow> err option \<Rightarrow>
    (ReleaseResult \<times> err option) tx" where
  "finishRelease oid act environment config release action res failure =
     tx_bind (finishOperation oid act (rr_outcome res) (re_generation (rr_state res)) (releaseResultJSON res)
       (releaseEvent environment config release action)
       (action = ''activate'' \<and> rr_outcome res = OutcomeSuccess)) (\<lambda>_.
     commitWith res (withCommittedAudit failure))"

text \<open>The token in the context of the calls below.\<close>

definition contextToken :: "actor \<Rightarrow> Token \<Rightarrow> Token option" where
  "contextToken act token = (if actorType act = ''token'' then Some token else None)"

section \<open>Preparing\<close>

definition finishPrepare :: "ReleasePrepare \<Rightarrow> Outcome \<Rightarrow> string \<Rightarrow> bytes \<Rightarrow> (ReleaseResult \<times> err option) tx" where
  "finishPrepare r out key digest =
     finishRelease (pp_operation r) (pp_actor r) (pp_environment r) (pp_config r) (pp_release r) ''prepare''
       \<lparr> rr_outcome = out, rr_state = \<lparr> re_key = key, re_generation = 0 \<rparr>, rr_digest = encodeHex digest \<rparr>
       (if out = OutcomeConflict then Some ErrConflict else None)"

definition prepareConflict :: "ReleasePrepare \<Rightarrow> (ReleaseResult \<times> err option) tx" where
  "prepareConflict r = finishPrepare r OutcomeConflict [] []"

text \<open>A release key that exists: the same specification changes nothing, another one is a conflict.\<close>

definition prepareAgain :: "yaml_codec \<Rightarrow> aead \<Rightarrow> LocalKeyProvider \<Rightarrow> Token option \<Rightarrow> bytes \<Rightarrow> bytes \<Rightarrow> ReleasePrepare \<Rightarrow>
    ReleaseManifest \<times> bytes \<Rightarrow> (ReleaseResult \<times> err option) tx" where
  "prepareAgain codec A provider token e c r old =
     (if compactJSON (specJSON (mf_spec (fst old))) \<noteq> compactJSON (specJSON (sortedReleaseSpec (pp_spec r)))
      then prepareConflict r
      else
        tx_bind (resolveRelease codec A provider token e c (fst old) False) (\<lambda>_.
          finishPrepare r OutcomeNoChange (pp_release r) (snd old)))"

text \<open>\<^verbatim>\<open>INSERT ... ON DUPLICATE KEY UPDATE resource_key = resource_key\<close>.\<close>

definition insertRelease :: "release_set_row \<Rightarrow> db \<Rightarrow> db \<times> nat" where
  "insertRelease row d =
     (if findRelease (rs_env row) (rs_config row) (rs_key row) d \<noteq> None then (d, 0)
      else (d\<lparr> release_sets := release_sets d @ [row] \<rparr>, 1))"

definition storeRelease :: "bytes \<Rightarrow> bytes \<Rightarrow> ReleasePrepare \<Rightarrow> ReleaseManifest \<Rightarrow> (ReleaseResult \<times> err option) tx" where
  "storeRelease e c r m =
     tx_bind (tx_env sha256) (\<lambda>sha.
       let digest = manifestDigest sha m in
       tx_bind (tx_execCount (insertRelease
         \<lparr> rs_env = e, rs_config = c, rs_key = pp_release r, rs_manifest = manifestJSON m, rs_digest = digest \<rparr>)) (\<lambda>rows.
         if rows \<noteq> 0 then finishPrepare r OutcomeSuccess (pp_release r) digest
         else
           tx_bind (tx_query (findRelease e c (pp_release r))) (\<lambda>actual.
             case actual of
               None \<Rightarrow> tx_fail ErrDatabase
             | Some row \<Rightarrow>
                 if rs_digest row \<noteq> digest then prepareConflict r
                 else finishPrepare r OutcomeNoChange (pp_release r) digest)))"

definition newManifest :: "ReleasePrepare \<Rightarrow> ReleaseManifest" where
  "newManifest r =
     \<lparr> mf_environment = pp_environment r, mf_config = pp_config r, mf_release = pp_release r,
       mf_spec = sortedReleaseSpec (pp_spec r), mf_vault = None \<rparr>"

definition prepareNew :: "yaml_codec \<Rightarrow> aead \<Rightarrow> LocalKeyProvider \<Rightarrow> Token option \<Rightarrow> bytes \<Rightarrow> bytes \<Rightarrow> u64 \<Rightarrow> ReleasePrepare \<Rightarrow>
    (ReleaseResult \<times> err option) tx" where
  "prepareNew codec A provider token e c revision r =
     (if revision \<noteq> sp_config (pp_spec r) then prepareConflict r
      else
        tx_handle (isErr ErrConflict) (resolveRelease codec A provider token e c (newManifest r) True)
          (\<lambda>_. prepareConflict r) (\<lambda>b. storeRelease e c r (bd_manifest b)))"

definition prepareBody :: "yaml_codec \<Rightarrow> aead \<Rightarrow> LocalKeyProvider \<Rightarrow> (json \<Rightarrow> nat) \<Rightarrow> Token option \<Rightarrow> ReleasePrepare \<Rightarrow>
    (ReleaseResult \<times> err option) tx" where
  "prepareBody codec A provider width token r =
     tx_bind (releaseRoot token (pp_environment r) (pp_config r)) (\<lambda>(e, c, revision).
       tx_handle (isErr ErrNotFound) (loadRelease width e c (pp_release r))
         (\<lambda>_. prepareNew codec A provider token e c revision r)
         (prepareAgain codec A provider token e c r))"

definition validPrepare :: "ReleasePrepare \<Rightarrow> bool" where
  "validPrepare r =
     (validOperationID (pp_operation r) \<and> validScopedActor (pp_actor r) \<and> validResourceKey (pp_environment r) \<and>
      validResourceKey (pp_config r) \<and> validResourceKey (pp_release r) \<and> validateReleaseSpec (pp_spec r))"

definition PrepareRelease :: "yaml_codec \<Rightarrow> aead \<Rightarrow> LocalKeyProvider \<Rightarrow> (json \<Rightarrow> nat) \<Rightarrow> ReleasePrepare \<Rightarrow> env \<Rightarrow> db \<Rightarrow>
    (err + ReleaseResult \<times> err option) \<times> db" where
  "PrepareRelease codec A provider width r env d =
     (if \<not> validPrepare r then (Inl ErrValidation, d)
      else
        run_tx
          (tx_bind (lockMasterKey A provider) (\<lambda>_.
           tx_bind (authorizeScopedWrite (pp_actor r) (pp_environment r) (pp_config r) []) (\<lambda>token.
             if actorType (pp_actor r) = ''token'' \<and>
                list_ex (\<lambda>f. \<not> AllowsNamespace token (rl_namespace f)) (specFiles (pp_spec r))
             then tx_fail ErrForbidden
             else
               journaled (pp_operation r) (prepareDigest env r) (pp_actor r) [] replayRelease
                 (prepareBody codec A provider width (contextToken (pp_actor r) token) r)))) env d)"

section \<open>Activating\<close>

definition ensureState :: "bytes \<Rightarrow> bytes \<Rightarrow> db \<Rightarrow> db" where
  "ensureState e c d =
     (if existsRow (\<lambda>r. rt_env r = e \<and> rt_config r = c) (release_states d) then d
      else d\<lparr> release_states := release_states d @ [\<lparr> rt_env = e, rt_config = c, rt_active = None, rt_generation = 0 \<rparr>] \<rparr>)"

definition setActive :: "bytes \<Rightarrow> bytes \<Rightarrow> string \<Rightarrow> u64 \<Rightarrow> db \<Rightarrow> db" where
  "setActive e c key generation d =
     d\<lparr> release_states := updateWhere (\<lambda>r. rt_env r = e \<and> rt_config r = c)
          (\<lambda>r. r\<lparr> rt_active := Some key, rt_generation := generation \<rparr>) (release_states d) \<rparr>"

definition finishActivate :: "ReleaseActivate \<Rightarrow> Outcome \<Rightarrow> ReleaseState \<Rightarrow> bytes \<Rightarrow> (ReleaseResult \<times> err option) tx" where
  "finishActivate r out st digest =
     finishRelease (pa_operation r) (pa_actor r) (pa_environment r) (pa_config r) (pa_release r) ''activate''
       \<lparr> rr_outcome = out, rr_state = st, rr_digest = encodeHex digest \<rparr>
       (if out = OutcomeConflict then Some ErrConflict else None)"

definition switchRelease :: "bytes \<Rightarrow> bytes \<Rightarrow> ReleaseActivate \<Rightarrow> ReleaseState \<Rightarrow> bytes \<Rightarrow> (ReleaseResult \<times> err option) tx" where
  "switchRelease e c r st digest =
     (if re_generation st \<noteq> pa_expected r then finishActivate r OutcomeConflict st []
      else if re_key st = pa_release r then finishActivate r OutcomeNoChange st digest
      else
        tx_bind (tx_exec (\<lambda>d. Some (setActive e c (pa_release r) (re_generation st + 1) d))) (\<lambda>_.
          finishActivate r OutcomeSuccess \<lparr> re_key = pa_release r, re_generation = re_generation st + 1 \<rparr> digest))"

definition activateBody :: "yaml_codec \<Rightarrow> aead \<Rightarrow> LocalKeyProvider \<Rightarrow> (json \<Rightarrow> nat) \<Rightarrow> Token option \<Rightarrow> ReleaseActivate \<Rightarrow>
    (ReleaseResult \<times> err option) tx" where
  "activateBody codec A provider width token r =
     tx_bind (releaseRoot token (pa_environment r) (pa_config r)) (\<lambda>(e, c, _).
     tx_bind (tx_exec (\<lambda>d. Some (ensureState e c d))) (\<lambda>_.
     tx_bind (tx_query (releaseState e c)) (\<lambda>st.
     tx_bind (loadRelease width e c (pa_release r)) (\<lambda>(m, digest).
     tx_bind (resolveRelease codec A provider token e c m False) (\<lambda>_.
       switchRelease e c r st digest)))))"

definition validActivate :: "ReleaseActivate \<Rightarrow> bool" where
  "validActivate r =
     (validOperationID (pa_operation r) \<and> validScopedActor (pa_actor r) \<and> validResourceKey (pa_environment r) \<and>
      validResourceKey (pa_config r) \<and> validResourceKey (pa_release r))"

definition ActivateRelease :: "yaml_codec \<Rightarrow> aead \<Rightarrow> LocalKeyProvider \<Rightarrow> (json \<Rightarrow> nat) \<Rightarrow> ReleaseActivate \<Rightarrow> env \<Rightarrow> db \<Rightarrow>
    (err + ReleaseResult \<times> err option) \<times> db" where
  "ActivateRelease codec A provider width r env d =
     (if \<not> validActivate r then (Inl ErrValidation, d)
      else
        run_tx
          (tx_bind (lockMasterKey A provider) (\<lambda>_.
           tx_bind (authorizeScopedWrite (pa_actor r) (pa_environment r) (pa_config r) []) (\<lambda>token.
             journaled (pa_operation r) (activateDigest env r) (pa_actor r) [] replayRelease
               (activateBody codec A provider width (contextToken (pa_actor r) token) r)))) env d)"

section \<open>Reading\<close>

definition ReadReleaseState :: "Token option \<Rightarrow> string \<Rightarrow> string \<Rightarrow> ReleaseState tx" where
  "ReadReleaseState token environment config =
     tx_bind (releaseRoot token environment config) (\<lambda>(e, c, _).
     tx_bind (tx_query (releaseState e c)) (\<lambda>st.
     tx_bind tx_commit (\<lambda>_. tx_return st)))"

definition releaseETag :: "bytes \<Rightarrow> u64 \<Rightarrow> string" where
  "releaseETag digest generation =
     CHR 0x22 # ''release-'' @ encodeHex digest @ ''-'' @ FormatUint generation @ [CHR 0x22]"

text \<open>The empty key asks for the active release.\<close>

definition selectRelease :: "bytes \<Rightarrow> bytes \<Rightarrow> string \<Rightarrow> (string \<times> u64) tx" where
  "selectRelease e c key =
     (if key \<noteq> [] then tx_return (key, 0)
      else
        tx_bind (tx_query (releaseState e c)) (\<lambda>st.
          if re_key st = [] then tx_fail ErrNotFound else tx_return (re_key st, re_generation st)))"

definition taggedBundle :: "ReleaseBundle \<Rightarrow> bytes \<Rightarrow> u64 \<Rightarrow> ReleaseBundle" where
  "taggedBundle b digest generation =
     b\<lparr> bd_generation := generation, bd_digest := encodeHex digest, bd_etag := releaseETag digest generation \<rparr>"

definition ReadRelease :: "yaml_codec \<Rightarrow> aead \<Rightarrow> LocalKeyProvider \<Rightarrow> (json \<Rightarrow> nat) \<Rightarrow> Token option \<Rightarrow> string \<Rightarrow> string \<Rightarrow>
    string \<Rightarrow> string \<Rightarrow> ReleaseBundle conditional tx" where
  "ReadRelease codec A provider width token environment config key ifNoneMatch =
     tx_bind (releaseRoot token environment config) (\<lambda>(e, c, _).
     tx_bind (selectRelease e c key) (\<lambda>(k, generation).
     tx_bind (loadRelease width e c k) (\<lambda>(m, digest).
       if mf_environment m \<noteq> environment \<or> mf_config m \<noteq> config then tx_fail ErrVaultIntegrity
       else
         tx_bind (resolveRelease codec A provider token e c m False) (\<lambda>b.
         tx_bind tx_commit (\<lambda>_.
           let tagged = taggedBundle b digest generation in
           tx_return (if ifNoneMatch = bd_etag tagged then NotModified tagged else Fresh tagged))))))"

section \<open>Serving\<close>

record release_repository =
  repo_release :: "Token option \<Rightarrow> string \<Rightarrow> string \<Rightarrow> string \<Rightarrow> string \<Rightarrow> err + ReleaseBundle conditional"
  repo_release_state :: "Token option \<Rightarrow> string \<Rightarrow> string \<Rightarrow> err + ReleaseState"

definition stateJSON :: "ReleaseState \<Rightarrow> json" where
  "stateJSON st =
     JObj [(''release_key'', JStr (re_key st)), (''generation'', JNum (FormatUint (re_generation st)))]"

definition bundleJSON :: "ReleaseBundle \<Rightarrow> json" where
  "bundleJSON b =
     JObj [(''manifest'', manifestJSON (bd_manifest b)), (''generation'', JNum (FormatUint (bd_generation b))),
           (''digest'', JStr (bd_digest b)), (''config'', resolvedConfigJSON (bd_config b)),
           (''files'', JArr (map (\<lambda>(p, c). JObj [(''path'', JStr (jsonText p)), (''bytes'', fileBytesJSON c)]) (bd_files b)))]"

definition releaseAccess :: "server \<Rightarrow> Token \<Rightarrow> Authentication \<Rightarrow> string \<Rightarrow> string \<Rightarrow> ReleaseBundle \<Rightarrow> AccessEvent" where
  "releaseAccess server token authentication environment config b =
     \<lparr> ac_time = sv_now server 1, ac_principal = tok_public token, ac_authentication = authentication,
       ac_environment = environment, ac_namespace = [], ac_resource_type = ''release'',
       ac_resource = config @ ''.'' @ mf_release (bd_manifest b), ac_config_revision = rc_revision (bd_config b),
       ac_vault_revisions = elems (mf_vault (bd_manifest b)) \<rparr>"

definition jsonAnswer :: "(string \<times> string) list \<Rightarrow> json \<Rightarrow> AccessEvent list \<Rightarrow> machine_response" where
  "jsonAnswer headers j events =
     \<lparr> rs_status = 200, rs_headers = noStore # headers @ [(''Content-Type'', ''application/json'')],
       rs_body = encoded j, rs_published = events \<rparr>"

text \<open>\<^verbatim>\<open>stated\<close> is a request for the state of the stream; an empty key is one for the active release.\<close>

definition readRelease :: "release_repository \<Rightarrow> server \<Rightarrow> machine_request \<Rightarrow> bool \<Rightarrow> string \<Rightarrow> string \<Rightarrow> string \<Rightarrow>
    machine_response" where
  "readRelease releases server request stated environment config key =
     (if \<not> validResourceKey environment \<or> \<not> validResourceKey config \<or> (key \<noteq> [] \<and> \<not> validResourceKey key)
      then writeError server 400 ''invalid_resource_key''
      else
        (case authenticate server request environment of (token, authentication, status) \<Rightarrow>
           if status \<noteq> 0 then writeError server status (statusCode status)
           else if \<not> AllowsConfig token config then writeError server 403 ''scope_forbidden''
           else if stated then
             (case repo_release_state releases (Some token) environment config of
                Inl e \<Rightarrow> configFailure server e
              | Inr st \<Rightarrow> jsonAnswer [] (stateJSON st) [])
           else
             (case repo_release releases (Some token) environment config key (rq_if_none_match request) of
                Inl e \<Rightarrow> configFailure server e
              | Inr (NotModified b) \<Rightarrow> notModified (bd_etag b)
              | Inr (Fresh b) \<Rightarrow>
                  jsonAnswer [(''ETag'', bd_etag b)] (bundleJSON b)
                    (if sv_written server \<and> rc_revision (bd_config b) > 0
                     then [releaseAccess server token authentication environment config b] else []))))"

end
