(* ===== verification/TokenLaws.thy ===== *)
theory TokenLaws
  imports Tokens
begin

text \<open>
  What the operations on tokens promise to the readers of \<^verbatim>\<open>machine/http.go\<close>: the text that a creation
  answers with authenticates as that token, for the environments it was granted; the rows stay
  readable by their decoder; and a revocation is final.
\<close>

section \<open>The text of a token\<close>

lemma hex_public: "length pub = 8 \<Longrightarrow> validPublicID (encodeHex pub) \<and> CHR ''_'' \<notin> set (encodeHex pub) \<and>
    CHR 0x0D \<notin> set (encodeHex pub) \<and> CHR 0x0A \<notin> set (encodeHex pub)"
proof -
  assume "length pub = 8"
  have alnum: "lowerChar c \<or> digitChar c" if "c \<in> set (encodeHex pub)" for c using encodeHex_alnum that .
  moreover have "\<not> (lowerChar c \<or> digitChar c)" if "c \<in> {CHR ''_'', CHR 0x0D, CHR 0x0A}" for c
    using that by (auto simp: inRange_def)
  ultimately show ?thesis using \<open>length pub = 8\<close> by (auto simp: validPublicID_def list_all_iff)
qed

lemma base64_safe: "c \<in> {CHR ''='', CHR 0x0D, CHR 0x0A} \<Longrightarrow> c \<notin> set (encodeBase64 b)"
  using set_encodeBase64 [of c b] by (auto simp: base64Alphabet_def)

lemma bearer_token:
  assumes "length pub = 8" and "length secret = 32"
  shows "bearerToken (''Bearer cfg_'' @ encodeHex pub @ ''_'' @ encodeBase64 secret) = Some (encodeHex pub, secret)"
proof -
  note pub = hex_public [OF assms(1)]
  have "encodeBase64 secret \<noteq> []" using assms(2) by auto
  moreover have "CHR 0x0D \<notin> set (''Bearer cfg_'' @ encodeHex pub @ ''_'' @ encodeBase64 secret)"
    "CHR 0x0A \<notin> set (''Bearer cfg_'' @ encodeHex pub @ ''_'' @ encodeBase64 secret)"
    using pub base64_safe by auto
  ultimately show ?thesis
    using pub base64_safe [of "CHR ''=''" secret] assms(2)
    by (auto simp: bearerToken_def bearerPrefix_def hasPrefix_def cutStr_append)
qed

section \<open>What a creation stores\<close>

definition tokenStored :: "env \<Rightarrow> TokenCreate \<Rightarrow> TokenCreateResult \<Rightarrow> db \<Rightarrow> db \<Rightarrow> bool" where
  "tokenStored env r res d d' =
     (\<exists>i pub secret placed.
        length i = 16 \<and> length pub = 8 \<and> length secret = 32 \<and>
        res = tokenResult r pub secret (tokenExpiry (now env) r) placed \<and>
        api_tokens d' = api_tokens d @ [tokenRow r i pub (sha256 env secret) (tokenExpiry (now env) r)] \<and>
        tokenRowAllowed (tokenRow r i pub (sha256 env secret) (tokenExpiry (now env) r)) d \<and>
        token_environments d' = token_environments d @ map (\<lambda>(_, e). \<lparr> te_token = i, te_env = e \<rparr>) placed \<and>
        environments d' = environments d \<and>
        map fst placed = sort (elems (tc_environments r)) \<and>
        (\<forall>(k, e) \<in> set placed. activeEnvironment k d = Some e))"

lemma environmentIDs_effect:
  "environmentIDs ks env s = (Inr placed, s') \<Longrightarrow>
    work s' = work s \<and> durable s' = durable s \<and> map fst placed = ks \<and>
    (\<forall>(k, e) \<in> set placed. activeEnvironment k (work s) = Some e)"
  by (induction ks arbitrary: s placed) (fastforce simp: tx_Inr split: option.splits)+

lemma activeEnvironmentIDs_effect:
  assumes "activeEnvironmentIDs ks env s = (Inr placed, s')"
  shows "work s' = work s \<and> durable s' = durable s \<and> map fst placed = sort ks \<and>
    (\<forall>(k, e) \<in> set placed. activeEnvironment k (work s) = Some e)"
  using assms environmentIDs_effect by (auto simp: activeEnvironmentIDs_def Let_def split: if_splits)

lemma insertGrants_effect:
  "tx_each (\<lambda>(_, e). tx_exec (insertGrant i e)) placed env s = (Inr (), s') \<Longrightarrow>
    work s' = (work s)\<lparr> token_environments := token_environments (work s) @
      map (\<lambda>(_, e). \<lparr> te_token = i, te_env = e \<rparr>) placed \<rparr> \<and> durable s' = durable s"
  by (induction placed arbitrary: s)
    (fastforce simp: tx_Inr insertGrant_def case_prod_unfold split: if_splits)+

lemma createTokenRecord_effect:
  assumes "createTokenRecord r env s = (Inr res, s')" and R: "sizedRandom (rand env)"
  shows "tokenStored env r res (work s) (work s') \<and> durable s' = durable s"
proof -
  obtain placed s1 i s2 pub s3 secret s4 s5 where
    1: "activeEnvironmentIDs (elems (tc_environments r)) env s = (Inr placed, s1)" and
    2: "randomID env s1 = (Inr i, s2)" "tx_random 8 env s2 = (Inr pub, s3)" "tx_random 32 env s3 = (Inr secret, s4)" and
    3: "tx_exec (insertToken (tokenRow r i pub (sha256 env secret) (tokenExpiry (now env) r)) (tokenExpiry (now env) r)) env s4 =
      (Inr (), s5)" and
    4: "tx_each (\<lambda>(_, e). tx_exec (insertGrant i e)) placed env s5 = (Inr (), s')" and
    res: "res = tokenResult r pub secret (tokenExpiry (now env) r) placed"
    using assms(1) by (auto simp: createTokenRecord_def tx_handle_Inr tx_bind_Inr tx_env_def)
  have lengths: "length i = 16" "length pub = 8" "length secret = 32"
    using 2 sizedRandom_length [OF R] by (auto simp: randomID_def tx_random_Inr)
  have "work s4 = work s1" "durable s4 = durable s1" using 2 by (auto simp: randomID_def tx_random_Inr)
  then show ?thesis
    using activeEnvironmentIDs_effect [OF 1] 3 insertGrants_effect [OF 4] res lengths unfolding tokenStored_def
    by (intro conjI exI [of _ i] exI [of _ pub] exI [of _ secret] exI [of _ placed])
      (auto simp: tx_exec_Inr insertToken_def split: if_splits)
qed

lemma finishTokenCreate_effect:
  assumes "finishTokenCreate r res env s = (Inr q, s')"
  shows "q = (res, None) \<and> data (durable s') = data (work s)"
  using finishCommit_effect [OF assms [unfolded finishTokenCreate_def]] .

lemma finishTokenCreateFailure_effect:
  assumes "finishTokenCreateFailure r cause env s = (Inr q, s')"
  shows "snd q \<noteq> None \<and> tr_outcome (fst q) = OutcomeValidationFailed \<and> data (durable s') = data (work s)"
  using assms
  by (cases cause) (auto simp: finishTokenCreateFailure_def Let_def noTokenResult_def withCommittedAudit_def
    dest!: finishCommit_effect)

lemma createTokenBody_effect:
  assumes "createTokenBody maxTTL r env s = (Inr (res, None), s')" and R: "sizedRandom (rand env)"
  shows "validateTokenCreate maxTTL (now env) r = None \<and>
    (\<exists>d1. tokenStored env r res (work s) d1 \<and> data (durable s') = data d1)"
proof (cases "validateTokenCreate maxTTL (now env) r")
  case None
  then have "tx_handle (isErr ErrValidation) (createTokenRecord r) (finishTokenCreateFailure r) (finishTokenCreate r) env s =
      (Inr (res, None), s')" using assms(1) by (simp add: createTokenBody_def tx_bind_def tx_env_def)
  then consider res1 s1 where "createTokenRecord r env s = (Inr res1, s1)" "finishTokenCreate r res1 env s1 = (Inr (res, None), s')"
    | e s1 where "finishTokenCreateFailure r e env s1 = (Inr (res, None), s')"
    unfolding tx_handle_Inr by blast
  then show ?thesis
  proof cases
    case 1
    have "res = res1" "data (durable s') = data (work s1)" using finishTokenCreate_effect [OF 1(2)] by auto
    moreover have "tokenStored env r res1 (work s) (work s1)" using createTokenRecord_effect [OF 1(1) R] by blast
    ultimately show ?thesis using None by blast
  next
    case 2
    then show ?thesis using finishTokenCreateFailure_effect by fastforce
  qed
next
  case (Some cause)
  then have "finishTokenCreateFailure r cause env s = (Inr (res, None), s')"
    using assms(1) by (simp add: createTokenBody_def tx_bind_def tx_env_def)
  then show ?thesis using finishTokenCreateFailure_effect by fastforce
qed

lemma tokenStored_data:
  assumes "tokenStored env r res d1 d1'" and "data d1 = data d" and "data d' = data d1'"
  shows "tokenStored env r res d d'"
  using assms(1) unfolding tokenStored_def tokenRowAllowed_def activeEnvironment_def
    data_tables(1,10,11) [OF assms(2) [symmetric]] data_tables(1,10,11) [OF assms(3)] .

lemma CreateToken_stored:
  assumes "CreateToken maxTTL r env d = (Inr (res, None), d')" and "opRow (tc_operation r) d = None"
    and R: "sizedRandom (rand env)"
  shows "validateTokenCreate maxTTL (now env) r = None \<and> tokenStored env r res d d'"
proof -
  obtain s where "journaled (tc_operation r) (tokenCreateDigest env r) (tc_actor r) [] replayTokenCreate
      (createTokenBody maxTTL r) env \<lparr> work = d, durable = d, tick = 1 \<rparr> = (Inr (res, None), s)" and d': "d' = durable s"
    using assms(1) by (auto simp: CreateToken_def run_tx_iff split: if_splits)
  then obtain s1 where s1: "data (work s1) = data d" and "createTokenBody maxTTL r env s1 = (Inr (res, None), s)"
    using journaled_first_at [of "tc_operation r" "tokenCreateDigest env r" "tc_actor r" "[]" replayTokenCreate
      "createTokenBody maxTTL r" env "\<lparr> work = d, durable = d, tick = 1 \<rparr>" "(res, None)" s] assms(2) by auto
  from createTokenBody_effect [OF this(2) R] obtain d1 where "validateTokenCreate maxTTL (now env) r = None"
    "tokenStored env r res (work s1) d1" "data (durable s) = data d1" by blast
  then show ?thesis using tokenStored_data [OF _ s1] d' by blast
qed

section \<open>What the readers see\<close>

text \<open>The keys of the tables: a grant is of a stored token, an environment has one row.\<close>

definition tokenTables :: "db \<Rightarrow> bool" where
  "tokenTables d =
     ((\<forall>g \<in> set (token_environments d). \<exists>t \<in> set (api_tokens d). tk_id t = te_token g) \<and>
      uniqueOn env_id (environments d))"

lemma scopeKeysIssue_None:
  "scopeKeysIssue field seen ks = None \<longleftrightarrow> list_all validResourceKey ks \<and> distinct ks \<and> set ks \<inter> seen = {}"
  by (induction ks arbitrary: seen) auto

lemma firstIssue_Cons [simp]: "firstIssue (i # is) = None \<longleftrightarrow> i = None \<and> firstIssue is = None"
  by (cases i) (simp_all add: firstIssue_def)

lemma firstIssue_Nil [simp]: "firstIssue [] = None"
  by (simp add: firstIssue_def)

lemma issueIf_None [simp]: "issueIf b f m = None \<longleftrightarrow> \<not> b"
  by (simp add: issueIf_def)

lemma validated_scope:
  "scopeIssue field (elems ks) = None \<Longrightarrow> decodeTokenScope ks \<noteq> None"
  by (auto simp: scopeIssue_def scopeKeysIssue_None decodeTokenScope_def validateScopeKeys_def elems_def
    split: option.splits if_splits)

lemma validated_row:
  assumes "validateTokenCreate maxTTL (now env) r = None" and "length i = 16" and "length dg = 32"
  shows "wellFormedToken (tokenRow r i pub dg (tokenExpiry (now env) r))"
  using assms
  by (auto simp: validateTokenCreate_def writeTokenIssue_def wellFormedToken_def tokenRow_def tokenExpiry_def
    TokenWriteScoped_def TokenReadOnly_def dest!: validated_scope split: if_splits)

text \<open>The token of a creation's result, as the readers see it.\<close>

definition issuedToken :: "TokenCreate \<Rightarrow> TokenCreateResult \<Rightarrow> bytes \<Rightarrow> Token" where
  "issuedToken r res dg =
     \<lparr> tok_public = tr_public res, tok_parent = tc_parent r, tok_digest = dg, tok_granted = True,
       tok_without_mtls = tc_without_mtls r,
       tok_expires = (case tr_expires res of None \<Rightarrow> 0 | Some at \<Rightarrow> datetime at), tok_revoked = False,
       tok_kind = tr_kind res, tok_configs = tc_configs r, tok_namespaces = tc_namespaces r,
       tok_fingerprint = tc_fingerprint r \<rparr>"

lemma stored_granted:
  assumes "tokenTables d" and "environments d' = environments d"
    and "token_environments d' = token_environments d @ map (\<lambda>(_, e). \<lparr> te_token = i, te_env = e \<rparr>) placed"
    and "map fst placed = sort ks" and "\<forall>(k, e) \<in> set placed. activeEnvironment k d = Some e"
    and "\<forall>t \<in> set (api_tokens d). tk_id t \<noteq> i"
  shows "environmentGranted False i k d' \<longleftrightarrow> k \<in> set ks"
proof
  assume "environmentGranted False i k d'"
  then obtain g e where g: "g \<in> set (token_environments d')" "te_token g = i"
    and e: "e \<in> set (environments d)" "env_id e = te_env g" "env_key e = k"
    using assms(2) by (auto simp: environmentGranted_def)
  have "g \<notin> set (token_environments d)" using assms(1,6) g(2) by (auto simp: tokenTables_def)
  then obtain k' i' where "(k', i') \<in> set placed" "g = \<lparr> te_token = i, te_env = i' \<rparr>" using g assms(3) by auto
  then have k': "(k', te_env g) \<in> set placed" by simp
  then obtain e' where "e' \<in> set (environments d)" "env_id e' = te_env g" "env_key e' = k'"
    using assms(5) by (fastforce simp: activeEnvironment_def dest: find_SomeD)
  then have "e' = e" using assms(1) e by (auto simp: tokenTables_def dest: uniqueOnD)
  then have "k = k'" using e \<open>env_key e' = k'\<close> by simp
  moreover have "k' \<in> set (map fst placed)" using k' by force
  ultimately show "k \<in> set ks" using assms(4) by simp
next
  assume "k \<in> set ks"
  then have "k \<in> set (map fst placed)" using assms(4) by simp
  then obtain e where e: "(k, e) \<in> set placed" by auto
  then have "activeEnvironment k d = Some e" using assms(5) by auto
  then obtain row where row: "row \<in> set (environments d')" "env_key row = k" "env_id row = e"
    using assms(2) by (auto simp: activeEnvironment_def dest: find_SomeD)
  have g: "\<lparr> te_token = i, te_env = e \<rparr> \<in> set (token_environments d')" using e by (force simp: assms(3))
  show "environmentGranted False i k d'"
    unfolding environmentGranted_def existsRow_iff by (rule bexI [OF _ g]) (use row in auto)
qed

lemma stored_token:
  assumes stored: "tokenStored env r res d d'"
    and valid: "\<And>i pub secret. length i = 16 \<Longrightarrow> wellFormedToken (tokenRow r i pub (sha256 env secret) (tokenExpiry (now env) r))"
    and "tokenTables d"
  obtains pub secret where
    "tr_public res = encodeHex pub" "length pub = 8" "length secret = 32"
    "tr_token res = ''cfg_'' @ encodeHex pub @ ''_'' @ encodeBase64 secret"
    "\<And>k. tokenFor (encodeHex pub) k d' =
      Inr ((issuedToken r res (sha256 env secret))\<lparr> tok_granted := (k \<in> set (elems (tc_environments r))) \<rparr>)"
proof -
  from stored obtain i pub secret placed where
    lengths: "length i = 16" "length pub = 8" "length secret = 32" and
    res: "res = tokenResult r pub secret (tokenExpiry (now env) r) placed" and
    rows: "api_tokens d' = api_tokens d @ [tokenRow r i pub (sha256 env secret) (tokenExpiry (now env) r)]"
      "tokenRowAllowed (tokenRow r i pub (sha256 env secret) (tokenExpiry (now env) r)) d"
      "token_environments d' = token_environments d @ map (\<lambda>(_, e). \<lparr> te_token = i, te_env = e \<rparr>) placed"
      "environments d' = environments d" "map fst placed = sort (elems (tc_environments r))"
      "\<forall>(k, e) \<in> set placed. activeEnvironment k d = Some e"
    unfolding tokenStored_def by blast
  let ?row = "tokenRow r i pub (sha256 env secret) (tokenExpiry (now env) r)"
  have new: "\<forall>t \<in> set (api_tokens d). tk_id t \<noteq> i \<and> tk_public_id t \<noteq> encodeHex pub"
    using rows(2) by (auto simp: tokenRowAllowed_def tokenRow_def)
  then have "find (\<lambda>t. tk_public_id t = encodeHex pub) (api_tokens d) = None" by (auto simp: find_None_iff)
  then have "findToken (encodeHex pub) d' = Some ?row" by (simp add: findToken_def rows(1)) (simp add: tokenRow_def)
  moreover have "wellFormedToken ?row" using valid [OF lengths(1)] .
  moreover have "environmentGranted False i k d' \<longleftrightarrow> k \<in> set (elems (tc_environments r))" for k
    using stored_granted [OF assms(3) rows(4,3,5,6)] new by blast
  ultimately have "tokenFor (encodeHex pub) k d' =
      Inr ((issuedToken r res (sha256 env secret))\<lparr> tok_granted := (k \<in> set (elems (tc_environments r))) \<rparr>)" for k
    by (simp add: tokenFor_def tokenOf_def issuedToken_def res tokenResult_def tokenRow_def nullableString_def)
  with that res lengths show thesis by (simp add: tokenResult_def)
qed

section \<open>Revocation is final\<close>

definition revokedIn :: "string \<Rightarrow> db \<Rightarrow> bool" where
  "revokedIn p d =
     (uniqueOn tk_public_id (api_tokens d) \<and> (\<exists>t \<in> set (api_tokens d). tk_public_id t = p \<and> tk_revoked t \<noteq> None))"

lemma onData_revokedIn: "onData (revokedIn p)"
  unfolding onData_def revokedIn_def by (metis data_tables(10))

lemma insertToken_rows:
  assumes "insertToken t e d = Some d'"
  shows "api_tokens d' = api_tokens d @ [t]"
    and "\<forall>q \<in> set (api_tokens d). tk_id q \<noteq> tk_id t \<and> tk_public_id q \<noteq> tk_public_id t"
proof -
  have "d' = d\<lparr> api_tokens := api_tokens d @ [t] \<rparr>" "tokenRowAllowed t d"
    using assms by (simp_all add: insertToken_def split: if_splits)
  then show "api_tokens d' = api_tokens d @ [t]"
    and "\<forall>q \<in> set (api_tokens d). tk_id q \<noteq> tk_id t \<and> tk_public_id q \<noteq> tk_public_id t"
    by (auto simp: tokenRowAllowed_def)
qed

lemma revokedIn_insert: "revokedIn p d \<Longrightarrow> insertToken t e d = Some d' \<Longrightarrow> revokedIn p d'"
  using insertToken_rows [of t e d d'] by (auto simp: revokedIn_def uniqueOn_def)

lemma revokedIn_tokens: "revokedIn p d \<Longrightarrow> api_tokens d' = api_tokens d \<Longrightarrow> revokedIn p d'"
  by (simp add: revokedIn_def)

lemma revokedIn_revoke: "revokedIn p d \<Longrightarrow> revokeTokens q at d = Some d' \<Longrightarrow> revokedIn p d'"
proof -
  assume p: "revokedIn p d" and d': "revokeTokens q at d = Some d'"
  let ?f = "\<lambda>t. if ofToken q t then t\<lparr> tk_revoked := revokedAt at (tk_revoked t) \<rparr> else t"
  have rows: "api_tokens d' = map ?f (api_tokens d)" using d' by (auto simp: revokeTokens_def updateWhere_def)
  have "map tk_public_id (api_tokens d') = map tk_public_id (api_tokens d)" by (simp add: rows)
  moreover obtain t where "t \<in> set (api_tokens d)" "tk_public_id t = p" "tk_revoked t \<noteq> None"
    using p by (auto simp: revokedIn_def)
  then have "?f t \<in> set (api_tokens d')" "tk_public_id (?f t) = p" "tk_revoked (?f t) \<noteq> None"
    by (auto simp: rows revokedAt_def split: option.splits)
  ultimately show ?thesis using p unfolding revokedIn_def uniqueOn_def by metis
qed

lemmas token_statements = addGrant_def insertGrant_def removeGrant_def clearGrants_def

lemma preserves_changedRows [preserves_intros]:
  "(\<And>f d. f \<in> set fs \<Longrightarrow> P d \<Longrightarrow> P (fst (f d))) \<Longrightarrow> preserves P (changedRows fs)"
  by (induction fs) (auto intro!: preserves_intros)

lemma preserves_environmentIDs [preserves_intros]: "preserves P (environmentIDs ks)"
  by (induction ks) (auto intro!: preserves_intros)

lemmas token_bodies = createTokenBody_def createTokenRecord_def activeEnvironmentIDs_def finishTokenCreate_def
  finishTokenCreateFailure_def randomID_def Let_def setTokenEnvironmentsBody_def finishTokenEnvironments_def
  finishTokenEnvironmentFailure_def revokeTokenBody_def finishTokenRevoke_def
  finishTokenRevokeFailure_def revokeTokenAndDeployments_def

text \<open>A property of the tables that the statements on tokens keep.\<close>

definition rowsKept :: "(db \<Rightarrow> bool) \<Rightarrow> bool" where
  "rowsKept P =
     (onData P \<and> (\<forall>d q at d'. P d \<longrightarrow> revokeTokens q at d = Some d' \<longrightarrow> P d') \<and>
      (\<forall>d q at d'. P d \<longrightarrow> revokeCertificates q at d = Some d' \<longrightarrow> P d') \<and>
      (\<forall>d d'. P d \<longrightarrow> api_tokens d' = api_tokens d \<longrightarrow> certificates d' = certificates d \<longrightarrow> P d'))"

definition tokenKept :: "(db \<Rightarrow> bool) \<Rightarrow> bool" where
  "tokenKept P = (rowsKept P \<and> (\<forall>d t e d'. P d \<longrightarrow> insertToken t e d = Some d' \<longrightarrow> P d'))"

lemma rowsKeptD:
  assumes "rowsKept P"
  shows "onData P" "P d \<Longrightarrow> revokeTokens q at d = Some d' \<Longrightarrow> P d'" "P d \<Longrightarrow> revokeCertificates q at d = Some d' \<Longrightarrow> P d'"
    "P d \<Longrightarrow> api_tokens d' = api_tokens d \<Longrightarrow> certificates d' = certificates d \<Longrightarrow> P d'"
  using assms unfolding rowsKept_def by blast+

lemma tokenKeptD:
  assumes "tokenKept P"
  shows "rowsKept P" "P d \<Longrightarrow> insertToken t e d = Some d' \<Longrightarrow> P d'"
  using assms unfolding tokenKept_def by blast+

lemma rowsKept_grants:
  assumes "rowsKept P" and "P d"
  shows "P (fst (addGrant i e d))" "P (fst (removeGrant i k d))" "insertGrant i e d = Some d' \<Longrightarrow> P d'"
    "clearGrants i d = Some d' \<Longrightarrow> P d'"
  using assms rowsKeptD(4) [OF assms]
  by (auto simp: token_statements split: if_splits)

lemma preserves_grants:
  assumes "rowsKept P"
  shows "preserves P ((if b then patchGrants else replaceGrants) r i placed)"
proof -
  note kept = rowsKeptD [OF assms] rowsKept_grants [OF assms]
  have "preserves P (patchGrants r i placed)"
    unfolding patchGrants_def by (intro preserves_intros) (auto intro: kept)
  moreover have "preserves P (replaceGrants r i placed)"
    unfolding replaceGrants_def Let_def by (intro preserves_intros; (rule kept; assumption)?)
  ultimately show ?thesis by simp
qed

lemma preserves_rows:
  assumes "rowsKept P"
  shows "preserves P (setTokenEnvironmentsBody e)" "preserves P (revokeTokenBody q)"
proof -
  note kept = rowsKeptD [OF assms] rowsKept_grants [OF assms]
  show "preserves P (revokeTokenBody q)"
    unfolding token_bodies by (intro preserves_intros kept(1); (rule kept; assumption)?)+
  show "preserves P (setTokenEnvironmentsBody e)"
    unfolding token_bodies by (intro preserves_intros kept(1) preserves_grants [OF assms])
qed

lemma preserves_create:
  assumes "tokenKept P"
  shows "preserves P (createTokenBody maxTTL r)"
proof -
  note rows = tokenKeptD(1) [OF assms]
  note kept = rowsKeptD [OF rows] rowsKept_grants [OF rows] tokenKeptD(2) [OF assms]
  show ?thesis unfolding token_bodies by (intro preserves_intros kept(1); (rule kept; assumption)?)+
qed

lemma preserves_run:
  assumes "preserves P m" and "P d"
  shows "P (snd (run_tx m env d))"
  using run_tx_preserves [OF assms(1) prod.collapse [symmetric] assms(2)] .

lemma kept_changes:
  assumes "rowsKept P" and "P d"
  shows "P (snd (SetTokenEnvironments e env d))" and "P (snd (RevokeToken q env d))"
  using preserves_run [OF preserves_journaled [OF rowsKeptD(1) [OF assms(1)] preserves_rows(1) [OF assms(1)]] assms(2)]
    preserves_run [OF preserves_journaled [OF rowsKeptD(1) [OF assms(1)] preserves_rows(2) [OF assms(1)]] assms(2)] assms(2)
  by (simp_all add: SetTokenEnvironments_def RevokeToken_def)

lemma kept_create:
  assumes "tokenKept P" and "P d"
  shows "P (snd (CreateToken maxTTL r env d))"
  using preserves_run [OF preserves_journaled [OF rowsKeptD(1) [OF tokenKeptD(1) [OF assms(1)]] preserves_create [OF assms(1)]] assms(2)]
    assms(2)
  by (simp add: CreateToken_def)

section \<open>Every row stays readable\<close>

definition readableTokens :: "db \<Rightarrow> bool" where
  "readableTokens d = list_all wellFormedToken (api_tokens d)"

lemma readable_data: "data d' = data d \<Longrightarrow> readableTokens d' = readableTokens d"
  unfolding readableTokens_def by (drule data_tables(10)) simp

lemma quiet_changedRows [quiet_intros]: "quiet (changedRows fs)"
  by (induction fs) (auto intro!: quiet_intros)

lemma steady_changedRows [steady_intros]: "steady (changedRows fs)"
  by (induction fs) (auto intro!: steady_intros)

lemma quiet_environmentIDs [quiet_intros]: "quiet (environmentIDs ks)"
  by (induction ks) (auto intro!: quiet_intros)

lemma steady_environmentIDs [steady_intros]: "steady (environmentIDs ks)"
  by (induction ks) (auto intro!: steady_intros)

lemma quiet_tokenRecord [quiet_intros]: "quiet (createTokenRecord r)"
  unfolding createTokenRecord_def activeEnvironmentIDs_def Let_def randomID_def by (intro quiet_intros)

lemma steady_tokenRecord [steady_intros]: "steady (createTokenRecord r)"
  unfolding createTokenRecord_def activeEnvironmentIDs_def Let_def randomID_def by (intro steady_intros) simp_all

lemma atomic_finishToken [atomic_intros]:
  "atomic (finishTokenCreate r res)" "atomic (finishTokenCreateFailure r cause)"
  unfolding finishTokenCreate_def finishTokenCreateFailure_def Let_def
  by (intro atomic_intros quiet_intros steady_intros)+

lemma steady_finishToken [steady_intros]:
  "steady (finishTokenCreate r res)" "steady (finishTokenCreateFailure r cause)"
  unfolding finishTokenCreate_def finishTokenCreateFailure_def Let_def by (intro steady_intros)+

lemma CreateToken_atomic: "allOrNothing (CreateToken maxTTL r)"
  unfolding CreateToken_def createTokenBody_def
  by (intro allOrNothing_guard allOrNothing_env atomic_intros steady_intros quiet_intros)
    (simp_all add: tokenCreateDigest_def)

text \<open>The errors a call can end with.\<close>

definition raises :: "err set \<Rightarrow> 'a tx \<Rightarrow> bool" where
  "raises E m = (\<forall>env s e s'. m env s = (Inl e, s') \<longrightarrow> e \<in> E)"

lemma raises_calls:
  "raises {ErrDatabase, ErrInternal} (tx_return x)" "raises {ErrDatabase, ErrInternal} (tx_env g)"
  "raises {ErrDatabase, ErrInternal} (tx_exec h)" "raises {ErrDatabase, ErrInternal} (tx_random n)"
  by (auto simp: raises_def tx_return_def tx_env_def tx_exec_def tx_random_def split: if_splits option.splits)

lemma raises_bind: "raises E m \<Longrightarrow> (\<And>a. raises E (f a)) \<Longrightarrow> raises E (tx_bind m f)"
  unfolding raises_def tx_bind_def by (fastforce split: prod.splits sum.splits)

lemma raises_each: "raises {ErrDatabase, ErrInternal} (tx_each (\<lambda>(_, e). tx_exec (h e)) xs)"
  by (induction xs) (auto intro!: raises_bind raises_calls)

lemma raises_prod: "(\<And>a b. raises E (f a b)) \<Longrightarrow> raises E (case x of (a, b) \<Rightarrow> f a b)"
  by (cases x) simp

lemma createTokenRecord_error:
  assumes "createTokenRecord r env s = (Inl y, s1)" and "isErr ErrValidation y"
  shows "work s1 = work s"
  using assms(1) unfolding createTokenRecord_def tx_handle_Inr
proof (elim disjE exE conjE)
  fix placed s2
  assume rest: "tx_bind randomID (\<lambda>i. tx_bind (tx_random 8) (\<lambda>pub. tx_bind (tx_random 32) (\<lambda>secret.
      tx_bind (tx_env (\<lambda>env. (now env, sha256 env secret))) (\<lambda>(at, secretDigest).
      tx_bind (tx_exec (insertToken (tokenRow r i pub secretDigest (tokenExpiry at r)) (tokenExpiry at r))) (\<lambda>_.
      tx_bind (tx_each (\<lambda>(_, e). tx_exec (insertGrant i e)) placed) (\<lambda>_.
        tx_return (tokenResult r pub secret (tokenExpiry at r) placed))))))) env s2 = (Inl y, s1)"
  have "raises {ErrDatabase, ErrInternal} (tx_bind randomID (\<lambda>i. tx_bind (tx_random 8) (\<lambda>pub. tx_bind (tx_random 32) (\<lambda>secret.
      tx_bind (tx_env (\<lambda>env. (now env, sha256 env secret))) (\<lambda>(at, secretDigest).
      tx_bind (tx_exec (insertToken (tokenRow r i pub secretDigest (tokenExpiry at r)) (tokenExpiry at r))) (\<lambda>_.
      tx_bind (tx_each (\<lambda>(_, e). tx_exec (insertGrant i e)) placed) (\<lambda>_.
        tx_return (tokenResult r pub secret (tokenExpiry at r) placed))))))))"
    unfolding randomID_def by (intro raises_bind raises_calls raises_each raises_prod)
  then have "y = ErrDatabase \<or> y = ErrInternal" using rest by (auto simp: raises_def)
  then show ?thesis using assms(2) by auto
next
  have kept: "preserves (\<lambda>d. d = work s) (activeEnvironmentIDs (elems (tc_environments r)))"
    unfolding activeEnvironmentIDs_def Let_def by (intro preserves_intros)
  fix e s2
  assume "activeEnvironmentIDs (elems (tc_environments r)) env s = (Inl e, s2)"
    and "tx_fail (tokenIssue ''environment_keys'' ''environment_unavailable'') env s2 = (Inl y, s1)"
  then show ?thesis using preservesD [OF kept] by auto
next
  have kept: "preserves (\<lambda>d. d = work s) (activeEnvironmentIDs (elems (tc_environments r)))"
    unfolding activeEnvironmentIDs_def Let_def by (intro preserves_intros)
  fix e
  assume "activeEnvironmentIDs (elems (tc_environments r)) env s = (Inl e, s1)"
  then show ?thesis using preservesD [OF kept] by auto
qed

lemma createTokenBody_cases:
  assumes "createTokenBody maxTTL r env s = (Inr (res, e), s')" and R: "sizedRandom (rand env)"
  shows "(e = None \<and> validateTokenCreate maxTTL (now env) r = None \<and>
      (\<exists>d1. tokenStored env r res (work s) d1 \<and> data (durable s') = data d1)) \<or> data (durable s') = data (work s)"
proof (cases e)
  case None
  then show ?thesis using createTokenBody_effect assms by blast
next
  case (Some x)
  show ?thesis
  proof (cases "validateTokenCreate maxTTL (now env) r")
    case None
    then have "tx_handle (isErr ErrValidation) (createTokenRecord r) (finishTokenCreateFailure r) (finishTokenCreate r) env s =
        (Inr (res, e), s')" using assms(1) by (simp add: createTokenBody_def tx_bind_def tx_env_def)
    then consider res1 s1 where "finishTokenCreate r res1 env s1 = (Inr (res, e), s')"
      | y s1 where "createTokenRecord r env s = (Inl y, s1)" "isErr ErrValidation y" "finishTokenCreateFailure r y env s1 = (Inr (res, e), s')"
      unfolding tx_handle_Inr by blast
    then show ?thesis
    proof cases
      case 1
      then show ?thesis using finishTokenCreate_effect Some by fastforce
    next
      case 2
      then show ?thesis using createTokenRecord_error finishTokenCreateFailure_effect by metis
    qed
  next
    case (Some cause)
    then have "finishTokenCreateFailure r cause env s = (Inr (res, e), s')"
      using assms(1) by (simp add: createTokenBody_def tx_bind_def tx_env_def)
    then show ?thesis using finishTokenCreateFailure_effect by fastforce
  qed
qed

lemma stored_readable:
  assumes "tokenStored env r res d d'" and "validateTokenCreate maxTTL (now env) r = None"
    and "\<And>b. length (sha256 env b) = 32" and "readableTokens d"
  shows "readableTokens d'"
  using assms(1,4) validated_row [OF assms(2) _ assms(3)] by (auto simp: tokenStored_def readableTokens_def)

lemma allOrNothing_at:
  assumes "allOrNothing f" and "\<And>a d'. f (nofault env) d = (Inr a, d') \<Longrightarrow> P d'" and "P d"
  shows "P (snd (f env d))"
  using assms unfolding allOrNothing_def by (metis prod.collapse sum.collapse)

lemma created_readable:
  assumes "CreateToken maxTTL r env d = (Inr (res, e), d')" and R: "sizedRandom (rand env)"
    and sha: "\<And>b. length (sha256 env b) = 32" and "readableTokens d"
  shows "readableTokens d'"
proof -
  obtain s where j: "journaled (tc_operation r) (tokenCreateDigest env r) (tc_actor r) [] replayTokenCreate
      (createTokenBody maxTTL r) env \<lparr> work = d, durable = d, tick = 1 \<rparr> = (Inr (res, e), s)" and d': "d' = durable s"
    using assms(1) by (auto simp: CreateToken_def run_tx_iff split: if_splits)
  show ?thesis
  proof (cases "opRow (tc_operation r) d = None")
    case True
    then obtain s1 where s1: "data (work s1) = data d" and body: "createTokenBody maxTTL r env s1 = (Inr (res, e), s)"
      using journaled_first_at [OF j] by auto
    from createTokenBody_cases [OF body R] show ?thesis
      using stored_readable [OF _ _ sha] readable_data [OF s1] readable_data assms(4) d' by metis
  next
    case False
    then show ?thesis using journaled_seen_at [OF j] assms(4) d' by simp
  qed
qed

lemma CreateToken_readable:
  assumes "sizedRandom (rand env)" and "\<And>b. length (sha256 env b) = 32" and "readableTokens d"
  shows "readableTokens (snd (CreateToken maxTTL r env d))"
  by (rule allOrNothing_at [OF CreateToken_atomic]) (use created_readable assms in fastforce)+

lemma wellFormed_revoke: "wellFormedToken t \<Longrightarrow> wellFormedToken (t\<lparr> tk_revoked := x \<rparr>)"
  by (simp add: wellFormedToken_def)

lemma readable_rows: "rowsKept readableTokens"
proof -
  have "onData readableTokens" unfolding onData_def using readable_data by blast
  then show ?thesis
    using wellFormed_revoke
    by (auto simp: rowsKept_def readableTokens_def revokeTokens_def revokeCertificates_def list_all_iff set_updateWhere)
qed

lemma revokeCertificates_tokens: "revokeCertificates q at d = Some d' \<Longrightarrow> api_tokens d' = api_tokens d"
  by (auto simp: revokeCertificates_def)

lemma revoked_kept: "tokenKept (revokedIn p)"
  using onData_revokedIn revokedIn_insert revokedIn_revoke revokedIn_tokens revokeCertificates_tokens
  unfolding tokenKept_def rowsKept_def by blast

section \<open>What a revocation does\<close>

lemma finishTokenRevoke_effect:
  assumes "finishTokenRevoke r out env s = (Inr q, s')"
  shows "tk_outcome (fst q) = out \<and> snd q = None \<and> data (durable s') = data (work s)"
  using assms by (auto simp: finishTokenRevoke_def Let_def dest!: finishCommit_effect)

lemma finishTokenRevokeFailure_effect:
  assumes "finishTokenRevokeFailure r env s = (Inr q, s')"
  shows "snd q \<noteq> None"
  using assms by (auto simp: finishTokenRevokeFailure_def Let_def withCommittedAudit_def dest!: finishCommit_effect)

text \<open>What a successful revocation leaves of the rows.\<close>

definition revokedBy :: "TokenRevoke \<Rightarrow> TokenRevokeResult \<Rightarrow> db \<Rightarrow> db \<Rightarrow> bool" where
  "revokedBy r res d d' =
     ((tk_outcome res = OutcomeNoChange \<and> api_tokens d' = api_tokens d \<and>
        (\<exists>t. findToken (tx_public r) d = Some t \<and> tk_revoked t \<noteq> None)) \<or>
      (tk_outcome res = OutcomeSuccess \<and>
        (\<exists>at. api_tokens d' =
             updateWhere (ofToken (tx_public r)) (\<lambda>t. t\<lparr> tk_revoked := revokedAt at (tk_revoked t) \<rparr>) (api_tokens d) \<and>
           certificates d' =
             updateWhere (\<lambda>c. existsRow (\<lambda>t. ofToken (tx_public r) t \<and> tk_fingerprint t = Some (ct_fingerprint c)) (api_tokens d))
               (\<lambda>c. c\<lparr> ct_revoked := revokedAt at (ct_revoked c) \<rparr>) (certificates d))))"

lemma revokedBy_tables:
  assumes "revokedBy r res d1 d1'" and "api_tokens d = api_tokens d1" and "api_tokens d' = api_tokens d1'"
    and "certificates d = certificates d1" and "certificates d' = certificates d1'"
  shows "revokedBy r res d d'"
  using assms(1) unfolding revokedBy_def findToken_def assms(2-) .

lemma revokeTokenBody_effect:
  assumes "revokeTokenBody r env s = (Inr (res, None), s')"
  shows "revokedBy r res (work s) (durable s')"
proof -
  obtain t where t: "findToken (tx_public r) (work s) = Some t" and
    run: "(if tk_revoked t \<noteq> None then finishTokenRevoke r OutcomeNoChange
           else tx_bind (revokeTokenAndDeployments (tx_public r)) (\<lambda>_. finishTokenRevoke r OutcomeSuccess)) env
      (s\<lparr> tick := Suc (tick s) \<rparr>) = (Inr (res, None), s')"
    using assms finishTokenRevokeFailure_effect [of r env]
    by (auto simp: revokeTokenBody_def tx_bind_Inr tx_query_Inr split: if_splits option.splits) fastforce+
  show ?thesis
  proof (cases "tk_revoked t = None")
    case True
    then obtain d1 d2 where rows: "revokeCertificates (tx_public r) (db_now env) (work s) = Some d1"
      "revokeTokens (tx_public r) (db_now env) d1 = Some d2"
      and f: "finishTokenRevoke r OutcomeSuccess env (s\<lparr> work := d2, tick := Suc (Suc (Suc (tick s))) \<rparr>) = (Inr (res, None), s')"
      using run by (auto simp: revokeTokenAndDeployments_def tx_bind_Inr tx_exec_Inr tx_env_def)
    have out: "tk_outcome res = OutcomeSuccess" and "data (durable s') = data d2"
      using finishTokenRevoke_effect [OF f] by auto
    note tables = data_tables(10,12) [OF this(2)]
    have "api_tokens (durable s') =
        updateWhere (ofToken (tx_public r)) (\<lambda>t. t\<lparr> tk_revoked := revokedAt (db_now env) (tk_revoked t) \<rparr>) (api_tokens (work s))"
      "certificates (durable s') =
        updateWhere (\<lambda>c. existsRow (\<lambda>t. ofToken (tx_public r) t \<and> tk_fingerprint t = Some (ct_fingerprint c)) (api_tokens (work s)))
          (\<lambda>c. c\<lparr> ct_revoked := revokedAt (db_now env) (ct_revoked c) \<rparr>) (certificates (work s))"
      using tables rows by (auto simp: revokeCertificates_def revokeTokens_def)
    then show ?thesis using out unfolding revokedBy_def by blast
  next
    case False
    then have f: "finishTokenRevoke r OutcomeNoChange env (s\<lparr> tick := Suc (tick s) \<rparr>) = (Inr (res, None), s')"
      using run by simp
    have "tk_outcome res = OutcomeNoChange" "api_tokens (durable s') = api_tokens (work s)"
      using finishTokenRevoke_effect [OF f] data_tables(10) [of "durable s'" "work s"] by auto
    then show ?thesis using t False unfolding revokedBy_def by blast
  qed
qed

lemma RevokeToken_first:
  assumes "RevokeToken r env d = (Inr (res, None), d')" and "opRow (tx_operation r) d = None"
  shows "revokedBy r res d d'"
proof -
  obtain s where j: "journaled (tx_operation r) (tokenRevokeDigest env r) (tx_actor r) [] replayTokenRevoke
      (revokeTokenBody r) env \<lparr> work = d, durable = d, tick = 1 \<rparr> = (Inr (res, None), s)" and d': "d' = durable s"
    using assms(1) by (auto simp: RevokeToken_def run_tx_iff split: if_splits)
  then obtain s1 where s1: "data (work s1) = data d" and "revokeTokenBody r env s1 = (Inr (res, None), s)"
    using journaled_first_at [OF j] assms(2) by auto
  from revokeTokenBody_effect [OF this(2)] have "revokedBy r res (work s1) d'" using d' by simp
  then show ?thesis by (rule revokedBy_tables) (simp_all add: data_tables(10,12) [OF s1])
qed

text \<open>The tokens a revocation ends: the named one, and when it was live those issued from it.\<close>

definition ends :: "TokenRevoke \<Rightarrow> TokenRevokeResult \<Rightarrow> api_token_row \<Rightarrow> bool" where
  "ends r res t =
     (tk_public_id t = tx_public r \<or> (tk_outcome res = OutcomeSuccess \<and> tk_parent t = Some (tx_public r)))"

lemma revokedBy_ends:
  assumes "revokedBy r res d d'" and "uniqueOn tk_public_id (api_tokens d)" and "t \<in> set (api_tokens d)" and "ends r res t"
  shows "revokedIn (tk_public_id t) d'"
  using assms(1) unfolding revokedBy_def
proof (elim disjE exE conjE)
  fix u
  assume same: "api_tokens d' = api_tokens d" and out: "tk_outcome res = OutcomeNoChange"
    and u: "findToken (tx_public r) d = Some u" "tk_revoked u \<noteq> None"
  have "u \<in> set (api_tokens d)" "tk_public_id u = tx_public r" using u(1) by (auto simp: findToken_def dest: find_SomeD)
  moreover have "tk_public_id t = tx_public r" using assms(4) out by (auto simp: ends_def)
  ultimately show ?thesis using u(2) assms(2) same by (auto simp: revokedIn_def)
next
  fix at
  let ?f = "\<lambda>t. if ofToken (tx_public r) t then t\<lparr> tk_revoked := revokedAt at (tk_revoked t) \<rparr> else t"
  assume "api_tokens d' =
    updateWhere (ofToken (tx_public r)) (\<lambda>t. t\<lparr> tk_revoked := revokedAt at (tk_revoked t) \<rparr>) (api_tokens d)"
  then have rows: "api_tokens d' = map ?f (api_tokens d)" by (simp add: updateWhere_def)
  have "?f t \<in> set (api_tokens d')" using assms(3) rows by simp
  moreover have "ofToken (tx_public r) t" using assms(4) by (auto simp: ends_def ofToken_def)
  then have "tk_public_id (?f t) = tk_public_id t" "tk_revoked (?f t) \<noteq> None"
    by (auto simp: revokedAt_def split: option.splits)
  moreover have "map tk_public_id (api_tokens d') = map tk_public_id (api_tokens d)" by (simp add: rows)
  ultimately show ?thesis using assms(2) unfolding revokedIn_def uniqueOn_def by metis
qed

lemma revoked_rejected:
  assumes "revokedIn p d" and "tokenFor p e d = Inr t"
  shows "tok_revoked t"
proof -
  from assms(1) obtain q where q: "q \<in> set (api_tokens d)" "tk_public_id q = p" "tk_revoked q \<noteq> None"
    and unique: "uniqueOn tk_public_id (api_tokens d)" by (auto simp: revokedIn_def)
  have "findToken p d = Some q" unfolding findToken_def by (rule find_unique [OF unique q(1)]) (use q in auto)
  then show ?thesis using assms(2) q(3) by (auto simp: tokenFor_def tokenOf_def split: if_splits)
qed

end
