(* ===== verification/ReleaseLaws.thy ===== *)
theory ReleaseLaws
  imports Releases TokenLaws
begin

text \<open>
  What the reading of releases reads, as functions of the tables; that a release never changes once
  it was prepared, whatever is prepared or activated after it; and that an activation moves the
  active release of one stream by compare-and-set.
\<close>

section \<open>What the reading calls read\<close>

definition rootOf :: "Token option \<Rightarrow> string \<Rightarrow> string \<Rightarrow> db \<Rightarrow> err + bytes \<times> bytes \<times> u64" where
  "rootOf token environment config d =
     (if (case token of None \<Rightarrow> False | Some t \<Rightarrow> \<not> AllowsConfig t config) then Inl ErrForbidden
      else (case releaseAnchor environment config d of None \<Rightarrow> Inl ErrNotFound | Some r \<Rightarrow> Inr r))"

lemma reads_root [reads_intros]: "reads (releaseRoot token environment config) (\<lambda>_ d. rootOf token environment config d)"
proof -
  have "reads (releaseRoot token environment config) (\<lambda>env d.
      if (case token of None \<Rightarrow> False | Some t \<Rightarrow> \<not> AllowsConfig t config) then Inl ErrForbidden
      else resultBind (Inr (releaseAnchor environment config d)) (\<lambda>root.
        case root of None \<Rightarrow> Inl ErrNotFound | Some r \<Rightarrow> Inr r))"
    unfolding releaseRoot_def by (intro reads_intros)
  then show ?thesis by (simp add: rootOf_def [abs_def] cong: if_cong)
qed

definition releaseIn :: "(json \<Rightarrow> nat) \<Rightarrow> (bytes \<Rightarrow> bytes) \<Rightarrow> bytes \<Rightarrow> bytes \<Rightarrow> string \<Rightarrow> db \<Rightarrow> err + ReleaseManifest \<times> bytes" where
  "releaseIn width sha e c key d =
     (case findRelease e c key d of
        None \<Rightarrow> Inl ErrNotFound
      | Some r \<Rightarrow>
          (case releaseManifest width sha key r of None \<Rightarrow> Inl ErrVaultIntegrity | Some m \<Rightarrow> Inr (m, rs_digest r)))"

lemma reads_load [reads_intros]:
  "reads (loadRelease width e c key) (\<lambda>env d. releaseIn width (sha256 env) e c key d)"
proof -
  have "reads (loadRelease width e c key) (\<lambda>env d. resultBind (Inr (findRelease e c key d)) (\<lambda>row.
      case row of None \<Rightarrow> Inl ErrNotFound
      | Some r \<Rightarrow> resultBind (Inr (sha256 env)) (\<lambda>sha.
          case releaseManifest width sha key r of None \<Rightarrow> Inl ErrVaultIntegrity | Some m \<Rightarrow> Inr (m, rs_digest r))))"
    unfolding loadRelease_def by (intro reads_intros)
  then show ?thesis by (simp add: releaseIn_def [abs_def] cong: option.case_cong)
qed

lemma reads_lift [reads_intros]: "reads (tx_lift x) (\<lambda>_ _. x)"
  by (rule readsI) simp

definition variantIn :: "aead \<Rightarrow> LocalKeyProvider \<Rightarrow> bytes \<Rightarrow> vaultMetadata \<Rightarrow> db \<Rightarrow>
    err + (string \<times> string) list \<times> VariantValues" where
  "variantIn A p e m d =
     (case variantBinding e (md_item m) (md_revision m) d of
        None \<Rightarrow> Inl ErrUnresolved
      | Some v \<Rightarrow>
          resultBind (payloadIn A p (m\<lparr> md_variant := v \<rparr>) d) (\<lambda>payload.
            case map_of payload (encodeHex v) of
              None \<Rightarrow> Inl ErrVaultIntegrity
            | Some variant \<Rightarrow> Inr (revisionFieldTypes (md_item m) (md_revision m) d, variant)))"

lemma pinnedBinding_variant: "pinnedBinding e m d = variantBinding e (md_item m) (md_revision m) d"
  by (simp add: pinnedBinding_def variantBinding_def)

lemma reads_variant [reads_intros]: "reads (releaseVariant A p e m) (\<lambda>_ d. variantIn A p e m d)"
proof -
  have "reads (releaseVariant A p e m) (\<lambda>env d. resultBind (Inr (pinnedBinding e m d)) (\<lambda>x.
      case x of None \<Rightarrow> Inl ErrUnresolved
      | Some v \<Rightarrow> resultBind (Inr (revisionFieldTypes (md_item m) (md_revision m) d)) (\<lambda>types.
          resultBind (payloadIn A p (m\<lparr> md_variant := v \<rparr>) d) (\<lambda>payload.
            case map_of payload (encodeHex v) of None \<Rightarrow> Inl ErrVaultIntegrity | Some variant \<Rightarrow> Inr (types, variant)))))"
    unfolding releaseVariant_def by (intro reads_intros)
  then show ?thesis by (simp add: variantIn_def [abs_def] pinnedBinding_variant cong: option.case_cong)
qed

text \<open>One item, given what its current revision is and the revisions that are pinned.\<close>

definition itemPins :: "bool \<Rightarrow> vaultItemIdentity \<Rightarrow> vaultMetadata \<Rightarrow> resolution \<Rightarrow> (string \<times> u64) list" where
  "itemPins prepare i m r = (if prepare then mapPut (revisionKey i) (md_revision m) (rn_vault r) else rn_vault r)"

definition pinOf :: "(string \<times> u64) list \<Rightarrow> vaultItemIdentity \<Rightarrow> u64" where
  "pinOf vault i = (case map_of vault (revisionKey i) of None \<Rightarrow> 0 | Some n \<Rightarrow> n)"

definition itemIn :: "aead \<Rightarrow> LocalKeyProvider \<Rightarrow> Token option \<Rightarrow> bytes \<Rightarrow> ReleaseFileRef list \<Rightarrow>
    (vaultItemIdentity \<times> string list) list \<Rightarrow> bool \<Rightarrow> vaultItemIdentity \<Rightarrow> resolution \<Rightarrow> db \<Rightarrow> err + resolution" where
  "itemIn A p token e files references prepare i r d =
     (if (case token of None \<Rightarrow> False | Some t \<Rightarrow> \<not> AllowsNamespace t (fst i)) then Inl ErrForbidden
      else
        resultBind (metadataOf e i d) (\<lambda>m.
          let vault = itemPins prepare i m r; revision = pinOf vault i in
          if revision = 0 then Inl ErrVaultIntegrity
          else if list_ex (\<lambda>f. (rl_namespace f, rl_item f) = i \<and> rl_revision f \<noteq> revision) files
          then Inl (if prepare then ErrConflict else ErrVaultIntegrity)
          else
            resultBind (variantIn A p e (m\<lparr> md_revision := revision \<rparr>) d) (\<lambda>(types, variant).
              resultBind
                (releaseTexts types (revisionFieldTypes (md_item m) (md_revision m) d) variant i
                  (case map_of references i of None \<Rightarrow> [] | Some ks \<Rightarrow> ks) (r\<lparr> rn_vault := vault \<rparr>))
                (releaseFiles types (revisionFieldTypes (md_item m) (md_revision m) d) variant i files))))"

lemma reads_item [reads_intros]:
  "reads (releaseItem A p token e files references prepare i r) (\<lambda>_ d. itemIn A p token e files references prepare i r d)"
proof -
  have "reads (releaseItem A p token e files references prepare i r) (\<lambda>env d.
      if (case token of None \<Rightarrow> False | Some t \<Rightarrow> \<not> AllowsNamespace t (fst i)) then Inl ErrForbidden
      else resultBind (metadataOf e i d) (\<lambda>m. resultBind (Inr (revisionFieldTypes (md_item m) (md_revision m) d)) (\<lambda>types'.
        if pinOf (itemPins prepare i m r) i = 0 then Inl ErrVaultIntegrity
        else if list_ex (\<lambda>f. (rl_namespace f, rl_item f) = i \<and> rl_revision f \<noteq> pinOf (itemPins prepare i m r) i) files
        then Inl (if prepare then ErrConflict else ErrVaultIntegrity)
        else resultBind (variantIn A p e (m\<lparr> md_revision := pinOf (itemPins prepare i m r) i \<rparr>) d) (\<lambda>x.
          case x of (types, variant) \<Rightarrow> resultBind
                (releaseTexts types types' variant i
                  (case map_of references i of None \<Rightarrow> [] | Some ks \<Rightarrow> ks) (r\<lparr> rn_vault := itemPins prepare i m r \<rparr>))
                (releaseFiles types types' variant i files)))))"
    unfolding releaseItem_def Let_def itemPins_def [symmetric] pinOf_def [symmetric] by (intro reads_intros)
  then show ?thesis by (simp add: itemIn_def [abs_def] Let_def cong: if_cong)
qed

fun itemsIn :: "aead \<Rightarrow> LocalKeyProvider \<Rightarrow> Token option \<Rightarrow> bytes \<Rightarrow> ReleaseFileRef list \<Rightarrow>
    (vaultItemIdentity \<times> string list) list \<Rightarrow> bool \<Rightarrow> vaultItemIdentity list \<Rightarrow> resolution \<Rightarrow> db \<Rightarrow> err + resolution" where
  "itemsIn A p token e files references prepare [] r d = Inr r"
| "itemsIn A p token e files references prepare (i # is) r d =
     resultBind (itemIn A p token e files references prepare i r d)
       (\<lambda>r'. itemsIn A p token e files references prepare is r' d)"

lemma reads_releaseItems [reads_intros]:
  "reads (releaseItems A p token e files references prepare is r)
     (\<lambda>_ d. itemsIn A p token e files references prepare is r d)"
proof (induction "is" arbitrary: r)
  case Nil
  show ?case using reads_return [of r] by simp
next
  case (Cons i "is")
  show ?case using reads_bind [OF reads_item Cons] by simp
qed

definition startPins :: "bool \<Rightarrow> ReleaseManifest \<Rightarrow> resolution" where
  "startPins prepare m =
     \<lparr> rn_vault = (if prepare then [] else elems (mf_vault m)), rn_values = [], rn_files = [], rn_size = 0, rn_text = 0 \<rparr>"

definition pinnedManifest :: "bool \<Rightarrow> ReleaseManifest \<Rightarrow> resolution \<Rightarrow> ReleaseManifest" where
  "pinnedManifest prepare m r = m\<lparr> mf_vault := if prepare then Some (rn_vault r) else mf_vault m \<rparr>"

text \<open>The document once the values are known.\<close>

definition bundleOf :: "yaml_codec \<Rightarrow> bool \<Rightarrow> ReleaseManifest \<Rightarrow> config_revision_row \<Rightarrow> resolution \<Rightarrow> err + ReleaseBundle" where
  "bundleOf codec prepare m c r =
     (case Resolve codec (cr_format c) (cr_content c) (Some (valueLookup (rn_values r))) of
        Inl _ \<Rightarrow> Inl ErrUnresolved
      | Inr content \<Rightarrow>
          if rn_size r + int (length content) > maxReleaseBytes then Inl ErrValidation
          else Inr (releaseBundle (pinnedManifest prepare m r) (cr_format c) content r))"

definition resolvedRelease :: "yaml_codec \<Rightarrow> aead \<Rightarrow> LocalKeyProvider \<Rightarrow> Token option \<Rightarrow> bytes \<Rightarrow> bytes \<Rightarrow> ReleaseManifest \<Rightarrow>
    bool \<Rightarrow> db \<Rightarrow> err + ReleaseBundle" where
  "resolvedRelease codec A p token e c m prepare d =
     (case findRevision c e (sp_config (mf_spec m)) d of
        None \<Rightarrow> Inl ErrNotFound
      | Some row \<Rightarrow>
          let files = specFiles (mf_spec m);
              references = groupReferences (revisionReferences c e (sp_config (mf_spec m)) d) [];
              needed = neededItems files references
          in
            if int (length (cr_content row)) > maxReleaseBytes then Inl ErrVaultIntegrity
            else if length needed > 64 \<or> neededFields needed > 256 then Inl ErrValidation
            else if \<not> prepare \<and> length (elems (mf_vault m)) \<noteq> length needed then Inl ErrVaultIntegrity
            else
              resultBind (itemsIn A p token e files references prepare (map fst needed) (startPins prepare m) d)
                (bundleOf codec prepare m row))"

lemma reads_resolveRelease [reads_intros]:
  "reads (resolveRelease codec A p token e c m prepare) (\<lambda>_ d. resolvedRelease codec A p token e c m prepare d)"
proof -
  have "reads (resolveRelease codec A p token e c m prepare) (\<lambda>env d.
      resultBind (Inr (findRevision c e (sp_config (mf_spec m)) d)) (\<lambda>x. case x of None \<Rightarrow> Inl ErrNotFound
      | Some row \<Rightarrow> if int (length (cr_content row)) > maxReleaseBytes then Inl ErrVaultIntegrity
        else resultBind (Inr (groupReferences (revisionReferences c e (sp_config (mf_spec m)) d) [])) (\<lambda>refs.
          if length (neededItems (specFiles (mf_spec m)) refs) > 64 \<or>
             neededFields (neededItems (specFiles (mf_spec m)) refs) > 256 then Inl ErrValidation
          else if \<not> prepare \<and> length (elems (mf_vault m)) \<noteq> length (neededItems (specFiles (mf_spec m)) refs)
          then Inl ErrVaultIntegrity
          else resultBind (itemsIn A p token e (specFiles (mf_spec m)) refs prepare
              (map fst (neededItems (specFiles (mf_spec m)) refs)) (startPins prepare m) d) (\<lambda>r.
            case Resolve codec (cr_format row) (cr_content row) (Some (valueLookup (rn_values r))) of
              Inl _ \<Rightarrow> Inl ErrUnresolved
            | Inr content \<Rightarrow> if rn_size r + int (length content) > maxReleaseBytes then Inl ErrValidation
                else Inr (releaseBundle (pinnedManifest prepare m r) (cr_format row) content r)))))"
    unfolding resolveRelease_def Let_def startPins_def [symmetric] pinnedManifest_def [symmetric] by (intro reads_intros)
  then show ?thesis
    unfolding resolvedRelease_def [abs_def] bundleOf_def [abs_def] Let_def resultBind_simps .
qed

definition stateOf :: "bytes \<Rightarrow> bytes \<Rightarrow> string \<Rightarrow> db \<Rightarrow> err + string \<times> u64" where
  "stateOf e c key d =
     (if key \<noteq> [] then Inr (key, 0)
      else if re_key (releaseState e c d) = [] then Inl ErrNotFound
      else Inr (re_key (releaseState e c d), re_generation (releaseState e c d)))"

lemma reads_select [reads_intros]: "reads (selectRelease e c key) (\<lambda>_ d. stateOf e c key d)"
proof -
  have "reads (selectRelease e c key) (\<lambda>env d. if key \<noteq> [] then Inr (key, 0)
      else resultBind (Inr (releaseState e c d)) (\<lambda>st.
        if re_key st = [] then Inl ErrNotFound else Inr (re_key st, re_generation st)))"
    unfolding selectRelease_def by (intro reads_intros)
  then show ?thesis by (simp add: stateOf_def [abs_def] cong: if_cong)
qed

definition releaseRead :: "yaml_codec \<Rightarrow> aead \<Rightarrow> LocalKeyProvider \<Rightarrow> (json \<Rightarrow> nat) \<Rightarrow> (bytes \<Rightarrow> bytes) \<Rightarrow> Token option \<Rightarrow>
    string \<Rightarrow> string \<Rightarrow> string \<Rightarrow> string \<Rightarrow> db \<Rightarrow> err + ReleaseBundle conditional" where
  "releaseRead codec A p width sha token environment config key tag d =
     resultBind (rootOf token environment config d) (\<lambda>(e, c, _).
     resultBind (stateOf e c key d) (\<lambda>(k, generation).
     resultBind (releaseIn width sha e c k d) (\<lambda>(m, digest).
       if mf_environment m \<noteq> environment \<or> mf_config m \<noteq> config then Inl ErrVaultIntegrity
       else
         resultBind (resolvedRelease codec A p token e c m False d) (\<lambda>b.
           let tagged = taggedBundle b digest generation in
           Inr (if tag = bd_etag tagged then NotModified tagged else Fresh tagged)))))"

lemma reads_ReadRelease:
  "reads (ReadRelease codec A p width token environment config key tag)
     (\<lambda>env d. releaseRead codec A p width (sha256 env) token environment config key tag d)"
proof -
  have "reads (ReadRelease codec A p width token environment config key tag) (\<lambda>env d.
      resultBind (rootOf token environment config d) (\<lambda>x. case x of (e, y) \<Rightarrow> case y of (c, _) \<Rightarrow>
      resultBind (stateOf e c key d) (\<lambda>x. case x of (k, generation) \<Rightarrow>
      resultBind (releaseIn width (sha256 env) e c k d) (\<lambda>x. case x of (m, digest) \<Rightarrow>
        if mf_environment m \<noteq> environment \<or> mf_config m \<noteq> config then Inl ErrVaultIntegrity
        else resultBind (resolvedRelease codec A p token e c m False d) (\<lambda>b. resultBind (Inr ()) (\<lambda>_.
          Inr (if tag = bd_etag (taggedBundle b digest generation) then NotModified (taggedBundle b digest generation)
               else Fresh (taggedBundle b digest generation))))))))"
    unfolding ReadRelease_def Let_def by (intro reads_intros)
  then show ?thesis unfolding releaseRead_def Let_def resultBind_simps .
qed

section \<open>What the writing calls leave alone\<close>

lemma quiet_release [quiet_intros]:
  "quiet (releaseRoot token environment config)" "quiet (loadRelease width e c key)"
  "quiet (releaseItem A p token e files references prepare i r)"
  unfolding releaseRoot_def loadRelease_def releaseItem_def releaseVariant_def readOneVaultMetadata_def
    readFieldTypes_def decryptVaultPayload_def Let_def
  by (intro quiet_intros)+

lemma preserves_release [preserves_intros]:
  "preserves P (releaseRoot token environment config)" "preserves P (loadRelease width e c key)"
  "preserves P (releaseItem A p token e files references prepare i r)"
  unfolding releaseRoot_def loadRelease_def releaseItem_def releaseVariant_def readOneVaultMetadata_def
    readFieldTypes_def decryptVaultPayload_def Let_def
  by (intro preserves_intros)+

lemma release_items [quiet_intros, preserves_intros]:
  "quiet (releaseItems A p token e files references prepare is r)"
  "preserves P (releaseItems A p token e files references prepare is r)"
  by (induction "is" arbitrary: r) (auto intro!: quiet_intros preserves_intros)

lemma release_resolve [quiet_intros, preserves_intros]:
  "quiet (resolveRelease codec A p token e c m prepare)"
  "preserves P (resolveRelease codec A p token e c m prepare)"
  unfolding resolveRelease_def readReferences_def Let_def
  by (intro quiet_intros preserves_intros release_items)+

lemma preserves_finishRelease [preserves_intros]:
  "onData P \<Longrightarrow> preserves P (finishRelease oid act environment config release action res failure)"
  unfolding finishRelease_def by (intro preserves_intros)

lemma preserves_finishes [preserves_intros]:
  "onData P \<Longrightarrow> preserves P (finishPrepare r out key digest)"
  "onData P \<Longrightarrow> preserves P (finishActivate a out st digest)"
  unfolding finishPrepare_def finishActivate_def by (intro preserves_intros; assumption)+

section \<open>Releases never change\<close>

text \<open>The key of a release names one row.\<close>

abbreviation releaseKey :: "release_set_row \<Rightarrow> bytes \<times> bytes \<times> string" where
  "releaseKey row \<equiv> (rs_env row, rs_config row, rs_key row)"

lemma findRelease_grown:
  assumes "findRelease e c key d = Some row" and "release_sets d' = release_sets d @ rows"
  shows "findRelease e c key d' = Some row"
  using assms by (simp add: findRelease_def find_append)

text \<open>At most one release is added, under a key that was free, and no stream moves.\<close>

definition releasesGrown :: "db \<Rightarrow> db \<Rightarrow> bool" where
  "releasesGrown d d' =
     (release_states d' = release_states d \<and> uniqueOn releaseKey (release_sets d') \<and>
      (\<exists>rows. release_sets d' = release_sets d @ rows))"

text \<open>The streams move, one for each Config and environment.\<close>

definition streamsMoved :: "db \<Rightarrow> db \<Rightarrow> bool" where
  "streamsMoved d d' =
     (release_sets d' = release_sets d \<and> uniqueOn (\<lambda>r. (rt_env r, rt_config r)) (release_states d'))"

lemma onData_releases: "onData (releasesGrown d)" "onData (streamsMoved d)"
proof -
  have "releasesGrown d d2 = releasesGrown d d1 \<and> streamsMoved d d2 = streamsMoved d d1" if "data d2 = data d1" for d1 d2
    using data_tables [OF that] by (simp add: releasesGrown_def streamsMoved_def)
  then show "onData (releasesGrown d)" "onData (streamsMoved d)" unfolding onData_def by blast+
qed

lemma findRelease_None:
  "findRelease e c key d = None \<longleftrightarrow> (\<forall>r \<in> set (release_sets d). releaseKey r \<noteq> (e, c, key))"
  by (auto simp: findRelease_def find_None_iff)

lemma insertRelease_grown:
  assumes "releasesGrown d d1"
  shows "releasesGrown d (fst (insertRelease row d1))"
proof (cases "findRelease (rs_env row) (rs_config row) (rs_key row) d1 = None")
  case True
  then have ins: "fst (insertRelease row d1) = d1\<lparr> release_sets := release_sets d1 @ [row] \<rparr>"
    by (simp add: insertRelease_def)
  have "\<forall>r \<in> set (release_sets d1). releaseKey r \<noteq> releaseKey row" using True by (simp only: findRelease_None)
  then have "releaseKey row \<notin> releaseKey ` set (release_sets d1)" by (simp add: image_iff eq_commute)
  then have unique: "uniqueOn releaseKey (release_sets d1 @ [row])"
    using assms unfolding uniqueOn_append releasesGrown_def by blast
  from assms obtain rows where "release_sets d1 = release_sets d @ rows" "release_states d1 = release_states d"
    unfolding releasesGrown_def by blast
  with unique show ?thesis unfolding ins releasesGrown_def by simp
next
  case False
  then show ?thesis using assms by (simp add: insertRelease_def)
qed

lemma ensureState_moved:
  assumes "streamsMoved d d1"
  shows "streamsMoved d (ensureState e c d1)"
proof (cases "existsRow (\<lambda>r. rt_env r = e \<and> rt_config r = c) (release_states d1)")
  case False
  then have "(e, c) \<notin> (\<lambda>r. (rt_env r, rt_config r)) ` set (release_states d1)"
    unfolding existsRow_def list_ex_iff image_iff by blast
  then show ?thesis using assms False by (simp add: streamsMoved_def ensureState_def uniqueOn_append)
qed (use assms in \<open>simp add: ensureState_def\<close>)

lemma setActive_moved: "streamsMoved d d1 \<Longrightarrow> streamsMoved d (setActive e c key n d1)"
  unfolding streamsMoved_def setActive_def by (auto intro: uniqueOn_updateWhere)

lemma prepare_grown: "preserves (releasesGrown d) (prepareBody codec A p width token r)"
  unfolding prepareBody_def prepareNew_def prepareAgain_def prepareConflict_def storeRelease_def Let_def
  by (intro preserves_intros onData_releases insertRelease_grown)

lemma activate_moved: "preserves (streamsMoved d) (activateBody codec A p width token r)"
  unfolding activateBody_def switchRelease_def
  by (intro preserves_intros onData_releases) (auto intro: ensureState_moved setActive_moved)

text \<open>
  Whatever a preparation or an activation answers and whichever database calls fail, every release
  there was is still found as it was; a preparation moves no stream and an activation adds no release.
\<close>

lemma releases_never_change:
  assumes "uniqueOn releaseKey (release_sets d)" and "uniqueOn (\<lambda>r. (rt_env r, rt_config r)) (release_states d)"
  shows "releasesGrown d (snd (PrepareRelease codec A p width r env d))"
    and "streamsMoved d (snd (ActivateRelease codec A p width a env d))"
proof -
  have "releasesGrown d d" "streamsMoved d d" using assms by (simp_all add: releasesGrown_def streamsMoved_def)
  then show "releasesGrown d (snd (PrepareRelease codec A p width r env d))"
    and "streamsMoved d (snd (ActivateRelease codec A p width a env d))"
    unfolding PrepareRelease_def ActivateRelease_def
    by (auto intro!: preserves_run preserves_intros onData_releases prepare_grown activate_moved)
qed

section \<open>Activation\<close>

lemma finishActivate_effect:
  assumes "finishActivate r out st digest env s = (Inr q, s')"
  shows "rr_outcome (fst q) = out \<and> rr_state (fst q) = st \<and> data (durable s') = data (work s)"
  using finishCommit_effect [OF assms [unfolded finishActivate_def finishRelease_def]] by simp

lemma find_updateWhere_other:
  "(\<And>r. p r \<Longrightarrow> \<not> q r \<and> \<not> q (f r)) \<Longrightarrow> find q (updateWhere p f rows) = find q rows"
  by (induction rows) auto

lemma find_updateWhere_same:
  "(\<And>r. q (f r) \<longleftrightarrow> q r) \<Longrightarrow> find q (updateWhere q f rows) = map_option f (find q rows)"
  by (induction rows) auto

lemma releaseState_ensured: "releaseState e' c' (ensureState e c d) = releaseState e' c' d"
proof -
  have "find q (release_states d) = None \<Longrightarrow> find q (release_states d @ [x]) = (if q x then Some x else None)"
    "find q (release_states d) = Some y \<Longrightarrow> find q (release_states d @ [x]) = Some y" for q x y
    by (simp_all add: find_append)
  then show ?thesis
    by (cases "find (\<lambda>r. rt_env r = e' \<and> rt_config r = c') (release_states d)")
      (auto simp: releaseState_def ensureState_def)
qed

lemma releaseState_active:
  assumes "existsRow (\<lambda>r. rt_env r = e \<and> rt_config r = c) (release_states d)"
  shows "releaseState e' c' (setActive e c key n d) =
    (if e' = e \<and> c' = c then \<lparr> re_key = key, re_generation = n \<rparr> else releaseState e' c' d)"
proof (cases "e' = e \<and> c' = c")
  case True
  have "find (\<lambda>r. rt_env r = e \<and> rt_config r = c) (release_states d) \<noteq> None"
    using assms by (auto simp: existsRow_def list_ex_iff find_None_iff)
  then show ?thesis using True
    by (auto simp: releaseState_def setActive_def find_updateWhere_same)
next
  case False
  have "find (\<lambda>r. rt_env r = e' \<and> rt_config r = c') (updateWhere (\<lambda>r. rt_env r = e \<and> rt_config r = c)
      (\<lambda>r. r\<lparr> rt_active := Some key, rt_generation := n \<rparr>) (release_states d)) =
    find (\<lambda>r. rt_env r = e' \<and> rt_config r = c') (release_states d)"
    by (rule find_updateWhere_other) (use False in auto)
  then have "releaseState e' c' (setActive e c key n d) = releaseState e' c' d"
    by (simp add: releaseState_def setActive_def)
  then show ?thesis unfolding if_not_P [OF False] .
qed

lemma existsRow_ensured: "existsRow (\<lambda>r. rt_env r = e \<and> rt_config r = c) (release_states (ensureState e c d))"
  by (auto simp: ensureState_def existsRow_def)

text \<open>The effect of an activation that answers with success, from the tables it works on.\<close>

lemma activateBody_success:
  assumes "activateBody codec A p width token r env s = (Inr q, s')" and "rr_outcome (fst q) = OutcomeSuccess"
  shows "\<exists>e c n. releaseAnchor (pa_environment r) (pa_config r) (work s) = Some (e, c, n) \<and>
    findRelease e c (pa_release r) (work s) \<noteq> None \<and> re_generation (releaseState e c (work s)) = pa_expected r \<and>
    data (durable s') = data (setActive e c (pa_release r) (pa_expected r + 1) (ensureState e c (work s)))"
proof -
  obtain e c n s1 m digest s3 b s4
    where 1: "releaseRoot token (pa_environment r) (pa_config r) env s = (Inr (e, c, n), s1)"
      and 3: "loadRelease width e c (pa_release r) env
        (s1\<lparr> work := ensureState e c (work s1), tick := Suc (Suc (tick s1)) \<rparr>) = (Inr (m, digest), s3)"
      and 4: "resolveRelease codec A p token e c m False env s3 = (Inr b, s4)"
      and 5: "switchRelease e c r (releaseState e c (ensureState e c (work s1))) digest env s4 = (Inr q, s')"
    using assms(1) by (auto simp: activateBody_def tx_Inr)
  have w1: "work s1 = work s" and root: "rootOf token (pa_environment r) (pa_config r) (work s) = Inr (e, c, n)"
    using readsD [OF reads_root 1] by auto
  have w3: "work s3 = ensureState e c (work s)"
    and load: "releaseIn width (sha256 env) e c (pa_release r) (ensureState e c (work s)) = Inr (m, digest)"
    using readsD [OF reads_load 3] w1 by auto
  have w4: "work s4 = ensureState e c (work s)" using readsD(1) [OF reads_resolveRelease 4] w3 by simp
  have release: "findRelease e c (pa_release r) (work s) \<noteq> None"
    using load by (auto simp: releaseIn_def findRelease_def ensureState_def split: option.splits if_splits)
  have "re_generation (releaseState e c (work s)) = pa_expected r \<and>
      data (durable s') = data (setActive e c (pa_release r) (pa_expected r + 1) (work s4))"
    using 5 assms(2) w1
    by (auto simp: switchRelease_def releaseState_ensured tx_Inr split: if_splits dest!: finishActivate_effect)
  then show ?thesis using root release w4 by (auto simp: rootOf_def split: if_splits option.splits)
qed

text \<open>
  The active release of a Config in an environment moves by compare-and-set: an activation that
  reports success found the expected generation and a prepared release, makes that release the
  active one under the next generation, and leaves every other stream and every release alone.
\<close>

lemma release_activation:
  assumes "ActivateRelease codec A p width r env d = (Inr (res, er), d')" and "rr_outcome res = OutcomeSuccess"
    and "opRow (pa_operation r) d = None"
  shows "\<exists>e c n. releaseAnchor (pa_environment r) (pa_config r) d = Some (e, c, n) \<and>
    findRelease e c (pa_release r) d \<noteq> None \<and> re_generation (releaseState e c d) = pa_expected r \<and>
    release_sets d' = release_sets d \<and>
    (\<forall>e' c'. releaseState e' c' d' = (if e' = e \<and> c' = c
       then \<lparr> re_key = pa_release r, re_generation = pa_expected r + 1 \<rparr> else releaseState e' c' d))"
proof -
  let ?s0 = "\<lparr> work = d, durable = d, tick = 1 \<rparr>"
  obtain s1 token s2 s3 where 1: "lockMasterKey A p env ?s0 = (Inr (), s1)"
    and 2: "authorizeScopedWrite (pa_actor r) (pa_environment r) (pa_config r) [] env s1 = (Inr token, s2)"
    and 3: "journaled (pa_operation r) (activateDigest env r) (pa_actor r) [] replayRelease
      (activateBody codec A p width (contextToken (pa_actor r) token) r) env s2 = (Inr (res, er), s3)"
    and d': "d' = durable s3"
    using assms(1) by (auto simp: ActivateRelease_def run_tx_iff tx_bind_Inr split: if_splits)
  have w2: "work s2 = d" using lockMasterKey_Inr [OF 1] authorizeScopedWrite_Inr [OF 2] by simp
  obtain s where s: "data (work s) = data d"
    and body: "activateBody codec A p width (contextToken (pa_actor r) token) r env s = (Inr (res, er), s3)"
    using journaled_first_at [OF 3] assms(3) w2 by metis
  from activateBody_success [OF body] assms(2) obtain e c n where
    found: "releaseAnchor (pa_environment r) (pa_config r) (work s) = Some (e, c, n)"
      "findRelease e c (pa_release r) (work s) \<noteq> None" "re_generation (releaseState e c (work s)) = pa_expected r"
    and moved: "data d' = data (setActive e c (pa_release r) (pa_expected r + 1) (ensureState e c (work s)))"
    unfolding d' by auto
  have same: "releaseAnchor k k' (work s) = releaseAnchor k k' d" "findRelease e c k (work s) = findRelease e c k d"
    "releaseState e' c' (work s) = releaseState e' c' d" for k k' e' c'
    unfolding releaseAnchor_def activeEnvironment_def findConfig_def currentRevision_def findRelease_def
      releaseState_def data_tables [OF s] by (rule refl)+
  have "release_sets d' = release_sets d"
    using data_tables [OF moved] data_tables [OF s] by (simp add: setActive_def ensureState_def)
  moreover have "releaseState e' c' d' = (if e' = e \<and> c' = c
      then \<lparr> re_key = pa_release r, re_generation = pa_expected r + 1 \<rparr> else releaseState e' c' d)" for e' c'
  proof -
    have "releaseState e' c' d' = releaseState e' c' (setActive e c (pa_release r) (pa_expected r + 1)
        (ensureState e c (work s)))"
      unfolding releaseState_def data_tables [OF moved] by (rule refl)
    then show ?thesis by (simp add: releaseState_active [OF existsRow_ensured] releaseState_ensured same)
  qed
  ultimately show ?thesis using found unfolding same by blast
qed

end
