(* ===== verification/KeyGuard.thy ===== *)
theory KeyGuard
  imports RotationLaws Deployments ReleaseLaws
begin

text \<open>
  What a rotation of the master key promises to the rest of the store: nothing that was readable is
  lost, and from then on every operation that locks the master key (\<^verbatim>\<open>lockMasterKey\<close>)
  under another key is refused without a trace. The other operations that write leave the encrypted
  records alone and do not ask for the key.
\<close>

section \<open>The operations that lock the master key\<close>




section \<open>Property\<close>



end
