(* ===== verification/CredentialLaws.thy ===== *)
theory CredentialLaws
  imports TokenLaws Deployments
begin

text \<open>
  What the operations on credentials promise together: no sequence of them brings back a token or
  a certificate that was revoked, the answer of a creation is a working credential, and a
  deployment credential never exceeds the token that issued it.
\<close>

section \<open>All operations on credentials\<close>

datatype credential_call =
    Creating int TokenCreate
  | Changing TokenEnvironmentChange
  | Revoking TokenRevoke
  | Deploying DeploymentCredentialIssue
  | Undeploying DeploymentCredentialRevoke
  | Registering ClientCertificateRegister
  | Withdrawing ClientCertificateRevoke
  | Founding AuthorityCreate
  | Closing AuthorityRevoke
  | Issuing ClientCertificateIssue

fun credentialStep :: "x509 \<Rightarrow> aead \<Rightarrow> LocalKeyProvider \<Rightarrow> credential_call \<Rightarrow> env \<Rightarrow> db \<Rightarrow> db" where
  "credentialStep X A provider (Creating maxTTL r) env d = snd (CreateToken maxTTL r env d)"
| "credentialStep X A provider (Changing r) env d = snd (SetTokenEnvironments r env d)"
| "credentialStep X A provider (Revoking r) env d = snd (RevokeToken r env d)"
| "credentialStep X A provider (Deploying r) env d = snd (IssueDeploymentCredential X A provider r env d)"
| "credentialStep X A provider (Undeploying r) env d = snd (RevokeDeploymentCredential r env d)"
| "credentialStep X A provider (Registering r) env d = snd (RegisterVerifiedClientCertificate X r env d)"
| "credentialStep X A provider (Withdrawing r) env d = snd (RevokeClientCertificate r env d)"
| "credentialStep X A provider (Founding r) env d = snd (CreateCertificateAuthority X A provider r env d)"
| "credentialStep X A provider (Closing r) env d = snd (RevokeCertificateAuthority X r env d)"
| "credentialStep X A provider (Issuing r) env d = snd (IssueClientCertificate X A provider r env d)"

definition credentialSteps :: "x509 \<Rightarrow> aead \<Rightarrow> LocalKeyProvider \<Rightarrow> (credential_call \<times> env) list \<Rightarrow> db \<Rightarrow> db" where
  "credentialSteps X A provider calls d = fold (\<lambda>(c, env). credentialStep X A provider c env) calls d"

text \<open>The operations that add a token.\<close>

fun makesToken :: "credential_call \<Rightarrow> bool" where
  "makesToken (Creating _ _) = True"
| "makesToken (Deploying _) = True"
| "makesToken _ = False"

section \<open>What every operation keeps\<close>

text \<open>A change of a certificate's row that neither renames it nor takes a revocation back.\<close>

definition withdrawing :: "(certificate_row \<Rightarrow> certificate_row) \<Rightarrow> bool" where
  "withdrawing f =
     (\<forall>c. ct_fingerprint (f c) = ct_fingerprint c \<and> (ct_revoked c \<noteq> None \<longrightarrow> ct_revoked (f c) \<noteq> None))"

text \<open>What every statement keeps but the insertion of a token.\<close>

locale row_invariant =
  fixes P :: "db \<Rightarrow> bool"
  assumes rows: "rowsKept P"
    and inserted: "P d \<Longrightarrow> insertCertificate c d = Some d' \<Longrightarrow> P d'"
    and updated: "P d \<Longrightarrow> withdrawing f \<Longrightarrow> P (d\<lparr> certificates := updateWhere q f (certificates d) \<rparr>)"
begin

lemmas data_kept = rowsKeptD(1) [OF rows]
lemmas kept = rowsKeptD [OF rows] rowsKept_grants [OF rows] inserted

lemma kept_update:
  "P d \<Longrightarrow> updateCertificate i (\<lambda>c. c\<lparr> ct_name := n \<rparr>) d = Some d' \<Longrightarrow> P d'"
  "P d \<Longrightarrow> updateCertificate i (\<lambda>c. c\<lparr> ct_revoked := Some at \<rparr>) d = Some d' \<Longrightarrow> P d'"
  using updated [of d "\<lambda>c. c\<lparr> ct_name := n \<rparr>"] updated [of d "\<lambda>c. c\<lparr> ct_revoked := Some at \<rparr>"]
  by (auto simp: updateCertificate_def withdrawing_def)

lemma kept_issued: "P d \<Longrightarrow> revokeIssued i at d = Some d' \<Longrightarrow> P d'"
  using updated [of d "\<lambda>c. c\<lparr> ct_revoked := Some at \<rparr>"] by (auto simp: revokeIssued_def withdrawing_def)

lemma kept_authorities: "P d \<Longrightarrow> insertAuthority a d = Some d' \<Longrightarrow> P d'" "P d \<Longrightarrow> revokeAuthority i at d = Some d' \<Longrightarrow> P d'"
  using kept(4) by (auto simp: insertAuthority_def revokeAuthority_def split: if_splits)

lemma kept_revocation: "preserves P (revokeTokenAndDeployments p)"
  unfolding revokeTokenAndDeployments_def by (intro preserves_intros; (rule kept; assumption)?)+

lemma kept_issue: "preserves P (issueClientCertificateRecord X A provider r)"
  unfolding issueClientCertificateRecord_def issueFrom_def recordIssued_def drawing_def randomID_def
  by (intro preserves_intros; (rule kept; assumption)?)+

lemma kept_certificates:
  "preserves P (registerBody X r)" "preserves P (revokeCertificateBody q)" "preserves P (revokeAuthorityBody X v)"
  "preserves P (createAuthorityBody X A provider u)"
proof -
  note kept = kept kept_update kept_authorities kept_issued
  show "preserves P (registerBody X r)"
    unfolding registerBody_def managedCertificateIssuer_def storeCertificate_def finishRegister_def
      finishCertificateFailure_def randomID_def Let_def
    by (intro preserves_intros data_kept; (rule kept; assumption)?)+
  show "preserves P (revokeCertificateBody q)"
    unfolding revokeCertificateBody_def finishCertificateRevoke_def finishCertificateFailure_def Let_def
    by (intro preserves_intros data_kept; (rule kept; assumption)?)+
  show "preserves P (revokeAuthorityBody X v)"
    unfolding revokeAuthorityBody_def finishAuthorityRevoke_def finishPKIFailure_def Let_def
    by (intro preserves_intros data_kept; (rule kept; assumption)?)+
  show "preserves P (createAuthorityBody X A provider u)"
    unfolding createAuthorityBody_def storeAuthority_def finishAuthority_def finishPKIFailure_def drawing_def
      randomID_def Let_def
    by (intro preserves_intros data_kept; (rule kept; assumption)?)+
qed

lemma kept_undeploy: "preserves P (revokeDeploymentBody q t)"
  unfolding revokeDeploymentBody_def finishDeploymentRevoke_def Let_def
  by (intro preserves_intros data_kept kept_revocation)+

lemma run_kept: "P d \<Longrightarrow> preserves P m \<Longrightarrow> P (snd (if b then (Inl e, d) else run_tx m env d))"
  using preserves_run [of P m d env] by simp

lemma calls_kept:
  assumes "P d"
  shows "P (snd (RevokeDeploymentCredential q env d))" "P (snd (RegisterVerifiedClientCertificate X g env d))"
    "P (snd (RevokeClientCertificate k env d))" "P (snd (CreateCertificateAuthority X A provider u env d))"
    "P (snd (RevokeCertificateAuthority X v env d))" "P (snd (IssueClientCertificate X A provider i env d))"
  unfolding RevokeDeploymentCredential_def RegisterVerifiedClientCertificate_def RevokeClientCertificate_def
    CreateCertificateAuthority_def RevokeCertificateAuthority_def IssueClientCertificate_def finishPKIFailure_def finishIssue_def
  by (intro run_kept assms preserves_intros kept_undeploy kept_certificates kept_issue data_kept)+

lemma step_rows: "P d \<Longrightarrow> \<not> makesToken call \<Longrightarrow> P (credentialStep X A provider call env d)"
  using kept_changes [OF rows] calls_kept by (cases call) simp_all

end

locale credential_invariant = row_invariant +
  assumes created: "P d \<Longrightarrow> insertToken t e d = Some d' \<Longrightarrow> P d'"
begin

lemma tokens: "tokenKept P"
  using rows created unfolding tokenKept_def by blast

lemma kept_record: "preserves P (createTokenRecord r)"
  unfolding token_bodies by (intro preserves_intros; (rule kept created; assumption)?)+

lemma kept_deploy: "preserves P (issueDeploymentBody X A provider r parent)"
  unfolding issueDeploymentBody_def finishDeployment_def Let_def
  by (intro preserves_intros data_kept kept_issue kept_record)+

lemma deployment_kept: "P d \<Longrightarrow> P (snd (IssueDeploymentCredential X A provider r env d))"
  unfolding IssueDeploymentCredential_def by (erule run_kept) (intro preserves_intros kept_deploy data_kept)+

lemma step_kept: "P d \<Longrightarrow> P (credentialStep X A provider call env d)"
  using step_rows kept_create [OF tokens] deployment_kept
  by (cases "makesToken call") (auto elim!: makesToken.elims)

lemma steps_kept: "P d \<Longrightarrow> P (credentialSteps X A provider calls d)"
  unfolding credentialSteps_def by (induction calls arbitrary: d) (auto simp: step_kept)

end

section \<open>What stays revoked\<close>

interpretation ended: credential_invariant "revokedIn p" for p
proof
  show "rowsKept (revokedIn p)" by (rule tokenKeptD(1) [OF revoked_kept])
  show "revokedIn p d \<Longrightarrow> insertToken t e d = Some d' \<Longrightarrow> revokedIn p d'" for d t e d' by (rule revokedIn_insert)
  show "revokedIn p d \<Longrightarrow> insertCertificate c d = Some d' \<Longrightarrow> revokedIn p d'" for d c d'
    by (erule revokedIn_tokens) (auto simp: insertCertificate_def split: if_splits)
  show "revokedIn p d \<Longrightarrow> withdrawing f \<Longrightarrow> revokedIn p (d\<lparr> certificates := updateWhere q f (certificates d) \<rparr>)" for d f q
    by (erule revokedIn_tokens) simp
qed

text \<open>The certificate of a fingerprint is revoked; there is one.\<close>

definition withdrawnIn :: "bytes \<Rightarrow> db \<Rightarrow> bool" where
  "withdrawnIn fp d =
     (uniqueOn ct_fingerprint (certificates d) \<and>
      (\<exists>c \<in> set (certificates d). ct_fingerprint c = fp \<and> ct_revoked c \<noteq> None))"

lemma onData_withdrawnIn: "onData (withdrawnIn fp)"
  unfolding onData_def withdrawnIn_def by (metis data_tables(12))

lemma withdrawnIn_certificates: "withdrawnIn fp d \<Longrightarrow> certificates d' = certificates d \<Longrightarrow> withdrawnIn fp d'"
  by (simp add: withdrawnIn_def)

lemma withdrawnIn_mapI:
  assumes "uniqueOn ct_fingerprint (certificates d)" and rows: "certificates d' = map f (certificates d)"
    and f: "\<And>c. ct_fingerprint (f c) = ct_fingerprint c"
    and c: "c \<in> set (certificates d)" "ct_fingerprint c = fp" "ct_revoked (f c) \<noteq> None"
  shows "withdrawnIn fp d'"
  unfolding withdrawnIn_def
proof
  have "map ct_fingerprint (certificates d') = map ct_fingerprint (certificates d)" by (simp add: rows f)
  then show "uniqueOn ct_fingerprint (certificates d')" using assms(1) unfolding uniqueOn_def by simp
  show "\<exists>c \<in> set (certificates d'). ct_fingerprint c = fp \<and> ct_revoked c \<noteq> None"
    by (rule bexI [of _ "f c"]) (use c in \<open>simp_all add: rows f\<close>)
qed

lemma withdrawnIn_map:
  assumes "withdrawnIn fp d" and "certificates d' = map f (certificates d)" and "withdrawing f"
  shows "withdrawnIn fp d'"
proof -
  obtain c where "c \<in> set (certificates d)" "ct_fingerprint c = fp" "ct_revoked c \<noteq> None"
    using assms(1) unfolding withdrawnIn_def by blast
  then show ?thesis
    using assms by (intro withdrawnIn_mapI [of d d' f c]) (simp_all add: withdrawnIn_def withdrawing_def)
qed

lemma withdrawing_where: "withdrawing f \<Longrightarrow> withdrawing (\<lambda>c. if q c then f c else c)"
  by (simp add: withdrawing_def)

lemma withdrawnIn_update:
  "withdrawnIn fp d \<Longrightarrow> withdrawing f \<Longrightarrow> withdrawnIn fp (d\<lparr> certificates := updateWhere q f (certificates d) \<rparr>)"
  by (rule withdrawnIn_map [where f = "\<lambda>c. if q c then f c else c"]) (simp_all add: updateWhere_def withdrawing_where)

lemma withdrawing_revoked: "withdrawing (\<lambda>c. c\<lparr> ct_revoked := revokedAt at (ct_revoked c) \<rparr>)"
  by (auto simp: withdrawing_def revokedAt_def split: option.splits)

lemma withdrawn_inactive: "withdrawnIn fp d \<Longrightarrow> \<not> certificateActive at fp d"
  by (auto simp: withdrawnIn_def certificateActive_def dest: uniqueOnD)

interpretation withdrawn: credential_invariant "withdrawnIn fp" for fp
proof
  show "rowsKept (withdrawnIn fp)"
    unfolding rowsKept_def
    using onData_withdrawnIn withdrawnIn_certificates withdrawnIn_update [OF _ withdrawing_revoked]
    by (auto simp: revokeTokens_def revokeCertificates_def)
  show "withdrawnIn fp d \<Longrightarrow> insertToken t e d = Some d' \<Longrightarrow> withdrawnIn fp d'" for d t e d'
    by (erule withdrawnIn_certificates) (auto simp: insertToken_def split: if_splits)
  show "withdrawnIn fp d \<Longrightarrow> insertCertificate c d = Some d' \<Longrightarrow> withdrawnIn fp d'" for d c d'
    by (force simp: insertCertificate_def withdrawnIn_def uniqueOn_def split: if_splits)
  show "withdrawnIn fp d \<Longrightarrow> withdrawing f \<Longrightarrow> withdrawnIn fp (d\<lparr> certificates := updateWhere q f (certificates d) \<rparr>)" for d f q
    by (rule withdrawnIn_update)
qed

text \<open>The certificates that a revocation ends: those its tokens are bound to.\<close>

lemma revokedBy_withdraws:
  assumes "revokedBy r res d d'" and "tk_outcome res = OutcomeSuccess" and "uniqueOn ct_fingerprint (certificates d)"
    and "t \<in> set (api_tokens d)" and "ends r res t" and "tk_fingerprint t = Some fp"
    and "fp \<in> ct_fingerprint ` set (certificates d)"
  shows "withdrawnIn fp d'"
proof -
  let ?q = "\<lambda>c. existsRow (\<lambda>t. ofToken (tx_public r) t \<and> tk_fingerprint t = Some (ct_fingerprint c)) (api_tokens d)"
  obtain at where rows: "certificates d' =
      updateWhere ?q (\<lambda>c. c\<lparr> ct_revoked := revokedAt at (ct_revoked c) \<rparr>) (certificates d)"
    using assms(1,2) by (auto simp: revokedBy_def)
  let ?f = "\<lambda>c. if ?q c then c\<lparr> ct_revoked := revokedAt at (ct_revoked c) \<rparr> else c"
  have rows: "certificates d' = map ?f (certificates d)" using rows by (simp add: updateWhere_def)
  obtain c where c: "c \<in> set (certificates d)" "ct_fingerprint c = fp" using assms(7) by auto
  have "ofToken (tx_public r) t" using assms(5) by (auto simp: ends_def ofToken_def)
  then have "?q c" using assms(4,6) c(2) by auto
  then have ended: "ct_revoked (?f c) \<noteq> None" by (auto simp: revokedAt_def split: option.splits)
  show ?thesis by (rule withdrawnIn_mapI [OF assms(3) rows _ c ended]) simp
qed

lemma revoked_denied:
  assumes "sv_repository server = storeRepository codec A provider r1 r2 r3" and "revokedIn p (rd_db r1)"
    and "bearerToken (rq_authorization request) = Some (p, secret)"
  shows "snd (snd (authenticate server request environment)) \<noteq> 0"
proof
  assume "snd (snd (authenticate server request environment)) = 0"
  then obtain t a where "authenticate server request environment = (t, a, 0)"
    by (cases "authenticate server request environment") auto
  then have "repo_token (sv_repository server) p environment = Inr t" "\<not> tok_revoked t"
    using assms(3) unfolding authenticate_vouched vouched_def by auto
  then show False using assms(1,2) repo_token_store(1) revoked_rejected by metis
qed

text \<open>
  C21. Revocation is final. Once a token was revoked, neither it nor a token that was issued from it
  is let in again, and no certificate bound to them is active again, whatever operations on
  credentials follow, in whatever order and however their statements fail.
\<close>

theorem revoked_credentials_end:
  assumes "RevokeToken r env d = (Inr (res, None), d')" and "opRow (tx_operation r) d = None"
    and "uniqueOn tk_public_id (api_tokens d)" and "uniqueOn ct_fingerprint (certificates d)"
    and "t \<in> set (api_tokens d)" and "ends r res t"
  shows "(sv_repository server = storeRepository codec A' provider' r1 r2 r3 \<and>
      rd_db r1 = credentialSteps X A provider calls d' \<and>
      bearerToken (rq_authorization request) = Some (tk_public_id t, secret) \<longrightarrow>
        snd (snd (authenticate server request environment)) \<noteq> 0) \<and>
    (tk_outcome res = OutcomeSuccess \<and> tk_fingerprint t = Some fp \<and> fp \<in> ct_fingerprint ` set (certificates d) \<longrightarrow>
        \<not> certificateActive at fp (credentialSteps X A provider calls d'))"
proof -
  have effect: "revokedBy r res d d'" by (rule RevokeToken_first [OF assms(1,2)])
  have "revokedIn (tk_public_id t) (credentialSteps X A provider calls d')"
    by (rule ended.steps_kept [OF revokedBy_ends [OF effect assms(3,5,6)]])
  then show ?thesis
    using revoked_denied withdrawn_inactive withdrawn.steps_kept [OF revokedBy_withdraws [OF effect _ assms(4,5,6)]]
    by metis
qed

section \<open>A created token lets its holder in\<close>

text \<open>
  C22. What a creation answers with is a working credential: a request that carries the token's text
  is let in exactly for the environments of the creation, as the token described by the answer,
  until it expires, and with the client certificate that it needs.
\<close>

theorem created_token_authenticates:
  assumes "CreateToken maxTTL r env d = (Inr (res, None), d')" and "opRow (tc_operation r) d = None"
    and "sizedRandom (rand env)" and "\<And>b. length (sha256 env b) = 32" and "tokenTables d"
    and "sv_repository server = storeRepository codec A provider r1 r2 r3" and "sv_sha server = sha256 env"
    and "rd_db r1 = d'" and "calm r1" and "calm r2"
    and "rq_authorization request = ''Bearer '' @ tr_token res"
  shows "\<exists>secretDigest. \<forall>environment token authentication.
    authenticate server request environment = (token, authentication, 0) \<longleftrightarrow>
      environment \<in> set (elems (tc_environments r)) \<and> token = issuedToken r res secretDigest \<and>
      (tok_expires token = 0 \<or> sv_now server 0 < tok_expires token) \<and>
      presents (\<lambda>f. certificateActive (db_now (rd_env r2)) f (rd_db r2)) (sha256 env) (rq_tls request) token authentication"
proof -
  have valid: "validateTokenCreate maxTTL (now env) r = None" and stored: "tokenStored env r res d d'"
    using CreateToken_stored [OF assms(1-3)] by auto
  obtain pub secret where pub: "tr_public res = encodeHex pub" "length pub = 8" "length secret = 32"
    and token: "tr_token res = ''cfg_'' @ encodeHex pub @ ''_'' @ encodeBase64 secret"
    and row: "\<And>k. tokenFor (encodeHex pub) k d' =
      Inr ((issuedToken r res (sha256 env secret))\<lparr> tok_granted := (k \<in> set (elems (tc_environments r))) \<rparr>)"
    using stored_token [OF stored validated_row [OF valid _ assms(4)] assms(5)] by blast
  have bearer: "bearerToken (rq_authorization request) = Some (encodeHex pub, secret)"
    using bearer_token [OF pub(2,3)] by (simp add: assms(11) token)
  have same: "(issuedToken r res dg)\<lparr> tok_granted := True \<rparr> = issuedToken r res dg" for dg
    by (simp add: issuedToken_def)
  have "authenticate server request environment = (t, a, 0) \<longleftrightarrow>
      environment \<in> set (elems (tc_environments r)) \<and> t = issuedToken r res (sha256 env secret) \<and>
      (tok_expires t = 0 \<or> sv_now server 0 < tok_expires t) \<and>
      presents (\<lambda>f. certificateActive (db_now (rd_env r2)) f (rd_db r2)) (sha256 env) (rq_tls request) t a"
    for environment t a
    unfolding authenticate_vouched vouched_def bearer assms(6,7)
    using repo_token_store(2) [OF assms(9)] repo_active_store(2) [OF assms(10)] row same
    by (auto simp: assms(8) issuedToken_def pub(1))
  then show ?thesis by blast
qed

section \<open>Deployment credentials\<close>

text \<open>
  What \<^verbatim>\<open>x509.CreateCertificate\<close> documents of the lifetime: the encoded certificate ends at the
  template's instant, to the second.
\<close>

definition faithfulX509 :: "x509 \<Rightarrow> bool" where
  "faithfulX509 X =
     (\<forall>R t template parent pub signer der c.
        x_create X R t template parent pub signer = Some der \<and> x_parse X der = Some c \<longrightarrow>
          cf_not_after c = tm_not_after template - tm_not_after template mod second)"

text \<open>The tables that tokens are read from.\<close>

definition sameTokens :: "db \<Rightarrow> db \<Rightarrow> bool" where
  "sameTokens d' d =
     (api_tokens d' = api_tokens d \<and> token_environments d' = token_environments d \<and> environments d' = environments d)"

lemma tokenStored_same:
  assumes stored: "tokenStored env r res d1 d'" and same: "sameTokens d1 d"
  shows "tokenStored env r res d d'"
proof -
  have eqs: "api_tokens d1 = api_tokens d" "token_environments d1 = token_environments d" "environments d1 = environments d"
    using same by (simp_all add: sameTokens_def)
  show ?thesis using stored unfolding tokenStored_def tokenRowAllowed_def activeEnvironment_def eqs .
qed

lemma drawing_Inr: "drawing f env s = (Inr x, s') \<longleftrightarrow> f (rand env) (tick s) = Some x \<and> s' = s\<lparr> tick := tick s + 3 \<rparr>"
  by (auto simp: drawing_def sealing_Inr split: option.splits)

lemma insertCertificate_rows:
  "insertCertificate c d = Some d' \<Longrightarrow> sameTokens d' d \<and> certificates d' = certificates d @ [c]"
  by (auto simp: insertCertificate_def sameTokens_def split: if_splits)

lemma recordIssued_effect:
  assumes "recordIssued X r i authority generated env s = (Inr res, s')"
  shows "durable s' = durable s \<and> sameTokens (work s') (work s) \<and>
    ir_certificate res = certificateResult (sha256 env) (ci_name r) (gc_certificate generated) OutcomeSuccess \<and>
    (\<exists>j. certificates (work s') =
       certificates (work s) @ [certificateRow (sha256 env) j (ci_name r) (gc_certificate generated) (Some i)])"
proof -
  obtain exported j s1 s2 where j: "randomID env s = (Inr j, s1)"
    and e: "tx_exec (insertCertificate (certificateRow (sha256 env) j (ci_name r) (gc_certificate generated) (Some i))) env s1 =
      (Inr (), s2)" "s' = s2" "res = issueResult (sha256 env) r (gc_certificate generated) exported"
    using assms by (auto simp: recordIssued_def tx_bind_Inr tx_env_def split: option.splits)
  have "work s1 = work s" "durable s1 = durable s" using j by (auto simp: randomID_def tx_random_Inr)
  then show ?thesis using e insertCertificate_rows by (auto simp: tx_exec_Inr issueResult_def)
qed

lemma issue_effect:
  assumes "issueClientCertificateRecord X A provider r env s = (Inr res, s')"
  shows "durable s' = durable s \<and> sameTokens (work s') (work s) \<and>
    (\<exists>authority key t generated i j.
       existsRow (\<lambda>a. ca_id a = i \<and> ca_revoked a = None) (authorities (work s)) \<and> parseAuthorityID (ci_authority r) = Some i \<and>
       generateFor X authority key r (now env) (rand env) t = Some generated \<and>
       ir_certificate res = certificateResult (sha256 env) (ci_name r) (gc_certificate generated) OutcomeSuccess \<and>
       certificates (work s') =
         certificates (work s) @ [certificateRow (sha256 env) j (ci_name r) (gc_certificate generated) (Some i)])"
proof -
  obtain i a where i: "parseAuthorityID (ci_authority r) = Some i" and a: "findAuthority i (work s) = Some a" "ca_revoked a = None"
    and rest: "issueFrom X A provider r i a env (s\<lparr> tick := Suc (tick s) \<rparr>) = (Inr res, s')"
    using assms by (auto simp: issueClientCertificateRecord_def tx_Inr split: option.splits if_splits)
  obtain authority key generated where
    g: "generateFor X authority key r (now env) (rand env) (Suc (tick s)) = Some generated" and
    stored: "recordIssued X r i authority generated env (s\<lparr> tick := 4 + tick s \<rparr>) = (Inr res, s')"
    using rest
    by (auto simp: issueFrom_def tx_bind_Inr tx_handle_Inr drawing_Inr tx_env_def split: option.splits sum.splits)
  moreover have "existsRow (\<lambda>a. ca_id a = i \<and> ca_revoked a = None) (authorities (work s))"
    using a by (auto simp: findAuthority_def dest!: find_SomeD)
  ultimately show ?thesis using i g recordIssued_effect [OF stored] by auto blast
qed

lemma generated_lifetime:
  assumes "generateFor X authority key r at R t = Some generated" and X: "faithfulX509 X" and "ci_not_after r \<noteq> 0"
    and now: "second \<le> at"
  shows "0 < cf_not_after (gc_certificate generated)"
proof -
  have "GenerateClientUntil X authority key (ci_name r) (ci_not_after r) at R t = Some generated"
    using assms(1,3) by (simp add: generateFor_def)
  then obtain pair serial where later: "at < ci_not_after r" "at < cf_not_after authority"
    and "createCertificate X R (t + 2) (clientTemplate authority (ci_name r) (ci_not_after r) at serial) (Some authority) pair key =
      Some generated"
    by (auto simp: GenerateClientUntil_def split: if_splits option.splits)
  then obtain der where "x_create X R (t + 2) (clientTemplate authority (ci_name r) (ci_not_after r) at serial)
      (Some authority) (snd pair) key = Some der" "x_parse X der = Some (gc_certificate generated)"
    by (auto simp: createCertificate_def split: option.splits)
  with X have "cf_not_after (gc_certificate generated) =
      tm_not_after (clientTemplate authority (ci_name r) (ci_not_after r) at serial) -
      tm_not_after (clientTemplate authority (ci_name r) (ci_not_after r) at serial) mod second"
    unfolding faithfulX509_def by blast
  moreover have "at < tm_not_after (clientTemplate authority (ci_name r) (ci_not_after r) at serial)"
    using later by (simp add: clientTemplate_def)
  moreover have "n - n mod second > 0" if "at < n" for n
    using now that pos_mod_bound [of second n] by (simp add: second_def)
  ultimately show ?thesis by simp
qed

lemma authorized_scope:
  assumes "authorizeScopedWrite act e c n env s = (Inr token, s')" and "actorType act = ''token''"
  shows "decodeTokenScope (tok_configs token) \<noteq> None \<and> decodeTokenScope (tok_namespaces token) \<noteq> None"
  using assms
  by (auto simp: authorizeScopedWrite_def tx_Inr Let_def split: if_splits option.splits dest: decodeTokenScope_Some)

text \<open>What an issue stores.\<close>

lemma issueDeploymentBody_effect:
  assumes "issueDeploymentBody X A provider r parent env s = (Inr (res, None), s')" and R: "sizedRandom (rand env)"
  shows "now env < di_expires r \<and> di_expires r \<le> tok_expires parent \<and>
    (\<exists>authority key t generated d1.
       generateFor X authority key (deploymentCertificate r) (now env) (rand env) t = Some generated \<and>
       ir_certificate (dr_certificate res) =
         certificateResult (sha256 env) (di_name r) (gc_certificate generated) OutcomeSuccess \<and>
       tokenStored env (deploymentToken r parent (ir_certificate (dr_certificate res))) (dr_token res) (work s) d1 \<and>
       data (durable s') = data d1)"
proof -
  obtain c s1 t s2 where times: "now env < di_expires r" "di_expires r \<le> tok_expires parent"
    and c: "issueClientCertificateRecord X A provider (deploymentCertificate r) env s = (Inr c, s1)"
    and t: "createTokenRecord (deploymentToken r parent (ir_certificate c)) env s1 = (Inr t, s2)"
    and f: "finishDeployment r c t env s2 = (Inr (res, None), s')"
    using assms(1) by (auto simp: issueDeploymentBody_def tx_bind_Inr tx_env_def split: if_splits)
  have res: "res = \<lparr> dr_outcome = OutcomeSuccess, dr_token = t, dr_certificate = c \<rparr>" "data (durable s') = data (work s2)"
    using f by (auto simp: finishDeployment_def Let_def dest!: finishCommit_effect)
  have "tokenStored env (deploymentToken r parent (ir_certificate c)) t (work s) (work s2)"
    using createTokenRecord_effect [OF t R] issue_effect [OF c] tokenStored_same by blast
  then show ?thesis using times issue_effect [OF c] res by (auto simp: deploymentCertificate_def) blast
qed

lemma IssueDeployment_first:
  assumes "IssueDeploymentCredential X A provider r env d = (Inr (res, None), d')" and "opRow (di_operation r) d = None"
    and R: "sizedRandom (rand env)"
  shows "actorType (di_actor r) = ''token'' \<and>
    (\<exists>parent authority key t generated.
       authorized env (di_actor r) (di_environment r) [] [] d parent \<and>
       decodeTokenScope (tok_configs parent) \<noteq> None \<and> decodeTokenScope (tok_namespaces parent) \<noteq> None \<and>
       now env < di_expires r \<and>
       di_expires r \<le> tok_expires parent \<and>
       generateFor X authority key (deploymentCertificate r) (now env) (rand env) t = Some generated \<and>
       ir_certificate (dr_certificate res) =
         certificateResult (sha256 env) (di_name r) (gc_certificate generated) OutcomeSuccess \<and>
       tokenStored env (deploymentToken r parent (ir_certificate (dr_certificate res))) (dr_token res) d d')"
proof -
  let ?s0 = "\<lparr> work = d, durable = d, tick = 1 \<rparr>"
  obtain s1 parent s2 s where actor: "actorType (di_actor r) = ''token''"
    and 1: "lockMasterKey A provider env ?s0 = (Inr (), s1)"
    and 2: "authorizeScopedWrite (di_actor r) (di_environment r) [] [] env s1 = (Inr parent, s2)"
    and 3: "journaled (di_operation r) (deploymentIssueDigest env r) (di_actor r) [] replayDeployment
      (issueDeploymentBody X A provider r parent) env s2 = (Inr (res, None), s)" and d': "d' = durable s"
    using assms(1) by (auto simp: IssueDeploymentCredential_def run_tx_iff tx_bind_Inr split: if_splits)
  have w: "work s1 = d" using lockMasterKey_Inr [OF 1] by simp
  have auth: "authorized env (di_actor r) (di_environment r) [] [] d parent" "work s2 = d"
    using authorizeScopedWrite_Inr [OF 2] w by auto
  obtain s3 where s3: "data (work s3) = data d" and body: "issueDeploymentBody X A provider r parent env s3 = (Inr (res, None), s)"
    using journaled_first_at [OF 3] assms(2) auth(2) by auto
  from issueDeploymentBody_effect [OF body R] auth(1) authorized_scope [OF 2 actor] actor show ?thesis
    using tokenStored_data [OF _ s3] d' by blast
qed

text \<open>A reading token of the parent's scope, bound to a certificate, that ends no later than the parent.\<close>

definition confinedTo :: "api_token_row \<Rightarrow> time \<Rightarrow> bytes \<Rightarrow> Token \<Rightarrow> bool" where
  "confinedTo parent expires fp token =
     (tok_kind token = TokenReadOnly \<and> tok_parent token = tk_public_id parent \<and>
      tok_configs token = tk_configs parent \<and> tok_namespaces token = tk_namespaces parent \<and>
      \<not> tok_without_mtls token \<and> tok_fingerprint token = fp \<and> tok_expires token \<le> datetime expires)"

lemma datetime_mono: "a \<le> b \<Longrightarrow> datetime a \<le> datetime b"
  by (simp add: datetime_def zdiv_mono1)

lemma deployment_row:
  assumes "decodeTokenScope (tok_configs parent) \<noteq> None" "decodeTokenScope (tok_namespaces parent) \<noteq> None"
    and "\<And>b. length (sha256 env b) = 32" and "length i = 16"
  shows "wellFormedToken (tokenRow (deploymentToken r parent c) i pub (sha256 env secret) expires)"
  using assms by (simp add: wellFormedToken_def tokenRow_def deploymentToken_def TokenReadOnly_def)

text \<open>Who presents the text of a stored token.\<close>

lemma presented_token:
  assumes "authenticate server request environment = (t, a, 0)"
    and "sv_repository server = storeRepository codec A provider r1 r2 r3"
    and "rq_authorization request = ''Bearer cfg_'' @ encodeHex pub @ ''_'' @ encodeBase64 secret"
    and "length pub = 8" and "length secret = 32"
    and "\<And>k. tokenFor (encodeHex pub) k (rd_db r1) = Inr (T\<lparr> tok_granted := (k \<in> K) \<rparr>)"
  shows "environment \<in> K \<and> t = T\<lparr> tok_granted := True \<rparr> \<and>
    presents (\<lambda>f. repo_active (sv_repository server) f = Inr True) (sv_sha server) (rq_tls request) t a"
proof -
  have bearer: "bearerToken (rq_authorization request) = Some (encodeHex pub, secret)"
    using bearer_token [OF assms(4,5)] by (simp add: assms(3))
  from assms(1) have known: "repo_token (sv_repository server) (encodeHex pub) environment = Inr t"
    and "tok_granted t" and p: "presents (\<lambda>f. repo_active (sv_repository server) f = Inr True) (sv_sha server) (rq_tls request) t a"
    unfolding authenticate_vouched vouched_def bearer by auto
  moreover from known have "tokenFor (encodeHex pub) environment (rd_db r1) = Inr t"
    unfolding assms(2) by (rule repo_token_store(1))
  ultimately show ?thesis using assms(6) [of environment] p by auto
qed

lemma presents_bound:
  "presents registered sha connection t a \<Longrightarrow> tok_fingerprint t \<noteq> [] \<Longrightarrow>
    a = AuthenticationMTLS \<and> (\<exists>peer rest. connection = Some (peer # rest) \<and> sha (pr_raw peer) = tok_fingerprint t)"
  by (auto simp: presents_def split: option.splits list.splits)

lemma tokenStored_result:
  "tokenStored env r res d d' \<Longrightarrow>
    tr_kind res = (if tc_kind r = [] then TokenReadOnly else tc_kind r) \<and>
    tr_expires res = (if tokenExpiry (now env) r = 0 then None else Some (tokenExpiry (now env) r))"
  by (auto simp: tokenStored_def tokenResult_def)

text \<open>
  C20. A deployment credential never exceeds the token that issued it: that token was live, writing
  and granted the environment; whoever presents the new token is let in for this one environment only,
  with the client certificate that was issued along, to read what the issuing token's scope names, and
  no longer than that token was to live.
\<close>

theorem deployment_confined:
  assumes "IssueDeploymentCredential X A provider r env d = (Inr (res, None), d')" and "opRow (di_operation r) d = None"
    and "sizedRandom (rand env)" and "\<And>b. length (sha256 env b) = 32" and "tokenTables d"
    and "faithfulX509 X" and "second \<le> now env"
  shows "\<exists>parent expires raw.
    findToken (actorID (di_actor r)) d = Some parent \<and> tk_kind parent = TokenWriteScoped \<and> tk_revoked parent = None \<and>
    tk_expires parent = Some expires \<and> now env < expires \<and>
    environmentGranted True (tk_id parent) (di_environment r) d \<and>
    xr_fingerprint (ir_certificate (dr_certificate res)) = encodeHex (sha256 env raw) \<and>
    (\<forall>server codec A' provider' r1 r2 r3 request environment token authentication.
       sv_repository server = storeRepository codec A' provider' r1 r2 r3 \<and> rd_db r1 = d' \<and>
       rq_authorization request = ''Bearer '' @ tr_token (dr_token res) \<and>
       authenticate server request environment = (token, authentication, 0) \<longrightarrow>
         environment = di_environment r \<and> confinedTo parent expires (sha256 env raw) token \<and>
         authentication = AuthenticationMTLS \<and>
         (\<exists>peer rest. rq_tls request = Some (peer # rest) \<and> sv_sha server (pr_raw peer) = sha256 env raw))"
proof -
  obtain token authority key t generated where actor: "actorType (di_actor r) = ''token''"
    and auth: "authorized env (di_actor r) (di_environment r) [] [] d token"
    and scope: "decodeTokenScope (tok_configs token) \<noteq> None" "decodeTokenScope (tok_namespaces token) \<noteq> None"
    and times: "now env < di_expires r" "di_expires r \<le> tok_expires token"
    and g: "generateFor X authority key (deploymentCertificate r) (now env) (rand env) t = Some generated"
    and c: "ir_certificate (dr_certificate res) =
      certificateResult (sha256 env) (di_name r) (gc_certificate generated) OutcomeSuccess"
    and stored: "tokenStored env (deploymentToken r token (ir_certificate (dr_certificate res))) (dr_token res) d d'"
    using IssueDeployment_first [OF assms(1-3)] by blast
  let ?r = "deploymentToken r token (ir_certificate (dr_certificate res))"
  let ?fp = "sha256 env (cf_raw (gc_certificate generated))"
  obtain parent expires where parent: "findToken (actorID (di_actor r)) d = Some parent" "tk_kind parent = TokenWriteScoped"
    "tk_revoked parent = None" "tk_expires parent = Some expires" "now env < expires"
    "environmentGranted True (tk_id parent) (di_environment r) d"
    and same: "tok_public token = actorID (di_actor r)" "tok_expires token = expires"
      "tok_configs token = tk_configs parent" "tok_namespaces token = tk_namespaces parent"
    using auth actor by (auto simp: authorized_def)
  have id: "tk_public_id parent = actorID (di_actor r)" using parent(1) by (auto simp: findToken_def dest!: find_SomeD)
  have "0 < cf_not_after (gc_certificate generated)"
    by (rule generated_lifetime [OF g assms(6) _ assms(7)]) (use times assms(7) in \<open>simp add: deploymentCertificate_def second_def\<close>)
  then have expiry: "tokenExpiry (now env) ?r \<noteq> 0" "tokenExpiry (now env) ?r \<le> expires"
    using times same(2) assms(7) by (simp_all add: tokenExpiry_def deploymentToken_def c certificateResult_def second_def)
  obtain pub secret where pub: "tr_public (dr_token res) = encodeHex pub" "length pub = 8" "length secret = 32"
    and bearer: "tr_token (dr_token res) = ''cfg_'' @ encodeHex pub @ ''_'' @ encodeBase64 secret"
    and row: "\<And>k. tokenFor (encodeHex pub) k d' =
      Inr ((issuedToken ?r (dr_token res) (sha256 env secret))\<lparr> tok_granted := (k \<in> set (elems (tc_environments ?r))) \<rparr>)"
    using stored_token [OF stored deployment_row [OF scope assms(4)] assms(5)] by blast
  let ?T = "issuedToken ?r (dr_token res) (sha256 env secret)"
  have fp: "tok_fingerprint ?T = ?fp" "?fp \<noteq> []" using assms(4) [of "cf_raw (gc_certificate generated)"]
    by (auto simp: issuedToken_def deploymentToken_def c certificateResult_def)
  have confined: "confinedTo parent expires ?fp (?T\<lparr> tok_granted := True \<rparr>)"
    using tokenStored_result [OF stored] expiry datetime_mono [OF expiry(2)] fp(1) same id
    by (simp add: confinedTo_def issuedToken_def deploymentToken_def TokenReadOnly_def)
  have presented: "environment = di_environment r \<and> confinedTo parent expires ?fp t \<and> a = AuthenticationMTLS \<and>
      (\<exists>peer rest. rq_tls request = Some (peer # rest) \<and> sv_sha server (pr_raw peer) = ?fp)"
    if "sv_repository server = storeRepository codec A' provider' r1 r2 r3" "rd_db r1 = d'"
      "rq_authorization request = ''Bearer '' @ tr_token (dr_token res)"
      "authenticate server request environment = (t, a, 0)" for server codec A' provider' r1 r2 r3 request environment t a
    using presented_token [OF that(4,1) _ pub(2,3), where T = ?T and K = "{di_environment r}"] that(2,3) row confined
      presents_bound [of _ _ _ "?T\<lparr> tok_granted := True \<rparr>"] fp
    by (auto simp: bearer deploymentToken_def elems_def)
  show ?thesis
    by (intro exI [of _ parent] exI [of _ expires] exI [of _ "cf_raw (gc_certificate generated)"] conjI allI impI parent)
      (use presented in \<open>auto simp: c certificateResult_def\<close>)
qed

section \<open>The readers never meet a row they cannot read\<close>

interpretation readable: row_invariant readableTokens
proof
  have tokens: "readableTokens d'" if "readableTokens d" "api_tokens d' = api_tokens d" for d d'
    using that by (simp add: readableTokens_def)
  show "rowsKept readableTokens" by (rule readable_rows)
  show "readableTokens d \<Longrightarrow> insertCertificate c d = Some d' \<Longrightarrow> readableTokens d'" for d c d'
    by (erule tokens) (auto simp: insertCertificate_def split: if_splits)
  show "readableTokens d \<Longrightarrow> withdrawing f \<Longrightarrow> readableTokens (d\<lparr> certificates := updateWhere q f (certificates d) \<rparr>)" for d f q
    by (erule tokens) simp
qed

lemma quiet_issue [quiet_intros]: "quiet (issueClientCertificateRecord X A provider r)"
  unfolding issueClientCertificateRecord_def issueFrom_def recordIssued_def drawing_def randomID_def
  by (intro quiet_intros)

lemma steady_handle_drawing [steady_intros]:
  "(\<And>e. steady (h e)) \<Longrightarrow> (\<And>a. steady (f a)) \<Longrightarrow> steady (tx_handle p (drawing g) h f)"
  by (auto simp: steady_def tx_handle_def drawing_def sealing_def split: option.splits)

lemma steady_issue [steady_intros]: "steady (issueClientCertificateRecord X A provider r)"
  unfolding issueClientCertificateRecord_def issueFrom_def recordIssued_def randomID_def
  by (intro steady_intros) simp_all

lemma deploymentIssueDigest_nofault: "deploymentIssueDigest (nofault env) r = deploymentIssueDigest env r"
  by (simp add: deploymentIssueDigest_def pkiDigest_def split: option.splits)

lemma IssueDeployment_atomic: "allOrNothing (IssueDeploymentCredential X A provider r)"
  unfolding IssueDeploymentCredential_def issueDeploymentBody_def finishDeployment_def Let_def
  by (intro allOrNothing_guard allOrNothing_env atomic_intros steady_intros quiet_intros)
    (simp_all add: deploymentIssueDigest_nofault)

lemma issueDeploymentBody_result:
  "issueDeploymentBody X A provider r parent env s = (Inr (res, e), s') \<Longrightarrow> e = None"
  by (auto simp: issueDeploymentBody_def finishDeployment_def commitWith_def tx_Inr tx_env_def Let_def split: if_splits)

lemma deployment_readable:
  assumes "IssueDeploymentCredential X A provider r env d = (Inr (res, e), d')" and R: "sizedRandom (rand env)"
    and sha: "\<And>b. length (sha256 env b) = 32" and "readableTokens d"
  shows "readableTokens d'"
proof -
  let ?s0 = "\<lparr> work = d, durable = d, tick = 1 \<rparr>"
  obtain s1 parent s2 s where actor: "actorType (di_actor r) = ''token''"
    and 1: "lockMasterKey A provider env ?s0 = (Inr (), s1)"
    and 2: "authorizeScopedWrite (di_actor r) (di_environment r) [] [] env s1 = (Inr parent, s2)"
    and 3: "journaled (di_operation r) (deploymentIssueDigest env r) (di_actor r) [] replayDeployment
      (issueDeploymentBody X A provider r parent) env s2 = (Inr (res, e), s)" and d': "d' = durable s"
    using assms(1) by (auto simp: IssueDeploymentCredential_def run_tx_iff tx_bind_Inr split: if_splits)
  have w: "work s2 = d" "durable s2 = d"
    using lockMasterKey_Inr [OF 1] authorizeScopedWrite_Inr [OF 2] by auto
  show ?thesis
  proof (cases "opRow (di_operation r) d = None")
    case True
    then obtain s3 where s3: "data (work s3) = data d" and body: "issueDeploymentBody X A provider r parent env s3 = (Inr (res, e), s)"
      using journaled_first_at [OF 3] w by auto
    have "e = None" by (rule issueDeploymentBody_result [OF body])
    then obtain d1 where "tokenStored env (deploymentToken r parent (ir_certificate (dr_certificate res))) (dr_token res) (work s3) d1"
      and d1: "data (durable s) = data d1" using issueDeploymentBody_effect [of X A provider r parent env s3 res s] body R by blast
    moreover have "wellFormedToken (tokenRow (deploymentToken r parent (ir_certificate (dr_certificate res))) i pub
        (sha256 env secret) expires)" if "length i = 16" for i pub secret expires
      using deployment_row [OF _ _ sha that] authorized_scope [OF 2 actor] by blast
    ultimately have "readableTokens d1"
      using readable_data [OF s3] assms(4) by (auto simp: tokenStored_def readableTokens_def)
    then show ?thesis using readable_data [OF d1] d' by simp
  next
    case False
    then show ?thesis using journaled_seen_at [OF 3] w d' assms(4) by simp
  qed
qed

lemma IssueDeployment_readable:
  assumes "sizedRandom (rand env)" and "\<And>b. length (sha256 env b) = 32" and "readableTokens d"
  shows "readableTokens (snd (IssueDeploymentCredential X A provider r env d))"
  by (rule allOrNothing_at [OF IssueDeployment_atomic]) (use deployment_readable assms in fastforce)+

text \<open>
  C40. The rows of the tokens stay well-formed under every sequence of operations on credentials,
  whatever fails: a reader of a token finds a readable row or none, its error for a damaged row is
  never met.
\<close>

theorem token_rows_readable:
  assumes "readableTokens d" and "\<forall>(c, env) \<in> set calls. sizedRandom (rand env) \<and> (\<forall>b. length (sha256 env b) = 32)"
  shows "fst (run_tx (TokenForEnvironment p e) env (credentialSteps X A provider calls d)) \<noteq> Inl ErrInternal"
proof -
  have step: "readableTokens (credentialStep X A provider c env d)"
    if "readableTokens d" "sizedRandom (rand env)" "\<forall>b. length (sha256 env b) = 32" for c env d
    using that readable.step_rows CreateToken_readable IssueDeployment_readable
    by (cases "makesToken c") (auto elim!: makesToken.elims)
  have "readableTokens (credentialSteps X A provider calls d)"
    using assms unfolding credentialSteps_def by (induction calls arbitrary: d) (auto simp: step)
  then have "tokenFor p e (credentialSteps X A provider calls d) \<noteq> Inl ErrInternal"
    by (auto simp: tokenFor_def readableTokens_def list_all_iff findToken_def split: option.splits dest!: find_SomeD)
  then show ?thesis
    using run_reads_fst [OF reads_token [of p e], of env "credentialSteps X A provider calls d"] by auto
qed

end
