(* ===== verification/CredentialSamples.thy ===== *)
theory CredentialSamples
  imports CredentialLaws
begin

text \<open>
  Concrete runs on which the properties of \<^verbatim>\<open>CredentialLaws\<close> hold: a token that is created and
  presented, one that is revoked, and a deployment credential that is issued and presented.
\<close>

section \<open>A created token\<close>

definition tokenReading :: "db \<Rightarrow> reading" where
  "tokenReading d = \<lparr> rd_env = tokenEnv, rd_db = d \<rparr>"

definition tokenServer :: "db \<Rightarrow> server" where
  "tokenServer d =
     \<lparr> sv_repository = storeRepository noYaml plainAEAD zeroProvider (tokenReading d) (tokenReading d) (tokenReading d),
       sv_now = \<lambda>_. 1000, sv_sha = sha256 tokenEnv, sv_request_id = ''rrrrrrrrrrrr'', sv_written = True,
       sv_parse_media = Some, sv_attachment = \<lambda>n. n \<rparr>"

definition holder :: "string \<Rightarrow> peer list \<Rightarrow> machine_request" where
  "holder token peers =
     \<lparr> rq_authorization = ''Bearer '' @ token, rq_if_none_match = [], rq_tls = Some peers \<rparr>"

lemma created_run:
  "(case CreateToken 0 tokenRequest tokenEnv sampleDb of
      (Inr (res, None), d') \<Rightarrow> tr_expires res = Some 7776000000001000 \<and> tr_kind res = TokenReadOnly
    | _ \<Rightarrow> False)"
  by code_simp

lemma token_env: "sizedRandom (rand tokenEnv)" "length (sha256 tokenEnv b) = 32" "calm (tokenReading d)"
  by (auto simp: tokenEnv_def sampleEnv_def sizedRandom_def calm_def tokenReading_def)

lemma token_server:
  "sv_repository (tokenServer d) =
    storeRepository noYaml plainAEAD zeroProvider (tokenReading d) (tokenReading d) (tokenReading d)"
  "sv_sha (tokenServer d) = sha256 tokenEnv" "rd_db (tokenReading d) = d"
  "rq_authorization (holder token peers) = ''Bearer '' @ token"
  by (simp_all add: tokenServer_def tokenReading_def holder_def)

lemma sample_tables: "tokenTables sampleDb" "opRow oid sampleDb = None"
  by (simp_all add: tokenTables_def sampleDb_def emptyDb_def uniqueOn_def opRow_def)

theorem created_token_authenticates_witness:
  "\<exists>res d' t. CreateToken 0 tokenRequest tokenEnv sampleDb = (Inr (res, None), d') \<and>
     authenticate (tokenServer d') (holder (tr_token res) []) ''prod'' = (t, AuthenticationTokenOnly, 0) \<and>
     tok_public t = tr_public res"
proof -
  obtain res d' where run: "CreateToken 0 tokenRequest tokenEnv sampleDb = (Inr (res, None), d')"
    and at: "tr_expires res = Some 7776000000001000" and kind: "tr_kind res = TokenReadOnly"
    using created_run by (auto split: prod.splits sum.splits option.splits)
  obtain dg where let_in: "\<And>environment t a. authenticate (tokenServer d') (holder (tr_token res) []) environment = (t, a, 0) \<longleftrightarrow>
      environment \<in> set (elems (tc_environments tokenRequest)) \<and> t = issuedToken tokenRequest res dg \<and>
      (tok_expires t = 0 \<or> sv_now (tokenServer d') 0 < tok_expires t) \<and>
      presents (\<lambda>f. certificateActive (db_now (rd_env (tokenReading d'))) f (rd_db (tokenReading d'))) (sha256 tokenEnv)
        (rq_tls (holder (tr_token res) [])) t a"
    using created_token_authenticates [OF run sample_tables(2) token_env(1,2) sample_tables(1) token_server(1-3)
      token_env(3) token_env(3) token_server(4)] by blast
  have "presents q sha (rq_tls (holder (tr_token res) [])) (issuedToken tokenRequest res dg) AuthenticationTokenOnly" for q sha
    using kind by (simp add: presents_def holder_def issuedToken_def tokenRequest_def TokenReadOnly_def TokenWriteScoped_def)
  moreover have "''prod'' \<in> set (elems (tc_environments tokenRequest))" by (simp add: tokenRequest_def elems_def)
  moreover have "sv_now (tokenServer d') 0 < tok_expires (issuedToken tokenRequest res dg)"
    using at by (simp add: tokenServer_def issuedToken_def datetime_def)
  ultimately have "authenticate (tokenServer d') (holder (tr_token res) []) ''prod'' =
      (issuedToken tokenRequest res dg, AuthenticationTokenOnly, 0)" using let_in by blast
  moreover have "tok_public (issuedToken tokenRequest res dg) = tr_public res" by (simp add: issuedToken_def)
  ultimately show ?thesis using run by blast
qed

section \<open>A revoked token\<close>

text \<open>The client's token, bound to its certificate.\<close>

definition boundDb :: db where
  "boundDb = clientDb\<lparr> api_tokens := [clientRow\<lparr> tk_fingerprint := Some ''raw'' \<rparr>] \<rparr>"

definition revocation :: TokenRevoke where
  "revocation = \<lparr> tx_operation = ''op-revoke-1'', tx_actor = Actor ''user'' ''u1'', tx_public = ''abcdef'' \<rparr>"

lemma revocation_run:
  "(case RevokeToken revocation tokenEnv boundDb of
      (Inr (res, None), d') \<Rightarrow> tk_outcome res = OutcomeSuccess
    | _ \<Rightarrow> False)"
  by code_simp

definition boundServer :: "db \<Rightarrow> server" where
  "boundServer d = (tokenServer d)\<lparr> sv_sha := \<lambda>b. b \<rparr>"

lemma bound_rows:
  "uniqueOn tk_public_id (api_tokens boundDb)" "uniqueOn ct_fingerprint (certificates boundDb)"
  "clientRow\<lparr> tk_fingerprint := Some ''raw'' \<rparr> \<in> set (api_tokens boundDb)"
  "''raw'' \<in> ct_fingerprint ` set (certificates boundDb)" "opRow oid boundDb = None"
  by (simp_all add: boundDb_def clientDb_def emptyDb_def uniqueOn_def opRow_def)

theorem revoked_credentials_end_witness:
  "\<exists>res d'. RevokeToken revocation tokenEnv boundDb = (Inr (res, None), d') \<and>
     (\<forall>X A provider calls.
        snd (snd (authenticate (boundServer (credentialSteps X A provider calls d')) clientRequest ''prod'')) \<noteq> 0 \<and>
        \<not> certificateActive 1000 ''raw'' (credentialSteps X A provider calls d'))"
proof -
  obtain res d' where run: "RevokeToken revocation tokenEnv boundDb = (Inr (res, None), d')"
    and out: "tk_outcome res = OutcomeSuccess"
    using revocation_run by (auto split: prod.splits sum.splits option.splits)
  have "ends revocation res (clientRow\<lparr> tk_fingerprint := Some ''raw'' \<rparr>)"
    by (simp add: ends_def revocation_def clientRow_def)
  note ended = revoked_credentials_end [OF run bound_rows(5,1-3) this]
  have "snd (snd (authenticate (boundServer (credentialSteps X A provider calls d')) clientRequest ''prod'')) \<noteq> 0"
    for X A provider calls
  proof (rule ended [THEN conjunct1, rule_format], intro conjI)
    show "sv_repository (boundServer (credentialSteps X A provider calls d')) =
        storeRepository noYaml plainAEAD zeroProvider (tokenReading (credentialSteps X A provider calls d'))
          (tokenReading (credentialSteps X A provider calls d')) (tokenReading (credentialSteps X A provider calls d'))"
      by (simp add: boundServer_def token_server)
    show "rd_db (tokenReading (credentialSteps X A provider calls d')) = credentialSteps X A provider calls d'"
      by (rule token_server)
    show "bearerToken (rq_authorization clientRequest) =
        Some (tk_public_id (clientRow\<lparr> tk_fingerprint := Some ''raw'' \<rparr>), ''kkkkkkkkkkkkkkkkkkkkkkkkkkkkkkkk'')"
      by (simp add: client_bearer clientRow_def)
  qed
  moreover have "\<not> certificateActive 1000 ''raw'' (credentialSteps X A provider calls d')" for X A provider calls
    using ended [where fp = "''raw''"] out bound_rows(4) by simp
  ultimately show ?thesis using run by blast
qed

section \<open>Readable rows\<close>

lemma bound_readable: "readableTokens boundDb"
  by code_simp

theorem token_rows_readable_witness:
  "\<forall>X A provider p e env. fst (run_tx (TokenForEnvironment p e) env
     (credentialSteps X A provider [(Creating 0 tokenRequest, tokenEnv), (Revoking revocation, tokenEnv)] boundDb)) \<noteq>
   Inl ErrInternal"
  by (intro allI token_rows_readable) (auto simp: token_env bound_readable)

section \<open>A deployment credential\<close>

text \<open>
  A library whose encoded certificates are a tag and the seconds of their lifetime: it satisfies
  the hypothesis on \<^verbatim>\<open>x509\<close>.
\<close>

definition sampleX509 :: x509 where
  "sampleX509 =
     \<lparr> x_parse = \<lambda>b. (case b of [] \<Rightarrow> None | c # rest \<Rightarrow>
         Some \<lparr> cf_raw = b, cf_subject = [], cf_serial = Some 1, cf_not_before = 0, cf_not_after = int (length rest) * second,
                cf_is_ca = (c = CHR ''A''), cf_constraints = True, cf_signs = True, cf_public = ''pub'' \<rparr>),
       x_verify = \<lambda>_ _ _ _. True, x_signed_by = \<lambda>_ _. False, x_key = \<lambda>_ _. Some (''key'', ''pub''),
       x_signer = \<lambda>_. Some ''pub'', x_below = \<lambda>_ _ _. Some 1,
       x_create = \<lambda>_ _ template _ _ _.
         (if tm_not_after template < 0 then None
          else Some ((if tm_is_ca template then CHR ''A'' else CHR ''C'') #
            replicate (nat (tm_not_after template div second)) CHR ''t'')),
       x_pem = \<lambda>_ b. b, x_decode = \<lambda>_. None, x_zip = \<lambda>files. Some (concat (map snd files)) \<rparr>"

lemma sampleX509_faithful: "faithfulX509 sampleX509"
proof -
  have "n div second * second = n - n mod second" for n :: int by (simp add: minus_mod_eq_div_mult)
  then show ?thesis
    by (auto simp: faithfulX509_def sampleX509_def second_def pos_imp_zdiv_nonneg_iff split: if_splits)
qed

definition deployEnv :: env where
  "deployEnv = tokenEnv\<lparr> now := 2000000000, db_now := 2000000000 \<rparr>"

definition authorityDer :: bytes where "authorityDer = ''Attttttt''"

definition deployDb :: db where
  "deployDb = sampleDb\<lparr>
     api_tokens := [\<lparr> tk_id = ''wwwwwwwwwwwwwwww'', tk_public_id = ''0123456789abcdef'', tk_name = ''W'', tk_prefix = [],
       tk_digest = ''kkkkkkkkkkkkkkkkkkkkkkkkkkkkkkkk'', tk_without_mtls = False, tk_expires = Some 9000000000,
       tk_revoked = None, tk_kind = ''write-scoped'', tk_configs = Some [''app''], tk_namespaces = Some [''db''],
       tk_fingerprint = None, tk_parent = None \<rparr>],
     token_environments := [\<lparr> te_token = ''wwwwwwwwwwwwwwww'', te_env = ''env-prod'' \<rparr>],
     authorities := [\<lparr> ca_id = ''aaaaaaaaaaaaaaaa'', ca_name = ''A'', ca_der = authorityDer,
       ca_secret = (case EncryptSecret plainAEAD zeroRandom 0 zeroProvider
           (authorityKeyIdentity (sha256 deployEnv) (encodeHex ''aaaaaaaaaaaaaaaa'') authorityDer) ''key'' of
         Inr e \<Rightarrow> e | Inl _ \<Rightarrow> \<lparr> Algorithm = [], KeyVersion = [], Nonce = [], Ciphertext = [], EncryptedDEK = [] \<rparr>),
       ca_not_before = 0, ca_not_after = 7000000000, ca_revoked = None, ca_created = 0 \<rparr>],
     crypto_sentinel := (case CreateSentinel plainAEAD zeroRandom 0 zeroProvider of Inl _ \<Rightarrow> None | Inr s \<Rightarrow> Some s) \<rparr>"

definition deployRequest :: DeploymentCredentialIssue where
  "deployRequest =
     \<lparr> di_operation = ''op-deploy-1'', di_actor = Actor ''token'' ''0123456789abcdef'', di_environment = ''prod'',
       di_name = ''runner'', di_authority = encodeHex ''aaaaaaaaaaaaaaaa'', di_expires = 8000000000 \<rparr>"

definition deployServer :: "db \<Rightarrow> server" where
  "deployServer d =
     \<lparr> sv_repository = storeRepository noYaml plainAEAD zeroProvider \<lparr> rd_env = deployEnv, rd_db = d \<rparr>
         \<lparr> rd_env = deployEnv, rd_db = d \<rparr> \<lparr> rd_env = deployEnv, rd_db = d \<rparr>,
       sv_now = \<lambda>_. 2000000000, sv_sha = sha256 deployEnv, sv_request_id = ''rrrrrrrrrrrr'', sv_written = True,
       sv_parse_media = Some, sv_attachment = \<lambda>n. n \<rparr>"

definition deployPeer :: peer where
  "deployPeer = \<lparr> pr_raw = ''Cttttttt'', pr_not_after = 7000000000 \<rparr>"

text \<open>What lets the holder of a text in whose certificate is the sample's.\<close>

definition admits :: "string \<Rightarrow> db \<Rightarrow> bool" where
  "admits token d =
     (case bearerToken (''Bearer '' @ token) of
        None \<Rightarrow> False
      | Some (p, secret) \<Rightarrow>
          (case tokenFor p ''prod'' d of
             Inl _ \<Rightarrow> False
           | Inr t \<Rightarrow>
               tok_public t = p \<and> sha256 deployEnv secret = tok_digest t \<and> \<not> tok_revoked t \<and> tok_granted t \<and>
               tok_expires t = 7000000000 \<and> tok_fingerprint t = sha256 deployEnv (pr_raw deployPeer)) \<and>
          certificateActive 2000000000 (sha256 deployEnv (pr_raw deployPeer)) d)"

lemma deployment_run:
  "(case IssueDeploymentCredential sampleX509 plainAEAD zeroProvider deployRequest deployEnv deployDb of
      (Inr (res, None), d') \<Rightarrow> admits (tr_token (dr_token res)) d'
    | _ \<Rightarrow> False)"
  by code_simp

lemma deploy_reading: "calm \<lparr> rd_env = deployEnv, rd_db = d \<rparr>"
  by (simp add: calm_def deployEnv_def tokenEnv_def sampleEnv_def)

lemma admits_entry:
  assumes "admits token d"
  shows "\<exists>t. authenticate (deployServer d) (holder token [deployPeer]) ''prod'' = (t, AuthenticationMTLS, 0)"
proof -
  from assms obtain p secret where bearer: "bearerToken (''Bearer '' @ token) = Some (p, secret)"
    by (auto simp: admits_def split: option.splits)
  with assms obtain t where "tokenFor p ''prod'' d = Inr t"
    by (cases "tokenFor p ''prod'' d") (auto simp: admits_def)
  with bearer assms have "bearerToken (''Bearer '' @ token) = Some (p, secret)" "tokenFor p ''prod'' d = Inr t"
    "tok_public t = p" "sha256 deployEnv secret = tok_digest t" "\<not> tok_revoked t" "tok_granted t"
    "tok_expires t = 7000000000" "tok_fingerprint t = sha256 deployEnv (pr_raw deployPeer)"
    "certificateActive 2000000000 (sha256 deployEnv (pr_raw deployPeer)) d"
    by (simp_all add: admits_def)
  then have "authenticate (deployServer d) (holder token [deployPeer]) ''prod'' = (t, AuthenticationMTLS, 0)"
    unfolding authenticate_vouched vouched_def
    using repo_token_store(2) [OF deploy_reading] repo_active_store(2) [OF deploy_reading]
    by (auto simp: deployServer_def holder_def presents_def deployEnv_def)
  then show ?thesis by blast
qed

lemma deploy_tables: "tokenTables deployDb" "opRow oid deployDb = None"
  by (simp_all add: tokenTables_def deployDb_def sampleDb_def emptyDb_def uniqueOn_def opRow_def)

lemma deploy_env: "sizedRandom (rand deployEnv)" "length (sha256 deployEnv b) = 32" "second \<le> now deployEnv"
  by (simp_all add: deployEnv_def token_env second_def)

theorem deployment_confined_witness:
  "\<exists>res d' t a raw parent. IssueDeploymentCredential sampleX509 plainAEAD zeroProvider deployRequest deployEnv deployDb =
       (Inr (res, None), d') \<and>
     authenticate (deployServer d') (holder (tr_token (dr_token res)) [deployPeer]) ''prod'' = (t, a, 0) \<and>
     findToken ''0123456789abcdef'' deployDb = Some parent \<and> confinedTo parent 9000000000 (sha256 deployEnv raw) t"
proof -
  obtain out d' where out: "IssueDeploymentCredential sampleX509 plainAEAD zeroProvider deployRequest deployEnv deployDb = (out, d')"
    by fastforce
  from deployment_run [unfolded out] obtain res where "out = Inr (res, None)" and ok: "admits (tr_token (dr_token res)) d'"
    by (cases out) (auto split: prod.splits option.splits)
  with out have run: "IssueDeploymentCredential sampleX509 plainAEAD zeroProvider deployRequest deployEnv deployDb =
      (Inr (res, None), d')" by simp
  from admits_entry [OF ok] obtain t where entry: "authenticate (deployServer d')
      (holder (tr_token (dr_token res)) [deployPeer]) ''prod'' = (t, AuthenticationMTLS, 0)" by blast
  from deployment_confined [OF run deploy_tables(2) deploy_env(1,2) deploy_tables(1) sampleX509_faithful deploy_env(3)]
  obtain parent expires raw where parent: "findToken (actorID (di_actor deployRequest)) deployDb = Some parent"
    "tk_expires parent = Some expires"
    and all: "\<And>server codec A' provider' r1 r2 r3 request environment token authentication.
       sv_repository server = storeRepository codec A' provider' r1 r2 r3 \<and> rd_db r1 = d' \<and>
       rq_authorization request = ''Bearer '' @ tr_token (dr_token res) \<and>
       authenticate server request environment = (token, authentication, 0) \<Longrightarrow>
         environment = di_environment deployRequest \<and> confinedTo parent expires (sha256 deployEnv raw) token \<and>
         authentication = AuthenticationMTLS \<and>
         (\<exists>peer rest. rq_tls request = Some (peer # rest) \<and> sv_sha server (pr_raw peer) = sha256 deployEnv raw)"
    by blast
  have "sv_repository (deployServer d') = storeRepository noYaml plainAEAD zeroProvider \<lparr> rd_env = deployEnv, rd_db = d' \<rparr>
      \<lparr> rd_env = deployEnv, rd_db = d' \<rparr> \<lparr> rd_env = deployEnv, rd_db = d' \<rparr> \<and> rd_db \<lparr> rd_env = deployEnv, rd_db = d' \<rparr> = d' \<and>
    rq_authorization (holder (tr_token (dr_token res)) [deployPeer]) = ''Bearer '' @ tr_token (dr_token res)"
    by (simp add: deployServer_def holder_def)
  then have "confinedTo parent expires (sha256 deployEnv raw) t" using all entry by blast
  moreover have "findToken ''0123456789abcdef'' deployDb = Some parent" using parent(1) by (simp add: deployRequest_def)
  moreover have "expires = 9000000000" using parent by (auto simp: deployRequest_def deployDb_def findToken_def)
  ultimately show ?thesis using run entry by blast
qed

end
