(* ===== verification/Spec2Isabelle.thy ===== *)
theory Spec2Isabelle
  imports YamlDoc VaultCrypto HumanAuth ConfigTransfer Rejections MachineAccess KeyGuard CredentialSamples
begin

text \<open>
  Configra, a service that stores versioned configuration documents and encrypted Vault items per
  environment and serves them to machines, modelled from its Go sources under
  \<^verbatim>\<open>src/internal\<close>. This theory imports the whole development and documents it.

  The program. Humans sign in through an identity provider (\<^verbatim>\<open>humanauth\<close>) and change
  Environments, Configs, Vault items, API tokens, certificates and sessions through the management
  API (\<^verbatim>\<open>management\<close>). Every change is one MySQL transaction of
  \<^verbatim>\<open>storage/mysqlstore\<close> that also writes an operation row, which answers retries, and
  events for an outbox. Workers (\<^verbatim>\<open>logworker\<close>) deliver the outbox to the audit log
  (\<^verbatim>\<open>logstore\<close>) and to notification destinations (\<^verbatim>\<open>notification\<close>). Machines
  authenticate with a bearer token and a client certificate (\<^verbatim>\<open>machine\<close>,
  \<^verbatim>\<open>clientcert\<close>) and read Configs whose references to Vault items
  (\<^verbatim>\<open>configdoc\<close>) are replaced by the decrypted values (\<^verbatim>\<open>vaultdoc\<close>,
  \<^verbatim>\<open>vaultcrypto\<close>). Releases pin a Config revision together with the Vault revisions it
  was prepared on.
\<close>

section \<open>The theories\<close>

text \<open>
  Vocabulary. \<^verbatim>\<open>Prelude\<close>: bytes, Go's string functions, sorted keys, tables as lists of
  rows with unique keys and the updates of a statement. \<^verbatim>\<open>Keys\<close>: resource keys,
  identifiers, hexadecimal and base64. \<^verbatim>\<open>Decimal\<close>, \<^verbatim>\<open>Calendar\<close>,
  \<^verbatim>\<open>NetIP\<close>: decimal numbers, instants on the wire and textual IP addresses as Go's
  standard library reads and writes them.

  Documents. \<^verbatim>\<open>Json\<close> (rendering), \<^verbatim>\<open>JsonLex\<close> (the token decoder),
  \<^verbatim>\<open>JsonRound\<close> (the round trip of the two) and \<^verbatim>\<open>JsonText\<close>
  (\<^verbatim>\<open>Unmarshal\<close> and the strict decoders built on it) model
  \<^verbatim>\<open>encoding/json\<close> as the sources use it. \<^verbatim>\<open>Refs\<close>,
  \<^verbatim>\<open>ConfigDoc\<close> and \<^verbatim>\<open>YamlDoc\<close> are \<^verbatim>\<open>configdoc\<close>: references, and
  canonical form, resolution and merge of JSON and YAML documents; YAML nodes live in a list and
  refer to each other by position, so that aliases share. They show that references are recognised
  exactly, that canonical forms are fixed points, when resolution succeeds and with what, that a
  YAML resolution visits the reachable nodes once each, that a merge overlays key by key, and that
  the size budget is exact.

  The database. \<^verbatim>\<open>Store\<close> has the tables of \<^verbatim>\<open>mysqlstore\<close> as a record of row
  lists and the errors; \<^verbatim>\<open>Tx\<close> the calls of a transaction (queries, statements, random
  draws, commit) in order, on a working copy that only \<^verbatim>\<open>Commit\<close> makes durable, and the
  collections of frame lemmas; \<^verbatim>\<open>Operations\<close> the journal of
  \<^verbatim>\<open>config_mutation.go\<close>: the operation row, its replay, the events. The locale
  \<^verbatim>\<open>mutation\<close> is the contract of a journaled mutation (all or nothing, the retry gets
  the first answer); Environments, Configs and their lifecycle are its interpretations.

  Configs. \<^verbatim>\<open>Environments\<close>, \<^verbatim>\<open>Configs\<close>, \<^verbatim>\<open>ConfigLifecycle\<close> and
  \<^verbatim>\<open>ConfigTransfer\<close> model \<^verbatim>\<open>environment_mutation.go\<close>,
  \<^verbatim>\<open>config_mutation.go\<close>, \<^verbatim>\<open>config_lifecycle.go\<close> and
  \<^verbatim>\<open>config_transfer.go\<close>. \<^verbatim>\<open>ConfigLaws\<close> and \<^verbatim>\<open>ConfigHistory\<close> show
  compare-and-set on the expected revision, the exact effect of every outcome, and an append-only
  history numbered without gaps; \<^verbatim>\<open>Environments\<close> refines an abstract registry;
  \<^verbatim>\<open>ConfigTransfer\<close> says for every merge, replacement and restore why it was refused or
  which commit it made.

  Vault items. \<^verbatim>\<open>VaultDoc\<close> and \<^verbatim>\<open>VaultCrypto\<close> are the snapshots and their
  envelope encryption; \<^verbatim>\<open>MasterKey\<close> the sentinel that keys the database;
  \<^verbatim>\<open>Vaults\<close> and \<^verbatim>\<open>VaultCommits\<close> the mutations of
  \<^verbatim>\<open>vault_mutation.go\<close>, \<^verbatim>\<open>scoped_vault.go\<close> and
  \<^verbatim>\<open>vault_lifecycle.go\<close>. \<^verbatim>\<open>VaultLaws\<close>, \<^verbatim>\<open>VaultHistory\<close> and
  \<^verbatim>\<open>VaultServed\<close> show their effect and that machines read what was committed.
  \<^verbatim>\<open>KeyRotation\<close> and \<^verbatim>\<open>RotationLaws\<close> (with the locale
  \<^verbatim>\<open>wrapped_table\<close>, interpreted for the three encrypted tables) model
  \<^verbatim>\<open>key_rotation.go\<close> and \<^verbatim>\<open>verification.go\<close>; \<^verbatim>\<open>KeyGuard\<close> joins the
  rotation with the operations that lock the key.

  Events. \<^verbatim>\<open>Outbox\<close> and \<^verbatim>\<open>OutboxSteps\<close> are \<^verbatim>\<open>outbox.go\<close> and
  \<^verbatim>\<open>audit_recovery.go\<close> as a state machine of rows, with its invariant and the bound on
  how often an event is passed over; \<^verbatim>\<open>AuditWorker\<close> a round of the audit worker and the
  decoder of the log store; \<^verbatim>\<open>Notify\<close>, \<^verbatim>\<open>NotifyWorker\<close> and
  \<^verbatim>\<open>NotifyLaws\<close> the deliveries, a round of the worker over the locale
  \<^verbatim>\<open>notification_outbox\<close>, and the store as its interpretation; \<^verbatim>\<open>Journal\<close> which
  of the events that the journal writes the two decoders accept; \<^verbatim>\<open>Rejections\<close> the record
  of rejected management requests and the response writer that puts it before the answer
  (\<^verbatim>\<open>management/audit.go\<close>).

  Credentials. \<^verbatim>\<open>TokenScope\<close> and \<^verbatim>\<open>Tokens\<close> (\<^verbatim>\<open>scoped.go\<close>,
  \<^verbatim>\<open>token_mutation.go\<close>), \<^verbatim>\<open>ClientCert\<close> and \<^verbatim>\<open>Certificates\<close>
  (\<^verbatim>\<open>clientcert\<close>, \<^verbatim>\<open>certificate_mutation.go\<close>,
  \<^verbatim>\<open>authority.go\<close>), \<^verbatim>\<open>Deployments\<close>
  (\<^verbatim>\<open>deployment_credential.go\<close>). \<^verbatim>\<open>TokenLaws\<close>,
  \<^verbatim>\<open>CredentialLaws\<close> and \<^verbatim>\<open>CredentialSamples\<close> prove what every sequence of
  these operations keeps, by the locales \<^verbatim>\<open>row_invariant\<close> and
  \<^verbatim>\<open>credential_invariant\<close>, interpreted on the invariants of revoked and of readable rows.

  Machine reads. \<^verbatim>\<open>MachineRead\<close> (\<^verbatim>\<open>machine.go\<close>), \<^verbatim>\<open>MachineHttp\<close>
  (\<^verbatim>\<open>machine/http.go\<close>) and \<^verbatim>\<open>Releases\<close> (\<^verbatim>\<open>release.go\<close>,
  \<^verbatim>\<open>release_http.go\<close>); \<^verbatim>\<open>MachineLaws\<close> and \<^verbatim>\<open>ReleaseLaws\<close> give the
  reads as functions of the tables and what releases keep; \<^verbatim>\<open>MachineAccess\<close> proves the
  handlers once in the locale \<^verbatim>\<open>machine_store\<close> and interprets it on the store.

  Humans. \<^verbatim>\<open>HumanAuth\<close> (\<^verbatim>\<open>roles.go\<close>, \<^verbatim>\<open>session_policy.go\<close>),
  \<^verbatim>\<open>Sessions\<close> (the stored policies and their changes), \<^verbatim>\<open>Login\<close>
  (\<^verbatim>\<open>oidc.go\<close>, \<^verbatim>\<open>logout.go\<close>) and \<^verbatim>\<open>SessionLaws\<close>: roles fail
  closed, and a change of an identity's sessions ends those that were signed in before.
\<close>

section \<open>Conventions\<close>

text \<open>
  Data. Go integers are words of their width (\<^verbatim>\<open>u32\<close>, \<^verbatim>\<open>u64\<close>), so the
  increment of the last revision wraps or is rejected as in the code; strings and byte slices are
  character lists of bytes; a nil slice or map that the code tells from an empty one is
  \<^const>\<open>None\<close>. Instants are integer nanoseconds of Unix time with 0 for Go's zero time; the
  retry delays are 64-bit signed durations. A statement that a constraint rejects is the error
  \<^verbatim>\<open>ErrDatabase\<close>, as is one that fails: \<^verbatim>\<open>fault\<close> says which calls of a run
  fail, and \<^verbatim>\<open>landed\<close> which failed commits took effect all the same. The answer of an
  operation is a sum: an error, or the result together with the error that the code returns beside
  a committed result.

  Interleaving. An operation is one step on the tables, as its transaction is; what an operation
  reads outside its transaction it reads from tables of their own: the statements before a transfer
  (\<^verbatim>\<open>seen k\<close>), the source of a restore, and the three readings of a machine request (of
  its token, of its certificate, of the resource). Other transactions may run between them. Rows
  that \<^verbatim>\<open>SKIP LOCKED\<close> passes over are an argument of the claim.

  Bounds. The JSON decoder has the length of its input and one as fuel, the traversals of a YAML
  document the number of its nodes and one; lemmas show that no result of theirs is the fuel's
  error. A round of the notification worker makes at most 100 attempts for an event, and a
  target is attempted at most 8 times; at most ten PEM certificates are imported at once; a Config and the contents of a release have at most five mebibytes each. All other recursions are
  structural or have a termination proof.

  Parameters. The YAML library (\<^verbatim>\<open>yaml_codec\<close>), AES-256-GCM (\<^verbatim>\<open>aead\<close>), the
  random source, SHA-256, X.509, PEM and ZIP (\<^verbatim>\<open>x509\<close>), the HTTP sender, MIME parsing,
  the opener of a destination's credentials, the answers of the OIDC library, the checks of stored
  authorities and credentials that need them, and the size of a release's manifest column are
  arguments of the definitions. The hypotheses on them state documented behaviour:
  \<^verbatim>\<open>exactAEAD\<close> (opening inverts sealing and nothing else opens),
  \<^verbatim>\<open>sizedRandom\<close>, \<^verbatim>\<open>faithfulX509\<close> (times are truncated to seconds),
  injectivity of SHA-256 where entity tags are compared, and \<^verbatim>\<open>writesSteadily\<close> (the YAML
  library writes what it read from its own output as that output). Witnesses show that each can
  hold.

  Findings. Registering or revoking a client certificate asks for a notification whose resource is
  a 64-digit fingerprint, which the decoder of the notification worker rejects, so these
  notifications are never sent; \<^verbatim>\<open>Journal\<close> proves it.

  Not modelled: the paged listings and searches, which are queries only; routing and rendering of
  the management API; the management of notification destinations and their manual retry; the HTTP
  sender and the publisher of access events; database migrations, the first start of a database,
  health checks and pruning; process wiring, TLS files and flags; the command line client.
\<close>

end
